(* ===== verification/Prelude.thy ===== *)
theory Prelude
  imports Main "HOL-Library.Word" "HOL-Library.Monad_Syntax"
begin

text \<open>
  Shared vocabulary of the development.

  \<^item> Machine integers: \<open>u8\<close>, \<open>u16\<close>, \<open>u32\<close> are \<open>uint8_t\<close>, \<open>uint16_t\<close>, \<open>uint32_t\<close>;
    their arithmetic wraps as the C++ arithmetic does.
  \<^item> Memory: a C array is a list of bytes.  Reading or writing outside of it is undefined
    behaviour, which every definition of the development shows as the value \<^term>\<open>None\<close>
    (a fault), so that a theorem whose conclusion is \<open>Some \<dots>\<close> is also a memory-safety statement.
  \<^item> Header flags: a bit test of the code, \<open>header & PJON_..._BIT\<close>, is \<open>flag header mask\<close>.
\<close>

unbundle bit_operations_syntax

type_synonym u8 = "8 word"
type_synonym u16 = "16 word"
type_synonym u32 = "32 word"

named_theorems mem_defs \<open>definitions of the memory operations\<close>
named_theorems const_defs \<open>the numeric constants of the code\<close>
named_theorems flag_simps \<open>bit tests of a header\<close>
named_theorems frame_simps \<open>which fields an operation leaves alone\<close>

subsection \<open>Bytes of machine integers\<close>

definition hi8 :: "u16 \<Rightarrow> u8" where
  "hi8 w = ucast (drop_bit 8 w)"

definition lo8 :: "u16 \<Rightarrow> u8" where
  "lo8 w = ucast w"

definition join16 :: "u8 \<Rightarrow> u8 \<Rightarrow> u16" where
  "join16 hi lo = (push_bit 8 (ucast hi)) OR (ucast lo)"

definition byte_of :: "u32 \<Rightarrow> nat \<Rightarrow> u8" where
  "byte_of w k = ucast (drop_bit (8 * k) w)"

definition be32 :: "u32 \<Rightarrow> u8 list" where
  "be32 w = [byte_of w 3, byte_of w 2, byte_of w 1, byte_of w 0]"

lemma length_be32 [simp]: "length (be32 w) = 4"
  by (simp add: be32_def)

lemma join16_hi8_lo8 [simp]: "join16 (hi8 w) (lo8 w) = w"
proof (rule bit_word_eqI)
  fix n assume "n < LENGTH(16)"
  then show "bit (join16 (hi8 w) (lo8 w)) n = bit w n"
    by (cases "n < 8")
      (auto simp: join16_def hi8_def lo8_def bit_simps)
qed

lemma unat_ucast_u8_u16 [simp]: "unat (ucast (x :: u8) :: u16) = unat x"
proof -
  have "unat x < 256" using unsigned_less [of x, where 'a = nat] by simp
  then show ?thesis by (simp add: unsigned_ucast_eq take_bit_eq_mod)
qed

lemma unat_join16: "unat (join16 hi lo) = 256 * unat hi + unat lo"
proof -
  have b: "unat hi < 256" "unat lo < 256"
    using unsigned_less [of hi, where 'a = nat] unsigned_less [of lo, where 'a = nat] by auto
  have d: "push_bit 8 (ucast hi :: u16) AND ucast lo = 0"
    by (rule bit_word_eqI) (auto simp: bit_simps dest: bit_imp_le_length)
  have "join16 hi lo = push_bit 8 (ucast hi) + ucast lo"
    unfolding join16_def using d by (simp add: disjunctive_add_eq_or)
  moreover have "unat (push_bit 8 (ucast hi :: u16)) = 256 * unat hi"
    using b by (simp add: push_bit_eq_mult unat_word_ariths)
  ultimately show ?thesis
    using b by (simp add: unat_word_ariths)
qed

lemma be32_inj: "be32 v = be32 w \<longleftrightarrow> v = w"
proof
  assume eq: "be32 v = be32 w"
  show "v = w"
  proof (rule bit_word_eqI)
    fix n assume n: "n < LENGTH(32)"
    have "n div 8 \<in> {0, 1, 2, 3}"
      using n by auto
    then have b: "byte_of v (n div 8) = byte_of w (n div 8)"
      using eq by (auto simp: be32_def)
    have "bit (byte_of v (n div 8)) (n mod 8) = bit (byte_of w (n div 8)) (n mod 8)"
      by (simp add: b)
    then show "bit v n = bit w n"
      using n by (simp add: byte_of_def bit_simps)
  qed
qed simp

lemma xor_cancel_word [simp]:
  "(a XOR c = b XOR c) \<longleftrightarrow> a = b" "(c XOR a = c XOR b) \<longleftrightarrow> a = b"
  for a b c :: "'a::len word"
  by (metis xor.assoc xor.commute xor.left_neutral xor_self_eq)+

subsection \<open>Memory\<close>

definition rd :: "u8 list \<Rightarrow> nat \<Rightarrow> u8 option" where [mem_defs]:
  "rd buf i = (if i < length buf then Some (buf ! i) else None)"

definition wr :: "nat \<Rightarrow> u8 \<Rightarrow> u8 list \<Rightarrow> u8 list option" where [mem_defs]:
  "wr i b buf = (if i < length buf then Some (buf[i := b]) else None)"

definition rd_block :: "u8 list \<Rightarrow> nat \<Rightarrow> nat \<Rightarrow> u8 list option" where [mem_defs]:
  "rd_block buf i n = (if i + n \<le> length buf then Some (take n (drop i buf)) else None)"

definition wr_block :: "nat \<Rightarrow> u8 list \<Rightarrow> u8 list \<Rightarrow> u8 list option" where [mem_defs]:
  "wr_block i bs buf =
     (if i + length bs \<le> length buf
      then Some (take i buf @ bs @ drop (i + length bs) buf) else None)"

text \<open>What is read into a variable replaces its first bytes and leaves the others as they were.\<close>

definition overlay :: "u8 list \<Rightarrow> u8 list \<Rightarrow> u8 list" where
  "overlay got old = got @ drop (length got) old"

lemma overlay_whole: "length old \<le> length got \<Longrightarrow> overlay got old = got"
  by (simp add: overlay_def)

lemma length_overlay: "length (overlay got old) = max (length got) (length old)"
  by (simp add: overlay_def max_def)

lemma take_bit_next: "take_bit i x + push_bit i (of_bool (bit x i)) = take_bit (Suc i) x" for x :: u8
proof -
  have d: "take_bit i x AND push_bit i (of_bool (bit x i)) = 0"
    by (rule bit_word_eqI) (auto simp: bit_simps)
  have "take_bit (Suc i) x = take_bit i x OR push_bit i (of_bool (bit x i))"
    by (rule bit_word_eqI) (auto simp: bit_simps less_Suc_eq)
  then show ?thesis using d by (simp add: disjunctive_add_eq_or)
qed

subsection \<open>Faults\<close>

lemma bind_SomeE:
  assumes "Option.bind x f = Some y"
  obtains z where "x = Some z" "f z = Some y"
  using assms by (cases x) auto

end
