(* ===== verification/Crc.thy ===== *)
theory Crc
  imports Prelude
begin

text \<open>
  The two checksums of the protocol, \<^verbatim>\<open>src/utils/crc/PJON_CRC8.h\<close> and
  \<^verbatim>\<open>src/utils/crc/PJON_CRC32.h\<close>, as the code computes them (a bit loop inside a byte loop), a
  bit-serial shift register as their common reference, and the locale \<open>reflected_crc\<close>
  that proves the error-detection laws of such a register once for both polynomials.
\<close>

subsection \<open>CRC8\<close>

text \<open>The bit loop of \<^verbatim>\<open>PJON_crc8::roll\<close>: \<open>i\<close> counts the remaining iterations.\<close>

primrec crc8_roll_loop :: "nat \<Rightarrow> u8 \<Rightarrow> u8 \<Rightarrow> u8" where
  "crc8_roll_loop 0 input_byte crc = crc"
| "crc8_roll_loop (Suc i) input_byte crc =
     (let result = (crc XOR input_byte) AND 0x01;
          crc = drop_bit 1 crc;
          crc = (if result \<noteq> 0 then crc XOR 0x97 else crc)
      in crc8_roll_loop i (drop_bit 1 input_byte) crc)"

definition crc8_roll :: "u8 \<Rightarrow> u8 \<Rightarrow> u8" where
  "crc8_roll input_byte crc = crc8_roll_loop 8 input_byte crc"

definition crc8_compute :: "u8 list \<Rightarrow> u8" where
  "crc8_compute data = foldl (\<lambda>crc b. crc8_roll b crc) 0 data"

subsection \<open>CRC32\<close>

primrec crc32_bits_loop :: "nat \<Rightarrow> u32 \<Rightarrow> u32" where
  "crc32_bits_loop 0 crc = crc"
| "crc32_bits_loop (Suc bits) crc =
     crc32_bits_loop bits
       (if crc AND 1 \<noteq> 0 then drop_bit 1 crc XOR 0xEDB88320 else drop_bit 1 crc)"

definition crc32_compute :: "u8 list \<Rightarrow> u32 \<Rightarrow> u32" where
  "crc32_compute data previousCrc32 =
     NOT (foldl (\<lambda>crc b. crc32_bits_loop 8 (crc XOR ucast b)) (NOT previousCrc32) data)"

text \<open>
  \<^verbatim>\<open>PJON_crc32::compare\<close>: \<open>received\<close> points to the four bytes that follow the packet; the loop runs
  \<open>i = 4, 3, 2, 1\<close> and compares byte \<open>i - 1\<close> of the number with \<open>received[3 - (i - 1)]\<close>.
\<close>

primrec crc32_compare_loop :: "nat \<Rightarrow> u32 \<Rightarrow> u8 list \<Rightarrow> bool option" where
  "crc32_compare_loop 0 computed received = Some True"
| "crc32_compare_loop (Suc i) computed received =
     do { r \<leftarrow> rd received (3 - i);
          if byte_of computed i \<noteq> r then Some False
          else crc32_compare_loop i computed received }"

definition crc32_compare :: "u32 \<Rightarrow> u8 list \<Rightarrow> bool option" where
  "crc32_compare computed received = crc32_compare_loop 4 computed received"

lemma crc32_compare_eq:
  "length received = 4 \<Longrightarrow> crc32_compare computed received = Some (received = be32 computed)"
  by (cases received rule: list.exhaust; cases "tl received"; cases "tl (tl received)";
      cases "tl (tl (tl received))")
    (auto simp: crc32_compare_def be32_def mem_defs eval_nat_numeral)

subsection \<open>The reference: a reflected shift register\<close>

text \<open>
  \<open>crc_step\<close> clocks the register once; \<open>crc_bit\<close> clocks it with an input bit.  A byte enters
  least significant bit first.
\<close>

definition crc_step :: "'a::len word \<Rightarrow> 'a word \<Rightarrow> 'a word" where
  "crc_step poly c = (if odd c then drop_bit 1 c XOR poly else drop_bit 1 c)"

definition crc_bit :: "'a::len word \<Rightarrow> 'a word \<Rightarrow> bool \<Rightarrow> 'a word" where
  "crc_bit poly c x = (if odd c \<noteq> x then drop_bit 1 c XOR poly else drop_bit 1 c)"

definition crc_bits :: "'a::len word \<Rightarrow> 'a word \<Rightarrow> bool list \<Rightarrow> 'a word" where
  "crc_bits poly c xs = foldl (crc_bit poly) c xs"

definition bits8 :: "u8 \<Rightarrow> bool list" where
  "bits8 b = map (bit b) [0..<8]"

definition bits_of :: "u8 list \<Rightarrow> bool list" where
  "bits_of bs = concat (map bits8 bs)"

lemma crc_step_code [code]:
  "crc_step poly c = (if c AND 1 \<noteq> 0 then drop_bit 1 c XOR poly else drop_bit 1 c)"
  by (simp add: crc_step_def and_one_eq odd_iff_mod_2_eq_one)

lemma crc_bits_simps [simp]:
  "crc_bits p c [] = c"
  "crc_bits p c (x # xs) = crc_bits p (crc_bit p c x) xs"
  "crc_bits p c (xs @ ys) = crc_bits p (crc_bits p c xs) ys"
  by (simp_all add: crc_bits_def)

lemma bits_of_simps [simp]:
  "bits_of [] = []"
  "bits_of (b # bs) = bits8 b @ bits_of bs"
  "bits_of (bs @ cs) = bits_of bs @ bits_of cs"
  by (simp_all add: bits_of_def)

lemma length_bits8 [simp]: "length (bits8 b) = 8"
  by (simp add: bits8_def)

lemma length_bits_of [simp]: "length (bits_of bs) = 8 * length bs"
  by (induction bs) simp_all

lemma bits8_eq:
  "bits8 b = [bit b 0, bit b 1, bit b 2, bit b 3, bit b 4, bit b 5, bit b 6, bit b 7]"
  by (simp add: bits8_def upt_rec numeral_eq_Suc)

lemma bit_u8_less: "bit (b :: u8) n \<Longrightarrow> n < 8"
  by (drule bit_imp_le_length) simp

lemma bits8_inj: "bits8 a = bits8 b \<longleftrightarrow> a = b"
proof
  assume eq: "bits8 a = bits8 b"
  have "bit a n = bit b n" if "n < 8" for n
    using arg_cong [OF eq, of "\<lambda>xs. xs ! n"] that by (simp add: bits8_def)
  then show "a = b" by (intro bit_word_eqI) simp
qed simp

lemma crc_bit_step: "crc_bit p c x = crc_step p (c XOR of_bool x)"
proof -
  have "drop_bit 1 (c XOR of_bool x) = drop_bit 1 c"
    by (cases x) (simp_all add: drop_bit_xor)
  moreover have "odd (c XOR of_bool x) \<longleftrightarrow> odd c \<noteq> x"
    by (cases x) (simp_all add: even_xor_iff)
  ultimately show ?thesis
    by (simp add: crc_bit_def crc_step_def)
qed

lemma crc_step_0 [simp]: "crc_step p 0 = 0"
  by (simp add: crc_step_def)

lemma bit_double_word:
  "bit (w * 2 :: 'a::len word) n \<longleftrightarrow> 0 < n \<and> n < LENGTH('a) \<and> bit w (n - 1)"
  using bit_push_bit_iff [of 1 w n] by (auto simp: push_bit_eq_mult bit_imp_le_length)

lemma crc_step_double:
  assumes "\<not> bit y (LENGTH('a) - 1)"
  shows "crc_step (p :: 'a::len word) (x XOR push_bit 1 y) = crc_step p x XOR y"
proof -
  have "Suc n < LENGTH('a)" if "n < LENGTH('a)" "bit y n" for n
    using assms that by (metis Suc_lessI diff_Suc_1)
  then have "drop_bit 1 (push_bit 1 y) = y"
    by (intro bit_word_eqI) (auto simp: bit_drop_bit_eq bit_double_word)
  moreover have "odd (x XOR push_bit 1 y) \<longleftrightarrow> odd x"
    by (simp add: even_xor_iff)
  ultimately show ?thesis
    by (simp add: crc_step_def drop_bit_xor xor.assoc xor.commute [of y])
qed

text \<open>Up to as many bits as the register is wide may as well enter all at once.\<close>

lemma crc_bits_parallel:
  "length xs \<le> LENGTH('a) \<Longrightarrow>
   crc_bits (p :: 'a::len word) c xs =
     (crc_step p ^^ length xs) (c XOR horner_sum of_bool 2 xs)"
proof (induction xs arbitrary: c)
  case Nil
  then show ?case by simp
next
  case (Cons x xs)
  let ?h = "horner_sum of_bool 2 xs :: 'a word"
  have nb: "\<not> bit ?h (LENGTH('a) - 1)"
    using Cons.prems by (auto simp: bit_horner_sum_bit_word_iff)
  have h: "horner_sum of_bool 2 (x # xs) = of_bool x XOR push_bit 1 ?h"
  proof (rule bit_word_eqI)
    fix n assume "n < LENGTH('a)"
    then show "bit (horner_sum of_bool 2 (x # xs) :: 'a word) n = bit (of_bool x XOR push_bit 1 ?h) n"
      by (cases n) (auto simp: bit_horner_sum_bit_word_iff bit_double_word bit_xor_iff
          bit_of_bool_iff simp del: horner_sum_simps)
  qed
  have "crc_bits p c (x # xs) = (crc_step p ^^ length xs) (crc_step p (c XOR of_bool x) XOR ?h)"
    using Cons by (simp add: crc_bit_step)
  also have "crc_step p (c XOR of_bool x) XOR ?h = crc_step p ((c XOR of_bool x) XOR push_bit 1 ?h)"
    by (rule crc_step_double [OF nb, symmetric])
  finally show ?case
    by (simp only: h funpow_simps_right o_apply length_Cons xor.assoc)
qed

subsection \<open>Error detection, for every reflected register\<close>

locale reflected_crc =
  fixes poly :: "'a::len word"
  assumes msb_poly: "bit poly (LENGTH('a) - 1)"
begin

lemma crc_step_inj: "crc_step poly x = crc_step poly y \<longleftrightarrow> x = y"
proof
  assume eq: "crc_step poly x = crc_step poly y"
  have msb: "bit (crc_step poly z) (LENGTH('a) - 1) \<longleftrightarrow> odd z" for z
    using msb_poly by (auto simp: crc_step_def bit_xor_iff bit_drop_bit_eq bit_imp_le_length dest: bit_imp_le_length)
  have odd: "odd x \<longleftrightarrow> odd y"
    using msb [of x] msb [of y] eq by simp
  have "drop_bit 1 x = drop_bit 1 y"
    using eq odd by (auto simp: crc_step_def split: if_splits)
  then have "bit x (Suc n) = bit y (Suc n)" for n
    by (metis bit_drop_bit_eq comp_apply plus_1_eq_Suc)
  with odd show "x = y"
    by (intro bit_word_eqI) (case_tac n; simp add: bit_0)
qed simp

lemma crc_step_funpow_inj: "(crc_step poly ^^ n) x = (crc_step poly ^^ n) y \<longleftrightarrow> x = y"
  by (induction n) (simp_all add: crc_step_inj)

lemma crc_bit_inj: "crc_bit poly x b = crc_bit poly y b \<longleftrightarrow> x = y"
  by (simp only: crc_bit_step crc_step_inj xor_cancel_word)

lemma crc_bits_inj: "crc_bits poly x bs = crc_bits poly y bs \<longleftrightarrow> x = y"
  by (induction bs arbitrary: x y) (simp_all add: crc_bit_inj)

text \<open>A burst: two bit strings that differ only inside a window no wider than the register.\<close>

lemma burst:
  assumes len: "length a = length b" "length a \<le> LENGTH('a)"
    and eq: "crc_bits poly c (p @ a @ s) = crc_bits poly c (p @ b @ s)"
  shows "a = b"
proof -
  let ?c = "crc_bits poly c p"
  have "crc_bits poly ?c a = crc_bits poly ?c b"
    using eq by (simp add: crc_bits_inj)
  then have h: "horner_sum of_bool 2 a = (horner_sum of_bool 2 b :: 'a word)"
    using len by (simp add: crc_bits_parallel crc_step_funpow_inj)
  have "a ! n = b ! n" if "n < length a" for n
    using arg_cong [OF h, of "\<lambda>w. bit w n"] that len
    by (simp add: bit_horner_sum_bit_word_iff)
  with len(1) show "a = b" by (simp add: list_eq_iff_nth_eq)
qed

end

subsection \<open>The code computes the register\<close>

interpretation crc8: reflected_crc "0x97 :: u8"
  by unfold_locales simp


lemma crc8_roll_loop_step:
  "crc8_roll_loop n b c XOR drop_bit n b = (crc_step 0x97 ^^ n) (c XOR b)"
proof (induction n arbitrary: b c)
  case 0
  then show ?case by simp
next
  case (Suc n)
  let ?c = "if (c XOR b) AND 1 \<noteq> 0 then drop_bit 1 c XOR 0x97 else drop_bit 1 c"
  have step: "?c XOR drop_bit 1 b = crc_step 0x97 (c XOR b)"
    by (simp add: crc_step_def drop_bit_xor and_one_eq odd_iff_mod_2_eq_one xor.assoc xor.commute)
  have "crc8_roll_loop (Suc n) b c XOR drop_bit (Suc n) b
        = crc8_roll_loop n (drop_bit 1 b) ?c XOR drop_bit n (drop_bit 1 b)"
    by (simp add: Let_def)
  also have "\<dots> = (crc_step 0x97 ^^ n) (?c XOR drop_bit 1 b)"
    by (rule Suc.IH)
  finally show ?case
    by (simp only: step funpow_simps_right o_apply)
qed

lemma horner_bits8: "horner_sum of_bool 2 (bits8 b) = (ucast b :: 'a::len word)"
proof (rule bit_word_eqI)
  fix n assume "n < LENGTH('a)"
  then show "bit (horner_sum of_bool 2 (bits8 b) :: 'a word) n = bit (ucast b :: 'a word) n"
    by (cases "n < 8")
      (auto simp: bit_horner_sum_bit_word_iff bits8_def bit_ucast_iff dest: bit_u8_less)
qed

lemma crc_bits_bits8:
  "8 \<le> LENGTH('a) \<Longrightarrow>
   crc_bits (p :: 'a::len word) c (bits8 b) = (crc_step p ^^ 8) (c XOR ucast b)"
  using crc_bits_parallel [of "bits8 b" p c] by (simp add: horner_bits8)

lemma crc8_roll_eq: "crc8_roll b c = crc_bits 0x97 c (bits8 b)"
proof -
  have "drop_bit 8 b = 0"
    by (rule bit_word_eqI) (simp add: bit_drop_bit_eq bit_imp_le_length)
  then show ?thesis
    using crc8_roll_loop_step [of 8 b c] by (simp add: crc8_roll_def crc_bits_bits8)
qed

lemma foldl_crc_bits:
  "(\<And>c b. f c b = crc_bits p c (bits8 b)) \<Longrightarrow> foldl f c bs = crc_bits p c (bits_of bs)"
  by (induction bs arbitrary: c) simp_all

lemma crc8_compute_eq: "crc8_compute data = crc_bits 0x97 0 (bits_of data)"
  unfolding crc8_compute_def by (rule foldl_crc_bits) (rule crc8_roll_eq)

lemma crc32_bits_loop_step: "crc32_bits_loop n c = (crc_step 0xEDB88320 ^^ n) c"
  by (induction n arbitrary: c)
    (simp_all add: crc_step_def and_one_eq odd_iff_mod_2_eq_one funpow_swap1)

lemma crc32_compute_eq:
  "crc32_compute data prev = NOT (crc_bits 0xEDB88320 (NOT prev) (bits_of data))"
proof -
  have "crc32_bits_loop 8 (c XOR ucast b) = crc_bits 0xEDB88320 c (bits8 b)" for c b
    by (simp add: crc32_bits_loop_step crc_bits_bits8)
  then show ?thesis
    unfolding crc32_compute_def by (simp add: foldl_crc_bits [where p = "0xEDB88320"])
qed


subsection \<open>CRC8: minimum distance 4 on the packets that use it\<close>

text \<open>
  A packet protected by CRC8 is at most 15 bytes long, checksum included.  On these lengths two
  different valid packets differ in at least four bits, so that no error of one, two or three bits
  passes the check.
\<close>

definition weight :: "bool list \<Rightarrow> nat" where
  "weight xs = length (filter id xs)"

definition hamming :: "u8 list \<Rightarrow> u8 list \<Rightarrow> nat" where
  "hamming xs ys = weight (map2 (\<noteq>) (bits_of xs) (bits_of ys))"

definition parity8 :: "u8 \<Rightarrow> bool" where
  "parity8 c = foldr (\<noteq>) (bits8 c) False"

lemma weight_simps [simp]:
  "weight [] = 0" "weight (x # xs) = of_bool x + weight xs" "weight (xs @ ys) = weight xs + weight ys"
  by (simp_all add: weight_def)

lemma crc_bit_linear: "crc_bit p (c XOR d) (x \<noteq> y) = crc_bit p c x XOR crc_bit p d y"
  by (auto simp: crc_bit_def drop_bit_xor even_xor_iff xor.assoc xor.commute xor.left_commute)

lemma crc_bits_linear:
  "length xs = length ys \<Longrightarrow>
   crc_bits p (c XOR d) (map2 (\<noteq>) xs ys) = crc_bits p c xs XOR crc_bits p d ys"
  by (induction xs ys arbitrary: c d rule: list_induct2) 
    (simp, simp only: crc_bits_simps list.map zip_Cons_Cons prod.case crc_bit_linear)

lemma parity8_0 [simp]: "\<not> parity8 0"
  by (simp add: parity8_def bits8_eq)

lemma parity8_crc_bit: "parity8 (crc_bit 0x97 c x) \<longleftrightarrow> parity8 c \<noteq> x"
proof -
  have s: "bit c (Suc (Suc 0)) = bit c 2" "bit c (Suc (Suc (Suc 0))) = bit c 3"
    by (simp_all add: numeral_eq_Suc)
  have d: "\<not> bit c 8" "odd c \<longleftrightarrow> bit c 0"
    by (auto simp: bit_0 dest: bit_u8_less)
  show ?thesis
    by (cases x; cases "bit c 0")
      (simp_all add: parity8_def bits8_eq crc_bit_def bit_xor_iff bit_drop_bit_eq d s)
qed

lemma parity8_crc_bits: "parity8 (crc_bits 0x97 c xs) \<longleftrightarrow> parity8 c \<noteq> odd (weight xs)"
  by (induction xs arbitrary: c) (auto simp: parity8_crc_bit)


lemma weight_0: "weight xs = 0 \<Longrightarrow> xs = replicate (length xs) False"
  by (induction xs) (auto split: if_splits)

lemma weight_1:
  assumes "weight xs = 1"
  obtains i k where "xs = replicate i False @ True # replicate k False"
  using assms
proof (induction xs arbitrary: thesis)
  case (Cons x xs)
  show ?case
  proof (cases x)
    case True
    with Cons.prems(2) have "xs = replicate (length xs) False" by (intro weight_0) simp
    with True show ?thesis using Cons.prems(1) [of 0 "length xs"] by simp
  next
    case False
    with Cons.prems(2) obtain i k where "xs = replicate i False @ True # replicate k False"
      using Cons.IH by auto
    with False show ?thesis using Cons.prems(1) [of "Suc i" k] by simp
  qed
qed simp

lemma weight_2:
  assumes "weight xs = 2"
  obtains i j k where "xs = replicate i False @ True # replicate j False @ True # replicate k False"
  using assms
proof (induction xs arbitrary: thesis)
  case (Cons x xs)
  show ?case
  proof (cases x)
    case True
    with Cons.prems(2) obtain j k where "xs = replicate j False @ True # replicate k False"
      using weight_1 by auto
    with True show ?thesis using Cons.prems(1) [of 0 j k] by simp
  next
    case False
    with Cons.prems(2) obtain i j k where
      "xs = replicate i False @ True # replicate j False @ True # replicate k False"
      using Cons.IH by auto
    with False show ?thesis using Cons.prems(1) [of "Suc i" j k] by simp
  qed
qed simp

lemma crc_bits_zeros: "crc_bits p c (replicate n False) = (crc_step p ^^ n) c"
  by (induction n arbitrary: c) (simp_all add: crc_bit_step funpow_swap1)

lemma crc_step_funpow_0 [simp]: "(crc_step p ^^ n) 0 = 0"
  by (induction n) simp_all

text \<open>The register of the code runs through 119 and more states before it repeats.\<close>

primrec crc8_avoids_1 :: "nat \<Rightarrow> u8 \<Rightarrow> bool" where
  "crc8_avoids_1 0 c = True"
| "crc8_avoids_1 (Suc n) c = (c \<noteq> 1 \<and> crc8_avoids_1 n (crc_step 0x97 c))"

lemma crc8_avoids_1_funpow:
  "crc8_avoids_1 n c \<Longrightarrow> k < n \<Longrightarrow> (crc_step 0x97 ^^ k) c \<noteq> 1"
proof (induction n arbitrary: c k)
  case (Suc n)
  then show ?case by (cases k) (auto simp: funpow_swap1)
qed simp

lemma crc8_period: "k < 119 \<Longrightarrow> (crc_step (0x97 :: u8) ^^ k) 0x97 \<noteq> 1"
proof -
  have "crc8_avoids_1 119 0x97"
    by code_simp
  then show "k < 119 \<Longrightarrow> ?thesis"
    by (rule crc8_avoids_1_funpow)
qed

lemma crc_bit_eq_0: "crc_bit (0x97 :: u8) c True = 0 \<longleftrightarrow> c = 1"
proof -
  have "crc_bit (0x97 :: u8) c True = crc_bit 0x97 1 True \<longleftrightarrow> c = 1"
    by (rule crc8.crc_bit_inj)
  then show ?thesis by (simp add: crc_bit_def)
qed

lemma crc8_nonzero:
  assumes w: "weight e \<in> {1, 2, 3}" and len: "length e \<le> 120"
  shows "crc_bits 0x97 0 e \<noteq> (0 :: u8)"
proof (cases "weight e = 2")
  case True
  then obtain i j k where
    e: "e = replicate i False @ True # replicate j False @ True # replicate k False"
    by (rule weight_2)
  then have "j < 119" using len by simp
  then have n1: "(crc_step (0x97 :: u8) ^^ j) 0x97 \<noteq> 1" by (rule crc8_period)
  let ?c = "crc_bit (0x97 :: u8) ((crc_step 0x97 ^^ j) 0x97) True"
  have "crc_bits 0x97 0 e = (crc_step 0x97 ^^ k) ?c"
    by (simp add: e crc_bits_zeros) (simp add: crc_bit_def)
  moreover have "?c \<noteq> 0"
    using n1 by (simp add: crc_bit_eq_0)
  ultimately show ?thesis
    using crc8.crc_step_funpow_inj [of k ?c 0] by simp
next
  case False
  with w have "odd (weight e)" by auto
  then have "parity8 (crc_bits 0x97 0 e)" by (simp add: parity8_crc_bits)
  then show ?thesis by auto
qed

lemma crc8_append_check: "crc8_compute (m @ [c]) = 0 \<longleftrightarrow> c = crc8_compute m"
proof -
  have "crc8_compute (m @ [c]) = (crc_step 0x97 ^^ 8) (crc8_compute m XOR c)"
    by (simp add: crc8_compute_eq crc_bits_bits8)
  also have "\<dots> = 0 \<longleftrightarrow> crc8_compute m XOR c = 0"
    using crc8.crc_step_funpow_inj [of 8 _ 0] by simp
  also have "\<dots> \<longleftrightarrow> c = crc8_compute m"
    by (metis xor_cancel_word(1) xor_self_eq)
  finally show ?thesis .
qed


lemma bits_of_inj: "bits_of xs = bits_of ys \<longleftrightarrow> xs = ys"
proof
  assume eq: "bits_of xs = bits_of ys"
  then have "length xs = length ys"
    by (metis length_bits_of mult_cancel1 zero_neq_numeral)
  then show "xs = ys" using eq
    by (induction xs ys rule: list_induct2) (simp_all add: bits8_inj)
qed simp

lemma map2_neq_weight_0:
  "length xs = length ys \<Longrightarrow> weight (map2 (\<noteq>) xs ys) = 0 \<longleftrightarrow> xs = ys"
  by (induction xs ys rule: list_induct2) (auto split: if_splits)

lemma hamming_0: "length xs = length ys \<Longrightarrow> hamming xs ys = 0 \<longleftrightarrow> xs = ys"
  unfolding hamming_def by (subst map2_neq_weight_0) (simp_all add: bits_of_inj)

text \<open>C17.  Two different valid CRC8-protected packets of the same length, at most 15 bytes with the
  checksum, differ in at least four bits: every error of one, two or three bits is detected, on every
  length the composer gives a CRC8.\<close>

theorem crc8_min_distance:
  assumes len: "length m = length m'" "length m \<le> 14" and diff: "m \<noteq> m'"
  shows "4 \<le> hamming (m @ [crc8_compute m]) (m' @ [crc8_compute m'])"
proof (rule ccontr)
  let ?w = "m @ [crc8_compute m]" and ?w' = "m' @ [crc8_compute m']"
  let ?e = "map2 (\<noteq>) (bits_of ?w) (bits_of ?w')"
  assume "\<not> 4 \<le> hamming ?w ?w'"
  moreover have "hamming ?w ?w' \<noteq> 0"
    using len diff by (subst hamming_0) auto
  ultimately have "weight ?e \<in> {1, 2, 3}"
    by (auto simp: hamming_def)
  then have "crc_bits 0x97 0 ?e \<noteq> (0 :: u8)"
    using len by (intro crc8_nonzero) auto
  moreover have "crc_bits 0x97 (0 XOR 0) ?e = crc8_compute ?w XOR crc8_compute ?w'"
    using len by (subst crc_bits_linear) (auto simp: crc8_compute_eq)
  moreover have "crc8_compute ?w = 0" "crc8_compute ?w' = 0"
    by (simp_all only: crc8_append_check)
  ultimately show False by simp
qed

theorem crc8_min_distance_witness:
  "4 \<le> hamming ([44, 2, 6] @ [crc8_compute [44, 2, 6]]) ([44, 6, 6] @ [crc8_compute [44, 6, 6]])"
  by (rule crc8_min_distance) simp_all

text \<open>A CRC8 detects every burst of up to 8 bits, wherever it starts, in packets of any length.\<close>

theorem crc8_burst:
  assumes "bits_of u = p @ a @ s" "bits_of v = p @ b @ s"
    and "length a = length b" "length a \<le> 8"
    and "crc8_compute u = crc8_compute v"
  shows "u = v"
proof -
  have "a = b"
    using assms by (intro crc8.burst [of a b 0 p s]) (simp_all add: crc8_compute_eq)
  with assms(1,2) show ?thesis by (simp flip: bits_of_inj)
qed

theorem crc8_burst_witness:
  "crc8_compute [0x12, 0x34, 0x56] \<noteq> crc8_compute [0x12, 0xA4, 0x56]"
proof
  assume eq: "crc8_compute [0x12, 0x34, 0x56] = crc8_compute [0x12, 0xA4, 0x56]"
  have "[0x12, 0x34, 0x56 :: u8] = [0x12, 0xA4, 0x56]"
    by (rule crc8_burst [where p = "bits8 0x12" and a = "bits8 0x34" and b = "bits8 0xA4"
          and s = "bits8 0x56", OF _ _ _ _ eq]) simp_all
  then show False by simp
qed



text \<open>The running checksum: passing the CRC32 of a first part as \<open>previousCrc32\<close> of the second
  gives the CRC32 of both, and \<open>compare\<close> accepts exactly the big-endian bytes of the number.\<close>

theorem crc32_chained_compare:
  "crc32_compute ys (crc32_compute xs prev) = crc32_compute (xs @ ys) prev \<and>
   (length received = 4 \<longrightarrow>
     crc32_compare (crc32_compute ys (crc32_compute xs prev)) received
       = Some (received = be32 (crc32_compute (xs @ ys) prev)))"
  by (simp add: crc32_compute_eq crc32_compare_eq)

theorem crc32_chained_compare_witness:
  "crc32_compute [1, 2] (crc32_compute [7] 0) = crc32_compute [7, 1, 2] 0 \<and>
   crc32_compare (crc32_compute [1, 2] (crc32_compute [7] 0)) (be32 (crc32_compute [7, 1, 2] 0))
     = Some True"
  using crc32_chained_compare [of "[1, 2]" "[7]" 0 "be32 (crc32_compute [7, 1, 2] 0)",
      unfolded append_Cons append_Nil length_be32 simp_thms] .

end
