(* ===== verification/Defines.thy ===== *)
theory Defines
  imports Crc
begin

text \<open>
  \<^verbatim>\<open>src/PJONDefines.h\<close>: protocol constants, the packet structures, and the general purpose
  functions of \<^verbatim>\<open>PJONTools\<close> that do not touch a packet buffer.  The preprocessor configuration of a
  build (\<^verbatim>\<open>PJON_PACKET_MAX_LENGTH\<close>, \<^verbatim>\<open>PJON_INCLUDE_...\<close> and so on) is a record that every definition
  that depends on it takes as an argument, so that the theorems hold for every build.
\<close>

subsection \<open>Constants\<close>

definition PJON_ACK :: u16 where [const_defs]: "PJON_ACK = 6"
definition PJON_BUSY :: u16 where [const_defs]: "PJON_BUSY = 666"
definition PJON_NAK :: u16 where [const_defs]: "PJON_NAK = 21"
definition PJON_FAIL :: u16 where [const_defs]: "PJON_FAIL = 65535"
definition PJON_TO_BE_SENT :: u16 where [const_defs]: "PJON_TO_BE_SENT = 74"

definition PJON_BROADCAST :: u8 where [const_defs]: "PJON_BROADCAST = 0"
definition PJON_NOT_ASSIGNED :: u8 where [const_defs]: "PJON_NOT_ASSIGNED = 255"

text \<open>Communication modes.\<close>

definition PJON_SIMPLEX :: bool where [const_defs]: "PJON_SIMPLEX = False"
definition PJON_HALF_DUPLEX :: bool where [const_defs]: "PJON_HALF_DUPLEX = True"

definition PJON_MASTER_ID :: u8 where [const_defs]: "PJON_MASTER_ID = 254"

definition PJON_NO_HEADER :: u8 where [const_defs]: "PJON_NO_HEADER = 0x48"
definition PJON_MODE_BIT :: u8 where [const_defs]: "PJON_MODE_BIT = 0x01"
definition PJON_TX_INFO_BIT :: u8 where [const_defs]: "PJON_TX_INFO_BIT = 0x02"
definition PJON_ACK_REQ_BIT :: u8 where [const_defs]: "PJON_ACK_REQ_BIT = 0x04"
definition PJON_MAC_BIT :: u8 where [const_defs]: "PJON_MAC_BIT = 0x08"
definition PJON_PORT_BIT :: u8 where [const_defs]: "PJON_PORT_BIT = 0x10"
definition PJON_CRC_BIT :: u8 where [const_defs]: "PJON_CRC_BIT = 0x20"
definition PJON_EXT_LEN_BIT :: u8 where [const_defs]: "PJON_EXT_LEN_BIT = 0x40"
definition PJON_PACKET_ID_BIT :: u8 where [const_defs]: "PJON_PACKET_ID_BIT = 0x80"

definition PJON_CONNECTION_LOST :: u8 where [const_defs]: "PJON_CONNECTION_LOST = 101"
definition PJON_PACKETS_BUFFER_FULL :: u8 where [const_defs]: "PJON_PACKETS_BUFFER_FULL = 102"
definition PJON_CONTENT_TOO_LONG :: u8 where [const_defs]: "PJON_CONTENT_TOO_LONG = 104"

text \<open>The configurable constraints and the optional features, with their defaults.\<close>

record build =
  packet_max_length :: nat
  max_packets :: nat
  max_recent_packet_ids :: nat
  max_hops :: u8
  include_packet_id :: bool
  include_port :: bool
  include_mac :: bool
  pjon_local :: bool
  receive_while_sending :: bool

definition default_build :: build where
  "default_build =
     \<lparr> packet_max_length = 50, max_packets = 5, max_recent_packet_ids = 10, max_hops = 15,
       include_packet_id = False, include_port = False, include_mac = False, pjon_local = False,
       receive_while_sending = False \<rparr>"

lemma default_build_simps [simp]:
  "packet_max_length default_build = 50" "max_packets default_build = 5"
  "max_recent_packet_ids default_build = 10" "max_hops default_build = 15"
  "\<not> include_packet_id default_build" "\<not> include_port default_build" "\<not> include_mac default_build"
  "\<not> pjon_local default_build" "\<not> receive_while_sending default_build"
  by (simp_all add: default_build_def)

subsection \<open>Data structures\<close>

record packet =
  pk_attempts :: u8
  pk_content :: "u8 list"
  pk_length :: u16
  pk_registration :: u32
  pk_state :: u16
  pk_timing :: u32

record packet_record =
  pr_header :: u8
  pr_sender_id :: u8
  pr_sender_bus_id :: "u8 list"
  pr_id :: u16

record endpoint =
  ep_id :: u8
  ep_bus_id :: "u8 list"
  ep_mac :: "u8 list"

definition new_endpoint :: endpoint where
  "new_endpoint = \<lparr> ep_id = PJON_NOT_ASSIGNED, ep_bus_id = [0, 0, 0, 0], ep_mac = [0, 0, 0, 0, 0, 0] \<rparr>"

text \<open>\<open>pi_custom_pointer\<close> is the opaque address a callback finds its object with (0 is null).\<close>

record packet_info =
  pi_tx :: endpoint
  pi_rx :: endpoint
  pi_header :: u8
  pi_custom_pointer :: nat
  pi_hops :: u8
  pi_id :: u16
  pi_port :: u16

definition new_packet_info :: packet_info where
  "new_packet_info =
     \<lparr> pi_tx = new_endpoint, pi_rx = new_endpoint, pi_header = PJON_NO_HEADER,
       pi_custom_pointer = 0, pi_hops = 0, pi_id = 0, pi_port = ucast PJON_BROADCAST \<rparr>"

definition wf_endpoint :: "endpoint \<Rightarrow> bool" where
  "wf_endpoint e \<longleftrightarrow> length (ep_bus_id e) = 4 \<and> length (ep_mac e) = 6"

definition wf_info :: "packet_info \<Rightarrow> bool" where
  "wf_info i \<longleftrightarrow> wf_endpoint (pi_tx i) \<and> wf_endpoint (pi_rx i)"

lemma wf_new [simp]: "wf_endpoint new_endpoint" "wf_info new_packet_info"
  by (simp_all add: wf_endpoint_def wf_info_def new_endpoint_def new_packet_info_def)

subsection \<open>Header flags\<close>

definition flag :: "u8 \<Rightarrow> u8 \<Rightarrow> bool" where
  "flag h m \<longleftrightarrow> h AND m \<noteq> 0"

definition set_flag :: "u8 \<Rightarrow> u8 \<Rightarrow> u8" where
  "set_flag h m = h OR m"

definition clear_flag :: "u8 \<Rightarrow> u8 \<Rightarrow> u8" where
  "clear_flag h m = h AND NOT m"

lemma flag_bits [flag_simps]:
  "flag h PJON_MODE_BIT = bit h 0"
  "flag h PJON_TX_INFO_BIT = bit h 1"
  "flag h PJON_ACK_REQ_BIT = bit h 2"
  "flag h PJON_MAC_BIT = bit h 3"
  "flag h PJON_PORT_BIT = bit h 4"
  "flag h PJON_CRC_BIT = bit h 5"
  "flag h PJON_EXT_LEN_BIT = bit h 6"
  "flag h PJON_PACKET_ID_BIT = bit h 7"
  using and_exp_eq_0_iff_not_bit [of h 0] and_exp_eq_0_iff_not_bit [of h 1]
    and_exp_eq_0_iff_not_bit [of h 2] and_exp_eq_0_iff_not_bit [of h 3]
    and_exp_eq_0_iff_not_bit [of h 4] and_exp_eq_0_iff_not_bit [of h 5]
    and_exp_eq_0_iff_not_bit [of h 6] and_exp_eq_0_iff_not_bit [of h 7]
  by (simp_all add: flag_def const_defs)

text \<open>\<^verbatim>\<open>(cond) ? a : b\<close> on a header bit, the way \<^verbatim>\<open>packet_overhead\<close> uses it.\<close>

definition packet_overhead :: "u8 \<Rightarrow> u8" where
  "packet_overhead header =
     (if flag header PJON_MODE_BIT
      then (if flag header PJON_TX_INFO_BIT then 11 else 6)
      else (if flag header PJON_TX_INFO_BIT then 2 else 1))
     + (if flag header PJON_EXT_LEN_BIT then 2 else 1)
     + (if flag header PJON_CRC_BIT then 4 else 1)
     + (if flag header PJON_PORT_BIT then 2 else 0)
     + (if flag header PJON_PACKET_ID_BIT then 2 else 0)
     + (if flag header PJON_MAC_BIT then 12 else 0)
     + 2"

definition crc_overhead :: "u8 \<Rightarrow> u8" where
  "crc_overhead header = (if flag header PJON_CRC_BIT then 4 else 1)"

definition new_packet_id :: "u16 \<Rightarrow> u16" where
  "new_packet_id seed = (let seed = seed + 1 in if seed = 0 then 1 else seed)"

text \<open>\<^verbatim>\<open>copy_id\<close> is \<^verbatim>\<open>memcpy\<close> of an id; \<^verbatim>\<open>id_equality\<close> compares byte by byte.\<close>

definition copy_id :: "u8 list \<Rightarrow> u8 list \<Rightarrow> nat \<Rightarrow> u8 list" where
  "copy_id dest src n = take n src @ drop n dest"

primrec id_equality_from :: "nat \<Rightarrow> nat \<Rightarrow> u8 list \<Rightarrow> u8 list \<Rightarrow> bool" where
  "id_equality_from 0 i n_one n_two = True"
| "id_equality_from (Suc k) i n_one n_two =
     (if n_one ! i \<noteq> n_two ! i then False else id_equality_from k (Suc i) n_one n_two)"

definition id_equality :: "u8 list \<Rightarrow> u8 list \<Rightarrow> nat \<Rightarrow> bool" where
  "id_equality n_one n_two n = id_equality_from n 0 n_one n_two"

definition localhost :: "u8 list" where
  "localhost = [0, 0, 0, 0]"

definition no_mac :: "u8 list" where
  "no_mac = [0, 0, 0, 0, 0, 0]"

lemma id_equality_from_eq:
  "i + k \<le> length xs \<Longrightarrow> i + k \<le> length ys \<Longrightarrow>
   id_equality_from k i xs ys \<longleftrightarrow> take k (drop i xs) = take k (drop i ys)"
  by (induction k arbitrary: i) (auto simp: take_Suc_conv_app_nth Cons_nth_drop_Suc [symmetric])

lemma id_equality_iff:
  "length xs = n \<Longrightarrow> length ys = n \<Longrightarrow> id_equality xs ys n \<longleftrightarrow> xs = ys"
  by (simp add: id_equality_def id_equality_from_eq)

lemma new_packet_id_nonzero [simp]: "new_packet_id s \<noteq> 0"
  by (simp add: new_packet_id_def Let_def)

text \<open>The overhead as a natural number: no header makes the sum of the code overflow.\<close>

definition overhead_nat :: "u8 \<Rightarrow> nat" where
  "overhead_nat h =
     (if bit h 0 then (if bit h 1 then 11 else 6) else (if bit h 1 then 2 else 1))
     + (if bit h 6 then 2 else 1) + (if bit h 5 then 4 else 1) + (if bit h 4 then 2 else 0)
     + (if bit h 7 then 2 else 0) + (if bit h 3 then 12 else 0) + 2"

lemma unat_packet_overhead: "unat (packet_overhead h) = overhead_nat h"
  by (simp add: packet_overhead_def overhead_nat_def flag_simps)

lemma overhead_nat_bounds: "5 \<le> overhead_nat h" "overhead_nat h \<le> 35"
  by (simp_all add: overhead_nat_def)

end
