(* ===== verification/Packet.thy ===== *)
theory Packet
  imports Defines
begin

text \<open>
  The packet format: \<^verbatim>\<open>PJONTools::compose_packet\<close> and \<^verbatim>\<open>PJONTools::parse_header\<close> of
  \<^verbatim>\<open>src/PJONDefines.h\<close>, as they read and write a byte buffer, against the reference
  \<open>packet_image\<close>, the packet as a plain concatenation of its fields.
\<close>

subsection \<open>Composing\<close>

text \<open>
  The state of the composer: the buffer and the running \<open>index\<close>.  \<open>emit b\<close> is
  \<^verbatim>\<open>destination[index++] = b\<close>; \<open>emit_block\<close> is \<^verbatim>\<open>memcpy\<close> or \<^verbatim>\<open>copy_id\<close> followed by the increment.
\<close>

definition emit :: "u8 \<Rightarrow> u8 list \<times> nat \<Rightarrow> (u8 list \<times> nat) option" where
  "emit b = (\<lambda>(dest, index). do { dest \<leftarrow> wr index b dest; Some (dest, index + 1) })"

definition emit_block :: "u8 list \<Rightarrow> u8 list \<times> nat \<Rightarrow> (u8 list \<times> nat) option" where
  "emit_block bs =
     (\<lambda>(dest, index). do { dest \<leftarrow> wr_block index bs dest; Some (dest, index + length bs) })"

definition emit_when :: "bool \<Rightarrow> u8 list \<Rightarrow> u8 list \<times> nat \<Rightarrow> (u8 list \<times> nat) option" where
  "emit_when c bs s = (if c then emit_block bs s else Some s)"

text \<open>The adjustments of the header before the length is known.\<close>

definition compose_normalise :: "build \<Rightarrow> packet_info \<Rightarrow> u16 \<Rightarrow> packet_info" where
  "compose_normalise b info len =
     (let h = pi_header info;
          h = (if len > 255 then set_flag h PJON_EXT_LEN_BIT else h);
          h = (if include_port b \<and> pi_port info \<noteq> ucast PJON_BROADCAST
               then set_flag h PJON_PORT_BIT else h);
          h = (if include_port b \<and> flag h PJON_PORT_BIT \<and> pi_port info = ucast PJON_BROADCAST
               then clear_flag h PJON_PORT_BIT else h);
          h = (if ep_id (pi_rx info) = PJON_BROADCAST then clear_flag h PJON_ACK_REQ_BIT else h)
      in info\<lparr>pi_header := h\<rparr>)"

text \<open>
  The sizing: the packet length, and the header bits the length forces.  \<open>extended_length\<close> is
  sampled before the second upgrade of the header.  All lengths are \<^verbatim>\<open>uint16_t\<close> and wrap.
\<close>

definition compose_sizing :: "packet_info \<Rightarrow> u16 \<Rightarrow> packet_info \<times> u16 \<times> bool" where
  "compose_sizing info len =
     (let h = pi_header info;
          new_length = len + ucast (packet_overhead h);
          extended_length = flag h PJON_EXT_LEN_BIT;
          (h, new_length) =
            (if new_length > 15 \<and> \<not> flag h PJON_CRC_BIT
             then (let h = set_flag h PJON_CRC_BIT in (h, len + ucast (packet_overhead h)))
             else (h, new_length));
          (h, new_length) =
            (if new_length > 255 \<and> \<not> extended_length
             then (let h = set_flag h PJON_EXT_LEN_BIT in (h, len + ucast (packet_overhead h)))
             else (h, new_length))
      in (info\<lparr>pi_header := h\<rparr>, new_length, extended_length))"

text \<open>Receiver id, header, length and the CRC8 of the header.\<close>

definition compose_initial_meta ::
  "packet_info \<Rightarrow> u16 \<Rightarrow> bool \<Rightarrow> u8 list \<times> nat \<Rightarrow> (u8 list \<times> nat) option" where
  "compose_initial_meta info new_length extended_length s =
     do { s \<leftarrow> emit (ep_id (pi_rx info)) s;
          s \<leftarrow> emit (pi_header info) s;
          if extended_length
          then do { s \<leftarrow> emit (hi8 new_length) s;
                    s \<leftarrow> emit (lo8 new_length) s;
                    m \<leftarrow> rd_block (fst s) 0 4;
                    emit (crc8_compute m) s }
          else do { s \<leftarrow> emit (lo8 new_length) s;
                    m \<leftarrow> rd_block (fst s) 0 3;
                    emit (crc8_compute m) s } }"

text \<open>The optional fields, each behind its header bit and its build option.\<close>

definition compose_fields ::
  "build \<Rightarrow> packet_info \<Rightarrow> u8 list \<times> nat \<Rightarrow> (u8 list \<times> nat) option" where
  "compose_fields b info s =
     (let h = pi_header info in
      do { s \<leftarrow> (if \<not> pjon_local b \<and> flag h PJON_MODE_BIT
                 then do { s \<leftarrow> emit_block (take 4 (ep_bus_id (pi_rx info))) s;
                           s \<leftarrow> emit_when (flag h PJON_TX_INFO_BIT)
                                  (take 4 (ep_bus_id (pi_tx info))) s;
                           emit (pi_hops info) s }
                 else Some s);
           s \<leftarrow> emit_when (flag h PJON_TX_INFO_BIT) [ep_id (pi_tx info)] s;
           s \<leftarrow> emit_when (include_packet_id b \<and> flag h PJON_PACKET_ID_BIT)
                  [hi8 (pi_id info), lo8 (pi_id info)] s;
           s \<leftarrow> emit_when (include_port b \<and> flag h PJON_PORT_BIT \<and>
                            pi_port info \<noteq> ucast PJON_BROADCAST)
                  [hi8 (pi_port info), lo8 (pi_port info)] s;
           emit_when (include_mac b \<and> flag h PJON_MAC_BIT)
             (take 6 (ep_mac (pi_rx info)) @ take 6 (ep_mac (pi_tx info))) s })"

text \<open>The check at the end of the packet; an index below zero is outside of the buffer.\<close>

definition compose_check :: "u8 \<Rightarrow> u16 \<Rightarrow> u8 list \<Rightarrow> u8 list option" where
  "compose_check header new_length dest =
     (if flag header PJON_CRC_BIT
      then do { m \<leftarrow> rd_block dest 0 (unat (new_length - 4));
                let computed_crc = crc32_compute m 0;
                if unat new_length < 4 then None else do {
                  dest \<leftarrow> wr (unat new_length - 4) (byte_of computed_crc 3) dest;
                  dest \<leftarrow> wr (unat new_length - 3) (byte_of computed_crc 2) dest;
                  dest \<leftarrow> wr (unat new_length - 2) (byte_of computed_crc 1) dest;
                  wr (unat new_length - 1) (byte_of computed_crc 0) dest } }
      else do { m \<leftarrow> rd_block dest 0 (unat (new_length - 1));
                if new_length = 0 then None
                else wr (unat new_length - 1) (crc8_compute m) dest })"

definition tools_compose_packet ::
  "build \<Rightarrow> packet_info \<Rightarrow> u8 list \<Rightarrow> u8 list \<Rightarrow> u16 \<Rightarrow> (u8 list \<times> u16) option" where
  "tools_compose_packet b info destination source len =
     (let info = compose_normalise b info len;
          (info, new_length, extended_length) = compose_sizing info len
      in if unat new_length \<ge> packet_max_length b then Some (destination, new_length)
         else do { s \<leftarrow> compose_initial_meta info new_length extended_length (destination, 0);
                   s \<leftarrow> compose_fields b info s;
                   payload \<leftarrow> rd_block source 0 (unat len);
                   s \<leftarrow> emit_block payload s;
                   dest \<leftarrow> compose_check (pi_header info) new_length (fst s);
                   Some (dest, new_length) })"

subsection \<open>Parsing\<close>

text \<open>
  \<open>fetch n\<close> reads \<open>n\<close> bytes at the running index.  The MAC addresses are read whenever the build
  has them, whatever the header says, as in the code.
\<close>

definition fetch_when :: "bool \<Rightarrow> nat \<Rightarrow> u8 list \<Rightarrow> nat \<Rightarrow> (u8 list \<times> nat) option" where
  "fetch_when c n packet index =
     (if c then do { bs \<leftarrow> rd_block packet index n; Some (bs, index + n) } else Some ([], index))"

definition parse_bus_ids ::
  "build \<Rightarrow> u8 list \<Rightarrow> packet_info \<times> nat \<Rightarrow> (packet_info \<times> nat) option" where
  "parse_bus_ids b packet = (\<lambda>(info, index).
     if \<not> pjon_local b \<and> flag (pi_header info) PJON_MODE_BIT
     then do { (rx, index) \<leftarrow> fetch_when True 4 packet index;
               (tx, index) \<leftarrow> fetch_when (flag (pi_header info) PJON_TX_INFO_BIT) 4 packet index;
               (hops, index) \<leftarrow> fetch_when True 1 packet index;
               Some (info\<lparr> pi_rx := (pi_rx info)\<lparr> ep_bus_id := rx \<rparr>,
                           pi_tx := (pi_tx info)\<lparr> ep_bus_id :=
                             (if tx = [] then ep_bus_id (pi_tx info) else tx) \<rparr>,
                           pi_hops := hops ! 0 \<rparr>, index) }
     else Some (info, index))"

definition parse_header :: "build \<Rightarrow> u8 list \<Rightarrow> packet_info option" where
  "parse_header b packet =
     do { let info = new_packet_info;
          rx_id \<leftarrow> rd packet 0;
          let info = info\<lparr> pi_rx := (pi_rx info)\<lparr> ep_id := rx_id \<rparr> \<rparr>;
          header \<leftarrow> rd packet 1;
          let info = info\<lparr> pi_header := header \<rparr>;
          let index = 2 + (if flag header PJON_EXT_LEN_BIT then 3 else 2);
          (info, index) \<leftarrow> parse_bus_ids b packet (info, index);
          (tx_id, index) \<leftarrow> fetch_when (flag header PJON_TX_INFO_BIT) 1 packet index;
          let info = (if tx_id = [] then info
                      else info\<lparr> pi_tx := (pi_tx info)\<lparr> ep_id := tx_id ! 0 \<rparr> \<rparr>);
          (pid, index) \<leftarrow>
            fetch_when (include_packet_id b \<and> flag header PJON_PACKET_ID_BIT) 2 packet index;
          let info = (if pid = [] then info else info\<lparr> pi_id := join16 (pid ! 0) (pid ! 1) \<rparr>);
          (prt, index) \<leftarrow> fetch_when (include_port b \<and> flag header PJON_PORT_BIT) 2 packet index;
          let info = (if prt = [] then info else info\<lparr> pi_port := join16 (prt ! 0) (prt ! 1) \<rparr>);
          (macs, index) \<leftarrow> fetch_when (include_mac b) 12 packet index;
          Some (if macs = [] then info
                else info\<lparr> pi_rx := (pi_rx info)\<lparr> ep_mac := take 6 macs \<rparr>,
                           pi_tx := (pi_tx info)\<lparr> ep_mac := drop 6 macs \<rparr> \<rparr>) }"

end
