(* ===== verification/Codec.thy ===== *)
theory Codec
  imports Packet
begin

text \<open>
  What the composer produces and what the parser reads back: \<open>packet_image\<close> is the packet as the
  protocol specification lays it out; the composer refines it, and the parser inverts it.
\<close>

subsection \<open>The reference packet\<close>

definition header_supported :: "build \<Rightarrow> u8 \<Rightarrow> bool" where
  "header_supported b h \<longleftrightarrow>
     (flag h PJON_MODE_BIT \<longrightarrow> \<not> pjon_local b) \<and>
     (flag h PJON_PACKET_ID_BIT \<longrightarrow> include_packet_id b) \<and>
     (flag h PJON_PORT_BIT \<longrightarrow> include_port b) \<and>
     (flag h PJON_MAC_BIT \<longrightarrow> include_mac b)"

definition field_bytes :: "packet_info \<Rightarrow> u8 list" where
  "field_bytes info =
     (let h = pi_header info in
      (if flag h PJON_MODE_BIT
       then ep_bus_id (pi_rx info)
            @ (if flag h PJON_TX_INFO_BIT then ep_bus_id (pi_tx info) else []) @ [pi_hops info]
       else [])
      @ (if flag h PJON_TX_INFO_BIT then [ep_id (pi_tx info)] else [])
      @ (if flag h PJON_PACKET_ID_BIT then [hi8 (pi_id info), lo8 (pi_id info)] else [])
      @ (if flag h PJON_PORT_BIT then [hi8 (pi_port info), lo8 (pi_port info)] else [])
      @ (if flag h PJON_MAC_BIT then ep_mac (pi_rx info) @ ep_mac (pi_tx info) else []))"

definition meta_bytes :: "packet_info \<Rightarrow> u16 \<Rightarrow> u8 list" where
  "meta_bytes info n =
     (let m = [ep_id (pi_rx info), pi_header info]
              @ (if flag (pi_header info) PJON_EXT_LEN_BIT then [hi8 n, lo8 n] else [lo8 n])
      in m @ [crc8_compute m])"

definition body_bytes :: "packet_info \<Rightarrow> u8 list \<Rightarrow> u8 list" where
  "body_bytes info payload =
     meta_bytes info (of_nat (length payload + overhead_nat (pi_header info)))
     @ field_bytes info @ payload"

definition check_bytes :: "u8 \<Rightarrow> u8 list \<Rightarrow> u8 list" where
  "check_bytes h body =
     (if flag h PJON_CRC_BIT then be32 (crc32_compute body 0) else [crc8_compute body])"

definition packet_image :: "packet_info \<Rightarrow> u8 list \<Rightarrow> u8 list" where
  "packet_image info payload =
     body_bytes info payload @ check_bytes (pi_header info) (body_bytes info payload)"

lemma length_check_bytes [simp]: "length (check_bytes h body) = unat (crc_overhead h)"
  by (simp add: check_bytes_def crc_overhead_def)

lemma length_meta_bytes: "length (meta_bytes info n) = (if bit (pi_header info) 6 then 5 else 4)"
  by (simp add: meta_bytes_def Let_def flag_simps)

lemma length_body_bytes:
  assumes "wf_info info"
  shows "length (body_bytes info payload) + unat (crc_overhead (pi_header info))
         = length payload + overhead_nat (pi_header info)"
  using assms
  by (simp add: body_bytes_def length_meta_bytes field_bytes_def overhead_nat_def crc_overhead_def
      Let_def flag_simps wf_info_def wf_endpoint_def)

lemma length_packet_image:
  "wf_info info \<Longrightarrow> length (packet_image info payload) = length payload + overhead_nat (pi_header info)"
  using length_body_bytes [of info payload] by (simp add: packet_image_def)

subsection \<open>The composer refines the reference\<close>

text \<open>\<open>written w d\<close>: the composer has filled the buffer \<open>d\<close> with \<open>w\<close> so far.\<close>

definition written :: "u8 list \<Rightarrow> u8 list \<Rightarrow> u8 list \<times> nat" where
  "written w d = (w @ drop (length w) d, length w)"

named_theorems written_simps \<open>the composer's steps on a partially written buffer\<close>

lemma written_Nil: "(d, 0) = written [] d"
  by (simp add: written_def)

lemma emit_block_written [written_simps]:
  "length w + length bs \<le> length d \<Longrightarrow> emit_block bs (written w d) = Some (written (w @ bs) d)"
  by (simp add: emit_block_def written_def mem_defs add.commute)

lemma emit_written [written_simps]:
  "Suc (length w) \<le> length d \<Longrightarrow> emit x (written w d) = Some (written (w @ [x]) d)"
  by (simp add: emit_def written_def mem_defs list_update_append Cons_nth_drop_Suc [symmetric])

lemma emit_when_cases [written_simps]:
  "emit_when True bs s = emit_block bs s" "emit_when False bs s = Some s"
  by (simp_all add: emit_when_def)

lemma emit_when_written:
  "length w + length (if c then bs else []) \<le> length d \<Longrightarrow>
   emit_when c bs (written w d) = Some (written (w @ (if c then bs else [])) d)"
  by (cases c) (simp_all add: emit_when_def emit_block_written)

lemma rd_block_written [written_simps]:
  "n = length w \<Longrightarrow> length w \<le> length d \<Longrightarrow> rd_block (fst (written w d)) 0 n = Some w"
  by (simp add: written_def mem_defs)

lemma wr_written:
  "n = length w \<Longrightarrow> n < length d \<Longrightarrow>
   wr n x (w @ drop n d) = Some ((w @ [x]) @ drop (Suc n) d)"
  by (simp add: mem_defs list_update_append Cons_nth_drop_Suc [symmetric])

lemma compose_initial_meta_written:
  "5 \<le> length d \<Longrightarrow>
   compose_initial_meta info n (flag (pi_header info) PJON_EXT_LEN_BIT) (d, 0)
     = Some (written (meta_bytes info n) d)"
  by (simp add: written_Nil compose_initial_meta_def written_simps meta_bytes_def)

lemma compose_fields_written:
  assumes "wf_info info" "header_supported b (pi_header info)"
    and "flag (pi_header info) PJON_PORT_BIT \<longrightarrow> pi_port info \<noteq> 0"
    and "length w + length (field_bytes info) \<le> length d"
  shows "compose_fields b info (written w d) = Some (written (w @ field_bytes info) d)"
proof -
  have l: "length (ep_bus_id (pi_rx info)) = 4" "length (ep_bus_id (pi_tx info)) = 4"
    "length (ep_mac (pi_rx info)) = 6" "length (ep_mac (pi_tx info)) = 6"
    using assms(1) by (simp_all add: wf_info_def wf_endpoint_def)
  show ?thesis
    using assms(2-4) l
    by (cases "flag (pi_header info) PJON_MODE_BIT"; cases "flag (pi_header info) PJON_TX_INFO_BIT";
        cases "flag (pi_header info) PJON_PACKET_ID_BIT"; cases "flag (pi_header info) PJON_PORT_BIT";
        cases "flag (pi_header info) PJON_MAC_BIT")
      (simp_all add: compose_fields_def field_bytes_def header_supported_def Let_def written_simps
        PJON_BROADCAST_def)
qed

lemma compose_check_written:
  assumes "length w + unat (crc_overhead h) = unat n" "unat n \<le> length d" "5 \<le> unat n"
  shows "compose_check h n (fst (written w d)) = Some (w @ check_bytes h w @ drop (unat n) d)"
proof -
  have n: "unat (n - 4) = unat n - 4" "unat (n - 1) = unat n - 1"
    using assms(3) by (simp_all add: unat_sub word_le_nat_alt)
  show ?thesis
  proof (cases "flag h PJON_CRC_BIT")
    case True
    then have w: "unat n = length w + 4"
      using assms(1) by (simp add: crc_overhead_def)
    show ?thesis
      using True assms(2) n w
      by (simp add: compose_check_def check_bytes_def be32_def written_def mem_defs
          list_update_append Cons_nth_drop_Suc [symmetric] Let_def eval_nat_numeral)
  next
    case False
    then have w: "unat n = length w + 1"
      using assms(1) by (simp add: crc_overhead_def)
    then have "n \<noteq> 0" by auto
    with False assms(2) n w show ?thesis
      by (simp add: compose_check_def check_bytes_def written_def mem_defs
          list_update_append Cons_nth_drop_Suc [symmetric])
  qed
qed

text \<open>
  The header and the length the composer settles on.  \<open>fits b info len\<close> collects what a
  composition without a fault or a refusal needs: supported header bits, no wrap of the 16 bit length,
  no late upgrade to an extended length, and a packet below the limit.
\<close>

definition final_info :: "build \<Rightarrow> packet_info \<Rightarrow> u16 \<Rightarrow> packet_info" where
  "final_info b info len = fst (compose_sizing (compose_normalise b info len) len)"

definition final_length :: "build \<Rightarrow> packet_info \<Rightarrow> u16 \<Rightarrow> nat" where
  "final_length b info len = unat len + overhead_nat (pi_header (final_info b info len))"

definition fits :: "build \<Rightarrow> packet_info \<Rightarrow> u16 \<Rightarrow> bool" where
  "fits b info len \<longleftrightarrow>
     header_supported b (pi_header (final_info b info len)) \<and>
     final_length b info len < packet_max_length b \<and> final_length b info len < 65536 \<and>
     (final_length b info len > 255 \<longrightarrow>
        flag (pi_header (compose_normalise b info len)) PJON_EXT_LEN_BIT)"

lemma compose_normalise_header:
  "\<exists>h. compose_normalise b info len = info\<lparr>pi_header := h\<rparr>"
  unfolding compose_normalise_def Let_def by blast

lemma compose_sizing_header:
  "\<exists>h. fst (compose_sizing info len) = info\<lparr>pi_header := h\<rparr>"
  unfolding compose_sizing_def Let_def case_prod_unfold fst_conv by blast

lemma final_info_header: "\<exists>h. final_info b info len = info\<lparr>pi_header := h\<rparr>"
proof -
  obtain h where h: "compose_normalise b info len = info\<lparr>pi_header := h\<rparr>"
    using compose_normalise_header by blast
  obtain h' where "fst (compose_sizing (info\<lparr>pi_header := h\<rparr>) len) = info\<lparr>pi_header := h\<rparr>\<lparr>pi_header := h'\<rparr>"
    using compose_sizing_header by blast
  then show ?thesis by (auto simp: final_info_def h)
qed

lemma final_info_fields [simp]:
  "pi_tx (final_info b info len) = pi_tx info" "pi_rx (final_info b info len) = pi_rx info"
  "pi_hops (final_info b info len) = pi_hops info" "pi_id (final_info b info len) = pi_id info"
  "pi_port (final_info b info len) = pi_port info"
  "pi_custom_pointer (final_info b info len) = pi_custom_pointer info"
  using final_info_header [of b info len] by auto

lemma wf_final_info [simp]: "wf_info (final_info b info len) \<longleftrightarrow> wf_info info"
  by (simp add: wf_info_def)

lemma unat_add_overhead:
  "unat len + overhead_nat h < 65536 \<Longrightarrow>
   unat (len + ucast (packet_overhead h) :: u16) = unat len + overhead_nat h"
  by (simp add: unat_word_ariths unat_packet_overhead)

text \<open>Setting and clearing single header bits.\<close>

lemma bit_mask8: "k < 8 \<Longrightarrow> bit ((2 :: u8) ^ k) n \<longleftrightarrow> n = k"
  by (auto simp: bit_exp_iff)

lemma bit_mask:
  "bit PJON_CRC_BIT n \<longleftrightarrow> n = 5" "bit PJON_EXT_LEN_BIT n \<longleftrightarrow> n = 6"
  "bit PJON_PORT_BIT n \<longleftrightarrow> n = 4" "bit PJON_ACK_REQ_BIT n \<longleftrightarrow> n = 2"
  using bit_mask8 [of 5 n] bit_mask8 [of 6 n] bit_mask8 [of 4 n] bit_mask8 [of 2 n]
  by (simp_all add: const_defs)

lemma bit_set_flag:
  "bit (set_flag h m) n \<longleftrightarrow> bit h n \<or> bit m n"
  "bit (clear_flag h m) n \<longleftrightarrow> bit h n \<and> \<not> bit m n"
  by (auto simp: set_flag_def clear_flag_def bit_or_iff bit_and_iff bit_not_iff dest: bit_imp_le_length)

lemma flag_set_crc:
  "flag (set_flag h PJON_CRC_BIT) PJON_CRC_BIT"
  "flag (set_flag h PJON_CRC_BIT) PJON_EXT_LEN_BIT = flag h PJON_EXT_LEN_BIT"
  "flag (set_flag h PJON_CRC_BIT) PJON_PORT_BIT = flag h PJON_PORT_BIT"
  "flag (set_flag h PJON_EXT_LEN_BIT) PJON_EXT_LEN_BIT"
  "flag (set_flag h PJON_EXT_LEN_BIT) PJON_PORT_BIT = flag h PJON_PORT_BIT"
  "flag (set_flag h PJON_PORT_BIT) PJON_PORT_BIT"
  "\<not> flag (clear_flag h PJON_PORT_BIT) PJON_PORT_BIT"
  "flag (clear_flag h PJON_ACK_REQ_BIT) PJON_PORT_BIT = flag h PJON_PORT_BIT"
  by (simp_all add: flag_simps bit_set_flag bit_mask)

lemma overhead_set_flag:
  "overhead_nat h \<le> overhead_nat (set_flag h PJON_CRC_BIT)"
  "\<not> flag h PJON_CRC_BIT \<Longrightarrow> overhead_nat (set_flag h PJON_CRC_BIT) = overhead_nat h + 3"
  "\<not> flag h PJON_EXT_LEN_BIT \<Longrightarrow> overhead_nat (set_flag h PJON_EXT_LEN_BIT) = overhead_nat h + 1"
  by (simp_all add: overhead_nat_def bit_set_flag bit_mask flag_simps)

text \<open>
  One equation for the sizing: with the first header \<open>h\<close>, the header after the CRC choice \<open>h1\<close>
  and the final header \<open>h2\<close>.
\<close>

definition crc_choice :: "u8 \<Rightarrow> u16 \<Rightarrow> u8" where
  "crc_choice h len =
     (if len + ucast (packet_overhead h) > 15 \<and> \<not> flag h PJON_CRC_BIT
      then set_flag h PJON_CRC_BIT else h)"

definition length_choice :: "u8 \<Rightarrow> u16 \<Rightarrow> u8" where
  "length_choice h len =
     (if len + ucast (packet_overhead h) > 255 \<and> \<not> flag h PJON_EXT_LEN_BIT
      then set_flag h PJON_EXT_LEN_BIT else h)"

lemma flag_choice:
  "flag (crc_choice h len) PJON_EXT_LEN_BIT = flag h PJON_EXT_LEN_BIT"
  "flag (crc_choice h len) PJON_PORT_BIT = flag h PJON_PORT_BIT"
  "flag (length_choice h len) PJON_PORT_BIT = flag h PJON_PORT_BIT"
  by (simp_all add: crc_choice_def length_choice_def flag_set_crc)

lemma compose_sizing_eq:
  "compose_sizing info len =
     (let h1 = crc_choice (pi_header info) len; h2 = length_choice h1 len
      in (info\<lparr>pi_header := h2\<rparr>, len + ucast (packet_overhead h2),
          flag (pi_header info) PJON_EXT_LEN_BIT))"
proof -
  let ?h = "pi_header info"
  show ?thesis
    by (cases "len + ucast (packet_overhead ?h) > 15"; cases "flag ?h PJON_CRC_BIT";
        cases "flag ?h PJON_EXT_LEN_BIT"; cases "len + ucast (packet_overhead ?h) > 255";
        cases "len + ucast (packet_overhead (set_flag ?h PJON_CRC_BIT)) > 255")
      (simp_all add: compose_sizing_def Let_def crc_choice_def length_choice_def flag_set_crc)
qed

lemma compose_sizing_fits:
  assumes "fits b info len"
  obtains n where
    "compose_sizing (compose_normalise b info len) len =
       (final_info b info len, n, flag (pi_header (final_info b info len)) PJON_EXT_LEN_BIT)"
    "unat n = final_length b info len"
proof -
  let ?h = "pi_header (compose_normalise b info len)"
  let ?h1 = "crc_choice ?h len"
  let ?h2 = "length_choice ?h1 len"
  let ?n = "len + ucast (packet_overhead ?h2)"
  have f: "pi_header (final_info b info len) = ?h2"
    by (simp add: final_info_def compose_sizing_eq Let_def)
  have n: "unat ?n = final_length b info len"
    using assms by (simp add: fits_def final_length_def f unat_add_overhead)
  have "flag ?h2 PJON_EXT_LEN_BIT = flag ?h PJON_EXT_LEN_BIT"
  proof (cases "len + ucast (packet_overhead ?h1) > 255 \<and> \<not> flag ?h PJON_EXT_LEN_BIT")
    case True
    then have h2: "?h2 = set_flag ?h1 PJON_EXT_LEN_BIT" and o: "overhead_nat ?h2 = overhead_nat ?h1 + 1"
      by (simp_all add: length_choice_def flag_choice overhead_set_flag)
    have "unat (len + ucast (packet_overhead ?h1)) = unat len + overhead_nat ?h1"
      using assms o by (intro unat_add_overhead) (simp add: fits_def final_length_def f)
    then have "final_length b info len > 255"
      using True o by (simp add: final_length_def f word_less_nat_alt)
    with assms True show ?thesis by (simp add: fits_def)
  next
    case False
    then have "?h2 = ?h1" by (auto simp: length_choice_def flag_choice)
    then show ?thesis by (simp add: flag_choice)
  qed
  then show ?thesis
    using that [of ?n] n f
    by (simp add: final_info_def compose_sizing_eq Let_def)
qed

lemma flag_port_final:
  "include_port b \<Longrightarrow>
   flag (pi_header (final_info b info len)) PJON_PORT_BIT \<longleftrightarrow> pi_port info \<noteq> 0"
  by (simp add: final_info_def compose_sizing_eq Let_def flag_choice compose_normalise_def
      flag_set_crc PJON_BROADCAST_def)

lemma unat_crc_overhead_le: "unat (crc_overhead h) \<le> 4"
  by (simp add: crc_overhead_def)

theorem compose_refines_image:
  assumes wf: "wf_info info" and fits: "fits b info len"
    and src: "unat len \<le> length source"
    and dst: "final_length b info len \<le> length destination"
  shows "tools_compose_packet b info destination source len =
           Some (packet_image (final_info b info len) (take (unat len) source)
                   @ drop (final_length b info len) destination,
                 of_nat (final_length b info len))"
proof -
  let ?i = "final_info b info len" and ?p = "take (unat len) source"
  let ?N = "final_length b info len" and ?d = destination
  obtain n where siz: "compose_sizing (compose_normalise b info len) len =
       (?i, n, flag (pi_header ?i) PJON_EXT_LEN_BIT)" and n: "unat n = ?N"
    using fits by (rule compose_sizing_fits)
  have n': "n = of_nat ?N" by (simp flip: n)
  have lp: "length ?p = unat len" using src by simp
  have N: "?N = length ?p + overhead_nat (pi_header ?i)" "?N < packet_max_length b" "?N \<ge> 5"
    using fits lp overhead_nat_bounds(1) [of "pi_header ?i"] by (auto simp: fits_def final_length_def)
  have lb: "length (body_bytes ?i ?p) + unat (crc_overhead (pi_header ?i)) = ?N"
    using length_body_bytes [of ?i ?p] wf N(1) by simp
  have body: "body_bytes ?i ?p = meta_bytes ?i n @ field_bytes ?i @ ?p"
    by (simp add: body_bytes_def n' N(1))
  have le: "length (meta_bytes ?i n) + length (field_bytes ?i) + length ?p \<le> length ?d"
    using lb dst by (simp add: body)
  have port: "flag (pi_header ?i) PJON_PORT_BIT \<longrightarrow> pi_port ?i \<noteq> 0"
    using fits flag_port_final [of b info len] by (auto simp: fits_def header_supported_def)
  have sup: "header_supported b (pi_header ?i)" using fits by (simp add: fits_def)
  have "compose_fields b ?i (written (meta_bytes ?i n) ?d) = Some (written (meta_bytes ?i n @ field_bytes ?i) ?d)"
    using wf sup port le by (intro compose_fields_written) auto
  moreover have "emit_block ?p (written (meta_bytes ?i n @ field_bytes ?i) ?d) = Some (written (body_bytes ?i ?p) ?d)"
    using le by (simp add: emit_block_written body)
  moreover have "compose_check (pi_header ?i) n (fst (written (body_bytes ?i ?p) ?d))
      = Some (body_bytes ?i ?p @ check_bytes (pi_header ?i) (body_bytes ?i ?p) @ drop (unat n) ?d)"
    using lb dst n N(3) by (intro compose_check_written) simp_all
  moreover have "rd_block source 0 (unat len) = Some ?p"
    using src by (simp add: mem_defs)
  ultimately show ?thesis
    using siz n n' N(2,3) dst
    by (simp add: tools_compose_packet_def compose_initial_meta_written packet_image_def)
qed


subsection \<open>Memory safety of the composer\<close>

text \<open>The optional fields as the build really emits them, whether or not it supports the header.\<close>

definition emitted_fields :: "build \<Rightarrow> packet_info \<Rightarrow> u8 list" where
  "emitted_fields b info =
     (let h = pi_header info in
      (if \<not> pjon_local b \<and> flag h PJON_MODE_BIT
       then ep_bus_id (pi_rx info)
            @ (if flag h PJON_TX_INFO_BIT then ep_bus_id (pi_tx info) else []) @ [pi_hops info]
       else [])
      @ (if flag h PJON_TX_INFO_BIT then [ep_id (pi_tx info)] else [])
      @ (if include_packet_id b \<and> flag h PJON_PACKET_ID_BIT
         then [hi8 (pi_id info), lo8 (pi_id info)] else [])
      @ (if include_port b \<and> flag h PJON_PORT_BIT \<and> pi_port info \<noteq> 0
         then [hi8 (pi_port info), lo8 (pi_port info)] else [])
      @ (if include_mac b \<and> flag h PJON_MAC_BIT
         then ep_mac (pi_rx info) @ ep_mac (pi_tx info) else []))"

lemma compose_fields_emitted:
  assumes "wf_info info" and "length w + length (emitted_fields b info) \<le> length d"
  shows "compose_fields b info (written w d) = Some (written (w @ emitted_fields b info) d)"
proof -
  have l: "length (ep_bus_id (pi_rx info)) = 4" "length (ep_bus_id (pi_tx info)) = 4"
    "length (ep_mac (pi_rx info)) = 6" "length (ep_mac (pi_tx info)) = 6"
    using assms(1) by (simp_all add: wf_info_def wf_endpoint_def)
  let ?h = "pi_header info"
  define f where "f = (if \<not> pjon_local b \<and> flag ?h PJON_MODE_BIT
       then ep_bus_id (pi_rx info)
            @ (if flag ?h PJON_TX_INFO_BIT then ep_bus_id (pi_tx info) else []) @ [pi_hops info]
       else [])"
  have 1: "(if \<not> pjon_local b \<and> flag ?h PJON_MODE_BIT
       then do { s \<leftarrow> emit_block (take 4 (ep_bus_id (pi_rx info))) (written w d);
                 s \<leftarrow> emit_when (flag ?h PJON_TX_INFO_BIT) (take 4 (ep_bus_id (pi_tx info))) s;
                 emit (pi_hops info) s }
       else Some (written w d)) = Some (written (w @ f) d)" if "length w + length f \<le> length d"
    using that l
    by (cases "pjon_local b"; cases "flag ?h PJON_MODE_BIT"; cases "flag ?h PJON_TX_INFO_BIT")
      (simp_all add: f_def written_simps)
  show ?thesis
    using assms(2) l unfolding compose_fields_def emitted_fields_def Let_def f_def [symmetric]
    by (simp add: 1 emit_when_written PJON_BROADCAST_def split del: if_split)
qed

lemma length_emitted_fields:
  assumes "wf_info info"
  shows "length (emitted_fields b info) + (if bit (pi_header info) 6 then 5 else 4)
           + unat (crc_overhead (pi_header info)) \<le> overhead_nat (pi_header info)"
  using assms
  by (simp add: emitted_fields_def overhead_nat_def crc_overhead_def
      Let_def flag_simps wf_info_def wf_endpoint_def)

lemma compose_sizing_final:
  "\<exists>e. compose_sizing (compose_normalise b info len) len =
         (final_info b info len, of_nat (final_length b info len), e) \<and>
       (e \<longrightarrow> flag (pi_header (final_info b info len)) PJON_EXT_LEN_BIT) \<and>
       (e \<longleftrightarrow> flag (pi_header (compose_normalise b info len)) PJON_EXT_LEN_BIT)"
proof -
  let ?h = "pi_header (compose_normalise b info len)"
  let ?h2 = "length_choice (crc_choice ?h len) len"
  have "len + ucast (packet_overhead ?h2) = of_nat (unat len + overhead_nat ?h2)"
    by (simp flip: unat_packet_overhead unat_ucast_u8_u16)
  moreover have "flag ?h PJON_EXT_LEN_BIT \<Longrightarrow> flag ?h2 PJON_EXT_LEN_BIT"
    by (simp add: length_choice_def flag_choice)
  ultimately show ?thesis
    by (simp add: final_length_def final_info_def compose_sizing_eq Let_def)
qed

text \<open>The initial fields, whichever of the two layouts the composer picks.\<close>

definition initial_bytes :: "packet_info \<Rightarrow> u16 \<Rightarrow> bool \<Rightarrow> u8 list" where
  "initial_bytes info n extended =
     (let m = [ep_id (pi_rx info), pi_header info] @ (if extended then [hi8 n, lo8 n] else [lo8 n])
      in m @ [crc8_compute m])"

lemma compose_initial_meta_any:
  "5 \<le> length d \<Longrightarrow>
   compose_initial_meta info n e (d, 0) = Some (written (initial_bytes info n e) d)"
  by (simp add: written_Nil compose_initial_meta_def written_simps initial_bytes_def)

lemma length_initial_bytes: "length (initial_bytes info n e) = (if e then 5 else 4)"
  by (simp add: initial_bytes_def Let_def)

lemma compose_check_total:
  assumes "unat n \<le> length d" "5 \<le> unat n"
  shows "\<exists>c. compose_check h n d = Some (take (unat n - length c) d @ c @ drop (unat n) d)
             \<and> length c = unat (crc_overhead h)"
proof -
  let ?w = "take (unat n - unat (crc_overhead h)) d"
  have c: "unat (crc_overhead h) \<le> 4" by (rule unat_crc_overhead_le)
  have "d = ?w @ drop (unat n - unat (crc_overhead h)) d" by simp
  then have "fst (written ?w d) = d"
    using assms by (simp add: written_def min_def)
  moreover have "compose_check h n (fst (written ?w d)) = Some (?w @ check_bytes h ?w @ drop (unat n) d)"
    using assms c by (intro compose_check_written) auto
  ultimately show ?thesis by (intro exI [of _ "check_bytes h ?w"]) simp
qed

lemma unat_of_nat_wrapped:
  "n < 131072 \<Longrightarrow> unat (of_nat n :: u16) = (if n < 65536 then n else n - 65536)"
  by (simp add: unat_of_nat mod_if)

lemma final_long_extended:
  assumes "final_length b info len < 65536" and "255 < final_length b info len"
  shows "flag (pi_header (final_info b info len)) PJON_EXT_LEN_BIT"
proof -
  let ?h1 = "crc_choice (pi_header (compose_normalise b info len)) len"
  have f: "pi_header (final_info b info len) = length_choice ?h1 len"
    by (simp add: final_info_def compose_sizing_eq Let_def)
  show ?thesis
  proof (rule ccontr)
    assume "\<not> flag (pi_header (final_info b info len)) PJON_EXT_LEN_BIT"
    then have h: "length_choice ?h1 len = ?h1" "\<not> len + ucast (packet_overhead ?h1) > 255"
      by (auto simp: f length_choice_def flag_set_crc split: if_splits)
    have "unat (len + ucast (packet_overhead ?h1)) = final_length b info len"
      using assms(1) by (simp add: final_length_def f h(1) unat_add_overhead)
    with h(2) assms(2) show False by (simp add: word_less_nat_alt)
  qed
qed

text \<open>The composer up to the payload, for a packet that passes the limit test.\<close>

lemma compose_until_payload:
  assumes wf: "wf_info info" and src: "unat len \<le> length source"
    and i: "compose_sizing (compose_normalise b info len) len = (i, n, e)"
    and e: "e \<longrightarrow> flag (pi_header i) PJON_EXT_LEN_BIT"
    and dst: "overhead_nat (pi_header i) \<le> length d" and lim: "unat n < packet_max_length b"
    and i': "i = final_info b info len"
  shows "\<exists>w. length w + unat (crc_overhead (pi_header i)) \<le> overhead_nat (pi_header i) \<and>
     take 5 (initial_bytes i n e) = take (length (initial_bytes i n e)) w \<and>
     length (initial_bytes i n e) \<le> length w \<and>
     tools_compose_packet b info d source len =
       do { s \<leftarrow> emit_block (take (unat len) source) (written w d);
            d' \<leftarrow> compose_check (pi_header i) n (fst s);
            Some (d', n) }"
proof (intro exI conjI)
  let ?w = "initial_bytes i n e @ emitted_fields b i"
  have wi: "wf_info i" using wf by (simp add: i')
  show b: "length ?w + unat (crc_overhead (pi_header i)) \<le> overhead_nat (pi_header i)"
    using length_emitted_fields [OF wi, of b] e
    by (cases e; cases "bit (pi_header i) 6") (simp_all add: length_initial_bytes flag_simps)
  have "5 \<le> length d" using dst overhead_nat_bounds(1) [of "pi_header i"] by simp
  then have "compose_initial_meta i n e (d, 0) = Some (written (initial_bytes i n e) d)"
    by (rule compose_initial_meta_any)
  moreover have "compose_fields b i (written (initial_bytes i n e) d) = Some (written ?w d)"
    using b dst by (intro compose_fields_emitted [OF wi]) simp
  moreover have "rd_block source 0 (unat len) = Some (take (unat len) source)"
    using src by (simp add: mem_defs)
  ultimately show "tools_compose_packet b info d source len =
       do { s \<leftarrow> emit_block (take (unat len) source) (written ?w d);
            d' \<leftarrow> compose_check (pi_header i) n (fst s);
            Some (d', n) }"
    using i lim by (simp add: tools_compose_packet_def)
qed (simp_all add: length_initial_bytes)

lemma compose_none_iff:
  assumes "wf_info info" and "unat len \<le> length source"
    and "length destination = packet_max_length b"
    and "40 \<le> packet_max_length b" "packet_max_length b \<le> 60000"
  shows "tools_compose_packet b info destination source len = None \<longleftrightarrow>
           65536 \<le> final_length b info len \<and> final_length b info len - 65536 < packet_max_length b"
proof -
  let ?i = "final_info b info len" and ?N = "final_length b info len"
  let ?n = "of_nat ?N :: u16" and ?o = "overhead_nat (pi_header (final_info b info len))"
  obtain e where siz: "compose_sizing (compose_normalise b info len) len = (?i, ?n, e)"
    and e: "e \<longrightarrow> flag (pi_header ?i) PJON_EXT_LEN_BIT"
    using compose_sizing_final by blast
  have o: "?o \<le> length destination" "5 \<le> ?o" "?o \<le> 35" "?N = unat len + ?o"
    using assms overhead_nat_bounds [of "pi_header ?i"] by (auto simp: final_length_def)
  have lt: "unat len < 65536" using unsigned_less [of len, where 'a = nat] by simp
  have n: "unat ?n = (if ?N < 65536 then ?N else ?N - 65536)"
    using o lt by (intro unat_of_nat_wrapped) simp
  show ?thesis
  proof (cases "unat ?n < packet_max_length b")
    case False
    then show ?thesis using siz n
      by (auto simp: tools_compose_packet_def split: if_splits)
  next
    case True
    obtain w where w: "length w + unat (crc_overhead (pi_header ?i)) \<le> ?o"
      and run: "tools_compose_packet b info destination source len =
       do { s \<leftarrow> emit_block (take (unat len) source) (written w destination);
            d' \<leftarrow> compose_check (pi_header ?i) ?n (fst s);
            Some (d', ?n) }"
      using compose_until_payload [OF assms(1,2) siz e o(1) True] by blast
    show ?thesis
    proof (cases "?N < 65536")
      case wrapped: False
      have "emit_block (take (unat len) source) (written w destination) = None"
        using wrapped o assms by (auto simp: emit_block_def written_def wr_block_def)
      then show ?thesis using run wrapped True n by simp
    next
      case False: True
      let ?p = "take (unat len) source"
      have lw: "length (w @ ?p) \<le> length destination" using w o n False True assms by auto
      then have em: "emit_block ?p (written w destination) = Some (written (w @ ?p) destination)"
        by (intro emit_block_written) simp
      have "length (fst (written (w @ ?p) destination)) = length destination"
        using lw by (simp add: written_def)
      then have "\<exists>c. compose_check (pi_header ?i) ?n (fst (written (w @ ?p) destination)) = Some c"
        using compose_check_total [of ?n "fst (written (w @ ?p) destination)"] n False True o assms(3)
        by fastforce
      then show ?thesis using run em False by auto
    qed
  qed
qed

text \<open>C7. For every packet description and payload, and a destination buffer of the size the code
  gives it (\<^verbatim>\<open>PJON_PACKET_MAX_LENGTH\<close>), the composer accesses memory out of bounds exactly when
  payload and overhead together wrap the 16 bit length around to a value below the limit: the limit is
  tested on the wrapped length and the payload is copied with its full length.\<close>

theorem compose_faults_iff_wrapped:
  assumes "wf_info info" and "unat len \<le> length source"
    and "length destination = packet_max_length b"
    and "40 \<le> packet_max_length b" "packet_max_length b \<le> 60000"
  shows "tools_compose_packet b info destination source len = None \<longleftrightarrow>
           65536 \<le> final_length b info len \<and> final_length b info len - 65536 < packet_max_length b"
  using assms by (rule compose_none_iff)

lemma compose_faults_iff_wrapped_witness:
  "tools_compose_packet default_build new_packet_info (replicate 50 0) (replicate 65535 0) 65535
     = None"
proof -
  define src :: "u8 list" where "src = replicate 65535 0"
  have "unat (65535 :: u16) \<le> length src" by (simp only: src_def length_replicate) simp
  moreover have "final_length default_build new_packet_info 65535 = 65556"
    by (simp add: final_length_def final_info_def compose_sizing_def compose_normalise_def
        new_packet_info_def default_build_def Let_def flag_def set_flag_def clear_flag_def
        packet_overhead_def overhead_nat_def new_endpoint_def const_defs)
  moreover have "packet_max_length default_build = 50" by (simp add: default_build_def)
  ultimately have "tools_compose_packet default_build new_packet_info (replicate 50 0) src 65535 = None"
    using compose_faults_iff_wrapped [of new_packet_info 65535 src "replicate 50 0" default_build]
    by simp
  then show ?thesis by (simp only: src_def)
qed

text \<open>A composed packet whose length crosses 255 only through its overhead announces an extended
  length in its header (\<^verbatim>\<open>PJON_EXT_LEN_BIT\<close>) but is laid out with a one byte length: the byte after
  the header is the low half of the length, and the next one already the CRC8 of the three first
  bytes, which a receiver reads as the low half of the length.\<close>

theorem compose_late_extension:
  assumes "wf_info info" and "unat len \<le> length source"
    and "length destination = packet_max_length b"
    and "final_length b info len < packet_max_length b" "final_length b info len < 65536"
    and "255 < final_length b info len"
    and "\<not> flag (pi_header (compose_normalise b info len)) PJON_EXT_LEN_BIT"
  shows "\<exists>d n. tools_compose_packet b info destination source len = Some (d, n) \<and>
           unat n = final_length b info len \<and> flag (d ! 1) PJON_EXT_LEN_BIT \<and>
           d ! 2 = lo8 n \<and> d ! 3 = crc8_compute (take 3 d)"
proof -
  let ?i = "final_info b info len" and ?N = "final_length b info len"
  let ?n = "of_nat ?N :: u16" and ?o = "overhead_nat (pi_header (final_info b info len))"
  let ?p = "take (unat len) source"
  have siz: "compose_sizing (compose_normalise b info len) len = (?i, ?n, False)"
    using compose_sizing_final [of b info len] assms(7) by auto
  have o: "?o \<le> length destination" "5 \<le> ?o" "?o \<le> 35" "?N = unat len + ?o"
    using assms overhead_nat_bounds [of "pi_header ?i"] by (auto simp: final_length_def)
  have n: "unat ?n = ?N" using assms(5) by (simp add: unat_of_nat_wrapped)
  have lim: "unat ?n < packet_max_length b" using n assms(4) by simp
  have nf: "False \<longrightarrow> flag (pi_header ?i) PJON_EXT_LEN_BIT" by simp
  obtain w where w: "length w + unat (crc_overhead (pi_header ?i)) \<le> ?o"
    and pre: "take 5 (initial_bytes ?i ?n False) = take (length (initial_bytes ?i ?n False)) w"
      "length (initial_bytes ?i ?n False) \<le> length w"
    and run: "tools_compose_packet b info destination source len =
       do { s \<leftarrow> emit_block ?p (written w destination);
            d' \<leftarrow> compose_check (pi_header ?i) ?n (fst s);
            Some (d', ?n) }"
    using compose_until_payload [OF assms(1,2) siz nf o(1) lim] by blast
  have lw: "length (w @ ?p) \<le> length destination" using w o assms by auto
  then have em: "emit_block ?p (written w destination) = Some (written (w @ ?p) destination)"
    by (intro emit_block_written) simp
  define f where "f = fst (written (w @ ?p) destination)"
  have lf: "length f = length destination" "take 4 f = take 4 w"
    using lw pre(2) by (simp_all add: f_def written_def length_initial_bytes)
  obtain c where c: "compose_check (pi_header ?i) ?n f = Some (take (?N - length c) f @ c @ drop ?N f)"
    and lc: "length c = unat (crc_overhead (pi_header ?i))"
    using compose_check_total [of ?n f "pi_header ?i"] n lf assms(3,4,6) by auto
  define d where "d = take (?N - length c) f @ c @ drop ?N f"
  have res: "tools_compose_packet b info destination source len = Some (d, ?n)"
    using run em c by (simp add: f_def d_def)
  have d4: "take 4 d = take 4 w"
    using lf lc assms(3,4,6) unat_crc_overhead_le [of "pi_header ?i"] by (auto simp: d_def min_def)
  have d4: "take 4 d = initial_bytes ?i ?n False"
    using pre d4 by (simp add: length_initial_bytes)
  have nth: "d ! k = initial_bytes ?i ?n False ! k" if "k < 4" for k
    using that by (simp flip: d4)
  have "take 3 d = take 3 (take 4 d)" by simp
  then have t3: "take 3 d = take 3 (initial_bytes ?i ?n False)" by (simp only: d4)
  have "flag (d ! 1) PJON_EXT_LEN_BIT"
    using final_long_extended [OF assms(5,6)] by (simp add: nth initial_bytes_def Let_def)
  moreover have "d ! 2 = lo8 ?n" "d ! 3 = crc8_compute (take 3 d)"
    by (simp_all add: nth t3) (simp_all add: initial_bytes_def Let_def)
  ultimately show ?thesis
    using n res by blast
qed

subsection \<open>The parser inverts the composer\<close>

text \<open>What a packet carries of its description: the fields its header announces, defaults otherwise.\<close>

definition wire_info :: "packet_info \<Rightarrow> packet_info" where
  "wire_info info =
     (let h = pi_header info in
      new_packet_info
        \<lparr> pi_rx := \<lparr> ep_id = ep_id (pi_rx info),
                     ep_bus_id = (if flag h PJON_MODE_BIT then ep_bus_id (pi_rx info) else localhost),
                     ep_mac = (if flag h PJON_MAC_BIT then ep_mac (pi_rx info) else no_mac) \<rparr>,
          pi_tx := \<lparr> ep_id = (if flag h PJON_TX_INFO_BIT then ep_id (pi_tx info)
                             else PJON_NOT_ASSIGNED),
                     ep_bus_id = (if flag h PJON_MODE_BIT \<and> flag h PJON_TX_INFO_BIT
                                  then ep_bus_id (pi_tx info) else localhost),
                     ep_mac = (if flag h PJON_MAC_BIT then ep_mac (pi_tx info) else no_mac) \<rparr>,
          pi_header := h,
          pi_hops := (if flag h PJON_MODE_BIT then pi_hops info else 0),
          pi_id := (if flag h PJON_PACKET_ID_BIT then pi_id info else 0),
          pi_port := (if flag h PJON_PORT_BIT then pi_port info else 0) \<rparr>)"

lemma fetch_ahead:
  assumes "drop i p = (if c then bs else []) @ rest" and "length bs = n" and "0 < n"
  shows "fetch_when c n p i = Some (if c then bs else [], if c then i + n else i)"
    and "drop (if c then i + n else i) p = rest"
proof -
  have "i + n \<le> length p" if c
  proof -
    have "length (drop i p) \<ge> n" using assms that by simp
    then show ?thesis using assms(3) by simp
  qed
  then show "fetch_when c n p i = Some (if c then bs else [], if c then i + n else i)"
    using assms by (cases c) (simp_all add: fetch_when_def rd_block_def)
  show "drop (if c then i + n else i) p = rest"
    using assms by (cases c) (simp_all add: add.commute [of i] flip: drop_drop)
qed

text \<open>The two parts of a description that the parser fills in one after the other.\<close>

definition wire_bus_ids :: "packet_info \<Rightarrow> packet_info \<Rightarrow> packet_info" where
  "wire_bus_ids info i =
     (let h = pi_header info in
      if flag h PJON_MODE_BIT
      then i\<lparr> pi_rx := (pi_rx i)\<lparr> ep_bus_id := ep_bus_id (pi_rx info) \<rparr>,
              pi_tx := (pi_tx i)\<lparr> ep_bus_id := (if flag h PJON_TX_INFO_BIT
                                                  then ep_bus_id (pi_tx info) else ep_bus_id (pi_tx i)) \<rparr>,
              pi_hops := pi_hops info \<rparr>
      else i)"

lemma parse_bus_ids_ahead:
  fixes info :: packet_info
  defines "mode \<equiv> flag (pi_header info) PJON_MODE_BIT"
    and "txi \<equiv> flag (pi_header info) PJON_TX_INFO_BIT"
  assumes wf: "wf_info info" and sup: "mode \<longrightarrow> \<not> pjon_local b"
    and h: "pi_header i = pi_header info"
    and p: "drop k p = (if mode then ep_bus_id (pi_rx info)
                          @ (if txi then ep_bus_id (pi_tx info) else []) @ [pi_hops info] else []) @ r"
  shows "\<exists>j. parse_bus_ids b p (i, k) = Some (wire_bus_ids info i, j) \<and> drop j p = r"
proof (cases mode)
  case False
  then show ?thesis using p h by (simp add: parse_bus_ids_def wire_bus_ids_def mode_def)
next
  case True
  have l: "length (ep_bus_id (pi_rx info)) = 4" "length (ep_bus_id (pi_tx info)) = 4"
    using wf by (simp_all add: wf_info_def wf_endpoint_def)
  let ?r1 = "(if txi then ep_bus_id (pi_tx info) else []) @ pi_hops info # r"
  have 1: "fetch_when True 4 p k = Some (ep_bus_id (pi_rx info), k + 4)" "drop (k + 4) p = ?r1"
    using fetch_ahead [of k p True "ep_bus_id (pi_rx info)" ?r1 4] p l True by simp_all
  let ?k = "if txi then k + 4 + 4 else k + 4"
  have 2: "fetch_when txi 4 p (k + 4) = Some (if txi then ep_bus_id (pi_tx info) else [], ?k)"
    "drop ?k p = pi_hops info # r"
    using fetch_ahead [OF 1(2) l(2)] by simp_all
  have 3: "fetch_when True 1 p ?k = Some ([pi_hops info], ?k + 1)" "drop (?k + 1) p = r"
    using fetch_ahead [of ?k p True "[pi_hops info]" r 1] 2(2) by simp_all
  have ne: "ep_bus_id (pi_tx info) \<noteq> []" using l(2) by auto
  show ?thesis
    using True sup ne 1(1) 2(1) 3 unfolding mode_def txi_def
    by (cases txi)
      (simp_all add: parse_bus_ids_def wire_bus_ids_def h txi_def)
qed

lemma parse_packet_image:
  assumes wf: "wf_info info" and sup: "header_supported b (pi_header info)"
    and mac: "include_mac b \<longrightarrow> flag (pi_header info) PJON_MAC_BIT"
  shows "parse_header b (packet_image info payload @ rest) = Some (wire_info info)"
proof -
  let ?h = "pi_header info" and ?p = "packet_image info payload @ rest"
  let ?ext = "flag ?h PJON_EXT_LEN_BIT"
  let ?mode = "flag ?h PJON_MODE_BIT" and ?txi = "flag ?h PJON_TX_INFO_BIT"
  let ?pid = "flag ?h PJON_PACKET_ID_BIT" and ?prt = "flag ?h PJON_PORT_BIT"
  let ?mac = "flag ?h PJON_MAC_BIT"
  let ?k = "2 + (if ?ext then 3 else 2) :: nat"
  have c: "include_packet_id b \<and> ?pid \<longleftrightarrow> ?pid" "include_port b \<and> ?prt \<longleftrightarrow> ?prt"
    "include_mac b \<longleftrightarrow> ?mac"
    using sup mac by (auto simp: header_supported_def)
  have sup': "?mode \<longrightarrow> \<not> pjon_local b" using sup by (simp add: header_supported_def)
  have l: "length (ep_mac (pi_rx info)) = 6" "length (ep_mac (pi_tx info)) = 6"
    using wf by (simp_all add: wf_info_def wf_endpoint_def)
  define r4 where "r4 = (if ?mac then ep_mac (pi_rx info) @ ep_mac (pi_tx info) else [])
                          @ payload @ check_bytes ?h (body_bytes info payload) @ rest"
  define r3 where "r3 = (if ?prt then [hi8 (pi_port info), lo8 (pi_port info)] else []) @ r4"
  define r2 where "r2 = (if ?pid then [hi8 (pi_id info), lo8 (pi_id info)] else []) @ r3"
  define r1 where "r1 = (if ?txi then [ep_id (pi_tx info)] else []) @ r2"
  define i0 where "i0 = new_packet_info\<lparr> pi_rx := (pi_rx new_packet_info)\<lparr> ep_id := ep_id (pi_rx info) \<rparr>,
                                          pi_header := ?h \<rparr>"
  have "drop ?k ?p = (if ?mode then ep_bus_id (pi_rx info)
      @ (if ?txi then ep_bus_id (pi_tx info) else []) @ [pi_hops info] else []) @ r1"
    by (simp add: packet_image_def body_bytes_def meta_bytes_def field_bytes_def Let_def
        r4_def r3_def r2_def r1_def)
  from parse_bus_ids_ahead [OF wf sup' _ this, of i0] obtain k1 where
    A: "parse_bus_ids b ?p (i0, ?k) = Some (wire_bus_ids info i0, k1)" "drop k1 ?p = r1"
    by (auto simp: i0_def)
  let ?k2 = "if ?txi then k1 + 1 else k1"
  have B: "fetch_when ?txi 1 ?p k1 = Some (if ?txi then [ep_id (pi_tx info)] else [], ?k2)"
    "drop ?k2 ?p = r2"
    using fetch_ahead [OF A(2) [unfolded r1_def], of 1] by simp_all
  let ?k3 = "if ?pid then ?k2 + 2 else ?k2"
  have C: "fetch_when ?pid 2 ?p ?k2 = Some (if ?pid then [hi8 (pi_id info), lo8 (pi_id info)] else [], ?k3)"
    "drop ?k3 ?p = r3"
    using fetch_ahead [OF B(2) [unfolded r2_def], of 2] by simp_all
  let ?k4 = "if ?prt then ?k3 + 2 else ?k3"
  have D: "fetch_when ?prt 2 ?p ?k3 = Some (if ?prt then [hi8 (pi_port info), lo8 (pi_port info)] else [], ?k4)"
    "drop ?k4 ?p = r4"
    using fetch_ahead [OF C(2) [unfolded r3_def], of 2] by simp_all
  have E: "fetch_when ?mac 12 ?p ?k4 = Some (if ?mac then ep_mac (pi_rx info) @ ep_mac (pi_tx info) else [],
      if ?mac then ?k4 + 12 else ?k4)"
    using fetch_ahead [OF D(2) [unfolded r4_def], of 12] l by simp
  have R: "rd ?p 0 = Some (ep_id (pi_rx info))" "rd ?p 1 = Some ?h"
    by (simp_all add: rd_def packet_image_def body_bytes_def meta_bytes_def Let_def)
  have ne: "ep_mac (pi_rx info) \<noteq> []" using l by auto
  have "parse_header b ?p =
    Some (let i = wire_bus_ids info i0;
              i = (if ?txi then i\<lparr> pi_tx := (pi_tx i)\<lparr> ep_id := ep_id (pi_tx info) \<rparr> \<rparr> else i);
              i = (if ?pid then i\<lparr> pi_id := pi_id info \<rparr> else i);
              i = (if ?prt then i\<lparr> pi_port := pi_port info \<rparr> else i)
          in if ?mac then i\<lparr> pi_rx := (pi_rx i)\<lparr> ep_mac := ep_mac (pi_rx info) \<rparr>,
                             pi_tx := (pi_tx i)\<lparr> ep_mac := ep_mac (pi_tx info) \<rparr> \<rparr> else i)"
    using ne l unfolding parse_header_def Let_def R i0_def [symmetric] Option.bind.simps A(1)
      prod.case c B(1) C(1) D(1) E
    by (cases ?txi; cases ?pid; cases ?prt; cases ?mac) simp_all
  then show ?thesis
    by (simp add: wire_info_def Let_def wire_bus_ids_def i0_def new_packet_info_def new_endpoint_def
        localhost_def no_mac_def PJON_BROADCAST_def)
qed

text \<open>A one byte packet from device 45 to device 12, used where a theorem is applied to a concrete packet.\<close>

definition sample_info :: packet_info where
  "sample_info = new_packet_info\<lparr> pi_header := 0x06, pi_tx := new_endpoint\<lparr> ep_id := 45 \<rparr>,
                                  pi_rx := new_endpoint\<lparr> ep_id := 12 \<rparr> \<rparr>"

lemma sample_fits:
  "final_info default_build sample_info 1 = sample_info"
  "final_length default_build sample_info 1 = 7"
  "fits default_build sample_info 1" "wf_info sample_info" "pi_header sample_info = 0x06"
proof -
  show f: "final_info default_build sample_info 1 = sample_info"
    by (simp add: final_info_def compose_sizing_def compose_normalise_def default_build_def
        new_packet_info_def flag_def packet_overhead_def const_defs new_endpoint_def sample_info_def)
  show h: "pi_header sample_info = 0x06" by (simp add: sample_info_def)
  show l: "final_length default_build sample_info 1 = 7"
    by (simp add: final_length_def f overhead_nat_def h)
  show "fits default_build sample_info 1"
    by (simp add: fits_def l f h header_supported_def flag_simps)
  show "wf_info sample_info"
    by (simp add: wf_info_def wf_endpoint_def new_endpoint_def sample_info_def)
qed

text \<open>C8. The composer refines the reference packet: whenever the description fits, it produces exactly
  the fields in the order of the specification, with both checks, at the start of the destination, and
  leaves the rest of the destination alone.\<close>

theorem compose_packet_refines:
  assumes "wf_info info" and "fits b info len" and "unat len \<le> length source"
    and "final_length b info len \<le> length destination"
  shows "tools_compose_packet b info destination source len =
           Some (packet_image (final_info b info len) (take (unat len) source)
                   @ drop (final_length b info len) destination,
                 of_nat (final_length b info len))"
  using assms by (rule compose_refines_image)

lemma compose_packet_refines_witness:
  "tools_compose_packet default_build sample_info (replicate 50 0) [64] 1
    = Some (packet_image sample_info [64] @ replicate 43 0, 7)"
  using compose_packet_refines [of sample_info default_build 1 "[64]" "replicate 50 0"] sample_fits
  by (simp add: numeral_eq_Suc)

text \<open>C9. Round trip: parsing what the composer wrote gives back every field the final header announces
  (and the defaults for the others), for every header a build supports.\<close>

theorem parse_compose_roundtrip:
  assumes "wf_info info" and "fits b info len" and "unat len \<le> length source"
    and "final_length b info len \<le> length destination"
    and "include_mac b \<longrightarrow> flag (pi_header (final_info b info len)) PJON_MAC_BIT"
  shows "\<exists>packet n. tools_compose_packet b info destination source len = Some (packet, n) \<and>
           parse_header b packet = Some (wire_info (final_info b info len))"
  using compose_refines_image [OF assms(1-4)] parse_packet_image [of "final_info b info len" b] assms(1,2,5)
  by (auto simp: fits_def)

lemma parse_compose_roundtrip_witness:
  "\<exists>packet n. tools_compose_packet default_build (new_packet_info\<lparr> pi_header := 0x07 \<rparr>)
                (replicate 50 0) [64] 1 = Some (packet, n) \<and>
     parse_header default_build packet
       = Some (wire_info (final_info default_build (new_packet_info\<lparr> pi_header := 0x07 \<rparr>) 1))"
proof -
  let ?i = "new_packet_info\<lparr> pi_header := 0x07 \<rparr>"
  have f: "final_info default_build ?i 1 = ?i\<lparr> pi_header := 0x27 \<rparr>"
    by (simp add: final_info_def compose_sizing_def compose_normalise_def default_build_def
        new_packet_info_def flag_def set_flag_def packet_overhead_def const_defs new_endpoint_def)
  moreover have l: "final_length default_build ?i 1 = 19"
    by (simp add: final_length_def f overhead_nat_def)
  moreover have "fits default_build ?i 1"
    by (simp add: fits_def l f header_supported_def flag_simps)
  moreover have "wf_info ?i"
    by (simp add: wf_info_def wf_endpoint_def new_endpoint_def new_packet_info_def)
  moreover have "\<not> include_mac default_build" by (simp add: default_build_def)
  ultimately show ?thesis
    by (intro parse_compose_roundtrip) simp_all
qed

lemma compose_late_extension_witness:
  "\<exists>d n. tools_compose_packet (default_build\<lparr> packet_max_length := 400 \<rparr>)
            (new_packet_info\<lparr> pi_header := 0x06 \<rparr>) (replicate 400 0) (replicate 250 0) 250 = Some (d, n) \<and>
     unat n = final_length (default_build\<lparr> packet_max_length := 400 \<rparr>)
                (new_packet_info\<lparr> pi_header := 0x06 \<rparr>) 250 \<and>
     flag (d ! 1) PJON_EXT_LEN_BIT \<and> d ! 2 = lo8 n \<and> d ! 3 = crc8_compute (take 3 d)"
proof -
  let ?i = "new_packet_info\<lparr> pi_header := 0x06 \<rparr>" and ?b = "default_build\<lparr> packet_max_length := 400 \<rparr>"
  define src :: "u8 list" where "src = replicate 250 0"
  define dst :: "u8 list" where "dst = replicate 400 0"
  have len: "length src = 250" "length dst = 400"
    by (simp_all only: src_def dst_def length_replicate)
  have f: "final_info ?b ?i 250 = ?i\<lparr> pi_header := 0x66 \<rparr>"
    by (simp add: final_info_def compose_sizing_def compose_normalise_def default_build_def
        new_packet_info_def flag_def set_flag_def clear_flag_def packet_overhead_def const_defs new_endpoint_def)
  moreover have l: "final_length ?b ?i 250 = 260"
    by (simp add: final_length_def f overhead_nat_def)
  moreover have "wf_info ?i"
    by (simp add: wf_info_def wf_endpoint_def new_endpoint_def new_packet_info_def)
  moreover have "\<not> flag (pi_header (compose_normalise ?b ?i 250)) PJON_EXT_LEN_BIT"
    by (simp add: compose_normalise_def default_build_def new_packet_info_def flag_def const_defs new_endpoint_def)
  ultimately have "\<exists>d n. tools_compose_packet ?b ?i dst src 250 = Some (d, n) \<and>
     unat n = final_length ?b ?i 250 \<and>
     flag (d ! 1) PJON_EXT_LEN_BIT \<and> d ! 2 = lo8 n \<and> d ! 3 = crc8_compute (take 3 d)"
    using len by (intro compose_late_extension) simp_all
  then show ?thesis by (simp only: src_def dst_def)
qed

end
