(* ===== verification/Strategy.thy ===== *)
theory Strategy
  imports Codec
begin

text \<open>
  The interface between a bus and the world: the platform functions of \<^verbatim>\<open>src/interfaces\<close>
  (\<^verbatim>\<open>PJON_MICROS\<close>, \<^verbatim>\<open>PJON_DELAY\<close>, \<^verbatim>\<open>PJON_RANDOM\<close>, ...) and the members of the \<^verbatim>\<open>Strategy\<close>
  template parameter of \<^verbatim>\<open>PJON<Strategy>\<close> (\<^verbatim>\<open>src/strategies/README.md\<close>).  Both act on a state \<open>'s\<close> that
  holds the strategy object's own fields and whatever it talks to.

  \<open>st_receive_frame max s\<close> is the call \<^verbatim>\<open>strategy.receive_frame(p, max)\<close>: its value, the bytes it
  stored from \<^verbatim>\<open>p\<close> on, and the new state.  A strategy that stores more than it may is caught by the
  caller, whose buffer write then faults.
\<close>

record 's platform =
  pf_micros :: "'s \<Rightarrow> u32 \<times> 's"
  pf_delay :: "u32 \<Rightarrow> 's \<Rightarrow> 's"
  pf_random :: "u32 \<Rightarrow> 's \<Rightarrow> u32 \<times> 's"
  pf_random_seed :: "u32 \<Rightarrow> 's \<Rightarrow> 's"
  pf_analog_read :: "u8 \<Rightarrow> 's \<Rightarrow> u16 \<times> 's"

record 's strategy = "'s platform" +
  st_begin :: "u8 \<Rightarrow> 's \<Rightarrow> bool \<times> 's"
  st_back_off :: "u8 \<Rightarrow> 's \<Rightarrow> u32 \<times> 's"
  st_can_start :: "'s \<Rightarrow> bool \<times> 's"
  st_max_attempts :: u8
  st_receive_time :: u16
  st_handle_collision :: "'s \<Rightarrow> 's"
  st_receive_frame :: "u16 \<Rightarrow> 's \<Rightarrow> u16 \<times> u8 list \<times> 's"
  st_receive_response :: "'s \<Rightarrow> u16 \<times> 's"
  st_send_response :: "u16 \<Rightarrow> 's \<Rightarrow> 's"
  st_send_frame :: "u8 list \<Rightarrow> 's \<Rightarrow> 's"

text \<open>
  The contract the receiver of a bus relies on: with an invariant \<open>ok\<close> of the strategy object, a frame
  never overruns the space it is given (a bus never asks for 0 bytes), and no operation breaks the invariant.
\<close>

locale bounded_strategy =
  fixes st :: "'s strategy" and ok :: "'s \<Rightarrow> bool"
  assumes frame_fits: "ok s \<Longrightarrow> n \<noteq> 0 \<Longrightarrow> st_receive_frame st n s = (r, bs, s') \<Longrightarrow> length bs \<le> unat n"
    and frame_ok: "ok s \<Longrightarrow> st_receive_frame st n s = (r, bs, s') \<Longrightarrow> ok s'"
    and response_ok: "ok s \<Longrightarrow> ok (st_send_response st c s)"

text \<open>The smallest strategy: a clock, a medium that is always free, and nothing ever received.\<close>

definition idle_strategy :: "nat strategy" where
  "idle_strategy =
     \<lparr> pf_micros = (\<lambda>t. (of_nat t, t + 1)), pf_delay = (\<lambda>ms t. t + 1000 * unat ms),
       pf_random = (\<lambda>n t. (0, t)), pf_random_seed = (\<lambda>n t. t), pf_analog_read = (\<lambda>p t. (0, t)),
       st_begin = (\<lambda>d t. (True, t)), st_back_off = (\<lambda>a t. (1, t)), st_can_start = (\<lambda>t. (True, t)),
       st_max_attempts = 10, st_receive_time = 0, st_handle_collision = (\<lambda>t. t),
       st_receive_frame = (\<lambda>n t. (PJON_FAIL, [], t)), st_receive_response = (\<lambda>t. (PJON_ACK, t)),
       st_send_response = (\<lambda>c t. t), st_send_frame = (\<lambda>f t. t) \<rparr>"

end
