(* ===== verification/Bus.thy ===== *)
theory Bus
  imports Strategy
begin

text \<open>
  \<^verbatim>\<open>class PJON<Strategy>\<close> of \<^verbatim>\<open>src/PJON.h\<close>: the state of a bus, its configuration, and the packet
  buffer.  The user callbacks \<^verbatim>\<open>_receiver\<close> and \<^verbatim>\<open>_error\<close> are recorded as events in the order the code
  calls them; what user code does inside of them is outside of the model.
\<close>

subsection \<open>State\<close>

datatype bus_event =
    Received "u8 list" u16 packet_info
  | Error u8 u16 nat

record 's pjon =
  pj_strategy :: 's
  pj_config :: u8
  pj_data :: "u8 list"
  pj_last_packet_info :: packet_info
  pj_packets :: "packet list"
  pj_tx :: endpoint
  pj_recent_packet_ids :: "packet_record list"
  pj_port :: u16
  pj_auto_delete :: bool
  pj_custom_pointer :: nat
  pj_mode :: bool
  pj_packet_id_seed :: u16
  pj_random_seed :: u8
  pj_recursion :: u8
  pj_router :: bool
  pj_events :: "bus_event list"

text \<open>
  Array members without an initialiser hold arbitrary bytes in C++; \<open>junk\<close> is their content, so that
  what is proved holds whatever it is.
\<close>

definition new_packet :: "u8 list \<Rightarrow> packet" where
  "new_packet junk =
     \<lparr> pk_attempts = 0, pk_content = junk, pk_length = 0, pk_registration = 0, pk_state = 0,
       pk_timing = 0 \<rparr>"

definition set_default :: "'s pjon \<Rightarrow> 's pjon" where
  "set_default bus = bus\<lparr> pj_mode := PJON_HALF_DUPLEX \<rparr>"

definition new_pjon ::
  "build \<Rightarrow> u8 list \<Rightarrow> packet_record list \<Rightarrow> u8 \<Rightarrow> 's \<Rightarrow> 's pjon" where
  "new_pjon b junk records a0 s = set_default
     \<lparr> pj_strategy = s, pj_config = PJON_TX_INFO_BIT OR PJON_ACK_REQ_BIT, pj_data = junk,
       pj_last_packet_info = new_packet_info,
       pj_packets = replicate (max_packets b) (new_packet junk), pj_tx = new_endpoint,
       pj_recent_packet_ids = records, pj_port = ucast PJON_BROADCAST, pj_auto_delete = True,
       pj_custom_pointer = 0, pj_mode = PJON_HALF_DUPLEX, pj_packet_id_seed = 0,
       pj_random_seed = a0, pj_recursion = 0, pj_router = False, pj_events = [] \<rparr>"

definition new_pjon_id ::
  "build \<Rightarrow> u8 list \<Rightarrow> packet_record list \<Rightarrow> u8 \<Rightarrow> 's \<Rightarrow> u8 \<Rightarrow> 's pjon" where
  "new_pjon_id b junk records a0 s device_id =
     (let bus = new_pjon b junk records a0 s
      in set_default (bus\<lparr> pj_tx := (pj_tx bus)\<lparr> ep_id := device_id \<rparr> \<rparr>))"

definition new_pjon_bus ::
  "build \<Rightarrow> u8 list \<Rightarrow> packet_record list \<Rightarrow> u8 \<Rightarrow> 's \<Rightarrow> u8 list \<Rightarrow> u8 \<Rightarrow> 's pjon" where
  "new_pjon_bus b junk records a0 s b_id device_id =
     (let bus = new_pjon b junk records a0 s;
          bus = bus\<lparr> pj_tx := (pj_tx bus)\<lparr> ep_id := device_id,
                      ep_bus_id := copy_id (ep_bus_id (pj_tx bus)) b_id 4 \<rparr> \<rparr>
      in set_default (bus\<lparr> pj_config := pj_config bus OR PJON_MODE_BIT \<rparr>))"

definition new_pjon_mac ::
  "build \<Rightarrow> u8 list \<Rightarrow> packet_record list \<Rightarrow> u8 \<Rightarrow> 's \<Rightarrow> u8 list \<Rightarrow> 's pjon" where
  "new_pjon_mac b junk records a0 s mac_addr =
     (let bus = new_pjon b junk records a0 s;
          bus = bus\<lparr> pj_tx := (pj_tx bus)\<lparr> ep_mac := copy_id (ep_mac (pj_tx bus)) mac_addr 6 \<rparr> \<rparr>
      in set_default (bus\<lparr> pj_config := pj_config bus OR PJON_MAC_BIT \<rparr>))"

text \<open>What the arrays of a bus satisfy from its construction on.\<close>

definition wf_bus :: "build \<Rightarrow> 's pjon \<Rightarrow> bool" where
  "wf_bus b bus \<longleftrightarrow>
     length (pj_data bus) = packet_max_length b \<and>
     length (pj_packets bus) = max_packets b \<and>
     (\<forall>p \<in> set (pj_packets bus). length (pk_content p) = packet_max_length b) \<and>
     length (pj_recent_packet_ids bus) = max_recent_packet_ids b \<and>
     (\<forall>r \<in> set (pj_recent_packet_ids bus). length (pr_sender_bus_id r) = 4) \<and>
     wf_endpoint (pj_tx bus) \<and> wf_info (pj_last_packet_info bus)"

subsection \<open>Access to the strategy and the callbacks\<close>

definition with_strategy :: "('s \<Rightarrow> 'a \<times> 's) \<Rightarrow> 's pjon \<Rightarrow> 'a \<times> 's pjon" where
  "with_strategy f bus = (let (x, s) = f (pj_strategy bus) in (x, bus\<lparr> pj_strategy := s \<rparr>))"

definition on_strategy :: "('s \<Rightarrow> 's) \<Rightarrow> 's pjon \<Rightarrow> 's pjon" where
  "on_strategy f bus = bus\<lparr> pj_strategy := f (pj_strategy bus) \<rparr>"

definition emit_event :: "bus_event \<Rightarrow> 's pjon \<Rightarrow> 's pjon" where
  "emit_event e bus = bus\<lparr> pj_events := pj_events bus @ [e] \<rparr>"

definition raise_error :: "u8 \<Rightarrow> u16 \<Rightarrow> 's pjon \<Rightarrow> 's pjon" where
  "raise_error code arg bus = emit_event (Error code arg (pj_custom_pointer bus)) bus"

subsection \<open>Configuration\<close>

definition set_config_bit :: "bool \<Rightarrow> u8 \<Rightarrow> 's pjon \<Rightarrow> 's pjon" where
  "set_config_bit new_state b bus =
     (if new_state then bus\<lparr> pj_config := pj_config bus OR b \<rparr>
      else bus\<lparr> pj_config := pj_config bus AND NOT b \<rparr>)"

definition set_acknowledge :: "bool \<Rightarrow> 's pjon \<Rightarrow> 's pjon" where
  "set_acknowledge state = set_config_bit state PJON_ACK_REQ_BIT"

definition set_crc_32 :: "bool \<Rightarrow> 's pjon \<Rightarrow> 's pjon" where
  "set_crc_32 state = set_config_bit state PJON_CRC_BIT"

definition include_sender_info :: "bool \<Rightarrow> 's pjon \<Rightarrow> 's pjon" where
  "include_sender_info state = set_config_bit state PJON_TX_INFO_BIT"

definition include_mac_bit :: "bool \<Rightarrow> 's pjon \<Rightarrow> 's pjon" where
  "include_mac_bit state = set_config_bit state PJON_MAC_BIT"

definition set_shared_network :: "bool \<Rightarrow> 's pjon \<Rightarrow> 's pjon" where
  "set_shared_network state = set_config_bit state PJON_MODE_BIT"

definition set_packet_id :: "bool \<Rightarrow> 's pjon \<Rightarrow> 's pjon" where
  "set_packet_id state = set_config_bit state PJON_PACKET_ID_BIT"

definition set_port :: "u16 \<Rightarrow> 's pjon \<Rightarrow> 's pjon" where
  "set_port p bus = (set_config_bit (p \<noteq> 0) PJON_PORT_BIT bus)\<lparr> pj_port := p \<rparr>"

definition set_communication_mode :: "bool \<Rightarrow> 's pjon \<Rightarrow> 's pjon" where
  "set_communication_mode mode bus = bus\<lparr> pj_mode := mode \<rparr>"

definition set_custom_pointer :: "nat \<Rightarrow> 's pjon \<Rightarrow> 's pjon" where
  "set_custom_pointer pointer bus = bus\<lparr> pj_custom_pointer := pointer \<rparr>"

definition set_id :: "u8 \<Rightarrow> 's pjon \<Rightarrow> 's pjon" where
  "set_id i bus = bus\<lparr> pj_tx := (pj_tx bus)\<lparr> ep_id := i \<rparr> \<rparr>"

definition set_bus_id :: "u8 list \<Rightarrow> 's pjon \<Rightarrow> 's pjon" where
  "set_bus_id b_id bus =
     bus\<lparr> pj_tx := (pj_tx bus)\<lparr> ep_bus_id := copy_id (ep_bus_id (pj_tx bus)) b_id 4 \<rparr> \<rparr>"

definition set_mac :: "u8 list \<Rightarrow> 's pjon \<Rightarrow> 's pjon" where
  "set_mac mac bus =
     bus\<lparr> pj_tx := (pj_tx bus)\<lparr> ep_mac := copy_id (ep_mac (pj_tx bus)) mac 6 \<rparr> \<rparr>"

definition get_mac :: "'s pjon \<Rightarrow> u8 list" where
  "get_mac bus = ep_mac (pj_tx bus)"

definition get_bus_id :: "'s pjon \<Rightarrow> u8 list" where
  "get_bus_id bus = ep_bus_id (pj_tx bus)"

definition device_id :: "'s pjon \<Rightarrow> u8" where
  "device_id bus = ep_id (pj_tx bus)"

definition set_packet_auto_deletion :: "bool \<Rightarrow> 's pjon \<Rightarrow> 's pjon" where
  "set_packet_auto_deletion state bus = bus\<lparr> pj_auto_delete := state \<rparr>"

definition set_random_seed :: "u8 \<Rightarrow> 's pjon \<Rightarrow> 's pjon" where
  "set_random_seed seed bus = bus\<lparr> pj_random_seed := seed \<rparr>"

definition set_router :: "bool \<Rightarrow> 's pjon \<Rightarrow> 's pjon" where
  "set_router state bus = bus\<lparr> pj_router := state \<rparr>"

definition begin_bus :: "'s strategy \<Rightarrow> build \<Rightarrow> 's pjon \<Rightarrow> 's pjon" where
  "begin_bus st b bus =
     (let (a, bus) = with_strategy (pf_analog_read st (pj_random_seed bus)) bus;
          bus = on_strategy (pf_random_seed st (ucast a + ucast (ep_id (pj_tx bus)))) bus;
          (ok, bus) = with_strategy (st_begin st (ep_id (pj_tx bus))) bus
      in if include_packet_id b
         then let (r, bus) = with_strategy (pf_random st 65535) bus
              in bus\<lparr> pj_packet_id_seed := ucast r + ucast (ep_id (pj_tx bus)) \<rparr>
         else bus)"

end
