(* ===== verification/Packet_Buffer.thy ===== *)
theory Packet_Buffer
  imports Bus
begin

text \<open>
  The packet buffer of \<^verbatim>\<open>src/PJON.h\<close>: composing into a slot, dispatching, counting, removing and
  resetting packets, and the calls that only fill a description and dispatch it.
\<close>

subsection \<open>Composing\<close>

definition packet_overhead_of :: "u8 \<Rightarrow> 's pjon \<Rightarrow> u8" where
  "packet_overhead_of header bus =
     packet_overhead (if header = PJON_NO_HEADER then pj_config bus else header)"

text \<open>What the bus adds to a description: default header, sender, packet id and port.\<close>

definition outgoing_info :: "build \<Rightarrow> packet_info \<Rightarrow> 's pjon \<Rightarrow> packet_info \<times> 's pjon" where
  "outgoing_info b info bus =
     (let info = info\<lparr> pi_header := (if pi_header info = PJON_NO_HEADER then pj_config bus
                                     else pi_header info) \<rparr>;
          info = info\<lparr> pi_tx := pj_tx bus \<rparr>;
          (info, bus) =
            (if include_packet_id b \<and> pi_id info = 0 \<and> flag (pi_header info) PJON_PACKET_ID_BIT
             then (info\<lparr> pi_id := new_packet_id (pj_packet_id_seed bus) \<rparr>,
                   bus\<lparr> pj_packet_id_seed := pj_packet_id_seed bus + 1 \<rparr>)
             else (info, bus));
          info = (if include_port b \<and> pj_port bus \<noteq> ucast PJON_BROADCAST \<and>
                     pi_port info = ucast PJON_BROADCAST \<and> flag (pi_header info) PJON_PORT_BIT
                  then info\<lparr> pi_port := pj_port bus \<rparr> else info);
          info = (if include_mac b \<and> flag (pi_header info) PJON_MAC_BIT
                  then info\<lparr> pi_tx := (pi_tx info)\<lparr> ep_mac :=
                               copy_id (ep_mac (pi_tx info)) (ep_mac (pj_tx bus)) 6 \<rparr> \<rparr>
                  else info)
      in (info, bus))"

text \<open>The result is the buffer, the length (0 after an error) and the bus.\<close>

definition compose_packet ::
  "build \<Rightarrow> packet_info \<Rightarrow> u8 list \<Rightarrow> u8 list \<Rightarrow> u16 \<Rightarrow> 's pjon
     \<Rightarrow> (u8 list \<times> u16 \<times> 's pjon) option" where
  "compose_packet b info destination source len bus =
     (let (info, bus) = outgoing_info b info bus in
      do { (destination, l) \<leftarrow> tools_compose_packet b info destination source len;
           if unat l < packet_max_length b then Some (destination, l, bus)
           else Some (destination, 0, raise_error PJON_CONTENT_TOO_LONG l bus) })"

subsection \<open>Dispatching\<close>

definition fill_info :: "build \<Rightarrow> 's pjon \<Rightarrow> u8 \<Rightarrow> u8 \<Rightarrow> u16 \<Rightarrow> u16 \<Rightarrow> packet_info" where
  "fill_info b bus rx_id header packet_id rx_port =
     (let info = new_packet_info;
          info = info\<lparr> pi_rx := (pi_rx info)\<lparr> ep_id := rx_id \<rparr>, pi_header := header \<rparr>;
          info = info\<lparr> pi_rx := (pi_rx info)\<lparr> ep_bus_id :=
                         copy_id (ep_bus_id (pi_rx info)) (ep_bus_id (pj_tx bus)) 4 \<rparr> \<rparr>;
          info = (if include_packet_id b then info\<lparr> pi_id := packet_id \<rparr> else info)
      in if include_port b then info\<lparr> pi_port := rx_port \<rparr> else info)"

text \<open>
  The loop of \<^verbatim>\<open>dispatch\<close> over the slots \<open>i, i + 1, \<dots>\<close>; \<open>k\<close> of them are left.  The first slot that
  is free, or the requested one, is composed into and the loop returns.
\<close>

definition store_packet ::
  "'s strategy \<Rightarrow> build \<Rightarrow> packet_info \<Rightarrow> u8 list \<Rightarrow> u16 \<Rightarrow> u32 \<Rightarrow> nat \<Rightarrow> 's pjon
     \<Rightarrow> (u16 \<times> 's pjon) option" where
  "store_packet st b info payload len timing i bus =
     do { (content, l, bus) \<leftarrow>
            compose_packet b info (pk_content (pj_packets bus ! i)) payload len bus;
          let p = (pj_packets bus ! i)\<lparr> pk_content := content \<rparr>;
          if l = 0 then Some (PJON_FAIL, bus\<lparr> pj_packets := (pj_packets bus)[i := p] \<rparr>)
          else (let (now, bus) = with_strategy (pf_micros st) bus;
                    p = p\<lparr> pk_length := l, pk_state := PJON_TO_BE_SENT, pk_registration := now,
                           pk_timing := timing \<rparr>
                in Some (of_nat i, bus\<lparr> pj_packets := (pj_packets bus)[i := p] \<rparr>)) }"

fun dispatch_loop ::
  "'s strategy \<Rightarrow> build \<Rightarrow> packet_info \<Rightarrow> u8 list \<Rightarrow> u16 \<Rightarrow> u32 \<Rightarrow> bool \<Rightarrow> nat \<Rightarrow> nat
     \<Rightarrow> 's pjon \<Rightarrow> (u16 \<times> 's pjon) option" where
  "dispatch_loop st b info payload len timing p i 0 bus =
     Some (PJON_FAIL, raise_error PJON_PACKETS_BUFFER_FULL (of_nat (max_packets b)) bus)"
| "dispatch_loop st b info payload len timing p i (Suc k) bus =
     (if pk_state (pj_packets bus ! i) = 0 \<or> p
      then store_packet st b info payload len timing i bus
      else dispatch_loop st b info payload len timing p (Suc i) k bus)"

definition dispatch ::
  "'s strategy \<Rightarrow> build \<Rightarrow> packet_info \<Rightarrow> u8 list \<Rightarrow> u16 \<Rightarrow> u32 \<Rightarrow> u16 \<Rightarrow> 's pjon
     \<Rightarrow> (u16 \<times> 's pjon) option" where
  "dispatch st b info payload len timing packet_index bus =
     (let p = (packet_index \<noteq> PJON_FAIL);
          i = (if p then unat packet_index else 0)
      in dispatch_loop st b info payload len timing p i (max_packets b - i) bus)"

text \<open>\<^verbatim>\<open>send\<close> and \<^verbatim>\<open>send_repeatedly\<close>, each with a description or with its fields.\<close>

definition send_info ::
  "'s strategy \<Rightarrow> build \<Rightarrow> packet_info \<Rightarrow> u8 list \<Rightarrow> u16 \<Rightarrow> 's pjon \<Rightarrow> (u16 \<times> 's pjon) option" where
  "send_info st b info payload len bus = dispatch st b info payload len 0 PJON_FAIL bus"

definition send ::
  "'s strategy \<Rightarrow> build \<Rightarrow> u8 \<Rightarrow> u8 list \<Rightarrow> u16 \<Rightarrow> u8 \<Rightarrow> u16 \<Rightarrow> u16 \<Rightarrow> 's pjon
     \<Rightarrow> (u16 \<times> 's pjon) option" where
  "send st b rx_id payload len header packet_id rx_port bus =
     dispatch st b (fill_info b bus rx_id header packet_id rx_port) payload len 0 PJON_FAIL bus"

definition send_repeatedly_info ::
  "'s strategy \<Rightarrow> build \<Rightarrow> packet_info \<Rightarrow> u8 list \<Rightarrow> u16 \<Rightarrow> u32 \<Rightarrow> 's pjon
     \<Rightarrow> (u16 \<times> 's pjon) option" where
  "send_repeatedly_info st b info payload len timing bus =
     dispatch st b info payload len timing PJON_FAIL bus"

definition send_repeatedly ::
  "'s strategy \<Rightarrow> build \<Rightarrow> u8 \<Rightarrow> u8 list \<Rightarrow> u16 \<Rightarrow> u32 \<Rightarrow> u8 \<Rightarrow> u16 \<Rightarrow> u16 \<Rightarrow> 's pjon
     \<Rightarrow> (u16 \<times> 's pjon) option" where
  "send_repeatedly st b rx_id payload len timing header packet_id rx_port bus =
     dispatch st b (fill_info b bus rx_id header packet_id rx_port) payload len timing PJON_FAIL bus"

text \<open>The answer to the last packet received.\<close>

definition reply_info :: "build \<Rightarrow> 's pjon \<Rightarrow> packet_info" where
  "reply_info b bus =
     (let info = pj_last_packet_info bus;
          info = info\<lparr> pi_rx := pi_tx info \<rparr>;
          info = info\<lparr> pi_header := pj_config bus \<rparr>
      in if pjon_local b then info else info\<lparr> pi_hops := 0 \<rparr>)"

definition reply ::
  "'s strategy \<Rightarrow> build \<Rightarrow> u8 list \<Rightarrow> u16 \<Rightarrow> 's pjon \<Rightarrow> (u16 \<times> 's pjon) option" where
  "reply st b payload len bus = dispatch st b (reply_info b bus) payload len 0 PJON_FAIL bus"

text \<open>
  \<^verbatim>\<open>forward\<close>: the bus sends under the original sender's identity and restores its own; a packet
  that passed too many hops is refused before that.
\<close>

definition forward ::
  "'s strategy \<Rightarrow> build \<Rightarrow> packet_info \<Rightarrow> u8 list \<Rightarrow> u16 \<Rightarrow> 's pjon \<Rightarrow> (u16 \<times> 's pjon) option" where
  "forward st b info payload len bus =
     (let original_end_point = pj_tx bus;
          bus = bus\<lparr> pj_tx := pi_tx info \<rparr>;
          info = (if pjon_local b then info else info\<lparr> pi_hops := pi_hops info + 1 \<rparr>)
      in if \<not> pjon_local b \<and> pi_hops info > max_hops b then Some (PJON_FAIL, bus)
         else do { (result, bus) \<leftarrow> dispatch st b info payload len 0 PJON_FAIL bus;
                   Some (result, bus\<lparr> pj_tx := original_end_point \<rparr>) })"

subsection \<open>Counting, removing, resetting\<close>

definition get_packets_count :: "u8 \<Rightarrow> 's pjon \<Rightarrow> u16" where
  "get_packets_count dev bus =
     foldl (\<lambda>packets_count p.
              if pk_state p = 0 then packets_count
              else if dev = PJON_NOT_ASSIGNED \<or> pk_content p ! 0 = dev
              then packets_count + 1 else packets_count) 0 (pj_packets bus)"

definition clear_packet :: "packet \<Rightarrow> packet" where
  "clear_packet p = p\<lparr> pk_attempts := 0, pk_length := 0, pk_registration := 0, pk_state := 0 \<rparr>"

definition remove_packet :: "build \<Rightarrow> nat \<Rightarrow> 's pjon \<Rightarrow> 's pjon" where
  "remove_packet b index bus =
     (if index < max_packets b
      then bus\<lparr> pj_packets := (pj_packets bus)[index := clear_packet (pj_packets bus ! index)] \<rparr>
      else bus)"

fun remove_all_loop :: "build \<Rightarrow> u8 \<Rightarrow> nat \<Rightarrow> nat \<Rightarrow> 's pjon \<Rightarrow> 's pjon" where
  "remove_all_loop b dev i 0 bus = bus"
| "remove_all_loop b dev i (Suc k) bus =
     remove_all_loop b dev (Suc i) k
       (let p = pj_packets bus ! i in
        if pk_state p = 0 then bus
        else if dev = 0 \<or> pk_content p ! 0 = dev then remove_packet b i bus else bus)"

definition remove_all_packets :: "build \<Rightarrow> u8 \<Rightarrow> 's pjon \<Rightarrow> 's pjon" where
  "remove_all_packets b dev bus = remove_all_loop b dev 0 (max_packets b) bus"

definition reset_packet :: "'s strategy \<Rightarrow> build \<Rightarrow> nat \<Rightarrow> 's pjon \<Rightarrow> bool \<times> 's pjon" where
  "reset_packet st b i bus =
     (if pk_timing (pj_packets bus ! i) = 0
      then (if pj_auto_delete bus then (True, remove_packet b i bus) else (False, bus))
      else (let (now, bus) = with_strategy (pf_micros st) bus;
                p = (pj_packets bus ! i)\<lparr> pk_attempts := 0, pk_registration := now,
                                          pk_state := PJON_TO_BE_SENT \<rparr>
            in (False, bus\<lparr> pj_packets := (pj_packets bus)[i := p] \<rparr>)))"

subsection \<open>What the operations keep\<close>

text \<open>The composer never changes the size of its destination.\<close>

lemma emit_length:
  "emit x s = Some s' \<Longrightarrow> length (fst s') = length (fst s)"
  "emit_block bs s = Some s' \<Longrightarrow> length (fst s') = length (fst s)"
  "emit_when c bs s = Some s' \<Longrightarrow> length (fst s') = length (fst s)"
  by (auto simp: emit_def emit_block_def emit_when_def mem_defs split: if_splits prod.splits)

lemma compose_initial_meta_length:
  "compose_initial_meta info n e s = Some s' \<Longrightarrow> length (fst s') = length (fst s)"
  by (auto simp: compose_initial_meta_def dest!: emit_length elim!: bind_SomeE split: if_splits)

lemma compose_fields_length:
  "compose_fields b info s = Some s' \<Longrightarrow> length (fst s') = length (fst s)"
  by (auto simp: compose_fields_def Let_def dest!: emit_length elim!: bind_SomeE split: if_splits)

lemma wr_length: "wr i x d = Some d' \<Longrightarrow> length d' = length d"
  by (auto simp: wr_def split: if_splits)

lemma compose_check_length:
  "compose_check h n d = Some d' \<Longrightarrow> length d' = length d"
  by (auto simp: compose_check_def Let_def dest!: wr_length elim!: bind_SomeE split: if_splits)

lemma tools_compose_packet_length:
  "tools_compose_packet b info d source len = Some (d', n) \<Longrightarrow> length d' = length d"
  by (auto simp: tools_compose_packet_def Let_def elim!: bind_SomeE split: if_splits prod.splits
      dest!: compose_initial_meta_length compose_fields_length emit_length compose_check_length)

text \<open>Composing only touches the packet id seed and the events of the bus.\<close>

lemma outgoing_info_frame:
  assumes "outgoing_info b info bus = (info', bus')"
  obtains seed where "bus' = bus\<lparr> pj_packet_id_seed := seed \<rparr>"
proof
  show "bus' = bus\<lparr> pj_packet_id_seed := pj_packet_id_seed bus' \<rparr>"
    using assms by (auto simp: outgoing_info_def Let_def split: if_splits)
qed

lemma compose_packet_frame:
  assumes "compose_packet b info d source len bus = Some (d', l, bus')"
  obtains seed events where
    "bus' = bus\<lparr> pj_packet_id_seed := seed, pj_events := pj_events bus @ events \<rparr>" "length d' = length d"
proof -
  obtain info' bus1 where o: "outgoing_info b info bus = (info', bus1)" by fastforce
  then obtain seed where bus1: "bus1 = bus\<lparr> pj_packet_id_seed := seed \<rparr>"
    by (rule outgoing_info_frame)
  obtain n where n: "tools_compose_packet b info' d source len = Some (d', n)"
    and res: "unat n < packet_max_length b \<and> l = n \<and> bus' = bus1 \<or>
         l = 0 \<and> bus' = raise_error PJON_CONTENT_TOO_LONG n bus1"
    using assms by (auto simp: compose_packet_def o elim!: bind_SomeE split: if_splits)
  have "\<exists>events. bus' = bus\<lparr> pj_packet_id_seed := seed, pj_events := pj_events bus @ events \<rparr>"
    using res bus1 by (auto simp: raise_error_def emit_event_def intro: exI [of _ "[]"])
  then show ?thesis
    using that tools_compose_packet_length [OF n] by blast
qed

lemma wf_bus_update [simp]:
  "wf_bus b (bus\<lparr> pj_packet_id_seed := x1 \<rparr>) = wf_bus b bus"
  "wf_bus b (bus\<lparr> pj_events := x2 \<rparr>) = wf_bus b bus"
  "wf_bus b (bus\<lparr> pj_strategy := x3 \<rparr>) = wf_bus b bus"
  "wf_bus b (bus\<lparr> pj_recursion := x4 \<rparr>) = wf_bus b bus"
  "wf_bus b (raise_error c a bus) = wf_bus b bus"
  by (simp_all add: wf_bus_def raise_error_def emit_event_def)

lemma wf_bus_set_packet:
  assumes "wf_bus b bus" and "length (pk_content p) = packet_max_length b"
  shows "wf_bus b (bus\<lparr> pj_packets := (pj_packets bus)[i := p] \<rparr>)"
  using assms set_update_subset_insert [of "pj_packets bus" i p] by (auto simp: wf_bus_def)

lemma wf_bus_content:
  "wf_bus b bus \<Longrightarrow> i < max_packets b \<Longrightarrow> length (pk_content (pj_packets bus ! i)) = packet_max_length b"
  by (auto simp: wf_bus_def)

lemma store_packet_wf:
  assumes "store_packet st b info payload len timing i bus = Some (r, bus')"
    and "wf_bus b bus" and "i < max_packets b"
  shows "wf_bus b bus'"
proof -
  obtain d l bus1 where c: "compose_packet b info (pk_content (pj_packets bus ! i)) payload len bus = Some (d, l, bus1)"
    and r: "(r, bus') =
      (let p = (pj_packets bus1 ! i)\<lparr> pk_content := d \<rparr> in
       if l = 0 then (PJON_FAIL, bus1\<lparr> pj_packets := (pj_packets bus1)[i := p] \<rparr>)
       else let (now, bus2) = with_strategy (pf_micros st) bus1;
                p = p\<lparr> pk_length := l, pk_state := PJON_TO_BE_SENT, pk_registration := now, pk_timing := timing \<rparr>
            in (of_nat i, bus2\<lparr> pj_packets := (pj_packets bus2)[i := p] \<rparr>))"
    using assms(1) by (auto simp: store_packet_def Let_def elim!: bind_SomeE split: if_splits prod.splits)
  obtain seed events where "bus1 = bus\<lparr> pj_packet_id_seed := seed, pj_events := pj_events bus @ events \<rparr>"
    and "length d = length (pk_content (pj_packets bus ! i))"
    using c by (rule compose_packet_frame)
  then have "wf_bus b bus1" "length d = packet_max_length b"
    using assms(2,3) wf_bus_content by auto
  with r show ?thesis
    by (auto simp: with_strategy_def Let_def split: if_splits prod.splits intro!: wf_bus_set_packet)
qed

lemma dispatch_loop_wf:
  "dispatch_loop st b info payload len timing p i k bus = Some (r, bus') \<Longrightarrow> wf_bus b bus \<Longrightarrow>
   i + k \<le> max_packets b \<Longrightarrow> wf_bus b bus'"
  by (induction k arbitrary: i) (auto split: if_splits dest: store_packet_wf)

lemma dispatch_wf:
  assumes "dispatch st b info payload len timing index bus = Some (r, bus')" and "wf_bus b bus"
  shows "wf_bus b bus'"
proof -
  let ?i = "if index \<noteq> PJON_FAIL then unat index else 0"
  have run: "dispatch_loop st b info payload len timing (index \<noteq> PJON_FAIL) ?i (max_packets b - ?i) bus = Some (r, bus')"
    using assms(1) by (simp add: dispatch_def Let_def)
  show ?thesis
  proof (cases "?i \<le> max_packets b")
    case True
    then show ?thesis using dispatch_loop_wf [OF run assms(2)] by simp
  next
    case False
    then have "max_packets b - ?i = 0" by simp
    with run assms(2) show ?thesis by (simp only: dispatch_loop.simps) auto
  qed
qed

text \<open>Composing a description that fits gives the reference packet.\<close>

lemma compose_packet_fits:
  assumes "outgoing_info b info bus = (info', bus')" and "wf_info info'" and "fits b info' len"
    and "unat len \<le> length source" and "length d = packet_max_length b"
  shows "compose_packet b info d source len bus =
           Some (packet_image (final_info b info' len) (take (unat len) source)
                   @ drop (final_length b info' len) d, of_nat (final_length b info' len), bus')"
proof -
  have lt: "final_length b info' len < packet_max_length b" "final_length b info' len < 65536"
    using assms(3) by (simp_all add: fits_def)
  then have "tools_compose_packet b info' d source len =
      Some (packet_image (final_info b info' len) (take (unat len) source)
              @ drop (final_length b info' len) d, of_nat (final_length b info' len))"
    using assms by (intro compose_refines_image) simp_all
  then show ?thesis
    using lt assms(1) by (simp add: compose_packet_def unat_of_nat_wrapped)
qed

text \<open>A freshly constructed bus of device 45, used where a theorem is applied to a concrete bus.\<close>

definition sample_bus :: "nat pjon" where
  "sample_bus = new_pjon_id default_build (replicate 50 0)
     (replicate 10 \<lparr> pr_header = 0, pr_sender_id = 0, pr_sender_bus_id = [0, 0, 0, 0], pr_id = 0 \<rparr>) 0 0 45"

lemma sample_bus_packets [simp]:
  "pj_packets sample_bus = replicate 5 (new_packet (replicate 50 0))"
  "pj_data sample_bus = replicate 50 0"
  by (simp_all only: sample_bus_def new_pjon_id_def new_pjon_def set_default_def Let_def pjon.simps
      default_build_def build.simps)

lemma sample_bus_simps [simp]:
  "pj_tx sample_bus = new_endpoint\<lparr> ep_id := 45 \<rparr>" "pj_port sample_bus = 0"
  "pj_strategy sample_bus = 0" "pj_custom_pointer sample_bus = 0" "pj_events sample_bus = []"
  "pj_recursion sample_bus = 0" "pj_mode sample_bus" "\<not> pj_router sample_bus"
  "pj_config sample_bus = 0x06" "pj_auto_delete sample_bus"
  by (simp_all add: sample_bus_def new_pjon_id_def new_pjon_def set_default_def const_defs
      default_build_def new_endpoint_def)

lemma wf_sample_bus [simp]: "wf_bus default_build sample_bus"
  unfolding wf_bus_def sample_bus_packets sample_bus_simps
  by (simp add: sample_bus_def new_pjon_id_def new_pjon_def set_default_def default_build_def
      new_packet_def wf_endpoint_def new_endpoint_def)

text \<open>The same with any id and any strategy object.\<close>

definition sample_device :: "u8 \<Rightarrow> 's \<Rightarrow> 's pjon" where
  "sample_device i s = new_pjon_id default_build (replicate 50 0)
     (replicate 10 \<lparr> pr_header = 0, pr_sender_id = 0, pr_sender_bus_id = [0, 0, 0, 0], pr_id = 0 \<rparr>) 0 s i"

lemma sample_device_packets [simp]:
  "pj_packets (sample_device i s) = replicate 5 (new_packet (replicate 50 0))"
  "pj_data (sample_device i s) = replicate 50 0"
  by (simp_all only: sample_device_def new_pjon_id_def new_pjon_def set_default_def Let_def pjon.simps
      default_build_def build.simps)

lemma sample_device_simps [simp]:
  "pj_tx (sample_device i s) = new_endpoint\<lparr> ep_id := i \<rparr>" "pj_port (sample_device i s) = 0"
  "pj_strategy (sample_device i s) = s" "pj_custom_pointer (sample_device i s) = 0" "pj_events (sample_device i s) = []"
  "\<not> pj_router (sample_device i s)" "pj_mode (sample_device i s)" "pj_config (sample_device i s) = 0x06"
  by (simp_all add: sample_device_def new_pjon_id_def new_pjon_def set_default_def const_defs)

lemma wf_sample_device [simp]: "wf_bus default_build (sample_device i s)"
  unfolding wf_bus_def sample_device_packets sample_device_simps
  by (simp add: sample_device_def new_pjon_id_def new_pjon_def set_default_def default_build_def new_packet_def
      wf_endpoint_def wf_info_def new_endpoint_def new_packet_info_def)

lemma outgoing_sample:
  "outgoing_info default_build sample_info sample_bus = (sample_info, sample_bus)"
  by (simp add: outgoing_info_def default_build_def sample_info_def PJON_NO_HEADER_def)

lemma compose_sample:
  "compose_packet default_build sample_info (replicate 50 0) [64] 1 sample_bus
     = Some (packet_image sample_info [64] @ drop 7 (replicate 50 0), 7, sample_bus)"
  using compose_packet_fits [OF outgoing_sample, of 1 "[64]" "replicate 50 0"] sample_fits
  by (simp add: default_build_def)

subsection \<open>Properties of the packet buffer\<close>

lemma with_strategy_simps [frame_simps]:
  "with_strategy f bus = (fst (f (pj_strategy bus)), bus\<lparr> pj_strategy := snd (f (pj_strategy bus)) \<rparr>)"
  by (simp add: with_strategy_def case_prod_unfold Let_def)

lemma dispatch_loop_skip:
  "(\<And>j. i \<le> j \<Longrightarrow> j < i + n \<Longrightarrow> pk_state (pj_packets bus ! j) \<noteq> 0) \<Longrightarrow>
   dispatch_loop st b info payload len timing False i (n + k) bus
     = dispatch_loop st b info payload len timing False (i + n) k bus"
proof (induction n arbitrary: i)
  case (Suc n)
  have "pk_state (pj_packets bus ! i) \<noteq> 0" using Suc.prems by simp
  then show ?case using Suc.IH [of "Suc i"] Suc.prems by simp
qed simp

lemma dispatch_loop_first:
  assumes "i < max_packets b" and "pk_state (pj_packets bus ! i) = 0"
    and "\<forall>j < i. pk_state (pj_packets bus ! j) \<noteq> 0"
  shows "dispatch_loop st b info payload len timing False 0 (max_packets b) bus
         = store_packet st b info payload len timing i bus"
proof -
  obtain k where k: "max_packets b = i + Suc k" using assms(1) by (metis add_Suc_right less_iff_Suc_add)
  show ?thesis
    using dispatch_loop_skip [where i = 0 and n = i and k = "Suc k" and bus = bus] assms(2,3)
    by (simp add: k del: add_Suc_right)
qed

text \<open>A packet that composes goes to the first free slot of the buffer, whose index \<^verbatim>\<open>dispatch\<close>
  returns: it is stored there as waiting, with the composed bytes, its length, the current time and
  the requested timing; every other slot keeps its packet.\<close>

theorem dispatch_first_free:
  assumes "wf_bus b bus" and "i < max_packets b" and "pk_state (pj_packets bus ! i) = 0"
    and "\<forall>j < i. pk_state (pj_packets bus ! j) \<noteq> 0"
    and "compose_packet b info (pk_content (pj_packets bus ! i)) payload len bus = Some (content, l, bus1)"
    and "l \<noteq> 0"
  shows "\<exists>bus' p. dispatch st b info payload len timing PJON_FAIL bus = Some (of_nat i, bus') \<and>
           pj_packets bus' = (pj_packets bus)[i := p] \<and> pk_content p = content \<and> pk_length p = l \<and>
           pk_state p = PJON_TO_BE_SENT \<and> pk_timing p = timing \<and>
           pk_registration p = fst (pf_micros st (pj_strategy bus)) \<and>
           pk_attempts p = pk_attempts (pj_packets bus ! i) \<and>
           pj_events bus' = pj_events bus1 \<and> length content = packet_max_length b"
proof -
  obtain seed events where bus1: "bus1 = bus\<lparr> pj_packet_id_seed := seed, pj_events := pj_events bus @ events \<rparr>"
    and len: "length content = length (pk_content (pj_packets bus ! i))"
    using assms(5) by (rule compose_packet_frame)
  have "dispatch st b info payload len timing PJON_FAIL bus = store_packet st b info payload len timing i bus"
    using dispatch_loop_first [OF assms(2-4)] by (simp add: dispatch_def)
  also have "\<dots> = Some (of_nat i, (bus1\<lparr> pj_strategy := snd (pf_micros st (pj_strategy bus)) \<rparr>)
      \<lparr> pj_packets := (pj_packets bus)[i := (pj_packets bus ! i)\<lparr> pk_content := content, pk_length := l,
          pk_state := PJON_TO_BE_SENT, pk_registration := fst (pf_micros st (pj_strategy bus)),
          pk_timing := timing \<rparr>] \<rparr>)"
    using assms(5,6) bus1 by (simp add: store_packet_def frame_simps)
  finally show ?thesis
    using len wf_bus_content [OF assms(1,2)] bus1
    by (intro exI [of _ "(pj_packets bus ! i)\<lparr> pk_content := content, pk_length := l,
          pk_state := PJON_TO_BE_SENT, pk_registration := fst (pf_micros st (pj_strategy bus)),
          pk_timing := timing \<rparr>"] exI) auto
qed

lemma dispatch_first_free_witness:
  "\<exists>bus' p. dispatch idle_strategy default_build sample_info [64] 1 0 PJON_FAIL sample_bus = Some (of_nat 0, bus') \<and>
     pj_packets bus' = (pj_packets sample_bus)[0 := p] \<and>
     pk_content p = packet_image sample_info [64] @ drop 7 (replicate 50 0) \<and> pk_length p = 7 \<and>
     pk_state p = PJON_TO_BE_SENT \<and> pk_timing p = 0 \<and>
     pk_registration p = fst (pf_micros idle_strategy (pj_strategy sample_bus)) \<and>
     pk_attempts p = pk_attempts (pj_packets sample_bus ! 0) \<and> pj_events bus' = pj_events sample_bus \<and>
     length (packet_image sample_info [64] @ drop 7 (replicate 50 0)) = packet_max_length default_build"
proof (rule dispatch_first_free [OF wf_sample_bus])
  show "compose_packet default_build sample_info (pk_content (pj_packets sample_bus ! 0)) [64] 1 sample_bus
      = Some (packet_image sample_info [64] @ drop 7 (replicate 50 0), 7, sample_bus)"
    using compose_sample by (simp add: new_packet_def)
qed (simp_all add: default_build_def new_packet_def)

text \<open>When no slot is free, \<^verbatim>\<open>dispatch\<close> reports \<^verbatim>\<open>PJON_PACKETS_BUFFER_FULL\<close> with the size of the
  buffer, returns \<^verbatim>\<open>PJON_FAIL\<close> and changes nothing else.\<close>

theorem dispatch_buffer_full:
  assumes "\<forall>j < max_packets b. pk_state (pj_packets bus ! j) \<noteq> 0"
  shows "dispatch st b info payload len timing PJON_FAIL bus
         = Some (PJON_FAIL, bus\<lparr> pj_events := pj_events bus
             @ [Error PJON_PACKETS_BUFFER_FULL (of_nat (max_packets b)) (pj_custom_pointer bus)] \<rparr>)"
  using dispatch_loop_skip [where i = 0 and n = "max_packets b" and k = 0 and bus = bus] assms
  by (simp add: dispatch_def raise_error_def emit_event_def)

lemma dispatch_buffer_full_witness:
  "dispatch idle_strategy default_build sample_info [64] 1 0 PJON_FAIL
       (sample_bus\<lparr> pj_packets := replicate 5 ((new_packet [])\<lparr> pk_state := PJON_TO_BE_SENT \<rparr>) \<rparr>)
     = Some (PJON_FAIL, sample_bus\<lparr> pj_packets := replicate 5 ((new_packet [])\<lparr> pk_state := PJON_TO_BE_SENT \<rparr>),
               pj_events := [Error PJON_PACKETS_BUFFER_FULL 5 0] \<rparr>)"
  using dispatch_buffer_full [of default_build
      "sample_bus\<lparr> pj_packets := replicate 5 ((new_packet [])\<lparr> pk_state := PJON_TO_BE_SENT \<rparr>) \<rparr>"
      idle_strategy sample_info "[64]" 1 0]
  by (simp add: default_build_def PJON_TO_BE_SENT_def)

lemma get_packets_count_fold:
  "foldl (\<lambda>n p. if pk_state p = 0 then n else if dev = PJON_NOT_ASSIGNED \<or> pk_content p ! 0 = dev
                then n + 1 else n) n0 ps =
   n0 + of_nat (length (filter (\<lambda>p. pk_state p \<noteq> 0 \<and> (dev = PJON_NOT_ASSIGNED \<or> pk_content p ! 0 = dev)) ps))"
  for n0 :: u16
  by (induction ps arbitrary: n0) simp_all

lemma get_packets_count_eq:
  "get_packets_count dev bus = of_nat (length (filter
     (\<lambda>p. pk_state p \<noteq> 0 \<and> (dev = PJON_NOT_ASSIGNED \<or> pk_content p ! 0 = dev)) (pj_packets bus)))"
  by (simp add: get_packets_count_def get_packets_count_fold)

definition removes :: "u8 \<Rightarrow> packet \<Rightarrow> packet" where
  "removes dev p =
     (if pk_state p \<noteq> 0 \<and> (dev = 0 \<or> pk_content p ! 0 = dev) then clear_packet p else p)"

lemma remove_all_loop_eq:
  "length (pj_packets bus) = max_packets b \<Longrightarrow> i + k = max_packets b \<Longrightarrow>
   remove_all_loop b dev i k bus
     = bus\<lparr> pj_packets := take i (pj_packets bus) @ map (removes dev) (drop i (pj_packets bus)) \<rparr>"
proof (induction k arbitrary: i bus)
  case (Suc k)
  let ?ps = "pj_packets bus"
  have i: "i < length ?ps" using Suc.prems by simp
  define bus' where "bus' = bus\<lparr> pj_packets := ?ps[i := removes dev (?ps ! i)] \<rparr>"
  have "(let p = ?ps ! i in if pk_state p = 0 then bus
         else if dev = 0 \<or> pk_content p ! 0 = dev then remove_packet b i bus else bus) = bus'"
    using i Suc.prems by (simp add: bus'_def removes_def remove_packet_def Let_def)
  then have "remove_all_loop b dev i (Suc k) bus = remove_all_loop b dev (Suc i) k bus'"
    by simp
  also have "\<dots> = bus'\<lparr> pj_packets := take (Suc i) (pj_packets bus')
                         @ map (removes dev) (drop (Suc i) (pj_packets bus')) \<rparr>"
    using Suc.prems by (intro Suc.IH) (simp_all add: bus'_def)
  also have "\<dots> = bus\<lparr> pj_packets := take i ?ps @ map (removes dev) (drop i ?ps) \<rparr>"
    using i by (simp add: bus'_def take_Suc_conv_app_nth Cons_nth_drop_Suc [symmetric])
  finally show ?case .
qed simp

text \<open>\<^verbatim>\<open>remove_all_packets\<close> clears exactly the occupied slots of the given device (of every device
  when none is given), and none of its packets is counted afterwards.\<close>

theorem remove_all_packets_clears:
  assumes "wf_bus b bus"
  shows "pj_packets (remove_all_packets b dev bus) = map (removes dev) (pj_packets bus) \<and>
         get_packets_count (if dev = 0 then PJON_NOT_ASSIGNED else dev) (remove_all_packets b dev bus)
           = (if dev = PJON_NOT_ASSIGNED
              then of_nat (length (filter (\<lambda>p. pk_state p \<noteq> 0 \<and> pk_content p ! 0 \<noteq> dev) (pj_packets bus)))
              else 0)"
proof -
  have "length (pj_packets bus) = max_packets b" using assms by (simp add: wf_bus_def)
  then have eq: "remove_all_packets b dev bus = bus\<lparr> pj_packets := map (removes dev) (pj_packets bus) \<rparr>"
    by (simp add: remove_all_packets_def remove_all_loop_eq)
  have 1: "filter (\<lambda>p. pk_state p \<noteq> 0 \<and> (e = PJON_NOT_ASSIGNED \<or> pk_content p ! 0 = e)) (map (removes dev) ps)
      = (if dev = PJON_NOT_ASSIGNED
         then filter (\<lambda>p. pk_state p \<noteq> 0 \<and> pk_content p ! 0 \<noteq> dev) ps else [])"
    if "e = (if dev = 0 then PJON_NOT_ASSIGNED else dev)" for e ps
    using that by (induction ps) (auto simp: removes_def clear_packet_def PJON_NOT_ASSIGNED_def)
  show ?thesis
    by (simp add: eq get_packets_count_eq 1)
qed

lemma remove_all_packets_clears_witness:
  "pj_packets (remove_all_packets default_build 0 sample_bus) = map (removes 0) (pj_packets sample_bus) \<and>
   get_packets_count PJON_NOT_ASSIGNED (remove_all_packets default_build 0 sample_bus) = 0"
  using remove_all_packets_clears [OF wf_sample_bus, of 0] by (simp add: PJON_NOT_ASSIGNED_def)

text \<open>C16. \<^verbatim>\<open>forward\<close> leaves the bus with its own identity, except when the packet has used up its hops:
  then it is refused, nothing is dispatched, and the bus keeps the identity of the original sender.
  The hop counter is 8 bits wide: a packet that arrives with 255 hops is forwarded.\<close>

theorem forward_identity:
  assumes "\<not> pjon_local b" and "forward st b info payload len bus = Some (r, bus')"
  shows "if max_hops b \<le> pi_hops info \<and> pi_hops info < 255
         then r = PJON_FAIL \<and> bus' = bus\<lparr> pj_tx := pi_tx info \<rparr>
         else pj_tx bus' = pj_tx bus"
proof -
  have "unat (pi_hops info) < 256" using unsigned_less [of "pi_hops info", where 'a = nat] by simp
  then have w: "pi_hops info + 1 > max_hops b \<longleftrightarrow> max_hops b \<le> pi_hops info \<and> pi_hops info < 255"
    by (auto simp: word_less_nat_alt word_le_nat_alt unat_word_ariths mod_if)
  show ?thesis
    using assms by (auto simp: forward_def w Let_def elim!: bind_SomeE split: if_splits)
qed

lemma forward_identity_witness:
  "\<exists>bus'. forward idle_strategy default_build (sample_info\<lparr> pi_hops := 15 \<rparr>) [64] 1 sample_bus = Some (PJON_FAIL, bus')
     \<and> pj_tx bus' = pi_tx sample_info"
proof -
  have b: "\<not> pjon_local default_build" "max_hops default_build = 15" by (simp_all add: default_build_def)
  obtain bus' where f: "forward idle_strategy default_build (sample_info\<lparr> pi_hops := 15 \<rparr>) [64] 1 sample_bus
      = Some (PJON_FAIL, bus')"
    using b by (simp add: forward_def)
  with forward_identity [OF b(1) f] b(2) show ?thesis by simp
qed

end
