(* ===== verification/Receive.thy ===== *)
theory Receive
  imports Packet_Buffer
begin

text \<open>
  \<^verbatim>\<open>PJON::receive\<close> of \<^verbatim>\<open>src/PJON.h\<close>: the loop that pulls bytes from the strategy and refuses a packet
  as soon as its header, length or bus id says so, the checks at the end, the acknowledgement, the
  filter of known packet ids, and the delivery to the receiver.
\<close>

subsection \<open>Known packets\<close>

definition known_record :: "packet_info \<Rightarrow> packet_record \<Rightarrow> bool" where
  "known_record info r \<longleftrightarrow>
     pi_id info = pr_id r \<and> ep_id (pi_tx info) = pr_sender_id r \<and>
     (flag (pi_header info) PJON_MODE_BIT \<and> flag (pr_header r) PJON_MODE_BIT \<and>
        id_equality (ep_bus_id (pi_tx info)) (pr_sender_bus_id r) 4 \<or>
      \<not> flag (pi_header info) PJON_MODE_BIT \<and> \<not> flag (pr_header r) PJON_MODE_BIT)"

fun shift_records :: "nat \<Rightarrow> packet_record list \<Rightarrow> packet_record list" where
  "shift_records 0 rs = rs"
| "shift_records (Suc i) rs = shift_records i (rs[Suc i := rs ! i])"

definition save_packet_id :: "build \<Rightarrow> packet_info \<Rightarrow> 's pjon \<Rightarrow> 's pjon" where
  "save_packet_id b info bus =
     (let rs = shift_records (max_recent_packet_ids b - 1) (pj_recent_packet_ids bus);
          r = (rs ! 0)\<lparr> pr_id := pi_id info, pr_header := pi_header info,
                        pr_sender_id := ep_id (pi_tx info),
                        pr_sender_bus_id :=
                          copy_id (pr_sender_bus_id (rs ! 0)) (ep_bus_id (pi_tx info)) 4 \<rparr>
      in bus\<lparr> pj_recent_packet_ids := rs[0 := r] \<rparr>)"

definition known_packet_id :: "build \<Rightarrow> packet_info \<Rightarrow> 's pjon \<Rightarrow> bool \<times> 's pjon" where
  "known_packet_id b info bus =
     (if list_ex (known_record info) (take (max_recent_packet_ids b) (pj_recent_packet_ids bus))
      then (True, bus) else (False, save_packet_id b info bus))"

subsection \<open>The byte loop\<close>

text \<open>The local variables of \<^verbatim>\<open>receive\<close>.\<close>

record rx_vars =
  rv_length :: u16
  rv_batch :: u16
  rv_overhead :: u8
  rv_extended :: bool
  rv_mac :: bool
  rv_drop :: bool

definition rx_init :: "build \<Rightarrow> rx_vars" where
  "rx_init b = \<lparr> rv_length = of_nat (packet_max_length b), rv_batch = 0, rv_overhead = 0,
                 rv_extended = False, rv_mac = False, rv_drop = False \<rparr>"

text \<open>Pulling the next batch when the previous one is used up.\<close>

definition rx_fetch ::
  "'s strategy \<Rightarrow> nat \<Rightarrow> rx_vars \<Rightarrow> 's pjon \<Rightarrow> ((u16 + rx_vars) \<times> 's pjon) option" where
  "rx_fetch st i rv bus =
     (if rv_batch rv = 0
      then (let (r, bs, s) = st_receive_frame st (rv_length rv - of_nat i) (pj_strategy bus) in
            do { d \<leftarrow> wr_block i bs (pj_data bus);
                 let bus = bus\<lparr> pj_strategy := s, pj_data := d \<rparr>;
                 if r = PJON_FAIL \<or> r = 0 then Some (Inl PJON_FAIL, bus)
                 else Some (Inr (rv\<lparr> rv_batch := r - 1 \<rparr>), bus) })
      else Some (Inr (rv\<lparr> rv_batch := rv_batch rv - 1 \<rparr>), bus))"

definition header_refused :: "build \<Rightarrow> 's pjon \<Rightarrow> bool \<Rightarrow> u8 \<Rightarrow> u8 \<Rightarrow> bool" where
  "header_refused b bus drop_packet d0 d1 \<longleftrightarrow>
     (let mac = flag d1 PJON_MAC_BIT in
      (\<not> pj_router bus \<and> flag (pj_config bus) PJON_MODE_BIT \<and> \<not> flag d1 PJON_MODE_BIT) \<or>
      (d0 = PJON_BROADCAST \<and> flag d1 PJON_ACK_REQ_BIT) \<or>
      (flag d1 PJON_EXT_LEN_BIT \<and> \<not> flag d1 PJON_CRC_BIT) \<or>
      (\<not> include_packet_id b \<and> flag d1 PJON_PACKET_ID_BIT) \<or>
      (\<not> include_port b \<and> flag d1 PJON_PORT_BIT) \<or>
      ((\<not> include_mac b \<and> mac) \<or> (mac \<and> \<not> flag d1 PJON_CRC_BIT)) \<or>
      (drop_packet \<and> \<not> mac))"

definition length_refused :: "build \<Rightarrow> u16 \<Rightarrow> u8 \<Rightarrow> u8 \<Rightarrow> bool" where
  "length_refused b len overhead d1 \<longleftrightarrow>
     len < ucast (overhead + 1) \<or> unat len \<ge> packet_max_length b \<or> (len > 15 \<and> \<not> flag d1 PJON_CRC_BIT)"

definition bus_id_refused :: "'s pjon \<Rightarrow> nat \<Rightarrow> bool \<Rightarrow> bool \<Rightarrow> u8 \<Rightarrow> u8 \<Rightarrow> bool" where
  "bus_id_refused bus i extended mac d1 x \<longleftrightarrow>
     flag d1 PJON_MODE_BIT \<and> \<not> pj_router bus \<and> \<not> mac \<and>
     i > 3 + of_bool extended \<and> i < 8 + of_bool extended \<and>
     (if flag (pj_config bus) PJON_MODE_BIT
      then ep_bus_id (pj_tx bus) ! (i - 4 - of_bool extended) \<noteq> x
      else x \<noteq> 0)"

definition rx_check :: "build \<Rightarrow> nat \<Rightarrow> rx_vars \<Rightarrow> 's pjon \<Rightarrow> (u16 + rx_vars) option" where
  "rx_check b i rv bus =
     do { x \<leftarrow> rd (pj_data bus) i;
          d0 \<leftarrow> rd (pj_data bus) 0;
          d1 \<leftarrow> rd (pj_data bus) 1;
          let rv = (if i = 0 \<and> x \<noteq> ep_id (pj_tx bus) \<and> x \<noteq> PJON_BROADCAST \<and> \<not> pj_router bus
                    then rv\<lparr> rv_drop := True \<rparr> else rv);
          if i = 1 \<and> header_refused b bus (rv_drop rv) d0 d1 then Some (Inl PJON_BUSY)
          else do {
            let rv = (if i = 1
                      then rv\<lparr> rv_mac := flag d1 PJON_MAC_BIT, rv_extended := flag x PJON_EXT_LEN_BIT,
                               rv_overhead := packet_overhead_of x bus \<rparr>
                      else rv);
            rv \<leftarrow> (if i = 2 \<and> \<not> rv_extended rv then Some (rv\<lparr> rv_length := ucast x \<rparr>)
                   else if i = 3 \<and> rv_extended rv
                   then do { hi \<leftarrow> rd (pj_data bus) (i - 1); Some (rv\<lparr> rv_length := join16 hi x \<rparr>) }
                   else Some rv);
            if (i = 2 \<and> \<not> rv_extended rv \<or> i = 3 \<and> rv_extended rv) \<and>
               length_refused b (rv_length rv) (rv_overhead rv) d1
            then Some (Inl PJON_BUSY)
            else if bus_id_refused bus i (rv_extended rv) (rv_mac rv) d1 x
            then Some (Inl PJON_BUSY)
            else Some (Inr rv) } }"

function receive_loop ::
  "'s strategy \<Rightarrow> build \<Rightarrow> nat \<Rightarrow> rx_vars \<Rightarrow> 's pjon \<Rightarrow> ((u16 + rx_vars) \<times> 's pjon) option" where
  "receive_loop st b i rv bus =
     (if i < unat (rv_length rv)
      then (case rx_fetch st i rv bus of
              None \<Rightarrow> None
            | Some (Inl code, bus) \<Rightarrow> Some (Inl code, bus)
            | Some (Inr rv, bus) \<Rightarrow>
                (case rx_check b i rv bus of
                   None \<Rightarrow> None
                 | Some (Inl code) \<Rightarrow> Some (Inl code, bus)
                 | Some (Inr rv) \<Rightarrow> receive_loop st b (Suc i) rv bus))
      else Some (Inr rv, bus))"
  by pat_completeness auto
termination
proof (relation "measure (\<lambda>(st, b, i, rv, bus). 65536 - i)", goal_cases)
  case (2 st b i rv bus)
  then show ?case using unsigned_less [of "rv_length rv", where 'a = nat] by simp
qed simp

declare receive_loop.simps [simp del]

subsection \<open>The checks of a complete packet\<close>

text \<open>Both checksums of the packet in the buffer.\<close>

definition rx_crc_ok :: "rx_vars \<Rightarrow> u8 list \<Rightarrow> bool option" where
  "rx_crc_ok rv d =
     do { let k = 3 + of_bool (rv_extended rv);
          let n = unat (rv_length rv);
          meta \<leftarrow> rd_block d 0 k;
          c \<leftarrow> rd d k;
          if crc8_compute meta \<noteq> c then Some False
          else do {
            d1 \<leftarrow> rd d 1;
            if flag d1 PJON_CRC_BIT
            then if n < 4 then None
                 else do { body \<leftarrow> rd_block d 0 (n - 4);
                           check \<leftarrow> rd_block d (n - 4) 4;
                           crc32_compare (crc32_compute body 0) check }
            else if n < 1 then None
                 else do { body \<leftarrow> rd_block d 0 (n - 1);
                           c \<leftarrow> rd d (n - 1);
                           Some (crc8_compute body = c) } } }"

definition mac_refused :: "build \<Rightarrow> rx_vars \<Rightarrow> 's pjon \<Rightarrow> bool option" where
  "mac_refused b rv bus =
     (if include_mac b \<and> rv_mac rv \<and> rv_length rv > 15 \<and> \<not> pj_router bus
      then if rv_overhead rv < 16 then None
           else do { m \<leftarrow> rd_block (pj_data bus) (unat (rv_overhead rv) - 16) 6;
                     Some (\<not> id_equality m (ep_mac (pj_tx bus)) 6 \<and> \<not> id_equality m no_mac 6) }
      else Some False)"

definition parse :: "build \<Rightarrow> u8 list \<Rightarrow> 's pjon \<Rightarrow> packet_info option" where
  "parse b packet bus =
     do { info \<leftarrow> parse_header b packet;
          Some (info\<lparr> pi_custom_pointer := pj_custom_pointer bus \<rparr>) }"

text \<open>The delivery of a checked packet.\<close>

definition rx_deliver :: "'s strategy \<Rightarrow> build \<Rightarrow> rx_vars \<Rightarrow> 's pjon \<Rightarrow> (u16 \<times> 's pjon) option" where
  "rx_deliver st b rv bus =
     do { d0 \<leftarrow> rd (pj_data bus) 0;
          d1 \<leftarrow> rd (pj_data bus) 1;
          let bus = (if flag d1 PJON_ACK_REQ_BIT \<and> d0 \<noteq> PJON_BROADCAST \<and>
                        pj_mode bus \<noteq> PJON_SIMPLEX \<and> \<not> pj_router bus
                     then on_strategy (st_send_response st PJON_ACK) bus else bus);
          info \<leftarrow> parse b (pj_data bus) bus;
          let bus = bus\<lparr> pj_last_packet_info := info \<rparr>;
          let (known, bus) =
            (if include_packet_id b \<and> \<not> pj_router bus \<and> flag (pi_header info) PJON_PACKET_ID_BIT
             then known_packet_id b info bus else (False, bus));
          if known then Some (PJON_ACK, bus)
          else if include_port b \<and> pj_port bus \<noteq> ucast PJON_BROADCAST \<and> pj_port bus \<noteq> pi_port info
          then Some (PJON_BUSY, bus)
          else do {
            let n = rv_length rv - ucast (rv_overhead rv);
            payload \<leftarrow> rd_block (pj_data bus) (unat (rv_overhead rv) - unat (crc_overhead d1)) (unat n);
            Some (PJON_ACK, emit_event (Received payload n info) bus) } }"

definition receive :: "'s strategy \<Rightarrow> build \<Rightarrow> 's pjon \<Rightarrow> (u16 \<times> 's pjon) option" where
  "receive st b bus =
     do { (r, bus) \<leftarrow> receive_loop st b 0 (rx_init b) bus;
          case r of
            Inl code \<Rightarrow> Some (code, bus)
          | Inr rv \<Rightarrow>
              do { ok \<leftarrow> rx_crc_ok rv (pj_data bus);
                   if \<not> ok then Some (PJON_NAK, bus)
                   else do { refused \<leftarrow> mac_refused b rv bus;
                             if refused then Some (PJON_BUSY, bus)
                             else rx_deliver st b rv bus } } }"

text \<open>
  Receiving repeatedly for at most \<open>duration\<close> microseconds.  The loop ends by the clock of the
  platform, so the model counts its iterations and gives up (\<^term>\<open>None\<close>) when \<open>fuel\<close> of them are over.
\<close>

fun receive_until ::
  "'s strategy \<Rightarrow> build \<Rightarrow> nat \<Rightarrow> u32 \<Rightarrow> u32 \<Rightarrow> 's pjon \<Rightarrow> (u16 \<times> 's pjon) option" where
  "receive_until st b 0 start duration bus = None"
| "receive_until st b (Suc fuel) start duration bus =
     do { (response, bus) \<leftarrow> receive st b bus;
          if response = PJON_ACK then Some (response, bus)
          else let (now, bus) = with_strategy (pf_micros st) bus
               in if now - start \<le> duration then receive_until st b fuel start duration bus
                  else Some (response, bus) }"

definition receive_for ::
  "'s strategy \<Rightarrow> build \<Rightarrow> nat \<Rightarrow> u32 \<Rightarrow> 's pjon \<Rightarrow> (u16 \<times> 's pjon) option" where
  "receive_for st b fuel duration bus =
     (let (start, bus) = with_strategy (pf_micros st) bus
      in receive_until st b fuel start duration bus)"

subsection \<open>The loop as a test of the bytes received\<close>

text \<open>
  After \<open>i\<close> iterations the local variables are a function of the first \<open>i\<close> bytes of the buffer, and the
  packet is refused at byte \<open>i\<close> exactly if \<open>refused_at\<close> says so.
\<close>

definition extended_packet :: "u8 list \<Rightarrow> bool" where
  "extended_packet d = flag (d ! 1) PJON_EXT_LEN_BIT"

definition announced_length :: "u8 list \<Rightarrow> u16" where
  "announced_length d = (if extended_packet d then join16 (d ! 2) (d ! 3) else ucast (d ! 2))"

definition not_mine :: "'s pjon \<Rightarrow> u8 list \<Rightarrow> bool" where
  "not_mine bus d \<longleftrightarrow> d ! 0 \<noteq> ep_id (pj_tx bus) \<and> d ! 0 \<noteq> PJON_BROADCAST \<and> \<not> pj_router bus"

definition rv_at :: "build \<Rightarrow> 's pjon \<Rightarrow> u8 list \<Rightarrow> nat \<Rightarrow> u16 \<Rightarrow> rx_vars" where
  "rv_at b bus d i batch =
     \<lparr> rv_length = (if 3 \<le> i \<and> \<not> extended_packet d \<or> 4 \<le> i then announced_length d
                    else of_nat (packet_max_length b)),
       rv_batch = batch, rv_overhead = (if 2 \<le> i then packet_overhead_of (d ! 1) bus else 0),
       rv_extended = (2 \<le> i \<and> extended_packet d), rv_mac = (2 \<le> i \<and> flag (d ! 1) PJON_MAC_BIT),
       rv_drop = (1 \<le> i \<and> not_mine bus d) \<rparr>"

definition refused_at :: "build \<Rightarrow> 's pjon \<Rightarrow> u8 list \<Rightarrow> nat \<Rightarrow> bool" where
  "refused_at b bus d i \<longleftrightarrow>
     i = 1 \<and> header_refused b bus (not_mine bus d) (d ! 0) (d ! 1) \<or>
     (i = 2 \<and> \<not> extended_packet d \<or> i = 3 \<and> extended_packet d) \<and>
       length_refused b (announced_length d) (packet_overhead_of (d ! 1) bus) (d ! 1) \<or>
     bus_id_refused bus i (extended_packet d) (flag (d ! 1) PJON_MAC_BIT) (d ! 1) (d ! i)"

lemma rx_init_at: "rx_init b = rv_at b bus d 0 0"
  by (simp add: rx_init_def rv_at_def)

lemma rv_at_batch [simp]:
  "rv_batch (rv_at b bus d i k) = k" "(rv_at b bus d i k)\<lparr> rv_batch := k' \<rparr> = rv_at b bus d i k'"
  by (simp_all add: rv_at_def)

lemma rv_at_length:
  "rv_length (rv_at b bus d i k) = (if 3 \<le> i \<and> \<not> extended_packet d \<or> 4 \<le> i
     then announced_length d else of_nat (packet_max_length b))"
  by (simp add: rv_at_def)

lemma bus_id_refused_early [simp]: "i \<le> 3 \<Longrightarrow> \<not> bus_id_refused bus i e m d1 x"
  by (simp add: bus_id_refused_def)

lemma rx_check_eq:
  assumes "i < length (pj_data bus)" "1 < length (pj_data bus)"
  shows "rx_check b i (rv_at b bus (pj_data bus) i k) bus =
           Some (if refused_at b bus (pj_data bus) i then Inl PJON_BUSY
                 else Inr (rv_at b bus (pj_data bus) (Suc i) k))"
proof -
  let ?d = "pj_data bus"
  have rd: "rd ?d i = Some (?d ! i)" "rd ?d 0 = Some (?d ! 0)" "rd ?d 1 = Some (?d ! 1)"
    using assms by (auto simp: rd_def)
  consider "i = 0" | "i = 1" | "i = 2" | "i = 3" | "4 \<le> i" by linarith
  then show ?thesis
  proof cases
    case 1
    then show ?thesis using rd by (simp add: rx_check_def rv_at_def refused_at_def not_mine_def)
  next
    case 2
    then show ?thesis using rd
      by (simp add: rx_check_def rv_at_def refused_at_def extended_packet_def)
  next
    case 3
    then show ?thesis using rd
      by (cases "extended_packet ?d")
        (simp_all add: rx_check_def rv_at_def refused_at_def announced_length_def)
  next
    case 4
    then have "rd ?d 2 = Some (?d ! 2)" using assms by (auto simp: rd_def)
    then show ?thesis using rd 4
      by (cases "extended_packet ?d")
        (simp_all add: rx_check_def rv_at_def refused_at_def announced_length_def)
  next
    case 5
    then show ?thesis using rd by (simp add: rx_check_def rv_at_def refused_at_def)
  qed
qed

text \<open>Only the bytes up to \<open>i\<close> matter.\<close>

lemma take_nth_eq: "take n d = take n d' \<Longrightarrow> j < n \<Longrightarrow> d ! j = d' ! j"
  by (metis nth_take)

lemma rv_at_cong:
  assumes "take i d = take i d'"
  shows "rv_at b bus d i k = rv_at b bus d' i k"
proof -
  note n = take_nth_eq [OF assms]
  consider "i = 0" | "i = 1" | "i = 2" | "i = 3" | "4 \<le> i" by linarith
  then show ?thesis
    by cases (use n [of 0] n [of 1] n [of 2] n [of 3] in
      \<open>simp_all add: rv_at_def extended_packet_def announced_length_def not_mine_def\<close>)
qed

lemma refused_at_cong:
  assumes "take (Suc i) d = take (Suc i) d'"
  shows "refused_at b bus d i = refused_at b bus d' i"
proof -
  note n = take_nth_eq [OF assms]
  consider "i = 0" | "i = 1" | "i = 2" | "i = 3" | "4 \<le> i" by linarith
  then show ?thesis
    by cases (use n [of 0] n [of 1] n [of 2] n [of 3] n [of i] in
      \<open>simp_all add: refused_at_def extended_packet_def announced_length_def not_mine_def\<close>)
qed

lemma bus_frame_at [simp]:
  "rv_at b (bus\<lparr> pj_strategy := s \<rparr>) = rv_at b bus"
  "rv_at b (bus\<lparr> pj_data := d \<rparr>) = rv_at b bus"
  "refused_at b (bus\<lparr> pj_strategy := s \<rparr>) = refused_at b bus"
  "refused_at b (bus\<lparr> pj_data := d \<rparr>) = refused_at b bus"
  by (simp_all add: fun_eq_iff rv_at_def refused_at_def packet_overhead_of_def not_mine_def
      header_refused_def bus_id_refused_def)

text \<open>The invariant of the loop.\<close>

definition loop_ok :: "build \<Rightarrow> 's pjon \<Rightarrow> nat \<Rightarrow> bool" where
  "loop_ok b bus i \<longleftrightarrow>
     length (pj_data bus) = packet_max_length b \<and> 6 \<le> packet_max_length b \<and>
     packet_max_length b \<le> 65535 \<and>
     (\<forall>j < i. \<not> refused_at b bus (pj_data bus) j)"

lemma overhead_of_bounds: "5 \<le> unat (packet_overhead_of h bus)" "unat (packet_overhead_of h bus) \<le> 35"
  by (simp_all add: packet_overhead_of_def unat_packet_overhead overhead_nat_bounds)

lemma length_not_refused:
  assumes "\<not> length_refused b n (packet_overhead_of h bus) d1"
  shows "unat (packet_overhead_of h bus) < unat n" "unat n < packet_max_length b"
proof -
  have "unat (packet_overhead_of h bus + 1) = unat (packet_overhead_of h bus) + 1"
    using overhead_of_bounds [of h bus] by (simp add: unat_word_ariths)
  then show "unat (packet_overhead_of h bus) < unat n" "unat n < packet_max_length b"
    using assms by (simp_all add: length_refused_def word_less_nat_alt not_less)
qed

lemma announced_bounds:
  assumes "\<forall>j < i. \<not> refused_at b bus d j" and "3 \<le> i \<and> \<not> extended_packet d \<or> 4 \<le> i"
  shows "unat (packet_overhead_of (d ! 1) bus) < unat (announced_length d)"
    "unat (announced_length d) < packet_max_length b"
proof -
  have "\<not> length_refused b (announced_length d) (packet_overhead_of (d ! 1) bus) (d ! 1)"
  proof (cases "extended_packet d")
    case True
    then have "\<not> refused_at b bus d 3" using assms by auto
    then show ?thesis using True by (simp add: refused_at_def)
  next
    case False
    then have "\<not> refused_at b bus d 2" using assms by auto
    then show ?thesis using False by (simp add: refused_at_def)
  qed
  then show "unat (packet_overhead_of (d ! 1) bus) < unat (announced_length d)"
    "unat (announced_length d) < packet_max_length b"
    by (rule length_not_refused)+
qed

lemma loop_ok_length:
  assumes "loop_ok b bus i"
  shows "6 \<le> unat (rv_length (rv_at b bus (pj_data bus) i k))"
    "unat (rv_length (rv_at b bus (pj_data bus) i k)) \<le> packet_max_length b"
proof -
  let ?d = "pj_data bus"
  have m: "unat (of_nat (packet_max_length b) :: u16) = packet_max_length b" "6 \<le> packet_max_length b"
    and r: "\<forall>j < i. \<not> refused_at b bus ?d j"
    using assms by (simp_all add: loop_ok_def unat_of_nat)
  have o: "5 \<le> unat (packet_overhead_of (?d ! 1) bus)" by (rule overhead_of_bounds)
  have "6 \<le> unat (rv_length (rv_at b bus ?d i k)) \<and>
        unat (rv_length (rv_at b bus ?d i k)) \<le> packet_max_length b"
  proof (cases "3 \<le> i \<and> \<not> extended_packet ?d \<or> 4 \<le> i")
    case True
    then have "rv_length (rv_at b bus ?d i k) = announced_length ?d" by (simp only: rv_at_length if_True)
    with announced_bounds [OF r True] o show ?thesis by simp
  next
    case False
    then have "rv_length (rv_at b bus ?d i k) = of_nat (packet_max_length b)"
      by (simp only: rv_at_length if_False)
    with m show ?thesis by simp
  qed
  then show "6 \<le> unat (rv_length (rv_at b bus ?d i k))"
    "unat (rv_length (rv_at b bus ?d i k)) \<le> packet_max_length b" by simp_all
qed

lemma wr_block_frame:
  "wr_block i bs d = Some d' \<Longrightarrow> length d' = length d \<and> take i d' = take i d"
  by (auto simp: wr_block_def split: if_splits)

lemma rx_fetch_frame:
  assumes "rx_fetch st i (rv_at b bus d i k) bus = Some (r, bus')" and "d = pj_data bus"
  obtains s d' k' where "bus' = bus\<lparr> pj_strategy := s, pj_data := d' \<rparr>" "length d' = length d"
    "take i d' = take i d" "r = Inl PJON_FAIL \<or> r = Inr (rv_at b bus d' i k')"
proof (cases "k = 0")
  case False
  then have "bus' = bus" "r = Inr (rv_at b bus d i (k - 1))" using assms by (auto simp: rx_fetch_def)
  then show ?thesis using assms(2) that [where s = "pj_strategy bus" and d' = d and k' = "k - 1"] by simp
next
  case True
  then obtain n bs s d' where w: "wr_block i bs d = Some d'"
    and r: "bus' = bus\<lparr> pj_strategy := s, pj_data := d' \<rparr>"
      "r = Inl PJON_FAIL \<or> r = Inr (rv_at b bus d i (n - 1))"
    using assms by (auto simp: rx_fetch_def Let_def elim!: bind_SomeE split: prod.splits if_splits)
  have "rv_at b bus d i (n - 1) = rv_at b bus d' i (n - 1)"
    using wr_block_frame [OF w] by (intro rv_at_cong) simp
  then show ?thesis using that [OF r(1)] wr_block_frame [OF w] r(2) by metis
qed

text \<open>The length test never moves the end of the loop behind the index.\<close>

lemma loop_step_length:
  assumes "loop_ok b bus1 (Suc i)" and "take i (pj_data bus1) = take i d"
    and "i < unat (rv_length (rv_at b bus d i k))" and "rv_at b bus1 = rv_at b bus"
  shows "Suc i \<le> unat (rv_length (rv_at b bus1 (pj_data bus1) (Suc i) k'))"
proof (cases "5 \<le> i")
  case False
  then show ?thesis using loop_ok_length(1) [OF assms(1), of k'] by simp
next
  case True
  have "rv_at b bus (pj_data bus1) i k = rv_at b bus d i k" using assms(2) by (rule rv_at_cong)
  moreover have "rv_length (rv_at b bus1 (pj_data bus1) (Suc i) k') = rv_length (rv_at b bus (pj_data bus1) i k)"
    using True by (simp add: assms(4) rv_at_length)
  ultimately show ?thesis using assms(3) by simp
qed

text \<open>What a run of the loop that comes to an end has checked.\<close>

lemma receive_loop_sound:
  assumes "receive_loop st b i (rv_at b bus (pj_data bus) i k) bus = Some (Inr rv, bus')"
    and "loop_ok b bus i" and "i \<le> unat (rv_length (rv_at b bus (pj_data bus) i k))"
  shows "\<exists>s d n k'. bus' = bus\<lparr> pj_strategy := s, pj_data := d \<rparr> \<and> length d = length (pj_data bus) \<and>
           rv = rv_at b bus d n k' \<and> n = unat (rv_length rv) \<and> (\<forall>j < n. \<not> refused_at b bus d j)"
  using assms
proof (induction "65536 - i" arbitrary: i k bus rule: less_induct)
  case less
  let ?rv = "rv_at b bus (pj_data bus) i k" and ?d = "pj_data bus"
  show ?case
  proof (cases "i < unat (rv_length ?rv)")
    case False
    then have eq: "rv = ?rv" "bus' = bus" using less.prems(1) by (auto simp: receive_loop.simps)
    show ?thesis
    proof (intro exI conjI)
      show "bus' = bus\<lparr> pj_strategy := pj_strategy bus, pj_data := ?d \<rparr>" by (simp add: eq(2))
      show "rv = rv_at b bus ?d i k" by (simp only: eq(1))
    qed (use less.prems(2,3) False eq(1) in \<open>auto simp: loop_ok_def\<close>)
  next
    case True
    have i: "i < 65536" using True unsigned_less [of "rv_length ?rv", where 'a = nat] by simp
    obtain r1 bus1 where f: "rx_fetch st i ?rv bus = Some (r1, bus1)"
      using less.prems(1) True by (auto simp: receive_loop.simps [of st b i] split: option.splits)
    then obtain s d' k' where bus1: "bus1 = bus\<lparr> pj_strategy := s, pj_data := d' \<rparr>"
      and len: "length d' = length ?d" and t: "take i d' = take i ?d"
      and r1: "r1 = Inl PJON_FAIL \<or> r1 = Inr (rv_at b bus d' i k')"
      using rx_fetch_frame [OF f refl] by metis
    have r1': "r1 = Inr (rv_at b bus1 (pj_data bus1) i k')"
      using less.prems(1) True f r1 bus1 by (auto simp: receive_loop.simps [of st b i])
    have lim: "i < length (pj_data bus1)" "1 < length (pj_data bus1)"
      using True loop_ok_length(2) [OF less.prems(2), of k] less.prems(2) len bus1
      by (simp_all add: loop_ok_def)
    have run: "(if refused_at b bus1 d' i then Some (Inl PJON_BUSY, bus1)
          else receive_loop st b (Suc i) (rv_at b bus1 (pj_data bus1) (Suc i) k') bus1) = Some (Inr rv, bus')"
      using less.prems(1) True f rx_check_eq [OF lim, of b k'] bus1
      by (auto simp: receive_loop.simps [of st b i] r1' split: if_splits)
    then have nr: "\<not> refused_at b bus1 d' i"
      and run': "receive_loop st b (Suc i) (rv_at b bus1 (pj_data bus1) (Suc i) k') bus1 = Some (Inr rv, bus')"
      by (auto split: if_splits)
    have "\<not> refused_at b bus1 d' j" if "j < i" for j
    proof -
      have "take (Suc j) d' = take (Suc j) ?d"
        using arg_cong [OF t, of "take (Suc j)"] that by (simp add: min_def)
      then show ?thesis using less.prems(2) that refused_at_cong [of j d' ?d b bus]
        by (simp add: bus1 loop_ok_def)
    qed
    with nr have ok: "loop_ok b bus1 (Suc i)"
      using less.prems(2) len bus1 by (auto simp: loop_ok_def less_Suc_eq)
    have le: "Suc i \<le> unat (rv_length (rv_at b bus1 (pj_data bus1) (Suc i) k'))"
      using loop_step_length [OF ok _ True] t by (simp add: bus1)
    have "65536 - Suc i < 65536 - i" using i by simp
    from less.hyps [OF this run' ok le] obtain s2 d2 n2 k2 where
      "bus' = bus1\<lparr> pj_strategy := s2, pj_data := d2 \<rparr>" "length d2 = length (pj_data bus1)"
      "rv = rv_at b bus1 d2 n2 k2" "n2 = unat (rv_length rv)" "\<forall>j < n2. \<not> refused_at b bus1 d2 j"
      by blast
    then show ?thesis using bus1 len by auto
  qed
qed

lemma receive_loop_codes:
  "receive_loop st b i rv bus = Some (Inl code, bus') \<Longrightarrow> code = PJON_FAIL \<or> code = PJON_BUSY"
proof (induction "65536 - i" arbitrary: i rv bus rule: less_induct)
  case less
  have f: "rx_fetch st i rv bus = Some (Inl c, bus1) \<Longrightarrow> c = PJON_FAIL" for c bus1
    by (auto simp: rx_fetch_def Let_def elim!: bind_SomeE split: prod.splits if_splits)
  have c: "rx_check b i rv' bus1 = Some (Inl c) \<Longrightarrow> c = PJON_BUSY" for c rv' bus1
    by (auto simp: rx_check_def Let_def elim!: bind_SomeE split: if_splits)
  show ?case
  proof (cases "i < unat (rv_length rv)")
    case False
    then show ?thesis using less.prems by (simp add: receive_loop.simps)
  next
    case True
    then have lt: "65536 - Suc i < 65536 - i" using unsigned_less [of "rv_length rv", where 'a = nat] by simp
    obtain r1 bus1 where f1: "rx_fetch st i rv bus = Some (r1, bus1)"
      using less.prems True by (auto simp: receive_loop.simps [of st b i rv] split: option.splits)
    show ?thesis
    proof (cases r1)
      case (Inl c1)
      then show ?thesis using less.prems True f1 f [of c1 bus1] by (simp add: receive_loop.simps [of st b i rv])
    next
      case (Inr rv1)
      obtain r2 where c2: "rx_check b i rv1 bus1 = Some r2"
        using less.prems True f1 Inr by (auto simp: receive_loop.simps [of st b i rv] split: option.splits)
      then show ?thesis
        using less.prems True f1 Inr c [of rv1 bus1] less.hyps [OF lt]
        by (cases r2) (simp_all add: receive_loop.simps [of st b i rv])
    qed
  qed
qed

text \<open>The state at the end of a successful run, with the whole packet at the start of the buffer.\<close>

lemma receive_loop_result:
  assumes "receive_loop st b 0 (rx_init b) bus = Some (Inr rv, bus')"
    and "wf_bus b bus" and "6 \<le> packet_max_length b" "packet_max_length b \<le> 65535"
  obtains s d n k where
    "bus' = bus\<lparr> pj_strategy := s, pj_data := d \<rparr>" "length d = packet_max_length b"
    "rv = \<lparr> rv_length = announced_length d, rv_batch = k, rv_overhead = packet_overhead (d ! 1),
             rv_extended = extended_packet d, rv_mac = flag (d ! 1) PJON_MAC_BIT, rv_drop = not_mine bus d \<rparr>"
    "n = unat (announced_length d)" "overhead_nat (d ! 1) < n" "n < packet_max_length b"
    "\<forall>j < n. \<not> refused_at b bus d j"
proof -
  have l: "length (pj_data bus) = packet_max_length b" using assms(2) by (simp add: wf_bus_def)
  have ok: "loop_ok b bus 0" using assms l by (simp add: loop_ok_def)
  have "receive_loop st b 0 (rv_at b bus (pj_data bus) 0 0) bus = Some (Inr rv, bus')"
    using assms(1) by (simp add: rx_init_at [of b bus "pj_data bus"])
  then obtain s d n k where bus': "bus' = bus\<lparr> pj_strategy := s, pj_data := d \<rparr>" "length d = length (pj_data bus)"
    and rv: "rv = rv_at b bus d n k" "n = unat (rv_length rv)" and nr: "\<forall>j < n. \<not> refused_at b bus d j"
    using receive_loop_sound [OF _ ok] by blast
  have "loop_ok b bus' n" using ok bus' nr by (simp add: loop_ok_def)
  then have "6 \<le> unat (rv_length rv)"
    using loop_ok_length(1) [of b bus' n k] bus' by (simp add: rv(1))
  then have "6 \<le> n" by (simp only: rv(2))
  then have "rv_length rv = announced_length d" by (simp add: rv(1) rv_at_length)
  then have ann: "n = unat (announced_length d)" by (simp only: rv(2))
  have "\<not> refused_at b bus d 1" using nr \<open>6 \<le> n\<close> by simp
  then have "d ! 1 \<noteq> PJON_NO_HEADER"
    by (auto simp: refused_at_def header_refused_def flag_def const_defs)
  then have o: "packet_overhead_of (d ! 1) bus = packet_overhead (d ! 1)" by (simp add: packet_overhead_of_def)
  have "overhead_nat (d ! 1) < n" "n < packet_max_length b"
    using announced_bounds [OF nr] \<open>6 \<le> n\<close> ann o by (simp_all add: unat_packet_overhead)
  moreover have "rv = \<lparr> rv_length = announced_length d, rv_batch = k, rv_overhead = packet_overhead (d ! 1),
      rv_extended = extended_packet d, rv_mac = flag (d ! 1) PJON_MAC_BIT, rv_drop = not_mine bus d \<rparr>"
    using rv(1) \<open>6 \<le> n\<close> o by (simp add: rv_at_def)
  ultimately show thesis using that bus' l ann nr by simp
qed

subsection \<open>The acceptance test as a property of the packet\<close>

definition header_crc_ok :: "u8 list \<Rightarrow> bool" where
  "header_crc_ok p \<longleftrightarrow>
     (let k = (if extended_packet p then 4 else 3) in p ! k = crc8_compute (take k p))"

definition packet_crc_ok :: "u8 list \<Rightarrow> bool" where
  "packet_crc_ok p \<longleftrightarrow>
     (if flag (p ! 1) PJON_CRC_BIT
      then drop (length p - 4) p = be32 (crc32_compute (take (length p - 4) p) 0)
      else last p = crc8_compute (butlast p))"

definition bus_id_field :: "u8 list \<Rightarrow> u8 list" where
  "bus_id_field p = take 4 (drop (if extended_packet p then 5 else 4) p)"

definition mac_field :: "u8 list \<Rightarrow> u8 list" where
  "mac_field p = take 6 (drop (overhead_nat (p ! 1) - 16) p)"

text \<open>
  \<open>addressed b bus p\<close>: a bus that is not a router takes packets with its own id, broadcasts, and
  packets with its MAC address (or none); a packet with bus ids must carry those of the bus.
\<close>

definition addressed :: "build \<Rightarrow> 's pjon \<Rightarrow> u8 list \<Rightarrow> bool" where
  "addressed b bus p \<longleftrightarrow> pj_router bus \<or>
     (flag (p ! 1) PJON_MAC_BIT \<or> p ! 0 = ep_id (pj_tx bus) \<or> p ! 0 = PJON_BROADCAST) \<and>
     (flag (pj_config bus) PJON_MODE_BIT \<longrightarrow> flag (p ! 1) PJON_MODE_BIT) \<and>
     (flag (p ! 1) PJON_MODE_BIT \<and> \<not> flag (p ! 1) PJON_MAC_BIT \<longrightarrow>
        bus_id_field p = (if flag (pj_config bus) PJON_MODE_BIT then ep_bus_id (pj_tx bus) else localhost)) \<and>
     (flag (p ! 1) PJON_MAC_BIT \<longrightarrow> mac_field p = ep_mac (pj_tx bus) \<or> mac_field p = no_mac)"

definition well_formed_packet :: "build \<Rightarrow> u8 list \<Rightarrow> bool" where
  "well_formed_packet b p \<longleftrightarrow>
     unat (announced_length p) = length p \<and> overhead_nat (p ! 1) < length p \<and>
     length p < packet_max_length b \<and>
     (15 < length p \<or> flag (p ! 1) PJON_EXT_LEN_BIT \<or> flag (p ! 1) PJON_MAC_BIT \<longrightarrow> flag (p ! 1) PJON_CRC_BIT) \<and>
     \<not> (p ! 0 = PJON_BROADCAST \<and> flag (p ! 1) PJON_ACK_REQ_BIT) \<and>
     (flag (p ! 1) PJON_PACKET_ID_BIT \<longrightarrow> include_packet_id b) \<and>
     (flag (p ! 1) PJON_PORT_BIT \<longrightarrow> include_port b) \<and>
     (flag (p ! 1) PJON_MAC_BIT \<longrightarrow> include_mac b) \<and>
     header_crc_ok p \<and> packet_crc_ok p"

lemma packet_take_short:
  assumes "4 < n" and "n \<le> length d"
  shows "take n d ! 0 = d ! 0" "take n d ! 1 = d ! 1" "extended_packet (take n d) = extended_packet d"
    "announced_length (take n d) = announced_length d"
  using assms by (simp_all add: extended_packet_def announced_length_def)

lemma packet_take:
  assumes "5 < n" and "n \<le> length d"
  shows "take n d ! 0 = d ! 0" "take n d ! 1 = d ! 1" "extended_packet (take n d) = extended_packet d"
    "announced_length (take n d) = announced_length d"
  using assms by (simp_all add: packet_take_short)

lemma bus_ids_match:
  assumes "8 + of_bool e \<le> n" and "n \<le> length d" and "length (ep_bus_id (pj_tx bus)) = 4"
    and "flag d1 PJON_MODE_BIT" "\<not> pj_router bus" "\<not> m"
  shows "(\<forall>j < n. \<not> bus_id_refused bus j e m d1 (d ! j)) \<longleftrightarrow>
    take 4 (drop (4 + of_bool e) d)
      = (if flag (pj_config bus) PJON_MODE_BIT then ep_bus_id (pj_tx bus) else localhost)"
proof -
  let ?x = "if flag (pj_config bus) PJON_MODE_BIT then ep_bus_id (pj_tx bus) else localhost"
  let ?k = "4 + of_bool e :: nat"
  have x: "length ?x = 4" using assms(3) by (simp add: localhost_def)
  have z: "localhost ! k = 0" if "k < 4" for k
    using that by (auto simp: localhost_def less_Suc_eq eval_nat_numeral)
  have refused: "bus_id_refused bus j e m d1 (d ! j) \<longleftrightarrow> ?k \<le> j \<and> j < ?k + 4 \<and> ?x ! (j - ?k) \<noteq> d ! j" for j
  proof (cases "?k \<le> j \<and> j < ?k + 4")
    case True
    then have "j - ?k < 4" by linarith
    with True show ?thesis using assms(4-6) z [of "j - ?k"] by (auto simp: bus_id_refused_def)
  next
    case False
    then show ?thesis by (cases e) (auto simp: bus_id_refused_def)
  qed
  have "take 4 (drop ?k d) = ?x \<longleftrightarrow> (\<forall>i < 4. d ! (?k + i) = ?x ! i)"
    using assms(1,2) x by (auto simp: list_eq_iff_nth_eq)
  also have "\<dots> \<longleftrightarrow> (\<forall>j < n. \<not> bus_id_refused bus j e m d1 (d ! j))"
  proof
    assume a: "\<forall>i < 4. d ! (?k + i) = ?x ! i"
    show "\<forall>j < n. \<not> bus_id_refused bus j e m d1 (d ! j)"
    proof (intro allI impI notI)
      fix j assume "bus_id_refused bus j e m d1 (d ! j)"
      then have j: "?k \<le> j" "j < ?k + 4" "?x ! (j - ?k) \<noteq> d ! j" by (auto simp: refused)
      then have "j - ?k < 4" by linarith
      with a have "d ! (?k + (j - ?k)) = ?x ! (j - ?k)" by blast
      with j show False by simp
    qed
  next
    assume a: "\<forall>j < n. \<not> bus_id_refused bus j e m d1 (d ! j)"
    show "\<forall>i < 4. d ! (?k + i) = ?x ! i"
    proof (intro allI impI)
      fix i :: nat assume i: "i < 4"
      then have "?k + i < n" using assms(1) by (cases e) simp_all
      with a have "\<not> bus_id_refused bus (?k + i) e m d1 (d ! (?k + i))" by blast
      with i show "d ! (?k + i) = ?x ! i" unfolding refused by auto
    qed
  qed
  finally show ?thesis by blast
qed

lemma overhead_mode:
  "flag h PJON_MODE_BIT \<Longrightarrow> 9 + of_bool (flag h PJON_EXT_LEN_BIT) < overhead_nat h"
  by (simp add: overhead_nat_def flag_simps)

text \<open>The refusals of the loop, all together.\<close>

lemma not_refused_iff:
  assumes "n = unat (announced_length d)" "overhead_nat (d ! 1) < n" "n < packet_max_length b" "n \<le> length d"
    and "length (ep_bus_id (pj_tx bus)) = 4" and "d ! 1 \<noteq> PJON_NO_HEADER"
  shows "(\<forall>j < n. \<not> refused_at b bus d j) \<longleftrightarrow>
    \<not> header_refused b bus (not_mine bus d) (d ! 0) (d ! 1) \<and>
    (15 < n \<longrightarrow> flag (d ! 1) PJON_CRC_BIT) \<and>
    (flag (d ! 1) PJON_MODE_BIT \<and> \<not> pj_router bus \<and> \<not> flag (d ! 1) PJON_MAC_BIT \<longrightarrow>
       bus_id_field d = (if flag (pj_config bus) PJON_MODE_BIT then ep_bus_id (pj_tx bus) else localhost))"
    (is "?L \<longleftrightarrow> ?H \<and> ?C \<and> ?B")
proof -
  have n5: "5 < n" using assms(2) overhead_nat_bounds(1) [of "d ! 1"] by simp
  have o: "packet_overhead_of (d ! 1) bus = packet_overhead (d ! 1)"
    using assms(6) by (simp add: packet_overhead_of_def)
  have o1: "unat (packet_overhead (d ! 1) + 1) = overhead_nat (d ! 1) + 1"
    using overhead_nat_bounds(2) [of "d ! 1"] by (simp add: unat_word_ariths unat_packet_overhead)
  have len: "length_refused b (announced_length d) (packet_overhead_of (d ! 1) bus) (d ! 1) \<longleftrightarrow> \<not> ?C"
    unfolding length_refused_def o word_less_nat_alt
    using assms(1-3) o1 by auto
  have "?L \<longleftrightarrow> ?H \<and> ?C \<and> (\<forall>j < n. \<not> bus_id_refused bus j (extended_packet d) (flag (d ! 1) PJON_MAC_BIT) (d ! 1) (d ! j))"
  proof -
    have "1 < n" "2 < n" "3 < n" using n5 by simp_all
    then show ?thesis unfolding refused_at_def len by blast
  qed
  also have "(\<forall>j < n. \<not> bus_id_refused bus j (extended_packet d) (flag (d ! 1) PJON_MAC_BIT) (d ! 1) (d ! j)) \<longleftrightarrow> ?B"
  proof (cases "flag (d ! 1) PJON_MODE_BIT \<and> \<not> pj_router bus \<and> \<not> flag (d ! 1) PJON_MAC_BIT")
    case True
    then have "8 + of_bool (extended_packet d) \<le> n"
      using overhead_mode [of "d ! 1"] assms(2) by (simp add: extended_packet_def)
    from bus_ids_match [OF this assms(4,5), of "d ! 1" "flag (d ! 1) PJON_MAC_BIT"] True
    have "(\<forall>j < n. \<not> bus_id_refused bus j (extended_packet d) (flag (d ! 1) PJON_MAC_BIT) (d ! 1) (d ! j)) \<longleftrightarrow>
        take 4 (drop (4 + of_bool (extended_packet d)) d)
          = (if flag (pj_config bus) PJON_MODE_BIT then ep_bus_id (pj_tx bus) else localhost)"
      by blast
    moreover have "take 4 (drop (4 + of_bool (extended_packet d)) d) = bus_id_field d"
      by (simp add: bus_id_field_def)
    ultimately show ?thesis using True by simp
  qed (auto simp: bus_id_refused_def)
  finally show ?thesis .
qed

lemma rx_crc_ok_short:
  assumes "rv_extended rv = extended_packet d" and "unat (rv_length rv) = n" and "4 < n" "n \<le> length d"
  shows "rx_crc_ok rv d = Some (header_crc_ok (take n d) \<and> packet_crc_ok (take n d))"
proof -
  let ?k = "3 + of_bool (extended_packet d) :: nat"
  have k: "?k < n" "?k < length d" using assms(3,4) by (cases "extended_packet d"; simp)+
  have h: "header_crc_ok (take n d) \<longleftrightarrow> d ! ?k = crc8_compute (take ?k d)"
    using packet_take_short [OF assms(3,4)] k
    by (cases "extended_packet d") (simp_all add: header_crc_ok_def Let_def min_def)
  have "take n d \<noteq> []" "length (take n d) = n" using assms(3,4) by auto
  then have l: "last (take n d) = d ! (n - 1)" "butlast (take n d) = take (n - 1) d"
    using assms(3,4) by (simp_all add: last_conv_nth butlast_take)
  have dr: "drop (n - 4) (take n d) = take 4 (drop (n - 4) d)" using assms(3) by (simp add: drop_take)
  have c: "packet_crc_ok (take n d) \<longleftrightarrow>
      (if flag (d ! 1) PJON_CRC_BIT then take 4 (drop (n - 4) d) = be32 (crc32_compute (take (n - 4) d) 0)
       else d ! (n - 1) = crc8_compute (take (n - 1) d))"
    using packet_take_short [OF assms(3,4)] assms(3,4) l dr by (simp add: packet_crc_ok_def min_def)
  have "length (take 4 (drop (n - 4) d)) = 4" using assms(3,4) by simp
  then have cmp: "crc32_compare x (take 4 (drop (n - 4) d)) = Some (take 4 (drop (n - 4) d) = be32 x)" for x
    by (rule crc32_compare_eq)
  show ?thesis
    using assms k unfolding h c rx_crc_ok_def Let_def
    by (auto simp: rd_def rd_block_def cmp)
qed

lemma rx_crc_ok_eq:
  assumes "rv_extended rv = extended_packet d" and "unat (rv_length rv) = n" and "5 < n" "n \<le> length d"
  shows "rx_crc_ok rv d = Some (header_crc_ok (take n d) \<and> packet_crc_ok (take n d))"
  using assms by (intro rx_crc_ok_short) simp_all

subsection \<open>The checks after the loop never fault\<close>

lemma fetch_within:
  assumes "i \<le> m" and "m + n \<le> length p"
  shows "\<exists>bs j. fetch_when c n p i = Some (bs, j) \<and> j \<le> m + n \<and> (bs = [] \<or> length bs = n)"
  using assms by (cases c) (auto simp: fetch_when_def rd_block_def)

lemma parse_bus_ids_total:
  assumes "40 \<le> length d" and "k \<le> 5" and "wf_info i0"
  shows "\<exists>i1 k1. parse_bus_ids b d (i0, k) = Some (i1, k1) \<and> k1 \<le> 14 \<and> wf_info i1 \<and> pi_header i1 = pi_header i0"
proof (cases "\<not> pjon_local b \<and> flag (pi_header i0) PJON_MODE_BIT")
  case False
  then show ?thesis using assms by (auto simp: parse_bus_ids_def)
next
  case True
  have 1: "fetch_when True 4 d k = Some (take 4 (drop k d), k + 4)"
    using assms by (simp add: fetch_when_def rd_block_def)
  obtain bs j where 2: "fetch_when (flag (pi_header i0) PJON_TX_INFO_BIT) 4 d (k + 4) = Some (bs, j)"
    "j \<le> 9 + 4" "bs = [] \<or> length bs = 4"
    using fetch_within [of "k + 4" 9 4 d "flag (pi_header i0) PJON_TX_INFO_BIT"] assms by auto
  have 3: "fetch_when True 1 d j = Some (take 1 (drop j d), j + 1)"
    using 2(2) assms by (simp add: fetch_when_def rd_block_def)
  show ?thesis
    using True 2 3 assms unfolding parse_bus_ids_def
    by (auto simp: 1 wf_info_def wf_endpoint_def)
qed

lemma parse_header_total:
  assumes "40 \<le> length d"
  obtains info where "parse_header b d = Some info" "wf_info info" "pi_header info = d ! 1"
proof -
  define i0 where "i0 = new_packet_info\<lparr> pi_rx := (pi_rx new_packet_info)\<lparr> ep_id := d ! 0 \<rparr>, pi_header := d ! 1 \<rparr>"
  let ?h = "d ! 1"
  let ?k = "2 + (if flag ?h PJON_EXT_LEN_BIT then 3 else 2) :: nat"
  have i0: "wf_info i0" "pi_header i0 = ?h"
    by (simp_all add: i0_def wf_info_def wf_endpoint_def new_packet_info_def new_endpoint_def)
  have R: "rd d 0 = Some (d ! 0)" "rd d 1 = Some ?h" using assms by (auto simp: rd_def)
  obtain i1 k1 where A: "parse_bus_ids b d (i0, ?k) = Some (i1, k1)" "k1 \<le> 14" "wf_info i1" "pi_header i1 = ?h"
  proof -
    have "?k \<le> 5" by simp
    from parse_bus_ids_total [OF assms this i0(1), of b] show thesis using i0(2) that by auto
  qed
  obtain tx k2 where B: "fetch_when (flag ?h PJON_TX_INFO_BIT) 1 d k1 = Some (tx, k2)" "k2 \<le> 15"
    using fetch_within [OF A(2), of 1 d "flag ?h PJON_TX_INFO_BIT"] assms by auto
  obtain pid k3 where C: "fetch_when (include_packet_id b \<and> flag ?h PJON_PACKET_ID_BIT) 2 d k2 = Some (pid, k3)" "k3 \<le> 17"
    using fetch_within [OF B(2), of 2 d "include_packet_id b \<and> flag ?h PJON_PACKET_ID_BIT"] assms by auto
  obtain prt k4 where D: "fetch_when (include_port b \<and> flag ?h PJON_PORT_BIT) 2 d k3 = Some (prt, k4)" "k4 \<le> 19"
    using fetch_within [OF C(2), of 2 d "include_port b \<and> flag ?h PJON_PORT_BIT"] assms by auto
  obtain macs k5 where E: "fetch_when (include_mac b) 12 d k4 = Some (macs, k5)" "macs = [] \<or> length macs = 12"
    using fetch_within [OF D(2), of 12 d "include_mac b"] assms by auto
  define i2 where "i2 = (if tx = [] then i1 else i1\<lparr> pi_tx := (pi_tx i1)\<lparr> ep_id := tx ! 0 \<rparr> \<rparr>)"
  define i3 where "i3 = (if pid = [] then i2 else i2\<lparr> pi_id := join16 (pid ! 0) (pid ! 1) \<rparr>)"
  define i4 where "i4 = (if prt = [] then i3 else i3\<lparr> pi_port := join16 (prt ! 0) (prt ! 1) \<rparr>)"
  define i5 where "i5 = (if macs = [] then i4
                else i4\<lparr> pi_rx := (pi_rx i4)\<lparr> ep_mac := take 6 macs \<rparr>,
                           pi_tx := (pi_tx i4)\<lparr> ep_mac := drop 6 macs \<rparr> \<rparr>)"
  have "parse_header b d = Some i5"
    unfolding parse_header_def Let_def R Option.bind.simps i0_def [symmetric] A(1) prod.case B(1) C(1) D(1) E(1)
    by (simp add: i5_def i4_def i3_def i2_def)
  moreover have "wf_info i2" "pi_header i2 = ?h" using A by (auto simp: i2_def wf_info_def wf_endpoint_def)
  then have "wf_info i3" "pi_header i3 = ?h" by (auto simp: i3_def wf_info_def wf_endpoint_def)
  then have "wf_info i4" "pi_header i4 = ?h" by (auto simp: i4_def wf_info_def wf_endpoint_def)
  then have "wf_info i5" "pi_header i5 = ?h" using E(2) by (auto simp: i5_def wf_info_def wf_endpoint_def)
  ultimately show thesis using that by blast
qed

lemma mac_refused_eq:
  assumes "rv_overhead rv = packet_overhead (d ! 1)" "rv_mac rv = flag (d ! 1) PJON_MAC_BIT"
    and "unat (rv_length rv) = n" "overhead_nat (d ! 1) < n" "n \<le> length d" "d = pj_data bus"
    and "length (ep_mac (pj_tx bus)) = 6"
  shows "mac_refused b rv bus = Some (include_mac b \<and> flag (d ! 1) PJON_MAC_BIT \<and> \<not> pj_router bus \<and>
           mac_field (take n d) \<noteq> ep_mac (pj_tx bus) \<and> mac_field (take n d) \<noteq> no_mac)"
proof (cases "flag (d ! 1) PJON_MAC_BIT")
  case False
  then show ?thesis by (simp add: mac_refused_def assms)
next
  case True
  let ?o = "overhead_nat (d ! 1)"
  have o: "17 \<le> ?o" "1 < n" using True assms(4) by (simp_all add: overhead_nat_def flag_simps)
  then have "rv_length rv > 15" using assms(3,4) by (simp add: word_less_nat_alt)
  moreover have "\<not> rv_overhead rv < 16" using o by (simp add: assms(1) word_less_nat_alt unat_packet_overhead)
  moreover have "rd_block d (?o - 16) 6 = Some (take 6 (drop (?o - 16) d))"
    using o assms(4,5) by (simp add: rd_block_def)
  moreover have m: "mac_field (take n d) = take 6 (drop (?o - 16) d)"
  proof -
    have "min 6 (n - (?o - 16)) = 6" using o assms(4) by simp
    then show ?thesis using o by (simp only: mac_field_def drop_take take_take nth_take)
  qed
  moreover have "length (take 6 (drop (?o - 16) d)) = 6" using o assms(4,5) by simp
  ultimately show ?thesis
    using True by (auto simp: mac_refused_def assms(1,2,6,7) unat_packet_overhead id_equality_iff no_mac_def)
qed

end
