(* ===== verification/Receive_Laws.thy ===== *)
theory Receive_Laws
  imports Receive
begin

text \<open>
  What \<^verbatim>\<open>receive\<close> guarantees: it never leaves its buffers (for a strategy that keeps to the space it
  is given), it acknowledges only checked packets that are addressed to the bus, and it accepts every
  packet a composer makes for it, in whatever batches the strategy delivers it.
\<close>

subsection \<open>Delivery\<close>

definition payload_of :: "u8 list \<Rightarrow> u8 list" where
  "payload_of p =
     take (length p - overhead_nat (p ! 1))
       (drop (overhead_nat (p ! 1) - unat (crc_overhead (p ! 1))) p)"

definition acked :: "'s strategy \<Rightarrow> 's pjon \<Rightarrow> u8 list \<Rightarrow> 's pjon" where
  "acked st bus p =
     (if flag (p ! 1) PJON_ACK_REQ_BIT \<and> p ! 0 \<noteq> PJON_BROADCAST \<and> pj_mode bus \<noteq> PJON_SIMPLEX \<and>
         \<not> pj_router bus
      then on_strategy (st_send_response st PJON_ACK) bus else bus)"

definition duplicate :: "build \<Rightarrow> 's pjon \<Rightarrow> packet_info \<Rightarrow> bool" where
  "duplicate b bus info \<longleftrightarrow>
     include_packet_id b \<and> \<not> pj_router bus \<and> flag (pi_header info) PJON_PACKET_ID_BIT \<and>
     list_ex (known_record info) (take (max_recent_packet_ids b) (pj_recent_packet_ids bus))"

definition remembered :: "build \<Rightarrow> packet_info \<Rightarrow> 's pjon \<Rightarrow> 's pjon" where
  "remembered b info bus =
     (if include_packet_id b \<and> \<not> pj_router bus \<and> flag (pi_header info) PJON_PACKET_ID_BIT \<and>
         \<not> duplicate b bus info
      then save_packet_id b info bus else bus)"

lemma acked_frame [simp]:
  "pj_data (acked st bus p) = pj_data bus" "pj_custom_pointer (acked st bus p) = pj_custom_pointer bus"
  "pj_router (acked st bus p) = pj_router bus" "pj_events (acked st bus p) = pj_events bus"
  "pj_port (acked st bus p) = pj_port bus" "pj_tx (acked st bus p) = pj_tx bus"
  "pj_recent_packet_ids (acked st bus p) = pj_recent_packet_ids bus"
  "pj_packets (acked st bus p) = pj_packets bus"
  by (simp_all add: acked_def on_strategy_def)

lemma save_packet_id_frame [simp]:
  "pj_data (save_packet_id b info bus) = pj_data bus" "pj_events (save_packet_id b info bus) = pj_events bus"
  "pj_port (save_packet_id b info bus) = pj_port bus" "pj_strategy (save_packet_id b info bus) = pj_strategy bus"
  "pj_last_packet_info (save_packet_id b info bus) = pj_last_packet_info bus"
  by (simp_all add: save_packet_id_def Let_def)

lemma remembered_frame [simp]:
  "pj_data (remembered b info bus) = pj_data bus" "pj_events (remembered b info bus) = pj_events bus"
  "pj_port (remembered b info bus) = pj_port bus" "pj_strategy (remembered b info bus) = pj_strategy bus"
  "pj_last_packet_info (remembered b info bus) = pj_last_packet_info bus"
  by (simp_all add: remembered_def)

text \<open>\<open>received info p bus\<close>: the outcome of a packet that passed all checks.\<close>

definition received :: "build \<Rightarrow> packet_info \<Rightarrow> u8 list \<Rightarrow> 's pjon \<Rightarrow> u16 \<times> 's pjon" where
  "received b info p bus =
     (let bus1 = remembered b info (bus\<lparr> pj_last_packet_info := info \<rparr>) in
      if duplicate b bus info then (PJON_ACK, bus1)
      else if include_port b \<and> pj_port bus \<noteq> 0 \<and> pj_port bus \<noteq> pi_port info then (PJON_BUSY, bus1)
      else (PJON_ACK, emit_event (Received (payload_of p) (of_nat (length p - overhead_nat (p ! 1))) info) bus1))"

lemma duplicate_frame [simp]:
  "duplicate b (bus\<lparr> pj_last_packet_info := i \<rparr>) = duplicate b bus"
  "duplicate b (acked st bus p) = duplicate b bus"
  "duplicate b (bus\<lparr> pj_strategy := s \<rparr>) = duplicate b bus"
  "duplicate b (bus\<lparr> pj_data := d \<rparr>) = duplicate b bus"
  by (simp_all add: fun_eq_iff duplicate_def)

lemma duplicate_pointer [simp]:
  "duplicate b bus (info\<lparr> pi_custom_pointer := x \<rparr>) = duplicate b bus info"
proof -
  have "known_record (info\<lparr> pi_custom_pointer := x \<rparr>) = known_record info"
    by (simp add: fun_eq_iff known_record_def)
  then show ?thesis by (simp add: duplicate_def)
qed

lemma rx_deliver_eq:
  assumes "d = pj_data bus" "unat (rv_length rv) = n" "rv_overhead rv = packet_overhead (d ! 1)"
    and "overhead_nat (d ! 1) < n" "n \<le> length d" "40 \<le> length d"
  obtains info where "parse_header b d = Some info" "wf_info info" "pi_header info = d ! 1"
    "rx_deliver st b rv bus =
       Some (received b (info\<lparr> pi_custom_pointer := pj_custom_pointer bus \<rparr>) (take n d) (acked st bus (take n d)))"
proof -
  obtain info where i: "parse_header b d = Some info" "wf_info info" "pi_header info = d ! 1"
    using parse_header_total [OF assms(6)] by blast
  let ?i = "info\<lparr> pi_custom_pointer := pj_custom_pointer bus \<rparr>" and ?o = "overhead_nat (d ! 1)"
  let ?c = "unat (crc_overhead (d ! 1))"
  have n: "5 < n" using assms(4) overhead_nat_bounds(1) [of "d ! 1"] by simp
  have R: "rd d 0 = Some (d ! 0)" "rd d 1 = Some (d ! 1)" using assms(6) by (auto simp: rd_def)
  have P: "parse b d bus' = Some (info\<lparr> pi_custom_pointer := pj_custom_pointer bus' \<rparr>)" for bus' :: "'a pjon"
    by (simp add: parse_def i)
  have t: "take n d ! 0 = d ! 0" "take n d ! 1 = d ! 1" using n assms(5) by simp_all
  have c: "?c \<le> ?o" using overhead_nat_bounds(1) [of "d ! 1"] unat_crc_overhead_le [of "d ! 1"] by simp
  have l: "unat (rv_length rv - ucast (rv_overhead rv)) = n - ?o"
    using assms(2-4) by (simp add: unat_sub word_le_nat_alt unat_packet_overhead)
  have l': "rv_length rv - ucast (rv_overhead rv) = of_nat (n - ?o)"
    by (subst l [symmetric]) simp
  have un: "unat (of_nat (n - ?o) :: u16) = n - ?o" using l by (simp only: l')
  have pay: "rd_block d (?o - ?c) (n - ?o) = Some (payload_of (take n d))"
  proof -
    have "?o - ?c + (n - ?o) \<le> length d" "min (n - ?o) (n - (?o - ?c)) = n - ?o" "length (take n d) = n"
      using assms(4,5) c by simp_all
    then show ?thesis by (simp only: rd_block_def payload_of_def drop_take take_take t if_True)
  qed
  have "rx_deliver st b rv bus = Some (received b ?i (take n d) (acked st bus (take n d)))"
  proof -
    define bus1 where "bus1 = acked st bus (take n d)"
    have ack: "(if flag (d ! 1) PJON_ACK_REQ_BIT \<and> d ! 0 \<noteq> PJON_BROADCAST \<and> pj_mode bus \<noteq> PJON_SIMPLEX \<and>
         \<not> pj_router bus then on_strategy (st_send_response st PJON_ACK) bus else bus) = bus1"
      by (simp only: bus1_def acked_def t)
    have b1: "pj_data bus1 = d" "pj_custom_pointer bus1 = pj_custom_pointer bus"
      using assms(1) by (simp_all add: bus1_def)
    let ?bus2 = "bus1\<lparr> pj_last_packet_info := ?i \<rparr>"
    have known: "(if include_packet_id b \<and> \<not> pj_router ?bus2 \<and> flag (pi_header ?i) PJON_PACKET_ID_BIT
             then known_packet_id b ?i ?bus2 else (False, ?bus2)) = (duplicate b bus1 ?i, remembered b ?i ?bus2)"
      by (auto simp: known_packet_id_def duplicate_def remembered_def)
    have "rx_deliver st b rv bus =
      (if duplicate b bus1 ?i then Some (PJON_ACK, remembered b ?i ?bus2)
       else if include_port b \<and> pj_port (remembered b ?i ?bus2) \<noteq> ucast PJON_BROADCAST \<and>
               pj_port (remembered b ?i ?bus2) \<noteq> pi_port ?i then Some (PJON_BUSY, remembered b ?i ?bus2)
       else do { payload \<leftarrow> rd_block d (?o - ?c) (n - ?o);
                 Some (PJON_ACK, emit_event (Received payload (of_nat (n - ?o)) ?i) (remembered b ?i ?bus2)) })"
      unfolding rx_deliver_def Let_def assms(1) [symmetric] R Option.bind.simps ack b1 P known prod.case
        assms(3) l unat_packet_overhead remembered_frame pjon.simps l' [unfolded assms(3)] un
      by (simp add: b1)
    moreover have "length (take n d) = n" using assms(5) by simp
    ultimately show ?thesis
      unfolding received_def Let_def bus1_def [symmetric] t pay by (simp add: PJON_BROADCAST_def)
  qed
  with i that show thesis by blast
qed

subsection \<open>Only checked packets are acknowledged\<close>

text \<open>What happens after the loop, for the packet \<open>p\<close> at the start of the buffer \<open>d\<close>.\<close>

lemma receive_after_loop:
  assumes loop: "receive_loop st b 0 (rx_init b) bus = Some (Inr rv, bus1)"
    and wf: "wf_bus b bus" and m: "40 \<le> packet_max_length b" "packet_max_length b \<le> 65535"
  obtains s d n info where
    "bus1 = bus\<lparr> pj_strategy := s, pj_data := d \<rparr>" "length d = packet_max_length b"
    "n = unat (announced_length d)" "overhead_nat (d ! 1) < n" "n < packet_max_length b"
    "\<forall>j < n. \<not> refused_at b bus d j"
    "parse_header b d = Some info" "wf_info info" "pi_header info = d ! 1"
    "receive st b bus =
       Some (if \<not> (header_crc_ok (take n d) \<and> packet_crc_ok (take n d)) then (PJON_NAK, bus1)
             else if include_mac b \<and> flag (d ! 1) PJON_MAC_BIT \<and> \<not> pj_router bus \<and>
                  mac_field (take n d) \<noteq> ep_mac (pj_tx bus) \<and> mac_field (take n d) \<noteq> no_mac
             then (PJON_BUSY, bus1)
             else received b (info\<lparr> pi_custom_pointer := pj_custom_pointer bus \<rparr>) (take n d)
                    (acked st bus1 (take n d)))"
proof -
  have "6 \<le> packet_max_length b" using m by simp
  then obtain s d n k where
    b1: "bus1 = bus\<lparr> pj_strategy := s, pj_data := d \<rparr>" "length d = packet_max_length b"
    and rv: "rv = \<lparr> rv_length = announced_length d, rv_batch = k, rv_overhead = packet_overhead (d ! 1),
             rv_extended = extended_packet d, rv_mac = flag (d ! 1) PJON_MAC_BIT, rv_drop = not_mine bus d \<rparr>"
    and n: "n = unat (announced_length d)" "overhead_nat (d ! 1) < n" "n < packet_max_length b"
    and nr: "\<forall>j < n. \<not> refused_at b bus d j"
    by (rule receive_loop_result [OF loop wf _ m(2)])
  have n5: "5 < n" "n \<le> length d" "40 \<le> length d"
    using n overhead_nat_bounds(1) [of "d ! 1"] b1 m by simp_all
  have f: "d = pj_data bus1" "unat (rv_length rv) = n" "rv_overhead rv = packet_overhead (d ! 1)"
    "rv_extended rv = extended_packet d" "rv_mac rv = flag (d ! 1) PJON_MAC_BIT"
    using b1 rv n(1) by simp_all
  obtain info where i: "parse_header b d = Some info" "wf_info info" "pi_header info = d ! 1"
    and del: "rx_deliver st b rv bus1 =
       Some (received b (info\<lparr> pi_custom_pointer := pj_custom_pointer bus1 \<rparr>) (take n d) (acked st bus1 (take n d)))"
    by (rule rx_deliver_eq [OF f(1,2,3) n(2) n5(2,3)])
  have "length (ep_mac (pj_tx bus1)) = 6" using wf b1 by (simp add: wf_bus_def wf_endpoint_def)
  from mac_refused_eq [OF f(3,5,2) n(2) n5(2) f(1) this]
  have mac: "mac_refused b rv bus1 = Some (include_mac b \<and> flag (d ! 1) PJON_MAC_BIT \<and> \<not> pj_router bus \<and>
           mac_field (take n d) \<noteq> ep_mac (pj_tx bus) \<and> mac_field (take n d) \<noteq> no_mac)"
    by (simp add: b1)
  have c: "pj_custom_pointer bus1 = pj_custom_pointer bus" by (simp add: b1)
  have "receive st b bus =
       Some (if \<not> (header_crc_ok (take n d) \<and> packet_crc_ok (take n d)) then (PJON_NAK, bus1)
             else if include_mac b \<and> flag (d ! 1) PJON_MAC_BIT \<and> \<not> pj_router bus \<and>
                  mac_field (take n d) \<noteq> ep_mac (pj_tx bus) \<and> mac_field (take n d) \<noteq> no_mac
             then (PJON_BUSY, bus1)
             else received b (info\<lparr> pi_custom_pointer := pj_custom_pointer bus \<rparr>) (take n d)
                    (acked st bus1 (take n d)))"
    unfolding receive_def loop Option.bind.simps prod.case sum.case f(1) [symmetric]
      rx_crc_ok_eq [OF f(4,2) n5(1,2)] mac del c by simp
  with b1 n nr i that show thesis by blast
qed

lemma received_result:
  assumes "received b info p bus = (r, bus')"
  shows "pj_data bus' = pj_data bus" "pj_last_packet_info bus' = info"
    "r = PJON_ACK \<Longrightarrow> pj_events bus' = pj_events bus @ (if duplicate b bus info then []
        else [Received (payload_of p) (of_nat (length p - overhead_nat (p ! 1))) info])"
  using assms by (auto simp: received_def Let_def emit_event_def PJON_BUSY_def PJON_ACK_def split: if_splits)

lemma header_accepted:
  assumes "\<not> header_refused b bus drop_packet d0 d1"
  shows "\<not> pj_router bus \<longrightarrow> flag (pj_config bus) PJON_MODE_BIT \<longrightarrow> flag d1 PJON_MODE_BIT"
    "\<not> (d0 = PJON_BROADCAST \<and> flag d1 PJON_ACK_REQ_BIT)"
    "flag d1 PJON_EXT_LEN_BIT \<longrightarrow> flag d1 PJON_CRC_BIT"
    "flag d1 PJON_PACKET_ID_BIT \<longrightarrow> include_packet_id b"
    "flag d1 PJON_PORT_BIT \<longrightarrow> include_port b"
    "flag d1 PJON_MAC_BIT \<longrightarrow> include_mac b" "flag d1 PJON_MAC_BIT \<longrightarrow> flag d1 PJON_CRC_BIT"
    "drop_packet \<longrightarrow> flag d1 PJON_MAC_BIT"
  using assms unfolding header_refused_def Let_def by blast+

lemma refused_addressed:
  assumes "\<forall>j < n. \<not> refused_at b bus d j"
    and n: "n = unat (announced_length d)" "overhead_nat (d ! 1) < n" "n < packet_max_length b" "n \<le> length d"
    and wf: "wf_bus b bus"
    and crc: "header_crc_ok (take n d)" "packet_crc_ok (take n d)"
    and mac: "\<not> (include_mac b \<and> flag (d ! 1) PJON_MAC_BIT \<and> \<not> pj_router bus \<and>
                  mac_field (take n d) \<noteq> ep_mac (pj_tx bus) \<and> mac_field (take n d) \<noteq> no_mac)"
  shows "well_formed_packet b (take n d)" "addressed b bus (take n d)"
proof -
  have n5: "5 < n" using n overhead_nat_bounds(1) [of "d ! 1"] by simp
  have "\<not> refused_at b bus d 1" using assms(1) n5 by simp
  then have h: "d ! 1 \<noteq> PJON_NO_HEADER"
    by (auto simp: refused_at_def header_refused_def flag_def const_defs)
  have "length (ep_bus_id (pj_tx bus)) = 4" using wf by (simp add: wf_bus_def wf_endpoint_def)
  from assms(1) [unfolded not_refused_iff [OF n this h]]
  have r: "\<not> header_refused b bus (not_mine bus d) (d ! 0) (d ! 1)" "15 < n \<longrightarrow> flag (d ! 1) PJON_CRC_BIT"
    "flag (d ! 1) PJON_MODE_BIT \<and> \<not> pj_router bus \<and> \<not> flag (d ! 1) PJON_MAC_BIT \<longrightarrow>
       bus_id_field d = (if flag (pj_config bus) PJON_MODE_BIT then ep_bus_id (pj_tx bus) else localhost)"
    by auto
  note t = packet_take [OF n5 n(4)]
  have l: "length (take n d) = n" using n(4) by simp
  show "well_formed_packet b (take n d)"
    unfolding well_formed_packet_def t l
    using header_accepted [OF r(1)] r(2) n(1-3) crc by blast
  have bf: "bus_id_field (take n d) = bus_id_field d"
    if "flag (d ! 1) PJON_MODE_BIT"
  proof -
    let ?k = "if extended_packet d then 5 else 4 :: nat"
    have "min 4 (n - ?k) = 4"
      using overhead_mode [OF that] n(2) by (auto simp: extended_packet_def)
    then show ?thesis by (simp only: bus_id_field_def t drop_take take_take)
  qed
  show "addressed b bus (take n d)"
    using header_accepted [OF r(1)] r(3) bf mac unfolding addressed_def t not_mine_def
    by (cases "pj_router bus"; cases "flag (d ! 1) PJON_MAC_BIT"; cases "flag (d ! 1) PJON_MODE_BIT") simp_all
qed

text \<open>C4. Soundness: whenever \<^verbatim>\<open>receive\<close> answers \<^verbatim>\<open>PJON_ACK\<close>, the buffer starts with a well-formed
  packet (consistent length, valid header and packet checks, only the features the build has) that is
  addressed to the bus; its parsed description is the last one recorded; and unless the packet was a
  duplicate, exactly its payload was handed to the receiver.\<close>

theorem receive_sound:
  assumes "wf_bus b bus" and "40 \<le> packet_max_length b" "packet_max_length b \<le> 65535"
    and "receive st b bus = Some (PJON_ACK, bus')"
  shows "\<exists>n info. let p = take n (pj_data bus') in
           well_formed_packet b p \<and> addressed b bus p \<and>
           parse_header b (pj_data bus') = Some info \<and>
           pj_last_packet_info bus' = info\<lparr> pi_custom_pointer := pj_custom_pointer bus \<rparr> \<and>
           pj_events bus' = pj_events bus @
             (if duplicate b bus info then []
              else [Received (payload_of p) (of_nat (length p - overhead_nat (p ! 1)))
                      (info\<lparr> pi_custom_pointer := pj_custom_pointer bus \<rparr>)])"
proof -
  obtain r bus1 where l: "receive_loop st b 0 (rx_init b) bus = Some (r, bus1)"
    using assms(4) by (auto simp: receive_def elim!: bind_SomeE)
  show ?thesis
  proof (cases r)
    case (Inl code)
    then have "code = PJON_ACK" using assms(4) l by (simp add: receive_def)
    with receive_loop_codes [OF l [unfolded Inl]] show ?thesis by (auto simp: const_defs)
  next
    case (Inr rv)
    obtain s d n info where b1: "bus1 = bus\<lparr> pj_strategy := s, pj_data := d \<rparr>" "length d = packet_max_length b"
      and n: "n = unat (announced_length d)" "overhead_nat (d ! 1) < n" "n < packet_max_length b"
      and nr: "\<forall>j < n. \<not> refused_at b bus d j"
      and i: "parse_header b d = Some info" "wf_info info" "pi_header info = d ! 1"
      and run: "receive st b bus =
       Some (if \<not> (header_crc_ok (take n d) \<and> packet_crc_ok (take n d)) then (PJON_NAK, bus1)
             else if include_mac b \<and> flag (d ! 1) PJON_MAC_BIT \<and> \<not> pj_router bus \<and>
                  mac_field (take n d) \<noteq> ep_mac (pj_tx bus) \<and> mac_field (take n d) \<noteq> no_mac
             then (PJON_BUSY, bus1)
             else received b (info\<lparr> pi_custom_pointer := pj_custom_pointer bus \<rparr>) (take n d)
                    (acked st bus1 (take n d)))"
      by (rule receive_after_loop [OF l [unfolded Inr] assms(1-3)])
    have crc: "header_crc_ok (take n d)" "packet_crc_ok (take n d)"
      and mac: "\<not> (include_mac b \<and> flag (d ! 1) PJON_MAC_BIT \<and> \<not> pj_router bus \<and>
                  mac_field (take n d) \<noteq> ep_mac (pj_tx bus) \<and> mac_field (take n d) \<noteq> no_mac)"
      and rec: "received b (info\<lparr> pi_custom_pointer := pj_custom_pointer bus \<rparr>) (take n d)
                    (acked st bus1 (take n d)) = (PJON_ACK, bus')"
      using run assms(4) by (auto simp: const_defs split: if_splits)
    have "n \<le> length d" using n(3) b1(2) by simp
    note ok = refused_addressed [OF nr n this assms(1) crc mac]
    have d: "pj_data bus' = d" using received_result(1) [OF rec] by (simp add: b1)
    have "pj_last_packet_info bus' = info\<lparr> pi_custom_pointer := pj_custom_pointer bus \<rparr>"
      using received_result(2) [OF rec] .
    moreover have "pj_events bus' = pj_events bus @
             (if duplicate b bus info then []
              else [Received (payload_of (take n d)) (of_nat (length (take n d) - overhead_nat (take n d ! 1)))
                      (info\<lparr> pi_custom_pointer := pj_custom_pointer bus \<rparr>)])"
      using received_result(3) [OF rec] by (simp add: b1)
    ultimately show ?thesis
      using ok i(1) unfolding Let_def d [symmetric] by blast
  qed
qed

subsection \<open>Memory safety\<close>

lemma shift_records_length [simp]: "length (shift_records k rs) = length rs"
  by (induction k arbitrary: rs) simp_all

lemma shift_records_set:
  "\<forall>r \<in> set rs. P r \<Longrightarrow> k < length rs \<Longrightarrow> \<forall>r \<in> set (shift_records k rs). P r"
proof (induction k arbitrary: rs)
  case (Suc k)
  have "\<forall>r \<in> set (rs[Suc k := rs ! k]). P r"
    using Suc.prems set_update_subset_insert [of rs "Suc k" "rs ! k"] by auto
  then show ?case using Suc by simp
qed simp

lemma save_packet_id_wf:
  assumes "wf_bus b bus" and "wf_info info"
  shows "wf_bus b (save_packet_id b info bus)"
proof (cases "max_recent_packet_ids b = 0")
  case True
  then show ?thesis using assms by (simp add: wf_bus_def save_packet_id_def Let_def)
next
  case False
  let ?rs = "shift_records (max_recent_packet_ids b - 1) (pj_recent_packet_ids bus)"
  have l: "length ?rs = max_recent_packet_ids b" using assms(1) by (simp add: wf_bus_def)
  have r: "\<forall>r \<in> set ?rs. length (pr_sender_bus_id r) = 4"
    using assms(1) False by (intro shift_records_set) (auto simp: wf_bus_def)
  have "length (copy_id (pr_sender_bus_id (?rs ! 0)) (ep_bus_id (pi_tx info)) 4) = 4"
    using r l False assms(2) by (simp add: copy_id_def wf_info_def wf_endpoint_def)
  then have "\<forall>r \<in> set (?rs[0 := (?rs ! 0)\<lparr> pr_id := pi_id info, pr_header := pi_header info,
        pr_sender_id := ep_id (pi_tx info),
        pr_sender_bus_id := copy_id (pr_sender_bus_id (?rs ! 0)) (ep_bus_id (pi_tx info)) 4 \<rparr>]).
      length (pr_sender_bus_id r) = 4"
    using r set_update_subset_insert [of ?rs 0] by fastforce
  then show ?thesis using assms(1) l by (simp add: wf_bus_def save_packet_id_def Let_def)
qed

lemma wf_bus_data:
  "wf_bus b bus \<Longrightarrow> length d = packet_max_length b \<Longrightarrow> wf_bus b (bus\<lparr> pj_strategy := s, pj_data := d \<rparr>)"
  by (simp add: wf_bus_def)

lemma received_wf:
  assumes "received b info p bus = (r, bus')" and "wf_bus b bus" and "wf_info info"
  shows "wf_bus b bus'" "pj_strategy bus' = pj_strategy bus"
proof -
  have "wf_bus b (bus\<lparr> pj_last_packet_info := info \<rparr>)" using assms(2,3) by (simp add: wf_bus_def)
  then have "wf_bus b (remembered b info (bus\<lparr> pj_last_packet_info := info \<rparr>))"
    using assms(3) by (simp add: remembered_def save_packet_id_wf)
  then show "wf_bus b bus'" "pj_strategy bus' = pj_strategy bus"
    using assms(1) by (auto simp: received_def Let_def emit_event_def split: if_splits)
qed

context bounded_strategy
begin

lemma receive_loop_safe:
  assumes "loop_ok b bus i" and "i \<le> unat (rv_length (rv_at b bus (pj_data bus) i k))"
    and "ok (pj_strategy bus)"
  shows "\<exists>r s d. receive_loop st b i (rv_at b bus (pj_data bus) i k) bus
           = Some (r, bus\<lparr> pj_strategy := s, pj_data := d \<rparr>) \<and> ok s \<and> length d = length (pj_data bus)"
  using assms
proof (induction "65536 - i" arbitrary: i k bus rule: less_induct)
  case less
  let ?rv = "rv_at b bus (pj_data bus) i k" and ?d = "pj_data bus"
  show ?case
  proof (cases "i < unat (rv_length ?rv)")
    case False
    have "receive_loop st b i ?rv bus = Some (Inr ?rv, bus\<lparr> pj_strategy := pj_strategy bus, pj_data := ?d \<rparr>)"
      using False by (simp add: receive_loop.simps)
    then show ?thesis using less.prems(3) by blast
  next
    case True
    let ?n = "rv_length ?rv - of_nat i"
    have i: "i < 65536" using True unsigned_less [of "rv_length ?rv", where 'a = nat] by simp
    have n: "i + unat ?n \<le> length ?d"
    proof -
      have "unat (of_nat i :: u16) = i" using i by (simp add: unat_of_nat)
      then have "unat ?n = unat (rv_length ?rv) - i" using True by (simp add: unat_sub word_le_nat_alt)
      then show ?thesis using loop_ok_length(2) [OF less.prems(1), of k] True less.prems(1) by (simp add: loop_ok_def)
    qed
    have n0: "?n \<noteq> 0"
    proof
      assume "?n = 0"
      then have "unat (rv_length ?rv) = i" using i by (simp add: unat_of_nat)
      with True show False by simp
    qed
    have "\<exists>r1 s1 d1. rx_fetch st i ?rv bus = Some (r1, bus\<lparr> pj_strategy := s1, pj_data := d1 \<rparr>) \<and> ok s1"
    proof (cases "k = 0")
      case False
      then have "rx_fetch st i ?rv bus = Some (Inr (rv_at b bus ?d i (k - 1)), bus\<lparr> pj_strategy := pj_strategy bus, pj_data := ?d \<rparr>)"
        by (simp add: rx_fetch_def)
      then show ?thesis using less.prems(3) by blast
    next
      case True
      obtain r bs s where f: "st_receive_frame st ?n (pj_strategy bus) = (r, bs, s)" by (cases "st_receive_frame st ?n (pj_strategy bus)") auto
      have "length bs \<le> unat ?n" "ok s"
        using frame_fits [OF less.prems(3) n0 f] frame_ok [OF less.prems(3) f] by simp_all
      with f n True show ?thesis
        by (cases "r = PJON_FAIL \<or> r = 0") (auto simp: rx_fetch_def wr_block_def Let_def)
    qed
    then obtain r1 s1 d1 where f: "rx_fetch st i ?rv bus = Some (r1, bus\<lparr> pj_strategy := s1, pj_data := d1 \<rparr>)" and s1: "ok s1"
      by blast
    obtain s' d' k' where eq: "bus\<lparr> pj_strategy := s1, pj_data := d1 \<rparr> = bus\<lparr> pj_strategy := s', pj_data := d' \<rparr>"
      and len': "length d' = length ?d" and t': "take i d' = take i ?d"
      and r1': "r1 = Inl PJON_FAIL \<or> r1 = Inr (rv_at b bus d' i k')"
      by (rule rx_fetch_frame [OF f refl])
    define bus1 where "bus1 = bus\<lparr> pj_strategy := s1, pj_data := d1 \<rparr>"
    have d1: "d' = d1" using arg_cong [OF eq, of pj_data] by simp
    have b1: "pj_data bus1 = d1" by (simp add: bus1_def)
    note len = len' [unfolded d1] and t = t' [unfolded d1] and r1 = r1' [unfolded d1]
    show ?thesis
    proof (cases "r1 = Inl PJON_FAIL")
      case fail: True
      have "receive_loop st b i ?rv bus = Some (Inl PJON_FAIL, bus\<lparr> pj_strategy := s1, pj_data := d1 \<rparr>)"
        using True f fail by (simp add: receive_loop.simps [of st b i])
      then show ?thesis using s1 len by blast
    next
      case False
      then have r1: "r1 = Inr (rv_at b bus1 (pj_data bus1) i k')" using r1 by (simp add: bus1_def)
      have lim: "i < length (pj_data bus1)" "1 < length (pj_data bus1)"
        using True loop_ok_length(2) [OF less.prems(1), of k] less.prems(1) len b1
        by (simp_all add: loop_ok_def)
      have run: "receive_loop st b i ?rv bus =
        (if refused_at b bus1 d1 i then Some (Inl PJON_BUSY, bus1)
          else receive_loop st b (Suc i) (rv_at b bus1 (pj_data bus1) (Suc i) k') bus1)"
      proof -
        have "rx_fetch st i ?rv bus = Some (Inr (rv_at b bus1 (pj_data bus1) i k'), bus1)"
          using f r1 by (simp add: bus1_def)
        then show ?thesis
          using True rx_check_eq [OF lim, of b k'] by (simp add: receive_loop.simps [of st b i] b1)
      qed
      show ?thesis
      proof (cases "refused_at b bus1 d1 i")
        case refused: True
        then show ?thesis using run s1 len by (auto simp: bus1_def)
      next
        case nr: False
        have "\<not> refused_at b bus1 d1 j" if "j < i" for j
        proof -
          have "take (Suc j) d1 = take (Suc j) ?d"
            using arg_cong [OF t, of "take (Suc j)"] that by (simp add: min_def)
          then show ?thesis using less.prems(1) that refused_at_cong [of j d1 ?d b bus]
            by (simp add: bus1_def loop_ok_def)
        qed
        with nr have ok1: "loop_ok b bus1 (Suc i)"
          using less.prems(1) len b1 by (auto simp: loop_ok_def less_Suc_eq)
        have le: "Suc i \<le> unat (rv_length (rv_at b bus1 (pj_data bus1) (Suc i) k'))"
          using loop_step_length [OF ok1 _ True] t by (simp add: bus1_def)
        have "65536 - Suc i < 65536 - i" "ok (pj_strategy bus1)" using i s1 by (simp_all add: bus1_def)
        from less.hyps [OF this(1) ok1 le this(2)] obtain r s d where
          "receive_loop st b (Suc i) (rv_at b bus1 (pj_data bus1) (Suc i) k') bus1
             = Some (r, bus1\<lparr> pj_strategy := s, pj_data := d \<rparr>)" "ok s" "length d = length (pj_data bus1)"
          by blast
        then show ?thesis using run nr len by (auto simp: bus1_def)
      qed
    qed
  qed
qed

lemma receive_safe:
  assumes "wf_bus b bus" and "40 \<le> packet_max_length b" "packet_max_length b \<le> 65535"
    and "ok (pj_strategy bus)"
  shows "\<exists>r bus'. receive st b bus = Some (r, bus') \<and> wf_bus b bus' \<and> ok (pj_strategy bus')"
proof -
  have "loop_ok b bus 0" using assms by (simp add: loop_ok_def wf_bus_def)
  from receive_loop_safe [OF this _ assms(4), of 0] obtain r s d where
    l: "receive_loop st b 0 (rx_init b) bus = Some (r, bus\<lparr> pj_strategy := s, pj_data := d \<rparr>)"
    and s: "ok s" "length d = length (pj_data bus)"
    by (auto simp: rx_init_at [of b bus "pj_data bus"])
  define bus1 where "bus1 = bus\<lparr> pj_strategy := s, pj_data := d \<rparr>"
  have wf1: "wf_bus b bus1" and ok1: "ok (pj_strategy bus1)"
    using assms(1) s by (simp_all add: bus1_def wf_bus_data wf_bus_def)
  show ?thesis
  proof (cases r)
    case (Inl code)
    then show ?thesis using l wf1 ok1 by (simp add: receive_def bus1_def)
  next
    case (Inr rv)
    obtain s' d' n info where wi: "wf_info info"
      and run: "receive st b bus =
       Some (if \<not> (header_crc_ok (take n d') \<and> packet_crc_ok (take n d')) then (PJON_NAK, bus1)
             else if include_mac b \<and> flag (d' ! 1) PJON_MAC_BIT \<and> \<not> pj_router bus \<and>
                  mac_field (take n d') \<noteq> ep_mac (pj_tx bus) \<and> mac_field (take n d') \<noteq> no_mac
             then (PJON_BUSY, bus1)
             else received b (info\<lparr> pi_custom_pointer := pj_custom_pointer bus \<rparr>) (take n d')
                    (acked st bus1 (take n d')))"
      using receive_after_loop [OF l [unfolded Inr, folded bus1_def] assms(1-3)] by metis
    let ?a = "acked st bus1 (take n d')" and ?i = "info\<lparr> pi_custom_pointer := pj_custom_pointer bus \<rparr>"
    have "wf_info ?i" using wi by (simp add: wf_info_def)
    moreover have "wf_bus b ?a" "ok (pj_strategy ?a)"
      using wf1 ok1 response_ok by (simp_all add: acked_def on_strategy_def)
    ultimately have "\<exists>r bus'. received b ?i (take n d') ?a = (r, bus') \<and> wf_bus b bus' \<and> ok (pj_strategy bus')"
      using received_wf by (metis surj_pair)
    then show ?thesis using run wf1 ok1 by auto
  qed
qed

end

text \<open>C5. Memory safety: on a strategy that stores no more than it is asked for, \<^verbatim>\<open>receive\<close> never reads
  or writes outside of its buffers, whatever bytes arrive in whatever batches, and leaves a
  well-formed bus.\<close>

theorem receive_memory_safe:
  assumes "bounded_strategy st ok" and "ok (pj_strategy bus)" and "wf_bus b bus"
    and "40 \<le> packet_max_length b" "packet_max_length b \<le> 65535"
  shows "\<exists>r bus'. receive st b bus = Some (r, bus') \<and> wf_bus b bus' \<and> ok (pj_strategy bus')"
  using bounded_strategy.receive_safe [OF assms(1,3,4,5,2)] .

interpretation idle: bounded_strategy idle_strategy "\<lambda>_. True"
  by unfold_locales (auto simp: idle_strategy_def)

lemma receive_memory_safe_witness:
  "\<exists>r bus'. receive idle_strategy default_build sample_bus = Some (r, bus') \<and> wf_bus default_build bus' \<and> True"
  by (rule receive_memory_safe [OF idle.bounded_strategy_axioms]) simp_all

subsection \<open>Composed packets are accepted\<close>

text \<open>
  \<open>feeds st m first chunks s s'\<close>: asked for at least the bytes that are left, the strategy delivers the
  chunks one after the other (all at once, byte by byte, or anything between) and goes from \<open>s\<close> to \<open>s'\<close>.
  The first chunk of a packet is asked for with the size \<open>m\<close> of the buffer, by which a strategy knows that
  a frame starts, and the others with less.  A strategy may store more than it delivers.
\<close>

fun feeds :: "'s strategy \<Rightarrow> nat \<Rightarrow> bool \<Rightarrow> u8 list list \<Rightarrow> 's \<Rightarrow> 's \<Rightarrow> bool" where
  "feeds st m is_first [] s s' \<longleftrightarrow> s' = s"
| "feeds st m is_first (c # cs) s s' \<longleftrightarrow> c \<noteq> [] \<and> length c < 65535 \<and>
     (\<exists>s1. (\<forall>n. length (concat (c # cs)) \<le> unat n \<and> unat n \<le> m \<and> (unat n = m \<longleftrightarrow> is_first) \<longrightarrow>
               (\<exists>extra. length (c @ extra) \<le> unat n \<and>
                        st_receive_frame st n s = (of_nat (length c), c @ extra, s1))) \<and>
           feeds st m False cs s1 s')"

lemma feeds_empty: "feeds st m f cs s s' \<Longrightarrow> concat cs = [] \<Longrightarrow> s' = s"
  by (cases cs) auto

lemma rx_fetch_feed:
  assumes "feeds st m (i + k = 0) cs (pj_strategy bus) s'" and "concat cs = drop (i + k) p" and "i < length p" "i + k \<le> length p"
    and "take (i + k) (pj_data bus) = take (i + k) p" and "length p \<le> length (pj_data bus)" "length p < 65535"
    and "length p \<le> unat (rv_length rv)" and "rv_batch rv = of_nat k"
    and "unat (rv_length rv) \<le> m" "i = 0 \<longrightarrow> unat (rv_length rv) = m" "m \<le> length (pj_data bus)"
  shows "\<exists>k' cs' s1 d1. rx_fetch st i rv bus
      = Some (Inr (rv\<lparr> rv_batch := of_nat k' \<rparr>), bus\<lparr> pj_strategy := s1, pj_data := d1 \<rparr>) \<and>
    feeds st m False cs' s1 s' \<and> concat cs' = drop (Suc i + k') p \<and> Suc i + k' \<le> length p \<and>
    take (Suc i + k') d1 = take (Suc i + k') p \<and> length d1 = length (pj_data bus)"
proof (cases k)
  case (Suc k0)
  have "unat (of_nat (Suc k0) :: u16) = Suc k0"
    using assms(4,7) Suc by (simp add: unat_of_nat del: of_nat_Suc)
  then have "of_nat (Suc k0) \<noteq> (0 :: u16)" by auto
  then have "rx_fetch st i rv bus = Some (Inr (rv\<lparr> rv_batch := of_nat k0 \<rparr>), bus\<lparr> pj_strategy := pj_strategy bus, pj_data := pj_data bus \<rparr>)"
    using assms(9) Suc by (simp add: rx_fetch_def)
  moreover have "concat cs = drop (Suc i + k0) p" "Suc i + k0 \<le> length p"
    "take (Suc i + k0) (pj_data bus) = take (Suc i + k0) p"
    using assms(2,4,5) Suc by simp_all
  ultimately show ?thesis using assms(1) Suc by force
next
  case 0
  have "concat cs \<noteq> []" using assms(2,3) 0 by simp
  then obtain c cs' where cs: "cs = c # cs'" by (cases cs) auto
  with assms(1) 0 obtain s1 where c: "c \<noteq> []" "length c < 65535" "feeds st m False cs' s1 s'"
    and f: "\<forall>n. length (concat cs) \<le> unat n \<and> unat n \<le> m \<and> (unat n = m \<longleftrightarrow> i = 0) \<longrightarrow>
        (\<exists>extra. length (c @ extra) \<le> unat n \<and> st_receive_frame st n (pj_strategy bus) = (of_nat (length c), c @ extra, s1))"
    by auto
  have p: "drop i p = c @ concat cs'" using assms(2) cs 0 by simp
  have lc: "i + length c \<le> length p"
    using arg_cong [OF p, of length] assms(3) by simp
  have "unat (of_nat i :: u16) = i" using assms(3,7) by (simp add: unat_of_nat)
  then have "unat (rv_length rv - of_nat i) = unat (rv_length rv) - i"
    using assms(3,8) by (simp add: unat_sub word_le_nat_alt)
  then obtain extra where fr: "st_receive_frame st (rv_length rv - of_nat i) (pj_strategy bus) = (of_nat (length c), c @ extra, s1)"
    and ex: "i + length (c @ extra) \<le> length (pj_data bus)"
  proof -
    assume n: "unat (rv_length rv - of_nat i) = unat (rv_length rv) - i"
    have "length (concat cs) \<le> unat (rv_length rv - of_nat i) \<and> unat (rv_length rv - of_nat i) \<le> m \<and>
        (unat (rv_length rv - of_nat i) = m \<longleftrightarrow> i = 0)"
      unfolding n using assms(2,3,8,10,11) 0 by (cases "i = 0") (simp_all, linarith)
    with f obtain extra where e: "length (c @ extra) \<le> unat (rv_length rv) - i"
      "st_receive_frame st (rv_length rv - of_nat i) (pj_strategy bus) = (of_nat (length c), c @ extra, s1)"
      unfolding n [symmetric] by blast
    then show thesis using assms(3,8,10,12) by (intro that [of extra]) simp_all
  qed
  have u: "unat (of_nat (length c) :: u16) = length c" using c(2) by (simp add: unat_of_nat)
  have nz: "of_nat (length c) \<noteq> (0 :: u16)" "of_nat (length c) \<noteq> PJON_FAIL"
    using u c(1,2) by (auto simp: PJON_FAIL_def)
  have bt: "of_nat (length c) - 1 = (of_nat (length c - 1) :: u16)"
    using c(1) by (simp add: of_nat_diff Suc_leI)
  define d1 where "d1 = take i (pj_data bus) @ (c @ extra) @ drop (i + length (c @ extra)) (pj_data bus)"
  have w: "wr_block i (c @ extra) (pj_data bus) = Some d1" using ex by (simp add: wr_block_def d1_def)
  have ld: "length d1 = length (pj_data bus)" using ex by (simp add: d1_def)
  have "take (i + length c) d1 = take i p @ c" using lc assms(5,6) 0 by (simp add: d1_def)
  also have "\<dots> = take (i + length c) p" by (simp add: take_add p)
  finally have t: "take (i + length c) d1 = take (i + length c) p" .
  have e: "Suc i + (length c - 1) = i + length c" using c(1) by (cases c) simp_all
  have cc: "concat cs' = drop (i + length c) p" using p by (metis append_eq_conv_conj drop_drop add.commute)
  have "rx_fetch st i rv bus
      = Some (Inr (rv\<lparr> rv_batch := of_nat (length c - 1) \<rparr>), bus\<lparr> pj_strategy := s1, pj_data := d1 \<rparr>)"
    using fr nz bt w assms(9) 0 by (simp add: rx_fetch_def Let_def)
  moreover have "concat cs' = drop (Suc i + (length c - 1)) p" "Suc i + (length c - 1) \<le> length p"
    "take (Suc i + (length c - 1)) d1 = take (Suc i + (length c - 1)) p"
    using cc lc t by (simp_all only: e)
  ultimately show ?thesis using c(3) ld by blast
qed

lemma receive_loop_feed:
  assumes "feeds st (packet_max_length b) (i + k = 0) cs (pj_strategy bus) s'" and "concat cs = drop (i + k) p" and "i + k \<le> length p"
    and "take (i + k) (pj_data bus) = take (i + k) p"
    and "length (pj_data bus) = packet_max_length b" "packet_max_length b \<le> 65535"
    and "unat (announced_length p) = length p" "length p < packet_max_length b" "5 < length p"
    and "\<forall>j < length p. \<not> refused_at b bus p j"
  shows "\<exists>rv d. receive_loop st b i (rv_at b bus p i (of_nat k)) bus
           = Some (Inr rv, bus\<lparr> pj_strategy := s', pj_data := d \<rparr>) \<and> take (length p) d = p"
  using assms
proof (induction "length p - i" arbitrary: i k cs bus)
  case 0
  then have "i = length p" "k = 0" by simp_all
  with 0 have "s' = pj_strategy bus" "take (length p) (pj_data bus) = p" using feeds_empty by auto
  moreover have "unat (rv_length (rv_at b bus p i (of_nat k))) = length p"
    using 0 \<open>i = length p\<close> by (simp add: rv_at_length)
  ultimately show ?case
    using \<open>i = length p\<close> by (intro exI [of _ "rv_at b bus p i (of_nat k)"] exI [of _ "pj_data bus"])
      (simp add: receive_loop.simps)
next
  case (Suc m)
  let ?rv = "rv_at b bus p i (of_nat k)"
  have i: "i < length p" using Suc.hyps(2) by simp
  have mx: "unat (of_nat (packet_max_length b) :: u16) = packet_max_length b"
    using Suc.prems(6) by (simp add: unat_of_nat)
  have lp: "length p \<le> unat (rv_length ?rv)"
    using Suc.prems(7,8) mx by (simp add: rv_at_length)
  have ul: "unat (rv_length ?rv) \<le> packet_max_length b" "i = 0 \<longrightarrow> unat (rv_length ?rv) = packet_max_length b"
    using Suc.prems(7,8) mx by (auto simp: rv_at_length)
  have l: "length p \<le> length (pj_data bus)" "length p < 65535" using Suc.prems(5,6,8) by simp_all
  obtain k' cs' s1 d1 where f: "rx_fetch st i ?rv bus
      = Some (Inr (rv_at b bus p i (of_nat k')), bus\<lparr> pj_strategy := s1, pj_data := d1 \<rparr>)"
    and feeds': "feeds st (packet_max_length b) False cs' s1 s'" and cs': "concat cs' = drop (Suc i + k') p" and le: "Suc i + k' \<le> length p"
    and t: "take (Suc i + k') d1 = take (Suc i + k') p" and len: "length d1 = length (pj_data bus)"
    using rx_fetch_feed [OF Suc.prems(1,2) i Suc.prems(3,4) l lp _ ul] Suc.prems(5) by auto
  define bus1 where "bus1 = bus\<lparr> pj_strategy := s1, pj_data := d1 \<rparr>"
  have b1: "pj_data bus1 = d1" "pj_strategy bus1 = s1" "rv_at b bus1 = rv_at b bus" "refused_at b bus1 = refused_at b bus"
    by (simp_all add: bus1_def)
  have ti: "take j d1 = take j p" if "j \<le> Suc i + k'" for j
    using arg_cong [OF t, of "take j"] that by (simp add: min_def)
  have at: "rv_at b bus d1 j kk = rv_at b bus p j kk" if "j \<le> Suc i" for j kk
    using that by (intro rv_at_cong ti) simp
  have nr: "\<not> refused_at b bus d1 i"
    using Suc.prems(10) i refused_at_cong [OF ti [of "Suc i"], of b bus] by simp
  have "i < length d1" "1 < length d1" using i l len Suc.prems(9) by simp_all
  then have "rx_check b i (rv_at b bus p i (of_nat k')) bus1 = Some (Inr (rv_at b bus p (Suc i) (of_nat k')))"
    using rx_check_eq [of i bus1 b "of_nat k'"] nr at [of i] at [of "Suc i"] by (simp add: b1)
  then have "receive_loop st b i ?rv bus = receive_loop st b (Suc i) (rv_at b bus1 p (Suc i) (of_nat k')) bus1"
    using i lp f by (simp add: receive_loop.simps [of st b i] b1 bus1_def)
  moreover have "\<exists>rv d. receive_loop st b (Suc i) (rv_at b bus1 p (Suc i) (of_nat k')) bus1
           = Some (Inr rv, bus1\<lparr> pj_strategy := s', pj_data := d \<rparr>) \<and> take (length p) d = p"
    using Suc.hyps(2) feeds' cs' le t len Suc.prems(5-10) by (intro Suc.hyps(1)) (simp_all add: b1)
  ultimately show ?case by (auto simp: bus1_def)
qed

lemma accepted_not_refused:
  assumes "well_formed_packet b p" and "addressed b bus p" and "wf_bus b bus"
  shows "\<forall>j < length p. \<not> refused_at b bus p j"
proof -
  have w: "unat (announced_length p) = length p" "overhead_nat (p ! 1) < length p" "length p < packet_max_length b"
    and c: "15 < length p \<or> flag (p ! 1) PJON_EXT_LEN_BIT \<or> flag (p ! 1) PJON_MAC_BIT \<longrightarrow> flag (p ! 1) PJON_CRC_BIT"
    "\<not> (p ! 0 = PJON_BROADCAST \<and> flag (p ! 1) PJON_ACK_REQ_BIT)"
    "flag (p ! 1) PJON_PACKET_ID_BIT \<longrightarrow> include_packet_id b" "flag (p ! 1) PJON_PORT_BIT \<longrightarrow> include_port b"
    "flag (p ! 1) PJON_MAC_BIT \<longrightarrow> include_mac b"
    using assms(1) by (simp_all add: well_formed_packet_def)
  have nh: "p ! 1 \<noteq> PJON_NO_HEADER"
  proof
    assume "p ! 1 = PJON_NO_HEADER"
    with c(1) show False by (simp add: flag_def const_defs)
  qed
  have l: "length (ep_bus_id (pj_tx bus)) = 4" using assms(3) by (simp add: wf_bus_def wf_endpoint_def)
  have "\<not> header_refused b bus (not_mine bus p) (p ! 0) (p ! 1)"
    using c assms(2) unfolding header_refused_def Let_def not_mine_def addressed_def by blast
  moreover have "flag (p ! 1) PJON_MODE_BIT \<and> \<not> pj_router bus \<and> \<not> flag (p ! 1) PJON_MAC_BIT \<longrightarrow>
       bus_id_field p = (if flag (pj_config bus) PJON_MODE_BIT then ep_bus_id (pj_tx bus) else localhost)"
    using assms(2) unfolding addressed_def by blast
  ultimately show ?thesis
    using not_refused_iff [OF w(1) [symmetric] w(2,3) order_refl l nh] c(1) by blast
qed

lemma receive_accepts:
  assumes wf: "wf_bus b bus" and m: "40 \<le> packet_max_length b" "packet_max_length b \<le> 65535"
    and p: "well_formed_packet b p" "addressed b bus p"
    and f: "feeds st (packet_max_length b) True chunks (pj_strategy bus) s'" "concat chunks = p"
  shows "\<exists>d info. take (length p) d = p \<and> parse_header b d = Some info \<and>
           receive st b bus = Some (received b (info\<lparr> pi_custom_pointer := pj_custom_pointer bus \<rparr>) p
             (acked st (bus\<lparr> pj_strategy := s', pj_data := d \<rparr>) p))"
proof -
  have w: "unat (announced_length p) = length p" "overhead_nat (p ! 1) < length p" "length p < packet_max_length b"
    "header_crc_ok p" "packet_crc_ok p"
    using p(1) by (simp_all add: well_formed_packet_def)
  have l5: "5 < length p" using w(2) overhead_nat_bounds(1) [of "p ! 1"] by simp
  have len: "length (pj_data bus) = packet_max_length b" using wf by (simp add: wf_bus_def)
  have "\<exists>rv d. receive_loop st b 0 (rv_at b bus p 0 (of_nat 0)) bus
      = Some (Inr rv, bus\<lparr> pj_strategy := s', pj_data := d \<rparr>) \<and> take (length p) d = p"
    using f len m w l5 accepted_not_refused [OF p wf] by (intro receive_loop_feed) simp_all
  then obtain rv d where loop: "receive_loop st b 0 (rx_init b) bus
      = Some (Inr rv, bus\<lparr> pj_strategy := s', pj_data := d \<rparr>)" and d: "take (length p) d = p"
    by (auto simp: rx_init_at [of b bus p])
  obtain s1 d1 n info where b1: "bus\<lparr> pj_strategy := s', pj_data := d \<rparr> = bus\<lparr> pj_strategy := s1, pj_data := d1 \<rparr>"
    and d1: "length d1 = packet_max_length b" and n: "n = unat (announced_length d1)"
    and i: "parse_header b d1 = Some info"
    and run: "receive st b bus =
       Some (if \<not> (header_crc_ok (take n d1) \<and> packet_crc_ok (take n d1)) then (PJON_NAK, bus\<lparr> pj_strategy := s', pj_data := d \<rparr>)
             else if include_mac b \<and> flag (d1 ! 1) PJON_MAC_BIT \<and> \<not> pj_router bus \<and>
                  mac_field (take n d1) \<noteq> ep_mac (pj_tx bus) \<and> mac_field (take n d1) \<noteq> no_mac
             then (PJON_BUSY, bus\<lparr> pj_strategy := s', pj_data := d \<rparr>)
             else received b (info\<lparr> pi_custom_pointer := pj_custom_pointer bus \<rparr>) (take n d1)
                    (acked st (bus\<lparr> pj_strategy := s', pj_data := d \<rparr>) (take n d1)))"
    by (rule receive_after_loop [OF loop wf m])
  have dd: "d1 = d" using arg_cong [OF b1, of pj_data] by simp
  have ld: "length p \<le> length d" using d1 w(3) dd by simp
  note t = packet_take [OF l5 ld, unfolded d]
  have n': "take n d1 = p" using n w(1) t(4) dd d by simp
  have mac: "\<not> (include_mac b \<and> flag (d1 ! 1) PJON_MAC_BIT \<and> \<not> pj_router bus \<and>
                  mac_field p \<noteq> ep_mac (pj_tx bus) \<and> mac_field p \<noteq> no_mac)"
    using p(2) t(2) unfolding addressed_def dd by auto
  have "receive st b bus = Some (received b (info\<lparr> pi_custom_pointer := pj_custom_pointer bus \<rparr>) p
             (acked st (bus\<lparr> pj_strategy := s', pj_data := d \<rparr>) p))"
    unfolding run n' if_not_P [OF mac] using w(4,5) by simp
  then show ?thesis using d i dd by blast
qed

text \<open>The packets of the composer are well formed.\<close>

lemma final_crc:
  assumes "final_length b info len < 65536" and "15 < final_length b info len"
    and "flag (pi_header (final_info b info len)) PJON_EXT_LEN_BIT \<longrightarrow>
           flag (pi_header (compose_normalise b info len)) PJON_EXT_LEN_BIT"
  shows "flag (pi_header (final_info b info len)) PJON_CRC_BIT"
proof -
  let ?h = "pi_header (compose_normalise b info len)"
  have f: "pi_header (final_info b info len) = length_choice (crc_choice ?h len) len"
    by (simp add: final_info_def compose_sizing_eq Let_def)
  have same: "length_choice (crc_choice ?h len) len = crc_choice ?h len"
    using assms(3) unfolding f by (auto simp: length_choice_def flag_set_crc flag_choice)
  show ?thesis
  proof (rule ccontr)
    assume n: "\<not> flag (pi_header (final_info b info len)) PJON_CRC_BIT"
    then have h: "crc_choice ?h len = ?h" "\<not> len + ucast (packet_overhead ?h) > 15"
      unfolding f same by (auto simp: crc_choice_def flag_set_crc split: if_splits)
    have N: "final_length b info len = unat len + overhead_nat ?h"
      unfolding final_length_def f same unfolding h(1) ..
    then have "unat (len + ucast (packet_overhead ?h)) = final_length b info len"
      using assms(1) by (simp add: unat_add_overhead)
    with h(2) assms(2) show False by (simp add: word_less_nat_alt)
  qed
qed

lemma image_positions:
  assumes "n = of_nat (length payload + overhead_nat (pi_header info))"
  shows "packet_image info payload ! 0 = ep_id (pi_rx info)" "packet_image info payload ! 1 = pi_header info"
    "extended_packet (packet_image info payload) = flag (pi_header info) PJON_EXT_LEN_BIT"
    "announced_length (packet_image info payload) = (if flag (pi_header info) PJON_EXT_LEN_BIT then n else ucast (lo8 n))"
    "header_crc_ok (packet_image info payload)"
  using assms
  by (simp_all add: packet_image_def body_bytes_def meta_bytes_def Let_def extended_packet_def
      announced_length_def header_crc_ok_def nth_Cons')

lemma image_check:
  assumes "wf_info info"
  shows "packet_crc_ok (packet_image info payload)"
proof -
  let ?p = "packet_image info payload" and ?b = "body_bytes info payload"
  have h: "?p ! 1 = pi_header info" by (rule image_positions) (rule refl)
  have l: "length ?p = length ?b + unat (crc_overhead (pi_header info))" by (simp add: packet_image_def)
  show ?thesis
  proof (cases "flag (pi_header info) PJON_CRC_BIT")
    case True
    then have "length ?p - 4 = length ?b" by (simp add: l crc_overhead_def)
    with True show ?thesis
      unfolding packet_crc_ok_def h by (simp add: packet_image_def check_bytes_def)
  next
    case False
    then show ?thesis
      unfolding packet_crc_ok_def h by (simp add: packet_image_def check_bytes_def)
  qed
qed

lemma image_payload:
  assumes "wf_info info"
  shows "payload_of (packet_image info payload) = payload"
proof -
  let ?p = "packet_image info payload" and ?h = "pi_header info"
  let ?pre = "meta_bytes info (of_nat (length payload + overhead_nat ?h)) @ field_bytes info"
  have h: "?p ! 1 = ?h" by (rule image_positions) (rule refl)
  have "length ?pre + unat (crc_overhead ?h) = overhead_nat ?h"
    using length_body_bytes [OF assms, of payload] by (simp add: body_bytes_def)
  then have k: "overhead_nat ?h - unat (crc_overhead ?h) = length ?pre" by simp
  have "?p = ?pre @ payload @ check_bytes ?h (body_bytes info payload)"
    by (simp add: packet_image_def body_bytes_def)
  then have "drop (length ?pre) ?p = payload @ check_bytes ?h (body_bytes info payload)" by simp
  then show ?thesis
    unfolding payload_of_def h k length_packet_image [OF assms] by simp
qed

lemma ucast_lo8: "unat n < 256 \<Longrightarrow> ucast (lo8 n) = n" for n :: u16
proof -
  assume "unat n < 256"
  then have "unat (lo8 n) = unat n" by (simp add: lo8_def unsigned_ucast_eq take_bit_eq_mod)
  then have "unat (ucast (lo8 n) :: u16) = unat n" by simp
  then show "ucast (lo8 n) = n" by (metis unsigned_word_eqI)
qed

lemma final_broadcast:
  "ep_id (pi_rx info) = PJON_BROADCAST \<Longrightarrow> \<not> flag (pi_header (final_info b info len)) PJON_ACK_REQ_BIT"
proof -
  assume "ep_id (pi_rx info) = PJON_BROADCAST"
  moreover have ack: "flag (set_flag h PJON_CRC_BIT) PJON_ACK_REQ_BIT = flag h PJON_ACK_REQ_BIT"
    "flag (set_flag h PJON_EXT_LEN_BIT) PJON_ACK_REQ_BIT = flag h PJON_ACK_REQ_BIT"
    "\<not> flag (clear_flag h PJON_ACK_REQ_BIT) PJON_ACK_REQ_BIT" for h
    by (simp_all add: flag_simps bit_set_flag bit_mask)
  ultimately show ?thesis
    by (simp add: final_info_def compose_sizing_eq Let_def length_choice_def crc_choice_def ack
        compose_normalise_def)
qed

lemma composed_image:
  assumes wf: "wf_info info" and f: "fits b info len" and p: "length payload = unat len"
    and im: "img = packet_image (final_info b info len) payload"
  shows "length img = final_length b info len"
    "unat (announced_length img) = final_length b info len"
    "img ! 0 = ep_id (pi_rx info)" "img ! 1 = pi_header (final_info b info len)"
    "15 < final_length b info len \<Longrightarrow> flag (pi_header (final_info b info len)) PJON_CRC_BIT"
    "header_crc_ok img" "packet_crc_ok img"
proof -
  let ?i = "final_info b info len" and ?N = "final_length b info len"
  let ?h = "pi_header (final_info b info len)" and ?g = "pi_header (compose_normalise b info len)"
  have wi: "wf_info ?i" using wf by simp
  have N: "?N < packet_max_length b" "?N < 65536" "?N > 255 \<longrightarrow> flag ?g PJON_EXT_LEN_BIT"
    "header_supported b ?h" "?N = length payload + overhead_nat ?h"
    using f p by (simp_all add: fits_def final_length_def)
  show lp: "length img = ?N" using length_packet_image [OF wi] N(5) im by simp
  have same: "flag ?h PJON_EXT_LEN_BIT \<longrightarrow> flag ?g PJON_EXT_LEN_BIT"
  proof -
    obtain m where "compose_sizing (compose_normalise b info len) len = (?i, m, flag ?h PJON_EXT_LEN_BIT)"
      by (rule compose_sizing_fits [OF f])
    with compose_sizing_final [of b info len] show ?thesis by auto
  qed
  show "15 < ?N \<Longrightarrow> flag ?h PJON_CRC_BIT" using final_crc [OF N(2) _ same] .
  have n: "unat (of_nat ?N :: u16) = ?N" using N(2) by (simp add: unat_of_nat_wrapped)
  note pos = image_positions [of "of_nat ?N" payload ?i, unfolded N(5) im [symmetric], OF refl]
  show "unat (announced_length img) = ?N"
  proof (cases "flag ?h PJON_EXT_LEN_BIT")
    case False
    have "?N < 256"
    proof (rule ccontr)
      assume "\<not> ?N < 256"
      then have "255 < ?N" by simp
      with final_long_extended [OF N(2)] False show False by blast
    qed
    with False n show ?thesis by (simp add: pos N(5) ucast_lo8)
  qed (simp add: pos n flip: N(5))
  show "img ! 0 = ep_id (pi_rx info)" "img ! 1 = ?h" "header_crc_ok img"
    using pos by simp_all
  show "packet_crc_ok img" unfolding im by (rule image_check [OF wi])
qed

lemma composed_well_formed:
  assumes wf: "wf_info info" and f: "fits b info len" and p: "length payload = unat len" "payload \<noteq> []"
    and ext: "flag (pi_header (final_info b info len)) PJON_EXT_LEN_BIT \<longrightarrow> 15 < final_length b info len"
    and m: "packet_max_length b \<le> 65535"
  shows "well_formed_packet b (packet_image (final_info b info len) payload)"
proof -
  let ?N = "final_length b info len" and ?h = "pi_header (final_info b info len)"
  note I = composed_image [OF wf f p(1) refl]
  have N: "?N < packet_max_length b" "header_supported b ?h" "?N = length payload + overhead_nat ?h"
    using f p by (simp_all add: fits_def final_length_def)
  have mac: "flag ?h PJON_MAC_BIT \<Longrightarrow> 15 < ?N"
    using N(3) by (simp add: overhead_nat_def flag_simps)
  have bc: "\<not> (ep_id (pi_rx info) = PJON_BROADCAST \<and> flag ?h PJON_ACK_REQ_BIT)"
    using final_broadcast [of info b len] by simp
  have ov: "overhead_nat ?h < ?N" using N(3) p(2) by simp
  have sup: "flag ?h PJON_PACKET_ID_BIT \<longrightarrow> include_packet_id b" "flag ?h PJON_PORT_BIT \<longrightarrow> include_port b"
    "flag ?h PJON_MAC_BIT \<longrightarrow> include_mac b"
    using N(2) by (simp_all add: header_supported_def)
  show ?thesis
    unfolding well_formed_packet_def I(1,3,4)
    using I(2,5,6,7) ov N(1) mac ext bc sup by blast
qed

text \<open>What is left of the bus after a composed packet has been delivered.\<close>

lemma composed_delivered:
  assumes "wf_bus b bus" and "40 \<le> packet_max_length b" "packet_max_length b \<le> 65535"
    and "wf_info info" and "fits b info len" and "unat len \<le> length source" and "len \<noteq> 0"
    and "length destination = packet_max_length b"
    and "flag (pi_header (final_info b info len)) PJON_EXT_LEN_BIT \<longrightarrow> 15 < final_length b info len"
    and "include_mac b \<longrightarrow> flag (pi_header (final_info b info len)) PJON_MAC_BIT"
    and "tools_compose_packet b info destination source len = Some (packet, n)"
    and "addressed b bus (take (unat n) packet)"
    and "feeds st (packet_max_length b) True chunks (pj_strategy bus) s'" and "concat chunks = take (unat n) packet"
    and "i = (wire_info (final_info b info len))\<lparr> pi_custom_pointer := pj_custom_pointer bus \<rparr>"
    and "\<not> duplicate b bus i" and "include_port b \<longrightarrow> pj_port bus = 0 \<or> pj_port bus = pi_port i"
  shows "\<exists>d. receive st b bus = Some (PJON_ACK, emit_event (Received (take (unat len) source) len i)
           (remembered b i (acked st (bus\<lparr> pj_strategy := s', pj_data := d \<rparr>) (take (unat n) packet)
             \<lparr> pj_last_packet_info := i \<rparr>))) \<and>
           take (unat n) packet = packet_image (final_info b info len) (take (unat len) source)"
proof -
  let ?i = "final_info b info len" and ?pl = "take (unat len) source"
  let ?p = "packet_image ?i ?pl"
  have lpl: "length ?pl = unat len" and ne: "?pl \<noteq> []" using assms(6,7) by (auto simp: unat_eq_zero)
  have N: "final_length b info len < packet_max_length b" "final_length b info len < 65536"
    using assms(5) by (simp_all add: fits_def)
  have "tools_compose_packet b info destination source len =
      Some (?p @ drop (final_length b info len) destination, of_nat (final_length b info len))"
    using assms N by (intro compose_refines_image) simp_all
  then have "unat n = final_length b info len" "packet = ?p @ drop (final_length b info len) destination"
    using assms(11) N by (simp_all add: unat_of_nat_wrapped)
  moreover have lp: "length ?p = final_length b info len"
    using length_packet_image [of ?i ?pl] assms(4) lpl by (simp add: final_length_def)
  ultimately have p: "take (unat n) packet = ?p" by simp
  have wfp: "well_formed_packet b ?p"
    using assms(3,4,5,9) lpl ne by (intro composed_well_formed) simp_all
  obtain d inf where d: "take (length ?p) d = ?p" "parse_header b d = Some inf"
    and run: "receive st b bus = Some (received b (inf\<lparr> pi_custom_pointer := pj_custom_pointer bus \<rparr>) ?p
             (acked st (bus\<lparr> pj_strategy := s', pj_data := d \<rparr>) ?p))"
    using receive_accepts [OF assms(1-3) wfp assms(12) [unfolded p] assms(13) assms(14) [unfolded p]] by blast
  have "parse_header b (?p @ drop (length ?p) d) = Some (wire_info ?i)"
    using assms(4,5,10) by (intro parse_packet_image) (simp_all add: fits_def)
  moreover have "?p @ drop (length ?p) d = d" using d(1) by (metis append_take_drop_id)
  ultimately have inf: "inf\<lparr> pi_custom_pointer := pj_custom_pointer bus \<rparr> = i" using d(2) assms(15) by simp
  have h: "?p ! 1 = pi_header i" "?p ! 0 = ep_id (pi_rx info)"
    using image_positions(1,2) [OF refl, of ?i ?pl] assms(15) by (simp_all add: wire_info_def Let_def)
  have hi: "pi_header i = pi_header ?i" by (simp add: assms(15) wire_info_def Let_def)
  have "length ?p - overhead_nat (pi_header i) = unat len"
    unfolding lp hi by (simp add: final_length_def)
  moreover have "payload_of ?p = ?pl" using image_payload [of ?i ?pl] assms(4) by simp
  moreover have "\<not> duplicate b (acked st (bus\<lparr> pj_strategy := s', pj_data := d \<rparr>) ?p) i" using assms(16) by simp
  ultimately show ?thesis
    using assms(17) unfolding run inf received_def Let_def h p by auto
qed

text \<open>C1. Round trip over a link: a packet composed for a bus (non-empty payload, supported header,
  addressed to it) and delivered by the strategy in any batches is answered with \<^verbatim>\<open>PJON_ACK\<close>; the
  receiver gets exactly the payload and the description the header announces, and the acknowledgement
  goes out exactly when it was requested, the bus is not simplex and not a router.\<close>

theorem compose_receive_roundtrip:
  assumes "wf_bus b bus" and "40 \<le> packet_max_length b" "packet_max_length b \<le> 65535"
    and "wf_info info" and "fits b info len" and "unat len \<le> length source" and "len \<noteq> 0"
    and "length destination = packet_max_length b"
    and "flag (pi_header (final_info b info len)) PJON_EXT_LEN_BIT \<longrightarrow> 15 < final_length b info len"
    and "include_mac b \<longrightarrow> flag (pi_header (final_info b info len)) PJON_MAC_BIT"
    and "tools_compose_packet b info destination source len = Some (packet, n)"
    and "addressed b bus (take (unat n) packet)"
    and "feeds st (packet_max_length b) True chunks (pj_strategy bus) s'" and "concat chunks = take (unat n) packet"
    and "i = (wire_info (final_info b info len))\<lparr> pi_custom_pointer := pj_custom_pointer bus \<rparr>"
    and "\<not> duplicate b bus i" and "include_port b \<longrightarrow> pj_port bus = 0 \<or> pj_port bus = pi_port i"
  shows "\<exists>bus'. receive st b bus = Some (PJON_ACK, bus') \<and>
           pj_events bus' = pj_events bus @ [Received (take (unat len) source) len i] \<and>
           pj_last_packet_info bus' = i \<and>
           pj_strategy bus' = (if flag (pi_header i) PJON_ACK_REQ_BIT \<and> pj_mode bus \<noteq> PJON_SIMPLEX \<and> \<not> pj_router bus
                               then st_send_response st PJON_ACK s' else s')"
proof -
  let ?p = "take (unat n) packet"
  have i: "pi_header i = pi_header (final_info b info len)" by (simp add: assms(15) wire_info_def Let_def)
  obtain d where d: "receive st b bus = Some (PJON_ACK, emit_event (Received (take (unat len) source) len i)
      (remembered b i (acked st (bus\<lparr> pj_strategy := s', pj_data := d \<rparr>) ?p\<lparr> pj_last_packet_info := i \<rparr>)))"
    and p: "?p = packet_image (final_info b info len) (take (unat len) source)"
    using composed_delivered [OF assms] by blast
  have "?p ! 1 = pi_header i" "?p ! 0 = ep_id (pi_rx info)"
    unfolding p i using image_positions(1,2) [OF refl, of "final_info b info len"] by simp_all
  moreover have "ep_id (pi_rx info) = PJON_BROADCAST \<longrightarrow> \<not> flag (pi_header i) PJON_ACK_REQ_BIT"
    using final_broadcast [of info b len] i by simp
  ultimately show ?thesis unfolding d by (auto simp: emit_event_def acked_def on_strategy_def)
qed

text \<open>A strategy that delivers one frame, and device 12 receiving the sample packet through it.\<close>

definition one_frame :: "u8 list \<Rightarrow> nat strategy" where
  "one_frame p = idle_strategy\<lparr> st_receive_frame :=
     (\<lambda>n t. if t = 0 \<and> length p \<le> unat n then (of_nat (length p), p, 1) else (PJON_FAIL, [], t)) \<rparr>"

definition sample_receiver :: "nat pjon" where
  "sample_receiver = set_id 12 sample_bus"

lemma sample_receiver_simps [simp]:
  "wf_bus default_build sample_receiver" "pj_strategy sample_receiver = 0" "pj_events sample_receiver = []"
  "pj_port sample_receiver = 0" "pj_mode sample_receiver" "\<not> pj_router sample_receiver"
  "pj_custom_pointer sample_receiver = 0" "pj_tx sample_receiver = new_endpoint\<lparr> ep_id := 12 \<rparr>"
  "pj_config sample_receiver = 0x06"
proof -
  show "wf_bus default_build sample_receiver"
    using wf_sample_bus by (simp add: sample_receiver_def set_id_def wf_bus_def wf_endpoint_def)
qed (simp_all add: sample_receiver_def set_id_def)

lemma sample_packet:
  "well_formed_packet default_build (packet_image sample_info [64])"
  "addressed default_build sample_receiver (packet_image sample_info [64])"
  "feeds (one_frame (packet_image sample_info [64])) 50 True [packet_image sample_info [64]] 0 1"
  "length (packet_image sample_info [64]) = 7"
proof -
  let ?p = "packet_image sample_info [64]"
  have h: "pi_header sample_info = 6" by (rule sample_fits)
  have pos: "?p ! 0 = 12" "?p ! 1 = 6"
    using image_positions(1,2) [OF refl, of sample_info "[64]"] h by (simp_all add: sample_info_def)
  show l: "length ?p = 7"
    using length_packet_image [of sample_info "[64]"] sample_fits(4) h by (simp add: overhead_nat_def)
  show "well_formed_packet default_build ?p"
    using composed_well_formed [of sample_info default_build 1 "[64]"] sample_fits
    by (simp add: flag_simps)
  show "addressed default_build sample_receiver ?p"
    unfolding addressed_def pos by (simp add: flag_def const_defs)
  show "feeds (one_frame ?p) 50 True [?p] 0 1"
    using l by (auto simp: one_frame_def)
qed

lemma compose_receive_roundtrip_witness:
  "\<exists>bus'. receive (one_frame (packet_image sample_info [64])) default_build sample_receiver = Some (PJON_ACK, bus') \<and>
     pj_events bus' = pj_events sample_receiver @ [Received [64] 1 ((wire_info sample_info)\<lparr> pi_custom_pointer := 0 \<rparr>)]"
proof -
  let ?p = "packet_image sample_info [64]" and ?i = "(wire_info sample_info)\<lparr> pi_custom_pointer := 0 \<rparr>"
  have h: "pi_header sample_info = 6" by (rule sample_fits)
  have c: "tools_compose_packet default_build sample_info (replicate 50 0) [64] 1 = Some (?p @ drop 7 (replicate 50 0), 7)"
    using compose_refines_image [of sample_info default_build 1 "[64]" "replicate 50 0"] sample_fits by simp
  have t: "take (unat (7 :: u16)) (?p @ drop 7 (replicate 50 0)) = ?p"
    using sample_packet(4) by (simp del: replicate.simps drop_replicate)
  have "\<exists>bus'. receive (one_frame ?p) default_build sample_receiver = Some (PJON_ACK, bus') \<and>
           pj_events bus' = pj_events sample_receiver @ [Received (take (unat (1 :: u16)) [64]) 1 ?i] \<and>
           pj_last_packet_info bus' = ?i \<and>
           pj_strategy bus' = (if flag (pi_header ?i) PJON_ACK_REQ_BIT \<and> pj_mode sample_receiver \<noteq> PJON_SIMPLEX \<and> \<not> pj_router sample_receiver
                               then st_send_response (one_frame ?p) PJON_ACK 1 else 1)"
    using sample_fits sample_packet c t
    by (intro compose_receive_roundtrip [where packet = "?p @ drop 7 (replicate 50 0)" and n = 7
          and destination = "replicate 50 0" and info = sample_info and chunks = "[?p]"])
      (simp_all add: flag_simps duplicate_def)
  then show ?thesis by auto
qed

lemma receive_sound_witness:
  "\<exists>bus' n info. receive (one_frame (packet_image sample_info [64])) default_build sample_receiver = Some (PJON_ACK, bus') \<and>
     (let p = take n (pj_data bus') in well_formed_packet default_build p \<and> addressed default_build sample_receiver p \<and>
       parse_header default_build (pj_data bus') = Some info)"
proof -
  let ?p = "packet_image sample_info [64]"
  obtain d info where r: "receive (one_frame ?p) default_build sample_receiver
      = Some (received default_build (info\<lparr> pi_custom_pointer := 0 \<rparr>) ?p
          (acked (one_frame ?p) (sample_receiver\<lparr> pj_strategy := 1, pj_data := d \<rparr>) ?p))"
    using receive_accepts [OF sample_receiver_simps(1) _ _ sample_packet(1,2), of "one_frame ?p" "[?p]" 1] sample_packet(3)
    by auto
  then obtain bus' where "receive (one_frame ?p) default_build sample_receiver = Some (PJON_ACK, bus')"
    by (auto simp: received_def duplicate_def Let_def)
  with receive_sound [OF sample_receiver_simps(1) _ _ this] show ?thesis
    by (auto simp: Let_def)
qed

end
