(* ===== verification/Send.thy ===== *)
theory Send
  imports Receive_Laws
begin

text \<open>
  Transmission in \<^verbatim>\<open>src/PJON.h\<close>: \<^verbatim>\<open>send_packet\<close> in its three forms, the blocking calls with their
  retry loop, and \<^verbatim>\<open>update\<close>, which works through the packet buffer.
\<close>

subsection \<open>Sending once\<close>

text \<open>\<open>send_packet\<close> transmits a composed packet; its argument is \<^term>\<open>None\<close> for a null pointer.\<close>

definition send_packet ::
  "'s strategy \<Rightarrow> u8 list option \<Rightarrow> u16 \<Rightarrow> 's pjon \<Rightarrow> (u16 \<times> 's pjon) option" where
  "send_packet st payload len bus =
     (case payload of
        None \<Rightarrow> Some (PJON_FAIL, bus)
      | Some p \<Rightarrow>
          (let (start, bus) = (if pj_mode bus \<noteq> PJON_SIMPLEX then with_strategy (st_can_start st) bus
                               else (True, bus))
           in if \<not> start then Some (PJON_BUSY, bus)
              else do { frame \<leftarrow> rd_block p 0 (unat len);
                        let bus = on_strategy (st_send_frame st frame) bus;
                        p0 \<leftarrow> rd p 0;
                        p1 \<leftarrow> rd p 1;
                        if p0 = PJON_BROADCAST \<or> \<not> flag p1 PJON_ACK_REQ_BIT \<or> pj_mode bus = PJON_SIMPLEX
                        then Some (PJON_ACK, bus)
                        else let (response, bus) = with_strategy (st_receive_response st) bus
                             in Some (if response = PJON_ACK then PJON_ACK else PJON_FAIL, bus) }))"

definition send_packet_info ::
  "'s strategy \<Rightarrow> build \<Rightarrow> packet_info \<Rightarrow> u8 list \<Rightarrow> u16 \<Rightarrow> 's pjon \<Rightarrow> (u16 \<times> 's pjon) option" where
  "send_packet_info st b info payload len bus =
     do { (d, l, bus) \<leftarrow> compose_packet b info (pj_data bus) payload len bus;
          let bus = bus\<lparr> pj_data := d \<rparr>;
          if l = 0 then Some (PJON_FAIL, bus) else send_packet st (Some (pj_data bus)) l bus }"

definition send_packet_id ::
  "'s strategy \<Rightarrow> build \<Rightarrow> u8 \<Rightarrow> u8 list \<Rightarrow> u16 \<Rightarrow> u8 \<Rightarrow> u16 \<Rightarrow> u16 \<Rightarrow> 's pjon
     \<Rightarrow> (u16 \<times> 's pjon) option" where
  "send_packet_id st b rx_id payload len header packet_id rx_port bus =
     send_packet_info st b (fill_info b bus rx_id header packet_id rx_port) payload len bus"

definition send_acknowledge :: "'s strategy \<Rightarrow> 's pjon \<Rightarrow> 's pjon" where
  "send_acknowledge st bus = on_strategy (st_send_response st PJON_ACK) bus"

subsection \<open>Sending until delivered\<close>

definition leave_blocking :: "u16 \<Rightarrow> 's pjon \<Rightarrow> (u16 \<times> 's pjon) option" where
  "leave_blocking state bus = Some (state, bus\<lparr> pj_recursion := pj_recursion bus - 1 \<rparr>)"

text \<open>
  The pause between two attempts: receiving, when the build asks for it and this is the outermost
  blocking call, or a delay.
\<close>

definition blocking_pause :: "'s strategy \<Rightarrow> build \<Rightarrow> nat \<Rightarrow> u8 \<Rightarrow> 's pjon \<Rightarrow> 's pjon option" where
  "blocking_pause st b fuel attempts bus =
     (let (w, bus) = with_strategy (st_back_off st attempts) bus
      in if receive_while_sending b \<and> pj_recursion bus \<le> 1
         then do { (response, bus) \<leftarrow> receive_for st b fuel w bus; Some bus }
         else Some (on_strategy (pf_delay st (w div 1000)) bus))"

function blocking_loop ::
  "'s strategy \<Rightarrow> build \<Rightarrow> nat \<Rightarrow> packet_info \<Rightarrow> u8 list \<Rightarrow> u16 \<Rightarrow> u32 \<Rightarrow> u32 \<Rightarrow> u16 \<Rightarrow> u32
     \<Rightarrow> 's pjon \<Rightarrow> (u16 \<times> 's pjon) option" where
  "blocking_loop st b fuel info payload old_length start timeout state attempts bus =
     (if state \<noteq> PJON_ACK \<and> attempts \<le> ucast (st_max_attempts st)
      then let (now, bus) = with_strategy (pf_micros st) bus in
           if now - start \<le> timeout
           then (case compose_packet b info (pj_data bus) payload old_length bus of
                   None \<Rightarrow> None
                 | Some (d, l, bus) \<Rightarrow>
                     let bus = bus\<lparr> pj_data := d \<rparr> in
                     if l = 0 then leave_blocking PJON_FAIL bus
                     else (case send_packet st (Some (pj_data bus)) l bus of
                             None \<Rightarrow> None
                           | Some (state, bus) \<Rightarrow>
                               if state = PJON_ACK then leave_blocking state bus
                               else (case blocking_pause st b fuel (ucast (attempts + 1))
                                            (if state \<noteq> PJON_FAIL
                                             then on_strategy (st_handle_collision st) bus else bus) of
                                       None \<Rightarrow> None
                                     | Some bus \<Rightarrow>
                                         blocking_loop st b fuel info payload old_length start timeout
                                           state (attempts + 1) bus)))
           else leave_blocking state bus
      else leave_blocking state bus)"
  by pat_completeness auto
termination
proof (relation "measure (\<lambda>(st, b, fuel, info, payload, old_length, start, timeout, state, attempts, bus).
                           256 - unat attempts)", goal_cases)
  case (2 st b fuel info payload old_length start timeout state attempts bus)
  have "unat (ucast (st_max_attempts st) :: u32) < 256"
    using unsigned_less [of "st_max_attempts st", where 'a = nat]
    by (simp add: unsigned_ucast_eq take_bit_eq_mod)
  with 2 have a: "unat attempts < 256" by (simp add: word_le_nat_alt)
  then have "unat (attempts + 1) = unat attempts + 1" by (simp add: unat_word_ariths)
  then show ?case using a by simp
qed simp

declare blocking_loop.simps [simp del]

definition send_packet_blocking ::
  "'s strategy \<Rightarrow> build \<Rightarrow> nat \<Rightarrow> packet_info \<Rightarrow> u8 list \<Rightarrow> u16 \<Rightarrow> u32 \<Rightarrow> 's pjon
     \<Rightarrow> (u16 \<times> 's pjon) option" where
  "send_packet_blocking st b fuel info payload len timeout bus =
     (let (start, bus) = with_strategy (pf_micros st) bus;
          bus = bus\<lparr> pj_recursion := pj_recursion bus + 1 \<rparr>
      in blocking_loop st b fuel info payload len start timeout PJON_FAIL 0 bus)"

definition send_packet_blocking_id ::
  "'s strategy \<Rightarrow> build \<Rightarrow> nat \<Rightarrow> u8 \<Rightarrow> u8 list \<Rightarrow> u16 \<Rightarrow> u8 \<Rightarrow> u16 \<Rightarrow> u16 \<Rightarrow> u32 \<Rightarrow> 's pjon
     \<Rightarrow> (u16 \<times> 's pjon) option" where
  "send_packet_blocking_id st b fuel rx_id payload len header packet_id rx_port timeout bus =
     send_packet_blocking st b fuel (fill_info b bus rx_id header packet_id rx_port) payload len timeout bus"

definition reply_blocking ::
  "'s strategy \<Rightarrow> build \<Rightarrow> nat \<Rightarrow> u8 list \<Rightarrow> u16 \<Rightarrow> 's pjon \<Rightarrow> (u16 \<times> 's pjon) option" where
  "reply_blocking st b fuel payload len bus =
     send_packet_blocking st b fuel (reply_info b bus) payload len 3500000 bus"

definition forward_blocking ::
  "'s strategy \<Rightarrow> build \<Rightarrow> nat \<Rightarrow> packet_info \<Rightarrow> u8 list \<Rightarrow> u16 \<Rightarrow> 's pjon \<Rightarrow> (u16 \<times> 's pjon) option" where
  "forward_blocking st b fuel info payload len bus =
     (let original_end_point = pj_tx bus;
          bus = bus\<lparr> pj_tx := pi_tx info \<rparr>;
          info = (if pjon_local b then info else info\<lparr> pi_hops := pi_hops info + 1 \<rparr>)
      in if \<not> pjon_local b \<and> pi_hops info > max_hops b then Some (PJON_FAIL, bus)
         else do { (result, bus) \<leftarrow> send_packet_blocking st b fuel info payload len 3500000 bus;
                   Some (result, bus\<lparr> pj_tx := original_end_point \<rparr>) })"

subsection \<open>Working through the packet buffer\<close>

definition set_slot :: "nat \<Rightarrow> (packet \<Rightarrow> packet) \<Rightarrow> 's pjon \<Rightarrow> 's pjon" where
  "set_slot i f bus = bus\<lparr> pj_packets := (pj_packets bus)[i := f (pj_packets bus ! i)] \<rparr>"

text \<open>One attempt to deliver slot \<open>i\<close> whose time has come; \<open>n\<close> is the running packet count.\<close>

definition update_attempt ::
  "'s strategy \<Rightarrow> build \<Rightarrow> nat \<Rightarrow> u16 \<Rightarrow> 's pjon \<Rightarrow> (u16 \<times> 's pjon) option" where
  "update_attempt st b i n bus =
     do { bus \<leftarrow> (if pk_state (pj_packets bus ! i) \<noteq> PJON_ACK
                 then do { (r, bus) \<leftarrow> send_packet st (Some (pk_content (pj_packets bus ! i)))
                                        (pk_length (pj_packets bus ! i)) bus;
                           Some (set_slot i (pk_state_update (\<lambda>_. r)) bus) }
                 else Some bus);
          let bus = set_slot i (pk_attempts_update (\<lambda>a. a + 1)) bus;
          let state = pk_state (pj_packets bus ! i);
          if state = PJON_ACK
          then let (removed, bus) = reset_packet st b i bus in Some (n - of_bool removed, bus)
          else let bus = (if state \<noteq> PJON_FAIL \<and> state \<noteq> PJON_ACK
                          then on_strategy (st_handle_collision st) bus else bus)
               in if pk_attempts (pj_packets bus ! i) > st_max_attempts st
                  then let bus = raise_error PJON_CONNECTION_LOST (of_nat i) bus;
                           (removed, bus) = reset_packet st b i bus
                       in Some (n - of_bool removed, bus)
                  else Some (n, bus) }"

definition update_slot ::
  "'s strategy \<Rightarrow> build \<Rightarrow> nat \<Rightarrow> u16 \<Rightarrow> 's pjon \<Rightarrow> (u16 \<times> 's pjon) option" where
  "update_slot st b i n bus =
     (if pk_state (pj_packets bus ! i) = 0 then Some (n, bus)
      else let (now, bus) = with_strategy (pf_micros st) bus;
               (w, bus) = with_strategy (st_back_off st (pk_attempts (pj_packets bus ! i))) bus;
               p = pj_packets bus ! i
           in if now - pk_registration p > pk_timing p + w
              then update_attempt st b i (n + 1) bus else Some (n + 1, bus))"

fun update_loop ::
  "'s strategy \<Rightarrow> build \<Rightarrow> nat \<Rightarrow> nat \<Rightarrow> u16 \<Rightarrow> 's pjon \<Rightarrow> (u16 \<times> 's pjon) option" where
  "update_loop st b i 0 n bus = Some (n, bus)"
| "update_loop st b i (Suc k) n bus =
     do { (n, bus) \<leftarrow> update_slot st b i n bus; update_loop st b (Suc i) k n bus }"

definition update :: "'s strategy \<Rightarrow> build \<Rightarrow> 's pjon \<Rightarrow> (u16 \<times> 's pjon) option" where
  "update st b bus = update_loop st b 0 (max_packets b) 0 bus"

subsection \<open>The packet buffer under \<open>update\<close>\<close>

definition bus_ok :: "build \<Rightarrow> 's pjon \<Rightarrow> bool" where
  "bus_ok b bus \<longleftrightarrow> wf_bus b bus \<and> (\<forall>p \<in> set (pj_packets bus). unat (pk_length p) < packet_max_length b)"

lemma send_packet_result:
  assumes "unat len \<le> length p" and "2 \<le> length p"
  obtains r s where "send_packet st (Some p) len bus = Some (r, bus\<lparr> pj_strategy := s \<rparr>)"
    "r = PJON_ACK \<or> r = PJON_BUSY \<or> r = PJON_FAIL"
proof -
  have rd: "rd p 0 = Some (p ! 0)" "rd p 1 = Some (p ! 1)" "rd_block p 0 (unat len) = Some (take (unat len) p)"
    using assms by (auto simp: mem_defs)
  define start where "start = (if pj_mode bus \<noteq> PJON_SIMPLEX then with_strategy (st_can_start st) bus else (True, bus))"
  obtain s0 where s0: "snd start = bus\<lparr> pj_strategy := s0 \<rparr>"
    by (cases "pj_mode bus \<noteq> PJON_SIMPLEX") (auto simp: start_def frame_simps intro: that [of "pj_strategy bus"])
  have "\<exists>r s. send_packet st (Some p) len bus = Some (r, bus\<lparr> pj_strategy := s \<rparr>) \<and>
      (r = PJON_ACK \<or> r = PJON_BUSY \<or> r = PJON_FAIL)"
    unfolding send_packet_def option.case start_def [symmetric] Let_def case_prod_unfold s0 rd Option.bind.simps
    by (auto simp: frame_simps on_strategy_def)
  then show thesis using that by blast
qed

text \<open>
  An attempt only changes its own slot: either the packet is removed, or it stays with its content,
  and then the number of attempts is within the limit when packets are deleted automatically.
\<close>

definition slot_step :: "'s strategy \<Rightarrow> bool \<Rightarrow> packet \<Rightarrow> packet \<Rightarrow> bool \<Rightarrow> bool" where
  "slot_step st auto p p' removed \<longleftrightarrow>
     pk_content p' = pk_content p \<and> unat (pk_length p') \<le> unat (pk_length p) \<and>
     (removed \<longleftrightarrow> pk_state p' = 0) \<and>
     (auto \<and> pk_attempts p \<le> st_max_attempts st \<and> st_max_attempts st < 255 \<longrightarrow>
        pk_attempts p' \<le> st_max_attempts st)"

lemma reset_packet_step:
  assumes "i < length (pj_packets bus)" "length (pj_packets bus) = max_packets b"
    and "p = pj_packets bus ! i" and "pk_state p \<noteq> 0"
  obtains removed s p' where "reset_packet st b i bus = (removed, bus\<lparr> pj_strategy := s, pj_packets := (pj_packets bus)[i := p'] \<rparr>)"
    "pk_content p' = pk_content p" "unat (pk_length p') \<le> unat (pk_length p)" "removed \<longleftrightarrow> pk_state p' = 0"
    "pj_auto_delete bus \<longrightarrow> pk_attempts p' = 0" "pk_timing p' = pk_timing p"
proof (cases "pk_timing p = 0")
  case False
  then show thesis
    using assms that [where removed = False and s = "snd (pf_micros st (pj_strategy bus))" and
        p' = "p\<lparr> pk_attempts := 0, pk_registration := fst (pf_micros st (pj_strategy bus)), pk_state := PJON_TO_BE_SENT \<rparr>"]
    by (simp add: reset_packet_def frame_simps Let_def PJON_TO_BE_SENT_def)
next
  case timing: True
  show thesis
  proof (cases "pj_auto_delete bus")
    case True
    then show thesis
      using assms timing that [where removed = True and s = "pj_strategy bus" and p' = "clear_packet p"]
      by (simp add: reset_packet_def remove_packet_def clear_packet_def)
  next
    case False
    then show thesis
      using assms timing that [where removed = False and s = "pj_strategy bus" and p' = p] by (simp add: reset_packet_def)
  qed
qed

lemma update_attempt_step:
  assumes ok: "bus_ok b bus" and i: "i < max_packets b" and p: "p = pj_packets bus ! i" "pk_state p \<noteq> 0"
    and m: "2 \<le> packet_max_length b"
  shows "\<exists>removed s p' ev. update_attempt st b i n bus = Some (n - of_bool removed,
           bus\<lparr> pj_strategy := s, pj_packets := (pj_packets bus)[i := p'], pj_events := ev \<rparr>) \<and>
           slot_step st (pj_auto_delete bus) p p' removed"
proof -
  let ?ps = "pj_packets bus"
  have len: "length ?ps = max_packets b" "i < length ?ps" using ok i by (simp_all add: bus_ok_def wf_bus_def)
  then have pin: "p \<in> set ?ps" using p(1) by simp
  have pl: "unat (pk_length p) \<le> length (pk_content p)" "2 \<le> length (pk_content p)"
    using ok pin m by (auto simp: bus_ok_def wf_bus_def)
  obtain s1 r where r: "r \<noteq> 0" and send: "(if pk_state p \<noteq> PJON_ACK
        then do { (r, bus) \<leftarrow> send_packet st (Some (pk_content p)) (pk_length p) bus;
                  Some (set_slot i (pk_state_update (\<lambda>_. r)) bus) }
        else Some bus) = Some (bus\<lparr> pj_strategy := s1, pj_packets := ?ps[i := p\<lparr> pk_state := r \<rparr>] \<rparr>)"
  proof (cases "pk_state p = PJON_ACK")
    case True
    have "p\<lparr> pk_state := PJON_ACK \<rparr> = p" using True by (cases p) simp
    then have "?ps[i := p\<lparr> pk_state := PJON_ACK \<rparr>] = ?ps" using p(1) by simp
    with True show ?thesis using that [of PJON_ACK "pj_strategy bus"] by (simp add: PJON_ACK_def)
  next
    case False
    obtain r s where "send_packet st (Some (pk_content p)) (pk_length p) bus = Some (r, bus\<lparr> pj_strategy := s \<rparr>)"
      "r = PJON_ACK \<or> r = PJON_BUSY \<or> r = PJON_FAIL"
      by (rule send_packet_result [OF pl])
    with False p(1) show ?thesis using that [of r s] by (auto simp: set_slot_def const_defs)
  qed
  define p2 where "p2 = p\<lparr> pk_state := r, pk_attempts := pk_attempts p + 1 \<rparr>"
  define bus2 where "bus2 = bus\<lparr> pj_strategy := s1, pj_packets := ?ps[i := p2] \<rparr>"
  have b2: "pj_packets bus2 ! i = p2" "length (pj_packets bus2) = max_packets b" "i < length (pj_packets bus2)"
    using len by (simp_all add: bus2_def)
  have st2: "pk_state p2 = r" by (simp add: p2_def)
  have run: "update_attempt st b i n bus =
      (if r = PJON_ACK
       then let (removed, bus) = reset_packet st b i bus2 in Some (n - of_bool removed, bus)
       else let bus3 = (if r \<noteq> PJON_FAIL \<and> r \<noteq> PJON_ACK then on_strategy (st_handle_collision st) bus2 else bus2)
            in if pk_attempts (pj_packets bus3 ! i) > st_max_attempts st
               then let (removed, bus) = reset_packet st b i (raise_error PJON_CONNECTION_LOST (of_nat i) bus3)
                    in Some (n - of_bool removed, bus)
               else Some (n, bus3))"
  proof -
    have slot: "set_slot i (pk_attempts_update (\<lambda>a. a + 1)) (bus\<lparr> pj_strategy := s1, pj_packets := ?ps[i := p\<lparr> pk_state := r \<rparr>] \<rparr>) = bus2"
    proof -
      have "pk_attempts_update (\<lambda>a. a + 1) (p\<lparr> pk_state := r \<rparr>) = p2" by (cases p) (simp add: p2_def)
      then show ?thesis using len by (simp add: set_slot_def bus2_def)
    qed
    show ?thesis
      unfolding update_attempt_def p(1) [symmetric] send Option.bind.simps slot
      unfolding Let_def by (simp add: b2 st2)
  qed
  have reset: "\<exists>removed s p' ev. (let (removed, bus) = reset_packet st b i bus3 in Some (n - of_bool removed, bus))
      = Some (n - of_bool removed, bus\<lparr> pj_strategy := s, pj_packets := ?ps[i := p'], pj_events := ev \<rparr>) \<and>
      slot_step st (pj_auto_delete bus) p p' removed"
    if b3: "bus3 = bus\<lparr> pj_strategy := s3, pj_packets := ?ps[i := p2], pj_events := ev3 \<rparr>" for bus3 s3 ev3
  proof -
    have l3: "i < length (pj_packets bus3)" "length (pj_packets bus3) = max_packets b" "p2 = pj_packets bus3 ! i"
      "pk_state p2 \<noteq> 0"
      using len r st2 by (simp_all add: b3)
    obtain removed s p' where "reset_packet st b i bus3 = (removed, bus3\<lparr> pj_strategy := s, pj_packets := (pj_packets bus3)[i := p'] \<rparr>)"
      "pk_content p' = pk_content p2" "unat (pk_length p') \<le> unat (pk_length p2)" "removed \<longleftrightarrow> pk_state p' = 0"
      "pj_auto_delete bus3 \<longrightarrow> pk_attempts p' = 0" "pk_timing p' = pk_timing p2"
      by (rule reset_packet_step [OF l3, where st = st])
    then show ?thesis
      by (intro exI [of _ removed] exI [of _ s] exI [of _ p'] exI [of _ ev3])
        (auto simp: b3 slot_step_def p2_def)
  qed
  show ?thesis
  proof (cases "r = PJON_ACK")
    case True
    have "bus2 = bus\<lparr> pj_strategy := s1, pj_packets := ?ps[i := p2], pj_events := pj_events bus \<rparr>"
      by (simp add: bus2_def)
    from reset [OF this] True show ?thesis by (simp add: run)
  next
    case False
    define bus3 where "bus3 = (if r \<noteq> PJON_FAIL \<and> r \<noteq> PJON_ACK then on_strategy (st_handle_collision st) bus2 else bus2)"
    define s3 where "s3 = (if r \<noteq> PJON_FAIL \<and> r \<noteq> PJON_ACK then st_handle_collision st s1 else s1)"
    have b3: "bus3 = bus\<lparr> pj_strategy := s3, pj_packets := ?ps[i := p2] \<rparr>"
      by (simp add: bus3_def bus2_def on_strategy_def s3_def)
    have a3: "pk_attempts (pj_packets bus3 ! i) = pk_attempts p + 1" using len by (simp add: b3 p2_def)
    have run': "update_attempt st b i n bus =
      (if pk_attempts p + 1 > st_max_attempts st
       then let (removed, bus) = reset_packet st b i (raise_error PJON_CONNECTION_LOST (of_nat i) bus3)
            in Some (n - of_bool removed, bus)
       else Some (n, bus3))"
      unfolding run bus3_def [symmetric] unfolding Let_def using False by (simp add: a3)
    show ?thesis
    proof (cases "pk_attempts p + 1 > st_max_attempts st")
      case lost: True
      have "raise_error PJON_CONNECTION_LOST (of_nat i) bus3
          = bus\<lparr> pj_strategy := s3, pj_packets := ?ps[i := p2],
              pj_events := pj_events bus @ [Error PJON_CONNECTION_LOST (of_nat i) (pj_custom_pointer bus)] \<rparr>"
        by (simp add: raise_error_def emit_event_def b3)
      from reset [OF this] show ?thesis
        unfolding run' using lost by simp
    next
      case alive: False
      then have "update_attempt st b i n bus = Some (n, bus3)"
        by (simp add: run')
      moreover have "slot_step st (pj_auto_delete bus) p p2 False"
        using alive r by (simp add: slot_step_def p2_def not_less)
      ultimately show ?thesis
        by (intro exI [of _ False] exI [of _ s3] exI [of _ p2] exI [of _ "pj_events bus"]) (simp add: b3)
    qed
  qed
qed

lemma update_slot_step:
  assumes ok: "bus_ok b bus" and i: "i < max_packets b" and m: "2 \<le> packet_max_length b"
  shows "\<exists>n' s p' ev. update_slot st b i n bus = Some (n', bus\<lparr> pj_strategy := s,
             pj_packets := (pj_packets bus)[i := p'], pj_events := ev \<rparr>) \<and>
           pk_content p' = pk_content (pj_packets bus ! i) \<and>
           unat (pk_length p') \<le> unat (pk_length (pj_packets bus ! i)) \<and>
           n' = n + of_bool (pk_state p' \<noteq> 0) \<and>
           (pj_auto_delete bus \<and> pk_attempts (pj_packets bus ! i) \<le> st_max_attempts st \<and> st_max_attempts st < 255
              \<longrightarrow> pk_attempts p' \<le> st_max_attempts st)"
proof -
  let ?ps = "pj_packets bus"
  define p where "p = ?ps ! i"
  have len: "i < length ?ps" using ok i by (simp add: bus_ok_def wf_bus_def)
  show ?thesis
  proof (cases "pk_state p = 0")
    case True
    then show ?thesis unfolding p_def
      by (intro exI [of _ n] exI [of _ "pj_strategy bus"] exI [of _ "?ps ! i"] exI [of _ "pj_events bus"])
        (simp add: update_slot_def)
  next
    case False
    define s2 where "s2 = snd (st_back_off st (pk_attempts p) (snd (pf_micros st (pj_strategy bus))))"
    define bus2 where "bus2 = bus\<lparr> pj_strategy := s2 \<rparr>"
    have ok2: "bus_ok b bus2" "pk_state (pj_packets bus2 ! i) \<noteq> 0"
      using ok False by (simp_all add: bus_ok_def bus2_def p_def)
    have "update_slot st b i n bus = update_attempt st b i (n + 1) bus2 \<or>
          update_slot st b i n bus = Some (n + 1, bus2)"
      using False by (auto simp: update_slot_def frame_simps Let_def p_def bus2_def s2_def)
    then show ?thesis
    proof
      assume run: "update_slot st b i n bus = Some (n + 1, bus2)"
      then show ?thesis using False unfolding p_def
        by (intro exI [of _ "n + 1"] exI [of _ s2] exI [of _ "?ps ! i"] exI [of _ "pj_events bus"]) (simp add: bus2_def)
    next
      assume run: "update_slot st b i n bus = update_attempt st b i (n + 1) bus2"
      obtain removed s p' ev where "update_attempt st b i (n + 1) bus2 = Some (n + 1 - of_bool removed,
           bus2\<lparr> pj_strategy := s, pj_packets := (pj_packets bus2)[i := p'], pj_events := ev \<rparr>)"
        and "slot_step st (pj_auto_delete bus2) (pj_packets bus2 ! i) p' removed"
        using update_attempt_step [OF ok2(1) i refl ok2(2) m] by blast
      then show ?thesis using run
        by (intro exI [of _ "n + 1 - of_bool removed"] exI [of _ s] exI [of _ p'] exI [of _ ev])
          (simp add: bus2_def slot_step_def)
    qed
  qed
qed

definition occupied :: "packet list \<Rightarrow> nat" where
  "occupied ps = length (filter (\<lambda>p. pk_state p \<noteq> 0) ps)"

text \<open>The buffer after the slots below \<open>i\<close> have been worked through.\<close>

definition attempts_ok :: "'s strategy \<Rightarrow> 's pjon \<Rightarrow> bool" where
  "attempts_ok st bus \<longleftrightarrow> pj_auto_delete bus \<and> st_max_attempts st < 255 \<and>
     (\<forall>p \<in> set (pj_packets bus). pk_attempts p \<le> st_max_attempts st)"

lemma update_loop_spec:
  assumes "bus_ok b bus" and "i + k = max_packets b" and "2 \<le> packet_max_length b"
    and "n = of_nat (occupied (take i (pj_packets bus)))"
  shows "\<exists>n' bus'. update_loop st b i k n bus = Some (n', bus') \<and> bus_ok b bus' \<and>
           n' = of_nat (occupied (pj_packets bus')) \<and> (attempts_ok st bus \<longrightarrow> attempts_ok st bus') \<and>
           pj_tx bus' = pj_tx bus \<and> pj_data bus' = pj_data bus"
  using assms
proof (induction k arbitrary: i n bus)
  case 0
  then show ?case by (simp add: bus_ok_def wf_bus_def)
next
  case (Suc k)
  let ?ps = "pj_packets bus"
  have i: "i < max_packets b" using Suc.prems(2) by simp
  have len: "length ?ps = max_packets b" using Suc.prems(1) by (simp add: bus_ok_def wf_bus_def)
  obtain n1 s p' ev where run: "update_slot st b i n bus = Some (n1, bus\<lparr> pj_strategy := s,
             pj_packets := ?ps[i := p'], pj_events := ev \<rparr>)"
    and c: "pk_content p' = pk_content (?ps ! i)" "unat (pk_length p') \<le> unat (pk_length (?ps ! i))"
    and n1: "n1 = n + of_bool (pk_state p' \<noteq> 0)"
    and att: "pj_auto_delete bus \<and> pk_attempts (?ps ! i) \<le> st_max_attempts st \<and> st_max_attempts st < 255
              \<longrightarrow> pk_attempts p' \<le> st_max_attempts st"
    using update_slot_step [OF Suc.prems(1) i Suc.prems(3), of st n] by blast
  define bus1 where "bus1 = bus\<lparr> pj_strategy := s, pj_packets := ?ps[i := p'], pj_events := ev \<rparr>"
  have "?ps ! i \<in> set ?ps" using i len by simp
  moreover have sub: "q = p' \<or> q \<in> set ?ps" if "q \<in> set (?ps[i := p'])" for q
    using that set_update_subset_insert [of ?ps i p'] by auto
  moreover have "length (pk_content p') = packet_max_length b" "unat (pk_length p') < packet_max_length b"
    using Suc.prems(1) c \<open>?ps ! i \<in> set ?ps\<close> by (auto simp: bus_ok_def wf_bus_def intro: le_less_trans)
  ultimately have "bus_ok b bus1"
    using Suc.prems(1) unfolding bus_ok_def wf_bus_def bus1_def by auto
  moreover have "n1 = of_nat (occupied (take (Suc i) (pj_packets bus1)))"
    using Suc.prems(4) i len n1 by (simp add: bus1_def occupied_def take_Suc_conv_app_nth)
  ultimately obtain n' bus' where "update_loop st b (Suc i) k n1 bus1 = Some (n', bus') \<and> bus_ok b bus' \<and>
      n' = of_nat (occupied (pj_packets bus')) \<and> (attempts_ok st bus1 \<longrightarrow> attempts_ok st bus') \<and>
      pj_tx bus' = pj_tx bus1 \<and> pj_data bus' = pj_data bus1"
    using Suc.IH [of bus1 "Suc i" n1] Suc.prems(2,3) by auto
  moreover have "attempts_ok st bus \<longrightarrow> attempts_ok st bus1"
    using att \<open>?ps ! i \<in> set ?ps\<close> sub unfolding attempts_ok_def bus1_def by auto
  ultimately show ?case using run by (auto simp: bus1_def)
qed



lemma sample_bus_ok: "bus_ok default_build sample_bus"
  by (simp add: bus_ok_def new_packet_def)


text \<open>C15. No packet is tried for ever: with automatic deletion (and a limit below 255), \<^verbatim>\<open>update\<close> keeps
  the number of attempts of every packet within the limit of the strategy; the packet that reaches it
  is reported as \<^verbatim>\<open>PJON_CONNECTION_LOST\<close> and removed, or starts over when it is periodic.\<close>

theorem update_attempts_bounded:
  assumes "bus_ok b bus" and "2 \<le> packet_max_length b" and "attempts_ok st bus"
    and "update st b bus = Some (n, bus')"
  shows "\<forall>p \<in> set (pj_packets bus'). pk_attempts p \<le> st_max_attempts st"
  using update_loop_spec [OF assms(1) _ assms(2), of 0 "max_packets b" 0 st] assms(3,4)
  by (auto simp: update_def occupied_def attempts_ok_def)

lemma update_attempts_bounded_witness:
  "\<exists>n bus'. update idle_strategy default_build sample_bus = Some (n, bus') \<and>
     list_all (\<lambda>p. pk_attempts p \<le> 10) (pj_packets bus')"
proof -
  obtain n bus' where u: "update idle_strategy default_build sample_bus = Some (n, bus')"
    using update_loop_spec [OF sample_bus_ok, of 0 5 0 idle_strategy] by (auto simp: update_def occupied_def)
  have a: "attempts_ok idle_strategy sample_bus"
    by (simp add: attempts_ok_def idle_strategy_def new_packet_def)
  have "st_max_attempts idle_strategy = 10" by (simp add: idle_strategy_def)
  then show ?thesis using update_attempts_bounded [OF sample_bus_ok _ a u] u by (simp add: list_all_iff)
qed

subsection \<open>The blocking call\<close>

lemma outgoing_info_ends:
  "pi_tx (fst (outgoing_info b info bus)) = pj_tx bus" "pi_rx (fst (outgoing_info b info bus)) = pi_rx info"
proof -
  have "e\<lparr> ep_mac := copy_id (ep_mac e) (ep_mac e) 6 \<rparr> = e" for e :: endpoint
    by (cases e) (simp add: copy_id_def)
  then show "pi_tx (fst (outgoing_info b info bus)) = pj_tx bus"
    "pi_rx (fst (outgoing_info b info bus)) = pi_rx info"
    by (simp_all add: outgoing_info_def Let_def case_prod_unfold)
qed

lemma outgoing_info_wf:
  assumes "outgoing_info b info bus = (info', bus')" and "wf_info info" and "wf_bus b bus"
  shows "wf_info info'"
  using outgoing_info_ends [of b info bus] assms by (simp add: wf_info_def wf_bus_def)

lemma compose_packet_total:
  assumes "wf_info info" and "wf_bus b bus" and "unat len \<le> length source" and "unat len \<le> 65500"
    and "length d = packet_max_length b" "40 \<le> packet_max_length b" "packet_max_length b \<le> 60000"
  obtains d' l bus' where "compose_packet b info d source len bus = Some (d', l, bus')"
    "wf_bus b bus'" "length d' = packet_max_length b" "unat l < packet_max_length b"
    "pj_strategy bus' = pj_strategy bus" "pj_recursion bus' = pj_recursion bus" "pj_mode bus' = pj_mode bus"
    "pj_packets bus' = pj_packets bus"
proof -
  obtain info' bus1 where o: "outgoing_info b info bus = (info', bus1)" by fastforce
  have w: "wf_info info'" by (rule outgoing_info_wf [OF o assms(1,2)])
  have "final_length b info' len < 65536"
    unfolding final_length_def
    using assms(4) overhead_nat_bounds(2) [of "pi_header (final_info b info' len)"] by linarith
  then have "tools_compose_packet b info' d source len \<noteq> None"
    unfolding compose_none_iff [OF w assms(3,5,6,7)] by linarith
  then obtain d' n where t: "tools_compose_packet b info' d source len = Some (d', n)" by auto
  define l where "l = (if unat n < packet_max_length b then n else 0)"
  define bus2 where "bus2 = (if unat n < packet_max_length b then bus1 else raise_error PJON_CONTENT_TOO_LONG n bus1)"
  have c: "compose_packet b info d source len bus = Some (d', l, bus2)"
    unfolding compose_packet_def o Let_def prod.case t Option.bind.simps l_def bus2_def by simp
  obtain seed ev where b': "bus2 = bus\<lparr> pj_packet_id_seed := seed, pj_events := pj_events bus @ ev \<rparr>"
    and ld: "length d' = length d"
    by (rule compose_packet_frame [OF c])
  show thesis
  proof (rule that [OF c])
    show "unat l < packet_max_length b" using assms(6) by (simp add: l_def)
    show "wf_bus b bus2" unfolding b' using assms(2) by simp
    show "length d' = packet_max_length b" using ld assms(5) by simp
  qed (simp_all add: b')
qed

text \<open>A strategy with a counter of the frames it sends beside its state.\<close>

definition carry :: "('s \<Rightarrow> 'a \<times> 's) \<Rightarrow> 's \<times> nat \<Rightarrow> 'a \<times> ('s \<times> nat)" where
  "carry f = (\<lambda>(s, k). let (x, s) = f s in (x, (s, k)))"

definition counted :: "'s strategy \<Rightarrow> ('s \<times> nat) strategy" where
  "counted st =
     \<lparr> pf_micros = carry (pf_micros st), pf_delay = (\<lambda>n. map_prod (pf_delay st n) id),
       pf_random = (\<lambda>n. carry (pf_random st n)), pf_random_seed = (\<lambda>n. map_prod (pf_random_seed st n) id),
       pf_analog_read = (\<lambda>n. carry (pf_analog_read st n)),
       st_begin = (\<lambda>n. carry (st_begin st n)), st_back_off = (\<lambda>n. carry (st_back_off st n)),
       st_can_start = carry (st_can_start st), st_max_attempts = st_max_attempts st,
       st_receive_time = st_receive_time st, st_handle_collision = map_prod (st_handle_collision st) id,
       st_receive_frame = (\<lambda>n (s, k). let (r, bs, s) = st_receive_frame st n s in (r, bs, (s, k))),
       st_receive_response = carry (st_receive_response st),
       st_send_response = (\<lambda>c. map_prod (st_send_response st c) id),
       st_send_frame = (\<lambda>f. map_prod (st_send_frame st f) Suc) \<rparr>"

definition frames_sent :: "('s \<times> nat) pjon \<Rightarrow> nat" where
  "frames_sent bus = snd (pj_strategy bus)"

lemma carry_count [simp]: "snd (snd (carry f s)) = snd s"
  by (simp add: carry_def Let_def case_prod_unfold)

text \<open>The answers of the calls that transmit.\<close>

definition send_code :: "u16 \<Rightarrow> bool" where
  "send_code r \<longleftrightarrow> r = PJON_ACK \<or> r = PJON_BUSY \<or> r = PJON_FAIL"

text \<open>
  What the blocking call needs of a strategy to count its transmissions: a measure \<open>m\<close> of the state that only
  \<^verbatim>\<open>send_frame\<close> changes, and by one at most.
\<close>

locale frame_count =
  fixes st :: "'s strategy" and m :: "'s \<Rightarrow> nat"
  assumes count_simps: "m (snd (pf_micros st s)) = m s" "m (snd (st_back_off st a s)) = m s"
    "m (snd (st_can_start st s)) = m s" "m (snd (st_receive_response st s)) = m s"
    "m (pf_delay st k s) = m s" "m (st_handle_collision st s) = m s"
    and count_send: "m (st_send_frame st f s) \<le> Suc (m s)"
begin

definition frames :: "'s pjon \<Rightarrow> nat" where
  "frames bus = m (pj_strategy bus)"

lemma send_packet_counted:
  assumes "unat len \<le> length p" and "2 \<le> length p"
  obtains r s where "send_packet st (Some p) len bus = Some (r, bus\<lparr> pj_strategy := s \<rparr>)"
    "m s \<le> frames bus + 1" "send_code r"
proof -
  have rd: "rd p 0 = Some (p ! 0)" "rd p 1 = Some (p ! 1)" "rd_block p 0 (unat len) = Some (take (unat len) p)"
    using assms by (auto simp: mem_defs)
  define start where "start = (if pj_mode bus \<noteq> PJON_SIMPLEX then with_strategy (st_can_start st) bus else (True, bus))"
  define s0 where "s0 = pj_strategy (snd start)"
  have s0: "snd start = bus\<lparr> pj_strategy := s0 \<rparr>" "m s0 = frames bus"
    by (simp_all add: start_def s0_def frame_simps frames_def count_simps)
  define s1 where "s1 = st_send_frame st (take (unat len) p) s0"
  define s2 where "s2 = snd (st_receive_response st s1)"
  have k: "m s0 \<le> frames bus + 1" "m s1 \<le> frames bus + 1" "m s2 \<le> frames bus + 1"
    using s0(2) count_send [of "take (unat len) p" s0] by (simp_all add: s1_def s2_def count_simps)
  have "\<exists>r. (send_packet st (Some p) len bus = Some (r, bus\<lparr> pj_strategy := s0 \<rparr>) \<or>
             send_packet st (Some p) len bus = Some (r, bus\<lparr> pj_strategy := s1 \<rparr>) \<or>
             send_packet st (Some p) len bus = Some (r, bus\<lparr> pj_strategy := s2 \<rparr>)) \<and> send_code r"
    unfolding send_packet_def option.case start_def [symmetric] Let_def case_prod_unfold s0(1) rd Option.bind.simps
    by (cases "fst start"; cases "p ! 0 = PJON_BROADCAST \<or> \<not> flag (p ! 1) PJON_ACK_REQ_BIT \<or> pj_mode bus = PJON_SIMPLEX")
      (auto simp: frame_simps on_strategy_def s1_def s2_def send_code_def)
  then have "\<exists>r s. send_packet st (Some p) len bus = Some (r, bus\<lparr> pj_strategy := s \<rparr>) \<and> m s \<le> frames bus + 1 \<and>
      send_code r"
    using k by blast
  then show thesis using that by blast
qed

lemma blocking_loop_spec:
  assumes "wf_bus b bus" and "wf_info info" and "\<not> receive_while_sending b"
    and "unat len \<le> length payload" and "unat len \<le> 65500"
    and "40 \<le> packet_max_length b" "packet_max_length b \<le> 60000" and code: "send_code state"
  shows "\<exists>r bus'. blocking_loop st b fuel info payload len start timeout state attempts bus = Some (r, bus') \<and>
           wf_bus b bus' \<and> send_code r \<and> pj_recursion bus' = pj_recursion bus - 1 \<and>
           pj_packets bus' = pj_packets bus \<and> frames bus' \<le> frames bus + (unat (st_max_attempts st) + 1 - unat attempts)"
  using assms(1) code
proof (induction "256 - unat attempts" arbitrary: state attempts bus rule: less_induct)
  case less
  have leave: "\<exists>r bus'. leave_blocking state1 bus1 = Some (r, bus') \<and>
           wf_bus b bus' \<and> send_code r \<and> pj_recursion bus' = pj_recursion bus - 1 \<and>
           pj_packets bus' = pj_packets bus \<and> frames bus' \<le> frames bus + k"
    if "send_code state1" "wf_bus b bus1" "pj_recursion bus1 = pj_recursion bus" "pj_packets bus1 = pj_packets bus" "frames bus1 \<le> frames bus + k"
    for state1 bus1 k
    using that by (simp add: leave_blocking_def frames_def)
  show ?case
  proof (cases "state \<noteq> PJON_ACK \<and> attempts \<le> ucast (st_max_attempts st)")
    case False
    then have "blocking_loop st b fuel info payload len start timeout state attempts bus = leave_blocking state bus"
      by (subst blocking_loop.simps) (simp only: False if_False)
    then show ?thesis using leave [OF less.prems(2,1) refl refl] by simp
  next
    case go: True
    have um: "unat (ucast (st_max_attempts st) :: u32) = unat (st_max_attempts st)" "unat (st_max_attempts st) < 256"
      using unsigned_less [of "st_max_attempts st", where 'a = nat]
      by (simp_all add: unsigned_ucast_eq take_bit_eq_mod)
    then have a: "unat attempts \<le> unat (st_max_attempts st)" using go by (simp add: word_le_nat_alt)
    then have a1: "unat (attempts + 1) = unat attempts + 1" using um by (simp add: unat_word_ariths)
    define bus1 where "bus1 = snd (with_strategy (pf_micros st) bus)"
    define now where "now = fst (with_strategy (pf_micros st) bus)"
    have b1: "wf_bus b bus1" "pj_recursion bus1 = pj_recursion bus" "pj_packets bus1 = pj_packets bus" "frames bus1 = frames bus"
      using less.prems(1) by (simp_all add: bus1_def frame_simps frames_def count_simps)
    have step: "blocking_loop st b fuel info payload len start timeout state attempts bus =
       (if now - start \<le> timeout
           then (case compose_packet b info (pj_data bus1) payload len bus1 of
                   None \<Rightarrow> None
                 | Some (d, l, bus) \<Rightarrow>
                     let bus = bus\<lparr> pj_data := d \<rparr> in
                     if l = 0 then leave_blocking PJON_FAIL bus
                     else (case send_packet st (Some (pj_data bus)) l bus of
                             None \<Rightarrow> None
                           | Some (state, bus) \<Rightarrow>
                               if state = PJON_ACK then leave_blocking state bus
                               else (case blocking_pause st b fuel (ucast (attempts + 1))
                                            (if state \<noteq> PJON_FAIL
                                             then on_strategy (st_handle_collision st) bus else bus) of
                                       None \<Rightarrow> None
                                     | Some bus \<Rightarrow>
                                         blocking_loop st b fuel info payload len start timeout
                                           state (attempts + 1) bus)))
           else leave_blocking state bus1)"
      unfolding now_def bus1_def using go
      by (subst blocking_loop.simps) (simp only: go simp_thms if_True Let_def case_prod_unfold)
    show ?thesis
    proof (cases "now - start \<le> timeout")
      case False
      then show ?thesis using leave [OF less.prems(2) b1(1,2,3)] b1(4) by (simp only: step if_False)
    next
      case inside: True
      have "length (pj_data bus1) = packet_max_length b" using b1(1) by (simp add: wf_bus_def)
      then obtain d l bus2 where c: "compose_packet b info (pj_data bus1) payload len bus1 = Some (d, l, bus2)"
        and b2: "wf_bus b bus2" "length d = packet_max_length b" "unat l < packet_max_length b"
          "pj_strategy bus2 = pj_strategy bus1" "pj_recursion bus2 = pj_recursion bus1" "pj_mode bus2 = pj_mode bus1" "pj_packets bus2 = pj_packets bus1"
        by (rule compose_packet_total [OF assms(2) b1(1) assms(4,5) _ assms(6,7)])
      define bus3 where "bus3 = bus2\<lparr> pj_data := d \<rparr>"
      have b3: "wf_bus b bus3" "pj_recursion bus3 = pj_recursion bus" "pj_packets bus3 = pj_packets bus" "frames bus3 = frames bus" "pj_data bus3 = d"
        using b1 b2 by (simp_all add: bus3_def wf_bus_def frames_def)
      show ?thesis
      proof (cases "l = 0")
        case True
        then have "blocking_loop st b fuel info payload len start timeout state attempts bus = leave_blocking PJON_FAIL bus3"
          unfolding step using inside c by (simp add: bus3_def)
        then show ?thesis using leave [OF _ b3(1,2,3)] b3(4) by (simp add: send_code_def)
      next
        case nonempty: False
        have "unat l \<le> length d" "2 \<le> length d" using b2(2,3) assms(6) by simp_all
        then obtain r s where send: "send_packet st (Some d) l bus3 = Some (r, bus3\<lparr> pj_strategy := s \<rparr>)"
          and s: "m s \<le> frames bus3 + 1" and r: "send_code r"
          by (rule send_packet_counted)
        define bus4 where "bus4 = bus3\<lparr> pj_strategy := s \<rparr>"
        have b4: "wf_bus b bus4" "pj_recursion bus4 = pj_recursion bus" "pj_packets bus4 = pj_packets bus" "frames bus4 \<le> frames bus + 1"
          using b3 s by (simp_all add: bus4_def frames_def)
        show ?thesis
        proof (cases "r = PJON_ACK")
          case True
          have "frames bus4 \<le> frames bus + (unat (st_max_attempts st) + 1 - unat attempts)"
            using b4(4) a by simp
          moreover have "blocking_loop st b fuel info payload len start timeout state attempts bus = leave_blocking r bus4"
            unfolding step using inside c send nonempty True by (simp add: bus3_def [symmetric] b3(5) bus4_def [symmetric])
          ultimately show ?thesis using leave [OF r b4(1,2,3)] by simp
        next
          case retry: False
          define bus5 where "bus5 = (if r \<noteq> PJON_FAIL then on_strategy (st_handle_collision st) bus4 else bus4)"
          have b5: "wf_bus b bus5" "pj_recursion bus5 = pj_recursion bus" "pj_packets bus5 = pj_packets bus" "frames bus5 \<le> frames bus + 1"
            using b4 by (simp_all add: bus5_def on_strategy_def frames_def count_simps)
          obtain bus6 where p: "blocking_pause st b fuel (ucast (attempts + 1)) bus5 = Some bus6"
            and b6: "wf_bus b bus6" "pj_recursion bus6 = pj_recursion bus" "pj_packets bus6 = pj_packets bus" "frames bus6 \<le> frames bus + 1"
            using b5 assms(3) by (simp add: blocking_pause_def frame_simps on_strategy_def frames_def count_simps)
          have dec: "256 - unat (attempts + 1) < 256 - unat attempts" using a a1 um by simp
          from less.hyps [OF dec b6(1) r] obtain r' bus' where
            "blocking_loop st b fuel info payload len start timeout r (attempts + 1) bus6 = Some (r', bus')"
            "wf_bus b bus'" "send_code r'" "pj_recursion bus' = pj_recursion bus6 - 1" "pj_packets bus' = pj_packets bus6"
            "frames bus' \<le> frames bus6 + (unat (st_max_attempts st) + 1 - unat (attempts + 1))"
            by blast
          moreover have "blocking_loop st b fuel info payload len start timeout state attempts bus
              = blocking_loop st b fuel info payload len start timeout r (attempts + 1) bus6"
            unfolding step using inside c send nonempty retry p
            by (simp add: bus3_def [symmetric] b3(5) bus4_def [symmetric] bus5_def)
          ultimately show ?thesis using b6 a a1 by auto
        qed
      qed
    qed
  qed
qed

lemma blocking_spec:
  assumes "wf_bus b bus" and "wf_info info" and "\<not> receive_while_sending b"
    and "unat len \<le> length payload" and "unat len \<le> 65500"
    and "40 \<le> packet_max_length b" "packet_max_length b \<le> 60000"
  shows "\<exists>r bus'. send_packet_blocking st b fuel info payload len timeout bus = Some (r, bus') \<and>
           wf_bus b bus' \<and> send_code r \<and> pj_recursion bus' = pj_recursion bus \<and>
           pj_packets bus' = pj_packets bus \<and> frames bus' \<le> frames bus + unat (st_max_attempts st) + 1"
proof -
  define s where "s = snd (pf_micros st (pj_strategy bus))"
  define bus1 where "bus1 = bus\<lparr> pj_strategy := s, pj_recursion := pj_recursion bus + 1 \<rparr>"
  have b1: "wf_bus b bus1" "frames bus1 = frames bus" "pj_recursion bus1 - 1 = pj_recursion bus"
    "pj_packets bus1 = pj_packets bus"
    using assms(1) by (simp_all add: bus1_def frames_def s_def count_simps)
  have "send_packet_blocking st b fuel info payload len timeout bus
      = blocking_loop st b fuel info payload len (fst (pf_micros st (pj_strategy bus))) timeout PJON_FAIL 0 bus1"
    by (simp add: send_packet_blocking_def frame_simps bus1_def s_def)
  then show ?thesis
    using blocking_loop_spec [OF b1(1) assms(2-7), of PJON_FAIL fuel "fst (pf_micros st (pj_strategy bus))" timeout 0] b1
    by (simp add: send_code_def)
qed

end

interpretation counted: frame_count "counted st" snd for st
  by unfold_locales (simp_all add: counted_def)

interpretation uncounted: frame_count st "\<lambda>_. 0" for st
  by unfold_locales simp_all

text \<open>C13. In the default configuration the blocking call always returns, after at most one
  transmission more than the strategy's limit of attempts, with a well-formed bus and the nesting
  counter as before, whatever the medium, the clock and the responses do.\<close>

theorem blocking_bounded:
  assumes "wf_bus b bus" and "wf_info info" and "\<not> receive_while_sending b"
    and "unat len \<le> length payload" and "unat len \<le> 65500"
    and "40 \<le> packet_max_length b" "packet_max_length b \<le> 60000"
  shows "\<exists>r bus'. send_packet_blocking (counted st) b fuel info payload len timeout bus = Some (r, bus') \<and>
           wf_bus b bus' \<and> pj_recursion bus' = pj_recursion bus \<and>
           frames_sent bus' \<le> frames_sent bus + unat (st_max_attempts st) + 1"
proof -
  have "st_max_attempts (counted st) = st_max_attempts st" by (simp add: counted_def)
  then show ?thesis
    using counted.blocking_spec [OF assms, of st fuel timeout] by (auto simp: counted.frames_def frames_sent_def)
qed

lemma blocking_bounded_witness:
  "\<exists>r bus'. send_packet_blocking (counted idle_strategy) default_build 0 sample_info [64] 1 3500000
        (new_pjon default_build (replicate 50 0) (replicate 10 \<lparr> pr_header = 0, pr_sender_id = 0,
           pr_sender_bus_id = [0, 0, 0, 0], pr_id = 0 \<rparr>) 0 (0, 0)) = Some (r, bus') \<and>
     frames_sent bus' \<le> 11"
proof -
  let ?bus = "new_pjon default_build (replicate 50 0) (replicate 10 \<lparr> pr_header = 0, pr_sender_id = 0,
           pr_sender_bus_id = [0, 0, 0, 0], pr_id = 0 \<rparr>) 0 (0 :: nat, 0 :: nat)"
  have "wf_bus default_build ?bus"
    by (simp add: wf_bus_def new_pjon_def set_default_def new_packet_def)
  moreover have "st_max_attempts idle_strategy = 10" by (simp add: idle_strategy_def)
  moreover have "frames_sent ?bus = 0" by (simp add: frames_sent_def new_pjon_def set_default_def)
  ultimately show ?thesis
    using blocking_bounded [of default_build ?bus sample_info 1 "[64]" idle_strategy 0 3500000] sample_fits
    by auto
qed

end
