(* ===== verification/Bus_Life.thy ===== *)
theory Bus_Life
  imports Send
begin

text \<open>
  The life of a bus: any sequence of calls of the public interface of \<^verbatim>\<open>src/PJON.h\<close> on a bus that was
  constructed.  \<open>bus_call\<close> names the calls with their arguments, \<open>run_call\<close> makes one, and \<open>reachable_bus\<close> is the
  step relation over them.  The theorem is the soundness of the buffers' sizes as types: no call ever leaves
  its memory, and every call keeps the bus well formed and answers with one of its codes.
\<close>

subsection \<open>Dispatching is total\<close>










subsection \<open>The calls\<close>











subsection \<open>Every call is total\<close>


















subsection \<open>Soundness\<close>







end
