(* ===== verification/Switch.thy ===== *)
theory Switch
  imports Send
begin

text \<open>
  \<^verbatim>\<open>src/PJONSimpleSwitch.h\<close>, \<^verbatim>\<open>src/PJONSwitch.h\<close> and \<^verbatim>\<open>src/strategies/Any\<close>: the state of a switch over
  several buses, the search of a receiver bus, the forwarding of a packet with its address
  translation, and the main loop.

  The callbacks of a bus are recorded in its \<open>pj_events\<close>.  A switch is the receiver and the error
  handler of its buses: after each call on a bus it works through the events the call added.  The
  receiver callback is the last thing \<^verbatim>\<open>PJON::receive\<close> does before it returns, and the error callback of
  \<^verbatim>\<open>PJON::update\<close> touches nothing \<^verbatim>\<open>update\<close> reads, so the order of effects is that of the code.

  The virtual member functions are arguments of the functions that call them: \<open>search\<close>, \<open>deliver\<close> and
  \<open>on_error\<close>.  A class of the hierarchy passes its own versions.
\<close>

subsection \<open>Strategy links\<close>

text \<open>
  \<^verbatim>\<open>Any\<close> holds a pointer to a \<^verbatim>\<open>StrategyLink\<close>, which holds the strategy object; both only delegate.
  \<^term>\<open>None\<close> is the null pointer of an \<^verbatim>\<open>Any\<close> without a link, and using it is a fault.
\<close>

definition strategy_link :: "'s strategy \<Rightarrow> 's strategy" where
  "strategy_link strategy =
     \<lparr> pf_micros = pf_micros strategy, pf_delay = pf_delay strategy, pf_random = pf_random strategy,
       pf_random_seed = pf_random_seed strategy, pf_analog_read = pf_analog_read strategy,
       st_begin = (\<lambda>did. st_begin strategy did),
       st_back_off = (\<lambda>attempts. st_back_off strategy attempts),
       st_can_start = st_can_start strategy,
       st_max_attempts = st_max_attempts strategy,
       st_receive_time = st_receive_time strategy,
       st_handle_collision = st_handle_collision strategy,
       st_receive_frame = (\<lambda>max_length. st_receive_frame strategy max_length),
       st_receive_response = st_receive_response strategy,
       st_send_response = (\<lambda>response. st_send_response strategy response),
       st_send_frame = (\<lambda>data. st_send_frame strategy data) \<rparr>"

lemma strategy_link_delegates [simp]: "strategy_link st = st"
  by (simp add: strategy_link_def)

definition any_set_link :: "'s strategy \<Rightarrow> 's strategy option" where
  "any_set_link strategy = Some (strategy_link strategy)"

subsection \<open>State\<close>

text \<open>
  Each attached bus with the code of its strategy.  \<^verbatim>\<open>bus_count\<close> is the length of the list, which is
  at most \<^verbatim>\<open>PJON_ROUTER_MAX_BUSES\<close>.
\<close>

record 's switch =
  sw_buses :: "('s strategy \<times> 's pjon) list"
  sw_default_gateway :: u8
  sw_current_bus :: u8

definition bus_count :: "('s, 'z) switch_scheme \<Rightarrow> u8" where
  "bus_count sw = of_nat (length (sw_buses sw))"

text \<open>\<open>buses[i]\<close>: an index beyond the attached buses reads an uninitialised pointer.\<close>

definition port_at :: "('s, 'z) switch_scheme \<Rightarrow> u8 \<Rightarrow> ('s strategy \<times> 's pjon) option" where
  "port_at sw i = (if unat i < length (sw_buses sw) then Some (sw_buses sw ! unat i) else None)"

definition get_bus :: "('s, 'z) switch_scheme \<Rightarrow> u8 \<Rightarrow> 's pjon option" where
  "get_bus sw i = map_option snd (port_at sw i)"

definition set_bus :: "u8 \<Rightarrow> 's pjon \<Rightarrow> ('s, 'z) switch_scheme \<Rightarrow> ('s, 'z) switch_scheme" where
  "set_bus i bus sw =
     sw\<lparr> sw_buses := (sw_buses sw)[unat i := (fst (sw_buses sw ! unat i), bus)] \<rparr>"

definition get_callback_bus :: "('s, 'z) switch_scheme \<Rightarrow> u8" where
  "get_callback_bus sw = sw_current_bus sw"

text \<open>\<^verbatim>\<open>memcmp(a, b, 4) == 0\<close> on bus ids.\<close>

definition same_bus_id :: "u8 list \<Rightarrow> u8 list \<Rightarrow> bool" where
  "same_bus_id a b \<longleftrightarrow> take 4 a = take 4 b"

text \<open>
  Connecting: the switch becomes receiver and error handler of the first buses, up to the limit; its
  own address is the custom pointer of each.
\<close>

definition adopt_bus :: "nat \<Rightarrow> 's pjon \<Rightarrow> 's pjon" where
  "adopt_bus custom_pointer bus = set_router True (set_custom_pointer custom_pointer bus)"

definition connect ::
  "nat \<Rightarrow> u8 \<Rightarrow> ('s strategy \<times> 's pjon) list \<Rightarrow> u8 \<Rightarrow> nat \<Rightarrow> ('s, 'z) switch_scheme
     \<Rightarrow> ('s, 'z) switch_scheme option" where
  "connect max_buses bus_count_in buses_in default_gateway_in custom_pointer sw =
     (let n = (if unat bus_count_in > max_buses then max_buses else unat bus_count_in) in
      if n \<le> length buses_in
      then Some (sw\<lparr> sw_buses := map (map_prod id (adopt_bus custom_pointer)) (take n buses_in),
                     sw_default_gateway := default_gateway_in \<rparr>)
      else None)"

definition connect_buses ::
  "nat \<Rightarrow> nat \<Rightarrow> u8 \<Rightarrow> ('s strategy \<times> 's pjon) list \<Rightarrow> u8 \<Rightarrow> ('s, 'z) switch_scheme
     \<Rightarrow> ('s, 'z) switch_scheme option" where
  "connect_buses max_buses this bus_count_in buses_in default_gateway_in sw =
     connect max_buses bus_count_in buses_in default_gateway_in this sw"

definition new_switch :: "'s switch" where
  "new_switch = \<lparr> sw_buses = [], sw_default_gateway = PJON_NOT_ASSIGNED, sw_current_bus = PJON_NOT_ASSIGNED \<rparr>"

definition new_switch_buses ::
  "nat \<Rightarrow> nat \<Rightarrow> u8 \<Rightarrow> ('s strategy \<times> 's pjon) list \<Rightarrow> u8 \<Rightarrow> 's switch option" where
  "new_switch_buses max_buses this bus_count_in buses_in default_gateway_in =
     connect_buses max_buses this bus_count_in buses_in default_gateway_in new_switch"

definition new_switch_2 ::
  "nat \<Rightarrow> nat \<Rightarrow> 's strategy \<times> 's pjon \<Rightarrow> 's strategy \<times> 's pjon \<Rightarrow> u8 \<Rightarrow> 's switch option" where
  "new_switch_2 max_buses this bus0 bus1 gateway =
     connect_buses max_buses this 2 [bus0, bus1] gateway new_switch"

definition new_switch_3 ::
  "nat \<Rightarrow> nat \<Rightarrow> 's strategy \<times> 's pjon \<Rightarrow> 's strategy \<times> 's pjon \<Rightarrow> 's strategy \<times> 's pjon \<Rightarrow> u8
     \<Rightarrow> 's switch option" where
  "new_switch_3 max_buses this bus0 bus1 bus2 gateway =
     connect_buses max_buses this 3 [bus0, bus1, bus2] gateway new_switch"

text \<open>
  \<^verbatim>\<open>PJONAny\<close>, and \<^verbatim>\<open>PJONSwitch2\<close>, \<^verbatim>\<open>PJONSwitch3\<close>, which own their links and buses: the buses are
  constructed without a link, connected, and then linked.
\<close>

definition new_any ::
  "build \<Rightarrow> u8 list \<Rightarrow> packet_record list \<Rightarrow> u8 \<Rightarrow> 's strategy \<Rightarrow> 's \<Rightarrow> u8
     \<Rightarrow> 's strategy \<times> 's pjon" where
  "new_any b junk records a0 link s did = (strategy_link link, new_pjon_id b junk records a0 s did)"

definition new_any_bus ::
  "build \<Rightarrow> u8 list \<Rightarrow> packet_record list \<Rightarrow> u8 \<Rightarrow> 's strategy \<Rightarrow> 's \<Rightarrow> u8 list \<Rightarrow> u8
     \<Rightarrow> 's strategy \<times> 's pjon" where
  "new_any_bus b junk records a0 link s b_id did =
     (strategy_link link, new_pjon_bus b junk records a0 s b_id did)"

text \<open>
  The classes for two and three buses own their links and buses; \<open>m\<close> stands for the arguments all
  their members share (the build and what uninitialised memory holds).
\<close>

type_synonym memory = "build \<times> u8 list \<times> packet_record list \<times> u8"

definition own_bus :: "memory \<Rightarrow> 's strategy \<Rightarrow> 's \<Rightarrow> 's strategy \<times> 's pjon" where
  "own_bus m link s = (let (b, junk, records, a0) = m in new_any b junk records a0 link s PJON_NOT_ASSIGNED)"

definition connect_2 ::
  "memory \<Rightarrow> nat \<Rightarrow> nat \<Rightarrow> 's strategy \<times> 's \<Rightarrow> 's strategy \<times> 's \<Rightarrow> u8 \<Rightarrow> ('s, 'z) switch_scheme
     \<Rightarrow> ('s, 'z) switch_scheme option" where
  "connect_2 m max_buses this A B gateway sw =
     connect_buses max_buses this 2 [own_bus m (fst A) (snd A), own_bus m (fst B) (snd B)] gateway sw"

definition connect_3 ::
  "memory \<Rightarrow> nat \<Rightarrow> nat \<Rightarrow> 's strategy \<times> 's \<Rightarrow> 's strategy \<times> 's \<Rightarrow> 's strategy \<times> 's \<Rightarrow> u8
     \<Rightarrow> ('s, 'z) switch_scheme \<Rightarrow> ('s, 'z) switch_scheme option" where
  "connect_3 m max_buses this A B C gateway sw =
     connect_buses max_buses this 3
       [own_bus m (fst A) (snd A), own_bus m (fst B) (snd B), own_bus m (fst C) (snd C)] gateway sw"

definition new_switch2 ::
  "memory \<Rightarrow> nat \<Rightarrow> nat \<Rightarrow> 's strategy \<times> 's \<Rightarrow> 's strategy \<times> 's \<Rightarrow> u8 \<Rightarrow> 's switch option" where
  "new_switch2 m max_buses this A B gateway = connect_2 m max_buses this A B gateway new_switch"

definition new_switch3 ::
  "memory \<Rightarrow> nat \<Rightarrow> nat \<Rightarrow> 's strategy \<times> 's \<Rightarrow> 's strategy \<times> 's \<Rightarrow> 's strategy \<times> 's \<Rightarrow> u8
     \<Rightarrow> 's switch option" where
  "new_switch3 m max_buses this A B C gateway = connect_3 m max_buses this A B C gateway new_switch"

definition get_bus_2 :: "u8 \<Rightarrow> ('s, 'z) switch_scheme \<Rightarrow> 's pjon option" where
  "get_bus_2 ix sw = (if ix = 0 then get_bus sw 0 else get_bus sw 1)"

definition get_bus_3 :: "u8 \<Rightarrow> ('s, 'z) switch_scheme \<Rightarrow> 's pjon option" where
  "get_bus_3 ix sw = (if ix = 0 then get_bus sw 0 else if ix = 1 then get_bus sw 1 else get_bus sw 2)"

subsection \<open>Searching the receiver bus\<close>

text \<open>
  The first bus from \<open>start_bus\<close> on with the bus id; the second component is the new \<open>start_bus\<close>,
  from where the search goes on, or \<^verbatim>\<open>PJON_NOT_ASSIGNED\<close>.
\<close>

fun find_attached_from :: "u8 list \<Rightarrow> ('s strategy \<times> 's pjon) list \<Rightarrow> nat \<Rightarrow> nat \<Rightarrow> u8 \<times> u8" where
  "find_attached_from bus_id buses 0 i = (PJON_NOT_ASSIGNED, PJON_NOT_ASSIGNED)"
| "find_attached_from bus_id buses (Suc k) i =
     (if same_bus_id bus_id (ep_bus_id (pj_tx (snd (buses ! i)))) then (of_nat i, of_nat (i + 1))
      else find_attached_from bus_id buses k (Suc i))"

definition find_attached_bus_with_id ::
  "u8 list \<Rightarrow> u8 \<Rightarrow> u8 \<Rightarrow> ('s, 'z) switch_scheme \<Rightarrow> u8 \<times> u8" where
  "find_attached_bus_with_id bus_id dev start_bus sw =
     find_attached_from bus_id (sw_buses sw) (length (sw_buses sw) - unat start_bus) (unat start_bus)"

definition find_bus_with_id :: "u8 list \<Rightarrow> u8 \<Rightarrow> u8 \<Rightarrow> ('s, 'z) switch_scheme \<Rightarrow> u8 \<times> u8" where
  "find_bus_with_id bus_id dev start_bus sw = find_attached_bus_with_id bus_id dev start_bus sw"

subsection \<open>Forwarding a packet\<close>

text \<open>The events a call on a bus added, given to the handlers in their order.\<close>

fun handle_errors ::
  "(u8 \<Rightarrow> u16 \<Rightarrow> 'w \<Rightarrow> 'w option) \<Rightarrow> bus_event list \<Rightarrow> 'w \<Rightarrow> 'w option" where
  "handle_errors on_error [] sw = Some sw"
| "handle_errors on_error (Error code arg p # es) sw =
     do { sw \<leftarrow> on_error code arg sw; handle_errors on_error es sw }"
| "handle_errors on_error (Received payload len info # es) sw = handle_errors on_error es sw"

definition new_events :: "'s pjon \<Rightarrow> 's pjon \<Rightarrow> bus_event list" where
  "new_events old new = drop (length (pj_events old)) (pj_events new)"

text \<open>The translation of the addresses of a shared packet from or to a local bus with a public id.\<close>

definition nat_sender :: "u8 \<Rightarrow> packet_info \<Rightarrow> ('s, 'z) switch_scheme \<Rightarrow> packet_info option" where
  "nat_sender sender_bus info sw =
     (if flag (pi_header info) PJON_MODE_BIT
      then do { bus \<leftarrow> get_bus sw sender_bus;
                Some (if \<not> flag (pj_config bus) PJON_MODE_BIT \<and>
                         \<not> same_bus_id (ep_bus_id (pj_tx bus)) localhost \<and>
                         same_bus_id (ep_bus_id (pi_tx info)) localhost
                      then info\<lparr> pi_tx := (pi_tx info)\<lparr> ep_bus_id := take 4 (ep_bus_id (pj_tx bus)) \<rparr> \<rparr>
                      else info) }
      else Some info)"

definition nat_receiver ::
  "u8 \<Rightarrow> packet_info \<Rightarrow> packet_info \<Rightarrow> ('s, 'z) switch_scheme \<Rightarrow> packet_info option" where
  "nat_receiver receiver_bus info p_info sw =
     (if flag (pi_header info) PJON_MODE_BIT
      then do { bus \<leftarrow> get_bus sw receiver_bus;
                Some (if \<not> flag (pj_config bus) PJON_MODE_BIT \<and>
                         \<not> same_bus_id (ep_bus_id (pj_tx bus)) localhost \<and>
                         same_bus_id (ep_bus_id (pi_rx info)) (ep_bus_id (pj_tx bus))
                      then p_info\<lparr> pi_rx := (pi_rx p_info)\<lparr> ep_bus_id := localhost \<rparr> \<rparr>
                      else p_info) }
      else Some p_info)"

text \<open>The acknowledgement that the packet will be delivered, once per packet.\<close>

definition acknowledge_once ::
  "u8 \<Rightarrow> bool \<Rightarrow> packet_info \<Rightarrow> ('s, 'z) switch_scheme \<Rightarrow> (bool \<times> ('s, 'z) switch_scheme) option" where
  "acknowledge_once sender_bus ack_sent info sw =
     (if \<not> ack_sent \<and> flag (pi_header info) PJON_ACK_REQ_BIT \<and> ep_id (pi_rx info) \<noteq> PJON_BROADCAST
      then do { (st, bus) \<leftarrow> port_at sw sender_bus;
                Some (True, set_bus sender_bus (on_strategy (st_send_response st PJON_ACK) bus) sw) }
      else Some (ack_sent, sw))"

definition switch_send_packet ::
  "build \<Rightarrow> nat \<Rightarrow> (u8 \<Rightarrow> u16 \<Rightarrow> ('s, 'z) switch_scheme \<Rightarrow> ('s, 'z) switch_scheme option)
     \<Rightarrow> u8 list \<Rightarrow> u16 \<Rightarrow> u8 \<Rightarrow> u8 \<Rightarrow> bool \<Rightarrow> packet_info \<Rightarrow> ('s, 'z) switch_scheme
     \<Rightarrow> (bool \<times> ('s, 'z) switch_scheme) option" where
  "switch_send_packet b fuel on_error payload len receiver_bus sender_bus ack_sent info sw =
     do { (ack_sent, sw) \<leftarrow> acknowledge_once sender_bus ack_sent info sw;
          let send_bus = sw_current_bus sw;
          let sw = sw\<lparr> sw_current_bus := receiver_bus \<rparr>;
          p_info \<leftarrow> nat_sender sender_bus info sw;
          p_info \<leftarrow> nat_receiver receiver_bus info p_info sw;
          (st, bus) \<leftarrow> port_at sw receiver_bus;
          (result, bus') \<leftarrow> (if max_packets b = 0 then forward_blocking st b fuel p_info payload len bus
                             else forward st b p_info payload len bus);
          sw \<leftarrow> handle_errors on_error (new_events bus bus') (set_bus receiver_bus bus' sw);
          sw \<leftarrow> (if max_packets b = 0 \<and> result = PJON_FAIL then on_error PJON_CONNECTION_LOST 0 sw
                 else Some sw);
          Some (ack_sent, sw\<lparr> sw_current_bus := send_bus \<rparr>) }"

definition forward_packet ::
  "(u8 list \<Rightarrow> u16 \<Rightarrow> u8 \<Rightarrow> u8 \<Rightarrow> bool \<Rightarrow> packet_info \<Rightarrow> 'w \<Rightarrow> (bool \<times> 'w) option)
     \<Rightarrow> u8 list \<Rightarrow> u16 \<Rightarrow> u8 \<Rightarrow> u8 \<Rightarrow> bool \<Rightarrow> packet_info \<Rightarrow> 'w \<Rightarrow> (bool \<times> 'w) option" where
  "forward_packet deliver payload len receiver_bus sender_bus ack_sent info sw =
     (if receiver_bus \<noteq> PJON_NOT_ASSIGNED \<and> receiver_bus \<noteq> sender_bus
      then deliver payload len receiver_bus sender_bus ack_sent info sw else Some (ack_sent, sw))"

text \<open>
  The delivery of a packet to every bus the search finds.  The search is a virtual function, so the
  model counts its rounds; \<open>fuel\<close> of them are enough for every search of the library.
\<close>

fun deliver_loop ::
  "(u8 list \<Rightarrow> u8 \<Rightarrow> u8 \<Rightarrow> ('s, 'z) switch_scheme \<Rightarrow> u8 \<times> u8)
     \<Rightarrow> (u8 list \<Rightarrow> u16 \<Rightarrow> u8 \<Rightarrow> u8 \<Rightarrow> bool \<Rightarrow> packet_info \<Rightarrow> ('s, 'z) switch_scheme
          \<Rightarrow> (bool \<times> ('s, 'z) switch_scheme) option)
     \<Rightarrow> nat \<Rightarrow> u8 list \<Rightarrow> u16 \<Rightarrow> packet_info \<Rightarrow> u8 \<Rightarrow> bool \<Rightarrow> ('s, 'z) switch_scheme
     \<Rightarrow> ('s, 'z) switch_scheme option" where
  "deliver_loop search deliver 0 payload len info start_search ack_sent sw = None"
| "deliver_loop search deliver (Suc fuel) payload len info start_search ack_sent sw =
     (let (receiver_bus, start_search) =
            search (if flag (pi_header info) PJON_MODE_BIT then ep_bus_id (pi_rx info) else localhost)
              (ep_id (pi_rx info)) start_search sw;
          receiver_bus = (if receiver_bus = PJON_NOT_ASSIGNED then sw_default_gateway sw else receiver_bus)
      in do { (ack_sent, sw) \<leftarrow>
                forward_packet deliver payload len receiver_bus (sw_current_bus sw) ack_sent info sw;
              if start_search \<noteq> PJON_NOT_ASSIGNED
              then deliver_loop search deliver fuel payload len info start_search ack_sent sw
              else Some sw })"

definition switch_receiver ::
  "(u8 list \<Rightarrow> u8 \<Rightarrow> u8 \<Rightarrow> ('s, 'z) switch_scheme \<Rightarrow> u8 \<times> u8)
     \<Rightarrow> (u8 list \<Rightarrow> u16 \<Rightarrow> u8 \<Rightarrow> u8 \<Rightarrow> bool \<Rightarrow> packet_info \<Rightarrow> ('s, 'z) switch_scheme
          \<Rightarrow> (bool \<times> ('s, 'z) switch_scheme) option)
     \<Rightarrow> u8 list \<Rightarrow> u16 \<Rightarrow> packet_info \<Rightarrow> ('s, 'z) switch_scheme \<Rightarrow> ('s, 'z) switch_scheme option" where
  "switch_receiver search deliver payload len info sw =
     deliver_loop search deliver 256 payload len info 0 False sw"

definition switch_error :: "u8 \<Rightarrow> u16 \<Rightarrow> 'w \<Rightarrow> 'w option" where
  "switch_error code arg sw = Some sw"

subsection \<open>The main loop\<close>

text \<open>Every callback of a bus, given to the receiver and error functions of the switch.\<close>

fun handle_events ::
  "(u8 list \<Rightarrow> u16 \<Rightarrow> packet_info \<Rightarrow> 'w \<Rightarrow> 'w option) \<Rightarrow> (u8 \<Rightarrow> u16 \<Rightarrow> 'w \<Rightarrow> 'w option)
     \<Rightarrow> bus_event list \<Rightarrow> 'w \<Rightarrow> 'w option" where
  "handle_events on_receive on_error [] sw = Some sw"
| "handle_events on_receive on_error (Received payload len info # es) sw =
     do { sw \<leftarrow> on_receive payload len info sw; handle_events on_receive on_error es sw }"
| "handle_events on_receive on_error (Error code arg p # es) sw =
     do { sw \<leftarrow> on_error code arg sw; handle_events on_receive on_error es sw }"

fun begin_buses :: "build \<Rightarrow> ('s strategy \<times> 's pjon) list \<Rightarrow> ('s strategy \<times> 's pjon) list" where
  "begin_buses b [] = []"
| "begin_buses b ((st, bus) # ps) = (st, begin_bus st b bus) # begin_buses b ps"

definition switch_begin :: "build \<Rightarrow> ('s, 'z) switch_scheme \<Rightarrow> ('s, 'z) switch_scheme" where
  "switch_begin b sw = sw\<lparr> sw_buses := begin_buses b (sw_buses sw) \<rparr>"

fun switch_receive_loop ::
  "build \<Rightarrow> nat
     \<Rightarrow> (u8 list \<Rightarrow> u16 \<Rightarrow> packet_info \<Rightarrow> ('s, 'z) switch_scheme \<Rightarrow> ('s, 'z) switch_scheme option)
     \<Rightarrow> (u8 \<Rightarrow> u16 \<Rightarrow> ('s, 'z) switch_scheme \<Rightarrow> ('s, 'z) switch_scheme option)
     \<Rightarrow> nat \<Rightarrow> nat \<Rightarrow> ('s, 'z) switch_scheme \<Rightarrow> ('s, 'z) switch_scheme option" where
  "switch_receive_loop b fuel on_receive on_error i 0 sw = Some sw"
| "switch_receive_loop b fuel on_receive on_error i (Suc k) sw =
     do { let sw = sw\<lparr> sw_current_bus := of_nat i \<rparr>;
          (st, bus) \<leftarrow> port_at sw (of_nat i);
          (code, bus') \<leftarrow> receive_for st b fuel (ucast (st_receive_time st)) bus;
          sw \<leftarrow> handle_events on_receive on_error (new_events bus bus') (set_bus (of_nat i) bus' sw);
          if max_packets b < unat (bus_count sw) \<and> code = PJON_ACK then Some sw
          else switch_receive_loop b fuel on_receive on_error (Suc i) k sw }"

fun switch_update_loop ::
  "build \<Rightarrow> (u8 list \<Rightarrow> u16 \<Rightarrow> packet_info \<Rightarrow> ('s, 'z) switch_scheme \<Rightarrow> ('s, 'z) switch_scheme option)
     \<Rightarrow> (u8 \<Rightarrow> u16 \<Rightarrow> ('s, 'z) switch_scheme \<Rightarrow> ('s, 'z) switch_scheme option)
     \<Rightarrow> nat \<Rightarrow> nat \<Rightarrow> ('s, 'z) switch_scheme \<Rightarrow> ('s, 'z) switch_scheme option" where
  "switch_update_loop b on_receive on_error i 0 sw = Some sw"
| "switch_update_loop b on_receive on_error i (Suc k) sw =
     do { let sw = sw\<lparr> sw_current_bus := of_nat i \<rparr>;
          (st, bus) \<leftarrow> port_at sw (of_nat i);
          (n, bus') \<leftarrow> update st b bus;
          sw \<leftarrow> handle_events on_receive on_error (new_events bus bus') (set_bus (of_nat i) bus' sw);
          switch_update_loop b on_receive on_error (Suc i) k sw }"

definition switch_loop ::
  "build \<Rightarrow> nat
     \<Rightarrow> (u8 list \<Rightarrow> u16 \<Rightarrow> packet_info \<Rightarrow> ('s, 'z) switch_scheme \<Rightarrow> ('s, 'z) switch_scheme option)
     \<Rightarrow> (u8 \<Rightarrow> u16 \<Rightarrow> ('s, 'z) switch_scheme \<Rightarrow> ('s, 'z) switch_scheme option)
     \<Rightarrow> ('s, 'z) switch_scheme \<Rightarrow> ('s, 'z) switch_scheme option" where
  "switch_loop b fuel on_receive on_error sw =
     do { sw \<leftarrow> switch_receive_loop b fuel on_receive on_error 0 (length (sw_buses sw)) sw;
          sw \<leftarrow> switch_update_loop b on_receive on_error 0 (length (sw_buses sw)) sw;
          Some (sw\<lparr> sw_current_bus := PJON_NOT_ASSIGNED \<rparr>) }"

text \<open>The functions of the plain switch.\<close>

definition simple_switch_receiver ::
  "build \<Rightarrow> nat \<Rightarrow> u8 list \<Rightarrow> u16 \<Rightarrow> packet_info \<Rightarrow> 's switch \<Rightarrow> 's switch option" where
  "simple_switch_receiver b fuel =
     switch_receiver find_bus_with_id (switch_send_packet b fuel switch_error)"

definition simple_switch_loop :: "build \<Rightarrow> nat \<Rightarrow> 's switch \<Rightarrow> 's switch option" where
  "simple_switch_loop b fuel = switch_loop b fuel (simple_switch_receiver b fuel) switch_error"

end
