(* ===== verification/Switch_Laws.thy ===== *)
theory Switch_Laws
  imports Switch
begin

text \<open>
  What a switch does with a packet.  The interface between the delivery loop and the classes that
  configure it is the locale \<open>bus_search\<close>: a search that returns the routes of a bus id one after the
  other.  The locale \<open>routing\<close> adds a delivery that leaves the routes alone; in it the delivery loop is
  a walk over the routes followed by the default gateway.
\<close>

subsection \<open>Searching and routing\<close>

lemma assigned_iff: "x \<noteq> PJON_NOT_ASSIGNED \<longleftrightarrow> unat x < 255"
proof -
  have "unat x < 256" using unsigned_less [of x, where 'a = nat] by simp
  then show ?thesis by (auto simp: PJON_NOT_ASSIGNED_def word_unat_eq_iff)
qed

text \<open>A route is a position in the order of the search and the bus found there.\<close>

definition routes_from :: "nat \<Rightarrow> (nat \<times> u8) list \<Rightarrow> (nat \<times> u8) list" where
  "routes_from n rs = filter (\<lambda>(p, r). n \<le> p) rs"

definition next_route :: "(nat \<times> u8) list \<Rightarrow> u8 \<times> u8" where
  "next_route rs = (case rs of [] \<Rightarrow> (PJON_NOT_ASSIGNED, PJON_NOT_ASSIGNED) | (p, r) # _ \<Rightarrow> (r, of_nat (p + 1)))"

definition wf_routes :: "(nat \<times> u8) list \<Rightarrow> bool" where
  "wf_routes rs \<longleftrightarrow> sorted_wrt (<) (map fst rs) \<and> (\<forall>(p, r) \<in> set rs. p < 254 \<and> r \<noteq> PJON_NOT_ASSIGNED)"

text \<open>The reference: the packet goes to the receivers of the list, one after the other.\<close>

fun deliver_to ::
  "(u8 list \<Rightarrow> u16 \<Rightarrow> u8 \<Rightarrow> u8 \<Rightarrow> bool \<Rightarrow> packet_info \<Rightarrow> ('s, 'z) switch_scheme
       \<Rightarrow> (bool \<times> ('s, 'z) switch_scheme) option)
     \<Rightarrow> u8 list \<Rightarrow> u16 \<Rightarrow> packet_info \<Rightarrow> u8 list \<Rightarrow> bool \<Rightarrow> ('s, 'z) switch_scheme
     \<Rightarrow> ('s, 'z) switch_scheme option" where
  "deliver_to deliver payload len info [] ack_sent sw = Some sw"
| "deliver_to deliver payload len info (r # rs) ack_sent sw =
     do { (ack_sent, sw) \<leftarrow> forward_packet deliver payload len r (sw_current_bus sw) ack_sent info sw;
          deliver_to deliver payload len info rs ack_sent sw }"

definition searched_id :: "packet_info \<Rightarrow> u8 list" where
  "searched_id info = (if flag (pi_header info) PJON_MODE_BIT then ep_bus_id (pi_rx info) else localhost)"

locale bus_search =
  fixes search :: "u8 list \<Rightarrow> u8 \<Rightarrow> u8 \<Rightarrow> ('s, 'z) switch_scheme \<Rightarrow> u8 \<times> u8"
    and routes :: "u8 list \<Rightarrow> ('s, 'z) switch_scheme \<Rightarrow> (nat \<times> u8) list"
    and ok :: "('s, 'z) switch_scheme \<Rightarrow> bool"
  assumes search_next: "ok sw \<Longrightarrow> start \<noteq> PJON_NOT_ASSIGNED \<Longrightarrow>
             search bus_id dev start sw = next_route (routes_from (unat start) (routes bus_id sw))"
    and routes_wf: "ok sw \<Longrightarrow> wf_routes (routes bus_id sw)"

locale routing = bus_search +
  fixes deliver :: "u8 list \<Rightarrow> u16 \<Rightarrow> u8 \<Rightarrow> u8 \<Rightarrow> bool \<Rightarrow> packet_info \<Rightarrow> ('a, 'b) switch_scheme
                      \<Rightarrow> (bool \<times> ('a, 'b) switch_scheme) option"
    and forwardable :: "packet_info \<Rightarrow> bool"
  assumes deliver_keeps: "ok sw \<Longrightarrow> forwardable info \<Longrightarrow>
             deliver payload len r snd_bus ack info sw = Some (ack', sw') \<Longrightarrow>
             ok sw' \<and> routes bus_id sw' = routes bus_id sw \<and>
             sw_default_gateway sw' = sw_default_gateway sw \<and> sw_current_bus sw' = sw_current_bus sw"
begin

lemma forward_keeps:
  assumes "ok sw" "forwardable info"
    and "forward_packet deliver payload len r snd_bus ack info sw = Some (ack', sw')"
  shows "ok sw'" "routes bus_id sw' = routes bus_id sw"
    "sw_default_gateway sw' = sw_default_gateway sw" "sw_current_bus sw' = sw_current_bus sw"
  using assms deliver_keeps [OF assms(1,2), of payload len r snd_bus ack ack' sw']
  by (auto simp: forward_packet_def split: if_splits)

lemma routes_from_Cons:
  assumes "wf_routes rs" "routes_from n rs = (p, r) # rest"
  shows "n \<le> p" "p < 254" "r \<noteq> PJON_NOT_ASSIGNED" "routes_from (Suc p) rs = rest"
proof -
  have m: "(p, r) \<in> set (routes_from n rs)" using assms(2) by simp
  then show "n \<le> p" "p < 254" "r \<noteq> PJON_NOT_ASSIGNED"
    using assms(1) by (auto simp: routes_from_def wf_routes_def)
  have s: "sorted_wrt (<) (map fst rs)" using assms(1) by (simp add: wf_routes_def)
  show "routes_from (Suc p) rs = rest"
    using s assms(2)
  proof (induction rs)
    case (Cons x rs)
    obtain q t where x: "x = (q, t)" by fastforce
    show ?case
    proof (cases "n \<le> q")
      case True
      have "filter (\<lambda>(p', r). Suc q \<le> p') rs = filter (\<lambda>(p', r). n \<le> p') rs"
        using Cons.prems(1) True by (intro filter_cong) (auto simp: x)
      then show ?thesis using True Cons.prems(2) by (auto simp: x routes_from_def)
    next
      case False
      then have "routes_from n rs = (p, r) # rest" using Cons.prems(2) by (simp add: x routes_from_def)
      then have "routes_from (Suc p) rs = rest" using Cons.IH Cons.prems(1) by simp
      moreover have "q < p" using False m Cons.prems(2) by (auto simp: x routes_from_def)
      ultimately show ?thesis using Cons.prems(1) by (simp add: x routes_from_def)
    qed
  qed (simp add: routes_from_def)
qed

lemma deliver_loop_walk:
  assumes "forwardable info"
  shows "ok sw \<Longrightarrow> start \<noteq> PJON_NOT_ASSIGNED \<Longrightarrow> 255 \<le> unat start + fuel \<Longrightarrow>
     deliver_loop search deliver fuel payload len info start ack sw
     = deliver_to deliver payload len info
         (map snd (routes_from (unat start) (routes (searched_id info) sw)) @ [sw_default_gateway sw]) ack sw"
proof (induction fuel arbitrary: start ack sw)
  case 0
  then show ?case by (simp add: assigned_iff)
next
  case (Suc fuel)
  define rs where "rs = routes_from (unat start) (routes (searched_id info) sw)"
  have srch: "search (searched_id info) (ep_id (pi_rx info)) start sw = next_route rs"
    using search_next [OF Suc.prems(1,2)] by (simp add: rs_def)
  have step: "deliver_loop search deliver (Suc fuel) payload len info start ack sw
      = (let (r, next_start) = next_route rs; r = (if r = PJON_NOT_ASSIGNED then sw_default_gateway sw else r)
         in do { (ack, sw) \<leftarrow> forward_packet deliver payload len r (sw_current_bus sw) ack info sw;
                 if next_start \<noteq> PJON_NOT_ASSIGNED
                 then deliver_loop search deliver fuel payload len info next_start ack sw else Some sw })"
    by (simp only: deliver_loop.simps searched_id_def [symmetric] srch)
  show ?case
    unfolding rs_def [symmetric]
  proof (cases rs)
    case Nil
    then show "deliver_loop search deliver (Suc fuel) payload len info start ack sw
        = deliver_to deliver payload len info (map snd rs @ [sw_default_gateway sw]) ack sw"
      unfolding step
      by (cases "forward_packet deliver payload len (sw_default_gateway sw) (sw_current_bus sw) ack info sw")
        (auto simp: next_route_def)
  next
    case (Cons x rest)
    obtain p r where x: "x = (p, r)" by fastforce
    note R = routes_from_Cons [OF routes_wf [OF Suc.prems(1)] trans [OF rs_def [symmetric] Cons [unfolded x]]]
    have u: "unat (of_nat (p + 1) :: u8) = Suc p" using R(2) by (simp only: unat_of_nat) simp
    then have nn: "(of_nat (p + 1) :: u8) \<noteq> PJON_NOT_ASSIGNED"
      using R(2) by (simp add: assigned_iff)
    show "deliver_loop search deliver (Suc fuel) payload len info start ack sw
        = deliver_to deliver payload len info (map snd rs @ [sw_default_gateway sw]) ack sw"
    proof (cases "forward_packet deliver payload len r (sw_current_bus sw) ack info sw")
      case None
      then show ?thesis unfolding step using R(3) Cons x by (simp add: next_route_def)
    next
      case (Some y)
      obtain ack' sw' where y: "y = (ack', sw')" by fastforce
      note K = forward_keeps [OF Suc.prems(1) assms Some [unfolded y]]
      have "deliver_loop search deliver fuel payload len info (of_nat (p + 1)) ack' sw'
          = deliver_to deliver payload len info
              (map snd (routes_from (Suc p) (routes (searched_id info) sw')) @ [sw_default_gateway sw']) ack' sw'"
        using Suc.IH [OF K(1) nn, of ack'] Suc.prems(3) R(1) u by simp
      then show ?thesis
        unfolding step using R(3,4) Cons x nn K(2-4) Some y by (simp add: next_route_def)
    qed
  qed
qed

theorem receiver_walks:
  assumes "forwardable info" "ok sw"
  shows "switch_receiver search deliver payload len info sw
     = deliver_to deliver payload len info
         (map snd (routes (searched_id info) sw) @ [sw_default_gateway sw]) False sw"
proof -
  have "routes_from 0 (routes (searched_id info) sw) = routes (searched_id info) sw"
    by (auto simp: routes_from_def intro: filter_True)
  then show ?thesis
    using deliver_loop_walk [OF assms, of 0 256 payload len False]
    by (simp add: switch_receiver_def PJON_NOT_ASSIGNED_def)
qed

end

subsection \<open>What a delivery changes\<close>

text \<open>The hop counter lets the packet pass; otherwise \<^verbatim>\<open>forward\<close> leaves the bus with a foreign identity.\<close>

definition hop_ok :: "build \<Rightarrow> packet_info \<Rightarrow> bool" where
  "hop_ok b info \<longleftrightarrow> pjon_local b \<or> pi_hops info + 1 \<le> max_hops b"

lemma forward_tx:
  assumes "hop_ok b info"
  shows "forward st b info payload len bus = Some (r, bus') \<Longrightarrow> pj_tx bus' = pj_tx bus"
    "forward_blocking st b fuel info payload len bus = Some (r, bus') \<Longrightarrow> pj_tx bus' = pj_tx bus"
  using assms
  by (auto simp: forward_def forward_blocking_def hop_ok_def Let_def not_le [symmetric]
      elim!: bind_SomeE split: if_splits)

definition bus_txs :: "('s, 'z) switch_scheme \<Rightarrow> endpoint list" where
  "bus_txs sw = map (\<lambda>p. pj_tx (snd p)) (sw_buses sw)"

lemma bus_txs_simps [simp]:
  "bus_txs (sw\<lparr> sw_current_bus := c \<rparr>) = bus_txs sw"
  "sw_default_gateway (set_bus i bus sw) = sw_default_gateway sw"
  "sw_current_bus (set_bus i bus sw) = sw_current_bus sw"
  "length (sw_buses (set_bus i bus sw)) = length (sw_buses sw)"
  "bus_txs (set_bus i bus sw) = (bus_txs sw)[unat i := pj_tx bus]"
  by (simp_all add: bus_txs_def set_bus_def map_update)

lemma bus_txs_same [simp]:
  "port_at sw i = Some (st, bus) \<Longrightarrow> (bus_txs sw)[unat i := pj_tx bus] = bus_txs sw"
  by (auto simp: port_at_def bus_txs_def list_update_same_conv split: if_splits)

lemma on_strategy_simps [simp]:
  "pj_tx (on_strategy f bus) = pj_tx bus" "pj_packets (on_strategy f bus) = pj_packets bus"
  "pj_events (on_strategy f bus) = pj_events bus" "pj_config (on_strategy f bus) = pj_config bus"
  by (simp_all add: on_strategy_def)

text \<open>
  An error function that leaves the buses, the gateway, the current bus and \<open>g\<close> alone; \<open>g\<close> is what a
  derived class adds to the state.
\<close>

definition quiet :: "(u8 \<Rightarrow> u16 \<Rightarrow> ('s, 'z) switch_scheme \<Rightarrow> ('s, 'z) switch_scheme option)
    \<Rightarrow> (('s, 'z) switch_scheme \<Rightarrow> 'g) \<Rightarrow> bool" where
  "quiet on_error g \<longleftrightarrow>
     (\<forall>code arg sw sw'. on_error code arg sw = Some sw' \<longrightarrow>
        sw_buses sw' = sw_buses sw \<and> sw_default_gateway sw' = sw_default_gateway sw \<and>
        sw_current_bus sw' = sw_current_bus sw \<and> g sw' = g sw) \<and>
     (\<forall>sw c bs. g (sw\<lparr> sw_current_bus := c \<rparr>) = g sw \<and> g (sw\<lparr> sw_buses := bs \<rparr>) = g sw)"

lemma quiet_switch_error: "quiet switch_error (\<lambda>sw. ())"
  by (simp add: quiet_def switch_error_def)

lemma handle_errors_quiet:
  "quiet on_error g \<Longrightarrow> handle_errors on_error es sw = Some sw' \<Longrightarrow>
   sw_buses sw' = sw_buses sw \<and> sw_default_gateway sw' = sw_default_gateway sw \<and>
   sw_current_bus sw' = sw_current_bus sw \<and> g sw' = g sw"
proof (induction es arbitrary: sw)
  case (Cons e es)
  then show ?case by (cases e) (auto simp: quiet_def elim!: bind_SomeE)
qed simp

lemma set_bus_quiet: "quiet on_error g \<Longrightarrow> g (set_bus i bus sw) = g sw"
  by (simp add: quiet_def set_bus_def)

text \<open>
  One delivery: the bus of the receiver has dispatched the packet, the bus of the sender may have
  acknowledged it, nothing else of the switch has changed.
\<close>

lemma switch_send_step:
  assumes "switch_send_packet b fuel on_error payload len rb sb ack info sw = Some (ack', sw')"
    and q: "quiet on_error g"
  obtains sw1 sw2 p_info1 p_info st bus r bus' where
    "acknowledge_once sb ack info sw = Some (ack', sw1)" "sw2 = sw1\<lparr> sw_current_bus := rb \<rparr>"
    "nat_sender sb info sw2 = Some p_info1" "nat_receiver rb info p_info1 sw2 = Some p_info"
    "port_at sw2 rb = Some (st, bus)"
    "(if max_packets b = 0 then forward_blocking st b fuel p_info payload len bus
      else forward st b p_info payload len bus) = Some (r, bus')"
    "sw_buses sw' = sw_buses (set_bus rb bus' sw1)" "sw_default_gateway sw' = sw_default_gateway sw"
    "sw_current_bus sw' = sw_current_bus sw" "g sw' = g sw"
proof -
  obtain sw1 where a: "acknowledge_once sb ack info sw = Some (ack', sw1)"
    using assms(1) by (auto simp: switch_send_packet_def Let_def elim!: bind_SomeE)
  define sw2 where "sw2 = sw1\<lparr> sw_current_bus := rb \<rparr>"
  obtain p_info1 p_info st bus r bus' sw3 sw4 where
    s: "nat_sender sb info sw2 = Some p_info1" "nat_receiver rb info p_info1 sw2 = Some p_info"
    "port_at sw2 rb = Some (st, bus)"
    "(if max_packets b = 0 then forward_blocking st b fuel p_info payload len bus
      else forward st b p_info payload len bus) = Some (r, bus')"
    "handle_errors on_error (new_events bus bus') (set_bus rb bus' sw2) = Some sw3"
    "(if max_packets b = 0 \<and> r = PJON_FAIL then on_error PJON_CONNECTION_LOST 0 sw3 else Some sw3) = Some sw4"
    "sw' = sw4\<lparr> sw_current_bus := sw_current_bus sw1 \<rparr>"
    using assms(1) a by (auto simp: switch_send_packet_def Let_def sw2_def elim!: bind_SomeE)
  have e3: "sw_buses sw3 = sw_buses (set_bus rb bus' sw2) \<and> sw_default_gateway sw3 = sw_default_gateway sw2 \<and> g sw3 = g sw2"
    using handle_errors_quiet [OF q s(5)] set_bus_quiet [OF q] by simp
  have e4: "sw_buses sw4 = sw_buses sw3 \<and> sw_default_gateway sw4 = sw_default_gateway sw3 \<and> g sw4 = g sw3"
    using s(6) q by (auto simp: quiet_def split: if_splits)
  have e1: "sw_default_gateway sw1 = sw_default_gateway sw \<and> sw_current_bus sw1 = sw_current_bus sw \<and> g sw1 = g sw"
    using a set_bus_quiet [OF q] by (auto simp: acknowledge_once_def split: if_splits elim!: bind_SomeE)
  have gg: "g sw2 = g sw1" "g (sw4\<lparr> sw_current_bus := sw_current_bus sw1 \<rparr>) = g sw4"
    using q by (simp_all add: quiet_def sw2_def)
  show ?thesis
    by (rule that [OF a sw2_def s(1-4)]) (use e1 e3 e4 gg s(7) in \<open>simp_all add: sw2_def set_bus_def\<close>)
qed

lemma acknowledge_once_txs:
  "acknowledge_once sb ack info sw = Some (ack', sw1) \<Longrightarrow> bus_txs sw1 = bus_txs sw"
  by (auto simp: acknowledge_once_def split: if_splits elim!: bind_SomeE)

lemma nat_hops:
  "nat_sender sb info sw = Some p1 \<Longrightarrow> pi_hops p1 = pi_hops info"
  "nat_receiver rb info p1 sw = Some p2 \<Longrightarrow> pi_hops p2 = pi_hops p1"
  by (auto simp: nat_sender_def nat_receiver_def split: if_splits elim!: bind_SomeE)

lemma switch_send_keeps:
  assumes "switch_send_packet b fuel on_error payload len rb sb ack info sw = Some (ack', sw')"
    and "quiet on_error g" and "hop_ok b info"
  shows "bus_txs sw' = bus_txs sw" "sw_default_gateway sw' = sw_default_gateway sw"
    "sw_current_bus sw' = sw_current_bus sw" "g sw' = g sw"
proof -
  obtain sw1 sw2 p_info1 p_info st bus r bus' where
    s: "acknowledge_once sb ack info sw = Some (ack', sw1)" "sw2 = sw1\<lparr> sw_current_bus := rb \<rparr>"
    "nat_sender sb info sw2 = Some p_info1" "nat_receiver rb info p_info1 sw2 = Some p_info"
    "port_at sw2 rb = Some (st, bus)"
    "(if max_packets b = 0 then forward_blocking st b fuel p_info payload len bus
      else forward st b p_info payload len bus) = Some (r, bus')"
    "sw_buses sw' = sw_buses (set_bus rb bus' sw1)"
    and k: "sw_default_gateway sw' = sw_default_gateway sw" "sw_current_bus sw' = sw_current_bus sw" "g sw' = g sw"
    by (rule switch_send_step [OF assms(1,2)])
  have "hop_ok b p_info" using nat_hops(1) [OF s(3)] nat_hops(2) [OF s(4)] assms(3) by (simp add: hop_ok_def)
  then have "pj_tx bus' = pj_tx bus" using s(6) by (auto dest: forward_tx split: if_splits)
  moreover have "port_at sw1 rb = Some (st, bus)" using s(2,5) by (simp add: port_at_def split: if_splits)
  ultimately have "bus_txs (set_bus rb bus' sw1) = bus_txs sw"
    using acknowledge_once_txs [OF s(1)] by (metis bus_txs_same bus_txs_simps(5))
  then show "bus_txs sw' = bus_txs sw" using s(7) by (simp add: bus_txs_def)
  show "sw_default_gateway sw' = sw_default_gateway sw" "sw_current_bus sw' = sw_current_bus sw" "g sw' = g sw"
    by (fact k)+
qed

subsection \<open>The plain switch\<close>

definition attached_routes :: "u8 list \<Rightarrow> endpoint list \<Rightarrow> (nat \<times> u8) list" where
  "attached_routes bus_id txs =
     map (\<lambda>i. (i, of_nat i)) (filter (\<lambda>i. same_bus_id bus_id (ep_bus_id (txs ! i))) [0..<length txs])"

definition switch_ok :: "('s, 'z) switch_scheme \<Rightarrow> bool" where
  "switch_ok sw \<longleftrightarrow> length (sw_buses sw) \<le> 254"

lemma find_attached_from_routes:
  "i + k = length buses \<Longrightarrow> find_attached_from bus_id buses k i =
     next_route (routes_from i (attached_routes bus_id (map (\<lambda>p. pj_tx (snd p)) buses)))"
proof (induction k arbitrary: i)
  case 0
  then show ?case by (auto simp: routes_from_def attached_routes_def next_route_def filter_map o_def)
next
  case (Suc k)
  let ?P = "\<lambda>i. same_bus_id bus_id (ep_bus_id (pj_tx (snd (buses ! i))))"
  have ar: "attached_routes bus_id (map (\<lambda>p. pj_tx (snd p)) buses)
      = map (\<lambda>i. (i, of_nat i)) (filter ?P [0..<length buses])"
    by (auto simp: attached_routes_def intro!: arg_cong2 [where f = map] filter_cong)
  have rf: "routes_from j (map (\<lambda>i. (i, of_nat i)) (filter ?P [0..<length buses]))
      = map (\<lambda>i. (i, of_nat i)) (filter ?P [j..<length buses])" if "j \<le> length buses" for j
  proof -
    have "[0..<length buses] = [0..<j] @ [j..<length buses]"
      using that by (metis le0 upt_add_eq_append le_add_diff_inverse)
    moreover have "filter (\<lambda>i. j \<le> i \<and> ?P i) [0..<j] = []" by (auto simp: filter_empty_conv)
    moreover have "filter (\<lambda>i. j \<le> i \<and> ?P i) [j..<length buses] = filter ?P [j..<length buses]"
      by (auto intro: filter_cong)
    ultimately show ?thesis by (simp add: routes_from_def filter_map o_def case_prod_beta conj_commute)
  qed
  have "[i..<length buses] = i # [Suc i..<length buses]"
    using Suc.prems by (simp add: upt_conv_Cons)
  then show ?case
    using Suc.IH [of "Suc i"] Suc.prems by (simp add: ar rf next_route_def)
qed

lemma wf_attached_routes: "length txs \<le> 254 \<Longrightarrow> wf_routes (attached_routes bus_id txs)"
proof -
  assume l: "length txs \<le> 254"
  have "sorted_wrt (<) (filter P [0..<n])" for P and n :: nat
    by (rule sorted_wrt_filter) simp
  moreover have "map fst (attached_routes bus_id txs)
      = filter (\<lambda>i. same_bus_id bus_id (ep_bus_id (txs ! i))) [0..<length txs]"
    by (simp add: attached_routes_def o_def)
  moreover have "(of_nat i :: u8) \<noteq> PJON_NOT_ASSIGNED" if "i < 254" for i
    using that by (simp add: assigned_iff unat_of_nat)
  ultimately show ?thesis
    using l by (auto simp: wf_routes_def attached_routes_def)
qed

lemma find_attached_routes:
  assumes "switch_ok sw"
  shows "find_attached_bus_with_id bus_id dev start sw
         = next_route (routes_from (unat start) (attached_routes bus_id (bus_txs sw)))"
proof (cases "unat start \<le> length (sw_buses sw)")
  case True
  then show ?thesis
    by (simp add: find_attached_bus_with_id_def find_attached_from_routes bus_txs_def)
next
  case False
  then have "routes_from (unat start) (attached_routes bus_id (bus_txs sw)) = []"
    by (auto simp: routes_from_def attached_routes_def filter_empty_conv bus_txs_def)
  then show ?thesis using False by (simp add: find_attached_bus_with_id_def next_route_def)
qed

interpretation simple: routing
  find_bus_with_id "\<lambda>bus_id sw. attached_routes bus_id (bus_txs sw)" switch_ok
  "switch_send_packet b fuel switch_error" "hop_ok b"
  for b fuel
proof (unfold_locales, goal_cases)
  case (3 sw info payload len r snd_bus ack ack' sw' bus_id)
  note K = switch_send_keeps [OF 3(3) quiet_switch_error 3(2)]
  have "length (sw_buses sw') = length (sw_buses sw)"
    using K(1) by (metis bus_txs_def length_map)
  then show ?case using K 3(1) by (simp add: switch_ok_def)
qed (simp_all add: find_bus_with_id_def find_attached_routes wf_attached_routes switch_ok_def bus_txs_def)

text \<open>C19. A switch delivers a packet to every attached bus with the receiver's bus id, in the order of the
  buses, and then to the default gateway, each unless it is the bus the packet came from.  The gateway
  is tried also when a bus was found, although it is documented as the route of unknown buses.\<close>

theorem switch_fanout:
  assumes "switch_ok sw" and "hop_ok b info"
  shows "simple_switch_receiver b fuel payload len info sw
         = deliver_to (switch_send_packet b fuel switch_error) payload len info
             (map snd (attached_routes (searched_id info) (bus_txs sw)) @ [sw_default_gateway sw]) False sw"
  unfolding simple_switch_receiver_def by (rule simple.receiver_walks [OF assms(2,1)])

definition sample_switch :: "nat switch" where
  "sample_switch = \<lparr> sw_buses = replicate 3 (idle_strategy, sample_bus), sw_default_gateway = 2,
                     sw_current_bus = 0 \<rparr>"

lemma sample_switch_ok: "switch_ok sample_switch" "hop_ok default_build sample_info"
  "bus_txs sample_switch = replicate 3 (new_endpoint\<lparr> ep_id := 45 \<rparr>)"
  by (simp_all add: switch_ok_def sample_switch_def hop_ok_def sample_info_def new_packet_info_def bus_txs_def)

lemma switch_fanout_witness:
  "simple_switch_receiver default_build 0 [64] 1 sample_info sample_switch
     = deliver_to (switch_send_packet default_build 0 switch_error) [64] 1 sample_info [0, 1, 2, 2] False sample_switch"
proof -
  have "searched_id sample_info = localhost" by (simp add: searched_id_def sample_info_def flag_simps)
  moreover have "map snd (attached_routes localhost (bus_txs sample_switch)) = [0, 1, 2]"
    by (simp add: attached_routes_def sample_switch_ok upt_rec new_endpoint_def localhost_def same_bus_id_def)
  moreover have "sw_default_gateway sample_switch = 2" by (simp add: sample_switch_def)
  ultimately show ?thesis
    using switch_fanout [OF sample_switch_ok(1,2), of 0 "[64]" 1] by simp
qed

subsection \<open>Who is affected\<close>

definition only_strategy :: "'s strategy \<times> 's pjon \<Rightarrow> 's strategy \<times> 's pjon \<Rightarrow> bool" where
  "only_strategy p q \<longleftrightarrow> fst q = fst p \<and> (\<exists>s. snd q = (snd p)\<lparr> pj_strategy := s \<rparr>)"

lemma only_strategy_refl [simp]: "only_strategy p p"
  by (cases "snd p") (auto simp: only_strategy_def)

lemma only_strategy_trans: "only_strategy p q \<Longrightarrow> only_strategy q r \<Longrightarrow> only_strategy p r"
  by (auto simp: only_strategy_def)

lemma acknowledge_once_ports:
  assumes "acknowledge_once sb ack info sw = Some (ack', sw1)"
  shows "length (sw_buses sw1) = length (sw_buses sw)"
    "i \<noteq> unat sb \<Longrightarrow> sw_buses sw1 ! i = sw_buses sw ! i"
    "only_strategy (sw_buses sw ! i) (sw_buses sw1 ! i)"
proof -
  show "length (sw_buses sw1) = length (sw_buses sw)"
    "i \<noteq> unat sb \<Longrightarrow> sw_buses sw1 ! i = sw_buses sw ! i"
    using assms by (auto simp: acknowledge_once_def set_bus_def split: if_splits elim!: bind_SomeE)
  show "only_strategy (sw_buses sw ! i) (sw_buses sw1 ! i)"
  proof (cases "sw1 = sw")
    case False
    then obtain st bus where "port_at sw sb = Some (st, bus)"
      and sw1: "sw1 = set_bus sb (on_strategy (st_send_response st PJON_ACK) bus) sw"
      using assms by (auto simp: acknowledge_once_def split: if_splits elim!: bind_SomeE)
    then have sb: "unat sb < length (sw_buses sw)" "sw_buses sw ! unat sb = (st, bus)"
      by (auto simp: port_at_def split: if_splits)
    show ?thesis
    proof (cases "i = unat sb")
      case True
      then show ?thesis using sb by (auto simp: sw1 set_bus_def on_strategy_def only_strategy_def)
    next
      case False
      then have "sw_buses sw1 ! i = sw_buses sw ! i" by (simp add: sw1 set_bus_def)
      then show ?thesis by simp
    qed
  qed simp
qed

lemma switch_send_local:
  assumes "switch_send_packet b fuel on_error payload len rb sb ack info sw = Some (ack', sw')"
    and "quiet on_error (\<lambda>sw. ())"
  shows "length (sw_buses sw') = length (sw_buses sw)" "sw_current_bus sw' = sw_current_bus sw"
    "i \<noteq> unat rb \<Longrightarrow> i \<noteq> unat sb \<Longrightarrow> sw_buses sw' ! i = sw_buses sw ! i"
    "i \<noteq> unat rb \<Longrightarrow> only_strategy (sw_buses sw ! i) (sw_buses sw' ! i)"
proof -
  obtain sw1 bus' where a: "acknowledge_once sb ack info sw = Some (ack', sw1)"
    and s: "sw_buses sw' = sw_buses (set_bus rb bus' sw1)" and c: "sw_current_bus sw' = sw_current_bus sw"
    by (rule switch_send_step [OF assms]) blast
  note A = acknowledge_once_ports [OF a]
  show "length (sw_buses sw') = length (sw_buses sw)" "sw_current_bus sw' = sw_current_bus sw"
    using A(1) s c by simp_all
  show "i \<noteq> unat rb \<Longrightarrow> i \<noteq> unat sb \<Longrightarrow> sw_buses sw' ! i = sw_buses sw ! i"
    "i \<noteq> unat rb \<Longrightarrow> only_strategy (sw_buses sw ! i) (sw_buses sw' ! i)"
    using A(2,3) [of i] s by (simp_all add: set_bus_def)
qed

lemma deliver_to_local:
  assumes q: "quiet on_error (\<lambda>sw. ())"
  shows "deliver_to (switch_send_packet b fuel on_error) payload len info rs ack sw = Some sw' \<Longrightarrow>
    of_nat i \<notin> set rs - {sw_current_bus sw} \<Longrightarrow> i < 256 \<Longrightarrow>
    sw_current_bus sw' = sw_current_bus sw \<and> only_strategy (sw_buses sw ! i) (sw_buses sw' ! i) \<and>
    (i \<noteq> unat (sw_current_bus sw) \<longrightarrow> sw_buses sw' ! i = sw_buses sw ! i)"
proof (induction rs arbitrary: ack sw)
  case (Cons r rs)
  obtain ack1 sw1 where f: "forward_packet (switch_send_packet b fuel on_error) payload len r (sw_current_bus sw) ack info sw = Some (ack1, sw1)"
    and d: "deliver_to (switch_send_packet b fuel on_error) payload len info rs ack1 sw1 = Some sw'"
    using Cons.prems(1) by (auto elim!: bind_SomeE)
  show ?case
  proof (cases "r = PJON_NOT_ASSIGNED \<or> r = sw_current_bus sw")
    case True
    then have "sw1 = sw" using f by (auto simp: forward_packet_def)
    then show ?thesis using Cons.IH [OF d] Cons.prems(2,3) by auto
  next
    case False
    then have "switch_send_packet b fuel on_error payload len r (sw_current_bus sw) ack info sw = Some (ack1, sw1)"
      using f by (simp add: forward_packet_def)
    note L = switch_send_local [OF this q]
    have "i \<noteq> unat r" using Cons.prems(2) False by auto
    then show ?thesis
      using Cons.IH [OF d] L(2) L(3) [of i] Cons.prems(2,3)
        only_strategy_trans [OF L(4) [of i], of "sw_buses sw' ! i"] by auto
  qed
qed simp

text \<open>A packet never goes back to the bus it came from, and never to a bus that neither has the
  receiver's bus id nor is the default gateway: of all of these the switch at most lets the bus of the
  sender transmit the acknowledgement.\<close>

theorem switch_never_back:
  assumes "switch_ok sw" and "hop_ok b info" and "i < length (sw_buses sw)"
    and "simple_switch_receiver b fuel payload len info sw = Some sw'"
    and "i = unat (sw_current_bus sw) \<or>
         \<not> same_bus_id (searched_id info) (ep_bus_id (pj_tx (snd (sw_buses sw ! i)))) \<and>
         of_nat i \<noteq> sw_default_gateway sw"
  shows "only_strategy (sw_buses sw ! i) (sw_buses sw' ! i) \<and> sw_current_bus sw' = sw_current_bus sw \<and>
         (i \<noteq> unat (sw_current_bus sw) \<longrightarrow> sw_buses sw' ! i = sw_buses sw ! i)"
proof -
  let ?rs = "map snd (attached_routes (searched_id info) (bus_txs sw)) @ [sw_default_gateway sw]"
  have d: "deliver_to (switch_send_packet b fuel switch_error) payload len info ?rs False sw = Some sw'"
    using assms(4) simple.receiver_walks [OF assms(2,1)] by (simp add: simple_switch_receiver_def)
  have l: "i < 255" using assms(1,3) by (simp add: switch_ok_def)
  have inj: "(of_nat i :: u8) = of_nat j \<longleftrightarrow> i = j" if "j < length (sw_buses sw)" for j
    using that assms(1,3) by (auto simp: switch_ok_def word_unat_eq_iff unat_of_nat)
  have "of_nat i \<notin> set ?rs - {sw_current_bus sw}"
  proof (cases "i = unat (sw_current_bus sw)")
    case False
    have "of_nat i \<notin> set (map snd (attached_routes (searched_id info) (bus_txs sw)))"
    proof
      assume "of_nat i \<in> set (map snd (attached_routes (searched_id info) (bus_txs sw)))"
      then obtain x where "x < length (sw_buses sw)" "(of_nat i :: u8) = of_nat x"
        "same_bus_id (searched_id info) (ep_bus_id (pj_tx (snd (sw_buses sw ! x))))"
        unfolding attached_routes_def bus_txs_def by auto
      then show False using inj assms(5) False by blast
    qed
    then show ?thesis using assms(5) False by simp
  qed simp
  from deliver_to_local [OF quiet_switch_error d this] l show ?thesis by simp
qed

subsection \<open>A well-formed switch always delivers\<close>

definition wf_switch :: "build \<Rightarrow> ('s, 'z) switch_scheme \<Rightarrow> bool" where
  "wf_switch b sw \<longleftrightarrow>
     switch_ok sw \<and> (\<forall>p \<in> set (sw_buses sw). wf_bus b (snd p)) \<and>
     unat (sw_current_bus sw) < length (sw_buses sw) \<and>
     (sw_default_gateway sw = PJON_NOT_ASSIGNED \<or> unat (sw_default_gateway sw) < length (sw_buses sw))"

definition forwardable_payload :: "build \<Rightarrow> u8 list \<Rightarrow> u16 \<Rightarrow> bool" where
  "forwardable_payload b payload len \<longleftrightarrow>
     unat len \<le> length payload \<and> unat len \<le> 65500 \<and>
     40 \<le> packet_max_length b \<and> packet_max_length b \<le> 60000 \<and> 0 < max_packets b"

lemma wf_bus_tx [simp]:
  "wf_endpoint e \<Longrightarrow> wf_bus b bus \<Longrightarrow> wf_bus b (bus\<lparr> pj_tx := e \<rparr>)"
  by (simp add: wf_bus_def)

lemma dispatch_loop_total:
  assumes "wf_info info" and "wf_bus b bus" and "forwardable_payload b payload len"
  shows "i + k \<le> max_packets b \<Longrightarrow>
    \<exists>r bus'. dispatch_loop st b info payload len timing p i k bus = Some (r, bus')"
proof (induction k arbitrary: i)
  case (Suc k)
  have "length (pk_content (pj_packets bus ! i)) = packet_max_length b"
    using Suc.prems assms(2) by (intro wf_bus_content) simp_all
  then obtain d l bus1 where "compose_packet b info (pk_content (pj_packets bus ! i)) payload len bus = Some (d, l, bus1)"
    using assms compose_packet_total by (metis forwardable_payload_def)
  then have "\<exists>r bus'. store_packet st b info payload len timing i bus = Some (r, bus')"
    by (cases "with_strategy (pf_micros st) bus1") (simp add: store_packet_def Let_def)
  then show ?case using Suc.IH [of "Suc i"] Suc.prems by (cases p) simp_all
qed simp

lemma forward_total:
  assumes "wf_info info" and "wf_bus b bus" and "forwardable_payload b payload len"
  obtains r bus' where "forward st b info payload len bus = Some (r, bus')"
proof -
  define info' where "info' = (if pjon_local b then info else info\<lparr> pi_hops := pi_hops info + 1 \<rparr>)"
  have w: "wf_info info'" "wf_bus b (bus\<lparr> pj_tx := pi_tx info \<rparr>)"
    using assms(1,2) by (simp_all add: info'_def wf_info_def)
  have "\<exists>r bus'. dispatch st b info' payload len 0 PJON_FAIL (bus\<lparr> pj_tx := pi_tx info \<rparr>) = Some (r, bus')"
    using dispatch_loop_total [OF w assms(3), of 0 "max_packets b"] by (simp add: dispatch_def)
  then obtain r bus' where
    "dispatch st b info' payload len 0 PJON_FAIL (bus\<lparr> pj_tx := pi_tx info \<rparr>) = Some (r, bus')" by blast
  then have "\<exists>r bus'. forward st b info payload len bus = Some (r, bus')"
    by (simp add: forward_def info'_def Let_def)
  then show ?thesis using that by blast
qed

lemma forward_wf:
  assumes "forward st b info payload len bus = Some (r, bus')" and "wf_info info" and "wf_bus b bus"
  shows "wf_bus b bus'"
proof -
  have "wf_bus b (bus\<lparr> pj_tx := pi_tx info \<rparr>)" "wf_endpoint (pj_tx bus)"
    using assms(2,3) by (simp_all add: wf_info_def wf_bus_def)
  then show ?thesis
    using assms(1) by (auto simp: forward_def Let_def elim!: bind_SomeE split: if_splits dest!: dispatch_wf)
qed

text \<open>An error function that copes with every error and leaves the buses alone.\<close>

definition handled ::
  "build \<Rightarrow> (u8 \<Rightarrow> u16 \<Rightarrow> ('s, 'z) switch_scheme \<Rightarrow> ('s, 'z) switch_scheme option) \<Rightarrow> bool" where
  "handled b on_error \<longleftrightarrow>
     quiet on_error (\<lambda>sw. ()) \<and> (\<forall>code arg sw. wf_switch b sw \<longrightarrow> on_error code arg sw \<noteq> None)"

lemma handled_switch_error: "handled b switch_error"
  by (simp add: handled_def quiet_switch_error) (simp add: switch_error_def)

lemma wf_switch_cong:
  "sw_buses sw' = sw_buses sw \<Longrightarrow> sw_current_bus sw' = sw_current_bus sw \<Longrightarrow>
   sw_default_gateway sw' = sw_default_gateway sw \<Longrightarrow> wf_switch b sw' = wf_switch b sw"
  by (simp add: wf_switch_def switch_ok_def)

lemma handle_errors_total:
  assumes h: "handled b on_error"
  shows "wf_switch b sw \<Longrightarrow> \<exists>sw'. handle_errors on_error es sw = Some sw'"
proof (induction es arbitrary: sw)
  case (Cons e es)
  show ?case
  proof (cases e)
    case (Error code arg p)
    have "on_error code arg sw \<noteq> None" using h Cons.prems by (simp add: handled_def)
    then obtain sw1 where 1: "on_error code arg sw = Some sw1" by blast
    then have "wf_switch b sw1 = wf_switch b sw"
      using h by (intro wf_switch_cong) (auto simp: handled_def quiet_def)
    then show ?thesis using Error 1 Cons by simp
  qed (use Cons in simp)
qed simp

lemma wf_switch_port:
  assumes "wf_switch b sw" and "unat i < length (sw_buses sw)"
  obtains st bus where "port_at sw i = Some (st, bus)" "wf_bus b bus"
proof
  show "port_at sw i = Some (fst (sw_buses sw ! unat i), snd (sw_buses sw ! unat i))"
    using assms(2) by (simp add: port_at_def)
  show "wf_bus b (snd (sw_buses sw ! unat i))" using assms by (simp add: wf_switch_def)
qed

lemma wf_switch_set:
  assumes "wf_switch b sw" and "wf_bus b bus"
  shows "wf_switch b (set_bus i bus sw)"
  using assms set_update_subset_insert [of "sw_buses sw" "unat i" "(fst (sw_buses sw ! unat i), bus)"]
  by (auto simp: wf_switch_def switch_ok_def set_bus_def)

lemma wf_bus_on_strategy [simp]: "wf_bus b (on_strategy f bus) = wf_bus b bus"
  by (simp add: on_strategy_def)

lemma acknowledge_once_total:
  assumes "wf_switch b sw" and "unat sb < length (sw_buses sw)"
  obtains ack' sw1 where "acknowledge_once sb ack info sw = Some (ack', sw1)" "wf_switch b sw1"
    "length (sw_buses sw1) = length (sw_buses sw)"
proof -
  obtain st bus where p: "port_at sw sb = Some (st, bus)" "wf_bus b bus"
    using assms by (rule wf_switch_port)
  let ?sw = "set_bus sb (on_strategy (st_send_response st PJON_ACK) bus) sw"
  have "wf_switch b ?sw" using assms(1) p(2) by (intro wf_switch_set) simp_all
  then show ?thesis
    using that [of True ?sw] that [of ack sw] assms(1) p(1)
    by (cases "\<not> ack \<and> flag (pi_header info) PJON_ACK_REQ_BIT \<and> ep_id (pi_rx info) \<noteq> PJON_BROADCAST")
      (simp_all add: acknowledge_once_def)
qed

lemma nat_total:
  assumes "wf_switch b sw" and "wf_info info" and "unat rb < length (sw_buses sw)" "unat sb < length (sw_buses sw)"
  obtains p1 p2 where "nat_sender sb info sw = Some p1" "nat_receiver rb info p1 sw = Some p2" "wf_info p2"
proof -
  obtain st bus where s: "port_at sw sb = Some (st, bus)" "wf_bus b bus"
    using assms(1,4) by (rule wf_switch_port)
  obtain st' bus' where r: "port_at sw rb = Some (st', bus')"
    using assms(1,3) by (rule wf_switch_port)
  have l: "length (ep_bus_id (pj_tx bus)) = 4" using s(2) by (simp add: wf_bus_def wf_endpoint_def)
  obtain p1 where p1: "nat_sender sb info sw = Some p1" "wf_info p1"
  proof -
    have "wf_info (info\<lparr> pi_tx := (pi_tx info)\<lparr> ep_bus_id := take 4 (ep_bus_id (pj_tx bus)) \<rparr> \<rparr>)"
      using assms(2) l by (simp add: wf_info_def wf_endpoint_def)
    then show ?thesis
      using that s(1) assms(2)
      by (cases "flag (pi_header info) PJON_MODE_BIT") (simp_all add: nat_sender_def get_bus_def split: if_splits)
  qed
  have "wf_info (p1\<lparr> pi_rx := (pi_rx p1)\<lparr> ep_bus_id := localhost \<rparr> \<rparr>)"
    using p1(2) by (simp add: wf_info_def wf_endpoint_def localhost_def)
  then show ?thesis
    using that [OF p1(1)] p1(2) r
    by (cases "flag (pi_header info) PJON_MODE_BIT") (simp_all add: nat_receiver_def get_bus_def split: if_splits)
qed

lemma switch_send_total:
  assumes h: "handled b on_error" and w: "wf_switch b sw" and i: "wf_info info" and p: "forwardable_payload b payload len"
    and l: "unat rb < length (sw_buses sw)" "unat sb < length (sw_buses sw)"
  obtains ack' sw' where
    "switch_send_packet b fuel on_error payload len rb sb ack info sw = Some (ack', sw')"
    "wf_switch b sw'" "length (sw_buses sw') = length (sw_buses sw)"
    "sw_current_bus sw' = sw_current_bus sw" "sw_default_gateway sw' = sw_default_gateway sw"
proof -
  obtain ack' sw1 where a: "acknowledge_once sb ack info sw = Some (ack', sw1)" "wf_switch b sw1"
    and n: "length (sw_buses sw1) = length (sw_buses sw)"
    using w l(2) by (rule acknowledge_once_total)
  let ?sw2 = "sw1\<lparr> sw_current_bus := rb \<rparr>"
  have w2: "wf_switch b ?sw2" using a(2) n l(1) by (simp add: wf_switch_def switch_ok_def)
  obtain p1 p2 where nt: "nat_sender sb info ?sw2 = Some p1" "nat_receiver rb info p1 ?sw2 = Some p2" "wf_info p2"
    by (rule nat_total [OF w2 i, of rb sb]) (use l n in simp_all)
  obtain st bus where r: "port_at ?sw2 rb = Some (st, bus)" "wf_bus b bus"
    by (rule wf_switch_port [OF w2, of rb]) (use l n in simp_all)
  obtain x bus' where f: "forward st b p2 payload len bus = Some (x, bus')"
    using nt(3) r(2) p by (rule forward_total)
  have wb: "wf_bus b bus'" using f nt(3) r(2) by (rule forward_wf)
  have m: "max_packets b \<noteq> 0" using p by (simp add: forwardable_payload_def)
  have w3: "wf_switch b (set_bus rb bus' ?sw2)" using w2 wb by (rule wf_switch_set)
  then obtain sw3 where e: "handle_errors on_error (new_events bus bus') (set_bus rb bus' ?sw2) = Some sw3"
    using handle_errors_total [OF h] by blast
  have q: "quiet on_error (\<lambda>sw. ())" using h by (simp add: handled_def)
  let ?sw' = "sw3\<lparr> sw_current_bus := sw_current_bus sw1 \<rparr>"
  have run: "switch_send_packet b fuel on_error payload len rb sb ack info sw = Some (ack', ?sw')"
    using a(1) nt(1,2) r(1) f m e by (simp add: switch_send_packet_def Let_def)
  have "wf_switch b ?sw' = wf_switch b (set_bus rb bus' sw1)"
    using handle_errors_quiet [OF q e] by (intro wf_switch_cong) (simp_all add: set_bus_def)
  then have w': "wf_switch b ?sw'" using wf_switch_set [OF a(2) wb] by simp
  note k = switch_send_step [OF run q]
  have n': "length (sw_buses ?sw') = length (sw_buses sw)"
    using handle_errors_quiet [OF q e] n by (simp add: set_bus_def)
  show ?thesis
    by (rule that [OF run w']) (rule n', (rule k, assumption)+)
qed

lemma deliver_to_total:
  assumes h: "handled b on_error" and i: "wf_info info" and p: "forwardable_payload b payload len"
  shows "wf_switch b sw \<Longrightarrow>
    \<forall>r \<in> set rs. r = PJON_NOT_ASSIGNED \<or> unat r < length (sw_buses sw) \<Longrightarrow>
    \<exists>sw'. deliver_to (switch_send_packet b fuel on_error) payload len info rs ack sw = Some sw' \<and> wf_switch b sw'"
proof (induction rs arbitrary: ack sw)
  case (Cons r rs)
  show ?case
  proof (cases "r = PJON_NOT_ASSIGNED \<or> r = sw_current_bus sw")
    case True
    then show ?thesis using Cons.IH [of sw ack] Cons.prems by (auto simp: forward_packet_def)
  next
    case False
    have "unat r < length (sw_buses sw)" "unat (sw_current_bus sw) < length (sw_buses sw)"
      using False Cons.prems by (auto simp: wf_switch_def)
    from switch_send_total [OF h Cons.prems(1) i p this, of fuel ack]
    obtain ack' sw' where
      "switch_send_packet b fuel on_error payload len r (sw_current_bus sw) ack info sw = Some (ack', sw')"
      "wf_switch b sw'" "length (sw_buses sw') = length (sw_buses sw)" .
    then show ?thesis using Cons.IH [of sw' ack'] Cons.prems(2) False by (simp add: forward_packet_def)
  qed
qed simp

lemma attached_routes_attached:
  assumes "wf_switch b sw"
  shows "\<forall>r \<in> set (map snd (attached_routes bus_id (bus_txs sw)) @ [sw_default_gateway sw]).
           r = PJON_NOT_ASSIGNED \<or> unat r < length (sw_buses sw)"
  using assms by (auto simp: attached_routes_def bus_txs_def wf_switch_def switch_ok_def unat_of_nat)

lemma switch_receiver_total:
  assumes "wf_switch b sw" and "wf_info info" and "hop_ok b info" and "forwardable_payload b payload len"
  shows "\<exists>sw'. simple_switch_receiver b fuel payload len info sw = Some sw' \<and> wf_switch b sw'"
proof -
  have ok: "switch_ok sw" using assms(1) by (simp add: wf_switch_def)
  from deliver_to_total [OF handled_switch_error assms(2,4,1) attached_routes_attached [OF assms(1)]]
  show ?thesis
    using simple.receiver_walks [OF assms(3) ok] by (simp add: simple_switch_receiver_def)
qed

text \<open>C20. A well-formed switch with a packet buffer delivers every packet whose hops are not used up:
  the delivery loop comes to an end without leaving a buffer or the array of buses, and the switch
  stays well formed.\<close>

theorem switch_delivers:
  assumes "wf_switch b sw" and "wf_info info" and "hop_ok b info" and "forwardable_payload b payload len"
  shows "\<exists>sw'. simple_switch_receiver b fuel payload len info sw = Some sw' \<and> wf_switch b sw'"
  using assms by (rule switch_receiver_total)

lemma sample_switch_wf:
  "wf_switch default_build sample_switch" "wf_info sample_info" "forwardable_payload default_build [64] 1"
  using sample_switch_ok(1) sample_fits by (simp_all add: wf_switch_def sample_switch_def forwardable_payload_def)

lemma switch_delivers_witness:
  "\<exists>sw'. simple_switch_receiver default_build 0 [64] 1 sample_info sample_switch = Some sw' \<and>
     wf_switch default_build sw'"
  using sample_switch_wf(1,2) sample_switch_ok(2) sample_switch_wf(3) by (rule switch_delivers)

lemma switch_never_back_witness:
  "\<exists>sw'. simple_switch_receiver default_build 0 [64] 1 sample_info sample_switch = Some sw' \<and>
     only_strategy (idle_strategy, sample_bus) (sw_buses sw' ! 0)"
proof -
  obtain sw' where "simple_switch_receiver default_build 0 [64] 1 sample_info sample_switch = Some sw'"
    using switch_receiver_total [OF sample_switch_wf(1,2) sample_switch_ok(2) sample_switch_wf(3)] by blast
  with switch_never_back [OF sample_switch_ok(1,2) _ this, of 0] show ?thesis by (simp add: sample_switch_def)
qed

subsection \<open>Address translation\<close>

lemma find_attached_from_first:
  "i \<le> n \<Longrightarrow> n < i + k \<Longrightarrow> same_bus_id bus_id (ep_bus_id (pj_tx (snd (buses ! n)))) \<Longrightarrow>
   \<forall>j < n. i \<le> j \<longrightarrow> \<not> same_bus_id bus_id (ep_bus_id (pj_tx (snd (buses ! j)))) \<Longrightarrow>
   fst (find_attached_from bus_id buses k i) = of_nat n"
proof (induction k arbitrary: i)
  case (Suc k)
  show ?case
  proof (cases "i = n")
    case False
    then have "i < n" using Suc.prems(1) by simp
    moreover from this have "\<not> same_bus_id bus_id (ep_bus_id (pj_tx (snd (buses ! i))))"
      using Suc.prems(4) by simp
    ultimately show ?thesis using Suc.IH [of "Suc i"] Suc.prems by simp
  qed (use Suc.prems(3) in simp)
qed simp

text \<open>C21. Translation round trip: a shared packet that leaves a local bus with a public id carries that
  id as its sender; a reply to it is routed to the same local bus (the first one with that id), where
  it arrives addressed to the local bus, its sender untouched.\<close>

theorem nat_round_trip:
  assumes "get_bus sw l = Some bus" and "\<not> flag (pj_config bus) PJON_MODE_BIT"
    and "\<not> same_bus_id (ep_bus_id (pj_tx bus)) localhost" and "length (ep_bus_id (pj_tx bus)) = 4"
    and "\<forall>j < unat l. \<not> same_bus_id (ep_bus_id (pj_tx bus)) (ep_bus_id (pj_tx (snd (sw_buses sw ! j))))"
    and "flag (pi_header info) PJON_MODE_BIT" and "same_bus_id (ep_bus_id (pi_tx info)) localhost"
    and "flag (pi_header rep) PJON_MODE_BIT" and "nat_sender l info sw = Some sent"
    and "ep_bus_id (pi_rx rep) = ep_bus_id (pi_tx sent)"
  shows "ep_bus_id (pi_tx sent) = ep_bus_id (pj_tx bus) \<and> pi_rx sent = pi_rx info \<and>
         fst (find_bus_with_id (searched_id rep) dev 0 sw) = l \<and>
         (\<exists>rep'. nat_receiver l rep rep sw = Some rep' \<and> ep_bus_id (pi_rx rep') = localhost \<and>
                   ep_id (pi_rx rep') = ep_id (pi_rx rep) \<and> pi_tx rep' = pi_tx rep)"
proof -
  have l: "unat l < length (sw_buses sw)" "bus = snd (sw_buses sw ! unat l)"
    using assms(1) by (auto simp: get_bus_def port_at_def split: if_splits)
  have s: "ep_bus_id (pi_tx sent) = ep_bus_id (pj_tx bus)" "pi_rx sent = pi_rx info"
    using assms(1-4,6,7,9) by (auto simp: nat_sender_def)
  then have "fst (find_bus_with_id (searched_id rep) dev 0 sw) = of_nat (unat l)"
    using assms(5,8,10) l
    by (simp add: find_bus_with_id_def find_attached_bus_with_id_def searched_id_def find_attached_from_first same_bus_id_def)
  then show ?thesis
    using s assms(1-3,8,10) by (simp add: nat_receiver_def same_bus_id_def)
qed

lemma nat_round_trip_witness:
  "let bus = sample_bus\<lparr> pj_tx := new_endpoint\<lparr> ep_bus_id := [1, 2, 3, 4] \<rparr> \<rparr>;
       sw = sample_switch\<lparr> sw_buses := [(idle_strategy, bus)] \<rparr>;
       info = new_packet_info\<lparr> pi_header := PJON_MODE_BIT \<rparr>;
       rep = info\<lparr> pi_rx := new_endpoint\<lparr> ep_bus_id := [1, 2, 3, 4] \<rparr> \<rparr>
   in fst (find_bus_with_id (searched_id rep) 7 0 sw) = 0"
proof -
  define bus where "bus = sample_bus\<lparr> pj_tx := new_endpoint\<lparr> ep_bus_id := [1, 2, 3, 4] \<rparr> \<rparr>"
  define sw where "sw = sample_switch\<lparr> sw_buses := [(idle_strategy, bus)] \<rparr>"
  define info where "info = new_packet_info\<lparr> pi_header := PJON_MODE_BIT \<rparr>"
  define rep where "rep = info\<lparr> pi_rx := new_endpoint\<lparr> ep_bus_id := [1, 2, 3, 4] \<rparr> \<rparr>"
  have m: "\<not> flag (pj_config bus) PJON_MODE_BIT" "flag PJON_MODE_BIT PJON_MODE_BIT"
    by (simp_all add: bus_def flag_simps) (simp add: PJON_MODE_BIT_def)
  have g: "get_bus sw 0 = Some bus" by (simp add: get_bus_def port_at_def sw_def)
  have "nat_sender 0 info sw = Some (info\<lparr> pi_tx := new_endpoint\<lparr> ep_bus_id := [1, 2, 3, 4] \<rparr> \<rparr>)"
    using g m by (simp add: nat_sender_def info_def bus_def same_bus_id_def localhost_def new_packet_info_def new_endpoint_def)
  from nat_round_trip [OF g m(1) _ _ _ _ _ _ this, of rep 7]
  have "fst (find_bus_with_id (searched_id rep) 7 0 sw) = 0"
    using m(2) by (simp add: bus_def rep_def info_def same_bus_id_def localhost_def new_packet_info_def new_endpoint_def)
  then show ?thesis by (simp add: bus_def sw_def info_def rep_def Let_def)
qed

end
