(* ===== verification/Router.thy ===== *)
theory Router
  imports Switch_Laws
begin

text \<open>
  The routers, \<^verbatim>\<open>src/PJONRouter.h\<close>, \<^verbatim>\<open>src/PJONDynamicRouter.h\<close>, \<^verbatim>\<open>src/PJONVirtualBusRouter.h\<close> and
  \<^verbatim>\<open>src/PJONInteractiveRouter.h\<close>.  Their states extend the state of the switch in the order of the
  class hierarchy; their virtual functions take the versions of the base class as arguments.
\<close>

text \<open>The preprocessor options; a \<open>route_timeout\<close> of 0 compiles the timeout away.\<close>

record router_build =
  router_table_size :: nat
  vbus_max_devices :: nat
  route_timeout :: u32

subsection \<open>Static routes\<close>

record 's router = "'s switch" +
  rt_table :: "(u8 list \<times> u8) list"

fun find_table_from :: "u8 list \<Rightarrow> u8 \<Rightarrow> (u8 list \<times> u8) list \<Rightarrow> nat \<Rightarrow> nat \<Rightarrow> u8 \<times> u8" where
  "find_table_from bus_id count table 0 i = (PJON_NOT_ASSIGNED, PJON_NOT_ASSIGNED)"
| "find_table_from bus_id count table (Suc k) i =
     (if same_bus_id bus_id (fst (table ! i)) then (snd (table ! i), count + of_nat i + 1)
      else find_table_from bus_id count table k (Suc i))"

definition find_bus_in_table ::
  "u8 list \<Rightarrow> u8 \<Rightarrow> u8 \<Rightarrow> ('s, 'z) router_scheme \<Rightarrow> u8 \<times> u8" where
  "find_bus_in_table bus_id dev start_bus rt =
     (let start = unat (start_bus - bus_count rt) in
      find_table_from bus_id (bus_count rt) (rt_table rt) (length (rt_table rt) - start) start)"

definition router_find_bus_with_id ::
  "u8 list \<Rightarrow> u8 \<Rightarrow> u8 \<Rightarrow> ('s, 'z) router_scheme \<Rightarrow> u8 \<times> u8" where
  "router_find_bus_with_id bus_id dev start_bus rt =
     (let (receiver_bus, start_bus) =
            (if start_bus < bus_count rt
             then (let (found, next_start) = find_attached_bus_with_id bus_id dev start_bus rt in
                   (found, if found = PJON_NOT_ASSIGNED then bus_count rt else next_start))
             else (PJON_NOT_ASSIGNED, start_bus));
          (receiver_bus, start_bus) =
            (if receiver_bus = PJON_NOT_ASSIGNED \<and> start_bus \<ge> bus_count rt \<and> start_bus \<noteq> PJON_NOT_ASSIGNED
             then find_bus_in_table bus_id dev start_bus rt else (receiver_bus, start_bus))
      in (receiver_bus, if receiver_bus = PJON_NOT_ASSIGNED then PJON_NOT_ASSIGNED else start_bus))"

definition router_add ::
  "router_build \<Rightarrow> u8 list \<Rightarrow> u8 \<Rightarrow> ('s, 'z) router_scheme \<Rightarrow> ('s, 'z) router_scheme" where
  "router_add rb bus_id via_attached_bus rt =
     (if length (rt_table rt) < router_table_size rb
      then rt\<lparr> rt_table := rt_table rt @ [(take 4 bus_id, via_attached_bus)] \<rparr> else rt)"

definition router_receiver ::
  "build \<Rightarrow> nat \<Rightarrow> u8 list \<Rightarrow> u16 \<Rightarrow> packet_info \<Rightarrow> 's router \<Rightarrow> 's router option" where
  "router_receiver b fuel =
     switch_receiver router_find_bus_with_id (switch_send_packet b fuel switch_error)"

subsection \<open>Learned routes\<close>

definition add_sender_to_routing_table ::
  "router_build \<Rightarrow> packet_info \<Rightarrow> u8 \<Rightarrow> ('s, 'z) router_scheme \<Rightarrow> ('s, 'z) router_scheme" where
  "add_sender_to_routing_table rb info sender_bus rt =
     (let (found_bus, start_search) =
            router_find_bus_with_id (ep_bus_id (pi_tx info)) (ep_id (pi_tx info)) 0 rt
      in if found_bus = PJON_NOT_ASSIGNED then router_add rb (ep_bus_id (pi_tx info)) sender_bus rt
         else rt)"

definition dynamic_receiver ::
  "router_build
     \<Rightarrow> (u8 list \<Rightarrow> u16 \<Rightarrow> u8 \<Rightarrow> u8 \<Rightarrow> bool \<Rightarrow> packet_info \<Rightarrow> ('s, 'z) router_scheme
          \<Rightarrow> (bool \<times> ('s, 'z) router_scheme) option)
     \<Rightarrow> u8 list \<Rightarrow> u16 \<Rightarrow> packet_info \<Rightarrow> ('s, 'z) router_scheme \<Rightarrow> ('s, 'z) router_scheme option" where
  "dynamic_receiver rb deliver payload len info rt =
     switch_receiver router_find_bus_with_id deliver payload len info
       (add_sender_to_routing_table rb info (sw_current_bus rt) rt)"

definition dynamic_router_receiver ::
  "build \<Rightarrow> router_build \<Rightarrow> nat \<Rightarrow> u8 list \<Rightarrow> u16 \<Rightarrow> packet_info \<Rightarrow> 's router \<Rightarrow> 's router option" where
  "dynamic_router_receiver b rb fuel = dynamic_receiver rb (switch_send_packet b fuel switch_error)"

subsection \<open>A virtual bus\<close>

text \<open>\<open>vb_millis\<close> is the value of the platform's millisecond clock during a callback.\<close>

record 's vbus_router = "'s router" +
  vb_virtual_bus :: u8
  vb_device_bus :: "u8 list"
  vb_activity :: "u32 list"
  vb_unknown_location :: bool
  vb_millis :: u32

definition init_vbus ::
  "router_build \<Rightarrow> ('s, 'z) vbus_router_scheme \<Rightarrow> ('s, 'z) vbus_router_scheme" where
  "init_vbus rb vr = vr\<lparr> vb_device_bus := replicate (vbus_max_devices rb) PJON_NOT_ASSIGNED \<rparr>"

definition set_virtual_bus :: "u8 \<Rightarrow> ('s, 'z) vbus_router_scheme \<Rightarrow> ('s, 'z) vbus_router_scheme" where
  "set_virtual_bus first_bus vr = vr\<lparr> vb_virtual_bus := first_bus \<rparr>"

definition is_vbus :: "u8 list \<Rightarrow> ('s, 'z) vbus_router_scheme \<Rightarrow> bool" where
  "is_vbus bus_id vr \<longleftrightarrow>
     vb_virtual_bus vr < bus_count vr \<and>
     same_bus_id (ep_bus_id (pj_tx (snd (sw_buses vr ! unat (vb_virtual_bus vr))))) bus_id"

definition forget_device :: "u8 \<Rightarrow> ('s, 'z) vbus_router_scheme \<Rightarrow> ('s, 'z) vbus_router_scheme" where
  "forget_device dev vr = vr\<lparr> vb_device_bus := (vb_device_bus vr)[unat dev := PJON_NOT_ASSIGNED] \<rparr>"

definition find_vbus_with_device ::
  "router_build \<Rightarrow> u8 list \<Rightarrow> u8 \<Rightarrow> ('s, 'z) vbus_router_scheme
     \<Rightarrow> u8 \<times> ('s, 'z) vbus_router_scheme" where
  "find_vbus_with_device rb bus_id dev vr =
     (if \<not> is_vbus bus_id vr \<or> unat dev \<ge> vbus_max_devices rb then (PJON_NOT_ASSIGNED, vr)
      else let vr = (if route_timeout rb \<noteq> 0 \<and>
                        vb_millis vr - vb_activity vr ! unat dev > route_timeout rb * 1000
                     then forget_device dev vr else vr)
           in (vb_device_bus vr ! unat dev, vr))"

definition register_device_on_vbus ::
  "router_build \<Rightarrow> u8 \<Rightarrow> u8 \<Rightarrow> ('s, 'z) vbus_router_scheme \<Rightarrow> ('s, 'z) vbus_router_scheme" where
  "register_device_on_vbus rb dev attached_bus vr =
     (if unat dev < vbus_max_devices rb
      then let vr = vr\<lparr> vb_device_bus := (vb_device_bus vr)[unat dev := attached_bus] \<rparr>
           in if route_timeout rb \<noteq> 0
              then vr\<lparr> vb_activity := (vb_activity vr)[unat dev := vb_millis vr] \<rparr> else vr
      else vr)"

text \<open>While the location of the receiver is unknown no acknowledgement is requested or given.\<close>

definition vbus_send_packet ::
  "(u8 list \<Rightarrow> u16 \<Rightarrow> u8 \<Rightarrow> u8 \<Rightarrow> bool \<Rightarrow> packet_info \<Rightarrow> ('s, 'z) vbus_router_scheme
      \<Rightarrow> (bool \<times> ('s, 'z) vbus_router_scheme) option)
     \<Rightarrow> u8 list \<Rightarrow> u16 \<Rightarrow> u8 \<Rightarrow> u8 \<Rightarrow> bool \<Rightarrow> packet_info \<Rightarrow> ('s, 'z) vbus_router_scheme
     \<Rightarrow> (bool \<times> ('s, 'z) vbus_router_scheme) option" where
  "vbus_send_packet base payload len receiver_bus sender_bus ack_sent info vr =
     do { disable_ack \<leftarrow> (if vb_unknown_location vr
                         then do { bus \<leftarrow> get_bus vr receiver_bus;
                                   Some (is_vbus (ep_bus_id (pj_tx bus)) vr) }
                         else Some False);
          if disable_ack
          then do { (_, vr) \<leftarrow> base payload len receiver_bus sender_bus True
                                 (info\<lparr> pi_header := clear_flag (pi_header info) PJON_ACK_REQ_BIT \<rparr>) vr;
                    Some (ack_sent, vr) }
          else base payload len receiver_bus sender_bus ack_sent info vr }"

definition handle_send_error ::
  "build \<Rightarrow> router_build \<Rightarrow> u8 \<Rightarrow> u8 \<Rightarrow> ('s, 'z) vbus_router_scheme
     \<Rightarrow> ('s, 'z) vbus_router_scheme option" where
  "handle_send_error b rb code slot vr =
     (if code = PJON_CONNECTION_LOST
      then do { bus \<leftarrow> get_bus vr (sw_current_bus vr);
                if is_vbus (ep_bus_id (pj_tx bus)) vr \<and> (unat slot < max_packets b \<or> max_packets b = 0)
                then do { info \<leftarrow> (if max_packets b = 0 then parse b (pj_data bus) bus
                                  else parse b (pk_content (pj_packets bus ! unat slot)) bus);
                          let dev = ep_id (pi_rx info);
                          Some (if unat dev < vbus_max_devices rb \<and> is_vbus (ep_bus_id (pi_rx info)) vr \<and>
                                   vb_device_bus vr ! unat dev = sw_current_bus vr
                                then forget_device dev vr else vr) }
                else Some vr }
      else Some vr)"

definition vbus_error ::
  "build \<Rightarrow> router_build \<Rightarrow> u8 \<Rightarrow> u16 \<Rightarrow> ('s, 'z) vbus_router_scheme
     \<Rightarrow> ('s, 'z) vbus_router_scheme option" where
  "vbus_error b rb code arg vr = handle_send_error b rb code (ucast arg) vr"

definition vbus_receiver ::
  "router_build
     \<Rightarrow> (u8 list \<Rightarrow> u16 \<Rightarrow> packet_info \<Rightarrow> ('s, 'z) vbus_router_scheme
           \<Rightarrow> ('s, 'z) vbus_router_scheme option)
     \<Rightarrow> (u8 list \<Rightarrow> u16 \<Rightarrow> u8 \<Rightarrow> u8 \<Rightarrow> bool \<Rightarrow> packet_info \<Rightarrow> ('s, 'z) vbus_router_scheme
           \<Rightarrow> (bool \<times> ('s, 'z) vbus_router_scheme) option)
     \<Rightarrow> u8 list \<Rightarrow> u16 \<Rightarrow> packet_info \<Rightarrow> ('s, 'z) vbus_router_scheme
     \<Rightarrow> ('s, 'z) vbus_router_scheme option" where
  "vbus_receiver rb base deliver payload len info vr =
     (let vr = (if is_vbus (ep_bus_id (pi_tx info)) vr
                then register_device_on_vbus rb (ep_id (pi_tx info)) (sw_current_bus vr) vr else vr);
          (receiver_bus, vr) = find_vbus_with_device rb (ep_bus_id (pi_rx info)) (ep_id (pi_rx info)) vr
      in if receiver_bus \<noteq> PJON_NOT_ASSIGNED
         then (if receiver_bus \<noteq> sw_current_bus vr
               then do { (ack_sent, vr) \<leftarrow>
                           forward_packet deliver payload len receiver_bus (sw_current_bus vr) False info vr;
                         Some vr }
               else Some vr)
         else do { vr \<leftarrow> base payload len info (vr\<lparr> vb_unknown_location := True \<rparr>);
                   Some (vr\<lparr> vb_unknown_location := False \<rparr>) })"

text \<open>The virtual bus over a plain switch and over a dynamic router.\<close>

definition vbus_switch_send ::
  "build \<Rightarrow> router_build \<Rightarrow> nat \<Rightarrow> u8 list \<Rightarrow> u16 \<Rightarrow> u8 \<Rightarrow> u8 \<Rightarrow> bool \<Rightarrow> packet_info
     \<Rightarrow> ('s, 'z) vbus_router_scheme \<Rightarrow> (bool \<times> ('s, 'z) vbus_router_scheme) option" where
  "vbus_switch_send b rb fuel = vbus_send_packet (switch_send_packet b fuel (vbus_error b rb))"

definition vbus_switch_receiver ::
  "build \<Rightarrow> router_build \<Rightarrow> nat \<Rightarrow> u8 list \<Rightarrow> u16 \<Rightarrow> packet_info
     \<Rightarrow> ('s, 'z) vbus_router_scheme \<Rightarrow> ('s, 'z) vbus_router_scheme option" where
  "vbus_switch_receiver b rb fuel =
     vbus_receiver rb (switch_receiver find_bus_with_id (vbus_switch_send b rb fuel)) (vbus_switch_send b rb fuel)"

definition vbus_dynamic_receiver ::
  "build \<Rightarrow> router_build \<Rightarrow> nat \<Rightarrow> u8 list \<Rightarrow> u16 \<Rightarrow> packet_info
     \<Rightarrow> ('s, 'z) vbus_router_scheme \<Rightarrow> ('s, 'z) vbus_router_scheme option" where
  "vbus_dynamic_receiver b rb fuel =
     vbus_receiver rb (dynamic_receiver rb (vbus_switch_send b rb fuel)) (vbus_switch_send b rb fuel)"

subsection \<open>A router with a device of its own\<close>

text \<open>The user's callbacks are events; a callback that is not set (a null pointer) is not called.\<close>

datatype router_event =
    Router_Received "u8 list" u16 packet_info
  | Router_Error u8 u16 nat
  | Router_Sent "u8 list" u16 u8 u8 packet_info

record 's interactive_router = "'s vbus_router" +
  ir_custom_pointer :: nat
  ir_receiver :: bool
  ir_error :: bool
  ir_send_notification :: bool
  ir_router :: bool
  ir_events :: "router_event list"

definition ir_emit ::
  "bool \<Rightarrow> router_event \<Rightarrow> ('s, 'z) interactive_router_scheme \<Rightarrow> ('s, 'z) interactive_router_scheme" where
  "ir_emit is_set e ir = (if is_set then ir\<lparr> ir_events := ir_events ir @ [e] \<rparr> else ir)"

definition packet_is_for_me :: "packet_info \<Rightarrow> 's pjon \<Rightarrow> bool" where
  "packet_is_for_me info bus \<longleftrightarrow>
     ep_id (pj_tx bus) \<noteq> PJON_NOT_ASSIGNED \<and>
     same_bus_id (ep_bus_id (pj_tx bus)) (ep_bus_id (pi_rx info)) \<and>
     ep_id (pj_tx bus) = ep_id (pi_rx info)"

definition interactive_receiver ::
  "(u8 list \<Rightarrow> u16 \<Rightarrow> packet_info \<Rightarrow> ('s, 'z) interactive_router_scheme
      \<Rightarrow> ('s, 'z) interactive_router_scheme option)
     \<Rightarrow> u8 list \<Rightarrow> u16 \<Rightarrow> packet_info \<Rightarrow> ('s, 'z) interactive_router_scheme
     \<Rightarrow> ('s, 'z) interactive_router_scheme option" where
  "interactive_receiver base payload len info ir =
     do { (st, bus) \<leftarrow> port_at ir (sw_current_bus ir);
          let for_me = packet_is_for_me info bus;
          ir \<leftarrow> (if \<not> for_me then base payload len info ir
                else if flag (pi_header info) PJON_ACK_REQ_BIT
                then Some (set_bus (sw_current_bus ir) (send_acknowledge st bus) ir)
                else Some ir);
          Some (if ir_router ir \<or> for_me
                then ir_emit (ir_receiver ir)
                       (Router_Received payload len (info\<lparr> pi_custom_pointer := ir_custom_pointer ir \<rparr>)) ir
                else ir) }"

definition interactive_error ::
  "(u8 \<Rightarrow> u16 \<Rightarrow> ('s, 'z) interactive_router_scheme \<Rightarrow> ('s, 'z) interactive_router_scheme option)
     \<Rightarrow> u8 \<Rightarrow> u16 \<Rightarrow> ('s, 'z) interactive_router_scheme
     \<Rightarrow> ('s, 'z) interactive_router_scheme option" where
  "interactive_error base code arg ir =
     do { ir \<leftarrow> base code arg ir;
          Some (ir_emit (ir_error ir) (Router_Error code arg (ir_custom_pointer ir)) ir) }"

definition interactive_send_packet ::
  "(u8 list \<Rightarrow> u16 \<Rightarrow> u8 \<Rightarrow> u8 \<Rightarrow> bool \<Rightarrow> packet_info \<Rightarrow> ('s, 'z) interactive_router_scheme
      \<Rightarrow> (bool \<times> ('s, 'z) interactive_router_scheme) option)
     \<Rightarrow> u8 list \<Rightarrow> u16 \<Rightarrow> u8 \<Rightarrow> u8 \<Rightarrow> bool \<Rightarrow> packet_info \<Rightarrow> ('s, 'z) interactive_router_scheme
     \<Rightarrow> (bool \<times> ('s, 'z) interactive_router_scheme) option" where
  "interactive_send_packet base payload len receiver_bus sender_bus ack_sent info ir =
     do { (ack_sent, ir) \<leftarrow> base payload len receiver_bus sender_bus ack_sent info ir;
          Some (ack_sent, ir_emit (ir_send_notification ir)
                            (Router_Sent payload len receiver_bus sender_bus info) ir) }"

text \<open>The interactive router over a plain switch; sending is receiving from no bus.\<close>

definition interactive_switch_send ::
  "build \<Rightarrow> nat \<Rightarrow> u8 list \<Rightarrow> u16 \<Rightarrow> u8 \<Rightarrow> u8 \<Rightarrow> bool \<Rightarrow> packet_info
     \<Rightarrow> ('s, 'z) interactive_router_scheme \<Rightarrow> (bool \<times> ('s, 'z) interactive_router_scheme) option" where
  "interactive_switch_send b fuel =
     interactive_send_packet (switch_send_packet b fuel (interactive_error switch_error))"

definition interactive_switch_receiver ::
  "build \<Rightarrow> nat \<Rightarrow> u8 list \<Rightarrow> u16 \<Rightarrow> packet_info
     \<Rightarrow> ('s, 'z) interactive_router_scheme \<Rightarrow> ('s, 'z) interactive_router_scheme option" where
  "interactive_switch_receiver b fuel =
     interactive_receiver (switch_receiver find_bus_with_id (interactive_switch_send b fuel))"

definition interactive_send ::
  "build \<Rightarrow> nat \<Rightarrow> u8 list \<Rightarrow> u16 \<Rightarrow> packet_info
     \<Rightarrow> ('s, 'z) interactive_router_scheme \<Rightarrow> ('s, 'z) interactive_router_scheme option" where
  "interactive_send b fuel payload len info ir = interactive_switch_receiver b fuel payload len info ir"

definition ir_set_receiver ::
  "bool \<Rightarrow> ('s, 'z) interactive_router_scheme \<Rightarrow> ('s, 'z) interactive_router_scheme" where
  "ir_set_receiver is_set ir = ir\<lparr> ir_receiver := is_set \<rparr>"

definition ir_set_error ::
  "bool \<Rightarrow> ('s, 'z) interactive_router_scheme \<Rightarrow> ('s, 'z) interactive_router_scheme" where
  "ir_set_error is_set ir = ir\<lparr> ir_error := is_set \<rparr>"

definition ir_set_send_notification ::
  "bool \<Rightarrow> ('s, 'z) interactive_router_scheme \<Rightarrow> ('s, 'z) interactive_router_scheme" where
  "ir_set_send_notification is_set ir = ir\<lparr> ir_send_notification := is_set \<rparr>"

definition ir_set_custom_ptr ::
  "nat \<Rightarrow> ('s, 'z) interactive_router_scheme \<Rightarrow> ('s, 'z) interactive_router_scheme" where
  "ir_set_custom_ptr p ir = ir\<lparr> ir_custom_pointer := p \<rparr>"

definition ir_set_router ::
  "bool \<Rightarrow> ('s, 'z) interactive_router_scheme \<Rightarrow> ('s, 'z) interactive_router_scheme" where
  "ir_set_router on ir = ir\<lparr> ir_router := on \<rparr>"

subsection \<open>Construction\<close>

definition new_router :: "'s router" where
  "new_router = \<lparr> sw_buses = [], sw_default_gateway = PJON_NOT_ASSIGNED, sw_current_bus = PJON_NOT_ASSIGNED,
                  rt_table = [] \<rparr>"

definition new_router_buses ::
  "nat \<Rightarrow> nat \<Rightarrow> u8 \<Rightarrow> ('s strategy \<times> 's pjon) list \<Rightarrow> u8 \<Rightarrow> 's router option" where
  "new_router_buses max_buses this n buses gateway = connect_buses max_buses this n buses gateway new_router"

definition new_router2 ::
  "memory \<Rightarrow> nat \<Rightarrow> nat \<Rightarrow> 's strategy \<times> 's \<Rightarrow> 's strategy \<times> 's \<Rightarrow> u8 \<Rightarrow> 's router option" where
  "new_router2 m max_buses this A B gateway = connect_2 m max_buses this A B gateway new_router"

definition new_router3 ::
  "memory \<Rightarrow> nat \<Rightarrow> nat \<Rightarrow> 's strategy \<times> 's \<Rightarrow> 's strategy \<times> 's \<Rightarrow> 's strategy \<times> 's \<Rightarrow> u8
     \<Rightarrow> 's router option" where
  "new_router3 m max_buses this A B C gateway = connect_3 m max_buses this A B C gateway new_router"

definition new_dynamic_router2 ::
  "memory \<Rightarrow> nat \<Rightarrow> nat \<Rightarrow> 's strategy \<times> 's \<Rightarrow> 's strategy \<times> 's \<Rightarrow> u8 \<Rightarrow> 's router option" where
  "new_dynamic_router2 m max_buses this A B gateway = connect_2 m max_buses this A B gateway new_router"

definition new_dynamic_router3 ::
  "memory \<Rightarrow> nat \<Rightarrow> nat \<Rightarrow> 's strategy \<times> 's \<Rightarrow> 's strategy \<times> 's \<Rightarrow> 's strategy \<times> 's \<Rightarrow> u8
     \<Rightarrow> 's router option" where
  "new_dynamic_router3 m max_buses this A B C gateway = connect_3 m max_buses this A B C gateway new_router"

text \<open>\<open>activity\<close> is what the uninitialised array of the last activities holds.\<close>

definition new_vbus_router :: "router_build \<Rightarrow> u32 list \<Rightarrow> 's vbus_router" where
  "new_vbus_router rb activity = init_vbus rb
     \<lparr> sw_buses = [], sw_default_gateway = PJON_NOT_ASSIGNED, sw_current_bus = PJON_NOT_ASSIGNED,
       rt_table = [], vb_virtual_bus = PJON_NOT_ASSIGNED, vb_device_bus = [], vb_activity = activity,
       vb_unknown_location = False, vb_millis = 0 \<rparr>"

definition new_vbus_router2 ::
  "router_build \<Rightarrow> u32 list \<Rightarrow> memory \<Rightarrow> nat \<Rightarrow> nat \<Rightarrow> 's strategy \<times> 's \<Rightarrow> 's strategy \<times> 's \<Rightarrow> u8
     \<Rightarrow> 's vbus_router option" where
  "new_vbus_router2 rb activity m max_buses this A B gateway =
     connect_2 m max_buses this A B gateway (new_vbus_router rb activity)"

definition new_vbus_router3 ::
  "router_build \<Rightarrow> u32 list \<Rightarrow> memory \<Rightarrow> nat \<Rightarrow> nat \<Rightarrow> 's strategy \<times> 's \<Rightarrow> 's strategy \<times> 's
     \<Rightarrow> 's strategy \<times> 's \<Rightarrow> u8 \<Rightarrow> 's vbus_router option" where
  "new_vbus_router3 rb activity m max_buses this A B C gateway =
     connect_3 m max_buses this A B C gateway (new_vbus_router rb activity)"

definition new_interactive_router :: "router_build \<Rightarrow> u32 list \<Rightarrow> 's interactive_router" where
  "new_interactive_router rb activity = init_vbus rb
     \<lparr> sw_buses = [], sw_default_gateway = PJON_NOT_ASSIGNED, sw_current_bus = PJON_NOT_ASSIGNED,
       rt_table = [], vb_virtual_bus = PJON_NOT_ASSIGNED, vb_device_bus = [], vb_activity = activity,
       vb_unknown_location = False, vb_millis = 0, ir_custom_pointer = 0, ir_receiver = False,
       ir_error = False, ir_send_notification = False, ir_router = False, ir_events = [] \<rparr>"

definition new_interactive_router2 ::
  "router_build \<Rightarrow> u32 list \<Rightarrow> memory \<Rightarrow> nat \<Rightarrow> nat \<Rightarrow> 's strategy \<times> 's \<Rightarrow> 's strategy \<times> 's \<Rightarrow> u8
     \<Rightarrow> 's interactive_router option" where
  "new_interactive_router2 rb activity m max_buses this A B gateway =
     connect_2 m max_buses this A B gateway (new_interactive_router rb activity)"

definition new_interactive_router3 ::
  "router_build \<Rightarrow> u32 list \<Rightarrow> memory \<Rightarrow> nat \<Rightarrow> nat \<Rightarrow> 's strategy \<times> 's \<Rightarrow> 's strategy \<times> 's
     \<Rightarrow> 's strategy \<times> 's \<Rightarrow> u8 \<Rightarrow> 's interactive_router option" where
  "new_interactive_router3 rb activity m max_buses this A B C gateway =
     connect_3 m max_buses this A B C gateway (new_interactive_router rb activity)"

end
