(* ===== verification/Router_Laws.thy ===== *)
theory Router_Laws
  imports Router
begin

text \<open>
  What the routers add to the switch: the order of the search, the routing table that grows with the
  senders seen, and the devices of a virtual bus.
\<close>

subsection \<open>Attached buses first, then the table\<close>

definition table_routes :: "u8 list \<Rightarrow> nat \<Rightarrow> (u8 list \<times> u8) list \<Rightarrow> (nat \<times> u8) list" where
  "table_routes bus_id n table =
     map (\<lambda>i. (n + i, snd (table ! i))) (filter (\<lambda>i. same_bus_id bus_id (fst (table ! i))) [0..<length table])"

definition router_routes :: "u8 list \<Rightarrow> ('s, 'z) router_scheme \<Rightarrow> (nat \<times> u8) list" where
  "router_routes bus_id rt =
     attached_routes bus_id (bus_txs rt) @ table_routes bus_id (length (sw_buses rt)) (rt_table rt)"

definition router_ok :: "('s, 'z) router_scheme \<Rightarrow> bool" where
  "router_ok rt \<longleftrightarrow>
     length (sw_buses rt) + length (rt_table rt) \<le> 254 \<and>
     (\<forall>e \<in> set (rt_table rt). snd e \<noteq> PJON_NOT_ASSIGNED)"

lemma unat_bus_count: "length (sw_buses sw) \<le> 254 \<Longrightarrow> unat (bus_count sw) = length (sw_buses sw)"
  by (simp add: bus_count_def unat_of_nat)

lemma find_table_from_routes:
  "i + k = length table \<Longrightarrow> n + length table \<le> 254 \<Longrightarrow>
   find_table_from bus_id (of_nat n) table k i = next_route (routes_from (n + i) (table_routes bus_id n table))"
proof (induction k arbitrary: i)
  case 0
  then show ?case by (auto simp: routes_from_def table_routes_def next_route_def filter_map o_def)
next
  case (Suc k)
  let ?P = "\<lambda>i. same_bus_id bus_id (fst (table ! i))"
  have rf: "routes_from (n + j) (table_routes bus_id n table)
      = map (\<lambda>i. (n + i, snd (table ! i))) (filter ?P [j..<length table])" if "j \<le> length table" for j
  proof -
    have "[0..<length table] = [0..<j] @ [j..<length table]"
      using that by (metis le0 upt_add_eq_append le_add_diff_inverse)
    moreover have "filter (\<lambda>i. j \<le> i \<and> ?P i) [0..<j] = []" by (auto simp: filter_empty_conv)
    moreover have "filter (\<lambda>i. j \<le> i \<and> ?P i) [j..<length table] = filter ?P [j..<length table]"
      by (auto intro: filter_cong)
    ultimately show ?thesis
      by (simp add: routes_from_def table_routes_def filter_map o_def case_prod_beta conj_commute)
  qed
  have "[i..<length table] = i # [Suc i..<length table]" using Suc.prems(1) by (simp add: upt_conv_Cons)
  then show ?case
    using Suc.IH [of "Suc i"] Suc.prems rf [of i] rf [of "Suc i"] by (auto simp: next_route_def)
qed

lemma find_bus_in_table_routes:
  assumes "router_ok rt" and "bus_count rt \<le> start"
  shows "find_bus_in_table bus_id dev start rt
         = next_route (routes_from (unat start) (table_routes bus_id (length (sw_buses rt)) (rt_table rt)))"
proof -
  have n: "unat (bus_count rt) = length (sw_buses rt)" "bus_count rt = of_nat (length (sw_buses rt))"
    using assms(1) unat_bus_count [of rt] by (simp_all add: router_ok_def bus_count_def)
  have s: "unat start = length (sw_buses rt) + unat (start - bus_count rt)"
    using assms(2) n(1) by (simp add: unat_sub_if_size word_le_nat_alt)
  show ?thesis
  proof (cases "unat (start - bus_count rt) \<le> length (rt_table rt)")
    case True
    then show ?thesis
      using assms(1) s n find_table_from_routes [of "unat (start - bus_count rt)" _ "rt_table rt" "length (sw_buses rt)" bus_id]
      by (simp add: find_bus_in_table_def router_ok_def Let_def)
  next
    case False
    then have "routes_from (unat start) (table_routes bus_id (length (sw_buses rt)) (rt_table rt)) = []"
      using s by (auto simp: routes_from_def table_routes_def filter_empty_conv)
    then show ?thesis using False by (simp add: find_bus_in_table_def next_route_def Let_def)
  qed
qed

lemma routes_from_append: "routes_from n (xs @ ys) = routes_from n xs @ routes_from n ys"
  by (simp add: routes_from_def)

lemma next_route_append:
  "next_route (xs @ ys) = (if xs = [] then next_route ys else next_route xs)"
  by (cases xs) (simp_all add: next_route_def)

lemma next_route_assigned:
  assumes "wf_routes rs" "routes_from n rs \<noteq> []"
  shows "fst (next_route (routes_from n rs)) \<noteq> PJON_NOT_ASSIGNED"
  using assms by (auto simp: neq_Nil_conv next_route_def wf_routes_def routes_from_def filter_eq_Cons_iff)

lemma wf_router_routes: "router_ok rt \<Longrightarrow> wf_routes (router_routes bus_id rt)"
proof -
  assume ok: "router_ok rt"
  let ?n = "length (sw_buses rt)"
  have a: "wf_routes (attached_routes bus_id (bus_txs rt))"
    using ok by (intro wf_attached_routes) (simp add: router_ok_def bus_txs_def)
  have "sorted_wrt (<) (map fst (table_routes bus_id ?n (rt_table rt)))"
    by (auto simp: table_routes_def o_def sorted_wrt_map intro: sorted_wrt_filter sorted_wrt_mono_rel)
  moreover have "\<forall>x \<in> set (map fst (attached_routes bus_id (bus_txs rt))).
      \<forall>y \<in> set (map fst (table_routes bus_id ?n (rt_table rt))). x < y"
    by (auto simp: attached_routes_def table_routes_def bus_txs_def)
  moreover have "\<forall>(p, r) \<in> set (table_routes bus_id ?n (rt_table rt)). p < 254 \<and> r \<noteq> PJON_NOT_ASSIGNED"
    using ok by (auto simp: table_routes_def router_ok_def)
  ultimately show ?thesis
    using a by (auto simp: wf_routes_def router_routes_def sorted_wrt_append)
qed

lemma router_find_routes:
  assumes ok: "router_ok rt" and s: "start \<noteq> PJON_NOT_ASSIGNED"
  shows "router_find_bus_with_id bus_id dev start rt
         = next_route (routes_from (unat start) (router_routes bus_id rt))"
proof -
  let ?a = "attached_routes bus_id (bus_txs rt)"
  let ?t = "table_routes bus_id (length (sw_buses rt)) (rt_table rt)"
  have n: "unat (bus_count rt) = length (sw_buses rt)" "bus_count rt \<noteq> PJON_NOT_ASSIGNED"
    using ok by (simp_all add: router_ok_def unat_bus_count assigned_iff)
  have sok: "switch_ok rt" using ok by (simp add: switch_ok_def router_ok_def)
  have wa: "wf_routes ?a" using ok by (intro wf_attached_routes) (simp add: router_ok_def bus_txs_def)
  have wt: "wf_routes ?t"
    using wf_router_routes [OF ok, of bus_id] by (auto simp: router_routes_def wf_routes_def sorted_wrt_append)
  have na: "fst (next_route rs) = PJON_NOT_ASSIGNED \<Longrightarrow> snd (next_route rs) = PJON_NOT_ASSIGNED"
    if "rs = routes_from m ?t" for m rs
    unfolding that using next_route_assigned [OF wt, of m]
    by (cases "routes_from m ?t = []") (simp_all add: next_route_def)
  have t0: "routes_from (unat start) ?t = routes_from (length (sw_buses rt)) ?t" if "unat start \<le> length (sw_buses rt)"
    using that by (auto simp: routes_from_def table_routes_def intro!: filter_cong)
  have a0: "routes_from (unat start) ?a = []" if "length (sw_buses rt) \<le> unat start"
    using that by (auto simp: routes_from_def attached_routes_def bus_txs_def filter_empty_conv)
  show ?thesis
  proof (cases "start < bus_count rt")
    case True
    then have st: "unat start < length (sw_buses rt)" by (simp add: word_less_nat_alt n)
    show ?thesis
    proof (cases "routes_from (unat start) ?a = []")
      case False
      then have "fst (next_route (routes_from (unat start) ?a)) \<noteq> PJON_NOT_ASSIGNED"
        by (rule next_route_assigned [OF wa])
      then show ?thesis
        using True False
        by (cases "next_route (routes_from (unat start) ?a)")
          (simp add: router_find_bus_with_id_def find_attached_routes [OF sok] router_routes_def
            routes_from_append next_route_append)
    next
      case e: True
      have "router_find_bus_with_id bus_id dev start rt = next_route (routes_from (length (sw_buses rt)) ?t)"
        using True e n na [OF refl, of "length (sw_buses rt)"]
        by (cases "next_route (routes_from (length (sw_buses rt)) ?t)")
          (simp add: router_find_bus_with_id_def find_attached_routes [OF sok] next_route_def
            find_bus_in_table_routes [OF ok])
      then show ?thesis using e t0 st by (simp add: router_routes_def routes_from_append)
    qed
  next
    case False
    then have st: "length (sw_buses rt) \<le> unat start" by (simp add: word_less_nat_alt n)
    have "router_find_bus_with_id bus_id dev start rt = next_route (routes_from (unat start) ?t)"
      using False s na [OF refl, of "unat start"] leI [OF False]
      by (cases "next_route (routes_from (unat start) ?t)")
        (simp add: router_find_bus_with_id_def find_bus_in_table_routes [OF ok])
    then show ?thesis using a0 [OF st] by (simp add: router_routes_def routes_from_append)
  qed
qed

lemma quiet_rt_table: "quiet switch_error rt_table"
  by (simp add: quiet_def switch_error_def)

interpretation static: routing
  router_find_bus_with_id router_routes router_ok "switch_send_packet b fuel switch_error" "hop_ok b"
  for b fuel
proof (unfold_locales, goal_cases)
  case (3 sw info payload len r snd_bus ack ack' sw' bus_id)
  note K = switch_send_keeps [OF 3(3) quiet_rt_table 3(2)]
  have "length (sw_buses sw') = length (sw_buses sw)"
    using K(1) by (metis bus_txs_def length_map)
  then show ?case using K 3(1) by (simp add: router_ok_def router_routes_def)
qed (simp_all add: router_find_routes wf_router_routes)

text \<open>A router delivers a packet to the attached buses with the receiver's bus id, then through the
  attached buses its table names for that id, then to the default gateway, in this order, each unless
  it is the bus the packet came from.\<close>

theorem router_fanout:
  assumes "router_ok rt" and "hop_ok b info"
  shows "router_receiver b fuel payload len info rt
         = deliver_to (switch_send_packet b fuel switch_error) payload len info
             (map snd (attached_routes (searched_id info) (bus_txs rt))
              @ map snd (filter (\<lambda>e. same_bus_id (searched_id info) (fst e)) (rt_table rt))
              @ [sw_default_gateway rt]) False rt"
proof -
  have "map snd (table_routes bus_id n table) = map snd (filter (\<lambda>e. same_bus_id bus_id (fst e)) table)"
    for bus_id n and table :: "(u8 list \<times> u8) list"
  proof -
    have "map (\<lambda>i. snd (table ! i)) (filter (\<lambda>i. same_bus_id bus_id (fst (table ! i))) [0..<length table])
        = map snd (filter (\<lambda>e. same_bus_id bus_id (fst e)) (map (\<lambda>i. table ! i) [0..<length table]))"
      by (simp add: filter_map o_def)
    then show ?thesis by (simp add: table_routes_def o_def map_nth)
  qed
  then show ?thesis
    using static.receiver_walks [OF assms(2,1), of fuel payload len]
    by (simp add: router_receiver_def router_routes_def)
qed

definition sample_router :: "nat router" where
  "sample_router = \<lparr> sw_buses = replicate 2 (idle_strategy, sample_bus), sw_default_gateway = PJON_NOT_ASSIGNED,
                     sw_current_bus = 0, rt_table = [([1, 2, 3, 4], 1)] \<rparr>"

lemma sample_router_ok: "router_ok sample_router"
  by (simp add: router_ok_def sample_router_def PJON_NOT_ASSIGNED_def)

lemma router_fanout_witness:
  "router_receiver default_build 0 [64] 1 sample_info sample_router
     = deliver_to (switch_send_packet default_build 0 switch_error) [64] 1 sample_info
         [0, 1, PJON_NOT_ASSIGNED] False sample_router"
proof -
  have "searched_id sample_info = localhost" by (simp add: searched_id_def sample_info_def flag_simps)
  moreover have "map snd (attached_routes localhost (bus_txs sample_router)) = [0, 1]"
    by (simp add: attached_routes_def sample_router_def bus_txs_def upt_rec new_endpoint_def localhost_def same_bus_id_def)
  ultimately show ?thesis
    using router_fanout [OF sample_router_ok sample_switch_ok(2), of 0 "[64]" 1]
    by (simp add: sample_router_def localhost_def same_bus_id_def)
qed

subsection \<open>Learning routes\<close>

definition known_ids :: "('s, 'z) router_scheme \<Rightarrow> u8 list list" where
  "known_ids rt = map ep_bus_id (bus_txs rt) @ map fst (rt_table rt)"

lemma router_routes_empty:
  "router_routes bus_id rt = [] \<longleftrightarrow> (\<forall>x \<in> set (known_ids rt). \<not> same_bus_id bus_id x)"
proof -
  have "(\<forall>x \<in> set (known_ids rt). \<not> same_bus_id bus_id x) \<longleftrightarrow>
      (\<forall>e \<in> set (bus_txs rt). \<not> same_bus_id bus_id (ep_bus_id e)) \<and>
      (\<forall>e \<in> set (rt_table rt). \<not> same_bus_id bus_id (fst e))"
    by (auto simp: known_ids_def)
  then show ?thesis
    by (auto simp: router_routes_def attached_routes_def table_routes_def filter_empty_conv
        all_set_conv_all_nth [of "bus_txs rt"] all_set_conv_all_nth [of "rt_table rt"])
qed

lemma router_find_unknown:
  assumes "router_ok rt"
  shows "fst (router_find_bus_with_id bus_id dev 0 rt) = PJON_NOT_ASSIGNED \<longleftrightarrow>
         (\<forall>x \<in> set (known_ids rt). \<not> same_bus_id bus_id x)"
proof -
  have "routes_from 0 (router_routes bus_id rt) = router_routes bus_id rt" by (simp add: routes_from_def)
  then show ?thesis
    using router_find_routes [OF assms, of 0 bus_id dev] wf_router_routes [OF assms, of bus_id]
      next_route_assigned [of "router_routes bus_id rt" 0]
    by (cases "router_routes bus_id rt = []") (auto simp: router_routes_empty [symmetric] next_route_def PJON_NOT_ASSIGNED_def)
qed

text \<open>A dynamic router learns: when a packet arrives from a bus id it does not know and its table has
  room, a later search for that id leads to the bus the packet came from, and the routes of every other
  id are what they were.\<close>

theorem dynamic_learns:
  assumes "router_ok rt" and "\<forall>x \<in> set (known_ids rt). \<not> same_bus_id (ep_bus_id (pi_tx info)) x"
    and "length (rt_table rt) < router_table_size rb" and "length (sw_buses rt) + length (rt_table rt) < 254"
    and "via \<noteq> PJON_NOT_ASSIGNED" and "rt' = add_sender_to_routing_table rb info via rt"
  shows "fst (router_find_bus_with_id (ep_bus_id (pi_tx info)) dev 0 rt') = via \<and>
         (\<forall>other. \<not> same_bus_id other (ep_bus_id (pi_tx info)) \<longrightarrow>
            router_routes other rt' = router_routes other rt)"
proof -
  let ?id = "ep_bus_id (pi_tx info)"
  have "fst (router_find_bus_with_id ?id (ep_id (pi_tx info)) 0 rt) = PJON_NOT_ASSIGNED"
    using assms(2) router_find_unknown [OF assms(1)] by blast
  then have rt': "rt' = rt\<lparr> rt_table := rt_table rt @ [(take 4 ?id, via)] \<rparr>"
    using assms(3,6) by (auto simp: add_sender_to_routing_table_def router_add_def split: prod.splits)
  have ok: "router_ok rt'" using assms(1,4,5) by (auto simp: rt' router_ok_def)
  have r: "router_routes other rt' = router_routes other rt
      @ (if same_bus_id other ?id then [(length (sw_buses rt) + length (rt_table rt), via)] else [])" for other
  proof -
    have "filter (\<lambda>i. same_bus_id other (fst ((rt_table rt @ [(take 4 ?id, via)]) ! i))) [0..<length (rt_table rt)]
        = filter (\<lambda>i. same_bus_id other (fst (rt_table rt ! i))) [0..<length (rt_table rt)]"
      by (rule filter_cong) (simp_all add: nth_append)
    then show ?thesis
      by (simp add: rt' router_routes_def table_routes_def bus_txs_def same_bus_id_def nth_append)
  qed
  have "router_routes ?id rt = []" using assms(2) by (simp add: router_routes_empty)
  then have "router_find_bus_with_id ?id dev 0 rt' = next_route (router_routes ?id rt')"
    using router_find_routes [OF ok, of 0 ?id dev] by (simp add: routes_from_def PJON_NOT_ASSIGNED_def)
  then show ?thesis
    using r \<open>router_routes ?id rt = []\<close> by (simp add: next_route_def same_bus_id_def)
qed

lemma dynamic_learns_witness:
  "fst (router_find_bus_with_id [9, 9, 9, 9] 7 0
      (add_sender_to_routing_table \<lparr> router_table_size = 100, vbus_max_devices = 255, route_timeout = 0 \<rparr>
         (sample_info\<lparr> pi_tx := new_endpoint\<lparr> ep_bus_id := [9, 9, 9, 9] \<rparr> \<rparr>) 1 sample_router)) = 1"
proof -
  let ?info = "sample_info\<lparr> pi_tx := new_endpoint\<lparr> ep_bus_id := [9, 9, 9, 9] \<rparr> \<rparr>"
  have "\<forall>x \<in> set (known_ids sample_router). \<not> same_bus_id (ep_bus_id (pi_tx ?info)) x"
    by (simp add: known_ids_def sample_router_def bus_txs_def same_bus_id_def new_endpoint_def)
  from dynamic_learns [OF sample_router_ok this, of "\<lparr> router_table_size = 100, vbus_max_devices = 255, route_timeout = 0 \<rparr>" 1 _ 7]
  show ?thesis by (simp add: sample_router_def PJON_NOT_ASSIGNED_def)
qed






definition sample_routing :: router_build where
  "sample_routing = \<lparr> router_table_size = 100, vbus_max_devices = 255, route_timeout = 0 \<rparr>"



subsection \<open>The devices of a virtual bus\<close>

lemma vbus_frames [simp]:
  "is_vbus bus_id (forget_device d vr) = is_vbus bus_id vr"
  "sw_buses (forget_device d vr) = sw_buses vr" "sw_current_bus (forget_device d vr) = sw_current_bus vr"
  "sw_default_gateway (forget_device d vr) = sw_default_gateway vr"
  "is_vbus bus_id (register_device_on_vbus rb d a vr) = is_vbus bus_id vr"
  "sw_buses (register_device_on_vbus rb d a vr) = sw_buses vr"
  "sw_current_bus (register_device_on_vbus rb d a vr) = sw_current_bus vr"
  "vb_unknown_location (register_device_on_vbus rb d a vr) = vb_unknown_location vr"
  by (simp_all add: forget_device_def register_device_on_vbus_def is_vbus_def bus_count_def Let_def)

lemma register_device_bus [simp]:
  "vb_device_bus (register_device_on_vbus rb d a vr)
     = (if unat d < vbus_max_devices rb then (vb_device_bus vr)[unat d := a] else vb_device_bus vr)"
  by (simp add: register_device_on_vbus_def Let_def)



definition sample_vbus :: "nat vbus_router" where
  "sample_vbus =
     \<lparr> sw_buses = [(idle_strategy, sample_bus), (idle_strategy, sample_bus), (idle_strategy, sample_bus)],
       sw_default_gateway = 2, sw_current_bus = 0, rt_table = [], vb_virtual_bus = 0,
       vb_device_bus = (replicate 255 PJON_NOT_ASSIGNED)[30 := 1], vb_activity = [],
       vb_unknown_location = False, vb_millis = 0 \<rparr>"

definition to_device_30 :: packet_info where
  "to_device_30 = new_packet_info\<lparr> pi_rx := new_endpoint\<lparr> ep_id := 30 \<rparr> \<rparr>"

lemma sample_vbus_simps [simp]:
  "vbus_max_devices sample_routing = 255" "route_timeout sample_routing = 0"
  "\<not> vb_unknown_location sample_vbus" "is_vbus [0, 0, 0, 0] sample_vbus"
  "vb_device_bus sample_vbus ! 30 = 1" "length (vb_device_bus sample_vbus) = 255"
  "sw_current_bus sample_vbus = 0" "get_bus sample_vbus 0 = Some sample_bus"
  "ep_id (pi_rx to_device_30) = 30" "ep_bus_id (pi_rx to_device_30) = [0, 0, 0, 0]"
  "ep_id (pi_tx to_device_30) = PJON_NOT_ASSIGNED"
  by (simp_all add: sample_routing_def sample_vbus_def is_vbus_def bus_count_def same_bus_id_def
      new_endpoint_def get_bus_def port_at_def to_device_30_def new_packet_info_def)



text \<open>When a packet to a device of the virtual bus is lost on the bus the device is registered on, the
  device is forgotten (and only it), so that the next packet to it is searched on all parts again; a
  loss on another bus changes nothing.\<close>

theorem vbus_forgets:
  assumes "get_bus vr (sw_current_bus vr) = Some bus" and "is_vbus (ep_bus_id (pj_tx bus)) vr"
    and "unat slot < max_packets b" and "unat slot < 256"
    and "parse b (pk_content (pj_packets bus ! unat slot)) bus = Some info"
    and "is_vbus (ep_bus_id (pi_rx info)) vr" and "unat (ep_id (pi_rx info)) < vbus_max_devices rb"
    and "length (vb_device_bus vr) = vbus_max_devices rb"
  shows "\<exists>vr'. vbus_error b rb PJON_CONNECTION_LOST slot vr = Some vr' \<and>
           (if vb_device_bus vr ! unat (ep_id (pi_rx info)) = sw_current_bus vr
            then vb_device_bus vr' = (vb_device_bus vr)[unat (ep_id (pi_rx info)) := PJON_NOT_ASSIGNED] \<and>
                 fst (find_vbus_with_device rb (ep_bus_id (pi_rx info)) (ep_id (pi_rx info)) vr') = PJON_NOT_ASSIGNED
            else vr' = vr)"
proof -
  have u: "unat (ucast slot :: u8) = unat slot"
    using assms(4) by (simp add: unsigned_ucast_eq take_bit_eq_mod)
  have m: "max_packets b \<noteq> 0" using assms(3) by simp
  have e: "vbus_error b rb PJON_CONNECTION_LOST slot vr
      = Some (if vb_device_bus vr ! unat (ep_id (pi_rx info)) = sw_current_bus vr
              then forget_device (ep_id (pi_rx info)) vr else vr)"
    using assms(1-7) m u by (simp add: vbus_error_def handle_send_error_def)
  show ?thesis
    unfolding e using assms(6-8)
    by (auto simp: find_vbus_with_device_def forget_device_def is_vbus_def bus_count_def Let_def)
qed

lemma vbus_forgets_witness:
  "let bus = sample_bus\<lparr> pj_packets := [(new_packet (packet_image sample_info [64] @ replicate 43 0))] \<rparr>;
       vr = sample_vbus\<lparr> sw_buses := [(idle_strategy, bus)], vb_device_bus := replicate 255 0 \<rparr>
   in \<exists>vr'. vbus_error default_build sample_routing PJON_CONNECTION_LOST 0 vr = Some vr' \<and>
        vb_device_bus vr' = (replicate 255 0)[12 := PJON_NOT_ASSIGNED]"
proof -
  define bus where "bus = sample_bus\<lparr> pj_packets := [(new_packet (packet_image sample_info [64] @ replicate 43 0))] \<rparr>"
  define vr where "vr = sample_vbus\<lparr> sw_buses := [(idle_strategy, bus)], vb_device_bus := replicate 255 (0 :: u8) \<rparr>"
  have p: "parse_header default_build (packet_image sample_info [64] @ replicate 43 0) = Some (wire_info sample_info)"
    using sample_fits by (intro parse_packet_image) (simp_all add: fits_def)
  have g: "get_bus vr (sw_current_bus vr) = Some bus"
    by (simp add: vr_def get_bus_def port_at_def)
  define info where "info = (wire_info sample_info)\<lparr> pi_custom_pointer := 0 \<rparr>"
  have i: "parse default_build (pk_content (pj_packets bus ! unat 0)) bus = Some info"
    by (simp add: parse_def p bus_def new_packet_def info_def)
  have rx: "ep_id (pi_rx info) = 12" "ep_bus_id (pi_rx info) = [0, 0, 0, 0]"
    by (simp_all add: info_def wire_info_def sample_info_def flag_simps localhost_def new_endpoint_def Let_def)
  have v: "is_vbus [0, 0, 0, 0] vr" "sw_current_bus vr = 0" "vb_device_bus vr = replicate 255 0"
    by (simp_all add: vr_def bus_def is_vbus_def bus_count_def same_bus_id_def sample_vbus_def new_endpoint_def)
  have "\<exists>vr'. vbus_error default_build sample_routing PJON_CONNECTION_LOST 0 vr = Some vr' \<and>
      (if vb_device_bus vr ! unat (ep_id (pi_rx info)) = sw_current_bus vr
       then vb_device_bus vr' = (vb_device_bus vr)[unat (ep_id (pi_rx info)) := PJON_NOT_ASSIGNED] \<and>
            fst (find_vbus_with_device sample_routing (ep_bus_id (pi_rx info)) (ep_id (pi_rx info)) vr') = PJON_NOT_ASSIGNED
       else vr' = vr)"
    by (rule vbus_forgets [OF g _ _ _ i]) (use rx v in \<open>simp_all add: bus_def new_endpoint_def\<close>)
  then have "\<exists>vr'. vbus_error default_build sample_routing PJON_CONNECTION_LOST 0 vr = Some vr' \<and>
      vb_device_bus vr' = (replicate 255 0)[12 := PJON_NOT_ASSIGNED]"
    using rx v by auto
  then show ?thesis by (simp only: bus_def [symmetric] vr_def [symmetric] Let_def)
qed

subsection \<open>A router that is a device\<close>

text \<open>The interactive router looks up the bus of the current callback before anything else, and outside
  of a callback there is none: \<^verbatim>\<open>send_packet\<close>, the call by which a user sends a packet of its own, reads
  the array of buses out of bounds unless it is made from within a callback.\<close>

theorem interactive_send_faults:
  assumes "length (sw_buses ir) \<le> 254" and "switch_loop b n on_receive on_error ir0 = Some ir"
  shows "interactive_send b fuel payload len info ir = None"
proof -
  have "sw_current_bus ir = PJON_NOT_ASSIGNED"
    using assms(2) by (auto simp: switch_loop_def elim!: bind_SomeE)
  then have "port_at ir (sw_current_bus ir) = None"
    using assms(1) by (simp add: port_at_def PJON_NOT_ASSIGNED_def)
  then show ?thesis
    by (simp add: interactive_send_def interactive_switch_receiver_def interactive_receiver_def)
qed

lemma interactive_send_faults_witness:
  "\<exists>ir. switch_loop default_build 0 (\<lambda>p n i sw. Some sw) switch_error
          \<lparr> sw_buses = [], sw_default_gateway = 255, sw_current_bus = 0, rt_table = [], vb_virtual_bus = 0,
            vb_device_bus = [], vb_activity = [], vb_unknown_location = False, vb_millis = 0,
            ir_custom_pointer = 0, ir_receiver = True, ir_error = True, ir_send_notification = True,
            ir_router = False, ir_events = [] \<rparr> = Some ir \<and>
        interactive_send default_build 0 [64] 1 sample_info (ir :: nat interactive_router) = None"
proof -
  define ir0 :: "nat interactive_router" where "ir0 =
    \<lparr> sw_buses = [], sw_default_gateway = 255, sw_current_bus = 0, rt_table = [], vb_virtual_bus = 0,
      vb_device_bus = [], vb_activity = [], vb_unknown_location = False, vb_millis = 0,
      ir_custom_pointer = 0, ir_receiver = True, ir_error = True, ir_send_notification = True,
      ir_router = False, ir_events = [] \<rparr>"
  have l: "switch_loop default_build 0 (\<lambda>p n i sw. Some sw) switch_error ir0
      = Some (ir0\<lparr> sw_current_bus := PJON_NOT_ASSIGNED \<rparr>)"
    by (simp add: switch_loop_def ir0_def)
  have "interactive_send default_build 0 [64] 1 sample_info (ir0\<lparr> sw_current_bus := PJON_NOT_ASSIGNED \<rparr>) = None"
    by (rule interactive_send_faults [OF _ l]) (simp add: ir0_def)
  with l show ?thesis by (auto simp: ir0_def)
qed

end
