(* ===== verification/Local_Bus.thy ===== *)
theory Local_Bus
  imports Receive_Laws
begin

text \<open>
  \<^verbatim>\<open>PJONLocal<Strategy>\<close> of \<^verbatim>\<open>src/PJONLocal.h\<close>, the bus without a packet buffer for small devices.  It
  shares the composer, the parser and the checksums with \<^verbatim>\<open>PJON<Strategy>\<close> and has a receiver of its own,
  which works on a buffer of the caller.

  The parts under \<^verbatim>\<open>PJON_INCLUDE_PACKET_ID\<close> that deal with known packets read \<^verbatim>\<open>info.sender_id\<close>, a member
  \<^verbatim>\<open>PJON_Packet_Info\<close> does not have: such a build does not compile, so they are not modelled, and the
  receiver is that of a build without packet ids.
\<close>

subsection \<open>State and configuration\<close>

record 's pjon_local =
  lo_strategy :: 's
  lo_config :: u8
  lo_port :: u16
  lo_last_send :: u32
  lo_mode :: bool
  lo_packet_id_seed :: u16
  lo_router :: bool
  lo_retries :: u8
  lo_device_id :: u8

definition local_set_default :: "'s pjon_local \<Rightarrow> 's pjon_local" where
  "local_set_default lo = lo\<lparr> lo_mode := PJON_HALF_DUPLEX \<rparr>"

definition new_local_id :: "'s \<Rightarrow> u8 \<Rightarrow> 's pjon_local" where
  "new_local_id s i = local_set_default
     \<lparr> lo_strategy = s, lo_config = PJON_TX_INFO_BIT OR PJON_ACK_REQ_BIT, lo_port = ucast PJON_BROADCAST,
       lo_last_send = 0, lo_mode = PJON_HALF_DUPLEX, lo_packet_id_seed = 0, lo_router = False,
       lo_retries = 0, lo_device_id = i \<rparr>"

definition new_local :: "'s \<Rightarrow> 's pjon_local" where
  "new_local s = local_set_default (new_local_id s PJON_NOT_ASSIGNED)"

definition local_strategy :: "('s \<Rightarrow> 'a \<times> 's) \<Rightarrow> 's pjon_local \<Rightarrow> 'a \<times> 's pjon_local" where
  "local_strategy f lo = (let (x, s) = f (lo_strategy lo) in (x, lo\<lparr> lo_strategy := s \<rparr>))"

definition local_on_strategy :: "('s \<Rightarrow> 's) \<Rightarrow> 's pjon_local \<Rightarrow> 's pjon_local" where
  "local_on_strategy f lo = lo\<lparr> lo_strategy := f (lo_strategy lo) \<rparr>"

definition local_begin :: "'s strategy \<Rightarrow> build \<Rightarrow> 's pjon_local \<Rightarrow> 's pjon_local" where
  "local_begin st b lo =
     (let (ok, lo) = local_strategy (st_begin st (lo_device_id lo)) lo
      in if include_packet_id b
         then let (r, lo) = local_strategy (pf_random st 65535) lo
              in lo\<lparr> lo_packet_id_seed := ucast r + ucast (lo_device_id lo) \<rparr>
         else lo)"

definition local_device_id :: "'s pjon_local \<Rightarrow> u8" where
  "local_device_id lo = lo_device_id lo"

definition local_set_config_bit :: "bool \<Rightarrow> u8 \<Rightarrow> 's pjon_local \<Rightarrow> 's pjon_local" where
  "local_set_config_bit new_state b lo =
     (if new_state then lo\<lparr> lo_config := lo_config lo OR b \<rparr>
      else lo\<lparr> lo_config := lo_config lo AND NOT b \<rparr>)"

definition local_set_acknowledge :: "bool \<Rightarrow> 's pjon_local \<Rightarrow> 's pjon_local" where
  "local_set_acknowledge state = local_set_config_bit state PJON_ACK_REQ_BIT"

definition local_set_crc_32 :: "bool \<Rightarrow> 's pjon_local \<Rightarrow> 's pjon_local" where
  "local_set_crc_32 state = local_set_config_bit state PJON_CRC_BIT"

definition local_include_sender_info :: "bool \<Rightarrow> 's pjon_local \<Rightarrow> 's pjon_local" where
  "local_include_sender_info state = local_set_config_bit state PJON_TX_INFO_BIT"

definition local_set_packet_id :: "bool \<Rightarrow> 's pjon_local \<Rightarrow> 's pjon_local" where
  "local_set_packet_id state = local_set_config_bit state PJON_PACKET_ID_BIT"

definition local_include_port :: "u16 \<Rightarrow> 's pjon_local \<Rightarrow> 's pjon_local" where
  "local_include_port p lo = (local_set_config_bit (p \<noteq> 0) PJON_PORT_BIT lo)\<lparr> lo_port := p \<rparr>"

definition local_set_communication_mode :: "bool \<Rightarrow> 's pjon_local \<Rightarrow> 's pjon_local" where
  "local_set_communication_mode mode lo = lo\<lparr> lo_mode := mode \<rparr>"

definition local_set_id :: "u8 \<Rightarrow> 's pjon_local \<Rightarrow> 's pjon_local" where
  "local_set_id i lo = lo\<lparr> lo_device_id := i \<rparr>"

definition local_set_router :: "bool \<Rightarrow> 's pjon_local \<Rightarrow> 's pjon_local" where
  "local_set_router state lo = lo\<lparr> lo_router := state \<rparr>"

subsection \<open>Composing and sending\<close>

definition local_info ::
  "build \<Rightarrow> u8 \<Rightarrow> u8 \<Rightarrow> u16 \<Rightarrow> u16 \<Rightarrow> 's pjon_local \<Rightarrow> packet_info \<times> 's pjon_local" where
  "local_info b i header packet_id rx_port lo =
     (let info = new_packet_info;
          info = info\<lparr> pi_rx := (pi_rx info)\<lparr> ep_id := i \<rparr>,
                       pi_tx := (pi_tx info)\<lparr> ep_id := lo_device_id lo \<rparr>,
                       pi_header := (if header = PJON_NO_HEADER then lo_config lo else header) \<rparr>;
          (info, lo) =
            (if include_packet_id b
             then if packet_id = 0 \<and> flag (pi_header info) PJON_PACKET_ID_BIT
                  then (info\<lparr> pi_id := new_packet_id (lo_packet_id_seed lo) \<rparr>,
                        lo\<lparr> lo_packet_id_seed := lo_packet_id_seed lo + 1 \<rparr>)
                  else (info\<lparr> pi_id := packet_id \<rparr>, lo)
             else (info, lo))
      in (if include_port b
          then info\<lparr> pi_port := (if rx_port = ucast PJON_BROADCAST then lo_port lo else rx_port) \<rparr>
          else info, lo))"

definition local_compose_packet ::
  "build \<Rightarrow> u8 \<Rightarrow> u8 list \<Rightarrow> u8 list \<Rightarrow> u16 \<Rightarrow> u8 \<Rightarrow> u16 \<Rightarrow> u16 \<Rightarrow> 's pjon_local
     \<Rightarrow> (u8 list \<times> u16 \<times> 's pjon_local) option" where
  "local_compose_packet b i destination source len header packet_id rx_port lo =
     (let (info, lo) = local_info b i header packet_id rx_port lo in
      do { (destination, l) \<leftarrow> tools_compose_packet b info destination source len;
           Some (destination, l, lo) })"

text \<open>The start of the payload, as an offset in the buffer.\<close>

definition local_get_payload :: "u8 list \<Rightarrow> nat" where
  "local_get_payload buffer = unat (packet_overhead (buffer ! 1)) - unat (crc_overhead (buffer ! 1))"

definition local_ready_to_send :: "'s strategy \<Rightarrow> 's pjon_local \<Rightarrow> bool \<times> 's pjon_local" where
  "local_ready_to_send st lo =
     (let (ready, lo) =
            (if lo_retries lo = 0 then (True, lo)
             else let (now, lo) = local_strategy (pf_micros st) lo;
                      (wait, lo) = local_strategy (st_back_off st (lo_retries lo)) lo
                  in (now - lo_last_send lo > wait, lo))
      in if ready then local_strategy (st_can_start st) lo else (False, lo))"

text \<open>The answer to a transmitted packet.\<close>

definition local_response :: "'s strategy \<Rightarrow> 's pjon_local \<Rightarrow> u16 \<times> 's pjon_local" where
  "local_response st lo =
     (let (response, lo) = local_strategy (st_receive_response st) lo in
      if response = PJON_ACK then (response, lo\<lparr> lo_retries := 0 \<rparr>)
      else let lo = (if lo_retries lo < st_max_attempts st then lo\<lparr> lo_retries := lo_retries lo + 1 \<rparr>
                     else lo\<lparr> lo_retries := 0 \<rparr>)
           in (if response = PJON_FAIL then response else PJON_BUSY, lo))"

definition local_send_packet ::
  "'s strategy \<Rightarrow> u8 list \<Rightarrow> u16 \<Rightarrow> 's pjon_local \<Rightarrow> (u16 \<times> 's pjon_local) option" where
  "local_send_packet st payload len lo =
     do { let (now, lo) = local_strategy (pf_micros st) lo;
          let lo = lo\<lparr> lo_last_send := now \<rparr>;
          frame \<leftarrow> rd_block payload 0 (unat len);
          let lo = local_on_strategy (st_send_frame st frame) lo;
          p0 \<leftarrow> rd payload 0;
          no_response \<leftarrow> (if p0 = PJON_BROADCAST then Some True
                          else do { p1 \<leftarrow> rd payload 1;
                                    Some (\<not> flag p1 PJON_ACK_REQ_BIT \<or> lo_mode lo = PJON_SIMPLEX) });
          Some (if no_response then (PJON_ACK, lo\<lparr> lo_retries := 0 \<rparr>) else local_response st lo) }"

definition local_send_packet_to ::
  "'s strategy \<Rightarrow> build \<Rightarrow> u8 \<Rightarrow> u8 list \<Rightarrow> u8 list \<Rightarrow> u16 \<Rightarrow> u8 \<Rightarrow> u16 \<Rightarrow> u16 \<Rightarrow> 's pjon_local
     \<Rightarrow> (u16 \<times> u8 list \<times> 's pjon_local) option" where
  "local_send_packet_to st b i buffer payload len header packet_id rx_port lo =
     do { (buffer, l, lo) \<leftarrow> local_compose_packet b i buffer payload len header packet_id rx_port lo;
          if l = 0 then Some (PJON_FAIL, buffer, lo)
          else do { (r, lo) \<leftarrow> local_send_packet st buffer l lo;
                    Some (r, buffer, lo) } }"

definition local_send_acknowledge :: "'s strategy \<Rightarrow> 's pjon_local \<Rightarrow> 's pjon_local" where
  "local_send_acknowledge st lo = local_on_strategy (st_send_response st PJON_ACK) lo"

subsection \<open>Receiving\<close>

record local_vars =
  lv_length :: u16
  lv_batch :: u16
  lv_overhead :: u8
  lv_extended :: bool

definition local_init :: "build \<Rightarrow> local_vars" where
  "local_init b = \<lparr> lv_length = of_nat (packet_max_length b), lv_batch = 0, lv_overhead = 0, lv_extended = False \<rparr>"

text \<open>The left value of a sum is what \<^verbatim>\<open>receive\<close> returns early.\<close>

definition local_fetch ::
  "'s strategy \<Rightarrow> nat \<Rightarrow> local_vars \<Rightarrow> u8 list \<Rightarrow> 's \<Rightarrow> ((u16 + local_vars) \<times> u8 list \<times> 's) option" where
  "local_fetch st i lv buffer s =
     (if lv_batch lv = 0
      then (let (r, bs, s) = st_receive_frame st (lv_length lv - of_nat i) s in
            do { buffer \<leftarrow> wr_block i bs buffer;
                 if r = PJON_FAIL \<or> r = 0 then Some (Inl 0, buffer, s)
                 else Some (Inr (lv\<lparr> lv_batch := r - 1 \<rparr>), buffer, s) })
      else Some (Inr (lv\<lparr> lv_batch := lv_batch lv - 1 \<rparr>), buffer, s))"

definition local_header_refused :: "build \<Rightarrow> u8 \<Rightarrow> u8 \<Rightarrow> bool" where
  "local_header_refused b d0 d1 \<longleftrightarrow>
     flag d1 PJON_MODE_BIT \<or> flag d1 PJON_MAC_BIT \<or>
     (d0 = PJON_BROADCAST \<and> flag d1 PJON_ACK_REQ_BIT) \<or>
     (flag d1 PJON_EXT_LEN_BIT \<and> \<not> flag d1 PJON_CRC_BIT) \<or>
     (\<not> include_packet_id b \<and> flag d1 PJON_PACKET_ID_BIT)"

definition local_length_check :: "build \<Rightarrow> u16 \<Rightarrow> u8 \<Rightarrow> local_vars \<Rightarrow> u16 + local_vars" where
  "local_length_check b len d1 lv =
     (if len < ucast (lv_overhead lv) \<or> unat len \<ge> packet_max_length b then Inl 0
      else if len > 15 \<and> \<not> flag d1 PJON_CRC_BIT then Inl PJON_BUSY
      else Inr (lv\<lparr> lv_length := len \<rparr>))"

definition local_check ::
  "build \<Rightarrow> nat \<Rightarrow> local_vars \<Rightarrow> u8 list \<Rightarrow> 's pjon_local \<Rightarrow> (u16 + local_vars) option" where
  "local_check b i lv buffer lo =
     do { x \<leftarrow> rd buffer i;
          if i = 0 \<and> \<not> lo_router lo \<and> x \<noteq> lo_device_id lo \<and> x \<noteq> PJON_BROADCAST then Some (Inl 0)
          else if i = 1
          then do { d0 \<leftarrow> rd buffer 0;
                    if local_header_refused b d0 x then Some (Inl 0)
                    else Some (Inr (lv\<lparr> lv_extended := flag x PJON_EXT_LEN_BIT,
                                        lv_overhead := packet_overhead x \<rparr>)) }
          else if i = 2 \<and> \<not> lv_extended lv
          then do { d1 \<leftarrow> rd buffer 1; Some (local_length_check b (ucast x) d1 lv) }
          else if i = 3 \<and> lv_extended lv
          then do { hi \<leftarrow> rd buffer (i - 1);
                    d1 \<leftarrow> rd buffer 1;
                    Some (local_length_check b (join16 hi x) d1 lv) }
          else Some (Inr lv) }"

function local_receive_loop ::
  "'s strategy \<Rightarrow> build \<Rightarrow> nat \<Rightarrow> local_vars \<Rightarrow> u8 list \<Rightarrow> 's pjon_local
     \<Rightarrow> ((u16 + local_vars) \<times> u8 list \<times> 's pjon_local) option" where
  "local_receive_loop st b i lv buffer lo =
     (if i < unat (lv_length lv)
      then (case local_fetch st i lv buffer (lo_strategy lo) of
              None \<Rightarrow> None
            | Some (Inl code, buffer, s) \<Rightarrow> Some (Inl code, buffer, lo\<lparr> lo_strategy := s \<rparr>)
            | Some (Inr lv, buffer, s) \<Rightarrow>
                (case local_check b i lv buffer (lo\<lparr> lo_strategy := s \<rparr>) of
                   None \<Rightarrow> None
                 | Some (Inl code) \<Rightarrow> Some (Inl code, buffer, lo\<lparr> lo_strategy := s \<rparr>)
                 | Some (Inr lv) \<Rightarrow> local_receive_loop st b (Suc i) lv buffer (lo\<lparr> lo_strategy := s \<rparr>)))
      else Some (Inr lv, buffer, lo))"
  by pat_completeness auto
termination
proof (relation "measure (\<lambda>(st, b, i, lv, buffer, lo). 65536 - i)", goal_cases)
  case (2 st b i lv buffer lo)
  then show ?case using unsigned_less [of "lv_length lv", where 'a = nat] by simp
qed simp

declare local_receive_loop.simps [simp del]

definition local_crc_ok :: "local_vars \<Rightarrow> u8 list \<Rightarrow> bool option" where
  "local_crc_ok lv d =
     do { let k = 3 + of_bool (lv_extended lv);
          let n = unat (lv_length lv);
          meta \<leftarrow> rd_block d 0 k;
          c \<leftarrow> rd d k;
          if crc8_compute meta \<noteq> c then Some False
          else do {
            d1 \<leftarrow> rd d 1;
            if flag d1 PJON_CRC_BIT
            then if n < 4 then None
                 else do { body \<leftarrow> rd_block d 0 (n - 4);
                           check \<leftarrow> rd_block d (n - 4) 4;
                           crc32_compare (crc32_compute body 0) check }
            else if n < 1 then None
                 else do { body \<leftarrow> rd_block d 0 (n - 1);
                           c \<leftarrow> rd d (n - 1);
                           Some (crc8_compute body = c) } } }"

definition local_result :: "build \<Rightarrow> local_vars \<Rightarrow> packet_info \<Rightarrow> 's pjon_local \<Rightarrow> u16" where
  "local_result b lv info lo =
     (if include_port b \<and> lo_port lo \<noteq> ucast PJON_BROADCAST \<and> lo_port lo \<noteq> pi_port info
      then 0 else lv_length lv - ucast (lv_overhead lv))"

definition local_finish ::
  "'s strategy \<Rightarrow> build \<Rightarrow> local_vars \<Rightarrow> u8 list \<Rightarrow> 's pjon_local \<Rightarrow> (u16 \<times> 's pjon_local) option" where
  "local_finish st b lv buffer lo =
     do { d0 \<leftarrow> rd buffer 0;
          d1 \<leftarrow> rd buffer 1;
          let lo = (if flag d1 PJON_ACK_REQ_BIT \<and> d0 \<noteq> PJON_BROADCAST \<and>
                       lo_mode lo \<noteq> PJON_SIMPLEX \<and> \<not> lo_router lo
                    then local_on_strategy (st_send_response st PJON_ACK) lo else lo);
          info \<leftarrow> parse_header b buffer;
          Some (local_result b lv info lo, lo) }"

definition local_receive ::
  "'s strategy \<Rightarrow> build \<Rightarrow> u8 list \<Rightarrow> 's pjon_local \<Rightarrow> (u16 \<times> u8 list \<times> 's pjon_local) option" where
  "local_receive st b buffer lo =
     do { (r, buffer, lo) \<leftarrow> local_receive_loop st b 0 (local_init b) buffer lo;
          case r of
            Inl code \<Rightarrow> Some (code, buffer, lo)
          | Inr lv \<Rightarrow>
              do { ok \<leftarrow> local_crc_ok lv buffer;
                   if \<not> ok then Some (0, buffer, lo)
                   else do { (n, lo) \<leftarrow> local_finish st b lv buffer lo;
                             Some (n, buffer, lo) } } }"

end
