(* ===== verification/Local_Bus_Laws.thy ===== *)
theory Local_Bus_Laws
  imports Local_Bus
begin

text \<open>
  What the receiver of \<^verbatim>\<open>PJONLocal\<close> accepts, what its return value means, that it stays inside of the
  caller's buffer, and the round trip from any composer to it.
\<close>

subsection \<open>The loop as a test of the bytes received\<close>

text \<open>The builds the receiver is modelled for; 10 bytes hold every header it parses.\<close>

definition local_build :: "build \<Rightarrow> bool" where
  "local_build b \<longleftrightarrow>
     \<not> include_packet_id b \<and> \<not> include_mac b \<and> 10 \<le> packet_max_length b \<and> packet_max_length b \<le> 65535"

definition local_not_mine :: "'s pjon_local \<Rightarrow> u8 \<Rightarrow> bool" where
  "local_not_mine lo x \<longleftrightarrow> \<not> lo_router lo \<and> x \<noteq> lo_device_id lo \<and> x \<noteq> PJON_BROADCAST"

definition local_refusal :: "build \<Rightarrow> 's pjon_local \<Rightarrow> u8 list \<Rightarrow> nat \<Rightarrow> u16 option" where
  "local_refusal b lo d i =
     (if i = 0 \<and> local_not_mine lo (d ! 0) then Some 0
      else if i = 1 \<and> local_header_refused b (d ! 0) (d ! 1) then Some 0
      else if i = 2 \<and> \<not> extended_packet d \<or> i = 3 \<and> extended_packet d
      then let n = unat (announced_length d) in
           if n < overhead_nat (d ! 1) \<or> packet_max_length b \<le> n then Some 0
           else if 15 < n \<and> \<not> flag (d ! 1) PJON_CRC_BIT then Some PJON_BUSY else None
      else None)"

definition lv_at :: "build \<Rightarrow> u8 list \<Rightarrow> nat \<Rightarrow> u16 \<Rightarrow> local_vars" where
  "lv_at b d i batch =
     \<lparr> lv_length = (if 3 \<le> i \<and> \<not> extended_packet d \<or> 4 \<le> i then announced_length d
                    else of_nat (packet_max_length b)),
       lv_batch = batch, lv_overhead = (if 2 \<le> i then packet_overhead (d ! 1) else 0),
       lv_extended = (2 \<le> i \<and> extended_packet d) \<rparr>"

lemma lv_at_simps [simp]:
  "lv_batch (lv_at b d i k) = k" "(lv_at b d i k)\<lparr> lv_batch := k' \<rparr> = lv_at b d i k'"
  "lv_length (lv_at b d i k) = (if 3 \<le> i \<and> \<not> extended_packet d \<or> 4 \<le> i
     then announced_length d else of_nat (packet_max_length b))"
  by (simp_all add: lv_at_def)

lemma local_init_at: "local_init b = lv_at b d 0 0"
  by (simp add: local_init_def lv_at_def)

lemma local_refusal_code: "local_refusal b lo d i = Some c \<Longrightarrow> c = 0 \<or> c = PJON_BUSY"
  by (auto simp: local_refusal_def Let_def split: if_splits)

lemma local_refusal_strategy [simp]: "local_refusal b (lo\<lparr> lo_strategy := s \<rparr>) = local_refusal b lo"
  by (simp add: fun_eq_iff local_refusal_def local_not_mine_def)

lemma local_length_check_eq:
  "local_length_check b n d1 lv =
     (if unat n < unat (lv_overhead lv) \<or> packet_max_length b \<le> unat n then Inl 0
      else if 15 < unat n \<and> \<not> flag d1 PJON_CRC_BIT then Inl PJON_BUSY else Inr (lv\<lparr> lv_length := n \<rparr>))"
  by (simp add: local_length_check_def word_less_nat_alt)

lemma local_check_eq:
  assumes "i < length d" "1 < length d"
  shows "local_check b i (lv_at b d i k) d lo =
           Some (case local_refusal b lo d i of Some c \<Rightarrow> Inl c | None \<Rightarrow> Inr (lv_at b d (Suc i) k))"
proof -
  have rd: "rd d i = Some (d ! i)" "rd d 0 = Some (d ! 0)" "rd d 1 = Some (d ! 1)"
    using assms by (auto simp: rd_def)
  consider "i = 0" | "i = 1" | "i = 2" | "i = 3" | "4 \<le> i" by linarith
  then show ?thesis
  proof cases
    case 1
    then show ?thesis using rd
      by (simp add: local_check_def lv_at_def local_refusal_def local_not_mine_def)
  next
    case 2
    then show ?thesis using rd
      by (simp add: local_check_def lv_at_def local_refusal_def extended_packet_def)
  next
    case 3
    then show ?thesis using rd
      by (cases "extended_packet d")
        (simp_all add: local_check_def lv_at_def local_refusal_def announced_length_def local_length_check_eq
          unat_packet_overhead Let_def)
  next
    case 4
    then have "rd d 2 = Some (d ! 2)" using assms by (auto simp: rd_def)
    then show ?thesis using rd 4
      by (cases "extended_packet d")
        (simp_all add: local_check_def lv_at_def local_refusal_def announced_length_def local_length_check_eq
          unat_packet_overhead Let_def)
  next
    case 5
    then show ?thesis using rd by (simp add: local_check_def lv_at_def local_refusal_def)
  qed
qed

text \<open>Only the bytes up to \<open>i\<close> matter.\<close>

lemma lv_at_cong:
  assumes "take i d = take i d'"
  shows "lv_at b d i k = lv_at b d' i k"
proof -
  note n = take_nth_eq [OF assms]
  consider "i = 0" | "i = 1" | "i = 2" | "i = 3" | "4 \<le> i" by linarith
  then show ?thesis
    by cases (use n [of 0] n [of 1] n [of 2] n [of 3] in
      \<open>simp_all add: lv_at_def extended_packet_def announced_length_def\<close>)
qed

lemma local_refusal_cong:
  assumes "take (Suc i) d = take (Suc i) d'"
  shows "local_refusal b lo d i = local_refusal b lo d' i"
proof -
  note n = take_nth_eq [OF assms]
  consider "i = 0" | "i = 1" | "i = 2" | "i = 3" | "4 \<le> i" by linarith
  then show ?thesis
    by cases (use n [of 0] n [of 1] n [of 2] n [of 3] n [of i] in
      \<open>simp_all add: local_refusal_def extended_packet_def announced_length_def Let_def\<close>)
qed

definition passed :: "build \<Rightarrow> 's pjon_local \<Rightarrow> u8 list \<Rightarrow> nat \<Rightarrow> bool" where
  "passed b lo d i \<longleftrightarrow> (\<forall>j < i. local_refusal b lo d j = None)"

lemma passed_strategy [simp]: "passed b (lo\<lparr> lo_strategy := s \<rparr>) = passed b lo"
  by (simp add: fun_eq_iff passed_def)

lemma passed_cong:
  assumes "take i d = take i d'" and "passed b lo d i"
  shows "passed b lo d' i"
proof -
  have "take (Suc j) d = take (Suc j) d'" if "j < i" for j
    using arg_cong [OF assms(1), of "take (Suc j)"] that by (simp add: min_def)
  then show ?thesis using assms(2) local_refusal_cong by (metis passed_def)
qed

lemma passed_announced:
  assumes "passed b lo d i" and "3 \<le> i \<and> \<not> extended_packet d \<or> 4 \<le> i"
  shows "overhead_nat (d ! 1) \<le> unat (announced_length d)" "unat (announced_length d) < packet_max_length b"
    "15 < unat (announced_length d) \<longrightarrow> flag (d ! 1) PJON_CRC_BIT"
proof -
  let ?j = "if extended_packet d then 3 else 2 :: nat"
  have "?j < i" using assms(2) by auto
  then have "local_refusal b lo d ?j = None" using assms(1) by (simp add: passed_def)
  then show "overhead_nat (d ! 1) \<le> unat (announced_length d)" "unat (announced_length d) < packet_max_length b"
    "15 < unat (announced_length d) \<longrightarrow> flag (d ! 1) PJON_CRC_BIT"
    by (auto simp: local_refusal_def Let_def split: if_splits)
qed

lemma passed_length:
  assumes "passed b lo d i" and "local_build b"
  shows "5 \<le> unat (lv_length (lv_at b d i k))" "unat (lv_length (lv_at b d i k)) \<le> packet_max_length b"
proof -
  have m: "unat (of_nat (packet_max_length b) :: u16) = packet_max_length b" "5 \<le> packet_max_length b"
    using assms(2) by (simp_all add: local_build_def unat_of_nat)
  show "5 \<le> unat (lv_length (lv_at b d i k))" "unat (lv_length (lv_at b d i k)) \<le> packet_max_length b"
    using passed_announced [OF assms(1)] overhead_nat_bounds(1) [of "d ! 1"] m by auto
qed

lemma passed_step:
  assumes "passed b lo d (Suc i)" and "local_build b" and "i < unat (lv_length (lv_at b d i k))"
  shows "Suc i \<le> unat (lv_length (lv_at b d (Suc i) k'))"
proof (cases "5 \<le> i")
  case True
  then show ?thesis using assms(3) by auto
next
  case False
  then show ?thesis using passed_length(1) [OF assms(1,2), of k'] by simp
qed

subsection \<open>Runs of the loop\<close>

lemma local_fetch_frame:
  assumes "local_fetch st i (lv_at b d i k) d s = Some (r, d', s')"
  shows "length d' = length d \<and> take i d' = take i d \<and> (r = Inl 0 \<or> (\<exists>k'. r = Inr (lv_at b d' i k')))"
proof (cases "k = 0")
  case False
  then show ?thesis using assms by (auto simp: local_fetch_def)
next
  case True
  then obtain n bs where w: "wr_block i bs d = Some d'" and r: "r = Inl 0 \<or> r = Inr (lv_at b d i (n - 1))"
    using assms by (auto simp: local_fetch_def Let_def elim!: bind_SomeE split: prod.splits if_splits)
  have "lv_at b d i (n - 1) = lv_at b d' i (n - 1)"
    using wr_block_frame [OF w] by (intro lv_at_cong) simp
  then show ?thesis using wr_block_frame [OF w] r by auto
qed

text \<open>The end of a run: an early return, or a packet that passed at every byte.\<close>

definition local_run_end ::
  "build \<Rightarrow> 's pjon_local \<Rightarrow> u16 + local_vars \<Rightarrow> u8 list \<Rightarrow> bool" where
  "local_run_end b lo r d \<longleftrightarrow>
     (case r of Inl c \<Rightarrow> c = 0 \<or> c = PJON_BUSY
      | Inr lv \<Rightarrow> \<exists>k. lv = lv_at b d (unat (announced_length d)) k \<and> passed b lo d (unat (announced_length d)) \<and>
                   5 \<le> unat (announced_length d))"

lemma local_run_end_strategy [simp]: "local_run_end b (lo\<lparr> lo_strategy := s \<rparr>) = local_run_end b lo"
  by (simp add: fun_eq_iff local_run_end_def split: sum.split)

context bounded_strategy
begin

lemma local_fetch_safe:
  assumes "ok s" and "i < unat (lv_length (lv_at b d i k))" and "unat (lv_length (lv_at b d i k)) \<le> length d"
  shows "\<exists>r d' s'. local_fetch st i (lv_at b d i k) d s = Some (r, d', s') \<and> ok s'"
proof (cases "k = 0")
  case True
  let ?n = "lv_length (lv_at b d i k) - of_nat i"
  have i: "i < 65536" using assms(2) unsigned_less [of "lv_length (lv_at b d i k)", where 'a = nat] by simp
  have "unat (of_nat i :: u16) = i" using i by (simp add: unat_of_nat)
  then have n: "unat ?n = unat (lv_length (lv_at b d i k)) - i"
    using assms(2) by (simp add: unat_sub word_le_nat_alt del: lv_at_simps)
  then have n0: "?n \<noteq> 0" using assms(2) by (auto simp del: lv_at_simps)
  obtain r bs s' where f: "st_receive_frame st ?n s = (r, bs, s')" by (cases "st_receive_frame st ?n s") auto
  have "i + length bs \<le> length d" "ok s'"
    using frame_fits [OF assms(1) n0 f] frame_ok [OF assms(1) f] n assms(2,3) by simp_all
  then show ?thesis using f True
    by (auto simp: local_fetch_def wr_block_def Let_def simp del: lv_at_simps(3))
qed (use assms(1) in \<open>simp add: local_fetch_def\<close>)

lemma local_loop_run:
  assumes "local_build b" and "passed b lo d i" and "i \<le> unat (lv_length (lv_at b d i k))"
    and "length d = packet_max_length b" and "ok (lo_strategy lo)"
  shows "\<exists>r d' s. local_receive_loop st b i (lv_at b d i k) d lo = Some (r, d', lo\<lparr> lo_strategy := s \<rparr>) \<and>
           ok s \<and> length d' = length d \<and> local_run_end b lo r d'"
  using assms
proof (induction "65536 - i" arbitrary: i k d lo rule: less_induct)
  case less
  let ?lv = "lv_at b d i k"
  have len: "5 \<le> unat (lv_length ?lv)" "unat (lv_length ?lv) \<le> length d"
    using passed_length [OF less.prems(2,1), of k] less.prems(4) by (simp_all del: lv_at_simps(3))
  show ?case
  proof (cases "i < unat (lv_length ?lv)")
    case False
    then have i: "i = unat (lv_length ?lv)" "5 \<le> i" using less.prems(3) len by linarith+
    then have "i = unat (announced_length d)" by simp
    then have "local_run_end b lo (Inr ?lv) d" using less.prems(2) i by (auto simp: local_run_end_def)
    moreover have "local_receive_loop st b i ?lv d lo = Some (Inr ?lv, d, lo\<lparr> lo_strategy := lo_strategy lo \<rparr>)"
      using False by (simp add: local_receive_loop.simps)
    ultimately show ?thesis using less.prems(5) by blast
  next
    case True
    have i: "i < 65536" using True unsigned_less [of "lv_length ?lv", where 'a = nat] by (simp del: lv_at_simps(3))
    obtain r1 d1 s1 where f: "local_fetch st i ?lv d (lo_strategy lo) = Some (r1, d1, s1)" and s1: "ok s1"
      using local_fetch_safe [OF less.prems(5) True len(2)] by blast
    from local_fetch_frame [OF f] have d1: "length d1 = length d" "take i d1 = take i d"
      and r1: "r1 = Inl 0 \<or> (\<exists>k'. r1 = Inr (lv_at b d1 i k'))" by blast+
    let ?lo1 = "lo\<lparr> lo_strategy := s1 \<rparr>"
    show ?thesis
    proof (cases "r1 = Inl 0")
      case 0: True
      have "local_receive_loop st b i ?lv d lo = Some (Inl 0, d1, ?lo1)"
        using True f 0 by (simp add: local_receive_loop.simps [of st b i])
      then show ?thesis using s1 d1 by (auto simp: local_run_end_def)
    next
      case False
      then obtain k' where k': "r1 = Inr (lv_at b d1 i k')" using r1 by blast
      have "i < length d1" "1 < length d1" using True len d1 by simp_all
      from local_check_eq [OF this, of b k' ?lo1]
      have run: "local_receive_loop st b i ?lv d lo =
        (case local_refusal b lo d1 i of
           Some c \<Rightarrow> Some (Inl c, d1, ?lo1)
         | None \<Rightarrow> local_receive_loop st b (Suc i) (lv_at b d1 (Suc i) k') d1 ?lo1)"
        using True f k' by (simp add: local_receive_loop.simps [of st b i] split: option.splits)
      show ?thesis
      proof (cases "local_refusal b lo d1 i")
        case (Some c)
        then have "local_run_end b lo (Inl c) d1"
          using local_refusal_code [OF Some] by (simp add: local_run_end_def)
        moreover have "local_receive_loop st b i ?lv d lo = Some (Inl c, d1, ?lo1)" using run Some by simp
        ultimately show ?thesis using s1 d1 by blast
      next
        case None
        have p: "passed b ?lo1 d1 (Suc i)"
          using passed_cong [OF d1(2) [symmetric] less.prems(2)] None by (auto simp: passed_def less_Suc_eq)
        have "lv_at b d1 i k = ?lv" using d1(2) by (rule lv_at_cong)
        then have le: "Suc i \<le> unat (lv_length (lv_at b d1 (Suc i) k'))"
          using passed_step [OF p less.prems(1), of k k'] True by simp
        have ok1: "length d1 = packet_max_length b" "ok (lo_strategy ?lo1)" using d1 less.prems(4) s1 by simp_all
        have "65536 - Suc i < 65536 - i" using i by simp
        from less.hyps [OF this less.prems(1) p le ok1] show ?thesis
          using run None d1 by auto
      qed
    qed
  qed
qed

end

subsection \<open>The checks after the loop\<close>

lemma local_crc_ok_eq:
  assumes "lv_extended lv = extended_packet d" and "unat (lv_length lv) = n" and "4 < n" "n \<le> length d"
  shows "local_crc_ok lv d = Some (header_crc_ok (take n d) \<and> packet_crc_ok (take n d))"
proof -
  define rv where "rv = (rx_init default_build)\<lparr> rv_length := lv_length lv, rv_extended := lv_extended lv \<rparr>"
  have "local_crc_ok lv d = rx_crc_ok rv d" by (simp add: local_crc_ok_def rx_crc_ok_def rv_def)
  then show ?thesis using assms by (simp add: rx_crc_ok_short rv_def)
qed

lemma parse_header_short:
  assumes "10 \<le> length d" and "\<not> include_mac b" and "\<not> flag (d ! 1) PJON_MODE_BIT"
  shows "\<exists>info. parse_header b d = Some info"
proof -
  have R: "rd d 0 = Some (d ! 0)" "rd d 1 = Some (d ! 1)" using assms(1) by (auto simp: rd_def)
  have F: "\<exists>bs j. fetch_when c n d i = Some (bs, j) \<and> j \<le> m + n" if "i \<le> m" "m + n \<le> 10" for c n i m
    using fetch_within [of i m n d c] that assms(1) by auto
  let ?k = "2 + (if flag (d ! 1) PJON_EXT_LEN_BIT then 3 else 2) :: nat"
  obtain tx k2 where B: "fetch_when (flag (d ! 1) PJON_TX_INFO_BIT) 1 d ?k = Some (tx, k2)" "k2 \<le> 6"
    using F [of ?k 5 1 "flag (d ! 1) PJON_TX_INFO_BIT"] by (cases "flag (d ! 1) PJON_EXT_LEN_BIT") auto
  obtain pid k3 where C: "fetch_when (include_packet_id b \<and> flag (d ! 1) PJON_PACKET_ID_BIT) 2 d k2 = Some (pid, k3)" "k3 \<le> 8"
    using F [OF B(2), of 2 "include_packet_id b \<and> flag (d ! 1) PJON_PACKET_ID_BIT"] by auto
  obtain prt k4 where D: "fetch_when (include_port b \<and> flag (d ! 1) PJON_PORT_BIT) 2 d k3 = Some (prt, k4)"
    using F [OF C(2), of 2 "include_port b \<and> flag (d ! 1) PJON_PORT_BIT"] by auto
  show ?thesis
    using assms(2,3) B(1) C(1) D unfolding parse_header_def Let_def R Option.bind.simps
    by (simp add: parse_bus_ids_def new_packet_info_def fetch_when_def [of False])
qed

definition local_acked :: "'s strategy \<Rightarrow> 's pjon_local \<Rightarrow> u8 list \<Rightarrow> 's pjon_local" where
  "local_acked st lo p =
     (if flag (p ! 1) PJON_ACK_REQ_BIT \<and> p ! 0 \<noteq> PJON_BROADCAST \<and> lo_mode lo \<noteq> PJON_SIMPLEX \<and> \<not> lo_router lo
      then local_on_strategy (st_send_response st PJON_ACK) lo else lo)"

lemma local_acked_strategy:
  "\<exists>s. local_acked st lo p = lo\<lparr> lo_strategy := s \<rparr> \<and>
       (s = lo_strategy lo \<or> s = st_send_response st PJON_ACK (lo_strategy lo))"
  by (rule exI [of _ "lo_strategy (local_acked st lo p)"]) (simp add: local_acked_def local_on_strategy_def)

text \<open>What \<^verbatim>\<open>receive\<close> returns after a run of the loop that passed at every byte.\<close>

definition local_value :: "build \<Rightarrow> 's pjon_local \<Rightarrow> packet_info \<Rightarrow> u8 list \<Rightarrow> u16" where
  "local_value b lo info p =
     (if include_port b \<and> lo_port lo \<noteq> 0 \<and> lo_port lo \<noteq> pi_port info then 0
      else of_nat (length p - overhead_nat (p ! 1)))"

lemma local_receive_after_loop:
  assumes loop: "local_receive_loop st b 0 (local_init b) buffer lo = Some (Inr (lv_at b d n k), d, lo1)"
    and n: "n = unat (announced_length d)" "overhead_nat (d ! 1) \<le> n" "n \<le> length d"
    and d: "10 \<le> length d" "\<not> include_mac b" "\<not> flag (d ! 1) PJON_MODE_BIT"
  obtains info where "parse_header b d = Some info"
    "local_receive st b buffer lo =
       Some (if header_crc_ok (take n d) \<and> packet_crc_ok (take n d)
             then (local_value b lo1 info (take n d), d, local_acked st lo1 (take n d)) else (0, d, lo1))"
proof -
  obtain info where i: "parse_header b d = Some info" using parse_header_short [OF d] by blast
  have n5: "4 < n" using n(2) overhead_nat_bounds(1) [of "d ! 1"] by simp
  note t = packet_take_short [OF n5 n(3)]
  have l: "unat (lv_length (lv_at b d n k)) = n" using n(1) n5 by simp
  have e: "lv_extended (lv_at b d n k) = extended_packet d" "lv_overhead (lv_at b d n k) = packet_overhead (d ! 1)"
    using n5 by (simp_all add: lv_at_def)
  note crc = local_crc_ok_eq [OF e(1) l n5 n(3)]
  have v: "lv_length (lv_at b d n k) - ucast (lv_overhead (lv_at b d n k)) = of_nat (n - overhead_nat (d ! 1))"
  proof -
    have "unat (lv_length (lv_at b d n k) - ucast (lv_overhead (lv_at b d n k))) = n - overhead_nat (d ! 1)"
      using l n(2) by (simp add: e unat_sub word_le_nat_alt unat_packet_overhead del: lv_at_simps)
    then show ?thesis by (metis of_nat_unat ucast_id)
  qed
  have R: "rd d 0 = Some (d ! 0)" "rd d 1 = Some (d ! 1)" using d(1) by (auto simp: rd_def)
  have a: "lo_port (local_acked st lo1 p) = lo_port lo1" for p by (simp add: local_acked_def local_on_strategy_def)
  have len: "length (take n d) = n" using n(3) by simp
  have "local_finish st b (lv_at b d n k) d lo1
      = Some (local_value b lo1 info (take n d), local_acked st lo1 (take n d))"
    unfolding local_finish_def local_result_def R Option.bind.simps Let_def v local_acked_def [of st lo1 "take n d", symmetric, unfolded t]
    using a [of "take n d"] by (simp add: i local_value_def t len PJON_BROADCAST_def del: One_nat_def length_take)
  then have "local_receive st b buffer lo =
       Some (if header_crc_ok (take n d) \<and> packet_crc_ok (take n d)
             then (local_value b lo1 info (take n d), d, local_acked st lo1 (take n d)) else (0, d, lo1))"
    unfolding local_receive_def loop Option.bind.simps prod.case sum.case crc by simp
  with i show thesis by (rule that)
qed

subsection \<open>What the return value means\<close>

text \<open>The packets the receiver acknowledges.\<close>

definition local_packet :: "build \<Rightarrow> 's pjon_local \<Rightarrow> u8 list \<Rightarrow> bool" where
  "local_packet b lo p \<longleftrightarrow>
     unat (announced_length p) = length p \<and> overhead_nat (p ! 1) \<le> length p \<and> length p < packet_max_length b \<and>
     \<not> local_not_mine lo (p ! 0) \<and> \<not> local_header_refused b (p ! 0) (p ! 1) \<and>
     (15 < length p \<longrightarrow> flag (p ! 1) PJON_CRC_BIT) \<and> header_crc_ok p \<and> packet_crc_ok p"

lemma passed_packet:
  assumes "passed b lo d n" and "n = unat (announced_length d)" and "5 \<le> n" "n \<le> length d"
    and "header_crc_ok (take n d)" "packet_crc_ok (take n d)"
  shows "local_packet b lo (take n d)"
proof -
  have "3 \<le> n \<and> \<not> extended_packet d \<or> 4 \<le> n" "4 < n" using assms(3) by auto
  note A = passed_announced [OF assms(1) this(1)] and t = packet_take_short [OF this(2) assms(4)]
  have "local_refusal b lo d 0 = None" "local_refusal b lo d 1 = None"
    using assms(1,3) by (simp_all add: passed_def)
  then have "\<not> local_not_mine lo (d ! 0)" "\<not> local_header_refused b (d ! 0) (d ! 1)"
    by (auto simp: local_refusal_def split: if_splits)
  moreover have "length (take n d) = n" using assms(4) by simp
  ultimately show ?thesis unfolding local_packet_def t using A assms(2,5,6) by metis
qed

lemma packet_passed:
  assumes "local_packet b lo p" and "4 < length p"
  shows "passed b lo p (length p)"
  using assms by (auto simp: passed_def local_packet_def local_refusal_def Let_def)

lemma payload_position:
  assumes "n \<le> length d" and "4 < n" and "unat r = n - overhead_nat (d ! 1)"
  shows "take (unat r) (drop (local_get_payload d) d) = payload_of (take n d)"
proof -
  let ?o = "overhead_nat (d ! 1)" and ?c = "unat (crc_overhead (d ! 1))"
  have "?c \<le> ?o" using overhead_nat_bounds(1) [of "d ! 1"] unat_crc_overhead_le [of "d ! 1"] by simp
  then have "min (n - ?o) (n - (?o - ?c)) = n - ?o" by simp
  moreover have "length (take n d) = n" using assms(1) by simp
  ultimately show ?thesis
    by (simp only: payload_of_def local_get_payload_def packet_take_short [OF assms(2,1)] assms(3) drop_take take_take
        unat_packet_overhead)
qed

text \<open>C11. On a strategy that keeps to the space it is given, \<^verbatim>\<open>PJONLocal::receive\<close> never leaves the
  buffer of the caller, whatever bytes arrive in whatever batches, and changes nothing of the bus but
  the strategy.  It returns 0, or \<^verbatim>\<open>PJON_BUSY\<close>, or the length of the payload of a packet for this
  device whose checks hold, which \<^verbatim>\<open>get_payload\<close> finds.\<close>

theorem local_receive_value:
  assumes "bounded_strategy st ok" and "ok (lo_strategy lo)" and "local_build b"
    and "length buffer = packet_max_length b"
  shows "\<exists>r buffer' s. local_receive st b buffer lo = Some (r, buffer', lo\<lparr> lo_strategy := s \<rparr>) \<and>
           ok s \<and> length buffer' = length buffer \<and>
           (r = 0 \<or> r = PJON_BUSY \<or>
            (\<exists>p. take (length p) buffer' = p \<and> local_packet b lo p \<and> unat r = length p - overhead_nat (p ! 1) \<and>
                 take (unat r) (drop (local_get_payload buffer') buffer') = payload_of p))"
proof -
  have "passed b lo buffer 0" by (simp add: passed_def)
  from bounded_strategy.local_loop_run [OF assms(1,3) this _ assms(4,2), of 0] obtain r d s where
    l: "local_receive_loop st b 0 (local_init b) buffer lo = Some (r, d, lo\<lparr> lo_strategy := s \<rparr>)"
    and s: "ok s" "length d = length buffer" and e: "local_run_end b lo r d"
    by (auto simp: local_init_at [of b buffer])
  show ?thesis
  proof (cases r)
    case (Inl c)
    then show ?thesis using l s e by (auto simp: local_receive_def local_run_end_def)
  next
    case (Inr lv)
    define n where "n = unat (announced_length d)"
    obtain k where lv: "lv = lv_at b d n k" and p: "passed b lo d n" and n5: "5 \<le> n"
      using e Inr by (auto simp: local_run_end_def n_def)
    have "3 \<le> n \<and> \<not> extended_packet d \<or> 4 \<le> n" using n5 by auto
    from passed_announced [OF p this] have n: "overhead_nat (d ! 1) \<le> n" "n \<le> length d"
      using s assms(4) by (simp_all add: n_def)
    have "local_refusal b lo d 1 = None" using p n5 by (simp add: passed_def)
    then have "\<not> flag (d ! 1) PJON_MODE_BIT"
      by (auto simp: local_refusal_def local_header_refused_def split: if_splits)
    then have d: "10 \<le> length d" "\<not> include_mac b" "\<not> flag (d ! 1) PJON_MODE_BIT"
      using assms(3,4) s by (simp_all add: local_build_def)
    let ?p = "take n d" and ?lo = "lo\<lparr> lo_strategy := s \<rparr>"
    obtain info where run: "local_receive st b buffer lo =
       Some (if header_crc_ok ?p \<and> packet_crc_ok ?p
             then (local_value b ?lo info ?p, d, local_acked st ?lo ?p) else (0, d, ?lo))"
      using local_receive_after_loop [OF l [unfolded Inr lv] n_def n d] by blast
    obtain s' where s': "local_acked st ?lo ?p = lo\<lparr> lo_strategy := s' \<rparr>" "ok s'"
      using local_acked_strategy [of st ?lo ?p] s(1) bounded_strategy.response_ok [OF assms(1)] by auto
    have t: "?p ! 1 = d ! 1" "length ?p = n" using packet_take_short [of n d] n5 n by simp_all
    have m: "n < 65536" using unsigned_less [of "announced_length d", where 'a = nat] by (simp add: n_def)
    show ?thesis
    proof (cases "header_crc_ok ?p \<and> packet_crc_ok ?p \<and> local_value b ?lo info ?p \<noteq> 0")
      case True
      let ?r = "local_value b ?lo info ?p"
      have "?r = of_nat (n - overhead_nat (d ! 1))"
        using True unfolding local_value_def t by (auto simp del: One_nat_def split: if_splits)
      then have r: "unat ?r = n - overhead_nat (d ! 1)" using m by (simp add: unat_of_nat)
      have "4 < n" using n5 by simp
      from payload_position [OF n(2) this r] r
      have "take (length ?p) d = ?p" "unat ?r = length ?p - overhead_nat (?p ! 1)"
        "take (unat ?r) (drop (local_get_payload d) d) = payload_of ?p"
        by (simp_all only: t)
      moreover have "local_packet b lo ?p" using passed_packet [OF p n_def n5 n(2)] True by blast
      moreover have "local_receive st b buffer lo = Some (?r, d, lo\<lparr> lo_strategy := s' \<rparr>)"
        using run True s'(1) by simp
      ultimately show ?thesis using s(2) s'(2) by blast
    next
      case False
      then show ?thesis using run s s' by (cases "header_crc_ok ?p \<and> packet_crc_ok ?p") auto
    qed
  qed
qed

subsection \<open>Composed packets are accepted\<close>

text \<open>The fetch is that of \<^verbatim>\<open>PJON::receive\<close>, on a bus with the same buffer and strategy.\<close>

definition shell :: "'s \<Rightarrow> u8 list \<Rightarrow> 's pjon" where
  "shell s d = (new_pjon default_build [] [] 0 s)\<lparr> pj_data := d \<rparr>"

definition shell_vars :: "local_vars \<Rightarrow> rx_vars" where
  "shell_vars lv = \<lparr> rv_length = lv_length lv, rv_batch = lv_batch lv, rv_overhead = lv_overhead lv,
                     rv_extended = lv_extended lv, rv_mac = False, rv_drop = False \<rparr>"

lemma shell_simps [simp]:
  "pj_strategy (shell s d) = s" "pj_data (shell s d) = d"
  "rv_length (shell_vars lv) = lv_length lv" "rv_batch (shell_vars lv) = lv_batch lv"
  by (simp_all add: shell_def shell_vars_def new_pjon_def set_default_def)

lemma local_fetch_shell:
  assumes "rx_fetch st i (shell_vars lv) (shell s d)
    = Some (Inr ((shell_vars lv)\<lparr> rv_batch := k \<rparr>), (shell s d)\<lparr> pj_strategy := s', pj_data := d' \<rparr>)"
  shows "local_fetch st i lv d s = Some (Inr (lv\<lparr> lv_batch := k \<rparr>), d', s')"
proof -
  have k: "rv_batch ((shell_vars lv)\<lparr> rv_batch := x \<rparr>) = x" for x by simp
  have d: "pj_data ((shell s d)\<lparr> pj_strategy := x, pj_data := y \<rparr>) = y"
    "pj_strategy ((shell s d)\<lparr> pj_strategy := x, pj_data := y \<rparr>) = x" for x y by simp_all
  show ?thesis
  proof (cases "lv_batch lv = 0")
    case True
    obtain r bs s1 where f: "st_receive_frame st (lv_length lv - of_nat i) s = (r, bs, s1)"
      by (cases "st_receive_frame st (lv_length lv - of_nat i) s") auto
    then obtain d1 where w: "wr_block i bs d = Some d1"
      using assms True by (auto simp: rx_fetch_def elim!: bind_SomeE)
    with f True assms have "\<not> (r = PJON_FAIL \<or> r = 0)"
      "(shell_vars lv)\<lparr> rv_batch := r - 1 \<rparr> = (shell_vars lv)\<lparr> rv_batch := k \<rparr>"
      "(shell s d)\<lparr> pj_strategy := s1, pj_data := d1 \<rparr> = (shell s d)\<lparr> pj_strategy := s', pj_data := d' \<rparr>"
      by (auto simp: rx_fetch_def Let_def split: if_splits)
    then have "\<not> (r = PJON_FAIL \<or> r = 0)" "r - 1 = k" "s1 = s'" "d1 = d'" by (metis k, metis k, metis d(2), metis d(1))
    then show ?thesis using f w True by (simp add: local_fetch_def)
  next
    case False
    then have "(shell_vars lv)\<lparr> rv_batch := lv_batch lv - 1 \<rparr> = (shell_vars lv)\<lparr> rv_batch := k \<rparr>"
      "shell s d = (shell s d)\<lparr> pj_strategy := s', pj_data := d' \<rparr>"
      using assms by (auto simp: rx_fetch_def)
    then have "lv_batch lv - 1 = k" "s = s'" "d = d'" by (metis k, metis d(2) shell_simps(1), metis d(1) shell_simps(2))
    then show ?thesis using False by (simp add: local_fetch_def)
  qed
qed

lemma local_loop_feed:
  assumes "feeds st (packet_max_length b) (i + k = 0) cs (lo_strategy lo) s'" and "concat cs = drop (i + k) p"
    and "i + k \<le> length p" and "take (i + k) d = take (i + k) p"
    and "length d = packet_max_length b" "packet_max_length b \<le> 65535"
    and "unat (announced_length p) = length p" "length p < packet_max_length b" "5 \<le> length p"
    and "passed b lo p (length p)"
  shows "\<exists>k' d'. local_receive_loop st b i (lv_at b p i (of_nat k)) d lo
           = Some (Inr (lv_at b p (length p) k'), d', lo\<lparr> lo_strategy := s' \<rparr>) \<and>
           take (length p) d' = p \<and> length d' = length d"
  using assms
proof (induction "length p - i" arbitrary: i k cs d lo)
  case 0
  then have "i = length p" "k = 0" by simp_all
  with 0 have "s' = lo_strategy lo" "take (length p) d = p" using feeds_empty by auto
  moreover have "unat (lv_length (lv_at b p i (of_nat k))) = length p"
    using 0 \<open>i = length p\<close> by auto
  ultimately show ?case
    using \<open>i = length p\<close> by (intro exI [of _ "of_nat k"] exI [of _ d]) (simp add: local_receive_loop.simps)
next
  case (Suc m)
  let ?lv = "lv_at b p i (of_nat k)"
  have i: "i < length p" using Suc.hyps(2) by simp
  have mx: "unat (of_nat (packet_max_length b) :: u16) = packet_max_length b"
    using Suc.prems(6) by (simp add: unat_of_nat)
  have lp: "length p \<le> unat (lv_length ?lv)" "unat (lv_length ?lv) \<le> packet_max_length b"
    "i = 0 \<longrightarrow> unat (lv_length ?lv) = packet_max_length b"
    using Suc.prems(7,8) mx by auto
  have l: "length p \<le> length d" "length p < 65535" using Suc.prems(5,6,8) by simp_all
  have f: "feeds st (packet_max_length b) (i + k = 0) cs (pj_strategy (shell (lo_strategy lo) d)) s'"
    "take (i + k) (pj_data (shell (lo_strategy lo) d)) = take (i + k) p"
    "length p \<le> length (pj_data (shell (lo_strategy lo) d))" "packet_max_length b \<le> length (pj_data (shell (lo_strategy lo) d))"
    "length p \<le> unat (rv_length (shell_vars ?lv))" "rv_batch (shell_vars ?lv) = of_nat k"
    "unat (rv_length (shell_vars ?lv)) \<le> packet_max_length b"
    "i = 0 \<longrightarrow> unat (rv_length (shell_vars ?lv)) = packet_max_length b"
    using Suc.prems(1,4,5) l lp by simp_all
  obtain k' cs' s1 d1 where rx: "rx_fetch st i (shell_vars ?lv) (shell (lo_strategy lo) d)
      = Some (Inr ((shell_vars ?lv)\<lparr> rv_batch := of_nat k' \<rparr>), (shell (lo_strategy lo) d)\<lparr> pj_strategy := s1, pj_data := d1 \<rparr>)"
    and feeds': "feeds st (packet_max_length b) False cs' s1 s'" and cs': "concat cs' = drop (Suc i + k') p"
    and le: "Suc i + k' \<le> length p" and t: "take (Suc i + k') d1 = take (Suc i + k') p" and len: "length d1 = length d"
    using rx_fetch_feed [OF f(1) Suc.prems(2) i Suc.prems(3) f(2,3) l(2) f(5,6,7,8,4)] by auto
  from local_fetch_shell [OF rx]
  have fetch: "local_fetch st i ?lv d (lo_strategy lo) = Some (Inr (lv_at b p i (of_nat k')), d1, s1)" by simp
  let ?lo1 = "lo\<lparr> lo_strategy := s1 \<rparr>"
  have ti: "take j d1 = take j p" if "j \<le> Suc i + k'" for j
    using arg_cong [OF t, of "take j"] that by (simp add: min_def)
  have at: "lv_at b d1 j kk = lv_at b p j kk" if "j \<le> Suc i" for j kk
    using that by (intro lv_at_cong ti) simp
  have "local_refusal b lo d1 i = None"
    using Suc.prems(10) i local_refusal_cong [OF ti [of "Suc i"], of b lo] by (simp add: passed_def)
  moreover have "i < length d1" "1 < length d1" using i l len Suc.prems(9) by simp_all
  ultimately have "local_check b i (lv_at b p i (of_nat k')) d1 ?lo1 = Some (Inr (lv_at b p (Suc i) (of_nat k')))"
    using local_check_eq [of i d1 b "of_nat k'" ?lo1] at [of i] at [of "Suc i"] by simp
  then have "local_receive_loop st b i ?lv d lo = local_receive_loop st b (Suc i) (lv_at b p (Suc i) (of_nat k')) d1 ?lo1"
    using i lp(1) fetch by (simp add: local_receive_loop.simps [of st b i])
  moreover have "\<exists>k'' d'. local_receive_loop st b (Suc i) (lv_at b p (Suc i) (of_nat k')) d1 ?lo1
      = Some (Inr (lv_at b p (length p) k''), d', ?lo1\<lparr> lo_strategy := s' \<rparr>) \<and>
      take (length p) d' = p \<and> length d' = length d1"
    using Suc.hyps(2) Suc.prems feeds' cs' le t len by (intro Suc.hyps(1) [where cs = cs']) simp_all
  ultimately show ?case using len by simp
qed

lemma local_accepts:
  assumes "local_build b" and "length buffer = packet_max_length b" and "local_packet b lo p"
    and "feeds st (packet_max_length b) True chunks (lo_strategy lo) s'" and "concat chunks = p"
  obtains d info where "take (length p) d = p" "length d = length buffer" "parse_header b d = Some info"
    "local_receive st b buffer lo =
       Some (local_value b lo info p, d, local_acked st (lo\<lparr> lo_strategy := s' \<rparr>) p)"
proof -
  have P: "unat (announced_length p) = length p" "overhead_nat (p ! 1) \<le> length p"
    "length p < packet_max_length b" "header_crc_ok p" "packet_crc_ok p" "\<not> flag (p ! 1) PJON_MODE_BIT"
    using assms(3) by (auto simp: local_packet_def local_header_refused_def)
  have n5: "5 \<le> length p" "4 < length p" using P(2) overhead_nat_bounds(1) [of "p ! 1"] by simp_all
  have m: "packet_max_length b \<le> 65535" "10 \<le> packet_max_length b" "\<not> include_mac b"
    using assms(1) by (simp_all add: local_build_def)
  have "passed b lo p (length p)" using assms(3) n5(2) by (rule packet_passed)
  then obtain k d where
    l: "local_receive_loop st b 0 (local_init b) buffer lo = Some (Inr (lv_at b p (length p) k), d, lo\<lparr> lo_strategy := s' \<rparr>)"
    and d: "take (length p) d = p" "length d = length buffer"
    using local_loop_feed [of st b 0 0 chunks lo s' p buffer] assms(2,4,5) P(1,3) m(1) n5(1)
    by (auto simp: local_init_at [of b p])
  have at: "lv_at b p (length p) k = lv_at b d (length p) k" using d(1) by (intro lv_at_cong) simp
  have le: "length p \<le> length d" using P(3) assms(2) d(2) by simp
  note t = packet_take_short [OF n5(2) le, unfolded d(1)]
  obtain info where i: "parse_header b d = Some info" and run: "local_receive st b buffer lo =
       Some (if header_crc_ok (take (length p) d) \<and> packet_crc_ok (take (length p) d)
             then (local_value b (lo\<lparr> lo_strategy := s' \<rparr>) info (take (length p) d), d,
                   local_acked st (lo\<lparr> lo_strategy := s' \<rparr>) (take (length p) d))
             else (0, d, lo\<lparr> lo_strategy := s' \<rparr>))"
    by (rule local_receive_after_loop [OF l [unfolded at]])
      (use P m le t d(2) assms(2) in \<open>simp_all del: One_nat_def\<close>)
  have "local_value b (lo\<lparr> lo_strategy := s' \<rparr>) info p = local_value b lo info p" by (simp add: local_value_def)
  with d i run P(4,5) show thesis by (intro that) (simp_all only: if_True simp_thms)
qed

lemma composed_local_packet:
  assumes "wf_info info" and "fits c info len" and "length payload = unat len"
    and h: "h = pi_header (final_info c info len)"
    and "\<not> flag h PJON_MODE_BIT" "\<not> flag h PJON_MAC_BIT" "\<not> flag h PJON_PACKET_ID_BIT"
    and "flag h PJON_EXT_LEN_BIT \<longrightarrow> 15 < final_length c info len"
    and "final_length c info len < packet_max_length b" and "\<not> local_not_mine lo (ep_id (pi_rx info))"
  shows "local_packet b lo (packet_image (final_info c info len) payload)"
proof -
  note I = composed_image [OF assms(1,2,3) refl, folded h]
  have "overhead_nat h \<le> final_length c info len" by (simp add: final_length_def h)
  moreover have "\<not> (ep_id (pi_rx info) = PJON_BROADCAST \<and> flag h PJON_ACK_REQ_BIT)"
    using final_broadcast [of info c len] h by simp
  ultimately show ?thesis
    unfolding local_packet_def local_header_refused_def I(1,3,4) using assms(5-10) I(2,5-7) by blast
qed

text \<open>C10. Round trip to a small device: a packet without bus ids, MAC addresses and packet id, composed
  by any build of either class and addressed to the device, is received in any batches: \<^verbatim>\<open>receive\<close>
  returns the length of the payload, \<^verbatim>\<open>get_payload\<close> finds the payload, and the acknowledgement goes out
  exactly when it was requested, the bus is not simplex and not a router.  An empty payload is
  acknowledged as well, and reported as 0, like a packet that was refused.\<close>

theorem local_round_trip:
  assumes "wf_info info" and "fits c info len" and "unat len \<le> length source"
    and "length destination = packet_max_length c"
    and "tools_compose_packet c info destination source len = Some (packet, n)"
    and h: "h = pi_header (final_info c info len)"
    and "\<not> flag h PJON_MODE_BIT" "\<not> flag h PJON_MAC_BIT" "\<not> flag h PJON_PACKET_ID_BIT"
    and "flag h PJON_EXT_LEN_BIT \<longrightarrow> 15 < final_length c info len"
    and "local_build b" and "final_length c info len < packet_max_length b"
    and "length buffer = packet_max_length b" and "\<not> local_not_mine lo (ep_id (pi_rx info))"
    and "include_port b \<longrightarrow> lo_port lo = 0 \<or> lo_port lo = (if flag h PJON_PORT_BIT then pi_port info else 0)"
    and "feeds st (packet_max_length b) True chunks (lo_strategy lo) s'" and "concat chunks = take (unat n) packet"
  shows "\<exists>buffer'. local_receive st b buffer lo = Some (len, buffer', lo\<lparr> lo_strategy :=
             if flag h PJON_ACK_REQ_BIT \<and> lo_mode lo \<noteq> PJON_SIMPLEX \<and> \<not> lo_router lo
             then st_send_response st PJON_ACK s' else s' \<rparr>) \<and>
           take (unat len) (drop (local_get_payload buffer') buffer') = take (unat len) source"
proof -
  let ?i = "final_info c info len" and ?pl = "take (unat len) source" and ?N = "final_length c info len"
  define p where "p = packet_image ?i ?pl"
  have lpl: "length ?pl = unat len" using assms(3) by simp
  note I = composed_image [OF assms(1,2) lpl p_def, folded h]
  have N: "?N < packet_max_length c" "?N < 65536" "?N = unat len + overhead_nat h"
    using assms(2) by (simp_all add: fits_def final_length_def h)
  have "tools_compose_packet c info destination source len = Some (p @ drop ?N destination, of_nat ?N)"
    unfolding p_def using assms(1-4) N by (intro compose_refines_image) simp_all
  then have "concat chunks = p" using assms(5,17) N(2) I(1) by (simp add: unat_of_nat_wrapped)
  moreover have "local_packet b lo p"
    unfolding p_def using assms(1,2) lpl h assms(7-10,12,14) by (rule composed_local_packet)
  ultimately obtain d info' where d: "take (length p) d = p" "length d = length buffer"
    and i': "parse_header b d = Some info'"
    and run: "local_receive st b buffer lo =
       Some (local_value b lo info' p, d, local_acked st (lo\<lparr> lo_strategy := s' \<rparr>) p)"
    using local_accepts [OF assms(11,13) _ assms(16)] by blast
  have "pi_port info' = (if flag h PJON_PORT_BIT then pi_port info else 0)" if "include_port b"
  proof -
    have "parse_header b (p @ drop (length p) d) = Some (wire_info ?i)"
      unfolding p_def using assms(1,7-9,11) that h
      by (intro parse_packet_image) (simp_all add: header_supported_def local_build_def)
    moreover have "p @ drop (length p) d = d" using d(1) by (metis append_take_drop_id)
    ultimately show ?thesis using i' h by (simp add: wire_info_def Let_def)
  qed
  then have "local_value b lo info' p = len"
    using assms(15) N(3) by (auto simp: local_value_def I(1,4) simp del: One_nat_def)
  moreover have "local_acked st (lo\<lparr> lo_strategy := s' \<rparr>) p = lo\<lparr> lo_strategy :=
             if flag h PJON_ACK_REQ_BIT \<and> lo_mode lo \<noteq> PJON_SIMPLEX \<and> \<not> lo_router lo
             then st_send_response st PJON_ACK s' else s' \<rparr>"
    unfolding local_acked_def I(3,4) using final_broadcast [of info c len, folded h]
    by (auto simp: local_on_strategy_def)
  moreover have "take (unat len) (drop (local_get_payload d) d) = ?pl"
  proof -
    have n: "length p \<le> length d" "4 < length p"
      using d assms(12,13) I(1) N(3) overhead_nat_bounds(1) [of h] by simp_all
    have "d ! 1 = h" using packet_take_short(2) [OF n(2,1)] d(1) I(4) by simp
    then have "unat len = length p - overhead_nat (d ! 1)" using N(3) I(1) by simp
    from payload_position [OF n this] show ?thesis
      using image_payload [of ?i ?pl] assms(1) by (simp add: d(1)) (simp add: p_def)
  qed
  ultimately show ?thesis using run by simp
qed

lemma new_local_simps [simp]:
  "lo_strategy (new_local_id s i) = s" "lo_device_id (new_local_id s i) = i" "\<not> lo_router (new_local_id s i)"
  "lo_mode (new_local_id s i)" "lo_port (new_local_id s i) = 0" "lo_retries (new_local_id s i) = 0"
  "lo_config (new_local_id s i) = 6"
  by (simp_all add: new_local_id_def local_set_default_def const_defs)

lemma local_round_trip_witness:
  "\<exists>buffer. local_receive (one_frame (packet_image sample_info [64])) default_build (replicate 50 0) (new_local_id 0 12)
       = Some (1, buffer, (new_local_id 0 12)\<lparr> lo_strategy := 1 \<rparr>) \<and>
     take 1 (drop (local_get_payload buffer) buffer) = [64]"
proof -
  let ?p = "packet_image sample_info [64]"
  have c: "tools_compose_packet default_build sample_info (replicate 50 0) [64] 1 = Some (?p @ drop 7 (replicate 50 0), 7)"
    using compose_refines_image [of sample_info default_build 1 "[64]" "replicate 50 0"] sample_fits by simp
  have "take (unat (7 :: u16)) (?p @ drop 7 (replicate 50 0)) = ?p"
    using sample_packet(4) by (simp del: replicate.simps drop_replicate)
  moreover have "feeds (one_frame ?p) (packet_max_length default_build) True [?p] (lo_strategy (new_local_id 0 12)) 1"
    using sample_packet(3) by simp
  moreover have "st_send_response (one_frame ?p) PJON_ACK 1 = 1" by (simp add: one_frame_def idle_strategy_def)
  moreover have "ep_id (pi_rx sample_info) = 12" "\<not> flag 6 PJON_MODE_BIT" "\<not> flag 6 PJON_MAC_BIT"
    "\<not> flag 6 PJON_PACKET_ID_BIT" "\<not> flag 6 PJON_EXT_LEN_BIT" "flag 6 PJON_ACK_REQ_BIT" "\<not> PJON_SIMPLEX"
    by (simp_all add: sample_info_def flag_def const_defs)
  ultimately show ?thesis
    using local_round_trip [OF sample_fits(4,3) _ _ c refl, of default_build "replicate 50 0" "new_local_id 0 12" "one_frame ?p" "[?p]" 1]
    by (simp add: sample_fits local_build_def local_not_mine_def)
qed

lemma local_receive_value_witness:
  "\<exists>r buffer s. local_receive idle_strategy default_build (replicate 50 0) (new_local_id 0 12)
     = Some (r, buffer, (new_local_id 0 12)\<lparr> lo_strategy := s \<rparr>) \<and> length buffer = 50"
proof -
  have "local_build default_build" by (simp add: local_build_def)
  from local_receive_value [OF idle.bounded_strategy_axioms TrueI this, of "replicate 50 0" "new_local_id 0 12"]
  obtain r buffer s where
    "local_receive idle_strategy default_build (replicate 50 0) (new_local_id 0 12)
       = Some (r, buffer, (new_local_id 0 12)\<lparr> lo_strategy := s \<rparr>)" "length buffer = 50"
    by auto
  then show ?thesis by blast
qed

text \<open>
  The value \<^verbatim>\<open>PJON_BUSY\<close> is no length: three bytes from the medium that announce more than 15 bytes without
  a 32 bit check make \<^verbatim>\<open>receive\<close> return 666, which every caller takes for the length of a payload.
\<close>

lemma local_receive_busy:
  "\<exists>buffer s. local_receive (one_frame [12, 2, 20]) default_build (replicate 50 0) (new_local_id 0 12)
     = Some (666, buffer, (new_local_id 0 12)\<lparr> lo_strategy := s \<rparr>)"
proof -
  define d :: "u8 list" where "d = [12, 2, 20] @ replicate 47 0"
  let ?st = "one_frame [12, 2, 20]" and ?lo = "(new_local_id (0 :: nat) 12)\<lparr> lo_strategy := 1 \<rparr>"
  have d: "length d = 50" "d ! 0 = 12" "d ! 1 = 2" "d ! 2 = 20" by (simp_all add: d_def)
  have f0: "local_fetch ?st 0 (lv_at default_build d 0 0) (replicate 50 0) 0 = Some (Inr (lv_at default_build d 0 2), d, 1)"
    by (simp add: local_fetch_def one_frame_def lv_at_def wr_block_def d_def PJON_FAIL_def)
  have f: "local_fetch ?st i (lv_at default_build d i k) d 1 = Some (Inr (lv_at default_build d i (k - 1)), d, 1)" if "k \<noteq> 0" for i k
    using that by (simp add: local_fetch_def)
  have r: "local_refusal default_build lo d 0 = None" "local_refusal default_build lo d 1 = None"
    "local_refusal default_build lo d 2 = Some 666" if "lo_device_id lo = 12" for lo :: "nat pjon_local"
    using that d(2-4)
    by (simp_all add: local_refusal_def local_not_mine_def local_header_refused_def extended_packet_def
        announced_length_def Let_def overhead_nat_def flag_def const_defs)
  have c: "local_check default_build i (lv_at default_build d i k) d ?lo =
      Some (case local_refusal default_build ?lo d i of Some c \<Rightarrow> Inl c | None \<Rightarrow> Inr (lv_at default_build d (Suc i) k))"
    if "i < 50" for i k
    by (rule local_check_eq) (use that d(1) in simp_all)
  have l: "i < unat (lv_length (lv_at default_build d i k))" if "i < 3" for i k
    using that d(3) by (auto simp: extended_packet_def flag_def const_defs)
  have s2: "local_receive_loop ?st default_build 2 (lv_at default_build d 2 1) d ?lo = Some (Inl 666, d, ?lo)"
    using l [of 2 1] f [of 1 2] c [of 2 0] r by (simp add: local_receive_loop.simps [of _ _ 2] del: lv_at_simps(3))
  have s1: "local_receive_loop ?st default_build 1 (lv_at default_build d 1 2) d ?lo = Some (Inl 666, d, ?lo)"
    using l [of 1 2] f [of 2 1] c [of 1 1] r s2
    by (simp add: local_receive_loop.simps [of _ _ "Suc 0"] numeral_2_eq_2 del: lv_at_simps(3))
  have "local_receive_loop ?st default_build 0 (lv_at default_build d 0 0) (replicate 50 0) (new_local_id 0 12) = Some (Inl 666, d, ?lo)"
    using l [of 0 0] f0 c [of 0 2] r s1
    by (simp add: local_receive_loop.simps [of _ _ 0] del: lv_at_simps(3) replicate.simps)
  then show ?thesis by (auto simp: local_receive_def local_init_at [of default_build d])
qed

subsection \<open>Sending\<close>

lemma local_info_spec:
  assumes "local_info b i header packet_id rx_port lo = (info, lo1)"
  shows "wf_info info" "ep_id (pi_rx info) = i" "ep_id (pi_tx info) = lo_device_id lo"
    "pi_header info = (if header = PJON_NO_HEADER then lo_config lo else header)"
    "\<exists>seed. lo1 = lo\<lparr> lo_packet_id_seed := seed \<rparr>"
proof -
  have "\<exists>seed. lo1 = lo\<lparr> lo_packet_id_seed := seed \<rparr>"
    using assms by (auto simp: local_info_def Let_def intro: exI [of _ "lo_packet_id_seed lo"] split: if_splits)
  then show "\<exists>seed. lo1 = lo\<lparr> lo_packet_id_seed := seed \<rparr>" .
  show "wf_info info" "ep_id (pi_rx info) = i" "ep_id (pi_tx info) = lo_device_id lo"
    "pi_header info = (if header = PJON_NO_HEADER then lo_config lo else header)"
    using assms by (auto simp: local_info_def Let_def wf_info_def wf_endpoint_def new_packet_info_def
        new_endpoint_def split: if_splits)
qed

text \<open>The transmission of a frame that is in the buffer.\<close>

definition local_exchange ::
  "'s strategy \<Rightarrow> bool \<Rightarrow> u8 list \<Rightarrow> 's pjon_local \<Rightarrow> u16 \<times> 's pjon_local" where
  "local_exchange st answered frame lo =
     (let (now, s) = pf_micros st (lo_strategy lo);
          lo = lo\<lparr> lo_last_send := now, lo_strategy := st_send_frame st frame s \<rparr>
      in if answered then local_response st lo else (PJON_ACK, lo\<lparr> lo_retries := 0 \<rparr>))"

lemma local_send_packet_eq:
  assumes "frame \<noteq> []" and "2 \<le> length frame" and "take (length frame) buffer = frame" and "unat n = length frame"
  shows "local_send_packet st buffer n lo = Some (local_exchange st
           (frame ! 0 \<noteq> PJON_BROADCAST \<and> flag (frame ! 1) PJON_ACK_REQ_BIT \<and> lo_mode lo \<noteq> PJON_SIMPLEX) frame lo)"
proof -
  have l: "length frame \<le> length buffer" using assms(3) by (metis length_take min.cobounded2 min.absorb_iff2 nat_le_linear)
  have b: "buffer ! 0 = frame ! 0" "buffer ! 1 = frame ! 1" using assms(2,3) by (metis nth_take Suc_le_lessD numeral_2_eq_2 One_nat_def less_trans zero_less_Suc lessI)+
  have "rd_block buffer 0 (unat n) = Some frame" using l assms(3,4) by (simp add: rd_block_def)
  moreover have "rd buffer 0 = Some (frame ! 0)" "rd buffer 1 = Some (frame ! 1)"
    using l assms(2) b by (auto simp: rd_def)
  ultimately show ?thesis
    by (cases "pf_micros st (lo_strategy lo)"; cases "frame ! 0 = PJON_BROADCAST")
      (auto simp: local_send_packet_def local_exchange_def local_strategy_def local_on_strategy_def Let_def)
qed

text \<open>C12. Sending: what fits is composed at the start of the caller's buffer and transmitted exactly as
  the reference packet; the answer is awaited only if it was requested.  The retries count up to the
  limit of the strategy, start again after it, and are cleared by an acknowledgement or a packet that
  needs none.\<close>

theorem local_send_transmits:
  assumes "local_info b i header packet_id rx_port lo = (info, lo1)" and "fits b info len"
    and "unat len \<le> length payload" and "length buffer = packet_max_length b"
    and "image' = packet_image (final_info b info len) (take (unat len) payload)"
    and "pf_micros st (lo_strategy lo) = (now, s)" and "st_receive_response st (st_send_frame st image' s) = (c, s')"
    and "answered \<longleftrightarrow> flag (pi_header (final_info b info len)) PJON_ACK_REQ_BIT \<and> lo_mode lo \<noteq> PJON_SIMPLEX"
  shows "local_send_packet_to st b i buffer payload len header packet_id rx_port lo =
    Some (if \<not> answered \<or> c = PJON_ACK then PJON_ACK else if c = PJON_FAIL then PJON_FAIL else PJON_BUSY,
          image' @ drop (length image') buffer,
          lo1\<lparr> lo_last_send := now, lo_strategy := if answered then s' else st_send_frame st image' s,
               lo_retries := if answered \<and> c \<noteq> PJON_ACK \<and> lo_retries lo < st_max_attempts st
                             then lo_retries lo + 1 else 0 \<rparr>)"
proof -
  let ?N = "final_length b info len"
  note wf = local_info_spec(1) [OF assms(1)]
  have lpl: "length (take (unat len) payload) = unat len" using assms(3) by simp
  note I = composed_image [OF wf assms(2) lpl assms(5)]
  have N: "?N < packet_max_length b" "?N < 65536" "5 \<le> ?N"
    using assms(2) overhead_nat_bounds(1) [of "pi_header (final_info b info len)"]
    by (simp_all add: fits_def final_length_def)
  have "tools_compose_packet b info buffer payload len = Some (image' @ drop ?N buffer, of_nat ?N)"
    unfolding assms(5) using wf assms(2-4) N by (intro compose_refines_image) simp_all
  then have comp: "local_compose_packet b i buffer payload len header packet_id rx_port lo
      = Some (image' @ drop ?N buffer, of_nat ?N, lo1)"
    by (simp add: local_compose_packet_def assms(1))
  have n: "unat (of_nat ?N :: u16) = ?N" using N(2) by (simp add: unat_of_nat_wrapped)
  then have nz: "of_nat ?N \<noteq> (0 :: u16)" using N(3) by auto
  obtain seed where lo1: "lo1 = lo\<lparr> lo_packet_id_seed := seed \<rparr>" using local_info_spec(5) [OF assms(1)] by blast
  have "local_send_packet st (image' @ drop ?N buffer) (of_nat ?N) lo1 = Some (local_exchange st
      (image' ! 0 \<noteq> PJON_BROADCAST \<and> flag (image' ! 1) PJON_ACK_REQ_BIT \<and> lo_mode lo1 \<noteq> PJON_SIMPLEX) image' lo1)"
    using I(1) N(3) n by (intro local_send_packet_eq) auto
  moreover have "(image' ! 0 \<noteq> PJON_BROADCAST \<and> flag (image' ! 1) PJON_ACK_REQ_BIT \<and> lo_mode lo1 \<noteq> PJON_SIMPLEX) = answered"
    unfolding I(3,4) assms(8) lo1 using final_broadcast [of info b len] by auto
  ultimately have "local_send_packet_to st b i buffer payload len header packet_id rx_port lo =
      (let (r, lo') = local_exchange st answered image' lo1 in Some (r, image' @ drop ?N buffer, lo'))"
    by (simp add: local_send_packet_to_def comp nz case_prod_unfold Let_def)
  then show ?thesis
    using assms(6,7) by (simp add: local_exchange_def local_response_def local_strategy_def lo1 I(1) Let_def)
qed

lemma local_send_transmits_witness:
  "\<exists>image'. length image' = 7 \<and>
     local_send_packet_to idle_strategy default_build 12 (replicate 50 0) [64] 1 PJON_NO_HEADER 0 0 (new_local_id 0 45)
       = Some (PJON_ACK, image' @ drop (length image') (replicate 50 0), (new_local_id 1 45)\<lparr> lo_last_send := 0 \<rparr>)"
proof -
  let ?p = "packet_image sample_info [64]" and ?lo = "new_local_id 0 45 :: nat pjon_local"
  have i: "local_info default_build 12 PJON_NO_HEADER 0 0 ?lo = (sample_info, ?lo)"
    by (simp add: local_info_def sample_info_def new_packet_info_def)
  have f: "\<not> include_port default_build" "flag 6 PJON_ACK_REQ_BIT" "\<not> PJON_SIMPLEX" by (simp_all add: flag_def const_defs)
  have u: "?lo\<lparr> lo_last_send := 0, lo_strategy := 1, lo_retries := 0 \<rparr> = (new_local_id 1 45)\<lparr> lo_last_send := 0 \<rparr>"
    by (simp add: new_local_id_def local_set_default_def)
  have "local_send_packet_to idle_strategy default_build 12 (replicate 50 0) [64] 1 PJON_NO_HEADER 0 0 ?lo
      = Some (PJON_ACK, ?p @ drop (length ?p) (replicate 50 0), ?lo\<lparr> lo_last_send := 0, lo_strategy := 1, lo_retries := 0 \<rparr>)"
    using local_send_transmits [OF i sample_fits(3), of "[64]" "replicate 50 0" ?p idle_strategy 0 1 PJON_ACK 1 True] f sample_fits
    by (simp add: idle_strategy_def del: replicate.simps drop_replicate)
  then show ?thesis using sample_packet(4) u by (intro exI [of _ ?p]) (simp del: replicate.simps drop_replicate)
qed

text \<open>
  What does not fit is not composed, but the length the composer computed is not 0: \<^verbatim>\<open>send_packet\<close> sends
  that many bytes of the buffer, beyond its end if they are more than it holds.  (\<^verbatim>\<open>PJON::compose_packet\<close>
  compares the length with the limit and raises an error; \<^verbatim>\<open>PJONLocal\<close> does not.)
\<close>

lemma local_send_overread:
  assumes "local_info b i header packet_id rx_port lo = (info, lo1)"
    and "compose_sizing (compose_normalise b info len) len = (info', n, e)"
    and "packet_max_length b < unat n" and "length buffer = packet_max_length b"
  shows "local_send_packet_to st b i buffer payload len header packet_id rx_port lo = None"
proof -
  have "tools_compose_packet b info buffer payload len = Some (buffer, n)"
    using assms(2,3) by (simp add: tools_compose_packet_def)
  moreover have "n \<noteq> 0" using assms(3) by auto
  moreover have "local_send_packet st buffer n lo1 = None"
    using assms(3,4) by (cases "pf_micros st (lo_strategy lo1)") (simp add: local_send_packet_def local_strategy_def rd_block_def Let_def)
  ultimately show ?thesis using assms(1) by (simp add: local_send_packet_to_def local_compose_packet_def)
qed

end
