(* ===== verification/Pins.thy ===== *)
theory Pins
  imports Strategy
begin

text \<open>
  What the strategies that drive pins and ports share: the functions of \<^verbatim>\<open>src/interfaces\<close> they use, and
  the exponential back-off.

  Their loops wait for a pin or a clock and need not end.  Each such operation is a function into
  \<open>option\<close>: the number of rounds of a loop is bounded by an argument \<open>fuel\<close>, and \<^term>\<open>None\<close> stands for a
  call that has not returned by then (or has accessed memory out of bounds).  A strategy over an object
  that may be lost this way is made from them by \<open>lift_call\<close>.
\<close>

record 's pins = "'s platform" +
  pin_mode :: "u8 \<Rightarrow> bool \<Rightarrow> 's \<Rightarrow> 's"
  pin_write :: "u8 \<Rightarrow> bool \<Rightarrow> 's \<Rightarrow> 's"
  pin_read :: "u8 \<Rightarrow> 's \<Rightarrow> bool \<times> 's"
  pin_pull_down :: "u8 \<Rightarrow> 's \<Rightarrow> 's"
  delay_us :: "u32 \<Rightarrow> 's \<Rightarrow> 's"

text \<open>The modes of \<^verbatim>\<open>PJON_IO_MODE\<close>.\<close>

definition OUTPUT :: bool where "OUTPUT = True"
definition INPUT :: bool where "INPUT = False"

text \<open>\<^verbatim>\<open>PJON_DELAY_MICROSECONDS(PJON_RANDOM(n))\<close>, the wait after a collision.\<close>

definition random_delay_us :: "('s, 'z) pins_scheme \<Rightarrow> u32 \<Rightarrow> 's \<Rightarrow> 's" where
  "random_delay_us pn n w = (let (r, w) = pf_random pn n w in delay_us pn r w)"

text \<open>\<^verbatim>\<open>PJON_DELAY(PJON_RANDOM(n) + did)\<close>, the wait of \<^verbatim>\<open>begin\<close>.\<close>

definition initial_delay :: "('s, 'z) platform_scheme \<Rightarrow> u32 \<Rightarrow> u8 \<Rightarrow> 's \<Rightarrow> 's" where
  "initial_delay pf n did w = (let (r, w) = pf_random pf n w in pf_delay pf (r + ucast did) w)"

text \<open>The back-off: the number of attempts to the power of the degree plus one.\<close>

fun back_off_loop :: "nat \<Rightarrow> u8 \<Rightarrow> u32 \<Rightarrow> u32" where
  "back_off_loop 0 attempts result = result"
| "back_off_loop (Suc d) attempts result = back_off_loop d attempts (result * ucast attempts)"

definition power_back_off :: "nat \<Rightarrow> u8 \<Rightarrow> u32" where
  "power_back_off degree attempts = back_off_loop degree attempts (ucast attempts)"

lemma back_off_loop_power: "back_off_loop d a r = r * ucast a ^ d"
  by (induction d arbitrary: r) (simp_all add: algebra_simps)

lemma power_back_off_power: "power_back_off d a = ucast a ^ Suc d"
  by (simp add: power_back_off_def back_off_loop_power)

text \<open>Objects that may be lost in a call.\<close>

definition lift_call :: "'a \<Rightarrow> ('s \<Rightarrow> ('a \<times> 's) option) \<Rightarrow> 's option \<Rightarrow> 'a \<times> 's option" where
  "lift_call lost f s = (case Option.bind s f of None \<Rightarrow> (lost, None) | Some (x, s) \<Rightarrow> (x, Some s))"

definition lift_update :: "('s \<Rightarrow> 's option) \<Rightarrow> 's option \<Rightarrow> 's option" where
  "lift_update f s = Option.bind s f"

lemma lift_call_Some [simp]:
  "lift_call lost f (Some s) = (case f s of None \<Rightarrow> (lost, None) | Some (x, s) \<Rightarrow> (x, Some s))"
  by (simp add: lift_call_def)

end
