(* ===== verification/Bit_Bang.thy ===== *)
theory Bit_Bang
  imports Pins
begin

text \<open>
  \<^verbatim>\<open>src/strategies/SoftwareBitBang\<close>: bits on a single pin.  The state of the object is the record
  \<open>swbb\<close>, the timing options of \<^verbatim>\<open>Timing.h\<close> are the record \<open>swbb_timing\<close>, all durations in microseconds.
\<close>

subsection \<open>Timing and state\<close>

record swbb_timing =
  swbb_bit_width :: int
  swbb_bit_spacer :: int
  swbb_acceptance :: int
  swbb_read_delay :: int
  swbb_latency :: int
  swbb_preamble :: int
  swbb_max_preamble :: int
  swbb_response_offset :: int
  swbb_initial_delay :: u32
  swbb_collision_delay :: u32
  swbb_max_attempts :: u8
  swbb_back_off_degree :: nat
  swbb_receive_time :: u16

definition swbb_standard :: "nat \<Rightarrow> swbb_timing" where
  "swbb_standard mode =
     \<lparr> swbb_bit_width = (if mode = 1 then 40 else if mode = 2 then 36 else if mode = 3 then 24 else 22),
       swbb_bit_spacer = (if mode = 1 then 112 else if mode = 2 then 88 else if mode = 3 then 66 else 61),
       swbb_acceptance = (if mode = 1 then 56 else if mode = 2 then 56 else if mode = 3 then 30 else 30),
       swbb_read_delay = (if mode = 1 then 4 else if mode = 2 then 4 else if mode = 3 then 8 else 7),
       swbb_latency = (if mode = 1 then 13 else if mode = 2 then 10 else if mode = 3 then 8 else 5),
       swbb_preamble = 1, swbb_max_preamble = 1, swbb_response_offset = 20, swbb_initial_delay = 1000,
       swbb_collision_delay = 16, swbb_max_attempts = 20, swbb_back_off_degree = 4,
       swbb_receive_time = 1000 \<rparr>"

text \<open>
  \<^verbatim>\<open>Timing.h\<close> overrides bit width, spacer, acceptance and read delay for the boards it knows, some of
  them only at the clock they were measured with (in MHz here); what it does not set falls back to the
  standard values of the mode.  Mode 3 of the STM32F1 at 72 MHz has fractional durations and is left out:
  \<^term>\<open>None\<close>.
\<close>

datatype swbb_board =
  ATmega328P | ATmega328PB | ATmega32U4 | ATmega2560 | ATtiny85 | ATtiny84
| SAMD_Zero | ESP8266 | ESP32 | MK20DX256 | STM32F1 | Other_board

type_synonym swbb_override = "int \<times> int \<times> int \<times> int"

definition swbb_avr_timing :: "swbb_board \<Rightarrow> nat \<Rightarrow> nat \<Rightarrow> swbb_override option" where
  "swbb_avr_timing board mode mhz =
     (case board of
        ATmega328P \<Rightarrow>
          if mhz = 16 then
            if mode = 1 then Some (40, 112, 56, 4) else if mode = 2 then Some (36, 88, 56, 4)
            else if mode = 3 then Some (24, 66, 30, 8) else if mode = 4 then Some (22, 61, 30, 7) else None
          else None
      | ATmega328PB \<Rightarrow>
          if mhz = 16 then
            if mode = 1 then Some (37, 110, 56, 4) else if mode = 2 then Some (33, 88, 56, 8) else None
          else None
      | ATmega32U4 \<Rightarrow>
          if mode = 1 then Some (40, 112, 56, 8) else if mode = 2 then Some (36, 88, 56, 12) else None
      | ATmega2560 \<Rightarrow>
          if mode = 1 then Some (38, 110, 62, 11) else if mode = 2 then Some (34, 86, 58, 10) else None
      | ATtiny85 \<Rightarrow>
          if mhz = 16 then
            if mode = 1 then Some (40, 112, 56, 4) else if mode = 2 then Some (36, 88, 56, 4) else None
          else None
      | ATtiny84 \<Rightarrow>
          if mhz = 16 then
            if mode = 1 then Some (40, 112, 56, 4) else if mode = 2 then Some (36, 88, 56, 4) else None
          else None
      | _ \<Rightarrow> None)"

definition swbb_arm_timing :: "swbb_board \<Rightarrow> nat \<Rightarrow> nat \<Rightarrow> swbb_override option" where
  "swbb_arm_timing board mode mhz =
     (case board of
        SAMD_Zero \<Rightarrow> if mode = 1 then Some (43, 115, 40, -4) else None
      | ESP8266 \<Rightarrow> if mode = 1 \<and> (mhz = 80 \<or> mhz = 160) then Some (44, 112, 56, -6) else None
      | ESP32 \<Rightarrow> if mode = 1 then Some (44, 112, 56, -2) else None
      | MK20DX256 \<Rightarrow> if mode = 1 \<and> mhz = 96 then Some (46, 112, 40, -10) else None
      | STM32F1 \<Rightarrow>
          if mhz = 72 then
            if mode = 1 then Some (43, 115, 60, 3) else if mode = 2 then Some (39, 91, 47, 3)
            else if mode = 4 then Some (25, 59, 30, 4) else None
          else None
      | _ \<Rightarrow> None)"

definition swbb_timing_of :: "swbb_board \<Rightarrow> nat \<Rightarrow> nat \<Rightarrow> swbb_timing option" where
  "swbb_timing_of board mode mhz =
     (if board = STM32F1 \<and> mode = 3 \<and> mhz = 72 then None
      else Some (case (case swbb_avr_timing board mode mhz of Some x \<Rightarrow> Some x
                       | None \<Rightarrow> swbb_arm_timing board mode mhz) of
                   None \<Rightarrow> swbb_standard mode
                 | Some (width, spacer, acceptance, read_delay) \<Rightarrow>
                     (swbb_standard mode)\<lparr> swbb_bit_width := width, swbb_bit_spacer := spacer,
                        swbb_acceptance := acceptance, swbb_read_delay := read_delay \<rparr>))"

definition SWBB_FAIL :: u16 where [const_defs]: "SWBB_FAIL = 65535"
definition SWBB_NOT_ASSIGNED :: u8 where [const_defs]: "SWBB_NOT_ASSIGNED = 255"

record 's swbb =
  sb_timeout :: u16
  sb_input_pin :: u8
  sb_output_pin :: u8
  sb_world :: 's

text \<open>Pin and clock operations on the object.\<close>

definition in_world :: "('s \<Rightarrow> 'a \<times> 's) \<Rightarrow> 's swbb \<Rightarrow> 'a \<times> 's swbb" where
  "in_world f s = (let (x, w) = f (sb_world s) in (x, s\<lparr> sb_world := w \<rparr>))"

definition on_world :: "('s \<Rightarrow> 's) \<Rightarrow> 's swbb \<Rightarrow> 's swbb" where
  "on_world f s = s\<lparr> sb_world := f (sb_world s) \<rparr>"

definition sb_delay :: "('s, 'z) pins_scheme \<Rightarrow> int \<Rightarrow> 's swbb \<Rightarrow> 's swbb" where
  "sb_delay pn us s = on_world (delay_us pn (of_int us)) s"

definition sb_read :: "('s, 'z) pins_scheme \<Rightarrow> 's swbb \<Rightarrow> bool \<times> 's swbb" where
  "sb_read pn s = in_world (pin_read pn (sb_input_pin s)) s"

definition sb_write :: "('s, 'z) pins_scheme \<Rightarrow> bool \<Rightarrow> 's swbb \<Rightarrow> 's swbb" where
  "sb_write pn v s = on_world (pin_write pn (sb_output_pin s) v) s"

definition sb_micros :: "('s, 'z) pins_scheme \<Rightarrow> 's swbb \<Rightarrow> u32 \<times> 's swbb" where
  "sb_micros pn s = in_world (pf_micros pn) s"

subsection \<open>Synchronization\<close>

text \<open>\<^verbatim>\<open>while(PJON_IO_READ(_input_pin) && (uint32_t)(PJON_MICROS() - time) <= spacer);\<close>\<close>

fun sb_while_high :: "('s, 'z) pins_scheme \<Rightarrow> nat \<Rightarrow> u32 \<Rightarrow> u32 \<Rightarrow> 's swbb \<Rightarrow> 's swbb option" where
  "sb_while_high pn 0 spacer time s = None"
| "sb_while_high pn (Suc fuel) spacer time s =
     (let (high, s) = sb_read pn s in
      if high
      then let (now, s) = sb_micros pn s in
           if now - time \<le> spacer then sb_while_high pn fuel spacer time s else Some s
      else Some s)"

definition swbb_sync_for ::
  "swbb_timing \<Rightarrow> ('s, 'z) pins_scheme \<Rightarrow> nat \<Rightarrow> u32 \<Rightarrow> 's swbb \<Rightarrow> (bool \<times> 's swbb) option" where
  "swbb_sync_for c pn fuel spacer s =
     (let s = on_world (pin_pull_down pn (sb_input_pin s)) s;
          s = (if sb_output_pin s \<noteq> sb_input_pin s \<and> sb_output_pin s \<noteq> SWBB_NOT_ASSIGNED
               then on_world (pin_pull_down pn (sb_output_pin s)) s else s);
          (time, s) = sb_micros pn s
      in do { s \<leftarrow> sb_while_high pn fuel spacer time s;
              let (now, s) = sb_micros pn s;
              let time = now - time;
              if time < of_int (swbb_acceptance c) then Some (False, s)
              else let s = sb_delay pn (swbb_bit_width c div 2 - swbb_read_delay c) s;
                       (high, s) = sb_read pn s
                   in if \<not> high then Some (True, sb_delay pn (swbb_bit_width c div 2) s)
                      else Some (False, s) })"

definition swbb_sync ::
  "swbb_timing \<Rightarrow> ('s, 'z) pins_scheme \<Rightarrow> nat \<Rightarrow> 's swbb \<Rightarrow> (bool \<times> 's swbb) option" where
  "swbb_sync c pn fuel s = swbb_sync_for c pn fuel (of_int (swbb_bit_spacer c)) s"

definition swbb_sync_preamble ::
  "swbb_timing \<Rightarrow> ('s, 'z) pins_scheme \<Rightarrow> nat \<Rightarrow> 's swbb \<Rightarrow> (bool \<times> 's swbb) option" where
  "swbb_sync_preamble c pn fuel s =
     swbb_sync_for c pn fuel (of_int (swbb_bit_spacer c * swbb_max_preamble c)) s"

text \<open>The synchronization pads a transmitter emits, \<open>n\<close> of them.\<close>

fun swbb_pads :: "swbb_timing \<Rightarrow> ('s, 'z) pins_scheme \<Rightarrow> nat \<Rightarrow> 's swbb \<Rightarrow> 's swbb" where
  "swbb_pads c pn 0 s = s"
| "swbb_pads c pn (Suc n) s =
     (let s = sb_write pn True s; s = sb_delay pn (swbb_bit_spacer c) s;
          s = sb_write pn False s; s = sb_delay pn (swbb_bit_width c) s
      in swbb_pads c pn n s)"

definition swbb_pulse :: "swbb_timing \<Rightarrow> ('s, 'z) pins_scheme \<Rightarrow> u8 \<Rightarrow> 's swbb \<Rightarrow> 's swbb" where
  "swbb_pulse c pn n s =
     (if swbb_preamble c \<noteq> 1 \<and> n = 3
      then let s = sb_write pn True s; s = sb_delay pn (swbb_bit_spacer c * swbb_preamble c) s;
               s = sb_write pn False s; s = sb_delay pn (swbb_bit_width c) s
           in swbb_pads c pn (unat (n - 1)) s
      else swbb_pads c pn (unat n) s)"

subsection \<open>Bytes\<close>

text \<open>The bits from \<open>i\<close> to 6, then the last one.\<close>

fun swbb_read_bits ::
  "swbb_timing \<Rightarrow> ('s, 'z) pins_scheme \<Rightarrow> nat \<Rightarrow> nat \<Rightarrow> u8 \<Rightarrow> 's swbb \<Rightarrow> u8 \<times> 's swbb" where
  "swbb_read_bits c pn 0 i byte_value s = (byte_value, s)"
| "swbb_read_bits c pn (Suc k) i byte_value s =
     (let (bit, s) = sb_read pn s;
          byte_value = byte_value + push_bit i (of_bool bit);
          s = sb_delay pn (swbb_bit_width c) s
      in swbb_read_bits c pn k (Suc i) byte_value s)"

definition swbb_read_byte :: "swbb_timing \<Rightarrow> ('s, 'z) pins_scheme \<Rightarrow> 's swbb \<Rightarrow> u8 \<times> 's swbb" where
  "swbb_read_byte c pn s =
     (let s = sb_delay pn (swbb_bit_width c div 2) s;
          (byte_value, s) = swbb_read_bits c pn 7 0 0 s;
          (bit, s) = sb_read pn s;
          byte_value = byte_value + push_bit 7 (of_bool bit)
      in (byte_value, sb_delay pn (swbb_bit_width c div 2) s))"

definition swbb_receive_byte ::
  "swbb_timing \<Rightarrow> ('s, 'z) pins_scheme \<Rightarrow> nat \<Rightarrow> 's swbb \<Rightarrow> (u16 \<times> 's swbb) option" where
  "swbb_receive_byte c pn fuel s =
     do { (found, s) \<leftarrow> swbb_sync c pn fuel s;
          Some (if found then let (x, s) = swbb_read_byte c pn s in (ucast x, s) else (SWBB_FAIL, s)) }"

fun swbb_send_bits :: "swbb_timing \<Rightarrow> ('s, 'z) pins_scheme \<Rightarrow> nat \<Rightarrow> u8 \<Rightarrow> u8 \<Rightarrow> 's swbb \<Rightarrow> 's swbb" where
  "swbb_send_bits c pn 0 m b s = s"
| "swbb_send_bits c pn (Suc k) m b s =
     (if m = 0 then s
      else let s = sb_write pn (b AND m \<noteq> 0) s; s = sb_delay pn (swbb_bit_width c) s
           in swbb_send_bits c pn k (push_bit 1 m) b s)"

definition swbb_send_byte :: "swbb_timing \<Rightarrow> ('s, 'z) pins_scheme \<Rightarrow> u8 \<Rightarrow> 's swbb \<Rightarrow> 's swbb" where
  "swbb_send_byte c pn b s = swbb_send_bits c pn 9 1 b (swbb_pulse c pn 1 s)"

subsection \<open>The members of the strategy\<close>

definition swbb_back_off :: "swbb_timing \<Rightarrow> u8 \<Rightarrow> u32" where
  "swbb_back_off c attempts = power_back_off (swbb_back_off_degree c) attempts"

definition swbb_begin :: "swbb_timing \<Rightarrow> ('s, 'z) pins_scheme \<Rightarrow> u8 \<Rightarrow> 's swbb \<Rightarrow> bool \<times> 's swbb" where
  "swbb_begin c pn did s = (True, on_world (initial_delay pn (swbb_initial_delay c) did) s)"

fun swbb_idle_bits :: "swbb_timing \<Rightarrow> ('s, 'z) pins_scheme \<Rightarrow> nat \<Rightarrow> 's swbb \<Rightarrow> bool \<times> 's swbb" where
  "swbb_idle_bits c pn 0 s = (True, s)"
| "swbb_idle_bits c pn (Suc k) s =
     (let (high, s) = sb_read pn s in
      if high then (False, s) else swbb_idle_bits c pn k (sb_delay pn (swbb_bit_width c) s))"

text \<open>A check of the pin, after which the rest is only done if it was low.\<close>

definition if_low :: "('s, 'z) pins_scheme \<Rightarrow> ('s swbb \<Rightarrow> bool \<times> 's swbb) \<Rightarrow> 's swbb \<Rightarrow> bool \<times> 's swbb" where
  "if_low pn rest s = (let (high, s) = sb_read pn s in if high then (False, s) else rest s)"

definition swbb_can_start :: "swbb_timing \<Rightarrow> ('s, 'z) pins_scheme \<Rightarrow> 's swbb \<Rightarrow> bool \<times> 's swbb" where
  "swbb_can_start c pn s =
     (let s = on_world (pin_mode pn (sb_input_pin s) INPUT) s;
          s = sb_delay pn (swbb_bit_spacer c div 2) s
      in if_low pn (\<lambda>s.
           let s = sb_delay pn (swbb_bit_spacer c div 2) s in
           if_low pn (\<lambda>s.
             let s = sb_delay pn (swbb_bit_width c div 2) s;
                 (idle, s) = swbb_idle_bits c pn 9 s
             in if \<not> idle then (False, s)
                else if_low pn (\<lambda>s.
                  if_low pn (\<lambda>s.
                    if_low pn (\<lambda>s. (True, s))
                      (on_world (random_delay_us pn (swbb_collision_delay c)) s))
                    (sb_delay pn (swbb_latency c) s)) s) s) s)"

definition swbb_handle_collision :: "swbb_timing \<Rightarrow> ('s, 'z) pins_scheme \<Rightarrow> 's swbb \<Rightarrow> 's swbb" where
  "swbb_handle_collision c pn s = on_world (random_delay_us pn (swbb_collision_delay c)) s"

fun swbb_response_loop ::
  "swbb_timing \<Rightarrow> ('s, 'z) pins_scheme \<Rightarrow> nat \<Rightarrow> nat \<Rightarrow> u32 \<Rightarrow> u16 \<Rightarrow> 's swbb \<Rightarrow> (u16 \<times> 's swbb) option" where
  "swbb_response_loop c pn fuel 0 time response s = None"
| "swbb_response_loop c pn fuel (Suc k) time response s =
     (let (now, s) = sb_micros pn s in
      if now - time < ucast (sb_timeout s)
      then do { let s = on_world (pin_write pn (sb_input_pin s) False) s;
                (found, s) \<leftarrow> swbb_sync c pn fuel s;
                (response, s) \<leftarrow> (if found then swbb_receive_byte c pn fuel s else Some (response, s));
                if response = SWBB_FAIL
                then let s = on_world (pin_mode pn (sb_output_pin s) OUTPUT) s;
                         s = sb_write pn True s;
                         s = sb_delay pn (swbb_bit_width c div 4) s;
                         s = on_world (pin_pull_down pn (sb_output_pin s)) s
                     in swbb_response_loop c pn fuel k time response s
                else Some (response, s) }
      else Some (response, s))"

definition swbb_receive_response ::
  "swbb_timing \<Rightarrow> ('s, 'z) pins_scheme \<Rightarrow> nat \<Rightarrow> 's swbb \<Rightarrow> (u16 \<times> 's swbb) option" where
  "swbb_receive_response c pn fuel s =
     (let s = (if sb_output_pin s \<noteq> sb_input_pin s \<and> sb_output_pin s \<noteq> SWBB_NOT_ASSIGNED
               then sb_write pn False s else s);
          (time, s) = sb_micros pn s
      in swbb_response_loop c pn fuel fuel time SWBB_FAIL s)"

definition swbb_frame_init ::
  "swbb_timing \<Rightarrow> ('s, 'z) pins_scheme \<Rightarrow> nat \<Rightarrow> 's swbb \<Rightarrow> (bool \<times> 's swbb) option" where
  "swbb_frame_init c pn fuel s =
     do { (found, s) \<leftarrow> swbb_sync_preamble c pn fuel s;
          if \<not> found then Some (False, s)
          else do { (found, s) \<leftarrow> swbb_sync c pn fuel s;
                    if \<not> found then Some (False, s) else swbb_sync c pn fuel s } }"

definition swbb_receive_frame ::
  "swbb_timing \<Rightarrow> build \<Rightarrow> ('s, 'z) pins_scheme \<Rightarrow> nat \<Rightarrow> u16 \<Rightarrow> 's swbb
     \<Rightarrow> ((u16 \<times> u8 list) \<times> 's swbb) option" where
  "swbb_receive_frame c b pn fuel max_length s =
     do { (ready, s) \<leftarrow>
            (if unat max_length = packet_max_length b
             then do { let (time, s) = sb_micros pn s;
                       (found, s) \<leftarrow> swbb_frame_init c pn fuel s;
                       if \<not> found then Some (False, s)
                       else let (now, s) = sb_micros pn s
                            in Some (\<not> (now - time <
                                   of_int (swbb_bit_width c * 3 + swbb_bit_spacer c * 3 - swbb_acceptance c)), s) }
             else Some (True, s));
          if \<not> ready then Some ((SWBB_FAIL, []), s)
          else do { (result, s) \<leftarrow> swbb_receive_byte c pn fuel s;
                    if result = SWBB_FAIL then Some ((SWBB_FAIL, []), s)
                    else Some ((1, [ucast result]), s) } }"

text \<open>Waiting for a high pin, then for a low one, each for a limited time.\<close>

fun sb_wait_until ::
  "('s, 'z) pins_scheme \<Rightarrow> nat \<Rightarrow> bool \<Rightarrow> int \<Rightarrow> u32 \<Rightarrow> 's swbb \<Rightarrow> 's swbb option" where
  "sb_wait_until pn 0 level limit time s = None"
| "sb_wait_until pn (Suc fuel) level limit time s =
     (let (now, s) = sb_micros pn s in
      if now - time < of_int limit
      then let (high, s) = sb_read pn s in
           if high \<noteq> level then sb_wait_until pn fuel level limit time s else Some s
      else Some s)"

definition swbb_send_response ::
  "swbb_timing \<Rightarrow> ('s, 'z) pins_scheme \<Rightarrow> nat \<Rightarrow> u8 \<Rightarrow> 's swbb \<Rightarrow> 's swbb option" where
  "swbb_send_response c pn fuel response s =
     (let s = on_world (pin_pull_down pn (sb_input_pin s)) s;
          (time, s) = sb_micros pn s
      in do { s \<leftarrow> sb_wait_until pn fuel True (swbb_bit_width c) time s;
              let (time, s) = sb_micros pn s;
              s \<leftarrow> sb_wait_until pn fuel False (swbb_bit_width c div 4) time s;
              let s = on_world (pin_mode pn (sb_output_pin s) OUTPUT) s;
              let s = swbb_pulse c pn 1 s;
              let s = swbb_send_byte c pn response s;
              Some (on_world (pin_pull_down pn (sb_output_pin s)) s) })"

definition swbb_send_frame ::
  "swbb_timing \<Rightarrow> ('s, 'z) pins_scheme \<Rightarrow> u8 list \<Rightarrow> 's swbb \<Rightarrow> 's swbb" where
  "swbb_send_frame c pn data s =
     (let s = s\<lparr> sb_timeout := of_int (int (length data) * swbb_response_offset c + swbb_latency c) \<rparr>;
          s = on_world (pin_mode pn (sb_output_pin s) OUTPUT) s;
          s = swbb_pulse c pn 3 s;
          s = fold (swbb_send_byte c pn) data s
      in on_world (pin_pull_down pn (sb_output_pin s)) s)"

definition swbb_set_pins :: "('s, 'z) pins_scheme \<Rightarrow> u8 \<Rightarrow> u8 \<Rightarrow> 's swbb \<Rightarrow> 's swbb" where
  "swbb_set_pins pn input_pin output_pin s =
     (let s = on_world (pin_pull_down pn input_pin) s; s = on_world (pin_pull_down pn output_pin) s
      in s\<lparr> sb_input_pin := input_pin, sb_output_pin := output_pin \<rparr>)"

definition swbb_set_pin :: "('s, 'z) pins_scheme \<Rightarrow> u8 \<Rightarrow> 's swbb \<Rightarrow> 's swbb" where
  "swbb_set_pin pn pin s =
     (let s = on_world (pin_pull_down pn pin) s in s\<lparr> sb_input_pin := pin, sb_output_pin := pin \<rparr>)"

subsection \<open>As a strategy of a bus\<close>

definition swbb_strategy ::
  "swbb_timing \<Rightarrow> build \<Rightarrow> ('s, 'z) pins_scheme \<Rightarrow> nat \<Rightarrow> 's swbb option strategy" where
  "swbb_strategy c b pn fuel =
     \<lparr> pf_micros = lift_call 0 (\<lambda>s. Some (sb_micros pn s)),
       pf_delay = (\<lambda>ms. map_option (on_world (pf_delay pn ms))),
       pf_random = (\<lambda>n. lift_call 0 (\<lambda>s. Some (in_world (pf_random pn n) s))),
       pf_random_seed = (\<lambda>n. map_option (on_world (pf_random_seed pn n))),
       pf_analog_read = (\<lambda>p. lift_call 0 (\<lambda>s. Some (in_world (pf_analog_read pn p) s))),
       st_begin = (\<lambda>did. lift_call False (\<lambda>s. Some (swbb_begin c pn did s))),
       st_back_off = (\<lambda>attempts s. (swbb_back_off c attempts, s)),
       st_can_start = lift_call False (\<lambda>s. Some (swbb_can_start c pn s)),
       st_max_attempts = swbb_max_attempts c,
       st_receive_time = swbb_receive_time c,
       st_handle_collision = map_option (swbb_handle_collision c pn),
       st_receive_frame = (\<lambda>n s. case lift_call (SWBB_FAIL, []) (swbb_receive_frame c b pn fuel n) s of
                                   ((r, bs), s) \<Rightarrow> (r, bs, s)),
       st_receive_response = lift_call SWBB_FAIL (swbb_receive_response c pn fuel),
       st_send_response = (\<lambda>r. lift_update (swbb_send_response c pn fuel (ucast r))),
       st_send_frame = (\<lambda>data. map_option (swbb_send_frame c pn data)) \<rparr>"

lemma swbb_receive_frame_one:
  "swbb_receive_frame c b pn fuel n s = Some ((r, bs), s') \<Longrightarrow> length bs \<le> 1"
  by (auto simp: swbb_receive_frame_def Let_def elim!: bind_SomeE split: if_splits prod.splits option.splits)

interpretation swbb: bounded_strategy "swbb_strategy c b pn fuel" "\<lambda>_. True" for c b pn fuel
proof (unfold_locales, goal_cases)
  case (1 s n r bs s')
  have "0 < unat n" using 1(2) by (simp add: unat_gt_0)
  moreover have "length bs \<le> 1"
    using 1(3) swbb_receive_frame_one [of c b pn fuel n]
    by (auto simp: swbb_strategy_def lift_call_def split: prod.splits option.splits elim!: bind_SomeE)
  ultimately show ?case by simp
qed simp_all

end
