(* ===== verification/Bit_Bang_Link.thy ===== *)
theory Bit_Bang_Link
  imports Bit_Bang Receive_Laws
begin

text \<open>
  A link over one pin: the level a transmitter of \<^verbatim>\<open>SoftwareBitBang\<close> puts on the line, bit by bit, and a
  receiver that samples it with a clock of its own resolution.
\<close>

subsection \<open>The line\<close>

text \<open>
  The clock counts microseconds; every reading of the clock takes \<open>ln_cost\<close> of them, the time a device
  loses between two looks at the pin.  The level is a function of time; a driver sets it from now on.
\<close>

record line =
  ln_clock :: int
  ln_level :: "int \<Rightarrow> bool"
  ln_cost :: int

definition line_set :: "bool \<Rightarrow> line \<Rightarrow> line" where
  "line_set v w = w\<lparr> ln_level := (\<lambda>t. if t < ln_clock w then ln_level w t else v) \<rparr>"

definition line_port :: "bool \<Rightarrow> line pins" where
  "line_port drives =
     \<lparr> pf_micros = (\<lambda>w. (of_int (ln_clock w + ln_cost w), w\<lparr> ln_clock := ln_clock w + ln_cost w \<rparr>)),
       pf_delay = (\<lambda>ms w. w\<lparr> ln_clock := ln_clock w + 1000 * uint ms \<rparr>),
       pf_random = (\<lambda>n w. (0, w)), pf_random_seed = (\<lambda>n w. w), pf_analog_read = (\<lambda>p w. (0, w)),
       pin_mode = (\<lambda>p m w. w), pin_write = (\<lambda>p v w. if drives then line_set v w else w),
       pin_read = (\<lambda>p w. (ln_level w (ln_clock w), w)),
       pin_pull_down = (\<lambda>p w. if drives then line_set False w else w),
       delay_us = (\<lambda>us w. w\<lparr> ln_clock := ln_clock w + uint us \<rparr>) \<rparr>"

abbreviation clk :: "line swbb \<Rightarrow> int" where "clk s \<equiv> ln_clock (sb_world s)"
abbreviation lvl :: "line swbb \<Rightarrow> int \<Rightarrow> bool" where "lvl s \<equiv> ln_level (sb_world s)"
abbreviation cost :: "line swbb \<Rightarrow> int" where "cost s \<equiv> ln_cost (sb_world s)"

definition at :: "int \<Rightarrow> line swbb \<Rightarrow> line swbb" where
  "at t s = s\<lparr> sb_world := (sb_world s)\<lparr> ln_clock := t \<rparr> \<rparr>"

lemma at_simps [simp]:
  "clk (at t s) = t" "lvl (at t s) = lvl s" "cost (at t s) = cost s" "at t (at u s) = at t s" "at (clk s) s = s"
  by (simp_all add: at_def)

lemma line_port_read [simp]: "sb_read (line_port d) s = (lvl s (clk s), s)"
  by (simp add: sb_read_def in_world_def line_port_def)

lemma line_port_micros [simp]: "sb_micros (line_port d) s = (of_int (clk s + cost s), at (clk s + cost s) s)"
  by (simp add: sb_micros_def in_world_def line_port_def at_def)

lemma u32_of_int: "0 \<le> us \<Longrightarrow> us < 2 ^ 32 \<Longrightarrow> uint (of_int us :: u32) = us"
  by (simp add: uint_word_of_int)

lemma line_port_delay [simp]: "0 \<le> us \<Longrightarrow> us < 2 ^ 32 \<Longrightarrow> sb_delay (line_port d) us s = at (clk s + us) s"
  by (simp add: sb_delay_def on_world_def line_port_def at_def u32_of_int)

lemma line_port_passive [simp]:
  "on_world (pin_pull_down (line_port False) p) s = s" "on_world (pin_mode (line_port d) p m) s = s"
  by (simp_all add: on_world_def line_port_def)

lemma u32_compare:
  assumes "0 \<le> x" "x < 2 ^ 32" "0 \<le> y" "y < 2 ^ 32"
  shows "(of_int x :: u32) < of_int y \<longleftrightarrow> x < y" and "(of_int x :: u32) \<le> of_int y \<longleftrightarrow> x \<le> y"
  using assms by (simp_all add: word_less_def word_le_def u32_of_int)

subsection \<open>The waveform\<close>

definition pad_wave :: "swbb_timing \<Rightarrow> int \<Rightarrow> int \<Rightarrow> (int \<Rightarrow> bool) \<Rightarrow> bool" where
  "pad_wave c T L level \<longleftrightarrow>
     (\<forall>t. T \<le> t \<and> t < T + L \<longrightarrow> level t) \<and>
     (\<forall>t. T + L \<le> t \<and> t < T + L + swbb_bit_width c \<longrightarrow> \<not> level t)"

definition bits_wave :: "swbb_timing \<Rightarrow> int \<Rightarrow> u8 \<Rightarrow> (int \<Rightarrow> bool) \<Rightarrow> bool" where
  "bits_wave c T x level \<longleftrightarrow>
     (\<forall>k < 8. \<forall>t. T + int k * swbb_bit_width c \<le> t \<and> t < T + int (Suc k) * swbb_bit_width c \<longrightarrow> level t = bit x k)"

definition byte_wave :: "swbb_timing \<Rightarrow> int \<Rightarrow> u8 \<Rightarrow> (int \<Rightarrow> bool) \<Rightarrow> bool" where
  "byte_wave c T x level \<longleftrightarrow>
     pad_wave c T (swbb_bit_spacer c) level \<and> bits_wave c (T + swbb_bit_spacer c + swbb_bit_width c) x level"

definition byte_time :: "swbb_timing \<Rightarrow> int" where
  "byte_time c = swbb_bit_spacer c + 9 * swbb_bit_width c"

fun bytes_wave :: "swbb_timing \<Rightarrow> int \<Rightarrow> u8 list \<Rightarrow> (int \<Rightarrow> bool) \<Rightarrow> bool" where
  "bytes_wave c T [] level = True"
| "bytes_wave c T (x # xs) level = (byte_wave c T x level \<and> bytes_wave c (T + byte_time c) xs level)"

definition frame_wave :: "swbb_timing \<Rightarrow> int \<Rightarrow> u8 list \<Rightarrow> (int \<Rightarrow> bool) \<Rightarrow> bool" where
  "frame_wave c T data level \<longleftrightarrow>
     (let s = swbb_bit_spacer c; w = swbb_bit_width c; l = s * swbb_preamble c in
      pad_wave c T l level \<and> pad_wave c (T + l + w) s level \<and> pad_wave c (T + l + s + 2 * w) s level \<and>
      bytes_wave c (T + l + 2 * s + 3 * w) data level)"

subsection \<open>The transmitter\<close>

text \<open>The past of the line is fixed.\<close>

definition later :: "line swbb \<Rightarrow> line swbb \<Rightarrow> bool" where
  "later s s' \<longleftrightarrow> clk s \<le> clk s' \<and> (\<forall>t < clk s. lvl s' t = lvl s t)"

lemma later_refl [simp]: "later s s"
  by (simp add: later_def)

lemma later_trans [trans]: "later s s' \<Longrightarrow> later s' s'' \<Longrightarrow> later s s''"
  by (auto simp: later_def)

definition emit_level :: "bool \<Rightarrow> int \<Rightarrow> line swbb \<Rightarrow> line swbb" where
  "emit_level v d s = at (clk s + d) (s\<lparr> sb_world := line_set v (sb_world s) \<rparr>)"

lemma write_delay:
  "0 \<le> d \<Longrightarrow> d < 2 ^ 32 \<Longrightarrow> sb_delay (line_port True) d (sb_write (line_port True) v s) = emit_level v d s"
  by (simp add: sb_delay_def sb_write_def on_world_def line_port_def emit_level_def at_def line_set_def u32_of_int)

lemma emit_level_simps:
  "clk (emit_level v d s) = clk s + d"
  "lvl (emit_level v d s) t = (if t < clk s then lvl s t else v)"
  by (simp_all add: emit_level_def line_set_def)

lemma emit_level_later: "0 \<le> d \<Longrightarrow> later s (emit_level v d s)"
  by (simp add: later_def emit_level_simps)

lemma emit_level_level: "0 \<le> d \<Longrightarrow> later (emit_level v d s) s' \<Longrightarrow> clk s \<le> t \<Longrightarrow> t < clk s + d \<Longrightarrow> lvl s' t = v"
  by (simp add: later_def emit_level_simps)

definition timing_fits :: "swbb_timing \<Rightarrow> bool" where
  "timing_fits c \<longleftrightarrow>
     0 < swbb_bit_width c \<and> swbb_bit_width c < 2 ^ 24 \<and> 0 < swbb_bit_spacer c \<and>
     1 \<le> swbb_preamble c \<and> swbb_preamble c \<le> swbb_max_preamble c \<and>
     swbb_bit_spacer c * swbb_max_preamble c < 2 ^ 24"

lemma timing_fits_bounds:
  assumes "timing_fits c"
  shows "swbb_bit_spacer c \<le> swbb_bit_spacer c * swbb_preamble c"
    and "swbb_bit_spacer c * swbb_preamble c \<le> swbb_bit_spacer c * swbb_max_preamble c"
    and "swbb_bit_spacer c < 2 ^ 24" and "swbb_bit_spacer c * swbb_preamble c < 2 ^ 24"
proof -
  show a: "swbb_bit_spacer c \<le> swbb_bit_spacer c * swbb_preamble c"
    using assms mult_left_mono [of 1 "swbb_preamble c" "swbb_bit_spacer c"] by (simp add: timing_fits_def)
  show b: "swbb_bit_spacer c * swbb_preamble c \<le> swbb_bit_spacer c * swbb_max_preamble c"
    using assms by (intro mult_left_mono) (simp_all add: timing_fits_def)
  show "swbb_bit_spacer c < 2 ^ 24" "swbb_bit_spacer c * swbb_preamble c < 2 ^ 24"
  proof -
    have "swbb_bit_spacer c * swbb_max_preamble c < 2 ^ 24" using assms by (simp add: timing_fits_def)
    then show "swbb_bit_spacer c < 2 ^ 24" "swbb_bit_spacer c * swbb_preamble c < 2 ^ 24" using a b by linarith+
  qed
qed

text \<open>One pad.\<close>

definition emit_pad :: "swbb_timing \<Rightarrow> int \<Rightarrow> line swbb \<Rightarrow> line swbb" where
  "emit_pad c l s = emit_level False (swbb_bit_width c) (emit_level True l s)"

lemma emit_pad_wave:
  assumes "timing_fits c" "0 \<le> l"
  shows "clk (emit_pad c l s) = clk s + l + swbb_bit_width c" and "later s (emit_pad c l s)"
    and "later (emit_pad c l s) s' \<Longrightarrow> pad_wave c (clk s) l (lvl s')"
proof -
  have w: "0 \<le> swbb_bit_width c" using assms(1) by (simp add: timing_fits_def)
  note e = emit_level_later [OF assms(2), of s True] emit_level_later [OF w, of "emit_level True l s" False]
  show "clk (emit_pad c l s) = clk s + l + swbb_bit_width c" by (simp add: emit_pad_def emit_level_simps)
  show "later s (emit_pad c l s)" unfolding emit_pad_def using e by (rule later_trans)
  assume l: "later (emit_pad c l s) s'"
  then have l': "later (emit_level True l s) s'" using e(2) later_trans unfolding emit_pad_def by blast
  show "pad_wave c (clk s) l (lvl s')"
    using emit_level_level [OF assms(2) l'] emit_level_level [OF w l [unfolded emit_pad_def]]
    by (simp add: pad_wave_def emit_level_simps)
qed

lemma swbb_pads_emit:
  "timing_fits c \<Longrightarrow> swbb_pads c (line_port True) n s = (emit_pad c (swbb_bit_spacer c) ^^ n) s"
  using timing_fits_bounds(3) [of c]
  by (induction n arbitrary: s) (simp_all add: write_delay emit_pad_def timing_fits_def funpow_swap1 Let_def del: line_port_delay)

text \<open>The bits of a byte.\<close>

lemma send_bits_wave:
  assumes c: "timing_fits c"
  shows "i \<le> 8 \<Longrightarrow>
    clk (swbb_send_bits c (line_port True) (9 - i) (push_bit i 1) x s) = clk s + int (8 - i) * swbb_bit_width c \<and>
    later s (swbb_send_bits c (line_port True) (9 - i) (push_bit i 1) x s) \<and>
    (\<forall>s'. later (swbb_send_bits c (line_port True) (9 - i) (push_bit i 1) x s) s' \<longrightarrow>
      (\<forall>k t. i \<le> k \<and> k < 8 \<and> clk s + int (k - i) * swbb_bit_width c \<le> t \<and>
             t < clk s + int (Suc k - i) * swbb_bit_width c \<longrightarrow> lvl s' t = bit x k))"
proof (induction "8 - i" arbitrary: i s)
  case 0
  then have i: "i = 8" by simp
  have "push_bit 8 1 = (0 :: u8)" by (simp add: push_bit_eq_mult)
  then show ?case by (auto simp: i)
next
  case (Suc m)
  let ?w = "swbb_bit_width c"
  have w: "0 < ?w" "?w < 2 ^ 32" using c by (simp_all add: timing_fits_def)
  have i: "i < 8" "9 - i = Suc (9 - Suc i)" using Suc.hyps(2) by simp_all
  have nz: "push_bit i 1 \<noteq> (0 :: u8)" using i(1) by simp
  let ?v = "x AND push_bit i 1 \<noteq> 0"
  let ?s = "emit_level ?v ?w s"
  have v: "?v = bit x i" using and_exp_eq_0_iff_not_bit [of x i] by (simp add: push_bit_eq_mult)
  have e: "swbb_send_bits c (line_port True) (9 - i) (push_bit i 1) x s
      = swbb_send_bits c (line_port True) (9 - Suc i) (push_bit (Suc i) 1) x ?s"
    unfolding i(2) using nz w by (simp add: write_delay push_bit_push_bit mult.commute Let_def del: line_port_delay)
  note ih = Suc.hyps(1) [of "Suc i" ?s]
  have l: "later s ?s" using w by (intro emit_level_later) simp
  have "m = 8 - Suc i" "Suc i \<le> 8" using Suc.hyps(2) i by simp_all
  note ih = ih [OF this]
  show ?case
    unfolding e
  proof (intro conjI allI impI)
    show "clk (swbb_send_bits c (line_port True) (9 - Suc i) (push_bit (Suc i) 1) x ?s) = clk s + int (8 - i) * ?w"
      using ih i(1) by (simp add: emit_level_simps of_nat_diff algebra_simps)
    show "later s (swbb_send_bits c (line_port True) (9 - Suc i) (push_bit (Suc i) 1) x ?s)"
      using later_trans [OF l] ih by blast
    fix s' k t
    assume s': "later (swbb_send_bits c (line_port True) (9 - Suc i) (push_bit (Suc i) 1) x ?s) s'"
      and k: "i \<le> k \<and> k < 8 \<and> clk s + int (k - i) * ?w \<le> t \<and> t < clk s + int (Suc k - i) * ?w"
    show "lvl s' t = bit x k"
    proof (cases "k = i")
      case True
      have "later ?s s'" using ih s' later_trans by blast
      then show ?thesis using emit_level_level [of ?w ?v s s' t] k w v True by simp
    next
      case False
      then have "k - i = Suc (k - Suc i)" "Suc k - i = Suc (Suc k - Suc i)" using k by auto
      then show ?thesis using ih s' k False by (auto simp: emit_level_simps algebra_simps)
    qed
  qed
qed

lemma swbb_send_byte_wave:
  assumes "timing_fits c"
  shows "clk (swbb_send_byte c (line_port True) x s) = clk s + byte_time c"
    and "later s (swbb_send_byte c (line_port True) x s)"
    and "later (swbb_send_byte c (line_port True) x s) s' \<Longrightarrow> byte_wave c (clk s) x (lvl s')"
proof -
  let ?p = "emit_pad c (swbb_bit_spacer c) s"
  have sp: "0 \<le> swbb_bit_spacer c" using assms by (simp add: timing_fits_def)
  note p = emit_pad_wave [OF assms sp, of s]
  have e: "swbb_send_byte c (line_port True) x s = swbb_send_bits c (line_port True) 9 1 x ?p"
    by (simp add: swbb_send_byte_def swbb_pulse_def swbb_pads_emit [OF assms] del: swbb_pads.simps)
  have "clk (swbb_send_bits c (line_port True) (9 - 0) (push_bit 0 1) x ?p) = clk ?p + int (8 - 0) * swbb_bit_width c \<and>
    later ?p (swbb_send_bits c (line_port True) (9 - 0) (push_bit 0 1) x ?p) \<and>
    (\<forall>s'. later (swbb_send_bits c (line_port True) (9 - 0) (push_bit 0 1) x ?p) s' \<longrightarrow>
      (\<forall>k t. 0 \<le> k \<and> k < 8 \<and> clk ?p + int (k - 0) * swbb_bit_width c \<le> t \<and>
             t < clk ?p + int (Suc k - 0) * swbb_bit_width c \<longrightarrow> lvl s' t = bit x k))"
    by (rule send_bits_wave [OF assms]) simp
  then have b: "clk (swbb_send_bits c (line_port True) 9 1 x ?p) = clk ?p + 8 * swbb_bit_width c"
    "later ?p (swbb_send_bits c (line_port True) 9 1 x ?p)"
    "\<And>s' k t. later (swbb_send_bits c (line_port True) 9 1 x ?p) s' \<Longrightarrow> k < 8 \<Longrightarrow>
       clk ?p + int k * swbb_bit_width c \<le> t \<Longrightarrow> t < clk ?p + int (Suc k) * swbb_bit_width c \<Longrightarrow> lvl s' t = bit x k"
    by auto
  show "clk (swbb_send_byte c (line_port True) x s) = clk s + byte_time c"
    using e b(1) p(1) by (simp add: byte_time_def)
  show "later s (swbb_send_byte c (line_port True) x s)" unfolding e using p(2) b(2) by (rule later_trans)
  assume l: "later (swbb_send_byte c (line_port True) x s) s'"
  have "later ?p s'" using b(2) l [unfolded e] by (rule later_trans)
  then show "byte_wave c (clk s) x (lvl s')"
    using p(1,3) b(3) [OF l [unfolded e]] by (auto simp: byte_wave_def bits_wave_def)
qed

lemma swbb_send_bytes_wave:
  assumes c: "timing_fits c"
  shows "later s (fold (swbb_send_byte c (line_port True)) data s) \<and>
    (\<forall>s'. later (fold (swbb_send_byte c (line_port True)) data s) s' \<longrightarrow> bytes_wave c (clk s) data (lvl s'))"
proof (induction data arbitrary: s)
  case (Cons x xs)
  note b = swbb_send_byte_wave [OF c, where x = x and s = s]
  let ?b = "swbb_send_byte c (line_port True) x s"
  let ?f = "fold (swbb_send_byte c (line_port True)) xs ?b"
  note ih = Cons.IH [of ?b]
  have "byte_wave c (clk s) x (lvl s')" if "later ?f s'" for s'
    using b(3) later_trans [OF conjunct1 [OF ih] that] by simp
  then show ?case using ih b(1) later_trans [OF b(2) conjunct1 [OF ih]] by simp
qed simp

lemma swbb_send_frame_wave:
  assumes c: "timing_fits c"
  shows "frame_wave c (clk s) data (lvl (swbb_send_frame c (line_port True) data s))"
proof -
  let ?t = "s\<lparr> sb_timeout := of_int (int (length data) * swbb_response_offset c + swbb_latency c) \<rparr>"
  let ?s = "swbb_bit_spacer c" and ?w = "swbb_bit_width c"
  let ?l = "?s * swbb_preamble c"
  let ?p1 = "emit_pad c ?l ?t"
  let ?p2 = "emit_pad c ?s ?p1"
  let ?p3 = "emit_pad c ?s ?p2"
  have n: "0 \<le> ?s" "0 \<le> ?l" "?l < 2 ^ 32" "0 \<le> ?w" "?w < 2 ^ 32"
    using c timing_fits_bounds [OF c] by (simp_all add: timing_fits_def)
  have pulse: "swbb_pulse c (line_port True) 3 ?t = ?p3"
  proof (cases "swbb_preamble c = 1")
    case True
    then have "swbb_pulse c (line_port True) 3 ?t = (emit_pad c ?s ^^ 3) ?t"
      by (simp add: swbb_pulse_def swbb_pads_emit [OF c])
    then show ?thesis using True by (simp add: numeral_3_eq_3)
  next
    case False
    then have "swbb_pulse c (line_port True) 3 ?t = (emit_pad c ?s ^^ 2) ?p1"
      using n by (simp add: swbb_pulse_def swbb_pads_emit [OF c] write_delay emit_pad_def Let_def del: line_port_delay)
    then show ?thesis by (simp add: numeral_2_eq_2)
  qed
  let ?f = "fold (swbb_send_byte c (line_port True)) data ?p3"
  let ?e = "swbb_send_frame c (line_port True) data s"
  have e: "?e = ?f\<lparr> sb_world := line_set False (sb_world ?f) \<rparr>"
    using pulse by (simp add: swbb_send_frame_def Let_def on_world_def line_port_def)
  have le: "later ?f ?e" unfolding e by (simp add: later_def line_set_def)
  note w1 = emit_pad_wave [OF c n(2), of ?t] and w2 = emit_pad_wave [OF c n(1), of ?p1]
    and w3 = emit_pad_wave [OF c n(1), of ?p2] and wb = swbb_send_bytes_wave [OF c, where data = data and s = ?p3]
  have l3: "later ?p3 ?e" using wb le later_trans by blast
  have l2: "later ?p2 ?e" using w3(2) l3 by (rule later_trans)
  have l1: "later ?p1 ?e" using w2(2) l2 by (rule later_trans)
  have "pad_wave c (clk s) ?l (lvl ?e)" using w1(3) [OF l1] by simp
  moreover have "pad_wave c (clk s + ?l + ?w) ?s (lvl ?e)" using w2(3) [OF l2] w1(1) by simp
  moreover have "pad_wave c (clk s + ?l + ?s + 2 * ?w) ?s (lvl ?e)"
    using w3(3) [OF l3] w1(1) w2(1) by (simp add: algebra_simps)
  moreover have "bytes_wave c (clk s + ?l + 2 * ?s + 3 * ?w) data (lvl ?e)"
    using wb le w1(1) w2(1) w3(1) by (simp add: algebra_simps)
  ultimately show ?thesis by (simp add: frame_wave_def Let_def)
qed

subsection \<open>The receiver\<close>

text \<open>
  What the timing has to satisfy for a receiver that loses \<open>e\<close> microseconds with every look at the clock:
  the read delay makes up for the loss, and the pad leaves room for it.
\<close>

definition timing_tolerates :: "swbb_timing \<Rightarrow> int \<Rightarrow> bool" where
  "timing_tolerates c e \<longleftrightarrow>
     0 < e \<and> e < 2 ^ 24 \<and> 0 \<le> swbb_acceptance c \<and>
     swbb_read_delay c \<le> swbb_bit_width c div 2 \<and> - (2 ^ 24) \<le> swbb_read_delay c \<and>
     swbb_read_delay c + 2 \<le> 2 * e \<and>
     2 * e + swbb_bit_width c div 2 \<le> swbb_bit_width c + swbb_read_delay c \<and>
     4 * e + swbb_acceptance c \<le> swbb_bit_spacer c + swbb_read_delay c"

lemma sb_while_high_edge:
  assumes "0 < cost s" "cost s < 2 ^ 24" and "\<forall>t. a \<le> t \<and> t < F \<longrightarrow> lvl s t" and "\<forall>t. F \<le> t \<and> t < F + cost s \<longrightarrow> \<not> lvl s t"
    and "F - a \<le> spacer" "spacer < 2 ^ 24"
  shows "a \<le> clk s \<Longrightarrow> clk s < F + cost s \<Longrightarrow> nat (F - clk s) < fuel \<Longrightarrow> a < F \<Longrightarrow>
    \<exists>t. sb_while_high (line_port d) fuel (of_int spacer) (of_int a) s = Some (at t s) \<and> F \<le> t \<and> t < F + cost s"
  using assms
proof (induction fuel arbitrary: s)
  case (Suc fuel)
  show ?case
  proof (cases "clk s < F")
    case False
    then show ?thesis using Suc.prems by (intro exI [of _ "clk s"]) (simp add: Let_def)
  next
    case True
    let ?t = "clk s + cost s"
    have high: "lvl s (clk s)" using True Suc.prems by simp
    have cmp: "(of_int ?t - of_int a :: u32) \<le> of_int spacer \<longleftrightarrow> ?t - a \<le> spacer"
      using u32_compare(2) [of "?t - a" spacer] Suc.prems True by simp
    show ?thesis
    proof (cases "?t - a \<le> spacer")
      case True
      have "\<exists>t. sb_while_high (line_port d) fuel (of_int spacer) (of_int a) (at ?t s) = Some (at t (at ?t s)) \<and>
          F \<le> t \<and> t < F + cost (at ?t s)"
        using Suc.prems \<open>clk s < F\<close> by (intro Suc.IH) simp_all
      then show ?thesis using high cmp True by (auto simp: Let_def simp del: of_int_add)
    next
      case False
      then show ?thesis using high cmp Suc.prems \<open>clk s < F\<close>
        by (intro exI [of _ ?t]) (simp add: Let_def del: of_int_add)
    qed
  qed
qed simp

text \<open>Synchronization on a pad: it is found, and the position in the bits that follow is known up to \<open>e\<close>.\<close>

lemma swbb_sync_pad:
  assumes tol: "timing_tolerates c (cost s)" and c: "timing_fits c"
    and pad: "pad_wave c T L (lvl s)" and L: "0 < L" "L \<le> spacer" "spacer < 2 ^ 24"
    and start: "T \<le> clk s + cost s" "clk s + cost s + swbb_acceptance c \<le> T + L"
    and fuel: "nat L < fuel"
  shows "\<exists>t. swbb_sync_for c (line_port False) fuel (of_int spacer) s = Some (True, at t s) \<and>
     T + L + cost s + 2 * (swbb_bit_width c div 2) - swbb_read_delay c \<le> t \<and>
     t < T + L + 2 * cost s + 2 * (swbb_bit_width c div 2) - swbb_read_delay c"
proof -
  let ?e = "cost s" and ?w = "swbb_bit_width c" and ?r = "swbb_read_delay c" and ?a = "clk s + cost s" and ?F = "T + L"
  let ?h = "?w div 2"
  have b: "0 < ?e" "?e < 2 ^ 24" "0 \<le> swbb_acceptance c" "?r \<le> ?h" "- (2 ^ 24) \<le> ?r" "?r + 2 \<le> 2 * ?e"
    "2 * ?e + ?h \<le> ?w + ?r" "0 < ?w" "?w < 2 ^ 24"
    using tol c by (simp_all add: timing_tolerates_def timing_fits_def)
  have h: "0 \<le> ?h" "?h \<le> ?w" "2 * ?h \<le> ?w" "?w - 1 \<le> 2 * ?h" using b(8) by auto
  have high: "\<forall>t. ?a \<le> t \<and> t < ?F \<longrightarrow> lvl s t" and low: "\<And>t. ?F \<le> t \<Longrightarrow> t < ?F + ?w \<Longrightarrow> \<not> lvl s t"
    using pad start(1) by (auto simp: pad_wave_def)
  have ew: "?e \<le> ?w" using b h by linarith
  show ?thesis
  proof (cases "?a < ?F")
    case True
    have "\<exists>t. sb_while_high (line_port False) fuel (of_int spacer) (of_int ?a) (at ?a s) = Some (at t (at ?a s)) \<and>
        ?F \<le> t \<and> t < ?F + cost (at ?a s)"
      using True b high low ew start L fuel by (intro sb_while_high_edge) auto
    then obtain t where t: "sb_while_high (line_port False) fuel (of_int spacer) (of_int ?a) (at ?a s) = Some (at t s)"
      "?F \<le> t" "t < ?F + ?e" by auto
    let ?t = "t + ?e + (?h - ?r)"
    have acc: "\<not> ((of_int (t + ?e) - of_int ?a :: u32) < of_int (swbb_acceptance c))"
      using u32_compare(1) [of "t + ?e - ?a" "swbb_acceptance c"] t b start L by simp
    have d: "0 \<le> ?h - ?r" "?h - ?r < 2 ^ 32" "0 \<le> ?h" "?h < 2 ^ 32" using b h by simp_all
    have nl: "\<not> lvl s ?t" using t b h by (intro low) linarith+
    have "swbb_sync_for c (line_port False) fuel (of_int spacer) s = Some (True, at (?t + ?h) s)"
      using t(1) acc nl d by (simp add: swbb_sync_for_def Let_def del: of_int_add of_int_diff)
    then show ?thesis using t by (intro exI [of _ "?t + ?h"]) simp
  next
    case False
    then have F: "?a = ?F" "swbb_acceptance c = 0" using start(2) b(3) by simp_all
    obtain k where k: "fuel = Suc k" using fuel by (cases fuel) auto
    have w: "sb_while_high (line_port False) fuel (of_int spacer) (of_int ?a) (at ?a s) = Some (at ?a s)"
      using low [of ?F] F(1) b by (simp add: k Let_def)
    let ?t = "?a + ?e + (?h - ?r)"
    have d: "0 \<le> ?h - ?r" "?h - ?r < 2 ^ 32" "0 \<le> ?h" "?h < 2 ^ 32" using b h by simp_all
    have nl: "\<not> lvl s ?t" using F b h by (intro low) linarith+
    have "swbb_sync_for c (line_port False) fuel (of_int spacer) s = Some (True, at (?t + ?h) s)"
      using w F(2) nl d by (simp add: swbb_sync_for_def Let_def del: of_int_add of_int_diff)
    then show ?thesis using F b by (intro exI [of _ "?t + ?h"]) simp
  qed
qed

text \<open>Sampling the bits: anywhere within the first bit, and a bit apart from then on.\<close>

lemma swbb_read_bits_wave:
  assumes c: "timing_fits c"
  shows "\<forall>j \<le> k. lvl s (clk s + int j * swbb_bit_width c) = bit x (i + j) \<Longrightarrow>
    swbb_read_bits c (line_port d) k i (take_bit i x) s = (take_bit (i + k) x, at (clk s + int k * swbb_bit_width c) s)"
proof (induction k arbitrary: i s)
  case (Suc k)
  let ?w = "swbb_bit_width c"
  have w: "0 \<le> ?w" "?w < 2 ^ 32" using c by (simp_all add: timing_fits_def)
  have b: "lvl s (clk s) = bit x i" using Suc.prems [rule_format, of 0] by simp
  have n: "take_bit i x + push_bit i (of_bool (bit x i)) = take_bit (Suc i) x"
    by (rule take_bit_next)
  have "\<forall>j \<le> k. lvl (at (clk s + ?w) s) (clk (at (clk s + ?w) s) + int j * ?w) = bit x (Suc i + j)"
  proof (intro allI impI)
    fix j assume "j \<le> k"
    then show "lvl (at (clk s + ?w) s) (clk (at (clk s + ?w) s) + int j * ?w) = bit x (Suc i + j)"
      using Suc.prems [rule_format, of "Suc j"] by (simp add: algebra_simps)
  qed
  from Suc.IH [OF this] show ?case using b n w by (simp add: Let_def algebra_simps)
qed simp

lemma swbb_read_byte_wave:
  assumes c: "timing_fits c" and x: "bits_wave c B x (lvl s)"
    and t: "B \<le> clk s + swbb_bit_width c div 2" "clk s + swbb_bit_width c div 2 < B + swbb_bit_width c"
  shows "swbb_read_byte c (line_port d) s
    = (x, at (clk s + 2 * (swbb_bit_width c div 2) + 7 * swbb_bit_width c) s)"
proof -
  let ?w = "swbb_bit_width c" and ?h = "swbb_bit_width c div 2"
  let ?s = "at (clk s + ?h) s"
  have w: "0 < ?w" "?w < 2 ^ 32" using c by (simp_all add: timing_fits_def)
  then have h: "0 \<le> ?h" "?h < 2 ^ 32" by auto
  have b: "lvl s (clk s + ?h + int k * ?w) = bit x k" if "k < 8" for k
    using x that t by (auto simp: bits_wave_def algebra_simps)
  then have "swbb_read_bits c (line_port d) 7 0 (take_bit 0 x) ?s = (take_bit (0 + 7) x, at (clk ?s + int 7 * ?w) ?s)"
    by (intro swbb_read_bits_wave [OF c]) simp
  then have r: "swbb_read_bits c (line_port d) 7 0 0 ?s = (take_bit 7 x, at (clk s + ?h + 7 * ?w) s)" by simp
  have "take_bit 7 x + push_bit 7 (of_bool (bit x 7)) = take_bit (Suc 7) x"
    by (rule take_bit_next)
  moreover have "take_bit (Suc 7) x = x" by (simp add: take_bit_word_eq_self)
  ultimately have "take_bit 7 x + push_bit 7 (of_bool (bit x 7)) = x" by metis
  then show ?thesis using r b [of 7] h by (simp add: swbb_read_byte_def Let_def algebra_simps)
qed

text \<open>A byte, and the position at its end: close enough to the next pad to find it.\<close>

definition at_pad :: "swbb_timing \<Rightarrow> int \<Rightarrow> int \<Rightarrow> line swbb \<Rightarrow> bool" where
  "at_pad c T L s \<longleftrightarrow> T \<le> clk s + cost s \<and> clk s + cost s + swbb_acceptance c \<le> T + L"

lemma swbb_receive_byte_wave:
  assumes tol: "timing_tolerates c (cost s)" and c: "timing_fits c"
    and x: "byte_wave c T x (lvl s)" and start: "at_pad c T (swbb_bit_spacer c) s"
    and fuel: "nat (swbb_bit_spacer c) < fuel"
  shows "\<exists>t. swbb_receive_byte c (line_port False) fuel s = Some (ucast x, at t s) \<and>
             at_pad c (T + byte_time c) (swbb_bit_spacer c) (at t s)"
proof -
  let ?e = "cost s" and ?w = "swbb_bit_width c" and ?h = "swbb_bit_width c div 2" and ?r = "swbb_read_delay c"
    and ?s = "swbb_bit_spacer c"
  have b: "0 < ?e" "?r + 2 \<le> 2 * ?e" "2 * ?e + ?h \<le> ?w + ?r" "4 * ?e + swbb_acceptance c \<le> ?s + ?r" "0 < ?w" "0 < ?s" "?r \<le> ?h"
    using tol c by (simp_all add: timing_tolerates_def timing_fits_def)
  have h: "2 * ?h \<le> ?w" "?w - 1 \<le> 2 * ?h" by auto
  obtain t where t: "swbb_sync_for c (line_port False) fuel (of_int ?s) s = Some (True, at t s)"
    "T + ?s + ?e + 2 * ?h - ?r \<le> t" "t < T + ?s + 2 * ?e + 2 * ?h - ?r"
    using swbb_sync_pad [OF tol c, of T ?s ?s fuel] x start fuel b timing_fits_bounds(3) [OF c]
    by (auto simp: byte_wave_def at_pad_def)
  let ?t = "t + 2 * ?h + 7 * ?w"
  have r: "swbb_read_byte c (line_port False) (at t s) = (x, at ?t s)"
    using swbb_read_byte_wave [OF c, of "T + ?s + ?w" x "at t s" False] x t b h by (simp add: byte_wave_def)
  have "swbb_receive_byte c (line_port False) fuel s = Some (ucast x, at ?t s)"
    using t(1) r by (simp add: swbb_receive_byte_def swbb_sync_def)
  moreover have "at_pad c (T + byte_time c) ?s (at ?t s)"
    using t(2,3) b h by (simp add: at_pad_def byte_time_def)
  ultimately show ?thesis by blast
qed

lemma ucast_not_fail [simp]: "(ucast (x :: u8) :: u16) \<noteq> SWBB_FAIL"
proof
  assume "(ucast x :: u16) = SWBB_FAIL"
  then have "unat (ucast x :: u16) = 65535" by (simp add: SWBB_FAIL_def)
  then show False using unsigned_less [of x, where 'a = nat] by simp
qed

lemma ucast_u8_u16_u8 [simp]: "(ucast (ucast (x :: u8) :: u16) :: u8) = x"
  by (rule bit_word_eqI) (simp add: bit_simps)

lemma swbb_feeds_bytes:
  assumes c: "timing_fits c" and fuel: "nat (swbb_bit_spacer c) < fuel"
  shows "timing_tolerates c (cost s) \<Longrightarrow> bytes_wave c T data (lvl s) \<Longrightarrow> at_pad c T (swbb_bit_spacer c) s \<Longrightarrow>
    \<exists>s'. feeds (swbb_strategy c b (line_port False) fuel) (packet_max_length b) False (map (\<lambda>x. [x]) data) (Some s) (Some s')"
proof (induction data arbitrary: s T)
  case (Cons x xs)
  have x: "byte_wave c T x (lvl s)" "bytes_wave c (T + byte_time c) xs (lvl s)" using Cons.prems(2) by simp_all
  from swbb_receive_byte_wave [OF Cons.prems(1) c x(1) Cons.prems(3) fuel] obtain t where
    t: "swbb_receive_byte c (line_port False) fuel s = Some (ucast x, at t s)"
    "at_pad c (T + byte_time c) (swbb_bit_spacer c) (at t s)" by blast
  have "st_receive_frame (swbb_strategy c b (line_port False) fuel) n (Some s) = (1, [x], Some (at t s))"
    if "unat n \<noteq> packet_max_length b" for n
    using t(1) that by (simp add: swbb_strategy_def swbb_receive_frame_def)
  moreover obtain s' where "feeds (swbb_strategy c b (line_port False) fuel) (packet_max_length b) False
      (map (\<lambda>x. [x]) xs) (Some (at t s)) (Some s')"
    using Cons.IH [of "at t s" "T + byte_time c"] Cons.prems(1) x(2) t(2) by auto
  ultimately show ?case by fastforce
qed simp

text \<open>
  The position at the start of a frame: not before its first pad, early enough to tell that the pad is
  long enough, and early enough for the test of the length of the frame initializer.
\<close>

definition at_frame :: "swbb_timing \<Rightarrow> int \<Rightarrow> line swbb \<Rightarrow> bool" where
  "at_frame c T s \<longleftrightarrow>
     T \<le> clk s + 2 * cost s \<and>
     clk s + 2 * cost s + swbb_acceptance c \<le> T + swbb_bit_spacer c * swbb_preamble c \<and>
     clk s + swbb_bit_spacer c + swbb_read_delay c + 1 \<le>
       T + swbb_bit_spacer c * swbb_preamble c + swbb_acceptance c + cost s"

lemma swbb_frame_init_wave:
  assumes tol: "timing_tolerates c (cost s)" and c: "timing_fits c" and f: "frame_wave c T data (lvl s)"
    and start: "at_frame c T s" and fuel: "nat (swbb_bit_spacer c * swbb_preamble c) < fuel"
  shows "\<exists>t. swbb_frame_init c (line_port False) fuel (at (clk s + cost s) s) = Some (True, at t s) \<and>
     T + swbb_bit_spacer c * swbb_preamble c + 2 * swbb_bit_spacer c + 2 * swbb_bit_width c
       + cost s + 2 * (swbb_bit_width c div 2) - swbb_read_delay c \<le> t \<and>
     t < T + swbb_bit_spacer c * swbb_preamble c + 2 * swbb_bit_spacer c + 2 * swbb_bit_width c
       + 2 * cost s + 2 * (swbb_bit_width c div 2) - swbb_read_delay c"
proof -
  let ?e = "cost s" and ?w = "swbb_bit_width c" and ?h = "swbb_bit_width c div 2" and ?r = "swbb_read_delay c"
    and ?s = "swbb_bit_spacer c"
  let ?l = "?s * swbb_preamble c"
  have b: "0 < ?e" "?r + 2 \<le> 2 * ?e" "4 * ?e + swbb_acceptance c \<le> ?s + ?r" "0 < ?s" "?s \<le> ?l"
    "swbb_bit_spacer c * swbb_max_preamble c < 2 ^ 24"
    using tol c timing_fits_bounds [OF c] by (simp_all add: timing_tolerates_def timing_fits_def)
  have h: "2 * ?h \<le> ?w" "?w - 1 \<le> 2 * ?h" by auto
  have w: "pad_wave c T ?l (lvl s)" "pad_wave c (T + ?l + ?w) ?s (lvl s)" "pad_wave c (T + ?l + ?s + 2 * ?w) ?s (lvl s)"
    using f by (simp_all add: frame_wave_def Let_def)
  have fu: "nat ?s < fuel" using fuel b by linarith
  obtain t1 where t1: "swbb_sync_for c (line_port False) fuel (of_int (?s * swbb_max_preamble c)) (at (clk s + ?e) s)
      = Some (True, at t1 s)" "T + ?l + ?e + 2 * ?h - ?r \<le> t1" "t1 < T + ?l + 2 * ?e + 2 * ?h - ?r"
    using swbb_sync_pad [of c "at (clk s + ?e) s" T ?l "?s * swbb_max_preamble c" fuel] tol c w(1) start fuel b
      timing_fits_bounds(2) [OF c] by (auto simp: at_frame_def)
  obtain t2 where t2: "swbb_sync_for c (line_port False) fuel (of_int ?s) (at t1 s) = Some (True, at t2 s)"
    "T + ?l + ?w + ?s + ?e + 2 * ?h - ?r \<le> t2" "t2 < T + ?l + ?w + ?s + 2 * ?e + 2 * ?h - ?r"
    using swbb_sync_pad [of c "at t1 s" "T + ?l + ?w" ?s ?s fuel] tol c w(2) t1(2,3) fu b h timing_fits_bounds(3) [OF c]
    by auto
  obtain t3 where t3: "swbb_sync_for c (line_port False) fuel (of_int ?s) (at t2 s) = Some (True, at t3 s)"
    "T + ?l + ?s + 2 * ?w + ?s + ?e + 2 * ?h - ?r \<le> t3" "t3 < T + ?l + ?s + 2 * ?w + ?s + 2 * ?e + 2 * ?h - ?r"
    using swbb_sync_pad [of c "at t2 s" "T + ?l + ?s + 2 * ?w" ?s ?s fuel] tol c w(3) t2(2,3) fu b h
      timing_fits_bounds(3) [OF c] by auto
  have "swbb_frame_init c (line_port False) fuel (at (clk s + ?e) s) = Some (True, at t3 s)"
    using t1(1) t2(1) t3(1) by (simp add: swbb_frame_init_def swbb_sync_preamble_def swbb_sync_def)
  then show ?thesis using t3(2,3) by (intro exI [of _ t3]) simp
qed

lemma swbb_feeds_frame:
  assumes tol: "timing_tolerates c (cost s)" and c: "timing_fits c" and f: "frame_wave c T data (lvl s)"
    and start: "at_frame c T s" and fuel: "nat (swbb_bit_spacer c * swbb_preamble c) < fuel" and ne: "data \<noteq> []"
  shows "\<exists>s'. feeds (swbb_strategy c b (line_port False) fuel) (packet_max_length b) True (map (\<lambda>x. [x]) data) (Some s) (Some s')"
proof -
  let ?e = "cost s" and ?w = "swbb_bit_width c" and ?h = "swbb_bit_width c div 2" and ?r = "swbb_read_delay c"
    and ?s = "swbb_bit_spacer c"
  let ?l = "?s * swbb_preamble c"
  let ?T = "T + ?l + 2 * ?s + 3 * ?w"
  have b: "0 < ?e" "?e < 2 ^ 24" "?r + 2 \<le> 2 * ?e" "4 * ?e + swbb_acceptance c \<le> ?s + ?r" "0 \<le> swbb_acceptance c"
    "- (2 ^ 24) \<le> ?r" "?r \<le> ?h" "0 < ?s" "?s \<le> ?l" "?l < 2 ^ 24" "?s < 2 ^ 24" "0 < ?w" "?w < 2 ^ 24"
    using tol c timing_fits_bounds [OF c] by (simp_all add: timing_tolerates_def timing_fits_def)
  have h: "2 * ?h \<le> ?w" "?w - 1 \<le> 2 * ?h" by auto
  obtain t where t: "swbb_frame_init c (line_port False) fuel (at (clk s + ?e) s) = Some (True, at t s)"
    "T + ?l + 2 * ?s + 2 * ?w + ?e + 2 * ?h - ?r \<le> t" "t < T + ?l + 2 * ?s + 2 * ?w + 2 * ?e + 2 * ?h - ?r"
    using swbb_frame_init_wave [OF tol c f start fuel] by blast
  have st: "T \<le> clk s + 2 * ?e" "clk s + ?s + ?r + 1 \<le> T + ?l + swbb_acceptance c + ?e"
    using start by (simp_all add: at_frame_def)
  let ?lim = "?w * 3 + ?s * 3 - swbb_acceptance c"
  have "0 \<le> ?lim" "?lim < 2 ^ 32" "0 \<le> t + ?e - (clk s + ?e)" "t + ?e - (clk s + ?e) < 2 ^ 32" "?lim \<le> t + ?e - (clk s + ?e)"
    using t(2,3) st b h by simp_all
  then have init: "\<not> (of_int (t + ?e) - of_int (clk s + ?e) < (of_int ?lim :: u32))"
    using u32_compare(1) [of "t + ?e - (clk s + ?e)" ?lim] by simp
  obtain x xs where d: "data = x # xs" using ne by (cases data) auto
  have x: "byte_wave c ?T x (lvl s)" "bytes_wave c (?T + byte_time c) xs (lvl s)"
    using f d by (simp_all add: frame_wave_def Let_def)
  have fu: "nat ?s < fuel" using fuel b by linarith
  have "at_pad c ?T ?s (at (t + ?e) s)" using t(2,3) b h by (simp add: at_pad_def)
  then obtain u where u: "swbb_receive_byte c (line_port False) fuel (at (t + ?e) s) = Some (ucast x, at u s)"
    "at_pad c (?T + byte_time c) ?s (at u s)"
    using swbb_receive_byte_wave [of c "at (t + ?e) s" ?T x fuel] tol c x(1) fu by auto
  have "st_receive_frame (swbb_strategy c b (line_port False) fuel) n (Some s) = (1, [x], Some (at u s))"
    if "unat n = packet_max_length b" for n
    using t(1) u(1) init that
    by (simp add: swbb_strategy_def swbb_receive_frame_def Let_def del: of_int_add of_int_diff of_int_mult)
  moreover obtain s' where "feeds (swbb_strategy c b (line_port False) fuel) (packet_max_length b) False
      (map (\<lambda>x. [x]) xs) (Some (at u s)) (Some s')"
    using swbb_feeds_bytes [OF c fu, of "at u s" "?T + byte_time c" xs b] tol x(2) u(2) by auto
  ultimately show ?thesis unfolding d by fastforce
qed

subsection \<open>From the payload to the receiver\<close>

lemma composed_packet_nonempty:
  assumes "40 \<le> packet_max_length b" "packet_max_length b \<le> 65535"
    and "wf_info info" and "fits b info len" and "unat len \<le> length source" and "len \<noteq> 0"
    and "length destination = packet_max_length b"
    and "flag (pi_header (final_info b info len)) PJON_EXT_LEN_BIT \<longrightarrow> 15 < final_length b info len"
    and "include_mac b \<longrightarrow> flag (pi_header (final_info b info len)) PJON_MAC_BIT"
    and "tools_compose_packet b info destination source len = Some (packet, n)"
  shows "take (unat n) packet \<noteq> []"
proof -
  let ?p = "packet_image (final_info b info len) (take (unat len) source)"
  have N: "final_length b info len < packet_max_length b" "final_length b info len < 65536"
    using assms(4) by (simp_all add: fits_def)
  have "tools_compose_packet b info destination source len =
      Some (?p @ drop (final_length b info len) destination, of_nat (final_length b info len))"
    using assms N by (intro compose_refines_image) simp_all
  then have "packet = ?p @ drop (final_length b info len) destination" "n = of_nat (final_length b info len)"
    using assms(10) by simp_all
  then have "unat n = final_length b info len" "length packet = length ?p + length (drop (final_length b info len) destination)"
    using N by (simp_all add: unat_of_nat_wrapped)
  moreover have "length ?p = final_length b info len"
    using assms(3,5) length_packet_image [of "final_info b info len" "take (unat len) source"] by (simp add: final_length_def)
  moreover have "0 < final_length b info len"
    using overhead_nat_bounds(1) [of "pi_header (final_info b info len)"] unfolding final_length_def by linarith
  ultimately show ?thesis by auto
qed

text \<open>C2. The whole stack over one pin: a packet composed from a payload, put on the line by
  \<^verbatim>\<open>send_frame\<close> bit by bit, and sampled by a bus that is waiting in \<^verbatim>\<open>receive\<close> at the start of the frame,
  is answered with \<^verbatim>\<open>PJON_ACK\<close> and hands exactly the payload and its description to the receiver, for all
  timings that tolerate the time the receiver loses between two looks at its clock.\<close>

theorem swbb_delivers:
  assumes "wf_bus b bus" and "40 \<le> packet_max_length b" "packet_max_length b \<le> 65535"
    and "wf_info info" and "fits b info len" and "unat len \<le> length source" and "len \<noteq> 0"
    and "length destination = packet_max_length b"
    and "flag (pi_header (final_info b info len)) PJON_EXT_LEN_BIT \<longrightarrow> 15 < final_length b info len"
    and "include_mac b \<longrightarrow> flag (pi_header (final_info b info len)) PJON_MAC_BIT"
    and "tools_compose_packet b info destination source len = Some (packet, n)"
    and "addressed b bus (take (unat n) packet)"
    and "i = (wire_info (final_info b info len))\<lparr> pi_custom_pointer := pj_custom_pointer bus \<rparr>"
    and "\<not> duplicate b bus i" and "include_port b \<longrightarrow> pj_port bus = 0 \<or> pj_port bus = pi_port i"
    and "timing_fits c" and "timing_tolerates c (cost rx)"
    and "lvl rx = lvl (swbb_send_frame c (line_port True) (take (unat n) packet) tx)"
    and "at_frame c (clk tx) rx" and "nat (swbb_bit_spacer c * swbb_preamble c) < fuel"
    and "pj_strategy bus = Some rx"
  shows "\<exists>bus'. receive (swbb_strategy c b (line_port False) fuel) b bus = Some (PJON_ACK, bus') \<and>
           pj_events bus' = pj_events bus @ [Received (take (unat len) source) len i]"
proof -
  let ?p = "take (unat n) packet"
  have wave: "frame_wave c (clk tx) ?p (lvl rx)"
    unfolding assms(18) by (rule swbb_send_frame_wave [OF assms(16)])
  have "?p \<noteq> []" using composed_packet_nonempty [OF assms(2-11)] by simp
  from swbb_feeds_frame [OF assms(17,16) wave assms(19,20) this] obtain s' where
    "feeds (swbb_strategy c b (line_port False) fuel) (packet_max_length b) True (map (\<lambda>x. [x]) ?p) (pj_strategy bus) (Some s')"
    unfolding assms(21) by blast
  moreover have "concat (map (\<lambda>x. [x]) ?p) = ?p" by (induction ?p) auto
  ultimately show ?thesis
    using composed_delivered [OF assms(1-12) _ _ assms(13-15)] by (fastforce simp: emit_event_def)
qed

text \<open>The standard timings of all modes are fit for it.\<close>

lemma swbb_standard_tolerates:
  "mode = 1 \<Longrightarrow> timing_fits (swbb_standard mode) \<and> (3 \<le> e \<and> e \<le> 12 \<longrightarrow> timing_tolerates (swbb_standard mode) e)"
  "mode = 2 \<Longrightarrow> timing_fits (swbb_standard mode) \<and> (3 \<le> e \<and> e \<le> 9 \<longrightarrow> timing_tolerates (swbb_standard mode) e)"
  "mode = 3 \<Longrightarrow> timing_fits (swbb_standard mode) \<and> (5 \<le> e \<and> e \<le> 10 \<longrightarrow> timing_tolerates (swbb_standard mode) e)"
  "mode = 4 \<Longrightarrow> timing_fits (swbb_standard mode) \<and> (5 \<le> e \<and> e \<le> 9 \<longrightarrow> timing_tolerates (swbb_standard mode) e)"
  by (simp_all add: swbb_standard_def timing_fits_def timing_tolerates_def)

text \<open>And so are the timings of all boards that are not left out.\<close>

definition sufficient_cost :: "swbb_timing \<Rightarrow> int" where
  "sufficient_cost c = max 1 ((swbb_read_delay c + 3) div 2)"

definition known_timings :: "(int \<times> int \<times> int \<times> int) list" where
  "known_timings =
     [(40, 112, 56, 4), (36, 88, 56, 4), (24, 66, 30, 8), (22, 61, 30, 7), (37, 110, 56, 4), (33, 88, 56, 8),
      (40, 112, 56, 8), (36, 88, 56, 12), (38, 110, 62, 11), (34, 86, 58, 10), (43, 115, 40, -4),
      (44, 112, 56, -6), (44, 112, 56, -2), (46, 112, 40, -10), (43, 115, 60, 3), (39, 91, 47, 3), (25, 59, 30, 4)]"

lemma swbb_avr_known: "swbb_avr_timing board mode mhz = Some x \<Longrightarrow> x \<in> set known_timings"
  by (cases board) (auto simp: swbb_avr_timing_def known_timings_def split: if_splits)

lemma swbb_arm_known: "swbb_arm_timing board mode mhz = Some x \<Longrightarrow> x \<in> set known_timings"
  by (cases board) (auto simp: swbb_arm_timing_def known_timings_def split: if_splits)

lemma known_timings_tolerate:
  "\<forall>(width, spacer, acceptance, read_delay) \<in> set known_timings.
     0 < width \<and> width < 2 ^ 24 \<and> 0 < spacer \<and> spacer < 2 ^ 24 \<and> 0 \<le> acceptance \<and> read_delay \<le> width div 2 \<and>
     - (2 ^ 24) \<le> read_delay \<and>
     (let e = max 1 ((read_delay + 3) div 2) in e < 2 ^ 24 \<and> read_delay + 2 \<le> 2 * e \<and>
        2 * e + width div 2 \<le> width + read_delay \<and> 4 * e + acceptance \<le> spacer + read_delay)"
  by (simp add: known_timings_def)

lemma swbb_boards_tolerate:
  assumes "swbb_timing_of board mode mhz = Some c" and "mode \<in> {1, 2, 3, 4}"
  shows "timing_fits c \<and> timing_tolerates c (sufficient_cost c)"
proof (cases "c = swbb_standard mode")
  case True
  have "sufficient_cost c \<in> {3, 5}" using assms(2) True by (auto simp: sufficient_cost_def swbb_standard_def)
  then show ?thesis using assms(2) True swbb_standard_tolerates [of mode]
    by (auto simp: sufficient_cost_def swbb_standard_def timing_fits_def timing_tolerates_def)
next
  case False
  obtain width spacer acceptance read_delay where x: "(width, spacer, acceptance, read_delay) \<in> set known_timings"
    "c = (swbb_standard mode)\<lparr> swbb_bit_width := width, swbb_bit_spacer := spacer,
           swbb_acceptance := acceptance, swbb_read_delay := read_delay \<rparr>"
    using assms(1) False swbb_avr_known [of board mode mhz] swbb_arm_known [of board mode mhz]
    by (auto simp: swbb_timing_of_def split: if_splits option.splits prod.splits)
  have "swbb_preamble (swbb_standard mode) = 1" "swbb_max_preamble (swbb_standard mode) = 1"
    by (simp_all add: swbb_standard_def)
  then show ?thesis
    using bspec [OF known_timings_tolerate x(1)] unfolding x(2)
    by (simp add: timing_fits_def timing_tolerates_def sufficient_cost_def Let_def)
qed

text \<open>Device 45 sends the payload 64 to device 12, in mode 1; the receiver looks at its clock every 4
  microseconds and starts to wait 10 microseconds after the frame has begun.\<close>

definition line_at :: "int \<Rightarrow> (int \<Rightarrow> bool) \<Rightarrow> line swbb" where
  "line_at t level = \<lparr> sb_timeout = 0, sb_input_pin = 12, sb_output_pin = 12,
     sb_world = \<lparr> ln_clock = t, ln_level = level, ln_cost = 4 \<rparr> \<rparr>"

lemma swbb_delivers_witness:
  "\<exists>packet n level bus'.
     tools_compose_packet default_build sample_info (replicate 50 0) [64] 1 = Some (packet, n) \<and>
     level = lvl (swbb_send_frame (swbb_standard 1) (line_port True) (take (unat n) packet) (line_at 100 (\<lambda>t. False))) \<and>
     receive (swbb_strategy (swbb_standard 1) default_build (line_port False) 200) default_build
       (sample_device 12 (Some (line_at 110 level))) = Some (PJON_ACK, bus') \<and>
     pj_events bus' = [Received [64] 1 ((wire_info sample_info)\<lparr> pi_custom_pointer := 0 \<rparr>)]"
proof -
  let ?p = "packet_image sample_info [64]" and ?i = "(wire_info sample_info)\<lparr> pi_custom_pointer := 0 \<rparr>"
  let ?tx = "line_at 100 (\<lambda>t. False)" and ?c = "swbb_standard 1"
  have h: "pi_header sample_info = 6" by (rule sample_fits)
  have c: "tools_compose_packet default_build sample_info (replicate 50 0) [64] 1 = Some (?p @ drop 7 (replicate 50 0), 7)"
    using compose_refines_image [of sample_info default_build 1 "[64]" "replicate 50 0"] sample_fits by simp
  have t: "take (unat (7 :: u16)) (?p @ drop 7 (replicate 50 0)) = ?p"
    using sample_packet(4) by (simp del: replicate.simps drop_replicate)
  let ?level = "lvl (swbb_send_frame ?c (line_port True) ?p ?tx)"
  let ?bus = "sample_device 12 (Some (line_at 110 ?level))"
  have a: "addressed default_build ?bus ?p"
    using sample_packet(2) by (simp add: addressed_def)
  have tm: "timing_fits ?c" "timing_tolerates ?c (cost (line_at 110 ?level))" "at_frame ?c (clk ?tx) (line_at 110 ?level)"
    "nat (swbb_bit_spacer ?c * swbb_preamble ?c) < 200"
    using swbb_standard_tolerates(1) [of 1 4] by (simp_all add: line_at_def at_frame_def swbb_standard_def)
  have "\<exists>bus'. receive (swbb_strategy ?c default_build (line_port False) 200) default_build ?bus = Some (PJON_ACK, bus') \<and>
      pj_events bus' = pj_events ?bus @ [Received (take (unat (1 :: u16)) [64]) 1 ?i]"
    using sample_fits c t a h tm
    by (intro swbb_delivers [where packet = "?p @ drop 7 (replicate 50 0)" and n = 7 and tx = ?tx
          and destination = "replicate 50 0" and info = sample_info and rx = "line_at 110 ?level"])
      (simp_all add: flag_simps duplicate_def line_at_def)
  then show ?thesis using c t by auto
qed

end
