(* ===== verification/Analog_Sampling.thy ===== *)
theory Analog_Sampling
  imports Pins
begin

text \<open>
  \<^verbatim>\<open>src/strategies/AnalogSampling\<close>: bits sampled with the analog-to-digital converter against an
  adaptive threshold, frames delimited by symbols and byte-stuffed.  The setting of the converter's
  clock in \<^verbatim>\<open>begin\<close> is platform code and left out; the arithmetic on the 10 bit samples is the one of a
  32 bit \<^verbatim>\<open>int\<close>.
\<close>

subsection \<open>Timing and state\<close>

record as_timing =
  as_bit_width :: int
  as_bit_spacer :: int
  as_read_delay :: int
  as_threshold_interval :: u32
  as_response_timeout :: u32
  as_initial_delay :: u32
  as_collision_delay :: u32
  as_max_attempts :: u8
  as_back_off_degree :: nat
  as_receive_time :: u16

text \<open>
  The standard values of the modes.  The boards of the timing table that override them use the same
  values; the compiler chooses the clock of the converter.
\<close>

definition as_standard :: "nat \<Rightarrow> as_timing" where
  "as_standard mode =
     \<lparr> as_bit_width = (if mode = 1 then 750 else if mode = 2 then 572 else if mode = 3 then 188
                       else if mode = 4 then 128 else 56),
       as_bit_spacer = (if mode = 1 then 1050 else if mode = 2 then 728 else if mode = 3 then 428
                        else if mode = 4 then 290 else 128),
       as_read_delay = (if mode \<in> {1, 2, 3, 4} then 0 else 16),
       as_threshold_interval = 10000, as_response_timeout = 15000, as_initial_delay = 1000,
       as_collision_delay = 64, as_max_attempts = 10, as_back_off_degree = 5, as_receive_time = 1000 \<rparr>"

definition AS_FAIL :: u16 where [const_defs]: "AS_FAIL = 65535"
definition AS_NOT_ASSIGNED :: u8 where [const_defs]: "AS_NOT_ASSIGNED = 255"
definition AS_START :: u8 where [const_defs]: "AS_START = 149"
definition AS_END :: u8 where [const_defs]: "AS_END = 234"
definition AS_ESC :: u8 where [const_defs]: "AS_ESC = 187"

record 's analog =
  as_threshold :: u16
  as_last_byte :: u8
  as_analog_read_time :: u16
  as_input_pin :: u8
  as_output_pin :: u8
  as_last_update :: u32
  as_world :: 's

definition as_in_world :: "('s \<Rightarrow> 'a \<times> 's) \<Rightarrow> 's analog \<Rightarrow> 'a \<times> 's analog" where
  "as_in_world f s = (let (x, w) = f (as_world s) in (x, s\<lparr> as_world := w \<rparr>))"

definition as_on_world :: "('s \<Rightarrow> 's) \<Rightarrow> 's analog \<Rightarrow> 's analog" where
  "as_on_world f s = s\<lparr> as_world := f (as_world s) \<rparr>"

definition as_delay :: "('s, 'z) pins_scheme \<Rightarrow> int \<Rightarrow> 's analog \<Rightarrow> 's analog" where
  "as_delay pn us s = as_on_world (delay_us pn (of_int us)) s"

definition as_micros :: "('s, 'z) pins_scheme \<Rightarrow> 's analog \<Rightarrow> u32 \<times> 's analog" where
  "as_micros pn s = as_in_world (pf_micros pn) s"

definition as_sample :: "('s, 'z) pins_scheme \<Rightarrow> 's analog \<Rightarrow> u16 \<times> 's analog" where
  "as_sample pn s = as_in_world (pf_analog_read pn (as_input_pin s)) s"

definition as_write :: "('s, 'z) pins_scheme \<Rightarrow> bool \<Rightarrow> 's analog \<Rightarrow> 's analog" where
  "as_write pn v s = as_on_world (pin_write pn (as_output_pin s) v) s"

subsection \<open>Receiving a byte\<close>

text \<open>The mean of the running level and the new sample, or of the running level with itself.\<close>

definition as_blend :: "bool \<Rightarrow> u16 \<Rightarrow> u16 \<Rightarrow> u16" where
  "as_blend c x level = of_nat ((unat (if c then x else level) + unat level) div 2)"

fun as_read_bits ::
  "as_timing \<Rightarrow> ('s, 'z) pins_scheme \<Rightarrow> nat \<Rightarrow> nat \<Rightarrow> u8 \<Rightarrow> u16 \<Rightarrow> u16 \<Rightarrow> 's analog
     \<Rightarrow> u8 \<times> u16 \<times> u16 \<times> 's analog" where
  "as_read_bits c pn 0 i byte_value high_bit low_bit s = (byte_value, high_bit, low_bit, s)"
| "as_read_bits c pn (Suc k) i byte_value high_bit low_bit s =
     (let (time, s) = as_micros pn s;
          s = as_delay pn (as_bit_width c div 2 - as_read_delay c) s;
          (bit_value, s) = as_sample pn s;
          byte_value = byte_value + push_bit i (of_bool (bit_value > as_threshold s));
          high_bit = as_blend (bit_value > as_threshold s) bit_value high_bit;
          low_bit = as_blend (bit_value < as_threshold s) bit_value low_bit;
          (now, s) = as_micros pn s;
          s = as_on_world (delay_us pn (of_int (as_bit_width c) - (now - time))) s
      in as_read_bits c pn k (Suc i) byte_value high_bit low_bit s)"

definition as_read_byte :: "as_timing \<Rightarrow> ('s, 'z) pins_scheme \<Rightarrow> 's analog \<Rightarrow> u8 \<times> 's analog" where
  "as_read_byte c pn s =
     (let (byte_value, high_bit, low_bit, s) = as_read_bits c pn 8 0 0 0 0 s;
          s = s\<lparr> as_threshold := of_nat ((unat high_bit + unat low_bit) div 2) \<rparr>;
          (now, s) = as_micros pn s
      in (byte_value, s\<lparr> as_last_update := now \<rparr>))"

text \<open>\<^verbatim>\<open>while(sample > threshold && PJON_MICROS() - time <= AS_BIT_SPACER);\<close>\<close>

fun as_while_high :: "as_timing \<Rightarrow> ('s, 'z) pins_scheme \<Rightarrow> nat \<Rightarrow> u32 \<Rightarrow> 's analog \<Rightarrow> 's analog option" where
  "as_while_high c pn 0 time s = None"
| "as_while_high c pn (Suc fuel) time s =
     (let (v, s) = as_sample pn s in
      if v > as_threshold s
      then let (now, s) = as_micros pn s in
           if now - time \<le> of_int (as_bit_spacer c) then as_while_high c pn fuel time s else Some s
      else Some s)"

text \<open>
  The threshold decays when it was not set for a while: \<^verbatim>\<open>threshold *= 0.9\<close> truncates, which on 16 bit
  values is the integer division by 10 of its ninefold.
\<close>

definition as_decay :: "as_timing \<Rightarrow> ('s, 'z) pins_scheme \<Rightarrow> 's analog \<Rightarrow> 's analog" where
  "as_decay c pn s =
     (let (now, s) = as_micros pn s in
      if now - as_last_update s > as_threshold_interval c
      then let s = s\<lparr> as_threshold := of_nat (9 * unat (as_threshold s) div 10) \<rparr>;
               (now, s) = as_micros pn s
           in s\<lparr> as_last_update := now \<rparr>
      else s)"

definition as_pull_down :: "('s, 'z) pins_scheme \<Rightarrow> 's analog \<Rightarrow> 's analog" where
  "as_pull_down pn s =
     (let s = as_on_world (pin_pull_down pn (as_input_pin s)) s
      in if as_output_pin s \<noteq> AS_NOT_ASSIGNED \<and> as_output_pin s \<noteq> as_input_pin s
         then as_on_world (pin_pull_down pn (as_output_pin s)) s else s)"

definition as_receive_byte ::
  "as_timing \<Rightarrow> ('s, 'z) pins_scheme \<Rightarrow> nat \<Rightarrow> 's analog \<Rightarrow> (u16 \<times> 's analog) option" where
  "as_receive_byte c pn fuel s =
     (let s = as_pull_down pn s;
          (time, s) = as_micros pn s;
          s = as_decay c pn s
      in do { s \<leftarrow> as_while_high c pn fuel time s;
              let (now, s) = as_micros pn s;
              let time = int (unat (now - time));
              if 4 * time < 3 * as_bit_spacer c then Some (AS_FAIL, s)
              else if 4 * time \<le> 5 * as_bit_spacer c
              then let s = as_delay pn (as_bit_width c) s; (x, s) = as_read_byte c pn s
                   in Some (ucast x, s)
              else Some (AS_FAIL, s) })"

subsection \<open>Frames\<close>

text \<open>
  The reception of one byte of a frame over \<open>receive\<close>, the reception of one symbol: the value and the
  byte stored, if any.
\<close>

definition as_frame_byte ::
  "('w \<Rightarrow> (u16 \<times> 'w) option) \<Rightarrow> u8 \<Rightarrow> bool \<Rightarrow> bool \<Rightarrow> 'w \<Rightarrow> ((u16 \<times> u8 list) \<times> 'w) option" where
  "as_frame_byte receive_symbol last_byte is_first is_last s =
     do { (ready, s) \<leftarrow>
            (if is_first
             then do { (x, s) \<leftarrow> receive_symbol s; Some (x = ucast AS_START \<and> last_byte \<noteq> AS_ESC, s) }
             else Some (True, s));
          if \<not> ready then Some ((AS_FAIL, []), s)
          else do {
            (result, s) \<leftarrow> receive_symbol s;
            if result = AS_FAIL \<or> result = ucast AS_START then Some ((AS_FAIL, []), s)
            else do {
              (r, s) \<leftarrow>
                (if result = ucast AS_ESC
                 then do { (result, s) \<leftarrow> receive_symbol s;
                           Some (if result \<noteq> ucast AS_START \<and> result \<noteq> ucast AS_ESC \<and> result \<noteq> ucast AS_END
                                 then None else Some (result XOR ucast AS_ESC), s) }
                 else Some (Some result, s));
              case r of
                None \<Rightarrow> Some ((AS_FAIL, []), s)
              | Some result \<Rightarrow>
                  do { (closed, s) \<leftarrow>
                         (if is_last
                          then do { (x, s) \<leftarrow> receive_symbol s; Some (x = ucast AS_END, s) }
                          else Some (True, s));
                       if \<not> closed then Some ((AS_FAIL, []), s) else Some ((1, [ucast result]), s) } } } }"

definition as_receive_frame ::
  "as_timing \<Rightarrow> build \<Rightarrow> ('s, 'z) pins_scheme \<Rightarrow> nat \<Rightarrow> u16 \<Rightarrow> 's analog
     \<Rightarrow> ((u16 \<times> u8 list) \<times> 's analog) option" where
  "as_receive_frame c b pn fuel max_length s =
     as_frame_byte (as_receive_byte c pn fuel) (as_last_byte s)
       (unat max_length = packet_max_length b) (max_length = 1) s"

definition as_special :: "u8 \<Rightarrow> bool" where
  "as_special x \<longleftrightarrow> x = AS_START \<or> x = AS_ESC \<or> x = AS_END"

text \<open>The symbols of a frame.\<close>

definition as_stuff :: "u8 \<Rightarrow> u8 list" where
  "as_stuff x = (if as_special x then [AS_ESC, x XOR AS_ESC] else [x])"

definition as_symbols :: "u8 list \<Rightarrow> u8 list" where
  "as_symbols data = AS_START # concat (map as_stuff data) @ [AS_END]"

subsection \<open>Sending\<close>

fun as_send_bits :: "as_timing \<Rightarrow> ('s, 'z) pins_scheme \<Rightarrow> nat \<Rightarrow> u8 \<Rightarrow> u8 \<Rightarrow> 's analog \<Rightarrow> 's analog" where
  "as_send_bits c pn 0 m b s = s"
| "as_send_bits c pn (Suc k) m b s =
     (if m = 0 then s
      else let s = as_write pn (b AND m \<noteq> 0) s; s = as_delay pn (as_bit_width c) s
           in as_send_bits c pn k (push_bit 1 m) b s)"

definition as_send_byte :: "as_timing \<Rightarrow> ('s, 'z) pins_scheme \<Rightarrow> u8 \<Rightarrow> 's analog \<Rightarrow> 's analog" where
  "as_send_byte c pn b s =
     (let s = as_write pn True s; s = as_delay pn (as_bit_spacer c) s;
          s = as_write pn False s; s = as_delay pn (as_bit_width c) s
      in as_send_bits c pn 9 1 b s)"

definition as_send_frame :: "as_timing \<Rightarrow> ('s, 'z) pins_scheme \<Rightarrow> u8 list \<Rightarrow> 's analog \<Rightarrow> 's analog" where
  "as_send_frame c pn data s =
     (let s = as_on_world (pin_mode pn (as_output_pin s) OUTPUT) s;
          s = as_send_byte c pn AS_START s;
          s = fold (\<lambda>x s. if x = AS_START \<or> x = AS_ESC \<or> x = AS_END
                         then as_send_byte c pn (x XOR AS_ESC) (as_send_byte c pn AS_ESC s)
                         else as_send_byte c pn x s) data s;
          s = as_send_byte c pn AS_END s
      in as_on_world (pin_pull_down pn (as_output_pin s)) s)"

definition as_send_response :: "as_timing \<Rightarrow> ('s, 'z) pins_scheme \<Rightarrow> u8 \<Rightarrow> 's analog \<Rightarrow> 's analog" where
  "as_send_response c pn response s =
     (let s = as_delay pn (as_bit_width c) s;
          s = as_on_world (pin_pull_down pn (as_input_pin s)) s;
          s = as_on_world (pin_mode pn (as_output_pin s) OUTPUT) s;
          s = as_send_byte c pn response s
      in as_on_world (pin_pull_down pn (as_output_pin s)) s)"

subsection \<open>The other members of the strategy\<close>

definition as_back_off :: "as_timing \<Rightarrow> u8 \<Rightarrow> u32" where
  "as_back_off c attempts = power_back_off (as_back_off_degree c) attempts"

definition as_compute_read_duration :: "('s, 'z) pins_scheme \<Rightarrow> 's analog \<Rightarrow> 's analog" where
  "as_compute_read_duration pn s =
     (let (time, s) = as_micros pn s; (v, s) = as_sample pn s; (now, s) = as_micros pn s
      in s\<lparr> as_analog_read_time := ucast (now - time) \<rparr>)"

definition as_begin ::
  "as_timing \<Rightarrow> ('s, 'z) pins_scheme \<Rightarrow> nat \<Rightarrow> u8 \<Rightarrow> 's analog \<Rightarrow> (bool \<times> 's analog) option" where
  "as_begin c pn fuel did s =
     (let s = as_on_world (initial_delay pn (as_initial_delay c) did) s;
          s = as_compute_read_duration pn s
      in do { (x, s) \<leftarrow> as_receive_byte c pn fuel s; Some (True, s\<lparr> as_last_byte := ucast x \<rparr>) })"

fun as_listen ::
  "as_timing \<Rightarrow> ('s, 'z) pins_scheme \<Rightarrow> nat \<Rightarrow> nat \<Rightarrow> u32 \<Rightarrow> 's analog \<Rightarrow> (bool \<times> 's analog) option" where
  "as_listen c pn fuel 0 time s = None"
| "as_listen c pn fuel (Suc k) time s =
     (let (now, s) = as_micros pn s in
      if now - time \<le> of_int (as_bit_spacer c + as_bit_width c * 9)
      then do { (x, s) \<leftarrow> as_receive_byte c pn fuel s;
                if x \<noteq> PJON_FAIL then Some (False, s) else as_listen c pn fuel k time s }
      else Some (True, s))"

definition as_can_start ::
  "as_timing \<Rightarrow> ('s, 'z) pins_scheme \<Rightarrow> nat \<Rightarrow> 's analog \<Rightarrow> (bool \<times> 's analog) option" where
  "as_can_start c pn fuel s =
     (let (time, s) = as_micros pn s in
      do { (idle, s) \<leftarrow> as_listen c pn fuel fuel time s;
           if \<not> idle then Some (False, s)
           else let s = as_on_world (random_delay_us pn (as_collision_delay c)) s;
                    (v, s) = as_sample pn s
                in Some (\<not> v > as_threshold s, s) })"

definition as_handle_collision :: "as_timing \<Rightarrow> ('s, 'z) pins_scheme \<Rightarrow> 's analog \<Rightarrow> 's analog" where
  "as_handle_collision c pn s = as_on_world (random_delay_us pn (as_collision_delay c)) s"

fun as_response_loop ::
  "as_timing \<Rightarrow> ('s, 'z) pins_scheme \<Rightarrow> nat \<Rightarrow> nat \<Rightarrow> u32 \<Rightarrow> u16 \<Rightarrow> 's analog \<Rightarrow> (u16 \<times> 's analog) option" where
  "as_response_loop c pn fuel 0 time response s = None"
| "as_response_loop c pn fuel (Suc k) time response s =
     (if response \<noteq> PJON_ACK
      then let (now, s) = as_micros pn s in
           if now - as_response_timeout c \<le> time
           then do { (response, s) \<leftarrow> as_receive_byte c pn fuel s;
                     as_response_loop c pn fuel k time response s }
           else Some (response, s)
      else Some (response, s))"

definition as_receive_response ::
  "as_timing \<Rightarrow> ('s, 'z) pins_scheme \<Rightarrow> nat \<Rightarrow> 's analog \<Rightarrow> (u16 \<times> 's analog) option" where
  "as_receive_response c pn fuel s =
     (let s = as_on_world (pin_pull_down pn (as_input_pin s)) s;
          s = (if as_output_pin s \<noteq> AS_NOT_ASSIGNED \<and> as_output_pin s \<noteq> as_input_pin s
               then as_write pn False s else s);
          (time, s) = as_micros pn s
      in as_response_loop c pn fuel fuel time AS_FAIL s)"

definition as_set_pins :: "('s, 'z) pins_scheme \<Rightarrow> u8 \<Rightarrow> u8 \<Rightarrow> 's analog \<Rightarrow> 's analog" where
  "as_set_pins pn input_pin output_pin s =
     (let s = as_on_world (pin_pull_down pn input_pin) s; s = as_on_world (pin_pull_down pn output_pin) s
      in s\<lparr> as_input_pin := input_pin, as_output_pin := output_pin \<rparr>)"

definition as_set_pin :: "('s, 'z) pins_scheme \<Rightarrow> u8 \<Rightarrow> 's analog \<Rightarrow> 's analog" where
  "as_set_pin pn pin s =
     (let s = as_on_world (pin_pull_down pn pin) s in s\<lparr> as_input_pin := pin, as_output_pin := pin \<rparr>)"

definition as_set_threshold :: "u16 \<Rightarrow> 's analog \<Rightarrow> 's analog" where
  "as_set_threshold v s = s\<lparr> as_threshold := v \<rparr>"

definition as_strategy ::
  "as_timing \<Rightarrow> build \<Rightarrow> ('s, 'z) pins_scheme \<Rightarrow> nat \<Rightarrow> 's analog option strategy" where
  "as_strategy c b pn fuel =
     \<lparr> pf_micros = lift_call 0 (\<lambda>s. Some (as_micros pn s)),
       pf_delay = (\<lambda>ms. map_option (as_on_world (pf_delay pn ms))),
       pf_random = (\<lambda>n. lift_call 0 (\<lambda>s. Some (as_in_world (pf_random pn n) s))),
       pf_random_seed = (\<lambda>n. map_option (as_on_world (pf_random_seed pn n))),
       pf_analog_read = (\<lambda>p. lift_call 0 (\<lambda>s. Some (as_in_world (pf_analog_read pn p) s))),
       st_begin = (\<lambda>did. lift_call False (as_begin c pn fuel did)),
       st_back_off = (\<lambda>attempts s. (as_back_off c attempts, s)),
       st_can_start = lift_call False (as_can_start c pn fuel),
       st_max_attempts = as_max_attempts c,
       st_receive_time = as_receive_time c,
       st_handle_collision = map_option (as_handle_collision c pn),
       st_receive_frame = (\<lambda>n s. case lift_call (AS_FAIL, []) (as_receive_frame c b pn fuel n) s of
                                   ((r, bs), s) \<Rightarrow> (r, bs, s)),
       st_receive_response = lift_call AS_FAIL (as_receive_response c pn fuel),
       st_send_response = (\<lambda>r. map_option (as_send_response c pn (ucast r))),
       st_send_frame = (\<lambda>data. map_option (as_send_frame c pn data)) \<rparr>"

lemma as_frame_byte_one:
  "as_frame_byte receive_symbol last_byte f l s = Some ((r, bs), s') \<Longrightarrow> length bs \<le> 1"
  by (auto simp: as_frame_byte_def elim!: bind_SomeE split: if_splits option.splits)

interpretation analog: bounded_strategy "as_strategy c b pn fuel" "\<lambda>_. True" for c b pn fuel
proof (unfold_locales, goal_cases)
  case (1 s n r bs s')
  have "0 < unat n" using 1(2) by (simp add: unat_gt_0)
  moreover have "length bs \<le> 1"
    using 1(3) as_frame_byte_one
    by (auto simp: as_strategy_def as_receive_frame_def lift_call_def split: prod.splits option.splits elim!: bind_SomeE)
  ultimately show ?case by simp
qed simp_all

subsection \<open>What can be received\<close>

text \<open>The transmitter sends the symbols of the frame, one after the other.\<close>

lemma as_send_frame_symbols:
  "as_send_frame c pn data s =
     (let s = as_on_world (pin_mode pn (as_output_pin s) OUTPUT) s;
          s = fold (as_send_byte c pn) (as_symbols data) s
      in as_on_world (pin_pull_down pn (as_output_pin s)) s)"
proof -
  have "fold (\<lambda>x s. if x = AS_START \<or> x = AS_ESC \<or> x = AS_END
           then as_send_byte c pn (x XOR AS_ESC) (as_send_byte c pn AS_ESC s)
           else as_send_byte c pn x s) data t = fold (as_send_byte c pn) (concat (map as_stuff data)) t" for t
    by (induction data arbitrary: t) (simp_all add: as_stuff_def as_special_def)
  then show ?thesis by (simp add: as_send_frame_def as_symbols_def Let_def)
qed

text \<open>A line that delivers each symbol once, in order, and nothing after the last.\<close>

definition ideal_line :: "u8 list \<Rightarrow> (u16 \<times> u8 list) option" where
  "ideal_line xs = (case xs of [] \<Rightarrow> Some (AS_FAIL, []) | x # xs \<Rightarrow> Some (ucast x, xs))"

text \<open>The calls of a bus that receives a frame of \<open>k\<close> more bytes.\<close>

fun as_receive_bytes :: "u8 \<Rightarrow> nat \<Rightarrow> bool \<Rightarrow> u8 list \<Rightarrow> u8 list option" where
  "as_receive_bytes last_byte 0 is_first xs = Some []"
| "as_receive_bytes last_byte (Suc k) is_first xs =
     do { ((r, bs), xs) \<leftarrow> as_frame_byte ideal_line last_byte is_first (k = 0) xs;
          if r = AS_FAIL then None
          else do { rest \<leftarrow> as_receive_bytes last_byte k False xs; Some (bs @ rest) } }"

lemma ideal_line_simps [simp]:
  "ideal_line [] = Some (AS_FAIL, [])" "ideal_line (x # xs) = Some (ucast x, xs)"
  by (simp_all add: ideal_line_def)

lemma ucast_symbol [simp]: "(ucast (x :: u8) :: u16) = ucast y \<longleftrightarrow> x = y" "(ucast (x :: u8) :: u16) \<noteq> AS_FAIL"
proof -
  have "unat x < 256" using unsigned_less [of x, where 'a = nat] by simp
  then show "(ucast x :: u16) \<noteq> AS_FAIL" by (auto simp: word_unat_eq_iff AS_FAIL_def)
  show "(ucast x :: u16) = ucast y \<longleftrightarrow> x = y" by (simp add: word_unat_eq_iff)
qed

lemma ucast_up_down [simp]: "(ucast (ucast (x :: u8) :: u16) :: u8) = x"
  by (rule bit_word_eqI) (simp add: bit_simps)

lemma as_escaped:
  "as_special x \<Longrightarrow> \<not> as_special (x XOR AS_ESC)"
  by (auto simp: as_special_def const_defs)

lemma as_frame_byte_plain:
  "\<not> as_special x \<Longrightarrow> is_last \<longrightarrow> (\<exists>ys. xs = AS_END # ys) \<Longrightarrow>
   as_frame_byte ideal_line last_byte False is_last (x # xs)
     = Some ((1, [x]), if is_last then tl xs else xs)"
  by (auto simp: as_frame_byte_def as_special_def split: if_splits)

lemma as_frame_byte_escaped:
  "as_special x \<Longrightarrow>
   \<exists>ys. as_frame_byte ideal_line last_byte False is_last (AS_ESC # (x XOR AS_ESC) # xs) = Some ((AS_FAIL, []), ys)"
  using as_escaped [of x] by (auto simp: as_frame_byte_def as_special_def const_defs)

lemma as_frame_byte_first:
  "last_byte \<noteq> AS_ESC \<Longrightarrow>
   as_frame_byte ideal_line last_byte True is_last (AS_START # xs) = as_frame_byte ideal_line last_byte False is_last xs"
  by (simp add: as_frame_byte_def)

lemma as_receive_bytes_iff:
  assumes "last_byte \<noteq> AS_ESC"
  shows "data \<noteq> [] \<Longrightarrow>
    as_receive_bytes last_byte (length data) False (concat (map as_stuff data) @ [AS_END])
      = (if list_all (\<lambda>x. \<not> as_special x) data then Some data else None)"
proof (induction data)
  case (Cons x data)
  let ?rest = "concat (map as_stuff data) @ [AS_END]"
  show ?case
  proof (cases "as_special x")
    case True
    then obtain ys where "as_frame_byte ideal_line last_byte False (length data = 0)
        (AS_ESC # (x XOR AS_ESC) # ?rest) = Some ((AS_FAIL, []), ys)"
      using as_frame_byte_escaped by blast
    then show ?thesis using True as_stuff_def [of x] by simp
  next
    case False
    have f: "as_frame_byte ideal_line last_byte False (length data = 0) (x # ?rest)
        = Some ((1, [x]), if length data = 0 then tl ?rest else ?rest)"
      using False by (intro as_frame_byte_plain) auto
    have x: "as_stuff x = [x]" using False by (simp add: as_stuff_def)
    show ?thesis
    proof (cases "data = []")
      case True
      then show ?thesis using f x False by (simp add: AS_FAIL_def)
    next
      case d: False
      then have "as_receive_bytes last_byte (length (x # data)) False (concat (map as_stuff (x # data)) @ [AS_END])
          = do { rest \<leftarrow> as_receive_bytes last_byte (length data) False ?rest; Some (x # rest) }"
        using f x by (simp add: AS_FAIL_def)
      also have "\<dots> = (if list_all (\<lambda>x. \<not> as_special x) (x # data) then Some (x # data) else None)"
        using Cons.IH [OF d] False by simp
      finally show ?thesis .
    qed
  qed
qed simp

text \<open>C24. Over a line that loses nothing, a frame is received, and then exactly as it was sent, if and only
  if none of its bytes is one of the three symbols of the framing: the receiver compares the byte after
  an escape with the symbols before it decodes it, so every escaped byte is refused.\<close>

theorem as_frame_received_iff:
  assumes "data \<noteq> []" and "last_byte \<noteq> AS_ESC"
  shows "as_receive_bytes last_byte (length data) True (as_symbols data)
         = (if list_all (\<lambda>x. \<not> (x = AS_START \<or> x = AS_ESC \<or> x = AS_END)) data then Some data else None)"
proof -
  have "as_receive_bytes last_byte (length data) True (as_symbols data)
      = as_receive_bytes last_byte (length data) False (concat (map as_stuff data) @ [AS_END])"
    using assms by (cases data) (simp_all add: as_symbols_def as_frame_byte_first)
  then show ?thesis
    using as_receive_bytes_iff [OF assms(2,1)] by (simp add: as_special_def)
qed

lemma as_frame_received_iff_witness:
  "as_receive_bytes 0 3 True (as_symbols [1, 2, 3]) = Some [1, 2, 3] \<and>
   as_receive_bytes 0 3 True (as_symbols [1, 187, 3]) = None"
proof -
  have l: "length [1, 2, 3 :: u8] = 3" "length [1, 187, 3 :: u8] = 3" by simp_all
  have "as_receive_bytes 0 (length [1, 2, 3 :: u8]) True (as_symbols [1, 2, 3]) = Some [1, 2, 3]"
    by (subst as_frame_received_iff) (simp_all add: const_defs)
  moreover have "as_receive_bytes 0 (length [1, 187, 3 :: u8]) True (as_symbols [1, 187, 3]) = None"
    by (subst as_frame_received_iff) (simp_all add: const_defs)
  ultimately show ?thesis unfolding l by simp
qed

end
