(* ===== verification/Over_Sampling.thy ===== *)
theory Over_Sampling
  imports Complex_Main Pins
begin

text \<open>
  \<^verbatim>\<open>src/strategies/OverSampling\<close>: bits over a noisy radio channel.  The level of the pin is read as often as possible
  during a bit and averaged exponentially in floating point; a bit is high when the average is above one half.

  The arithmetic of the \<^verbatim>\<open>float\<close> that is averaged is the record \<open>averaging\<close>: the start value 0.5, the step
  \<^verbatim>\<open>value * 0.999 + PJON_IO_READ(pin) * 0.001\<close> and the two comparisons with 0.5.  What is shown of the decisions is
  shown for exact arithmetic (\<open>exact_average\<close>).
\<close>

subsection \<open>Timing and state\<close>

record 'f averaging =
  av_half :: 'f
  av_step :: "bool \<Rightarrow> 'f \<Rightarrow> 'f"
  av_above :: "'f \<Rightarrow> bool"
  av_below :: "'f \<Rightarrow> bool"

definition exact_average :: "rat averaging" where
  "exact_average =
     \<lparr> av_half = 1 / 2, av_step = (\<lambda>high v. v * (999 / 1000) + of_bool high * (1 / 1000)),
       av_above = (\<lambda>v. 1 / 2 < v), av_below = (\<lambda>v. v < 1 / 2) \<rparr>"

record os_timing =
  os_bit_width :: u32
  os_bit_spacer :: u32
  os_acceptance :: u32
  os_timeout :: u32
  os_initial_delay :: u32
  os_collision_delay :: u32
  os_max_attempts :: u8
  os_back_off_degree :: nat
  os_receive_time :: u16

definition default_os :: os_timing where
  "default_os =
     \<lparr> os_bit_width = 512, os_bit_spacer = 328, os_acceptance = 78, os_timeout = 10000, os_initial_delay = 1000,
       os_collision_delay = 64, os_max_attempts = 10, os_back_off_degree = 5, os_receive_time = 1000 \<rparr>"

text \<open>The boards \<^verbatim>\<open>Timing.h\<close> knows, some of them only at the clock they were measured with (in MHz here).\<close>

datatype os_board = ATmega_328 | ATmega_2560 | ATmega_32U4 | Node_MCU | Some_board

definition os_timing_of :: "os_board \<Rightarrow> nat \<Rightarrow> nat \<Rightarrow> os_timing" where
  "os_timing_of board mode mhz =
     (if mode = 1 \<and> (board = ATmega_2560 \<or> board = ATmega_32U4)
      then default_os\<lparr> os_bit_width := 508, os_bit_spacer := 332, os_acceptance := 82 \<rparr>
      else if mode = 1 \<and> board = Node_MCU \<and> mhz = 80
      then default_os\<lparr> os_bit_width := 520, os_bit_spacer := 332, os_acceptance := 82 \<rparr>
      else default_os)"

definition OS_FAIL :: u16 where "OS_FAIL = 65535"
definition OS_NOT_ASSIGNED :: u8 where "OS_NOT_ASSIGNED = 255"

record 's over_sampling =
  os_input_pin :: u8
  os_output_pin :: u8
  os_world :: 's

definition os_in :: "('s \<Rightarrow> 'a \<times> 's) \<Rightarrow> 's over_sampling \<Rightarrow> 'a \<times> 's over_sampling" where
  "os_in f s = (let (x, w) = f (os_world s) in (x, s\<lparr> os_world := w \<rparr>))"

definition os_on :: "('s \<Rightarrow> 's) \<Rightarrow> 's over_sampling \<Rightarrow> 's over_sampling" where
  "os_on f s = s\<lparr> os_world := f (os_world s) \<rparr>"

definition os_micros :: "('s, 'z) pins_scheme \<Rightarrow> 's over_sampling \<Rightarrow> u32 \<times> 's over_sampling" where
  "os_micros pn s = os_in (pf_micros pn) s"

definition os_read :: "('s, 'z) pins_scheme \<Rightarrow> 's over_sampling \<Rightarrow> bool \<times> 's over_sampling" where
  "os_read pn s = os_in (pin_read pn (os_input_pin s)) s"

definition os_write :: "('s, 'z) pins_scheme \<Rightarrow> bool \<Rightarrow> 's over_sampling \<Rightarrow> 's over_sampling" where
  "os_write pn v s = os_on (pin_write pn (os_output_pin s) v) s"

subsection \<open>Averaging\<close>

text \<open>\<^verbatim>\<open>while((uint32_t)(PJON_MICROS() - time) < limit) value = (value * 0.999) + (PJON_IO_READ(_input_pin) * 0.001);\<close>\<close>

fun os_average ::
  "('f, 'y) averaging_scheme \<Rightarrow> ('s, 'z) pins_scheme \<Rightarrow> nat \<Rightarrow> u32 \<Rightarrow> u32 \<Rightarrow> 'f \<Rightarrow> 's over_sampling
     \<Rightarrow> ('f \<times> 's over_sampling) option" where
  "os_average av pn 0 limit time v s = None"
| "os_average av pn (Suc fuel) limit time v s =
     (let (now, s) = os_micros pn s in
      if now - time < limit
      then let (high, s) = os_read pn s in os_average av pn fuel limit time (av_step av high v) s
      else Some (v, s))"

text \<open>The same while the pin is high; the pin is read again for the average.\<close>

fun os_average_high ::
  "('f, 'y) averaging_scheme \<Rightarrow> ('s, 'z) pins_scheme \<Rightarrow> nat \<Rightarrow> u32 \<Rightarrow> u32 \<Rightarrow> 'f \<Rightarrow> 's over_sampling
     \<Rightarrow> ('f \<times> 's over_sampling) option" where
  "os_average_high av pn 0 limit time v s = None"
| "os_average_high av pn (Suc fuel) limit time v s =
     (let (now, s) = os_micros pn s in
      if now - time < limit
      then let (high, s) = os_read pn s in
           if high then let (again, s) = os_read pn s in os_average_high av pn fuel limit time (av_step av again v) s
           else Some (v, s)
      else Some (v, s))"

definition os_sync ::
  "os_timing \<Rightarrow> ('f, 'y) averaging_scheme \<Rightarrow> ('s, 'z) pins_scheme \<Rightarrow> nat \<Rightarrow> 's over_sampling
     \<Rightarrow> (bool \<times> 's over_sampling) option" where
  "os_sync c av pn fuel s =
     (let s = os_on (pin_pull_down pn (os_input_pin s)) s;
          s = (if os_output_pin s \<noteq> OS_NOT_ASSIGNED \<and> os_output_pin s \<noteq> os_input_pin s
               then os_on (pin_pull_down pn (os_output_pin s)) s else s);
          (time, s) = os_micros pn s
      in do { (v, s) \<leftarrow> os_average_high av pn fuel (os_bit_spacer c) time (av_half av) s;
              let (now, s) = os_micros pn s;
              if now - time < os_acceptance c then Some (False, s)
              else if av_above av v
              then do { let (time, s) = os_micros pn s;
                        (v, s) \<leftarrow> os_average av pn fuel (os_bit_width c) time (av_half av) s;
                        Some (av_below av v, s) }
              else Some (False, s) })"

subsection \<open>Bytes\<close>

fun os_read_bits ::
  "os_timing \<Rightarrow> ('f, 'y) averaging_scheme \<Rightarrow> ('s, 'z) pins_scheme \<Rightarrow> nat \<Rightarrow> nat \<Rightarrow> nat \<Rightarrow> u8 \<Rightarrow> 's over_sampling
     \<Rightarrow> (u8 \<times> 's over_sampling) option" where
  "os_read_bits c av pn fuel 0 i byte_value s = Some (byte_value, s)"
| "os_read_bits c av pn fuel (Suc k) i byte_value s =
     do { let (time, s) = os_micros pn s;
          (v, s) \<leftarrow> os_average av pn fuel (os_bit_width c) time (av_half av) s;
          os_read_bits c av pn fuel k (Suc i) (byte_value + push_bit i (of_bool (av_above av v))) s }"

definition os_read_byte ::
  "os_timing \<Rightarrow> ('f, 'y) averaging_scheme \<Rightarrow> ('s, 'z) pins_scheme \<Rightarrow> nat \<Rightarrow> 's over_sampling
     \<Rightarrow> (u8 \<times> 's over_sampling) option" where
  "os_read_byte c av pn fuel s = os_read_bits c av pn fuel 8 0 0 s"

definition os_receive_byte ::
  "os_timing \<Rightarrow> ('f, 'y) averaging_scheme \<Rightarrow> ('s, 'z) pins_scheme \<Rightarrow> nat \<Rightarrow> 's over_sampling
     \<Rightarrow> (u16 \<times> 's over_sampling) option" where
  "os_receive_byte c av pn fuel s =
     do { (found, s) \<leftarrow> os_sync c av pn fuel s;
          if found then map_option (apfst ucast) (os_read_byte c av pn fuel s) else Some (OS_FAIL, s) }"

primrec os_pulse :: "os_timing \<Rightarrow> ('s, 'z) pins_scheme \<Rightarrow> nat \<Rightarrow> 's over_sampling \<Rightarrow> 's over_sampling" where
  "os_pulse c pn 0 s = s"
| "os_pulse c pn (Suc n) s =
     (let s = os_write pn True s; s = os_on (delay_us pn (os_bit_spacer c)) s;
          s = os_write pn False s; s = os_on (delay_us pn (os_bit_width c)) s
      in os_pulse c pn n s)"

text \<open>The mask is shifted until it is zero, which takes eight rounds.\<close>

fun os_send_bits :: "os_timing \<Rightarrow> ('s, 'z) pins_scheme \<Rightarrow> nat \<Rightarrow> u8 \<Rightarrow> u8 \<Rightarrow> 's over_sampling \<Rightarrow> 's over_sampling" where
  "os_send_bits c pn 0 m b s = s"
| "os_send_bits c pn (Suc k) m b s =
     (if m = 0 then s
      else let s = os_write pn (b AND m \<noteq> 0) s; s = os_on (delay_us pn (os_bit_width c)) s
           in os_send_bits c pn k (push_bit 1 m) b s)"

definition os_send_byte :: "os_timing \<Rightarrow> ('s, 'z) pins_scheme \<Rightarrow> u8 \<Rightarrow> 's over_sampling \<Rightarrow> 's over_sampling" where
  "os_send_byte c pn b s = os_send_bits c pn 9 1 b (os_pulse c pn 1 s)"

subsection \<open>The members of the strategy\<close>

definition os_back_off :: "os_timing \<Rightarrow> u8 \<Rightarrow> u32" where
  "os_back_off c attempts = power_back_off (os_back_off_degree c) attempts"

definition os_begin :: "os_timing \<Rightarrow> ('s, 'z) pins_scheme \<Rightarrow> u8 \<Rightarrow> 's over_sampling \<Rightarrow> bool \<times> 's over_sampling" where
  "os_begin c pn did s = (True, os_on (initial_delay pn (os_initial_delay c) did) s)"

definition os_can_start ::
  "os_timing \<Rightarrow> ('f, 'y) averaging_scheme \<Rightarrow> ('s, 'z) pins_scheme \<Rightarrow> nat \<Rightarrow> 's over_sampling
     \<Rightarrow> (bool \<times> 's over_sampling) option" where
  "os_can_start c av pn fuel s =
     do { let (time, s) = os_micros pn s;
          let s = os_on (pin_mode pn (os_input_pin s) INPUT) s;
          (v, s) \<leftarrow> os_average av pn fuel (os_timeout c) time (av_half av) s;
          if av_above av v then Some (False, s)
          else let (high, s) = os_read pn s in
               if high then Some (False, s)
               else let (high, s) = os_read pn (os_on (random_delay_us pn (os_collision_delay c)) s)
                    in Some (\<not> high, s) }"

definition os_handle_collision :: "os_timing \<Rightarrow> ('s, 'z) pins_scheme \<Rightarrow> 's over_sampling \<Rightarrow> 's over_sampling" where
  "os_handle_collision c pn s = os_on (random_delay_us pn (os_collision_delay c)) s"

fun os_response_loop ::
  "os_timing \<Rightarrow> ('f, 'y) averaging_scheme \<Rightarrow> ('s, 'z) pins_scheme \<Rightarrow> nat \<Rightarrow> nat \<Rightarrow> u32 \<Rightarrow> u16 \<Rightarrow> 's over_sampling
     \<Rightarrow> (u16 \<times> 's over_sampling) option" where
  "os_response_loop c av pn fuel 0 time response s = None"
| "os_response_loop c av pn fuel (Suc k) time response s =
     (if response \<noteq> OS_FAIL then Some (response, s)
      else let (now, s) = os_micros pn s in
        if now - os_timeout c \<le> time
        then do { let s = os_on (pin_write pn (os_input_pin s) False) s;
                  (found, s) \<leftarrow> os_sync c av pn fuel s;
                  (response, s) \<leftarrow> (if found then os_receive_byte c av pn fuel s else Some (response, s));
                  let s = (if response \<noteq> PJON_ACK
                           then let s = os_on (pin_mode pn (os_output_pin s) OUTPUT) s; s = os_write pn True s;
                                    s = os_on (delay_us pn (os_bit_spacer c div 2)) s
                                in os_on (pin_pull_down pn (os_output_pin s)) s
                           else s);
                  os_response_loop c av pn fuel k time response s }
        else Some (response, s))"

definition os_receive_response ::
  "os_timing \<Rightarrow> ('f, 'y) averaging_scheme \<Rightarrow> ('s, 'z) pins_scheme \<Rightarrow> nat \<Rightarrow> 's over_sampling
     \<Rightarrow> (u16 \<times> 's over_sampling) option" where
  "os_receive_response c av pn fuel s =
     (let s = (if os_output_pin s \<noteq> os_input_pin s \<and> os_output_pin s \<noteq> OS_NOT_ASSIGNED
               then os_write pn False s else s);
          (time, s) = os_micros pn s
      in os_response_loop c av pn fuel fuel time OS_FAIL s)"

definition os_frame_init ::
  "os_timing \<Rightarrow> ('f, 'y) averaging_scheme \<Rightarrow> ('s, 'z) pins_scheme \<Rightarrow> nat \<Rightarrow> 's over_sampling
     \<Rightarrow> (bool \<times> 's over_sampling) option" where
  "os_frame_init c av pn fuel s =
     do { let (time, s) = os_micros pn s;
          (found, s) \<leftarrow> os_sync c av pn fuel s;
          (found, s) \<leftarrow> (if found then os_sync c av pn fuel s else Some (False, s));
          (found, s) \<leftarrow> (if found then os_sync c av pn fuel s else Some (False, s));
          if \<not> found then Some (False, s)
          else let (now, s) = os_micros pn s
               in Some (\<not> now - time < os_bit_width c * 3 + os_bit_spacer c * 3, s) }"

definition os_receive_frame ::
  "os_timing \<Rightarrow> build \<Rightarrow> ('f, 'y) averaging_scheme \<Rightarrow> ('s, 'z) pins_scheme \<Rightarrow> nat \<Rightarrow> u16 \<Rightarrow> 's over_sampling
     \<Rightarrow> ((u16 \<times> u8 list) \<times> 's over_sampling) option" where
  "os_receive_frame c b av pn fuel max_length s =
     do { (ready, s) \<leftarrow> (if unat max_length = packet_max_length b then os_frame_init c av pn fuel s else Some (True, s));
          if \<not> ready then Some ((OS_FAIL, []), s)
          else do { (result, s) \<leftarrow> os_receive_byte c av pn fuel s;
                    if result = OS_FAIL then Some ((OS_FAIL, []), s) else Some ((1, [ucast result]), s) } }"

definition os_send_response :: "os_timing \<Rightarrow> ('s, 'z) pins_scheme \<Rightarrow> u8 \<Rightarrow> 's over_sampling \<Rightarrow> 's over_sampling" where
  "os_send_response c pn response s =
     (let s = os_on (pin_pull_down pn (os_input_pin s)) s; s = os_on (pin_mode pn (os_output_pin s) OUTPUT) s;
          s = os_send_byte c pn response (os_pulse c pn 1 s)
      in os_on (pin_pull_down pn (os_output_pin s)) s)"

definition os_send_frame :: "os_timing \<Rightarrow> ('s, 'z) pins_scheme \<Rightarrow> u8 list \<Rightarrow> 's over_sampling \<Rightarrow> 's over_sampling" where
  "os_send_frame c pn data s =
     (let s = os_on (pin_mode pn (os_output_pin s) OUTPUT) s;
          s = fold (os_send_byte c pn) data (os_pulse c pn 3 s)
      in os_on (pin_pull_down pn (os_output_pin s)) s)"

definition os_set_pin :: "('s, 'z) pins_scheme \<Rightarrow> u8 \<Rightarrow> 's over_sampling \<Rightarrow> 's over_sampling" where
  "os_set_pin pn pin s =
     (let s = os_on (pin_pull_down pn pin) s in s\<lparr> os_input_pin := pin, os_output_pin := pin \<rparr>)"

definition os_set_pins :: "('s, 'z) pins_scheme \<Rightarrow> u8 \<Rightarrow> u8 \<Rightarrow> 's over_sampling \<Rightarrow> 's over_sampling" where
  "os_set_pins pn input_pin output_pin s =
     (let s = os_on (pin_pull_down pn input_pin) s; s = os_on (pin_pull_down pn output_pin) s
      in s\<lparr> os_input_pin := input_pin, os_output_pin := output_pin \<rparr>)"

definition os_strategy ::
  "os_timing \<Rightarrow> build \<Rightarrow> ('f, 'y) averaging_scheme \<Rightarrow> ('s, 'z) pins_scheme \<Rightarrow> nat \<Rightarrow> 's over_sampling option strategy" where
  "os_strategy c b av pn fuel =
     \<lparr> pf_micros = lift_call 0 (\<lambda>s. Some (os_micros pn s)),
       pf_delay = (\<lambda>ms. map_option (os_on (pf_delay pn ms))),
       pf_random = (\<lambda>n. lift_call 0 (\<lambda>s. Some (os_in (pf_random pn n) s))),
       pf_random_seed = (\<lambda>n. map_option (os_on (pf_random_seed pn n))),
       pf_analog_read = (\<lambda>p. lift_call 0 (\<lambda>s. Some (os_in (pf_analog_read pn p) s))),
       st_begin = (\<lambda>did. lift_call False (\<lambda>s. Some (os_begin c pn did s))),
       st_back_off = (\<lambda>attempts s. (os_back_off c attempts, s)),
       st_can_start = lift_call False (os_can_start c av pn fuel),
       st_max_attempts = os_max_attempts c,
       st_receive_time = os_receive_time c,
       st_handle_collision = map_option (os_handle_collision c pn),
       st_receive_frame = (\<lambda>n s. case lift_call (OS_FAIL, []) (os_receive_frame c b av pn fuel n) s of
                                   ((r, bs), s) \<Rightarrow> (r, bs, s)),
       st_receive_response = lift_call OS_FAIL (os_receive_response c av pn fuel),
       st_send_response = (\<lambda>r. map_option (os_send_response c pn (ucast r))),
       st_send_frame = (\<lambda>data. map_option (os_send_frame c pn data)) \<rparr>"

lemma os_receive_frame_one:
  "os_receive_frame c b av pn fuel n s = Some ((r, bs), s') \<Longrightarrow> length bs \<le> 1"
  by (auto simp: os_receive_frame_def elim!: bind_SomeE split: if_splits)

interpretation os: bounded_strategy "os_strategy c b av pn fuel" "\<lambda>_. True" for c b av pn fuel
proof (unfold_locales, goal_cases)
  case (1 s n r bs s')
  have "0 < unat n" using 1(2) by (simp add: unat_gt_0)
  moreover have "length bs \<le> 1"
    using 1(3) os_receive_frame_one [of c b av pn fuel n]
    by (auto simp: os_strategy_def lift_call_def split: prod.splits option.splits elim!: bind_SomeE)
  ultimately show ?case by simp
qed simp_all

subsection \<open>What the average decides\<close>

text \<open>
  The levels that are read during a bit, with the same look at the clock: what the average is taken over.
\<close>

fun os_window ::
  "('s, 'z) pins_scheme \<Rightarrow> nat \<Rightarrow> u32 \<Rightarrow> u32 \<Rightarrow> 's over_sampling \<Rightarrow> (bool list \<times> 's over_sampling) option" where
  "os_window pn 0 limit time s = None"
| "os_window pn (Suc fuel) limit time s =
     (let (now, s) = os_micros pn s in
      if now - time < limit
      then let (high, s) = os_read pn s in map_option (apfst ((#) high)) (os_window pn fuel limit time s)
      else Some ([], s))"

fun os_windows ::
  "os_timing \<Rightarrow> ('s, 'z) pins_scheme \<Rightarrow> nat \<Rightarrow> nat \<Rightarrow> 's over_sampling \<Rightarrow> (bool list list \<times> 's over_sampling) option" where
  "os_windows c pn fuel 0 s = Some ([], s)"
| "os_windows c pn fuel (Suc k) s =
     do { let (time, s) = os_micros pn s;
          (w, s) \<leftarrow> os_window pn fuel (os_bit_width c) time s;
          (ws, s) \<leftarrow> os_windows c pn fuel k s;
          Some (w # ws, s) }"

lemma os_average_window:
  "os_average av pn fuel limit time v s = map_option (apfst (\<lambda>w. fold (av_step av) w v)) (os_window pn fuel limit time s)"
  by (induction fuel arbitrary: v s) (simp_all add: Let_def case_prod_unfold option.map_comp comp_def apfst_def map_prod_def)

text \<open>The decision as a weighted vote: twice the distance of the average from one half, in thousandths.\<close>

definition os_decay :: rat where
  "os_decay = 999 / 1000"

lemma os_decay_range: "0 < os_decay" "os_decay \<le> 1" "1 - os_decay = 1 / 1000"
  by (simp_all add: os_decay_def)

fun vote :: "bool list \<Rightarrow> rat" where
  "vote [] = 0"
| "vote (b # bs) = (if b then 1 else -1) * os_decay ^ length bs + vote bs"

lemma exact_average_simps:
  "av_half exact_average = 1 / 2" "av_above exact_average v \<longleftrightarrow> 1 / 2 < v"
  "av_step exact_average b v - 1 / 2 = (v - 1 / 2) * os_decay + (if b then 1 else -1) / 2000"
  by (simp_all add: exact_average_def os_decay_def field_simps)

lemma exact_average_vote:
  "fold (av_step exact_average) w v - 1 / 2 = (v - 1 / 2) * os_decay ^ length w + vote w / 2000"
proof (induction w arbitrary: v)
  case (Cons b w)
  have "fold (av_step exact_average) (b # w) v - 1 / 2
      = (av_step exact_average b v - 1 / 2) * os_decay ^ length w + vote w / 2000"
    using Cons.IH by simp
  also have "\<dots> = (v - 1 / 2) * os_decay ^ Suc (length w) +
      ((if b then 1 else -1) * os_decay ^ length w + vote w) / 2000"
  proof -
    have "(d * q + x / 2000) * q ^ n + y / 2000 = d * q ^ Suc n + (x * q ^ n + y) / 2000" for d q x y :: rat and n
      by (simp add: field_simps)
    then show ?thesis unfolding exact_average_simps(3) by blast
  qed
  finally show ?case by simp
qed simp

lemma os_average_vote:
  assumes "os_average exact_average pn fuel limit time (1 / 2) s = Some (v, s')"
  obtains w where "os_window pn fuel limit time s = Some (w, s')" "av_above exact_average v \<longleftrightarrow> 0 < vote w"
proof -
  obtain w where w: "os_window pn fuel limit time s = Some (w, s')" "v = fold (av_step exact_average) w (1 / 2)"
    using assms by (auto simp: os_average_window)
  have "v - 1 / 2 = vote w / 2000" unfolding w(2) exact_average_vote by simp
  then have "av_above exact_average v \<longleftrightarrow> 0 < vote w" unfolding exact_average_simps(2) by linarith
  with w(1) show thesis by (rule that)
qed

text \<open>
  A window that shows a level with at most a third of disturbed readings.  The last readings weigh most, so
  the bound on its length is what keeps the first ones relevant: 600 readings or less.
\<close>

definition clear_window :: "bool \<Rightarrow> bool list \<Rightarrow> bool" where
  "clear_window v w \<longleftrightarrow> w \<noteq> [] \<and> length w \<le> 600 \<and> 3 * length (filter (\<lambda>b. b \<noteq> v) w) \<le> length w"

lemma vote_bounds:
  fixes q :: rat
  assumes "q = os_decay ^ n" "length w \<le> Suc n"
  shows "q * of_nat (length (filter (\<lambda>b. b) w)) - of_nat (length (filter Not w)) \<le> vote w \<and>
         vote w \<le> of_nat (length (filter (\<lambda>b. b) w)) - q * of_nat (length (filter Not w))"
  using assms(2)
proof (induction w)
  case (Cons b w)
  have "q \<le> os_decay ^ length w" unfolding assms(1) using Cons.prems by (intro power_decreasing) (use os_decay_range in simp_all)
  moreover have "os_decay ^ length w \<le> 1" by (intro power_le_one) (use os_decay_range in simp_all)
  ultimately show ?case using Cons.IH Cons.prems by (cases b) (simp_all add: algebra_simps)
qed simp

lemma weight_bound: "1 - of_nat n / 1000 \<le> os_decay ^ n"
proof (induction n)
  case (Suc n)
  have "1 - of_nat (Suc n) / 1000 \<le> os_decay * (1 - of_nat n / 1000)" by (simp add: os_decay_def field_simps)
  also have "\<dots> \<le> os_decay * os_decay ^ n" using Suc.IH os_decay_range(1) by (intro mult_left_mono) simp_all
  finally show ?case by simp
qed simp

lemma half_weight: "1 / 2 < os_decay ^ 600"
proof -
  have "(9 / 10) ^ 6 \<le> (os_decay ^ 100) ^ 6" using weight_bound [of 100] by (intro power_mono) simp_all
  also have "\<dots> = os_decay ^ 600" by (simp flip: power_mult)
  finally show ?thesis by (simp add: power_divide)
qed

lemma clear_window_vote:
  assumes "clear_window v w"
  shows "0 < vote w \<longleftrightarrow> v"
proof -
  let ?t = "of_nat (length (filter (\<lambda>b. b) w)) :: rat" and ?f = "of_nat (length (filter Not w)) :: rat"
  let ?q = "os_decay ^ 600"
  have n: "length w = length (filter (\<lambda>b. b) w) + length (filter Not w)" by (simp add: sum_length_filter_compl)
  have b: "?q * ?t - ?f \<le> vote w" "vote w \<le> ?t - ?q * ?f"
    using vote_bounds [OF refl, of w 600] assms by (simp_all add: clear_window_def)
  show ?thesis
  proof (cases v)
    case True
    then have "2 * length (filter Not w) \<le> length (filter (\<lambda>b. b) w)" "0 < length (filter (\<lambda>b. b) w)"
      using assms n by (auto simp: clear_window_def)
    then have "2 * ?f \<le> ?t" "0 < ?t" by linarith+
    moreover have "1 / 2 * ?t < ?q * ?t" using half_weight \<open>0 < ?t\<close> by (intro mult_strict_right_mono)
    ultimately show ?thesis using b(1) True by linarith
  next
    case False
    then have "2 * length (filter (\<lambda>b. b) w) \<le> length (filter Not w)" "0 < length (filter Not w)"
      using assms n by (auto simp: clear_window_def)
    then have "2 * ?t \<le> ?f" "0 < ?f" by linarith+
    moreover have "1 / 2 * ?f < ?q * ?f" using half_weight \<open>0 < ?f\<close> by (intro mult_strict_right_mono)
    ultimately show ?thesis using b(2) False by linarith
  qed
qed

lemma os_read_bits_windows:
  assumes "os_windows c pn fuel k s = Some (ws, s')" "i + k = 8"
    and "\<And>j. j < k \<Longrightarrow> clear_window (bit x (i + j)) (ws ! j)"
  shows "os_read_bits c exact_average pn fuel k i (take_bit i x) s = Some (x, s')"
  using assms
proof (induction k arbitrary: i s ws)
  case 0
  then show ?case by (simp add: take_bit_word_eq_self)
next
  case (Suc k)
  obtain time s1 where m: "os_micros pn s = (time, s1)" by fastforce
  obtain w s2 ws' where w: "os_window pn fuel (os_bit_width c) time s1 = Some (w, s2)"
      "os_windows c pn fuel k s2 = Some (ws', s')" "ws = w # ws'"
    using Suc.prems(1) by (auto simp: m elim!: bind_SomeE)
  then obtain v where v: "os_average exact_average pn fuel (os_bit_width c) time (1 / 2) s1 = Some (v, s2)"
    by (simp add: os_average_window)
  then have "av_above exact_average v \<longleftrightarrow> 0 < vote w" using os_average_vote w(1) by (metis option.inject prod.inject)
  also have "\<dots> \<longleftrightarrow> bit x i" using Suc.prems(3) [of 0] w(3) by (intro clear_window_vote) simp
  finally have "take_bit i x + push_bit i (of_bool (av_above exact_average v)) = take_bit (Suc i) x"
    using take_bit_next [of i x] by simp
  moreover have "os_read_bits c exact_average pn fuel k (Suc i) (take_bit (Suc i) x) s2 = Some (x, s')"
    using Suc.prems(2,3) w(3) by (intro Suc.IH [OF w(2)]) (simp, metis Suc_less_eq add_Suc_right add_Suc nth_Cons_Suc)
  ultimately show ?case using m v by (simp add: exact_average_simps(1))
qed

text \<open>C36. Noise tolerance: if in each of the eight windows of a byte at most a third of the readings is disturbed, and
  no window has more than 600 readings, the byte that was meant is read, whatever the times of the readings.\<close>

theorem os_noise_tolerance:
  assumes "os_windows c pn fuel 8 s = Some (ws, s')" "\<And>i. i < 8 \<Longrightarrow> clear_window (bit x i) (ws ! i)"
  shows "os_read_byte c exact_average pn fuel s = Some (x, s')"
  using os_read_bits_windows [OF assms(1), of 0 x] assms(2) by (simp add: os_read_byte_def)

text \<open>A concrete pin for the example: readings from a script, and a clock that advances with every look at it.\<close>

definition scripted_pin :: "(nat \<times> bool list) pins" where
  "scripted_pin =
     \<lparr> pf_micros = (\<lambda>w. (of_nat (fst w), Suc (fst w), snd w)), pf_delay = (\<lambda>ms w. w), pf_random = (\<lambda>n w. (0, w)),
       pf_random_seed = (\<lambda>n w. w), pf_analog_read = (\<lambda>p w. (0, w)), pin_mode = (\<lambda>p m w. w), pin_write = (\<lambda>p v w. w),
       pin_read = (\<lambda>p w. (hd (snd w), fst w, tl (snd w))), pin_pull_down = (\<lambda>p w. w), delay_us = (\<lambda>us w. w) \<rparr>"

definition disturbed :: "bool \<Rightarrow> bool list" where
  "disturbed v = [v, \<not> v, v]"

theorem os_noise_tolerance_witness:
  "os_read_byte (default_os\<lparr> os_bit_width := 4 \<rparr>) exact_average scripted_pin 5
     \<lparr> os_input_pin = 7, os_output_pin = 7, os_world = (0, concat (map (\<lambda>i. disturbed (bit (0x65 :: u8) i)) [0..<8])) \<rparr> =
   Some (0x65, \<lparr> os_input_pin = 7, os_output_pin = 7, os_world = (40, []) \<rparr>)"
proof -
  let ?ws = "map (\<lambda>i. disturbed (bit (0x65 :: u8) i)) [0..<8]"
  have "os_windows (default_os\<lparr> os_bit_width := 4 \<rparr>) scripted_pin 5 8
      \<lparr> os_input_pin = 7, os_output_pin = 7, os_world = (0, concat ?ws) \<rparr> =
      Some (?ws, \<lparr> os_input_pin = 7, os_output_pin = 7, os_world = (40, []) \<rparr>)"
    by code_simp
  moreover have "clear_window (bit (0x65 :: u8) i) (?ws ! i)" if "i < 8" for i
    using that by (simp add: clear_window_def disturbed_def)
  ultimately show ?thesis by (rule os_noise_tolerance)
qed

end
