(* ===== verification/Through_Serial.thy ===== *)
theory Through_Serial
  imports Pins
begin

text \<open>
  \<^verbatim>\<open>src/strategies/ThroughSerial\<close>: frames over a serial port, delimited by symbols and byte-stuffed, with
  a state machine on the receiving side that may be suspended wherever the port has no more bytes.
\<close>

subsection \<open>The port and the object\<close>

text \<open>\<open>sp_read\<close> is \<^term>\<open>None\<close> for -1, \<open>sp_write\<close> tells if one byte was written.\<close>

record 's serial_port = "'s pins" +
  sp_available :: "'s \<Rightarrow> bool \<times> 's"
  sp_read :: "'s \<Rightarrow> u8 option \<times> 's"
  sp_write :: "u8 \<Rightarrow> 's \<Rightarrow> bool \<times> 's"
  sp_flush :: "'s \<Rightarrow> 's"

text \<open>\<open>ts_flush_hack\<close>: the build is for a Raspberry Pi or Linux.\<close>

record ts_config =
  ts_initial_delay :: u32
  ts_collision_delay :: u32
  ts_response_time_out :: u32
  ts_time_in :: u32
  ts_byte_time_out :: u32
  ts_response_length :: nat
  ts_max_attempts :: u8
  ts_back_off_degree :: nat
  ts_receive_time :: u16
  ts_flush_hack :: bool

definition ts_default :: ts_config where
  "ts_default =
     \<lparr> ts_initial_delay = 1000, ts_collision_delay = 64, ts_response_time_out = 45000, ts_time_in = 45064,
       ts_byte_time_out = 1000000, ts_response_length = 1, ts_max_attempts = 20, ts_back_off_degree = 4,
       ts_receive_time = 0, ts_flush_hack = False \<rparr>"

definition TS_START :: u8 where [const_defs]: "TS_START = 149"
definition TS_END :: u8 where [const_defs]: "TS_END = 234"
definition TS_ESC :: u8 where [const_defs]: "TS_ESC = 187"
definition TS_FAIL :: u16 where [const_defs]: "TS_FAIL = 65535"
definition TS_NOT_ASSIGNED :: u8 where [const_defs]: "TS_NOT_ASSIGNED = 255"

datatype ts_phase = TS_WAITING | TS_RECEIVING | TS_WAITING_ESCAPE | TS_WAITING_END | TS_DONE

record 's serial =
  ts_buffer :: "u8 list"
  ts_position :: u16
  ts_state :: ts_phase
  ts_failed :: bool
  ts_response :: "u8 list"
  ts_last_reception_time :: u32
  ts_last_call_time :: u32
  ts_rxe_pin :: u8
  ts_txe_pin :: u8
  ts_rs485_delay :: u32
  ts_read_interval :: u32
  ts_flush_offset :: u16
  ts_bd :: u32
  ts_world :: 's

definition new_serial :: "ts_config \<Rightarrow> build \<Rightarrow> u8 list \<Rightarrow> u32 \<Rightarrow> 's \<Rightarrow> 's serial" where
  "new_serial c b junk bd world =
     \<lparr> ts_buffer = replicate (packet_max_length b) 0, ts_position = 0, ts_state = TS_WAITING,
       ts_failed = False, ts_response = junk, ts_last_reception_time = 0, ts_last_call_time = 0,
       ts_rxe_pin = TS_NOT_ASSIGNED, ts_txe_pin = TS_NOT_ASSIGNED, ts_rs485_delay = 1,
       ts_read_interval = 100, ts_flush_offset = 152, ts_bd = bd, ts_world = world \<rparr>"

definition ts_in :: "('s \<Rightarrow> 'a \<times> 's) \<Rightarrow> 's serial \<Rightarrow> 'a \<times> 's serial" where
  "ts_in f s = (let (x, w) = f (ts_world s) in (x, s\<lparr> ts_world := w \<rparr>))"

definition ts_on :: "('s \<Rightarrow> 's) \<Rightarrow> 's serial \<Rightarrow> 's serial" where
  "ts_on f s = s\<lparr> ts_world := f (ts_world s) \<rparr>"

definition ts_special :: "u8 \<Rightarrow> bool" where
  "ts_special x \<longleftrightarrow> x = TS_START \<or> x = TS_ESC \<or> x = TS_END"

subsection \<open>Receiving\<close>

text \<open>\<^verbatim>\<open>fail\<close> always returns \<^verbatim>\<open>TS_FAIL\<close>; it is the change of state that matters.\<close>

definition ts_fail :: "ts_phase \<Rightarrow> 's serial \<Rightarrow> ((u16 \<times> u8 list) \<times> 's serial) option" where
  "ts_fail phase s = Some ((TS_FAIL, []), s\<lparr> ts_state := phase \<rparr>)"

definition ts_receive_byte :: "('s, 'z) serial_port_scheme \<Rightarrow> 's serial \<Rightarrow> u8 option \<times> 's serial" where
  "ts_receive_byte sp s =
     (let (v, s) = ts_in (sp_read sp) s in
      case v of None \<Rightarrow> (None, s)
      | Some x \<Rightarrow> (let (now, s) = ts_in (pf_micros sp) s in (Some x, s\<lparr> ts_last_reception_time := now \<rparr>)))"

definition ts_store :: "u8 \<Rightarrow> 's serial \<Rightarrow> 's serial option" where
  "ts_store x s =
     do { buf \<leftarrow> wr (unat (ts_position s)) x (ts_buffer s);
          Some (s\<lparr> ts_buffer := buf, ts_position := ts_position s + 1 \<rparr>) }"

fun ts_wait_start ::
  "('s, 'z) serial_port_scheme \<Rightarrow> nat \<Rightarrow> 's serial \<Rightarrow> ((u16 \<times> u8 list) \<times> 's serial) option" where
  "ts_wait_start sp 0 s = None"
| "ts_wait_start sp (Suc fuel) s =
     (let (available, s) = ts_in (sp_available sp) s in
      if available
      then (case ts_receive_byte sp s of
              (None, s) \<Rightarrow> Some ((TS_FAIL, []), s)
            | (Some x, s) \<Rightarrow>
                if x = TS_START then ts_fail TS_RECEIVING (s\<lparr> ts_position := 0 \<rparr>)
                else ts_wait_start sp fuel s)
      else Some ((TS_FAIL, []), s))"

fun ts_receive_loop ::
  "build \<Rightarrow> ('s, 'z) serial_port_scheme \<Rightarrow> nat \<Rightarrow> u16 \<Rightarrow> 's serial
     \<Rightarrow> ((u16 \<times> u8 list) \<times> 's serial) option" where
  "ts_receive_loop b sp 0 max_length s = None"
| "ts_receive_loop b sp (Suc fuel) max_length s =
     (let (available, s) = ts_in (sp_available sp) s in
      if available
      then (case ts_receive_byte sp s of
              (None, s) \<Rightarrow> ts_fail TS_WAITING s
            | (Some x, s) \<Rightarrow>
                if x = TS_START then ts_fail TS_WAITING s
                else if x = TS_ESC
                then (let (available, s) = ts_in (sp_available sp) s in
                      if \<not> available then ts_fail TS_WAITING_ESCAPE s
                      else (case ts_receive_byte sp s of
                              (None, s) \<Rightarrow> ts_fail TS_WAITING s
                            | (Some y, s) \<Rightarrow>
                                let y = y XOR TS_ESC in
                                if y \<noteq> TS_START \<and> y \<noteq> TS_ESC \<and> y \<noteq> TS_END then ts_fail TS_WAITING s
                                else do { s \<leftarrow> ts_store y s; ts_receive_loop b sp fuel max_length s }))
                else if max_length = 1 then ts_fail TS_WAITING_END s
                else if unat (ts_position s) + 1 \<ge> packet_max_length b then ts_fail TS_WAITING s
                else if x = TS_END then ts_fail TS_DONE s
                else do { s \<leftarrow> ts_store x s; ts_receive_loop b sp fuel max_length s })
      else Some ((TS_FAIL, []), s))"

text \<open>
  \<^verbatim>\<open>prepare_response\<close> keeps the last bytes of a frame, without symbols; on a frame shorter than the
  response it reads before the buffer.
\<close>

definition ts_avoid :: "u8 \<Rightarrow> u8" where
  "ts_avoid raw = (if raw = TS_START \<or> raw = TS_ESC \<or> raw = TS_END then raw - 1 else raw)"

definition ts_prepare_response ::
  "ts_config \<Rightarrow> u8 list \<Rightarrow> nat \<Rightarrow> 's serial \<Rightarrow> 's serial option" where
  "ts_prepare_response c buf position s =
     (if ts_response_length c \<le> position
      then do { raw \<leftarrow> rd_block buf (position - ts_response_length c) (ts_response_length c);
                Some (s\<lparr> ts_response := map ts_avoid raw \<rparr>) }
      else None)"

definition ts_receive_frame ::
  "ts_config \<Rightarrow> build \<Rightarrow> ('s, 'z) serial_port_scheme \<Rightarrow> nat \<Rightarrow> u16 \<Rightarrow> 's serial
     \<Rightarrow> ((u16 \<times> u8 list) \<times> 's serial) option" where
  "ts_receive_frame c b sp fuel max_length s =
     (let (wait, s) =
            (if ts_last_call_time s \<noteq> 0
             then let (now, s) = ts_in (pf_micros sp) s
                  in (now - ts_last_call_time s < ts_read_interval s, s)
             else (False, s))
      in if wait then Some ((TS_FAIL, []), s)
      else
        let (now, s) = ts_in (pf_micros sp) s;
            s = s\<lparr> ts_last_call_time := now \<rparr>;
            (expired, s) =
              (if ts_state s = TS_RECEIVING \<or> ts_state s = TS_WAITING_END \<or> ts_state s = TS_WAITING_ESCAPE
               then let (now, s) = ts_in (pf_micros sp) s
                    in (now - ts_last_reception_time s > ts_byte_time_out c, s)
               else (False, s))
        in if expired then ts_fail TS_WAITING s
           else (case ts_state s of
                   TS_WAITING \<Rightarrow> ts_wait_start sp fuel s
                 | TS_RECEIVING \<Rightarrow> ts_receive_loop b sp fuel max_length s
                 | TS_WAITING_ESCAPE \<Rightarrow>
                     (let (available, s) = ts_in (sp_available sp) s in
                      if available
                      then (case ts_receive_byte sp s of
                              (None, s) \<Rightarrow> ts_fail TS_WAITING s
                            | (Some y, s) \<Rightarrow>
                                let y = y XOR TS_ESC in
                                if y \<noteq> TS_START \<and> y \<noteq> TS_ESC \<and> y \<noteq> TS_END then ts_fail TS_WAITING s
                                else do { s \<leftarrow> ts_store y s; ts_fail TS_RECEIVING s })
                      else Some ((TS_FAIL, []), s))
                 | TS_WAITING_END \<Rightarrow>
                     (let (available, s) = ts_in (sp_available sp) s in
                      if available
                      then (case ts_receive_byte sp s of
                              (None, s) \<Rightarrow> ts_fail TS_WAITING s
                            | (Some y, s) \<Rightarrow> ts_fail (if y = TS_END then TS_DONE else TS_WAITING) s)
                      else Some ((TS_FAIL, []), s))
                 | TS_DONE \<Rightarrow>
                     do { data \<leftarrow> rd_block (ts_buffer s) 0 (unat (ts_position s));
                          s \<leftarrow> ts_prepare_response c (ts_buffer s) (unat (ts_position s)) s;
                          Some ((ts_position s, data), s\<lparr> ts_state := TS_WAITING \<rparr>) }))"

subsection \<open>Sending\<close>

fun ts_write_loop ::
  "ts_config \<Rightarrow> ('s, 'z) serial_port_scheme \<Rightarrow> nat \<Rightarrow> u8 \<Rightarrow> u32 \<Rightarrow> 's serial \<Rightarrow> (bool \<times> 's serial) option" where
  "ts_write_loop c sp 0 x time s = None"
| "ts_write_loop c sp (Suc fuel) x time s =
     (let (written, s) = ts_in (sp_write sp x) s in
      if written then Some (True, s)
      else let (now, s) = ts_in (pf_micros sp) s in
           if now - time < ts_byte_time_out c then ts_write_loop c sp fuel x time s else Some (False, s))"

definition ts_send_byte ::
  "ts_config \<Rightarrow> ('s, 'z) serial_port_scheme \<Rightarrow> nat \<Rightarrow> u8 \<Rightarrow> 's serial \<Rightarrow> 's serial option" where
  "ts_send_byte c sp fuel x s =
     (let (time, s) = ts_in (pf_micros sp) s in
      do { (written, s) \<leftarrow> ts_write_loop c sp fuel x time s;
           Some (if written then s else s\<lparr> ts_failed := True \<rparr>) })"

definition ts_wait_RS485 :: "('s, 'z) serial_port_scheme \<Rightarrow> 's serial \<Rightarrow> 's serial" where
  "ts_wait_RS485 sp s =
     (if ts_txe_pin s \<noteq> TS_NOT_ASSIGNED then ts_on (pf_delay sp (ts_rs485_delay s)) s else s)"

definition ts_start_tx :: "('s, 'z) serial_port_scheme \<Rightarrow> 's serial \<Rightarrow> 's serial" where
  "ts_start_tx sp s =
     (if ts_txe_pin s \<noteq> TS_NOT_ASSIGNED
      then let s = ts_on (pin_write sp (ts_txe_pin s) True) s;
               s = (if ts_rxe_pin s \<noteq> TS_NOT_ASSIGNED then ts_on (pin_write sp (ts_rxe_pin s) True) s else s)
           in ts_wait_RS485 sp s
      else s)"

definition ts_end_tx :: "('s, 'z) serial_port_scheme \<Rightarrow> 's serial \<Rightarrow> 's serial" where
  "ts_end_tx sp s =
     (if ts_txe_pin s \<noteq> TS_NOT_ASSIGNED
      then let s = ts_wait_RS485 sp s;
               s = ts_on (pin_write sp (ts_txe_pin s) False) s
           in if ts_rxe_pin s \<noteq> TS_NOT_ASSIGNED then ts_on (pin_write sp (ts_rxe_pin s) False) s else s
      else s)"

fun ts_send_bytes ::
  "ts_config \<Rightarrow> ('s, 'z) serial_port_scheme \<Rightarrow> nat \<Rightarrow> u8 list \<Rightarrow> 's serial \<Rightarrow> 's serial option" where
  "ts_send_bytes c sp fuel [] s = Some s"
| "ts_send_bytes c sp fuel (x # xs) s = do { s \<leftarrow> ts_send_byte c sp fuel x s; ts_send_bytes c sp fuel xs s }"

text \<open>
  The loop over the bytes of a frame; \<open>overhead\<close> counts the symbols added.  The first component of the
  result is false when a byte could not be written: then \<^verbatim>\<open>send_frame\<close> returns at once, without
  \<^verbatim>\<open>end_tx\<close>.  A baud rate below 8 makes the flush delay divide by zero, which is a fault.
\<close>

fun ts_stuff_loop ::
  "ts_config \<Rightarrow> ('s, 'z) serial_port_scheme \<Rightarrow> nat \<Rightarrow> u8 list \<Rightarrow> u16 \<Rightarrow> 's serial
     \<Rightarrow> (bool \<times> u16 \<times> 's serial) option" where
  "ts_stuff_loop c sp fuel [] overhead s = Some (True, overhead, s)"
| "ts_stuff_loop c sp fuel (x # xs) overhead s =
     (if ts_failed s then Some (False, overhead, s)
      else if x = TS_START \<or> x = TS_ESC \<or> x = TS_END
      then do { s \<leftarrow> ts_send_byte c sp fuel TS_ESC s;
                s \<leftarrow> ts_send_byte c sp fuel (x XOR TS_ESC) s;
                ts_stuff_loop c sp fuel xs (overhead + 1) s }
      else do { s \<leftarrow> ts_send_byte c sp fuel x s; ts_stuff_loop c sp fuel xs overhead s })"

definition ts_send_frame ::
  "ts_config \<Rightarrow> ('s, 'z) serial_port_scheme \<Rightarrow> nat \<Rightarrow> u8 list \<Rightarrow> 's serial \<Rightarrow> 's serial option" where
  "ts_send_frame c sp fuel data s =
     do { let s = ts_start_tx sp (s\<lparr> ts_failed := False \<rparr>);
          s \<leftarrow> ts_send_byte c sp fuel TS_START s;
          (complete, overhead, s) \<leftarrow> ts_stuff_loop c sp fuel data 2 s;
          if \<not> complete then Some s
          else do {
            s \<leftarrow> ts_send_byte c sp fuel TS_END s;
            s \<leftarrow> (if ts_flush_hack c \<and> ts_bd s \<noteq> 0
                 then if ts_bd s div 8 = 0 then None
                      else Some (ts_on (delay_us sp ((1000000 div (ts_bd s div 8) + ucast (ts_flush_offset s))
                                   * (ucast overhead + of_nat (length data)))) s)
                 else Some s);
            let s = ts_on (sp_flush sp) s;
            let s = ts_end_tx sp s;
            ts_prepare_response c data (length data) s } }"

definition ts_send_response ::
  "ts_config \<Rightarrow> ('s, 'z) serial_port_scheme \<Rightarrow> nat \<Rightarrow> u8 \<Rightarrow> 's serial \<Rightarrow> 's serial option" where
  "ts_send_response c sp fuel response s =
     (if ucast response = PJON_ACK
      then do { let s = ts_wait_RS485 sp (ts_start_tx sp s);
                s \<leftarrow> ts_send_bytes c sp fuel (take (ts_response_length c) (ts_response s)) s;
                let s = ts_wait_RS485 sp (ts_on (sp_flush sp) s);
                Some (ts_end_tx sp s) }
      else Some s)"

subsection \<open>The other members of the strategy\<close>

definition ts_back_off ::
  "ts_config \<Rightarrow> ('s, 'z) serial_port_scheme \<Rightarrow> u8 \<Rightarrow> 's serial \<Rightarrow> u32 \<times> 's serial" where
  "ts_back_off c sp attempts s =
     (let (r, s) = ts_in (pf_random sp (ts_collision_delay c)) s
      in (power_back_off (ts_back_off_degree c) attempts + r, s))"

definition ts_begin :: "ts_config \<Rightarrow> ('s, 'z) serial_port_scheme \<Rightarrow> u8 \<Rightarrow> 's serial \<Rightarrow> bool \<times> 's serial" where
  "ts_begin c sp did s =
     (let s = ts_on (initial_delay sp (ts_initial_delay c) did) s;
          (now, s) = ts_in (pf_micros sp) s
      in (True, s\<lparr> ts_last_reception_time := now \<rparr>))"

definition ts_can_start :: "ts_config \<Rightarrow> ('s, 'z) serial_port_scheme \<Rightarrow> 's serial \<Rightarrow> bool \<times> 's serial" where
  "ts_can_start c sp s =
     (let s = ts_on (random_delay_us sp (ts_collision_delay c)) s in
      if ts_state s \<noteq> TS_WAITING then (False, s)
      else let (available, s) = ts_in (sp_available sp) s in
           if available then (False, s)
           else let (now, s) = ts_in (pf_micros sp) s
                in (\<not> (now - ts_last_reception_time s < ts_time_in c), s))"

definition ts_handle_collision :: "ts_config \<Rightarrow> ('s, 'z) serial_port_scheme \<Rightarrow> 's serial \<Rightarrow> 's serial" where
  "ts_handle_collision c sp s = ts_on (random_delay_us sp (ts_collision_delay c)) s"

fun ts_response_loop ::
  "ts_config \<Rightarrow> ('s, 'z) serial_port_scheme \<Rightarrow> nat \<Rightarrow> u32 \<Rightarrow> nat \<Rightarrow> 's serial \<Rightarrow> (u16 \<times> 's serial) option" where
  "ts_response_loop c sp 0 time i s = None"
| "ts_response_loop c sp (Suc fuel) time i s =
     (let (now, s) = ts_in (pf_micros sp) s in
      if now - time < ts_response_time_out c
      then let (available, s) = ts_in (sp_available sp) s in
           if available
           then let (v, s) = ts_in (sp_read sp) s;
                    (now, s) = ts_in (pf_micros sp) s;
                    s = s\<lparr> ts_last_reception_time := now \<rparr>
                in case v of
                     None \<Rightarrow> ts_response_loop c sp fuel time i s
                   | Some x \<Rightarrow>
                       do { expected \<leftarrow> rd (ts_response s) i;
                            if expected \<noteq> x then Some (TS_FAIL, s)
                            else if Suc i = ts_response_length c then Some (PJON_ACK, s)
                            else ts_response_loop c sp fuel time (Suc i) s }
           else ts_response_loop c sp fuel time i s
      else Some (TS_FAIL, s))"

definition ts_receive_response ::
  "ts_config \<Rightarrow> ('s, 'z) serial_port_scheme \<Rightarrow> nat \<Rightarrow> 's serial \<Rightarrow> (u16 \<times> 's serial) option" where
  "ts_receive_response c sp fuel s =
     (if ts_failed s then Some (TS_FAIL, s)
      else let (time, s) = ts_in (pf_micros sp) s in ts_response_loop c sp fuel time 0 s)"

definition ts_set_baud_rate :: "u32 \<Rightarrow> 's serial \<Rightarrow> 's serial" where
  "ts_set_baud_rate baud s = s\<lparr> ts_bd := baud \<rparr>"

definition ts_set_flush_offset :: "u16 \<Rightarrow> 's serial \<Rightarrow> 's serial" where
  "ts_set_flush_offset offset s = s\<lparr> ts_flush_offset := offset \<rparr>"

definition ts_set_read_interval :: "u32 \<Rightarrow> 's serial \<Rightarrow> 's serial" where
  "ts_set_read_interval t s = s\<lparr> ts_read_interval := t \<rparr>"

definition ts_set_RS485_rxe_pin :: "('s, 'z) serial_port_scheme \<Rightarrow> u8 \<Rightarrow> 's serial \<Rightarrow> 's serial" where
  "ts_set_RS485_rxe_pin sp pin s = ts_on (pin_mode sp pin OUTPUT) (s\<lparr> ts_rxe_pin := pin \<rparr>)"

definition ts_set_RS485_txe_pin :: "('s, 'z) serial_port_scheme \<Rightarrow> u8 \<Rightarrow> 's serial \<Rightarrow> 's serial" where
  "ts_set_RS485_txe_pin sp pin s = ts_on (pin_mode sp pin OUTPUT) (s\<lparr> ts_txe_pin := pin \<rparr>)"

definition ts_set_enable_RS485_pin :: "('s, 'z) serial_port_scheme \<Rightarrow> u8 \<Rightarrow> 's serial \<Rightarrow> 's serial" where
  "ts_set_enable_RS485_pin sp pin s = ts_set_RS485_txe_pin sp pin s"

text \<open>As a strategy of a bus.\<close>

definition ts_strategy ::
  "ts_config \<Rightarrow> build \<Rightarrow> ('s, 'z) serial_port_scheme \<Rightarrow> nat \<Rightarrow> 's serial option strategy" where
  "ts_strategy c b sp fuel =
     \<lparr> pf_micros = lift_call 0 (\<lambda>s. Some (ts_in (pf_micros sp) s)),
       pf_delay = (\<lambda>ms. map_option (ts_on (pf_delay sp ms))),
       pf_random = (\<lambda>n. lift_call 0 (\<lambda>s. Some (ts_in (pf_random sp n) s))),
       pf_random_seed = (\<lambda>n. map_option (ts_on (pf_random_seed sp n))),
       pf_analog_read = (\<lambda>p. lift_call 0 (\<lambda>s. Some (ts_in (pf_analog_read sp p) s))),
       st_begin = (\<lambda>did. lift_call False (\<lambda>s. Some (ts_begin c sp did s))),
       st_back_off = (\<lambda>attempts. lift_call 0 (\<lambda>s. Some (ts_back_off c sp attempts s))),
       st_can_start = lift_call False (\<lambda>s. Some (ts_can_start c sp s)),
       st_max_attempts = ts_max_attempts c,
       st_receive_time = ts_receive_time c,
       st_handle_collision = map_option (ts_handle_collision c sp),
       st_receive_frame = (\<lambda>n s. case lift_call (TS_FAIL, []) (ts_receive_frame c b sp fuel n) s of
                                   ((r, bs), s) \<Rightarrow> (r, bs, s)),
       st_receive_response = lift_call TS_FAIL (ts_receive_response c sp fuel),
       st_send_response = (\<lambda>r. lift_update (ts_send_response c sp fuel (ucast r))),
       st_send_frame = (\<lambda>data. lift_update (ts_send_frame c sp fuel data)) \<rparr>"

end
