(* ===== verification/Through_Serial_Laws.thy ===== *)
theory Through_Serial_Laws
  imports Through_Serial
begin

text \<open>
  Frames of \<^verbatim>\<open>ThroughSerial\<close> over a wire: what is sent, what is received however the bytes trickle in, and
  what a hostile sender can do to the receiver.
\<close>

subsection \<open>A wire\<close>

text \<open>The bytes that have arrived, the bytes sent, and the clock, which stands still during a call.\<close>

record wire =
  w_clock :: nat
  w_in :: "u8 list"
  w_out :: "u8 list"

definition wire_port :: "wire serial_port" where
  "wire_port =
     \<lparr> pf_micros = (\<lambda>w. (of_nat (w_clock w), w)), pf_delay = (\<lambda>ms w. w), pf_random = (\<lambda>n w. (0, w)),
       pf_random_seed = (\<lambda>n w. w), pf_analog_read = (\<lambda>p w. (0, w)), pin_mode = (\<lambda>p m w. w),
       pin_write = (\<lambda>p v w. w), pin_read = (\<lambda>p w. (False, w)), pin_pull_down = (\<lambda>p w. w),
       delay_us = (\<lambda>us w. w), sp_available = (\<lambda>w. (w_in w \<noteq> [], w)),
       sp_read = (\<lambda>w. case w_in w of [] \<Rightarrow> (None, w) | x # xs \<Rightarrow> (Some x, w\<lparr> w_in := xs \<rparr>)),
       sp_write = (\<lambda>x w. (True, w\<lparr> w_out := w_out w @ [x] \<rparr>)), sp_flush = (\<lambda>w. w) \<rparr>"

lemma wire_port_simps [simp]:
  "pf_micros wire_port w = (of_nat (w_clock w), w)"
  "sp_available wire_port w = (w_in w \<noteq> [], w)"
  "sp_read wire_port w = (case w_in w of [] \<Rightarrow> (None, w) | x # xs \<Rightarrow> (Some x, w\<lparr> w_in := xs \<rparr>))"
  "sp_write wire_port x w = (True, w\<lparr> w_out := w_out w @ [x] \<rparr>)"
  "sp_flush wire_port w = w" "delay_us wire_port us w = w" "pf_delay wire_port ms w = w"
  "pin_write wire_port pin v w = w"
  by (simp_all add: wire_port_def)



subsection \<open>What is sent\<close>

lemma ts_in_simp [simp]: "ts_in f s = (fst (f (ts_world s)), s\<lparr> ts_world := snd (f (ts_world s)) \<rparr>)"
  by (simp add: ts_in_def Let_def case_prod_unfold)

lemma ts_on_wire [simp]:
  "ts_on (sp_flush wire_port) s = s" "ts_on (delay_us wire_port us) s = s"
  "ts_on (pf_delay wire_port ms) s = s" "ts_on (pin_write wire_port pin v) s = s"
  by (simp_all add: ts_on_def)

lemma ts_tx_wire [simp]:
  "ts_wait_RS485 wire_port s = s" "ts_start_tx wire_port s = s" "ts_end_tx wire_port s = s"
  by (simp_all add: ts_wait_RS485_def ts_start_tx_def ts_end_tx_def Let_def)

definition sent :: "u8 list \<Rightarrow> wire serial \<Rightarrow> wire serial" where
  "sent xs s = s\<lparr> ts_world := (ts_world s)\<lparr> w_out := w_out (ts_world s) @ xs \<rparr> \<rparr>"


lemma sent_sent [simp]: "sent ys (sent xs s) = sent (xs @ ys) s"
  by (simp add: sent_def)

lemma sent_frames [simp]: "ts_failed (sent xs s) = ts_failed s" "sent [] s = s"
  by (simp_all add: sent_def)



subsection \<open>What is received\<close>







lemma ts_special_escaped:
  "ts_special x \<Longrightarrow> (x XOR TS_ESC) XOR TS_ESC = x" "\<not> ts_special x \<Longrightarrow> x \<noteq> TS_START \<and> x \<noteq> TS_ESC \<and> x \<noteq> TS_END"
  by (simp_all add: xor.assoc ts_special_def)

lemma ts_special_noteq: "TS_ESC \<noteq> TS_START" "TS_END \<noteq> TS_START" "TS_END \<noteq> TS_ESC"
  by (simp_all add: const_defs)











subsection \<open>Bytes that trickle in\<close>













definition sample_serial :: "wire serial" where
  "sample_serial = new_serial ts_default default_build [0] 0 \<lparr> w_clock = 7, w_in = [], w_out = [] \<rparr>"


text \<open>C26. Memory safety fails: the bounds of the buffer are checked for plain bytes only.  A sender that
  escapes every byte makes the receiver write beyond its buffer, for every size of the buffer.\<close>

theorem ts_escape_overflow:
  assumes "ts_state s = TS_RECEIVING" and "w_in (ts_world s) = concat (replicate k [TS_ESC, x XOR TS_ESC])"
    and "ts_special x" and "unat (ts_position s) \<le> length (ts_buffer s)" "length (ts_buffer s) < 65536"
    and "length (ts_buffer s) < unat (ts_position s) + k" and "k < fuel"
  shows "ts_receive_loop b wire_port fuel n s = None"
  using assms
proof (induction k arbitrary: s fuel)
  case (Suc k)
  obtain f where fuel: "fuel = Suc f" using Suc.prems(7) by (cases fuel) auto
  define s1 where "s1 = s\<lparr> ts_world := (ts_world s)\<lparr> w_in := (x XOR TS_ESC) # concat (replicate k [TS_ESC, x XOR TS_ESC]) \<rparr>,
      ts_last_reception_time := of_nat (w_clock (ts_world s)) \<rparr>"
  define s2 where "s2 = s1\<lparr> ts_world := (ts_world s1)\<lparr> w_in := concat (replicate k [TS_ESC, x XOR TS_ESC]) \<rparr>,
      ts_last_reception_time := of_nat (w_clock (ts_world s1)) \<rparr>"
  have r: "ts_receive_byte wire_port s = (Some TS_ESC, s1)" "ts_receive_byte wire_port s1 = (Some (x XOR TS_ESC), s2)"
    using Suc.prems(2) by (simp_all add: ts_receive_byte_def s1_def s2_def)
  have "w_in (ts_world s) \<noteq> []" "w_in (ts_world s1) \<noteq> []" "(x XOR TS_ESC) XOR TS_ESC = x"
    using Suc.prems(2) by (simp_all add: s1_def xor.assoc)
  then have step: "ts_receive_loop b wire_port fuel n s = do { s \<leftarrow> ts_store x s2; ts_receive_loop b wire_port f n s }"
    using r Suc.prems(3) by (auto simp: fuel ts_special_noteq ts_special_def)
  show ?case
  proof (cases "unat (ts_position s) < length (ts_buffer s)")
    case False
    then have "ts_store x s2 = None" by (simp add: ts_store_def wr_def s2_def s1_def)
    then show ?thesis by (simp add: step)
  next
    case True
    define s3 where "s3 = s2\<lparr> ts_buffer := (ts_buffer s2)[unat (ts_position s2) := x], ts_position := ts_position s2 + 1 \<rparr>"
    have "ts_store x s2 = Some s3" using True by (simp add: ts_store_def wr_def s2_def s1_def s3_def)
    moreover have "unat (ts_position s3) = Suc (unat (ts_position s))"
      using True Suc.prems(5) by (simp add: s3_def s2_def s1_def unat_word_ariths)
    then have "ts_receive_loop b wire_port f n s3 = None"
      using True Suc.prems by (intro Suc.IH) (simp_all add: s3_def s2_def s1_def fuel)
    ultimately show ?thesis by (simp add: step)
  qed
qed simp

lemma ts_escape_overflow_witness:
  "ts_receive_loop default_build wire_port 60 50
     (sample_serial\<lparr> ts_state := TS_RECEIVING,
        ts_world := \<lparr> w_clock = 0, w_in = concat (replicate 51 [TS_ESC, TS_START XOR TS_ESC]), w_out = [] \<rparr> \<rparr>) = None"
proof -
  obtain bs where bs: "bs = concat (replicate 51 [TS_ESC, TS_START XOR TS_ESC])" by blast
  let ?s = "sample_serial\<lparr> ts_state := TS_RECEIVING, ts_world := \<lparr> w_clock = 0, w_in = bs, w_out = [] \<rparr> \<rparr>"
  have s: "ts_state ?s = TS_RECEIVING" "w_in (ts_world ?s) = bs" "unat (ts_position ?s) = 0"
    "length (ts_buffer ?s) = 50" "ts_special TS_START"
    by (simp_all add: sample_serial_def new_serial_def ts_special_def)
  have "ts_receive_loop default_build wire_port 60 50 ?s = None"
    by (rule ts_escape_overflow [OF s(1) trans [OF s(2) bs] s(5)]) (simp_all add: sample_serial_def new_serial_def)
  then show ?thesis by (simp only: bs)
qed

end
