(* ===== verification/Udp.thy ===== *)
theory Udp
  imports Pins
begin

text \<open>
  The strategies over UDP datagrams: the helper \<^verbatim>\<open>src/interfaces/LINUX/UDPHelper_POSIX.h\<close> and the
  strategies \<^verbatim>\<open>LocalUDP\<close> and \<^verbatim>\<open>GlobalUDP\<close>.

  The socket calls of the operating system are the record \<open>network\<close>: a state \<open>'s\<close> of the outside world
  and what each call does to it.  The helper prepends four bytes to every datagram, the magic header,
  and drops the datagrams that do not start with it.
\<close>

subsection \<open>Sockets\<close>

record sock_addr =
  sa_ip :: "u8 list"
  sa_port :: u16

record 's network = "'s platform" +
  nw_millis :: "'s \<Rightarrow> u32 \<times> 's"
  nw_close :: "'s \<Rightarrow> 's"
  nw_socket :: "'s \<Rightarrow> bool \<times> 's"
  nw_set_timeout :: "'s \<Rightarrow> 's"
  nw_bind :: "u16 \<Rightarrow> 's \<Rightarrow> bool \<times> 's"
  nw_allow_broadcast :: "'s \<Rightarrow> bool \<times> 's"
  nw_recvfrom :: "nat \<Rightarrow> 's \<Rightarrow> (u8 list \<times> sock_addr) option \<times> 's"
  nw_sendto :: "u8 list \<Rightarrow> sock_addr \<Rightarrow> 's \<Rightarrow> 's"

definition no_addr :: sock_addr where
  "no_addr = \<lparr> sa_ip = [0, 0, 0, 0], sa_port = 0 \<rparr>"

definition broadcast_addr :: "u16 \<Rightarrow> sock_addr" where
  "broadcast_addr port = \<lparr> sa_ip = [255, 255, 255, 255], sa_port = port \<rparr>"

subsection \<open>The helper\<close>

text \<open>\<open>ud_open\<close>: the file descriptor is not -1.  \<open>ud_magic\<close> are the bytes of the magic header in memory.\<close>

record 's udp =
  ud_port :: u16
  ud_magic :: "u8 list"
  ud_open :: bool
  ud_receiver :: sock_addr
  ud_sender :: sock_addr
  ud_world :: 's

definition ud_in :: "('s \<Rightarrow> 'a \<times> 's) \<Rightarrow> 's udp \<Rightarrow> 'a \<times> 's udp" where
  "ud_in f u = (let (x, w) = f (ud_world u) in (x, u\<lparr> ud_world := w \<rparr>))"

definition ud_on :: "('s \<Rightarrow> 's) \<Rightarrow> 's udp \<Rightarrow> 's udp" where
  "ud_on f u = u\<lparr> ud_world := f (ud_world u) \<rparr>"

definition new_udp :: "'s \<Rightarrow> 's udp" where
  "new_udp world =
     \<lparr> ud_port = 0, ud_magic = [0, 0, 0, 0], ud_open = False, ud_receiver = no_addr, ud_sender = no_addr,
       ud_world = world \<rparr>"

definition udp_begin :: "('s, 'z) network_scheme \<Rightarrow> u16 \<Rightarrow> 's udp \<Rightarrow> bool \<times> 's udp" where
  "udp_begin nw port u =
     (let u = u\<lparr> ud_port := port \<rparr>;
          u = (if ud_open u then (ud_on (nw_close nw) u)\<lparr> ud_open := False \<rparr> else u);
          (opened, u) = ud_in (nw_socket nw) u;
          u = u\<lparr> ud_open := opened \<rparr>
      in if \<not> opened then (False, u)
         else let u = ud_on (nw_set_timeout nw) u; (bound, u) = ud_in (nw_bind nw port) u in
           if \<not> bound then (False, u)
           else let u = u\<lparr> ud_sender := no_addr, ud_receiver := broadcast_addr port \<rparr>
                in ud_in (nw_allow_broadcast nw) u)"

text \<open>
  A frame of more than 65531 bytes would wrap the 16 bit size of the buffer it is copied to.  A failed
  reception is the value 0 (\<^verbatim>\<open>return false\<close>).  The datagram is received into the destination and then
  moved down by the four bytes of the header, so its last four bytes stay behind it; a refused datagram
  stays as it came.
\<close>

definition udp_send_to :: "('s, 'z) network_scheme \<Rightarrow> u8 list \<Rightarrow> sock_addr \<Rightarrow> 's udp \<Rightarrow> 's udp option" where
  "udp_send_to nw data addr u =
     (if 0 < length data
      then if 65536 \<le> 4 + length data then None
           else Some (if ud_open u then ud_on (nw_sendto nw (ud_magic u @ data) addr) u else u)
      else Some u)"

definition udp_receive_frame ::
  "('s, 'z) network_scheme \<Rightarrow> u16 \<Rightarrow> 's udp \<Rightarrow> (u16 \<times> u8 list) \<times> 's udp" where
  "udp_receive_frame nw max_length u =
     (let (received, u) = (if ud_open u then ud_in (nw_recvfrom nw (unat max_length)) u else (None, u)) in
      case received of
        None \<Rightarrow> ((0, []), u)
      | Some (datagram, src_addr) \<Rightarrow>
          let string = take (unat max_length) datagram; count = length string in
          if count = unat max_length \<or> count < 4 then ((0, string), u)
          else let u = u\<lparr> ud_sender := src_addr \<rparr> in
               if take 4 string \<noteq> ud_magic u then ((0, string), u)
               else ((of_nat (count - 4), drop 4 string @ drop (count - 4) string), u))"

definition udp_send_response :: "('s, 'z) network_scheme \<Rightarrow> u8 list \<Rightarrow> 's udp \<Rightarrow> 's udp option" where
  "udp_send_response nw response u = udp_send_to nw response (ud_sender u) u"

definition udp_send_frame :: "('s, 'z) network_scheme \<Rightarrow> u8 list \<Rightarrow> 's udp \<Rightarrow> 's udp option" where
  "udp_send_frame nw data u =
     (let u = u\<lparr> ud_receiver := broadcast_addr (ud_port u) \<rparr> in udp_send_to nw data (ud_receiver u) u)"

definition udp_send_frame_to ::
  "('s, 'z) network_scheme \<Rightarrow> u8 list \<Rightarrow> u8 list \<Rightarrow> u16 \<Rightarrow> 's udp \<Rightarrow> 's udp option" where
  "udp_send_frame_to nw data remote_ip remote_port u =
     (let u = u\<lparr> ud_receiver := \<lparr> sa_ip = remote_ip, sa_port = remote_port \<rparr> \<rparr>
      in udp_send_to nw data (ud_receiver u) u)"

text \<open>\<^verbatim>\<open>set_magic_header(htonl(h))\<close>: the bytes of \<open>h\<close>, most significant first.\<close>

definition udp_set_magic_header :: "u32 \<Rightarrow> 's udp \<Rightarrow> 's udp" where
  "udp_set_magic_header h u = u\<lparr> ud_magic := be32 h \<rparr>"

definition udp_get_sender :: "'s udp \<Rightarrow> u8 list \<times> u16" where
  "udp_get_sender u = (sa_ip (ud_sender u), sa_port (ud_sender u))"

subsection \<open>What the strategies share\<close>

record udp_config =
  uc_magic :: u32
  uc_esp :: bool
  uc_windows :: bool
  uc_response_timeout :: u32
  uc_receive_time :: u16
  uc_max_remote_nodes :: nat

record 's udp_link =
  ul_initialized :: bool
  ul_port :: u16
  ul_udp :: "'s udp"

definition ul_in :: "('s \<Rightarrow> 'a \<times> 's) \<Rightarrow> ('s, 'y) udp_link_scheme \<Rightarrow> 'a \<times> ('s, 'y) udp_link_scheme" where
  "ul_in f s = (let (x, u) = ud_in f (ul_udp s) in (x, s\<lparr> ul_udp := u \<rparr>))"

definition ul_on :: "('s \<Rightarrow> 's) \<Rightarrow> ('s, 'y) udp_link_scheme \<Rightarrow> ('s, 'y) udp_link_scheme" where
  "ul_on f s = s\<lparr> ul_udp := ud_on f (ul_udp s) \<rparr>"

definition ul_send ::
  "('s udp \<Rightarrow> 's udp option) \<Rightarrow> ('s, 'y) udp_link_scheme \<Rightarrow> ('s, 'y) udp_link_scheme option" where
  "ul_send f s = map_option (\<lambda>u. s\<lparr> ul_udp := u \<rparr>) (f (ul_udp s))"

definition check_udp ::
  "udp_config \<Rightarrow> ('s, 'z) network_scheme \<Rightarrow> ('s, 'y) udp_link_scheme \<Rightarrow> bool \<times> ('s, 'y) udp_link_scheme" where
  "check_udp c nw s =
     (let s = (if \<not> ul_initialized s
               then let u = udp_set_magic_header (uc_magic c) (ul_udp s);
                        (ok, u) = udp_begin nw (ul_port s) u;
                        s = s\<lparr> ul_udp := u \<rparr>
                    in if ok then s\<lparr> ul_initialized := True \<rparr> else s
               else s)
      in (ul_initialized s, s))"

definition udp_set_port :: "u16 \<Rightarrow> ('s, 'y) udp_link_scheme \<Rightarrow> ('s, 'y) udp_link_scheme" where
  "udp_set_port port s = s\<lparr> ul_port := port \<rparr>"

subsection \<open>LocalUDP\<close>

definition ludp_config :: udp_config where
  "ludp_config =
     \<lparr> uc_magic = 0x0DFAC3D0, uc_esp = False, uc_windows = False, uc_response_timeout = 100000,
       uc_receive_time = 0, uc_max_remote_nodes = 0 \<rparr>"

definition new_local_udp :: "'s \<Rightarrow> 's udp_link" where
  "new_local_udp world = \<lparr> ul_initialized = False, ul_port = 7100, ul_udp = new_udp world \<rparr>"

definition ludp_back_off ::
  "udp_config \<Rightarrow> ('s, 'z) network_scheme \<Rightarrow> u8 \<Rightarrow> 's udp_link \<Rightarrow> u32 \<times> 's udp_link" where
  "ludp_back_off c nw attempts s =
     (if uc_esp c
      then let (r, s) = ul_in (pf_random nw 10000) s in (10000 * ucast attempts + r, s)
      else if uc_windows c
      then let (r, s) = ul_in (pf_random nw 1000) s in (1000 * ucast attempts + r, s)
      else (1, s))"

definition ludp_begin :: "udp_config \<Rightarrow> ('s, 'z) network_scheme \<Rightarrow> 's udp_link \<Rightarrow> bool \<times> 's udp_link" where
  "ludp_begin c nw s = check_udp c nw s"

definition ludp_can_start :: "udp_config \<Rightarrow> ('s, 'z) network_scheme \<Rightarrow> 's udp_link \<Rightarrow> bool \<times> 's udp_link" where
  "ludp_can_start c nw s = check_udp c nw s"

definition ludp_receive_frame ::
  "('s, 'z) network_scheme \<Rightarrow> u16 \<Rightarrow> 's udp_link \<Rightarrow> (u16 \<times> u8 list) \<times> 's udp_link" where
  "ludp_receive_frame nw max_length s =
     (let (r, u) = udp_receive_frame nw max_length (ul_udp s) in (r, s\<lparr> ul_udp := u \<rparr>))"

fun ludp_response_loop ::
  "udp_config \<Rightarrow> ('s, 'z) network_scheme \<Rightarrow> nat \<Rightarrow> u32 \<Rightarrow> 's udp_link \<Rightarrow> (u16 \<times> 's udp_link) option" where
  "ludp_response_loop c nw 0 start s = None"
| "ludp_response_loop c nw (Suc fuel) start s =
     (let ((reply_length, result), s) = ludp_receive_frame nw 6 s in
      if reply_length = 1 \<and> ucast (result ! 0) = PJON_ACK then Some (ucast (result ! 0), s)
      else let (now, s) = ul_in (pf_micros nw) s in
           if now - start < uc_response_timeout c then ludp_response_loop c nw fuel start s
           else Some (PJON_FAIL, s))"

definition ludp_receive_response ::
  "udp_config \<Rightarrow> ('s, 'z) network_scheme \<Rightarrow> nat \<Rightarrow> 's udp_link \<Rightarrow> (u16 \<times> 's udp_link) option" where
  "ludp_receive_response c nw fuel s =
     (let (start, s) = ul_in (pf_micros nw) s in ludp_response_loop c nw fuel start s)"

definition ludp_send_response :: "('s, 'z) network_scheme \<Rightarrow> u8 \<Rightarrow> 's udp_link \<Rightarrow> 's udp_link option" where
  "ludp_send_response nw response s = ul_send (udp_send_response nw [response]) s"

definition ludp_send_frame :: "('s, 'z) network_scheme \<Rightarrow> u8 list \<Rightarrow> 's udp_link \<Rightarrow> 's udp_link option" where
  "ludp_send_frame nw data s = ul_send (udp_send_frame nw data) s"

definition ludp_strategy ::
  "udp_config \<Rightarrow> ('s, 'z) network_scheme \<Rightarrow> nat \<Rightarrow> 's udp_link option strategy" where
  "ludp_strategy c nw fuel =
     \<lparr> pf_micros = lift_call 0 (\<lambda>s. Some (ul_in (pf_micros nw) s)),
       pf_delay = (\<lambda>ms. map_option (ul_on (pf_delay nw ms))),
       pf_random = (\<lambda>n. lift_call 0 (\<lambda>s. Some (ul_in (pf_random nw n) s))),
       pf_random_seed = (\<lambda>n. map_option (ul_on (pf_random_seed nw n))),
       pf_analog_read = (\<lambda>p. lift_call 0 (\<lambda>s. Some (ul_in (pf_analog_read nw p) s))),
       st_begin = (\<lambda>did. lift_call False (\<lambda>s. Some (ludp_begin c nw s))),
       st_back_off = (\<lambda>attempts. lift_call 0 (\<lambda>s. Some (ludp_back_off c nw attempts s))),
       st_can_start = lift_call False (\<lambda>s. Some (ludp_can_start c nw s)),
       st_max_attempts = 10,
       st_receive_time = uc_receive_time c,
       st_handle_collision = (\<lambda>s. s),
       st_receive_frame = (\<lambda>n s. case lift_call (0, []) (\<lambda>s. Some (ludp_receive_frame nw n s)) s of
                                   ((r, bs), s) \<Rightarrow> (r, bs, s)),
       st_receive_response = lift_call PJON_FAIL (ludp_receive_response c nw fuel),
       st_send_response = (\<lambda>r. lift_update (ludp_send_response nw (ucast r))),
       st_send_frame = (\<lambda>data. lift_update (ludp_send_frame nw data)) \<rparr>"

lemma udp_receive_frame_fits:
  "udp_receive_frame nw n u = ((r, bs), u') \<Longrightarrow> length bs \<le> unat n"
  by (auto simp: udp_receive_frame_def Let_def split: prod.splits option.splits if_splits)

interpretation ludp: bounded_strategy "ludp_strategy c nw fuel" "\<lambda>_. True" for c nw fuel
proof (unfold_locales, goal_cases)
  case (1 s n r bs s')
  then show ?case using udp_receive_frame_fits [of nw n]
    by (auto simp: ludp_strategy_def ludp_receive_frame_def lift_call_def split: prod.splits option.splits
        elim!: bind_SomeE)
qed simp_all

subsection \<open>GlobalUDP\<close>

text \<open>The arrays of remote nodes up to \<^verbatim>\<open>_remote_node_count\<close> are a list.\<close>

record remote_node =
  rn_id :: u8
  rn_ip :: "u8 list"
  rn_port :: u16

record 's global_udp = "'s udp_link" +
  gu_auto_registration :: bool
  gu_nodes :: "remote_node list"

definition gudp_config :: udp_config where
  "gudp_config =
     \<lparr> uc_magic = 0x0DFAC3FF, uc_esp = False, uc_windows = False, uc_response_timeout = 100000,
       uc_receive_time = 0, uc_max_remote_nodes = 10 \<rparr>"

definition new_global_udp :: "'s \<Rightarrow> 's global_udp" where
  "new_global_udp world =
     \<lparr> ul_initialized = False, ul_port = 7000, ul_udp = new_udp world, gu_auto_registration = True,
       gu_nodes = [] \<rparr>"

text \<open>The index of the first node with the id; \<^term>\<open>None\<close> is -1.\<close>

fun find_remote_node :: "u8 \<Rightarrow> 'z remote_node_scheme list \<Rightarrow> nat option" where
  "find_remote_node x [] = None"
| "find_remote_node x (n # ns) = (if rn_id n = x then Some 0 else map_option Suc (find_remote_node x ns))"

definition gudp_add_node ::
  "udp_config \<Rightarrow> u8 \<Rightarrow> u8 list \<Rightarrow> u16 \<Rightarrow> 's global_udp \<Rightarrow> int \<times> 's global_udp" where
  "gudp_add_node c remote_id remote_ip port_number s =
     (if length (gu_nodes s) = uc_max_remote_nodes c then (-1, s)
      else let s = s\<lparr> gu_nodes := gu_nodes s @ [\<lparr> rn_id = remote_id, rn_ip = remote_ip, rn_port = port_number \<rparr>] \<rparr>
           in (int (length (gu_nodes s)) - 1, s))"

definition gudp_set_autoregistration :: "bool \<Rightarrow> 's global_udp \<Rightarrow> 's global_udp" where
  "gudp_set_autoregistration enabled s = s\<lparr> gu_auto_registration := enabled \<rparr>"

definition gudp_autoregister_sender ::
  "udp_config \<Rightarrow> build \<Rightarrow> u8 list \<Rightarrow> u16 \<Rightarrow> 's global_udp \<Rightarrow> 's global_udp option" where
  "gudp_autoregister_sender c b message len s =
     (if gu_auto_registration s \<and> 4 < len
      then do { packet_info \<leftarrow> parse_header b message;
                let sender_id = ep_id (pi_tx packet_info);
                if sender_id = 0 then Some s
                else let (sender_ip, sender_port) = udp_get_sender (ul_udp s) in
                     case find_remote_node sender_id (gu_nodes s) of
                       None \<Rightarrow> Some (snd (gudp_add_node c sender_id sender_ip sender_port s))
                     | Some pos \<Rightarrow>
                         Some (s\<lparr> gu_nodes := (gu_nodes s)[pos := (gu_nodes s ! pos)
                                   \<lparr> rn_ip := sender_ip, rn_port := sender_port \<rparr>] \<rparr>) }
      else Some s)"

definition gudp_back_off ::
  "udp_config \<Rightarrow> ('s, 'z) network_scheme \<Rightarrow> u8 \<Rightarrow> 's global_udp \<Rightarrow> u32 \<times> 's global_udp" where
  "gudp_back_off c nw attempts s =
     (if uc_esp c
      then let (r, s) = ul_in (pf_random nw 10000) s in (10000 * ucast attempts + r, s)
      else if uc_windows c then let (r, s) = ul_in (pf_random nw 1000) s in (1000 + r, s)
      else (1, s))"

definition gudp_begin :: "udp_config \<Rightarrow> ('s, 'z) network_scheme \<Rightarrow> 's global_udp \<Rightarrow> bool \<times> 's global_udp" where
  "gudp_begin c nw s = check_udp c nw s"

definition gudp_can_start :: "udp_config \<Rightarrow> ('s, 'z) network_scheme \<Rightarrow> 's global_udp \<Rightarrow> bool \<times> 's global_udp" where
  "gudp_can_start c nw s = check_udp c nw s"

text \<open>
  The sender is registered from the destination as it is then: the bytes stored, and after them what the
  destination held before, \<open>old\<close>.
\<close>

definition gudp_receive_frame ::
  "udp_config \<Rightarrow> build \<Rightarrow> ('s, 'z) network_scheme \<Rightarrow> u8 list \<Rightarrow> u16 \<Rightarrow> 's global_udp
     \<Rightarrow> ((u16 \<times> u8 list) \<times> 's global_udp) option" where
  "gudp_receive_frame c b nw old max_length s =
     (let ((len, bs), u) = udp_receive_frame nw max_length (ul_udp s);
          s = s\<lparr> ul_udp := u \<rparr>
      in if len \<noteq> PJON_FAIL
         then do { s \<leftarrow> gudp_autoregister_sender c b (bs @ drop (length bs) old) len s; Some ((len, bs), s) }
         else Some ((len, bs), s))"

fun gudp_response_loop ::
  "udp_config \<Rightarrow> build \<Rightarrow> ('s, 'z) network_scheme \<Rightarrow> nat \<Rightarrow> u32 \<Rightarrow> u8 list \<Rightarrow> 's global_udp
     \<Rightarrow> (u16 \<times> 's global_udp) option" where
  "gudp_response_loop c b nw 0 start result s = None"
| "gudp_response_loop c b nw (Suc fuel) start result s =
     do { ((reply_length, bs), s) \<leftarrow> gudp_receive_frame c b nw result 8 s;
          let result = bs @ drop (length bs) result;
          if reply_length = 1 \<and> ucast (result ! 0) = PJON_ACK then Some (ucast (result ! 0), s)
          else let (now, s) = ul_in (pf_micros nw) s in
               if now - start < uc_response_timeout c then gudp_response_loop c b nw fuel start result s
               else Some (PJON_FAIL, s) }"

definition gudp_receive_response ::
  "udp_config \<Rightarrow> build \<Rightarrow> ('s, 'z) network_scheme \<Rightarrow> nat \<Rightarrow> u8 list \<Rightarrow> 's global_udp
     \<Rightarrow> (u16 \<times> 's global_udp) option" where
  "gudp_receive_response c b nw fuel result s =
     (let (start, s) = ul_in (pf_micros nw) s in gudp_response_loop c b nw fuel start result s)"

definition gudp_send_response :: "('s, 'z) network_scheme \<Rightarrow> u8 \<Rightarrow> 's global_udp \<Rightarrow> 's global_udp option" where
  "gudp_send_response nw response s = ul_send (udp_send_response nw [response]) s"

fun gudp_send_all ::
  "('s, 'z) network_scheme \<Rightarrow> u8 list \<Rightarrow> remote_node list \<Rightarrow> 's global_udp \<Rightarrow> 's global_udp option" where
  "gudp_send_all nw data [] s = Some s"
| "gudp_send_all nw data (n # ns) s =
     do { s \<leftarrow> ul_send (udp_send_frame_to nw data (rn_ip n) (rn_port n)) s; gudp_send_all nw data ns s }"

definition gudp_send_frame :: "('s, 'z) network_scheme \<Rightarrow> u8 list \<Rightarrow> 's global_udp \<Rightarrow> 's global_udp option" where
  "gudp_send_frame nw data s =
     (case data of
        [] \<Rightarrow> Some s
      | x # _ \<Rightarrow>
          if x = 0 then gudp_send_all nw data (gu_nodes s) s
          else (case find_remote_node x (gu_nodes s) of
                  None \<Rightarrow> Some s
                | Some pos \<Rightarrow> ul_send (udp_send_frame_to nw data (rn_ip (gu_nodes s ! pos))
                                        (rn_port (gu_nodes s ! pos))) s))"

text \<open>As a strategy; \<open>old s n\<close> is what a destination of \<open>n\<close> bytes holds before a call.\<close>

definition gudp_strategy ::
  "udp_config \<Rightarrow> build \<Rightarrow> ('s, 'z) network_scheme \<Rightarrow> nat \<Rightarrow> ('s global_udp \<Rightarrow> nat \<Rightarrow> u8 list)
     \<Rightarrow> 's global_udp option strategy" where
  "gudp_strategy c b nw fuel old =
     \<lparr> pf_micros = lift_call 0 (\<lambda>s. Some (ul_in (pf_micros nw) s)),
       pf_delay = (\<lambda>ms. map_option (ul_on (pf_delay nw ms))),
       pf_random = (\<lambda>n. lift_call 0 (\<lambda>s. Some (ul_in (pf_random nw n) s))),
       pf_random_seed = (\<lambda>n. map_option (ul_on (pf_random_seed nw n))),
       pf_analog_read = (\<lambda>p. lift_call 0 (\<lambda>s. Some (ul_in (pf_analog_read nw p) s))),
       st_begin = (\<lambda>did. lift_call False (\<lambda>s. Some (gudp_begin c nw s))),
       st_back_off = (\<lambda>attempts. lift_call 0 (\<lambda>s. Some (gudp_back_off c nw attempts s))),
       st_can_start = lift_call False (\<lambda>s. Some (gudp_can_start c nw s)),
       st_max_attempts = 10,
       st_receive_time = uc_receive_time c,
       st_handle_collision = (\<lambda>s. s),
       st_receive_frame = (\<lambda>n s. case lift_call (0, []) (\<lambda>s. gudp_receive_frame c b nw (old s (unat n)) n s) s of
                                   ((r, bs), s) \<Rightarrow> (r, bs, s)),
       st_receive_response = lift_call PJON_FAIL (\<lambda>s. gudp_receive_response c b nw fuel (old s 8) s),
       st_send_response = (\<lambda>r. lift_update (gudp_send_response nw (ucast r))),
       st_send_frame = (\<lambda>data. lift_update (gudp_send_frame nw data)) \<rparr>"

interpretation gudp: bounded_strategy "gudp_strategy c b nw fuel old" "\<lambda>_. True" for c b nw fuel old
proof (unfold_locales, goal_cases)
  case (1 s n r bs s')
  then show ?case using udp_receive_frame_fits [of nw n]
    by (auto simp: gudp_strategy_def gudp_receive_frame_def lift_call_def Let_def
        split: prod.splits option.splits if_splits elim!: bind_SomeE)
qed simp_all

end
