(* ===== verification/Dual_Udp.thy ===== *)
theory Dual_Udp
  imports Udp
begin

text \<open>
  \<^verbatim>\<open>src/strategies/DualUDP\<close>: datagrams are broadcast until the receiver of a packet is known, and directed
  from then on.  The remote nodes carry a count of the unanswered transmissions and are forgotten after
  too many.
\<close>

record dual_node = remote_node +
  dn_attempts :: u8

record dudp_config = udp_config +
  dc_minimum_send_interval :: u32
  dc_max_retries :: u8
  dc_max_failures :: nat

record 's dual_udp = "'s udp_link" +
  du_auto_registration :: bool
  du_auto_discovery :: bool
  du_did_broadcast :: bool
  du_unremovable_node_count :: u8
  du_last_out_receiver_id :: u8
  du_last_out_sender_id :: u8
  du_last_out_time :: u32
  du_packet_info :: packet_info
  du_last_in_sender_port :: u16
  du_last_in_sender_ip :: "u8 list"
  du_last_in_receiver_id :: u8
  du_last_in_sender_id :: u8
  du_nodes :: "dual_node list"

definition dudp_config :: dudp_config where
  "dudp_config =
     \<lparr> uc_magic = 0x0EFA23FF, uc_esp = False, uc_windows = False, uc_response_timeout = 50000,
       uc_receive_time = 0, uc_max_remote_nodes = 10, dc_minimum_send_interval = 8, dc_max_retries = 5,
       dc_max_failures = 10 \<rparr>"

text \<open>\<open>junk\<close> is what the uninitialised address holds.\<close>

definition new_dual_udp :: "u8 list \<Rightarrow> 's \<Rightarrow> 's dual_udp" where
  "new_dual_udp junk world =
     \<lparr> ul_initialized = False, ul_port = 7500, ul_udp = new_udp world, du_auto_registration = True,
       du_auto_discovery = True, du_did_broadcast = False, du_unremovable_node_count = PJON_NOT_ASSIGNED,
       du_last_out_receiver_id = 0, du_last_out_sender_id = 0, du_last_out_time = 0,
       du_packet_info = new_packet_info, du_last_in_sender_port = 0, du_last_in_sender_ip = junk,
       du_last_in_receiver_id = 0, du_last_in_sender_id = 0, du_nodes = [] \<rparr>"

subsection \<open>The table of remote nodes\<close>

definition dudp_add_node ::
  "dudp_config \<Rightarrow> u8 \<Rightarrow> u8 list \<Rightarrow> u16 \<Rightarrow> 's dual_udp \<Rightarrow> nat option \<times> 's dual_udp" where
  "dudp_add_node c remote_id remote_ip port_number s =
     (if length (du_nodes s) = uc_max_remote_nodes c then (None, s)
      else let s = (if du_unremovable_node_count s = PJON_NOT_ASSIGNED
                    then s\<lparr> du_unremovable_node_count := of_nat (length (du_nodes s)) \<rparr> else s);
               s = s\<lparr> du_nodes := du_nodes s @ [\<lparr> rn_id = remote_id, rn_ip = remote_ip,
                                                 rn_port = port_number, dn_attempts = 0 \<rparr>] \<rparr>
           in (Some (length (du_nodes s) - 1), s))"

text \<open>
  The loop of \<^verbatim>\<open>remove_node\<close> moves the nodes behind \<open>pos\<close> down by one; for a position behind the end it
  moves none, and the count drops all the same.  The count of an empty table wraps to 255, a fault.
\<close>

fun shift_nodes :: "nat \<Rightarrow> nat \<Rightarrow> 'a list \<Rightarrow> 'a list" where
  "shift_nodes 0 i ns = ns"
| "shift_nodes (Suc k) i ns =
     (if Suc i < length ns then shift_nodes k (Suc i) (ns[i := ns ! Suc i]) else ns)"

definition dudp_remove_node :: "u8 \<Rightarrow> 's dual_udp \<Rightarrow> (bool \<times> 's dual_udp) option" where
  "dudp_remove_node pos s =
     (if pos < du_unremovable_node_count s then Some (False, s)
      else if du_nodes s = [] then None
      else Some (True, s\<lparr> du_nodes := butlast (shift_nodes (length (du_nodes s)) (unat pos) (du_nodes s)) \<rparr>))"

definition dudp_autoregister_sender :: "dudp_config \<Rightarrow> 's dual_udp \<Rightarrow> nat option \<times> 's dual_udp" where
  "dudp_autoregister_sender c s =
     (if du_auto_registration s
      then if du_last_in_sender_id s = 0 then (None, s)
           else (case find_remote_node (du_last_in_sender_id s) (du_nodes s) of
                   None \<Rightarrow> dudp_add_node c (du_last_in_sender_id s) (du_last_in_sender_ip s)
                             (du_last_in_sender_port s) s
                 | Some pos \<Rightarrow>
                     (Some pos, s\<lparr> du_nodes := (du_nodes s)[pos := (du_nodes s ! pos)
                        \<lparr> rn_ip := du_last_in_sender_ip s, rn_port := du_last_in_sender_port s \<rparr>] \<rparr>))
      else (None, s))"

definition dudp_did_broadcast :: "'s dual_udp \<Rightarrow> bool" where
  "dudp_did_broadcast s = du_did_broadcast s"

definition dudp_set_autoregistration :: "bool \<Rightarrow> 's dual_udp \<Rightarrow> 's dual_udp" where
  "dudp_set_autoregistration enabled s = s\<lparr> du_auto_registration := enabled \<rparr>"

definition dudp_set_autodiscovery :: "bool \<Rightarrow> 's dual_udp \<Rightarrow> 's dual_udp" where
  "dudp_set_autodiscovery enabled s = s\<lparr> du_auto_discovery := enabled \<rparr>"

subsection \<open>The members of the strategy\<close>

definition dudp_back_off :: "('s, 'z) network_scheme \<Rightarrow> u8 \<Rightarrow> 's dual_udp \<Rightarrow> u32 \<times> 's dual_udp" where
  "dudp_back_off nw attempts s =
     (let (r, s) = ul_in (pf_random nw 500) s in (1000 * ucast attempts + r, s))"

definition dudp_begin :: "dudp_config \<Rightarrow> ('s, 'z) network_scheme \<Rightarrow> 's dual_udp \<Rightarrow> bool \<times> 's dual_udp" where
  "dudp_begin c nw s = check_udp (udp_config.truncate c) nw s"

definition dudp_can_start :: "dudp_config \<Rightarrow> ('s, 'z) network_scheme \<Rightarrow> 's dual_udp \<Rightarrow> bool \<times> 's dual_udp" where
  "dudp_can_start c nw s =
     (let (ready, s) = check_udp (udp_config.truncate c) nw s in
      if \<not> ready then (False, s)
      else let (now, s) = ul_in (nw_millis nw) s
           in (now - du_last_out_time s \<ge> dc_minimum_send_interval c, s))"

definition dudp_receive_frame ::
  "dudp_config \<Rightarrow> build \<Rightarrow> ('s, 'z) network_scheme \<Rightarrow> u8 list \<Rightarrow> u16 \<Rightarrow> 's dual_udp
     \<Rightarrow> ((u16 \<times> u8 list) \<times> 's dual_udp) option" where
  "dudp_receive_frame c b nw old max_length s =
     (let ((len, bs), u) = udp_receive_frame nw max_length (ul_udp s);
          s = s\<lparr> ul_udp := u \<rparr>;
          (ip, port) = udp_get_sender u;
          s = s\<lparr> du_last_in_sender_ip := ip, du_last_in_sender_port := port \<rparr>
      in if len \<noteq> PJON_FAIL \<and> 4 < len
         then do { info \<leftarrow> parse_header b (bs @ drop (length bs) old);
                   let s = s\<lparr> du_packet_info := info, du_last_in_receiver_id := ep_id (pi_rx info),
                              du_last_in_sender_id := ep_id (pi_tx info) \<rparr>;
                   let s = (if ep_id (pi_tx info) \<noteq> PJON_NOT_ASSIGNED \<and>
                               du_last_out_sender_id s \<noteq> PJON_NOT_ASSIGNED \<and>
                               ep_id (pi_rx info) = du_last_out_sender_id s
                            then snd (dudp_autoregister_sender c s) else s);
                   Some ((len, bs), s) }
         else Some ((len, bs), s))"

text \<open>One round of the wait for a response: the code, if the response has come.\<close>

definition dudp_response_round ::
  "dudp_config \<Rightarrow> build \<Rightarrow> ('s, 'z) network_scheme \<Rightarrow> u8 list \<Rightarrow> 's dual_udp
     \<Rightarrow> (u16 option \<times> u8 list \<times> 's dual_udp) option" where
  "dudp_response_round c b nw result s =
     do { ((reply_length, bs), s) \<leftarrow> dudp_receive_frame c b nw result 10 s;
          let result = bs @ drop (length bs) result;
          if reply_length = PJON_FAIL \<or> reply_length \<noteq> 3 then Some (None, result, s)
          else let s = s\<lparr> du_last_in_receiver_id := result ! 0, du_last_in_sender_id := result ! 1 \<rparr>;
                   code = result ! 2
               in if du_last_in_receiver_id s \<noteq> du_last_out_sender_id s then Some (None, result, s)
                  else if ucast code = PJON_ACK
                  then let (pos, s) = dudp_autoregister_sender c s;
                           s = (case pos of None \<Rightarrow> s
                                | Some pos \<Rightarrow> s\<lparr> du_nodes := (du_nodes s)[pos := (du_nodes s ! pos)\<lparr> dn_attempts := 0 \<rparr>] \<rparr>)
                       in Some (Some (ucast code), result, s)
                  else Some (None, result, s) }"

fun dudp_response_loop ::
  "dudp_config \<Rightarrow> build \<Rightarrow> ('s, 'z) network_scheme \<Rightarrow> nat \<Rightarrow> u32 \<Rightarrow> u8 list \<Rightarrow> 's dual_udp
     \<Rightarrow> (u16 \<times> 's dual_udp) option" where
  "dudp_response_loop c b nw 0 start result s = None"
| "dudp_response_loop c b nw (Suc fuel) start result s =
     do { (code, result, s) \<leftarrow> dudp_response_round c b nw result s;
          case code of
            Some code \<Rightarrow> Some (code, s)
          | None \<Rightarrow> let (now, s) = ul_in (pf_micros nw) s in
                    if now - start < uc_response_timeout c then dudp_response_loop c b nw fuel start result s
                    else Some (PJON_FAIL, s) }"

definition dudp_receive_response ::
  "dudp_config \<Rightarrow> build \<Rightarrow> ('s, 'z) network_scheme \<Rightarrow> nat \<Rightarrow> u8 list \<Rightarrow> 's dual_udp
     \<Rightarrow> (u16 \<times> 's dual_udp) option" where
  "dudp_receive_response c b nw fuel result s =
     (let (start, s) = ul_in (pf_micros nw) s in dudp_response_loop c b nw fuel start result s)"

definition dudp_send_response :: "('s, 'z) network_scheme \<Rightarrow> u8 \<Rightarrow> 's dual_udp \<Rightarrow> 's dual_udp option" where
  "dudp_send_response nw response s =
     ul_send (udp_send_response nw [du_last_in_sender_id s, du_last_in_receiver_id s, response]) s"

text \<open>\<open>dudp_locate\<close>: the position of the receiver, after it has been forgotten if it did not respond.\<close>

definition dudp_locate :: "dudp_config \<Rightarrow> 's dual_udp \<Rightarrow> (nat option \<times> 's dual_udp) option" where
  "dudp_locate c s =
     (case (if du_last_out_receiver_id s \<noteq> 0
            then find_remote_node (du_last_out_receiver_id s) (du_nodes s) else None) of
        None \<Rightarrow> Some (None, s)
      | Some pos \<Rightarrow>
          if unat (dn_attempts (du_nodes s ! pos)) > unat (dc_max_retries c) * dc_max_failures c
          then do { (removed, s) \<leftarrow> dudp_remove_node (of_nat pos) s;
                    Some (if removed then None else Some pos, s) }
          else Some (Some pos, s))"

definition dudp_send_frame ::
  "dudp_config \<Rightarrow> build \<Rightarrow> ('s, 'z) network_scheme \<Rightarrow> u8 list \<Rightarrow> 's dual_udp \<Rightarrow> 's dual_udp option" where
  "dudp_send_frame c b nw data s =
     (let s = s\<lparr> du_did_broadcast := False \<rparr> in
      if 4 < length data
      then do { info \<leftarrow> parse_header b data;
                let s = s\<lparr> du_packet_info := info, du_last_out_receiver_id := ep_id (pi_rx info),
                           du_last_out_sender_id := ep_id (pi_tx info) \<rparr>;
                (pos, s) \<leftarrow> dudp_locate c s;
                s \<leftarrow> (case pos of
                       None \<Rightarrow>
                         do { s \<leftarrow> (if du_auto_discovery s then ul_send (udp_send_frame nw data) s else Some s);
                              Some (s\<lparr> du_did_broadcast := True \<rparr>) }
                     | Some pos \<Rightarrow>
                         do { s \<leftarrow> ul_send (udp_send_frame_to nw data (rn_ip (du_nodes s ! pos))
                                             (rn_port (du_nodes s ! pos))) s;
                              Some (s\<lparr> du_nodes := (du_nodes s)[pos := (du_nodes s ! pos)
                                         \<lparr> dn_attempts := dn_attempts (du_nodes s ! pos) + 1 \<rparr>] \<rparr>) });
                let (now, s) = ul_in (nw_millis nw) s;
                Some (s\<lparr> du_last_out_time := now \<rparr>) }
      else Some s)"

definition dudp_strategy ::
  "dudp_config \<Rightarrow> build \<Rightarrow> ('s, 'z) network_scheme \<Rightarrow> nat \<Rightarrow> ('s dual_udp \<Rightarrow> nat \<Rightarrow> u8 list)
     \<Rightarrow> 's dual_udp option strategy" where
  "dudp_strategy c b nw fuel old =
     \<lparr> pf_micros = lift_call 0 (\<lambda>s. Some (ul_in (pf_micros nw) s)),
       pf_delay = (\<lambda>ms. map_option (ul_on (pf_delay nw ms))),
       pf_random = (\<lambda>n. lift_call 0 (\<lambda>s. Some (ul_in (pf_random nw n) s))),
       pf_random_seed = (\<lambda>n. map_option (ul_on (pf_random_seed nw n))),
       pf_analog_read = (\<lambda>p. lift_call 0 (\<lambda>s. Some (ul_in (pf_analog_read nw p) s))),
       st_begin = (\<lambda>did. lift_call False (\<lambda>s. Some (dudp_begin c nw s))),
       st_back_off = (\<lambda>attempts. lift_call 0 (\<lambda>s. Some (dudp_back_off nw attempts s))),
       st_can_start = lift_call False (\<lambda>s. Some (dudp_can_start c nw s)),
       st_max_attempts = dc_max_retries c,
       st_receive_time = uc_receive_time c,
       st_handle_collision = (\<lambda>s. s),
       st_receive_frame = (\<lambda>n s. case lift_call (0, []) (\<lambda>s. dudp_receive_frame c b nw (old s (unat n)) n s) s of
                                   ((r, bs), s) \<Rightarrow> (r, bs, s)),
       st_receive_response = lift_call PJON_FAIL (\<lambda>s. dudp_receive_response c b nw fuel (old s 10) s),
       st_send_response = (\<lambda>r. lift_update (dudp_send_response nw (ucast r))),
       st_send_frame = (\<lambda>data. lift_update (dudp_send_frame c b nw data)) \<rparr>"

lemma dudp_receive_frame_fits:
  "dudp_receive_frame c b nw old n s = Some ((r, bs), s') \<Longrightarrow> length bs \<le> unat n"
  using udp_receive_frame_fits [of nw n "ul_udp s"]
  by (auto simp: dudp_receive_frame_def Let_def split: prod.splits if_splits elim!: bind_SomeE)

interpretation dudp: bounded_strategy "dudp_strategy c b nw fuel old" "\<lambda>_. True" for c b nw fuel old
proof (unfold_locales, goal_cases)
  case (1 s n r bs s')
  then show ?case using dudp_receive_frame_fits [of c b nw _ n]
    by (auto simp: dudp_strategy_def lift_call_def split: prod.splits option.splits elim!: bind_SomeE)
qed simp_all

end
