(* ===== verification/Udp_Laws.thy ===== *)
theory Udp_Laws
  imports Dual_Udp
begin

text \<open>
  What the strategies over datagrams learn from the datagrams they receive, and what a datagram can do to
  a device that waits for a response.
\<close>

subsection \<open>Transport\<close>

text \<open>
  The magic header costs four bytes and a datagram that fills the destination is refused: a frame is
  received if five bytes of the destination stay free, and never otherwise.
\<close>

lemma udp_frame_received_iff:
  assumes "ud_open u" and "length (ud_magic u) = 4" and "data \<noteq> []"
    and "nw_recvfrom nw (unat n) (ud_world u) = (Some (ud_magic u @ data, src), w)"
  shows "(\<exists>bs. udp_receive_frame nw n u
            = ((of_nat (length data), data @ bs), u\<lparr> ud_world := w, ud_sender := src \<rparr>)) \<longleftrightarrow>
         length data + 4 < unat n"
proof (cases "length data + 4 < unat n")
  case True
  then show ?thesis using assms by (simp add: udp_receive_frame_def ud_in_def Let_def)
next
  case False
  then have "udp_receive_frame nw n u = ((0, take (unat n) (ud_magic u @ data)), u\<lparr> ud_world := w \<rparr>)"
    using assms by (simp add: udp_receive_frame_def ud_in_def Let_def min_def)
  moreover have "\<not> (\<exists>bs. take (unat n) (ud_magic u @ data) = data @ bs \<and> of_nat (length data) = (0 :: u16))"
  proof
    assume "\<exists>bs. take (unat n) (ud_magic u @ data) = data @ bs \<and> of_nat (length data) = (0 :: u16)"
    then obtain bs where a: "take (unat n) (ud_magic u @ data) = data @ bs" "of_nat (length data) = (0 :: u16)" by blast
    from arg_cong [OF a(1), of length] have "length data \<le> unat n" by simp
    then have "length data < 65536" using unsigned_less [of n, where 'a = nat] by simp
    then show False using a(2) assms(3) by (auto simp: word_unat_eq_iff unat_of_nat)
  qed
  ultimately show ?thesis using False by auto
qed

subsection \<open>The tables of nodes\<close>

lemma find_remote_node_Some:
  "find_remote_node x ns = Some i \<Longrightarrow> i < length ns \<and> rn_id (ns ! i) = x"
  by (induction x ns arbitrary: i rule: find_remote_node.induct) (auto split: if_splits)

lemma find_remote_node_append:
  "find_remote_node x (ns @ [n]) =
     (case find_remote_node x ns of Some i \<Rightarrow> Some i | None \<Rightarrow> if rn_id n = x then Some (length ns) else None)"
  by (induction x ns rule: find_remote_node.induct) (auto split: option.splits)

lemma find_remote_node_update:
  "i < length ns \<Longrightarrow> rn_id n = rn_id (ns ! i) \<Longrightarrow> find_remote_node x (ns[i := n]) = find_remote_node x ns"
  by (induction x ns arbitrary: i rule: find_remote_node.induct) (auto split: nat.splits)

text \<open>Where a frame for a device goes.\<close>

definition node_address :: "u8 \<Rightarrow> 'z remote_node_scheme list \<Rightarrow> (u8 list \<times> u16) option" where
  "node_address x ns = map_option (\<lambda>i. (rn_ip (ns ! i), rn_port (ns ! i))) (find_remote_node x ns)"

lemma node_address_append:
  "find_remote_node (rn_id n) ns = None \<Longrightarrow>
   node_address x (ns @ [n]) = (if x = rn_id n then Some (rn_ip n, rn_port n) else node_address x ns)"
  by (auto simp: node_address_def find_remote_node_append nth_append dest: find_remote_node_Some split: option.splits)

lemma node_address_update:
  assumes "find_remote_node (rn_id n) ns = Some i"
  shows "node_address x (ns[i := n]) = (if x = rn_id n then Some (rn_ip n, rn_port n) else node_address x ns)"
proof -
  have i: "i < length ns" "rn_id (ns ! i) = rn_id n" using find_remote_node_Some [OF assms] by auto
  have "j \<noteq> i" if "find_remote_node x ns = Some j" "x \<noteq> rn_id n" for j
    using find_remote_node_Some [OF that(1)] that(2) i by auto
  then show ?thesis using assms i
    by (cases "find_remote_node x ns") (auto simp: node_address_def find_remote_node_update)
qed

subsection \<open>GlobalUDP\<close>

lemma gudp_send_frame_address:
  "x \<noteq> 0 \<Longrightarrow> gudp_send_frame nw (x # rest) s =
     (case node_address x (gu_nodes s) of None \<Rightarrow> Some s
      | Some (ip, port) \<Rightarrow> ul_send (udp_send_frame_to nw (x # rest) ip port) s)"
  by (simp add: gudp_send_frame_def node_address_def split: option.splits)

lemma gudp_autoregister_address:
  assumes "gudp_autoregister_sender c b message len s = Some s'" and "gu_auto_registration s" and "4 < len"
    and "parse_header b message = Some info" and "ep_id (pi_tx info) \<noteq> 0"
    and "find_remote_node (ep_id (pi_tx info)) (gu_nodes s) = None \<Longrightarrow>
         length (gu_nodes s) \<noteq> uc_max_remote_nodes c"
  shows "node_address x (gu_nodes s') =
      (if x = ep_id (pi_tx info) then Some (udp_get_sender (ul_udp s)) else node_address x (gu_nodes s))"
    and "ul_udp s' = ul_udp s"
  using assms
  by (auto simp: gudp_autoregister_sender_def gudp_add_node_def Let_def node_address_append node_address_update
      find_remote_node_Some case_prod_unfold split: option.splits)

text \<open>GlobalUDP learns its senders: after a frame whose header names a sender, the next frame for this
  device is directed to the address the datagram came from, and the routes of all other devices stay as they
  were, provided the sender is known or the table has room.\<close>

theorem gudp_learns:
  assumes "gudp_receive_frame c b nw old n s = Some ((len, bs), s')"
    and "len \<noteq> PJON_FAIL" and "4 < len" and "gu_auto_registration s"
    and "parse_header b (bs @ drop (length bs) old) = Some info" and "ep_id (pi_tx info) \<noteq> 0"
    and "node_address (ep_id (pi_tx info)) (gu_nodes s) \<noteq> None \<or> length (gu_nodes s) \<noteq> uc_max_remote_nodes c"
  shows "gudp_send_frame nw (ep_id (pi_tx info) # rest) s'
           = ul_send (udp_send_frame_to nw (ep_id (pi_tx info) # rest) (sa_ip (ud_sender (ul_udp s')))
                        (sa_port (ud_sender (ul_udp s')))) s'
       \<and> (x \<noteq> ep_id (pi_tx info) \<longrightarrow> node_address x (gu_nodes s') = node_address x (gu_nodes s))"
proof -
  obtain u where u: "gudp_autoregister_sender c b (bs @ drop (length bs) old) len (s\<lparr> ul_udp := u \<rparr>) = Some s'"
    using assms(1,2) by (auto simp: gudp_receive_frame_def Let_def split: prod.splits if_splits elim!: bind_SomeE)
  have k: "find_remote_node (ep_id (pi_tx info)) (gu_nodes (s\<lparr> ul_udp := u \<rparr>)) = None \<Longrightarrow>
      length (gu_nodes (s\<lparr> ul_udp := u \<rparr>)) \<noteq> uc_max_remote_nodes c"
    using assms(7) by (auto simp: node_address_def)
  have a: "gu_auto_registration (s\<lparr> ul_udp := u \<rparr>)" using assms(4) by simp
  note r = gudp_autoregister_address [OF u a assms(3,5,6) k]
  show ?thesis
    using r(1) [of x] r(1) [of "ep_id (pi_tx info)"] r(2) assms(6)
    by (simp add: gudp_send_frame_address udp_get_sender_def)
qed

definition sample_net :: "((u8 list \<times> sock_addr) option) network" where
  "sample_net =
     \<lparr> pf_micros = (\<lambda>w. (0, w)), pf_delay = (\<lambda>ms w. w), pf_random = (\<lambda>n w. (0, w)),
       pf_random_seed = (\<lambda>n w. w), pf_analog_read = (\<lambda>p w. (0, w)), nw_millis = (\<lambda>w. (0, w)),
       nw_close = (\<lambda>w. w), nw_socket = (\<lambda>w. (True, w)), nw_set_timeout = (\<lambda>w. w),
       nw_bind = (\<lambda>p w. (True, w)), nw_allow_broadcast = (\<lambda>w. (True, w)), nw_recvfrom = (\<lambda>n w. (w, None)),
       nw_sendto = (\<lambda>d a w. w) \<rparr>"

lemma sample_net_simps [simp]:
  "pf_micros sample_net w = (0, w)" "nw_millis sample_net w = (0, w)" "nw_recvfrom sample_net n w = (w, None)"
  "nw_sendto sample_net d a w = w"
  by (simp_all add: sample_net_def)

text \<open>A datagram from port 7000 of 10.0.0.9: the device 44 to the device 12.\<close>

definition sample_datagram :: "u8 list \<times> sock_addr" where
  "sample_datagram =
     ([0x0D, 0xFA, 0xC3, 0xFF, 12, 2, 7, 0, 44, 64, 0], \<lparr> sa_ip = [10, 0, 0, 9], sa_port = 7000 \<rparr>)"

definition sample_link :: "'s \<Rightarrow> u8 list \<Rightarrow> 's udp" where
  "sample_link w magic = (new_udp w)\<lparr> ud_open := True, ud_magic := magic \<rparr>"

lemma gudp_learns_witness:
  "\<exists>s'. gudp_send_frame sample_net [44, 6, 6, 6, 6] s'
     = ul_send (udp_send_frame_to sample_net [44, 6, 6, 6, 6] [10, 0, 0, 9] 7000) s'"
proof -
  define s where "s = (new_global_udp (Some sample_datagram))\<lparr> ul_udp := sample_link (Some sample_datagram) [0x0D, 0xFA, 0xC3, 0xFF] \<rparr>"
  define u where "u = (sample_link (None :: (u8 list \<times> sock_addr) option) [0x0D, 0xFA, 0xC3, 0xFF])\<lparr> ud_sender := snd sample_datagram \<rparr>"
  define bs :: "u8 list" where "bs = [12, 2, 7, 0, 44, 64, 0, 0, 44, 64, 0]"
  have p: "parse_header default_build (bs @ drop (length bs) [])
      = Some (new_packet_info\<lparr> pi_rx := new_endpoint\<lparr> ep_id := 12 \<rparr>, pi_header := 2,
                               pi_tx := new_endpoint\<lparr> ep_id := 44 \<rparr> \<rparr>)"
    by (simp add: parse_header_def bs_def rd_def flag_def const_defs parse_bus_ids_def fetch_when_def
        rd_block_def new_packet_info_def)
  have r: "udp_receive_frame sample_net 50 (ul_udp s) = ((7, bs), u)"
    by (simp add: s_def u_def bs_def udp_receive_frame_def ud_in_def sample_link_def new_udp_def sample_datagram_def Let_def)
  have "gudp_receive_frame gudp_config default_build sample_net [] 50 s
      = Some ((7, bs), s\<lparr> ul_udp := u, gu_nodes := [\<lparr> rn_id = 44, rn_ip = [10, 0, 0, 9], rn_port = 7000 \<rparr>] \<rparr>)"
    using p r
    by (simp add: gudp_receive_frame_def gudp_autoregister_sender_def gudp_add_node_def gudp_config_def s_def
        u_def new_global_udp_def udp_get_sender_def sample_datagram_def PJON_FAIL_def new_packet_info_def new_endpoint_def)
  from gudp_learns [OF this, of _ "[6, 6, 6, 6]" 0] p show ?thesis
    by (auto simp: PJON_FAIL_def s_def u_def new_global_udp_def new_packet_info_def new_endpoint_def node_address_def
        gudp_config_def sample_datagram_def)
qed

subsection \<open>DualUDP\<close>

lemma dudp_add_node_address:
  "length (du_nodes s) \<noteq> uc_max_remote_nodes c \<Longrightarrow>
   \<exists>k. dudp_add_node c x ip port s = (Some (length (du_nodes s)),
     s\<lparr> du_unremovable_node_count := k,
        du_nodes := du_nodes s @ [\<lparr> rn_id = x, rn_ip = ip, rn_port = port, dn_attempts = 0 \<rparr>] \<rparr>)"
  by (auto simp: dudp_add_node_def Let_def intro: exI [of _ "du_unremovable_node_count s"])

lemma dudp_autoregister_address:
  assumes "du_auto_registration s" and "du_last_in_sender_id s \<noteq> 0"
    and "node_address (du_last_in_sender_id s) (du_nodes s) \<noteq> None \<or> length (du_nodes s) \<noteq> uc_max_remote_nodes c"
  shows "\<exists>i k ns. dudp_autoregister_sender c s = (Some i, s\<lparr> du_unremovable_node_count := k, du_nodes := ns \<rparr>) \<and>
     find_remote_node (du_last_in_sender_id s) ns = Some i \<and> i < length ns \<and>
     rn_ip (ns ! i) = du_last_in_sender_ip s \<and> rn_port (ns ! i) = du_last_in_sender_port s"
proof (cases "find_remote_node (du_last_in_sender_id s) (du_nodes s)")
  case None
  then have "length (du_nodes s) \<noteq> uc_max_remote_nodes c" using assms(3) by (simp add: node_address_def)
  from dudp_add_node_address [OF this, of "du_last_in_sender_id s" "du_last_in_sender_ip s" "du_last_in_sender_port s"]
  obtain k where "dudp_add_node c (du_last_in_sender_id s) (du_last_in_sender_ip s) (du_last_in_sender_port s) s
      = (Some (length (du_nodes s)), s\<lparr> du_unremovable_node_count := k,
          du_nodes := du_nodes s @ [\<lparr> rn_id = du_last_in_sender_id s, rn_ip = du_last_in_sender_ip s,
            rn_port = du_last_in_sender_port s, dn_attempts = 0 \<rparr>] \<rparr>)" by blast
  then show ?thesis
    using None assms(1,2)
    by (intro exI [of _ "length (du_nodes s)"] exI [of _ k]
        exI [of _ "du_nodes s @ [\<lparr> rn_id = du_last_in_sender_id s, rn_ip = du_last_in_sender_ip s,
                                  rn_port = du_last_in_sender_port s, dn_attempts = 0 \<rparr>]"])
      (simp add: dudp_autoregister_sender_def find_remote_node_append)
next
  case (Some i)
  let ?n = "(du_nodes s ! i)\<lparr> rn_ip := du_last_in_sender_ip s, rn_port := du_last_in_sender_port s \<rparr>"
  have i: "i < length (du_nodes s)" "rn_id (du_nodes s ! i) = du_last_in_sender_id s"
    using find_remote_node_Some [OF Some] by auto
  then show ?thesis
    using Some assms(1,2)
    by (intro exI [of _ i] exI [of _ "du_unremovable_node_count s"] exI [of _ "(du_nodes s)[i := ?n]"])
      (simp add: dudp_autoregister_sender_def find_remote_node_update)
qed

lemma dudp_acknowledged:
  assumes "dudp_response_round c b nw result s = Some (Some code, result', s')"
    and "du_auto_registration s" and "du_last_in_sender_id s' \<noteq> 0"
    and "node_address (du_last_in_sender_id s') (du_nodes s) \<noteq> None \<or> length (du_nodes s) \<noteq> uc_max_remote_nodes c"
  shows "\<exists>i. find_remote_node (du_last_in_sender_id s') (du_nodes s') = Some i \<and>
     rn_ip (du_nodes s' ! i) = sa_ip (ud_sender (ul_udp s')) \<and>
     rn_port (du_nodes s' ! i) = sa_port (ud_sender (ul_udp s')) \<and> dn_attempts (du_nodes s' ! i) = 0"
proof -
  obtain bs u where u: "udp_receive_frame nw 10 (ul_udp s) = ((3, bs), u)"
    using assms(1)
    by (auto simp: dudp_response_round_def dudp_receive_frame_def Let_def split: prod.splits if_splits elim!: bind_SomeE)
  let ?r = "bs @ drop (length bs) result"
  define s0 where "s0 = s\<lparr> ul_udp := u, du_last_in_sender_ip := sa_ip (ud_sender u),
      du_last_in_sender_port := sa_port (ud_sender u), du_last_in_receiver_id := ?r ! 0,
      du_last_in_sender_id := ?r ! 1 \<rparr>"
  have rr: "(case dudp_autoregister_sender c s0 of (pos, s) \<Rightarrow>
      (case pos of None \<Rightarrow> s | Some pos \<Rightarrow>
         s\<lparr> du_nodes := (du_nodes s)[pos := (du_nodes s ! pos)\<lparr> dn_attempts := 0 \<rparr>] \<rparr>)) = s'"
    using assms(1) u
    by (auto simp: dudp_response_round_def dudp_receive_frame_def udp_get_sender_def PJON_FAIL_def Let_def s0_def
        split: prod.splits if_splits)
  have id: "du_last_in_sender_id (snd (dudp_autoregister_sender c s0)) = du_last_in_sender_id s0"
    by (auto simp: dudp_autoregister_sender_def dudp_add_node_def Let_def split: option.splits)
  then have y: "du_last_in_sender_id s' = du_last_in_sender_id s0"
    using rr by (auto split: prod.splits option.splits)
  have pre: "du_auto_registration s0" "du_last_in_sender_id s0 \<noteq> 0"
    "node_address (du_last_in_sender_id s0) (du_nodes s0) \<noteq> None \<or> length (du_nodes s0) \<noteq> uc_max_remote_nodes c"
    using assms(2,3,4) y by (simp_all add: s0_def)
  from dudp_autoregister_address [OF pre] obtain i k ns where
    r: "dudp_autoregister_sender c s0 = (Some i, s0\<lparr> du_unremovable_node_count := k, du_nodes := ns \<rparr>)"
    "find_remote_node (du_last_in_sender_id s0) ns = Some i" "i < length ns"
    "rn_ip (ns ! i) = du_last_in_sender_ip s0" "rn_port (ns ! i) = du_last_in_sender_port s0" by blast
  have s': "s' = s0\<lparr> du_unremovable_node_count := k, du_nodes := ns[i := (ns ! i)\<lparr> dn_attempts := 0 \<rparr>] \<rparr>"
    using rr r(1) by simp
  then show ?thesis using r(2-5) y by (simp add: find_remote_node_update s0_def)
qed

text \<open>C31. From broadcast to directed communication: after the acknowledgement of a device, the next frame
  for it is not broadcast but sent to the address the acknowledgement came from, as the first attempt since
  then, provided the device is known or the table has room.\<close>

theorem dudp_goes_direct:
  assumes "dudp_response_round c b nw result s = Some (Some code, result', s')"
    and "du_auto_registration s" and "du_last_in_sender_id s' \<noteq> 0"
    and "node_address (du_last_in_sender_id s') (du_nodes s) \<noteq> None \<or> length (du_nodes s) \<noteq> uc_max_remote_nodes c"
    and "4 < length data" and "parse_header b data = Some info"
    and "ep_id (pi_rx info) = du_last_in_sender_id s'"
    and "dudp_send_frame c b nw data s' = Some s''"
  shows "\<not> dudp_did_broadcast s'' \<and> ud_receiver (ul_udp s'') = ud_sender (ul_udp s') \<and>
         (\<exists>i. find_remote_node (du_last_in_sender_id s') (du_nodes s'') = Some i \<and> dn_attempts (du_nodes s'' ! i) = 1)"
proof -
  from dudp_acknowledged [OF assms(1-4)] obtain i where
    i: "find_remote_node (du_last_in_sender_id s') (du_nodes s') = Some i"
    "rn_ip (du_nodes s' ! i) = sa_ip (ud_sender (ul_udp s'))"
    "rn_port (du_nodes s' ! i) = sa_port (ud_sender (ul_udp s'))" "dn_attempts (du_nodes s' ! i) = 0" by blast
  define s1 where "s1 = s'\<lparr> du_did_broadcast := False, du_packet_info := info,
      du_last_out_receiver_id := ep_id (pi_rx info), du_last_out_sender_id := ep_id (pi_tx info) \<rparr>"
  have l: "dudp_locate c s1 = Some (Some i, s1)"
    using i(1,4) assms(3,7) by (simp add: dudp_locate_def s1_def)
  have n: "i < length (du_nodes s')" "rn_id (du_nodes s' ! i) = du_last_in_sender_id s'"
    using find_remote_node_Some [OF i(1)] by auto
  obtain u t where u: "udp_send_frame_to nw data (rn_ip (du_nodes s' ! i)) (rn_port (du_nodes s' ! i)) (ul_udp s') = Some u"
    "s'' = snd (ul_in (nw_millis nw) (s1\<lparr> ul_udp := u,
        du_nodes := (du_nodes s')[i := (du_nodes s' ! i)\<lparr> dn_attempts := dn_attempts (du_nodes s' ! i) + 1 \<rparr>] \<rparr>))
        \<lparr> du_last_out_time := t \<rparr>"
    using assms(5,6,8) l
    by (auto simp: dudp_send_frame_def Let_def s1_def ul_send_def case_prod_unfold elim!: bind_SomeE)
  have a: "ud_receiver u = ud_sender (ul_udp s')"
    using u(1) i(2,3) by (auto simp: udp_send_frame_to_def udp_send_to_def ud_on_def Let_def split: if_splits)
  have "find_remote_node (du_last_in_sender_id s')
      ((du_nodes s')[i := (du_nodes s' ! i)\<lparr> dn_attempts := 1 \<rparr>]) = Some i"
    using i(1) n by (simp add: find_remote_node_update)
  then show ?thesis
    using u(2) a n i(4)
    by (simp add: dudp_did_broadcast_def ul_in_def ud_in_def case_prod_unfold Let_def s1_def)
qed

text \<open>An acknowledgement from the device 44 for the device 12.\<close>

definition sample_ack :: "u8 list \<times> sock_addr" where
  "sample_ack = ([0x0E, 0xFA, 0x23, 0xFF, 12, 44, 6], \<lparr> sa_ip = [10, 0, 0, 9], sa_port = 7500 \<rparr>)"

lemma dudp_goes_direct_witness:
  "\<exists>s' s''. dudp_send_frame dudp_config default_build sample_net [44, 2, 7, 0, 12, 64, 0] s' = Some s'' \<and>
     \<not> dudp_did_broadcast s'' \<and> ud_receiver (ul_udp s'') = \<lparr> sa_ip = [10, 0, 0, 9], sa_port = 7500 \<rparr>"
proof -
  define magic :: "u8 list" where "magic = [0x0E, 0xFA, 0x23, 0xFF]"
  define s where "s = (new_dual_udp [0, 0, 0, 0] (Some sample_ack))\<lparr> ul_udp := sample_link (Some sample_ack) magic,
      du_last_out_sender_id := 12 \<rparr>"
  define u where "u = (sample_link (None :: (u8 list \<times> sock_addr) option) magic)\<lparr> ud_sender := snd sample_ack \<rparr>"
  define data :: "u8 list" where "data = [44, 2, 7, 0, 12, 64, 0]"
  have r: "udp_receive_frame sample_net 10 (ul_udp s) = ((3, [12, 44, 6, 0xFF, 12, 44, 6]), u)"
    by (simp add: s_def u_def udp_receive_frame_def ud_in_def sample_link_def new_udp_def sample_ack_def magic_def Let_def)
  obtain s' result' where s': "dudp_response_round dudp_config default_build sample_net (replicate 10 0) s = Some (Some 6, result', s')"
    "du_last_in_sender_id s' = 44" "ul_udp s' = u"
    using r by (simp add: dudp_response_round_def dudp_receive_frame_def udp_get_sender_def PJON_FAIL_def PJON_ACK_def
        dudp_autoregister_sender_def dudp_add_node_def dudp_config_def s_def new_dual_udp_def Let_def)
  have p: "parse_header default_build data
      = Some (new_packet_info\<lparr> pi_rx := new_endpoint\<lparr> ep_id := 44 \<rparr>, pi_header := 2,
                               pi_tx := new_endpoint\<lparr> ep_id := 12 \<rparr> \<rparr>)"
    by (simp add: data_def parse_header_def rd_def flag_def const_defs parse_bus_ids_def fetch_when_def
        rd_block_def new_packet_info_def)
  have pre: "du_auto_registration s" "du_last_in_sender_id s' \<noteq> 0"
    "node_address (du_last_in_sender_id s') (du_nodes s) \<noteq> None \<or> length (du_nodes s) \<noteq> uc_max_remote_nodes dudp_config"
    using s'(2) by (simp_all add: s_def new_dual_udp_def dudp_config_def)
  obtain i where i: "find_remote_node 44 (du_nodes s') = Some i" "dn_attempts (du_nodes s' ! i) = 0"
    using dudp_acknowledged [OF s'(1) pre] s'(2) by auto
  have l: "4 < length data" "ep_id (pi_rx (new_packet_info\<lparr> pi_rx := new_endpoint\<lparr> ep_id := 44 \<rparr>, pi_header := 2,
      pi_tx := new_endpoint\<lparr> ep_id := 12 \<rparr> \<rparr>)) = du_last_in_sender_id s'"
    using s'(2) by (simp_all add: data_def)
  obtain s'' where s'': "dudp_send_frame dudp_config default_build sample_net data s' = Some s''"
    using p i l(1) s'(2,3)
    by (simp add: dudp_send_frame_def dudp_locate_def ul_send_def udp_send_frame_to_def udp_send_to_def u_def
        sample_link_def ud_on_def data_def Let_def case_prod_unfold)
  from dudp_goes_direct [OF s'(1) pre l(1) p l(2) s''] show ?thesis
    using s'' s'(3) by (auto simp: u_def sample_ack_def data_def)
qed

text \<open>Memory safety of the wait for a response fails: the response is received into an array of 10 bytes
  and its header is parsed whenever more than four bytes came.  A datagram of nine bytes whose header announces
  bus ids and an extended length makes the parser read beyond the array.\<close>

theorem dudp_response_overread:
  assumes "ud_open (ul_udp s)" and "length (ud_magic (ul_udp s)) = 4" and "length result = 10" and "\<not> pjon_local b"
    and "pf_micros nw (ud_world (ul_udp s)) = (t, w)"
    and "nw_recvfrom nw 10 w = (Some (ud_magic (ul_udp s) @ [x, h, y1, y2, y3], src), w')"
    and "flag h PJON_MODE_BIT" and "flag h PJON_TX_INFO_BIT" and "flag h PJON_EXT_LEN_BIT"
  shows "dudp_receive_response c b nw fuel result s = None"
proof (cases fuel)
  case (Suc k)
  let ?s = "s\<lparr> ul_udp := (ul_udp s)\<lparr> ud_world := w \<rparr> \<rparr>"
  let ?bs = "[x, h, y1, y2, y3] @ drop 5 (ud_magic (ul_udp s) @ [x, h, y1, y2, y3])"
  have r: "udp_receive_frame nw 10 (ul_udp ?s)
      = ((5, ?bs), (ul_udp s)\<lparr> ud_world := w', ud_sender := src \<rparr>)"
    using assms(1,2,6) by (simp add: udp_receive_frame_def ud_in_def Let_def)
  have "parse_header b (?bs @ drop (length ?bs) result) = None"
    using assms(2-4,7-9) by (simp add: parse_header_def parse_bus_ids_def fetch_when_def rd_def rd_block_def)
  then have "dudp_response_round c b nw result ?s = None"
    using r by (simp add: dudp_response_round_def dudp_receive_frame_def PJON_FAIL_def Let_def case_prod_unfold)
  then show ?thesis
    using assms(5) Suc by (simp add: dudp_receive_response_def ul_in_def ud_in_def)
qed (simp add: dudp_receive_response_def case_prod_unfold Let_def)

lemma dudp_response_overread_witness:
  "dudp_receive_response dudp_config default_build sample_net 5 (replicate 10 0)
     ((new_dual_udp [0, 0, 0, 0] None)\<lparr> ul_udp :=
        sample_link (Some ([0x0E, 0xFA, 0x23, 0xFF] @ [12, 0x43, 0, 0, 0], no_addr)) [0x0E, 0xFA, 0x23, 0xFF] \<rparr>) = None"
  by (rule dudp_response_overread [of _ _ _ _ _ _ 12 "0x43" 0 0 0])
    (simp_all add: sample_link_def new_udp_def flag_def const_defs)

end
