(* ===== verification/Local_File.thy ===== *)
theory Local_File
  imports Pins
begin

text \<open>
  \<^verbatim>\<open>src/strategies/LocalFile\<close>: the devices of one machine share a file that holds the last packets in a
  ring of slots.  The file is a counter (the id of the newest record), an index with the id of the record
  in every slot, and the records; the positions the code seeks are the places of these three parts.
  Locking makes every operation atomic (\<open>File_Lock_Laws\<close>), so an operation is a function on the file.  What the operating
  system does when the file is opened is a parameter.
\<close>

subsection \<open>The file and the object\<close>

record lf_record =
  lf_length :: u16
  lf_message :: "u8 list"

definition empty_record :: "build \<Rightarrow> lf_record" where
  "empty_record b = \<lparr> lf_length = 0, lf_message = replicate (packet_max_length b) 0 \<rparr>"

record lf_file =
  lf_last :: u16
  lf_index :: "u16 list"
  lf_records :: "lf_record list"

record lf_config =
  lf_queue_size :: nat
  lf_poll_delay :: u32
  lf_receive_time :: u16

text \<open>The outside world: the file, if it exists, whether the system lets it be opened, and the platform.\<close>

record 's lf_world = "'s platform" +
  lw_file :: "'s \<Rightarrow> lf_file option"
  lw_put :: "lf_file \<Rightarrow> 's \<Rightarrow> 's"
  lw_open :: "bool \<Rightarrow> 's \<Rightarrow> bool \<times> 's"

record 's local_file =
  lf_open :: bool
  lf_last_read :: u16
  lf_last_send_result :: u16
  lf_state :: 's

definition new_local_file :: "'s \<Rightarrow> 's local_file" where
  "new_local_file world =
     \<lparr> lf_open = False, lf_last_read = 0, lf_last_send_result = PJON_ACK, lf_state = world \<rparr>"

subsection \<open>Opening\<close>

definition lf_do_open :: "('s, 'z) lf_world_scheme \<Rightarrow> bool \<Rightarrow> 's local_file \<Rightarrow> 's local_file" where
  "lf_do_open lw create s =
     (if lf_open s then s
      else let (opened, w) = lw_open lw create (lf_state s) in s\<lparr> lf_open := opened, lf_state := w \<rparr>)"

definition lf_open_content_file ::
  "lf_config \<Rightarrow> build \<Rightarrow> ('s, 'z) lf_world_scheme \<Rightarrow> 's local_file \<Rightarrow> bool \<times> 's local_file" where
  "lf_open_content_file c b lw s =
     (if lf_open s then (True, s)
      else let s = (if lw_file lw (lf_state s) = None
                    then let s = lf_do_open lw True s in
                         if lf_open s
                         then s\<lparr> lf_state := lw_put lw
                                \<lparr> lf_last = 0, lf_index = replicate (lf_queue_size c) 0,
                                  lf_records = replicate (lf_queue_size c) (empty_record b) \<rparr> (lf_state s) \<rparr>
                         else s
                    else s);
               s = (if \<not> lf_open s then lf_do_open lw False s else s)
           in (True, s))"

definition lf_close_content_file :: "'s local_file \<Rightarrow> 's local_file" where
  "lf_close_content_file s = (if lf_open s then s\<lparr> lf_open := False \<rparr> else s)"

subsection \<open>The ring\<close>

text \<open>The slot never used, or the one with the oldest record: the greatest distance to the newest one.\<close>

fun lf_reusable_loop :: "u16 \<Rightarrow> u16 list \<Rightarrow> u8 \<Rightarrow> u16 \<Rightarrow> u8 \<Rightarrow> u8" where
  "lf_reusable_loop last_record_id [] i max_diff pos = pos"
| "lf_reusable_loop last_record_id (x # xs) i max_diff pos =
     (if x = 0 then i
      else let diff = last_record_id - x in
           if diff > max_diff then lf_reusable_loop last_record_id xs (i + 1) diff i
           else lf_reusable_loop last_record_id xs (i + 1) max_diff pos)"

definition find_reusable_position :: "u16 \<Rightarrow> u16 list \<Rightarrow> u8" where
  "find_reusable_position last_record_id index = lf_reusable_loop last_record_id index 0 0 PJON_NOT_ASSIGNED"

text \<open>The oldest record that is newer than the last one read: the least distance from it.\<close>

fun lf_unread_loop :: "u16 \<Rightarrow> u16 list \<Rightarrow> u8 \<Rightarrow> u16 \<Rightarrow> u8 \<Rightarrow> u8" where
  "lf_unread_loop last_read [] i min_diff pos = pos"
| "lf_unread_loop last_read (x # xs) i min_diff pos =
     (if x = 0 \<or> x = last_read then lf_unread_loop last_read xs (i + 1) min_diff pos
      else let diff = x - last_read in
           if diff < 0x8FFF \<and> diff < min_diff then lf_unread_loop last_read xs (i + 1) diff i
           else lf_unread_loop last_read xs (i + 1) min_diff pos)"

definition find_next_unread_position ::
  "lf_config \<Rightarrow> u16 \<Rightarrow> u16 list \<Rightarrow> 's local_file \<Rightarrow> u8 \<times> 's local_file" where
  "find_next_unread_position c last_record_id index s =
     (let s = (if lf_last_read s = 0 then s\<lparr> lf_last_read := last_record_id - of_nat (lf_queue_size c) \<rparr> else s)
      in if last_record_id = lf_last_read s then (PJON_NOT_ASSIGNED, s)
         else (lf_unread_loop (lf_last_read s) index 0 0xFFFF PJON_NOT_ASSIGNED, s))"

text \<open>The id of the next record: 0 marks an unused slot and is skipped.\<close>

definition lf_next_id :: "u16 \<Rightarrow> u16" where
  "lf_next_id last_record_id = (let n = last_record_id + 1 in if n = 0 then 1 else n)"

definition lf_update_index :: "u16 \<Rightarrow> nat \<Rightarrow> lf_file \<Rightarrow> lf_file" where
  "lf_update_index record_id index_pos f =
     f\<lparr> lf_last := record_id, lf_index := (lf_index f)[index_pos := record_id] \<rparr>"

definition lf_write_packet :: "lf_record \<Rightarrow> lf_file \<Rightarrow> bool \<times> lf_file" where
  "lf_write_packet r f =
     (let pos = find_reusable_position (lf_last f) (lf_index f) in
      if pos \<noteq> PJON_NOT_ASSIGNED
      then let f = f\<lparr> lf_records := (lf_records f)[unat pos := r] \<rparr>
           in (True, lf_update_index (lf_next_id (lf_last f)) (unat pos) f)
      else (False, f))"

text \<open>A read or a write on a file that is not open does nothing, and the index read is arbitrary.\<close>

definition lf_write_packet_to_file ::
  "('s, 'z) lf_world_scheme \<Rightarrow> lf_record \<Rightarrow> 's local_file \<Rightarrow> (bool \<times> 's local_file) option" where
  "lf_write_packet_to_file lw r s =
     (if lf_open s
      then (case lw_file lw (lf_state s) of
              None \<Rightarrow> None
            | Some f \<Rightarrow> let (success, f) = lf_write_packet r f
                        in Some (success, s\<lparr> lf_state := lw_put lw f (lf_state s) \<rparr>))
      else None)"

definition lf_read_packet ::
  "lf_config \<Rightarrow> lf_file \<Rightarrow> 's local_file \<Rightarrow> lf_record option \<times> 's local_file" where
  "lf_read_packet c f s =
     (if lf_last f \<noteq> 0
      then let (pos, s) = find_next_unread_position c (lf_last f) (lf_index f) s in
           if pos \<noteq> PJON_NOT_ASSIGNED
           then (Some (lf_records f ! unat pos), s\<lparr> lf_last_read := lf_index f ! unat pos \<rparr>)
           else (None, s)
      else (None, s))"

definition lf_read_next_packet ::
  "lf_config \<Rightarrow> ('s, 'z) lf_world_scheme \<Rightarrow> 's local_file \<Rightarrow> (lf_record option \<times> 's local_file) option" where
  "lf_read_next_packet c lw s =
     (if lf_open s
      then map_option (\<lambda>f. lf_read_packet c f s) (lw_file lw (lf_state s))
      else None)"

subsection \<open>The members of the strategy\<close>

definition lf_back_off :: "u8 \<Rightarrow> u32" where
  "lf_back_off attempts = 1000 * ucast attempts"

definition lf_begin :: "lf_config \<Rightarrow> build \<Rightarrow> ('s, 'z) lf_world_scheme \<Rightarrow> u8 \<Rightarrow> 's local_file \<Rightarrow> bool \<times> 's local_file" where
  "lf_begin c b lw did s = lf_open_content_file c b lw s"

definition lf_handle_collision :: "('s, 'z) lf_world_scheme \<Rightarrow> 's local_file \<Rightarrow> 's local_file" where
  "lf_handle_collision lw s = s\<lparr> lf_state := pf_delay lw 10 (lf_state s) \<rparr>"

definition lf_can_start :: "lf_config \<Rightarrow> build \<Rightarrow> ('s, 'z) lf_world_scheme \<Rightarrow> 's local_file \<Rightarrow> bool \<times> 's local_file" where
  "lf_can_start c b lw s =
     (let s = (if \<not> lf_open s then snd (lf_open_content_file c b lw s) else s) in (lf_open s, s))"

definition lf_receive_frame ::
  "lf_config \<Rightarrow> ('s, 'z) lf_world_scheme \<Rightarrow> u16 \<Rightarrow> 's local_file \<Rightarrow> ((u16 \<times> u8 list) \<times> 's local_file) option" where
  "lf_receive_frame c lw max_length s =
     do { (r, s) \<leftarrow> lf_read_next_packet c lw s;
          case r of
            Some r \<Rightarrow>
              let len = (if lf_length r < max_length then lf_length r else max_length) in
              do { data \<leftarrow> rd_block (lf_message r) 0 (unat len); Some ((len, data), s) }
          | None \<Rightarrow> Some ((PJON_FAIL, []), s\<lparr> lf_state := pf_delay lw (lf_poll_delay c) (lf_state s) \<rparr>) }"

definition lf_receive_response :: "'s local_file \<Rightarrow> u16 \<times> 's local_file" where
  "lf_receive_response s = (lf_last_send_result s, s)"

definition lf_send_response :: "u8 \<Rightarrow> 's local_file \<Rightarrow> 's local_file" where
  "lf_send_response response s = s"

definition lf_send_frame ::
  "build \<Rightarrow> ('s, 'z) lf_world_scheme \<Rightarrow> u8 list \<Rightarrow> 's local_file \<Rightarrow> 's local_file option" where
  "lf_send_frame b lw data s =
     do { message \<leftarrow> wr_block 0 data (lf_message (empty_record b));
          (ok, s) \<leftarrow> lf_write_packet_to_file lw \<lparr> lf_length = of_nat (length data), lf_message = message \<rparr> s;
          Some (s\<lparr> lf_last_send_result := (if ok then PJON_ACK else PJON_FAIL) \<rparr>) }"

definition lf_in :: "('s \<Rightarrow> 'a \<times> 's) \<Rightarrow> 's local_file \<Rightarrow> 'a \<times> 's local_file" where
  "lf_in f s = (let (x, w) = f (lf_state s) in (x, s\<lparr> lf_state := w \<rparr>))"

definition lf_strategy ::
  "lf_config \<Rightarrow> build \<Rightarrow> ('s, 'z) lf_world_scheme \<Rightarrow> 's local_file option strategy" where
  "lf_strategy c b lw =
     \<lparr> pf_micros = lift_call 0 (\<lambda>s. Some (lf_in (pf_micros lw) s)),
       pf_delay = (\<lambda>ms. map_option (\<lambda>s. s\<lparr> lf_state := pf_delay lw ms (lf_state s) \<rparr>)),
       pf_random = (\<lambda>n. lift_call 0 (\<lambda>s. Some (lf_in (pf_random lw n) s))),
       pf_random_seed = (\<lambda>n. map_option (\<lambda>s. s\<lparr> lf_state := pf_random_seed lw n (lf_state s) \<rparr>)),
       pf_analog_read = (\<lambda>p. lift_call 0 (\<lambda>s. Some (lf_in (pf_analog_read lw p) s))),
       st_begin = (\<lambda>did. lift_call False (\<lambda>s. Some (lf_begin c b lw did s))),
       st_back_off = (\<lambda>attempts s. (lf_back_off attempts, s)),
       st_can_start = lift_call False (\<lambda>s. Some (lf_can_start c b lw s)),
       st_max_attempts = 10,
       st_receive_time = lf_receive_time c,
       st_handle_collision = map_option (lf_handle_collision lw),
       st_receive_frame = (\<lambda>n s. case lift_call (PJON_FAIL, []) (lf_receive_frame c lw n) s of
                                   ((r, bs), s) \<Rightarrow> (r, bs, s)),
       st_receive_response = lift_call PJON_FAIL (\<lambda>s. Some (lf_receive_response s)),
       st_send_response = (\<lambda>r. map_option (lf_send_response (ucast r))),
       st_send_frame = (\<lambda>data. lift_update (lf_send_frame b lw data)) \<rparr>"

lemma lf_receive_frame_fits:
  "lf_receive_frame c lw n s = Some ((r, bs), s') \<Longrightarrow> length bs \<le> unat n"
  by (auto simp: lf_receive_frame_def rd_block_def Let_def word_less_nat_alt split: option.splits if_splits
      elim!: bind_SomeE)

interpretation lf: bounded_strategy "lf_strategy c b lw" "\<lambda>_. True" for c b lw
proof (unfold_locales, goal_cases)
  case (1 s n r bs s')
  then show ?case using lf_receive_frame_fits [of c lw n]
    by (auto simp: lf_strategy_def lift_call_def split: prod.splits option.splits elim!: bind_SomeE)
qed simp_all

end
