(* ===== verification/Local_File_Laws.thy ===== *)
theory Local_File_Laws
  imports Local_File
begin

text \<open>
  The shared file is a queue: what the devices send, a reader that does not fall behind by more than the
  size of the ring receives, all of it and in order, however often the 16 bit ids roll over.
\<close>

subsection \<open>The ids of the records\<close>

lemma u16_bound: "unat (a :: u16) \<le> 65535"
  using unsigned_less [of a, where 'a = nat] by simp

definition lf_nth :: "u16 \<Rightarrow> nat \<Rightarrow> u16" where
  "lf_nth a k = (lf_next_id ^^ k) a"

lemma lf_nth_simps [simp]:
  "lf_nth a 0 = a" "lf_next_id (lf_nth a k) = lf_nth a (Suc k)" "lf_nth (lf_next_id a) k = lf_nth a (Suc k)"
  by (simp_all add: lf_nth_def funpow_swap1)

lemma lf_nth_pos: "lf_nth a (Suc k) \<noteq> 0"
  by (simp add: lf_nth_def lf_next_id_def Let_def)

lemma unat_lf_next_id: "unat (lf_next_id a) = (if unat a = 65535 then 1 else Suc (unat a))"
proof (cases "unat a = 65535")
  case True
  then have "a + 1 = 0" by (simp add: word_unat_eq_iff unat_word_ariths)
  then show ?thesis using True by (simp add: lf_next_id_def)
next
  case False
  then have "unat (a + 1) = Suc (unat a)"
    using u16_bound [of a] by (simp add: unat_word_ariths)
  moreover from this have "a + 1 \<noteq> 0" by (metis unat_0 nat.distinct(1))
  ultimately show ?thesis using False by (simp add: lf_next_id_def)
qed

lemma unat_lf_nth:
  "k < 65536 \<Longrightarrow> unat (lf_nth a k) = (if unat a + k \<le> 65535 then unat a + k else unat a + k - 65535)"
proof (induction k)
  case (Suc k)
  then have "unat (lf_nth a k) = (if unat a + k \<le> 65535 then unat a + k else unat a + k - 65535)" by simp
  moreover note u16_bound [of a]
  ultimately show ?case
    using Suc.prems unat_lf_next_id [of "lf_nth a k"] by auto
qed (simp add: u16_bound)

text \<open>The distance between two ids counts the records between them, and one more across a rollover.\<close>

lemma lf_nth_ahead:
  assumes "k \<le> j" and "j \<le> 255"
  shows "unat (lf_nth a j - lf_nth a k) = j - k + (if unat a + k \<le> 65535 \<and> 65535 < unat a + j then 1 else 0)"
proof -
  note u16_bound [of a]
  then show ?thesis
    using assms by (auto simp: unat_sub_if_size unat_lf_nth word_size)
qed

lemma lf_nth_behind:
  assumes "j < k" and "k \<le> 255"
  shows "65279 \<le> unat (lf_nth a j - lf_nth a k)"
proof -
  note u16_bound [of a]
  then show ?thesis
    using assms by (auto simp: unat_sub_if_size unat_lf_nth word_size)
qed

lemma lf_nth_eq: "j \<le> 255 \<Longrightarrow> k \<le> 255 \<Longrightarrow> lf_nth a j = lf_nth a k \<longleftrightarrow> j = k"
proof (induction j k rule: linorder_wlog)
  case (le j k)
  then show ?case using lf_nth_ahead [of j k a] by (auto split: if_splits)
qed metis

subsection \<open>The searches\<close>

lemma lf_reusable_unused:
  "j < length xs \<Longrightarrow> xs ! j = 0 \<Longrightarrow>
   \<exists>j' < length xs. xs ! j' = 0 \<and> lf_reusable_loop l xs i m pos = i + of_nat j'"
proof (induction xs arbitrary: i j m pos)
  case (Cons x xs)
  show ?case
  proof (cases "x = 0")
    case False
    then obtain j0 where "j = Suc j0" using Cons.prems by (cases j) auto
    then have p: "j0 < length xs" "xs ! j0 = 0" using Cons.prems by auto
    show ?thesis
      using False Cons.IH [OF p, of "i + 1"] by (force simp: Let_def algebra_simps)
  qed (auto intro: exI [of _ 0])
qed simp

lemma lf_reusable_keep:
  "\<forall>x \<in> set xs. x \<noteq> 0 \<and> l - x \<le> m \<Longrightarrow> lf_reusable_loop l xs i m pos = pos"
  by (induction xs arbitrary: i) (auto simp: Let_def not_less)

lemma lf_reusable_oldest:
  "j < length xs \<Longrightarrow> 0 \<notin> set xs \<Longrightarrow> m < l - xs ! j \<Longrightarrow>
   \<forall>k < length xs. k \<noteq> j \<longrightarrow> l - xs ! k < l - xs ! j \<Longrightarrow>
   lf_reusable_loop l xs i m pos = i + of_nat j"
proof (induction xs arbitrary: i j m pos)
  case (Cons x xs)
  show ?case
  proof (cases j)
    case 0
    have "xs ! k \<noteq> 0 \<and> l - xs ! k \<le> l - x" if "k < length xs" for k
    proof
      show "xs ! k \<noteq> 0" using Cons.prems(2) that by (metis list.set_intros(2) nth_mem)
      show "l - xs ! k \<le> l - x" using Cons.prems(4) [rule_format, of "Suc k"] 0 that by (simp add: less_imp_le)
    qed
    then have "\<forall>y \<in> set xs. y \<noteq> 0 \<and> l - y \<le> l - x" by (simp add: all_set_conv_all_nth)
    then show ?thesis using Cons.prems 0 lf_reusable_keep [of xs l "l - x" "i + 1" i] by (auto simp: Let_def)
  next
    case (Suc j0)
    have "l - x < l - xs ! j0" using Cons.prems(4) [rule_format, of 0] Suc by simp
    moreover have "\<forall>k < length xs. k \<noteq> j0 \<longrightarrow> l - xs ! k < l - xs ! j0"
      using Cons.prems(4) Suc by auto
    ultimately show ?thesis
      using Cons.prems Suc Cons.IH [of j0 "l - x" "i + 1"] Cons.IH [of j0 m "i + 1"]
      by (auto simp: Let_def algebra_simps)
  qed
qed simp

lemma lf_unread_keep:
  "\<forall>x \<in> set xs. x = 0 \<or> x = lr \<or> 0x8FFF \<le> x - lr \<or> m \<le> x - lr \<Longrightarrow> lf_unread_loop lr xs i m pos = pos"
  by (induction xs arbitrary: i) (auto simp: Let_def not_less)

lemma lf_unread_next:
  "j < length xs \<Longrightarrow> xs ! j \<noteq> 0 \<Longrightarrow> xs ! j \<noteq> lr \<Longrightarrow> xs ! j - lr < 0x8FFF \<Longrightarrow> xs ! j - lr < m \<Longrightarrow>
   \<forall>k < length xs. k \<noteq> j \<longrightarrow> xs ! k = 0 \<or> xs ! k = lr \<or> 0x8FFF \<le> xs ! k - lr \<or> xs ! j - lr < xs ! k - lr \<Longrightarrow>
   lf_unread_loop lr xs i m pos = i + of_nat j"
proof (induction xs arbitrary: i j m pos)
  case (Cons x xs)
  show ?case
  proof (cases j)
    case 0
    have "xs ! k = 0 \<or> xs ! k = lr \<or> 0x8FFF \<le> xs ! k - lr \<or> x - lr \<le> xs ! k - lr" if "k < length xs" for k
      using Cons.prems(6) [rule_format, of "Suc k"] 0 that by (auto intro: less_imp_le)
    then have "\<forall>y \<in> set xs. y = 0 \<or> y = lr \<or> 0x8FFF \<le> y - lr \<or> x - lr \<le> y - lr"
      by (simp add: all_set_conv_all_nth)
    then show ?thesis using Cons.prems 0 lf_unread_keep [of xs lr "x - lr" "i + 1" i] by (auto simp: Let_def)
  next
    case (Suc j0)
    have x: "x = 0 \<or> x = lr \<or> 0x8FFF \<le> x - lr \<or> xs ! j0 - lr < x - lr"
      using Cons.prems(6) [rule_format, of 0] Suc by simp
    moreover have "\<forall>k < length xs. k \<noteq> j0 \<longrightarrow> xs ! k = 0 \<or> xs ! k = lr \<or> 0x8FFF \<le> xs ! k - lr \<or> xs ! j0 - lr < xs ! k - lr"
      using Cons.prems(6) Suc by auto
    ultimately show ?thesis
      using Cons.prems Suc Cons.IH [of j0 "x - lr" "i + 1"] Cons.IH [of j0 m "i + 1"]
      by (auto simp: Let_def algebra_simps not_less)
  qed
qed simp

subsection \<open>The ring holds the last records\<close>

text \<open>
  \<open>ring q a ps rs f\<close>: the file is a ring of \<open>q\<close> slots with the records \<open>rs\<close>, oldest first, in the slots
  \<open>ps\<close>; their ids are the ones after \<open>a\<close>.  Once a record has been overwritten there is no unused slot.
\<close>

definition ring :: "nat \<Rightarrow> u16 \<Rightarrow> nat list \<Rightarrow> lf_record list \<Rightarrow> lf_file \<Rightarrow> bool" where
  "ring q a ps rs f \<longleftrightarrow>
     length (lf_index f) = q \<and> length (lf_records f) = q \<and> 2 \<le> q \<and> q \<le> 254 \<and>
     distinct ps \<and> set ps \<subseteq> {..<q} \<and> length ps = length rs \<and> lf_last f = lf_nth a (length rs) \<and>
     (\<forall>i < q. i \<notin> set ps \<longrightarrow> lf_index f ! i = 0) \<and>
     (\<forall>k < length rs. lf_index f ! (ps ! k) = lf_nth a (Suc k) \<and> lf_records f ! (ps ! k) = rs ! k) \<and>
     (length rs < q \<longrightarrow> a = 0)"

lemma ring_length: "ring q a ps rs f \<Longrightarrow> length rs \<le> q"
  using card_mono [of "{..<q}" "set ps"] by (auto simp: ring_def distinct_card)

lemma ring_slots: "ring q a ps rs f \<Longrightarrow> length rs = q \<Longrightarrow> set ps = {..<q}"
  by (rule card_subset_eq) (auto simp: ring_def distinct_card)

lemma ring_slot: "ring q a ps rs f \<Longrightarrow> k < length rs \<Longrightarrow> ps ! k < q \<and> q \<le> 254 \<and> length (lf_index f) = q"
  using nth_mem [of k ps] unfolding ring_def by (metis lessThan_iff subsetD)

lemma unat_slot: "(n :: nat) < 255 \<Longrightarrow> unat (of_nat n :: u8) = n \<and> (of_nat n :: u8) \<noteq> PJON_NOT_ASSIGNED"
  by (auto simp: unat_of_nat PJON_NOT_ASSIGNED_def word_unat_eq_iff)

lemma ring_write_unused:
  assumes r: "ring q a ps rs f" and l: "length rs < q"
  shows "\<exists>i f'. lf_write_packet x f = (True, f') \<and> ring q a (ps @ [i]) (rs @ [x]) f'"
proof -
  have "card (set ps) < q" using r l by (simp add: ring_def distinct_card)
  then obtain j where j: "j < q" "j \<notin> set ps"
    using card_mono [of "set ps" "{..<q}"] by (auto simp: subset_iff not_le)
  have q: "length (lf_index f) = q" "q \<le> 254" "j < length (lf_index f)" "lf_index f ! j = 0"
    using r j by (simp_all add: ring_def)
  from lf_reusable_unused [OF q(3,4), of "lf_last f" 0 0 PJON_NOT_ASSIGNED]
  obtain i where i: "i < q" "lf_index f ! i = 0" "find_reusable_position (lf_last f) (lf_index f) = of_nat i"
    using q(1) by (auto simp: find_reusable_position_def)
  have ni: "i \<notin> set ps"
    using r i(2) lf_nth_pos [of a] by (auto simp: ring_def in_set_conv_nth)
  let ?f = "lf_update_index (lf_next_id (lf_last f)) i (f\<lparr> lf_records := (lf_records f)[i := x] \<rparr>)"
  have "lf_write_packet x f = (True, ?f)"
    using i q unat_slot [of i] by (simp add: lf_write_packet_def)
  moreover have "ring q a (ps @ [i]) (rs @ [x]) ?f"
    using r l i(1) ni
    by (auto simp: ring_def lf_update_index_def nth_append less_Suc_eq nth_list_update in_set_conv_nth)
  ultimately show ?thesis by blast
qed

lemma ring_oldest:
  assumes r: "ring q a ps rs f" and l: "length rs = q"
  shows "find_reusable_position (lf_last f) (lf_index f) = of_nat (ps ! 0)"
proof -
  have q: "length (lf_index f) = q" "2 \<le> q" "q \<le> 254" "length ps = q" "lf_last f = lf_nth a q"
    using r l by (simp_all add: ring_def)
  have ix: "lf_index f ! (ps ! k) = lf_nth a (Suc k)" if "k < q" for k using r l that by (simp add: ring_def)
  have p: "i \<in> set ps" if "i < q" for i using ring_slots [OF r l] that by simp
  have d: "unat (lf_last f - lf_index f ! (ps ! k)) =
      q - Suc k + (if unat a + Suc k \<le> 65535 \<and> 65535 < unat a + q then 1 else 0)" if "k < q" for k
    using lf_nth_ahead [of "Suc k" q a] that q ix by simp
  have "0 \<notin> set (lf_index f)"
  proof
    assume "0 \<in> set (lf_index f)"
    then obtain i where "i < q" "lf_index f ! i = 0" using q(1) by (auto simp: in_set_conv_nth)
    moreover then obtain k where "k < q" "ps ! k = i" using p [of i] q(4) by (auto simp: in_set_conv_nth)
    ultimately show False using ix [of k] lf_nth_pos [of a k] by simp
  qed
  moreover have "lf_last f - lf_index f ! i < lf_last f - lf_index f ! (ps ! 0)"
    if i: "i < length (lf_index f)" "i \<noteq> ps ! 0" for i
  proof -
    obtain k where k: "k < q" "ps ! k = i" using p [of i] i q by (auto simp: in_set_conv_nth)
    moreover from this i have "k \<noteq> 0" by (cases k) auto
    ultimately show ?thesis using d [of k] d [of 0] q by (auto simp: word_less_nat_alt)
  qed
  moreover have "0 < lf_last f - lf_index f ! (ps ! 0)"
    using d [of 0] q by (simp add: word_less_nat_alt)
  moreover have "ps ! 0 < length (lf_index f)"
    using ring_slots [OF r l] q nth_mem [of 0 ps] by auto
  ultimately show ?thesis
    using lf_reusable_oldest [of "ps ! 0" "lf_index f" 0 "lf_last f" 0] by (simp add: find_reusable_position_def)
qed

lemma ring_write_full:
  assumes r: "ring q a ps rs f" and l: "length rs = q"
  shows "\<exists>f'. lf_write_packet x f = (True, f') \<and> ring q (lf_next_id a) (tl ps @ [ps ! 0]) (tl rs @ [x]) f'"
proof -
  obtain p ps' where p: "ps = p # ps'" using r l by (cases ps) (auto simp: ring_def)
  obtain y rs' where y: "rs = y # rs'" using r l by (cases rs) (auto simp: ring_def)
  have q: "2 \<le> q" "q \<le> 254" "p < q" "p \<notin> set ps'" using r p by (auto simp: ring_def)
  let ?f = "lf_update_index (lf_next_id (lf_last f)) p (f\<lparr> lf_records := (lf_records f)[p := x] \<rparr>)"
  have "lf_write_packet x f = (True, ?f)"
    using ring_oldest [OF r l] unat_slot [of p] q p by (simp add: lf_write_packet_def)
  moreover have s: "set ps = {..<q}" by (rule ring_slots [OF r l])
  have "ring q (lf_next_id a) (ps' @ [p]) (rs' @ [x]) ?f"
  proof -
    have ix: "lf_index f ! (ps' ! k) = lf_nth a (Suc (Suc k))" "lf_records f ! (ps' ! k) = rs' ! k"
      if "k < length rs'" for k
      using r that p y by (auto simp: ring_def dest: spec [of _ "Suc k"])
    have ne: "ps' ! k \<noteq> p" if "k < length rs'" for k
      using q(4) that r p y by (auto simp: ring_def)
    show ?thesis
      using r l s q ix ne p y by (auto simp: ring_def lf_update_index_def nth_append less_Suc_eq nth_list_update)
  qed
  ultimately show ?thesis using p y by auto
qed

lemma ring_write:
  assumes "ring q a ps rs f"
  shows "\<exists>a' ps' f'. lf_write_packet x f = (True, f') \<and>
     (if length rs < q then a' = a \<and> ring q a' ps' (rs @ [x]) f'
      else a' = lf_next_id a \<and> ring q a' ps' (tl rs @ [x]) f')"
proof (cases "length rs < q")
  case True
  then show ?thesis using ring_write_unused [OF assms True, of x] by auto
next
  case False
  then show ?thesis using ring_write_full [OF assms, of x] ring_length [OF assms] by fastforce
qed

subsection \<open>Reading\<close>

text \<open>A reader behind the first \<open>k\<close> of the records: it has read the last of them, or nothing yet.\<close>

lemma ring_next_position:
  assumes r: "ring q a ps rs f" and k: "k < length rs"
    and lr: "lr = lf_nth a k \<or> a = 0 \<and> k = 0 \<and> lr = lf_last f - of_nat q"
  shows "lf_unread_loop lr (lf_index f) 0 0xFFFF PJON_NOT_ASSIGNED = of_nat (ps ! k)" and "lf_last f \<noteq> lr"
proof -
  have q: "length (lf_index f) = q" "q \<le> 254" "length rs \<le> q" "lf_last f = lf_nth a (length rs)" "length ps = length rs"
    using r ring_length [OF r] by (simp_all add: ring_def)
  have ix: "lf_index f ! (ps ! j) = lf_nth a (Suc j)" if "j < length rs" for j using r that by (simp add: ring_def)
  have ahead: "unat (lf_nth a (Suc k) - lr) \<le> 256 \<and> lf_nth a (Suc k) \<noteq> lr \<and> lf_last f \<noteq> lr \<and>
      (\<forall>j. k < j \<and> j < length rs \<longrightarrow> unat (lf_nth a (Suc k) - lr) < unat (lf_nth a (Suc j) - lr)) \<and>
      (\<forall>j < k. lf_nth a (Suc j) = lr \<or> 0x8FFF \<le> unat (lf_nth a (Suc j) - lr))"
  proof (cases "lr = lf_nth a k")
    case True
    have "lf_nth a (Suc j) = lr \<or> 0x8FFF \<le> unat (lf_nth a (Suc j) - lr)" if "j < k" for j
      using lf_nth_behind [of "Suc j" k a] True k q that by (cases "Suc j = k") auto
    moreover have "unat (lf_nth a (Suc k) - lr) < unat (lf_nth a (Suc j) - lr)" if "k < j" "j < length rs" for j
      using lf_nth_ahead [of k "Suc j" a] lf_nth_ahead [of k "Suc k" a] True that q by auto
    moreover have "unat (lf_nth a (Suc k) - lr) \<le> 256"
      using lf_nth_ahead [of k "Suc k" a] True k q by simp
    moreover have "lf_nth a (Suc k) \<noteq> lr" "lf_last f \<noteq> lr" using k q True by (simp_all add: lf_nth_eq)
    ultimately show ?thesis by blast
  next
    case False
    then have z: "a = 0" "k = 0" "lr = lf_last f - of_nat q" using lr by auto
    have n: "lf_nth 0 j = of_nat j" if "j \<le> 255" for j
      using that by (simp add: word_unat_eq_iff unat_lf_nth unat_of_nat)
    have e: "lf_nth 0 (Suc j) - lr = of_nat (Suc j + (q - length rs))" if "j < length rs" for j
      using n [of "Suc j"] n [of "length rs"] z q that by (simp add: of_nat_diff algebra_simps)
    have "lf_last f - lr = of_nat q" using z by simp
    then have "unat (lf_last f - lr) = q" using q by (simp add: unat_of_nat)
    then have "lf_last f \<noteq> lr" using q k by auto
    moreover have u: "unat (lf_nth 0 (Suc j) - lr) = Suc j + (q - length rs)" if "j < length rs" for j
      unfolding e [OF that] using that q by (subst unat_of_nat) simp
    moreover have "lf_nth 0 (Suc 0) \<noteq> lr" using u [of 0] k z by auto
    ultimately show ?thesis using z q k by auto
  qed
  have p: "ps ! k < length (lf_index f)" using ring_slot [OF r k] by simp
  show "lf_last f \<noteq> lr" using ahead by simp
  show "lf_unread_loop lr (lf_index f) 0 0xFFFF PJON_NOT_ASSIGNED = of_nat (ps ! k)"
  proof -
    have "lf_index f ! i = 0 \<or> lf_index f ! i = lr \<or> 0x8FFF \<le> lf_index f ! i - lr \<or>
        lf_index f ! (ps ! k) - lr < lf_index f ! i - lr" if i: "i < length (lf_index f)" "i \<noteq> ps ! k" for i
    proof (cases "i \<in> set ps")
      case True
      then obtain j where j: "j < length rs" "ps ! j = i" using q(5) by (auto simp: in_set_conv_nth)
      then have "j \<noteq> k" using i by auto
      then show ?thesis using ahead ix [of j] ix [of k] j k
        by (cases "j < k") (auto simp: word_less_nat_alt word_le_nat_alt)
    next
      case False
      then show ?thesis using r i q by (simp add: ring_def)
    qed
    moreover have "lf_index f ! (ps ! k) - lr < 0x8FFF" "lf_index f ! (ps ! k) - lr < 0xFFFF"
      "lf_index f ! (ps ! k) \<noteq> lr" "lf_index f ! (ps ! k) \<noteq> 0"
      using ahead ix [OF k] lf_nth_pos [of a k] by (auto simp: word_less_nat_alt)
    ultimately show ?thesis using lf_unread_next [OF p, of lr] by simp
  qed
qed

lemma ring_read:
  assumes r: "ring q a ps rs f" and q: "lf_queue_size c = q" and k: "k \<le> length rs" and lr: "lf_last_read s = lf_nth a k"
  shows "\<exists>s'. lf_read_packet c f s = (if k < length rs then Some (rs ! k) else None, s') \<and>
    s' = s\<lparr> lf_last_read := lf_nth a (if k < length rs then Suc k else k) \<rparr>"
proof (cases "k < length rs")
  case True
  have z: "lf_nth a k = 0 \<Longrightarrow> a = 0 \<and> k = 0" using lf_nth_pos [of a "k - 1"] by (cases k) auto
  have "length rs = Suc (length rs - 1)" using True by simp
  then have "lf_last f \<noteq> 0" using r lf_nth_pos [of a "length rs - 1"] by (metis ring_def)
  moreover have "s\<lparr> lf_last_read := lf_nth a k \<rparr> = s" using lr by simp
  then have "\<exists>lr'. find_next_unread_position c (lf_last f) (lf_index f) s = (of_nat (ps ! k), s\<lparr> lf_last_read := lr' \<rparr>)"
    using ring_next_position [OF r True, of "lf_nth a k"] ring_next_position [OF r True, of "lf_last f - of_nat q"] z lr q
    by (cases "lf_nth a k = 0") (auto simp: find_next_unread_position_def Let_def intro: exI [of _ "lf_nth a k"])
  moreover have "ps ! k < 255" "lf_index f ! (ps ! k) = lf_nth a (Suc k)" "lf_records f ! (ps ! k) = rs ! k"
    using r True ring_slot [OF r True] by (simp_all add: ring_def)
  ultimately show ?thesis using True unat_slot [of "ps ! k"] by (auto simp: lf_read_packet_def)
next
  case False
  then have "lf_last f = lf_last_read s" "lf_nth a k = lf_last f" using r k lr by (simp_all add: ring_def)
  then show ?thesis using False
    by (auto simp: lf_read_packet_def find_next_unread_position_def Let_def)
qed

subsection \<open>The file as a queue\<close>

text \<open>
  A schedule of two devices on one file: \<open>Some data\<close>, the writer sends; \<open>None\<close>, the reader polls.  What
  the reader's calls return is collected.
\<close>

fun lf_run ::
  "lf_config \<Rightarrow> build \<Rightarrow> ('s, 'z) lf_world_scheme \<Rightarrow> u16 \<Rightarrow> u8 list option list \<Rightarrow> 's
     \<Rightarrow> 's local_file \<Rightarrow> 's local_file \<Rightarrow> (u16 \<times> u8 list) list option" where
  "lf_run c b lw n [] w writer reader = Some []"
| "lf_run c b lw n (Some data # es) w writer reader =
     do { writer \<leftarrow> lf_send_frame b lw data (writer\<lparr> lf_state := w \<rparr>);
          lf_run c b lw n es (lf_state writer) writer reader }"
| "lf_run c b lw n (None # es) w writer reader =
     do { (r, reader) \<leftarrow> lf_receive_frame c lw n (reader\<lparr> lf_state := w \<rparr>);
          rs \<leftarrow> lf_run c b lw n es (lf_state reader) writer reader;
          Some (r # rs) }"

text \<open>The specification: a queue of at most \<open>q\<close> frames.\<close>

fun frame_queue :: "nat \<Rightarrow> u8 list option list \<Rightarrow> u8 list list \<Rightarrow> (u16 \<times> u8 list) list option" where
  "frame_queue q [] pending = Some []"
| "frame_queue q (Some data # es) pending =
     (if length pending < q then frame_queue q es (pending @ [data]) else None)"
| "frame_queue q (None # es) [] = map_option (Cons (PJON_FAIL, [])) (frame_queue q es [])"
| "frame_queue q (None # es) (data # pending) =
     map_option (Cons (of_nat (length data), data)) (frame_queue q es pending)"

definition holds_frame :: "lf_record \<Rightarrow> u8 list \<Rightarrow> bool" where
  "holds_frame r data \<longleftrightarrow> unat (lf_length r) = length data \<and> take (length data) (lf_message r) = data"

lemma lf_send_frame_record:
  assumes "lf_open s" and "lw_file lw (lf_state s) = Some f"
    and "length data \<le> packet_max_length b" and "packet_max_length b \<le> 65535"
  shows "\<exists>r. holds_frame r data \<and>
    lf_send_frame b lw data s = (case lf_write_packet r f of (ok, f) \<Rightarrow>
      Some (s\<lparr> lf_state := lw_put lw f (lf_state s), lf_last_send_result := (if ok then PJON_ACK else PJON_FAIL) \<rparr>))"
  using assms
  by (intro exI [of _ "\<lparr> lf_length = of_nat (length data),
        lf_message = data @ drop (length data) (lf_message (empty_record b)) \<rparr>"])
    (simp add: holds_frame_def lf_send_frame_def lf_write_packet_to_file_def wr_block_def empty_record_def
      unat_of_nat case_prod_unfold Let_def)

lemma lf_receive_frame_record:
  assumes "lf_open s" and "lw_file lw (lf_state s) = Some f" and "lf_read_packet c f s = (Some r, s')"
    and "holds_frame r data" and "length data \<le> unat n"
  shows "lf_receive_frame c lw n s = Some ((of_nat (length data), data), s')"
proof -
  have l: "unat (lf_length r) = length data" using assms(4) by (simp add: holds_frame_def)
  then have l: "lf_length r = of_nat (length data)" "length data < 65536"
    using u16_bound [of "lf_length r"] by (auto simp: word_unat_eq_iff unat_of_nat)
  have m: "length data \<le> length (lf_message r)" using assms(4) by (metis holds_frame_def length_take min_def linorder_linear)
  have "(if lf_length r < n then lf_length r else n) = lf_length r"
    using assms(4,5) by (auto simp: holds_frame_def word_less_nat_alt word_unat_eq_iff)
  then show ?thesis
    using assms l m by (simp add: lf_receive_frame_def lf_read_next_packet_def holds_frame_def rd_block_def Let_def)
qed

text \<open>The relation between the file, the reader and the frames it has not read yet.\<close>

definition lf_sees :: "nat \<Rightarrow> lf_file \<Rightarrow> u16 \<Rightarrow> u8 list list \<Rightarrow> bool" where
  "lf_sees q f last_read pending \<longleftrightarrow>
     (\<exists>a ps rs. ring q a ps rs f \<and> length pending \<le> length rs \<and>
        last_read = lf_nth a (length rs - length pending) \<and>
        list_all2 holds_frame (drop (length rs - length pending) rs) pending)"

lemma lf_sees_new:
  "2 \<le> q \<Longrightarrow> q \<le> 254 \<Longrightarrow>
   lf_sees q \<lparr> lf_last = 0, lf_index = replicate q 0, lf_records = replicate q r \<rparr> 0 []"
  unfolding lf_sees_def by (intro exI [of _ 0] exI [of _ "[]"]) (simp add: ring_def)

lemma lf_sees_write:
  assumes s: "lf_sees q f lr pending" and l: "length pending < q" and h: "holds_frame r data"
  shows "\<exists>f'. lf_write_packet r f = (True, f') \<and> lf_sees q f' lr (pending @ [data])"
proof -
  obtain a ps rs where r: "ring q a ps rs f" "length pending \<le> length rs"
    "lr = lf_nth a (length rs - length pending)"
    "list_all2 holds_frame (drop (length rs - length pending) rs) pending"
    using s by (auto simp: lf_sees_def)
  from ring_write [OF r(1), of r]
  obtain a' ps' f' where w: "lf_write_packet r f = (True, f')"
    "if length rs < q then a' = a \<and> ring q a' ps' (rs @ [r]) f' else a' = lf_next_id a \<and> ring q a' ps' (tl rs @ [r]) f'"
    by blast
  show ?thesis
  proof (cases "length rs < q")
    case True
    then have "lf_sees q f' lr (pending @ [data])"
      using r w(2) h by (auto simp: lf_sees_def list_all2_appendI intro!: exI [of _ a] exI [of _ ps'] exI [of _ "rs @ [r]"])
    then show ?thesis using w(1) by blast
  next
    case False
    then obtain x rs' where x: "rs = x # rs'" using l r(2) by (cases rs) auto
    have "length pending \<le> length rs'" using False l x ring_length [OF r(1)] by simp
    then have "lf_sees q f' lr (pending @ [data])"
      using False r w(2) h x
      by (auto simp: lf_sees_def list_all2_appendI Suc_diff_le
          intro!: exI [of _ "lf_next_id a"] exI [of _ ps'] exI [of _ "rs' @ [r]"])
    then show ?thesis using w(1) by blast
  qed
qed

lemma lf_sees_read:
  assumes s: "lf_sees q f (lf_last_read s) pending" and q: "lf_queue_size c = q"
  shows "case pending of
      [] \<Rightarrow> lf_read_packet c f s = (None, s)
    | data # rest \<Rightarrow> \<exists>r s'. lf_read_packet c f s = (Some r, s') \<and> holds_frame r data \<and>
        lf_state s' = lf_state s \<and> lf_open s' = lf_open s \<and> lf_sees q f (lf_last_read s') rest"
proof -
  obtain a ps rs where r: "ring q a ps rs f" "length pending \<le> length rs"
    "lf_last_read s = lf_nth a (length rs - length pending)"
    "list_all2 holds_frame (drop (length rs - length pending) rs) pending"
    using s by (auto simp: lf_sees_def)
  note read = ring_read [OF r(1) q _ r(3)]
  show ?thesis
  proof (cases pending)
    case Nil
    then show ?thesis using read r(3) by auto
  next
    case (Cons data rest)
    let ?k = "length rs - length pending"
    have k: "?k < length rs" "length rs - length rest = Suc ?k" using r(2) Cons by auto
    have "drop ?k rs = rs ! ?k # drop (Suc ?k) rs" using k(1) by (simp add: Cons_nth_drop_Suc)
    then have h: "holds_frame (rs ! ?k) data" "list_all2 holds_frame (drop (Suc ?k) rs) rest"
      using r(4) Cons by auto
    have "lf_sees q f (lf_nth a (Suc ?k)) rest"
      using r h k Cons by (auto simp: lf_sees_def intro!: exI [of _ a] exI [of _ ps] exI [of _ rs])
    then show ?thesis using read k(1) h(1) Cons by auto
  qed
qed

lemma lf_run_refines:
  assumes put: "\<And>f w. lw_file lw (lw_put lw f w) = Some f"
    and delay: "\<And>ms w. lw_file lw (pf_delay lw ms w) = lw_file lw w"
    and q: "lf_queue_size c = q" and b: "packet_max_length b \<le> unat n"
  shows "frame_queue q es pending = Some out \<Longrightarrow> lw_file lw w = Some f \<Longrightarrow> lf_open writer \<Longrightarrow> lf_open reader \<Longrightarrow>
    lf_sees q f (lf_last_read reader) pending \<Longrightarrow>
    \<forall>data. Some data \<in> set es \<or> data \<in> set pending \<longrightarrow> length data \<le> packet_max_length b \<Longrightarrow>
    lf_run c b lw n es w writer reader = Some out"
proof (induction es arbitrary: pending out w f writer reader)
  case (Cons e es)
  note IH = Cons.IH and prems = Cons.prems and open_reader = Cons.prems(4) and open_writer = Cons.prems(3)
    and on_disk = Cons.prems(2)
  show ?case
  proof (cases e)
    case (Some data)
    have l: "length pending < q" "frame_queue q es (pending @ [data]) = Some out"
      using prems(1) Some by (auto split: if_splits)
    have w: "lf_open (writer\<lparr> lf_state := w \<rparr>)" "lw_file lw (lf_state (writer\<lparr> lf_state := w \<rparr>)) = Some f"
      using open_writer on_disk by simp_all
    have d: "length data \<le> packet_max_length b" "packet_max_length b \<le> 65535"
      using prems(6) Some b u16_bound [of n] by auto
    from lf_send_frame_record [OF w d] obtain r where r: "holds_frame r data"
      "lf_send_frame b lw data (writer\<lparr> lf_state := w \<rparr>) = (case lf_write_packet r f of (ok, f) \<Rightarrow>
        Some (writer\<lparr> lf_state := lw_put lw f w, lf_last_send_result := (if ok then PJON_ACK else PJON_FAIL) \<rparr>))"
      by auto
    from lf_sees_write [OF prems(5) l(1) r(1)] obtain f' where
      f': "lf_write_packet r f = (True, f')" "lf_sees q f' (lf_last_read reader) (pending @ [data])" by blast
    have "lf_run c b lw n es (lw_put lw f' w)
        (writer\<lparr> lf_state := lw_put lw f' w, lf_last_send_result := PJON_ACK \<rparr>) reader = Some out"
      using IH [OF l(2) put _ open_reader f'(2)] prems(6) Some open_writer by auto
    then show ?thesis using Some r(2) f'(1) by simp
  next
    case None
    let ?reader = "reader\<lparr> lf_state := w \<rparr>"
    have read: "lf_open ?reader" "lw_file lw (lf_state ?reader) = Some f"
      using open_reader on_disk by simp_all
    have s: "lf_sees q f (lf_last_read ?reader) pending" using prems(5) by simp
    note seen = lf_sees_read [OF s q]
    show ?thesis
    proof (cases pending)
      case Nil
      then obtain out' where o: "frame_queue q es [] = Some out'" "out = (PJON_FAIL, []) # out'"
        using prems(1) None by auto
      have "lf_receive_frame c lw n ?reader
          = Some ((PJON_FAIL, []), ?reader\<lparr> lf_state := pf_delay lw (lf_poll_delay c) w \<rparr>)"
        using seen Nil read by (simp add: lf_receive_frame_def lf_read_next_packet_def)
      moreover have "lf_run c b lw n es (pf_delay lw (lf_poll_delay c) w) writer
          (?reader\<lparr> lf_state := pf_delay lw (lf_poll_delay c) w \<rparr>) = Some out'"
        using IH [OF o(1) _ open_writer, of _ f] prems(5,6) Nil delay on_disk open_reader by auto
      ultimately show ?thesis using None o(2) by simp
    next
      case (Cons data rest)
      then obtain out' where o: "frame_queue q es rest = Some out'" "out = (of_nat (length data), data) # out'"
        using prems(1) None Cons by auto
      from seen Cons obtain r reader' where r: "lf_read_packet c f ?reader = (Some r, reader')" "holds_frame r data"
        "lf_state reader' = w" "lf_open reader'" "lf_sees q f (lf_last_read reader') rest"
        using open_reader by auto
      have bound: "\<forall>data. Some data \<in> set es \<or> data \<in> set rest \<longrightarrow> length data \<le> packet_max_length b"
        "length data \<le> unat n"
        using prems(6) Cons b by auto
      have "lf_receive_frame c lw n ?reader = Some ((of_nat (length data), data), reader')"
        by (rule lf_receive_frame_record [OF read r(1,2) bound(2)])
      moreover have "lf_run c b lw n es w writer reader' = Some out'"
        by (rule IH [OF o(1) on_disk open_writer r(4,5) bound(1)])
      ultimately show ?thesis using None o(2) r(3) by simp
    qed
  qed
qed simp

text \<open>The shared file implements a bounded queue: whatever a device sends from a new file on, a reader
  that never leaves more frames unread than the ring has slots receives exactly these frames, unchanged and
  in order, and \<^verbatim>\<open>PJON_FAIL\<close> when it has read them all; for schedules of any length, across all rollovers of
  the 16 bit ids.\<close>

theorem lf_refines_queue:
  assumes "\<And>f w. lw_file lw (lw_put lw f w) = Some f"
    and "\<And>ms w. lw_file lw (pf_delay lw ms w) = lw_file lw w"
    and "2 \<le> lf_queue_size c" and "lf_queue_size c \<le> 254" and "packet_max_length b \<le> unat n"
    and "lw_file lw w = Some \<lparr> lf_last = 0, lf_index = replicate (lf_queue_size c) 0,
                              lf_records = replicate (lf_queue_size c) (empty_record b) \<rparr>"
    and "lf_open writer" and "lf_open reader" and "lf_last_read reader = 0"
    and "\<forall>data. Some data \<in> set es \<longrightarrow> length data \<le> packet_max_length b"
    and "frame_queue (lf_queue_size c) es [] = Some out"
  shows "lf_run c b lw n es w writer reader = Some out"
  using lf_run_refines [OF assms(1,2) refl assms(5,11,6,7,8)] lf_sees_new [OF assms(3,4)] assms(9,10) by simp

definition sample_lf :: lf_config where
  "sample_lf = \<lparr> lf_queue_size = 2, lf_poll_delay = 10, lf_receive_time = 0 \<rparr>"

definition sample_disk :: "(lf_file option) lf_world" where
  "sample_disk =
     \<lparr> pf_micros = (\<lambda>w. (0, w)), pf_delay = (\<lambda>ms w. w), pf_random = (\<lambda>n w. (0, w)),
       pf_random_seed = (\<lambda>n w. w), pf_analog_read = (\<lambda>p w. (0, w)), lw_file = (\<lambda>w. w),
       lw_put = (\<lambda>f w. Some f), lw_open = (\<lambda>create w. (True, w)) \<rparr>"

lemma lf_refines_queue_witness:
  "lf_run sample_lf default_build sample_disk 50 [Some [1], Some [2, 3], None, Some [4], None, None, None]
     (Some \<lparr> lf_last = 0, lf_index = replicate (lf_queue_size sample_lf) 0,
             lf_records = replicate (lf_queue_size sample_lf) (empty_record default_build) \<rparr>)
     ((new_local_file None)\<lparr> lf_open := True \<rparr>) ((new_local_file None)\<lparr> lf_open := True \<rparr>)
   = Some [(1, [1]), (2, [2, 3]), (1, [4]), (PJON_FAIL, [])]"
  by (rule lf_refines_queue) (auto simp: sample_lf_def sample_disk_def new_local_file_def)

end
