(* ===== verification/Tcp.thy ===== *)
theory Tcp
  imports Pins
begin

text \<open>
  The TCP helper \<^verbatim>\<open>src/interfaces/LINUX/TCPHelper_POSIX.h\<close>, as a POSIX build compiles it: the classes
  \<^verbatim>\<open>TCPHelperClient\<close> and \<^verbatim>\<open>TCPHelperServer\<close>.

  The socket calls of the operating system are the record \<open>tcp_net\<close>.  File descriptors are integers, -1 for
  none.  The value of a call with \<^verbatim>\<open>errno\<close> is a datatype of the cases the code tells apart.
\<close>

subsection \<open>Calls of the operating system\<close>

datatype poll_status = Poll_Error | Poll_Idle | Poll_Ready (poll_in: bool) (poll_hup: bool) (poll_nval: bool)

datatype connect_status = Connect_Done | Connect_Already | Connect_Pending | Connect_Error

datatype recv_status = Recv "u8 list" | Recv_Again | Recv_Error

datatype sock_option = Rcv_Timeout_us nat | Snd_Timeout_us nat | No_Delay bool | Reuse_Addr

record 's tcp_net = "'s platform" +
  tn_millis :: "'s \<Rightarrow> u32 \<times> 's"
  tn_delay_us :: "u32 \<Rightarrow> 's \<Rightarrow> 's"
  tn_poll :: "int \<Rightarrow> 's \<Rightarrow> poll_status \<times> 's"
  tn_socket :: "'s \<Rightarrow> int \<times> 's"
  tn_setsockopt :: "int \<Rightarrow> sock_option \<Rightarrow> 's \<Rightarrow> 's"
  tn_connect :: "int \<Rightarrow> u8 list \<Rightarrow> u16 \<Rightarrow> 's \<Rightarrow> connect_status \<times> 's"
  tn_has_flags :: "int \<Rightarrow> 's \<Rightarrow> bool \<times> 's"
  tn_set_nonblock :: "int \<Rightarrow> bool \<Rightarrow> 's \<Rightarrow> 's"
  tn_recv :: "int \<Rightarrow> nat \<Rightarrow> 's \<Rightarrow> recv_status \<times> 's"
  tn_send :: "int \<Rightarrow> u8 list \<Rightarrow> 's \<Rightarrow> int \<times> 's"
  tn_shutdown :: "int \<Rightarrow> 's \<Rightarrow> 's"
  tn_close :: "int \<Rightarrow> 's \<Rightarrow> 's"
  tn_bind :: "int \<Rightarrow> u16 \<Rightarrow> 's \<Rightarrow> bool \<times> 's"
  tn_listen :: "int \<Rightarrow> 's \<Rightarrow> bool \<times> 's"
  tn_accept :: "int \<Rightarrow> 's \<Rightarrow> int \<times> 's"

subsection \<open>The client\<close>

text \<open>A function of a client takes the client and the world and returns both.\<close>

record tcp_client =
  tc_fd :: int
  tc_ip :: "u8 list"
  tc_port :: u16

definition new_tcp_client :: "int \<Rightarrow> tcp_client" where
  "new_tcp_client fd = \<lparr> tc_fd = fd, tc_ip = [0, 0, 0, 0], tc_port = 0 \<rparr>"

text \<open>Assignment copies the descriptor only.\<close>

definition tcp_assign :: "tcp_client \<Rightarrow> tcp_client \<Rightarrow> tcp_client" where
  "tcp_assign another c = c\<lparr> tc_fd := tc_fd another \<rparr>"

definition tcp_connected :: "tcp_client \<Rightarrow> bool" where
  "tcp_connected c \<longleftrightarrow> tc_fd c \<noteq> -1"

definition tcp_stop :: "('s, 'z) tcp_net_scheme \<Rightarrow> tcp_client \<Rightarrow> 's \<Rightarrow> tcp_client \<times> 's" where
  "tcp_stop n c w =
     (if tc_fd c \<noteq> -1
      then let w = tn_shutdown n (tc_fd c) w; w = tn_close n (tc_fd c) w in (c\<lparr> tc_fd := -1 \<rparr>, w)
      else (c, w))"

definition tcp_available :: "('s, 'z) tcp_net_scheme \<Rightarrow> tcp_client \<Rightarrow> 's \<Rightarrow> bool \<times> tcp_client \<times> 's" where
  "tcp_available n c w =
     (let (rv, w) = tn_poll n (tc_fd c) w in
      case rv of
        Poll_Error \<Rightarrow> (False, tcp_stop n c w)
      | Poll_Idle \<Rightarrow> (False, c, w)
      | Poll_Ready pollin hup nval \<Rightarrow> if nval then (False, tcp_stop n c w) else (pollin \<or> hup, c, w))"

definition tcp_set_nodelay :: "('s, 'z) tcp_net_scheme \<Rightarrow> bool \<Rightarrow> tcp_client \<Rightarrow> 's \<Rightarrow> 's" where
  "tcp_set_nodelay n nodelay c w = (if tc_fd c \<noteq> -1 then tn_setsockopt n (tc_fd c) (No_Delay nodelay) w else w)"

definition tcp_set_timeouts :: "('s, 'z) tcp_net_scheme \<Rightarrow> int \<Rightarrow> nat \<Rightarrow> nat \<Rightarrow> 's \<Rightarrow> 's" where
  "tcp_set_timeouts n fd rcv_us snd_us w =
     (let w = tn_setsockopt n fd (Rcv_Timeout_us rcv_us) w in tn_setsockopt n fd (Snd_Timeout_us snd_us) w)"

definition tcp_connect ::
  "('s, 'z) tcp_net_scheme \<Rightarrow> u8 list \<Rightarrow> u16 \<Rightarrow> tcp_client \<Rightarrow> 's \<Rightarrow> bool \<times> tcp_client \<times> 's" where
  "tcp_connect n address port c w =
     (let (c, w) = (if tc_fd c \<noteq> -1 then tcp_stop n c w else (c, w));
          (fd, w) = tn_socket n w;
          c = c\<lparr> tc_fd := fd \<rparr>
      in if fd = -1 then (False, c, w)
         else let c = c\<lparr> tc_ip := address, tc_port := port \<rparr>;
                  w = tcp_set_timeouts n fd 2000000 2000000 w;
                  (status, w) = tn_connect n fd (tc_ip c) (tc_port c) w;
                  w = (if status = Connect_Done
                       then let w = tcp_set_timeouts n fd 1000 2000000 w in tcp_set_nodelay n True c w
                       else w)
              in (status = Connect_Done, c, w))"

text \<open>
  The preparation of a connection that does not block.  (A socket that is still open is only stopped when
  \<^verbatim>\<open>ETCP_ERROR_PRINT\<close> is defined, the call being inside the debug print; a caller that kept one would leak it.)
\<close>

definition tcp_prepare_connect ::
  "('s, 'z) tcp_net_scheme \<Rightarrow> u8 list \<Rightarrow> u16 \<Rightarrow> tcp_client \<Rightarrow> 's \<Rightarrow> bool \<times> tcp_client \<times> 's" where
  "tcp_prepare_connect n address port c w =
     (let (fd, w) = tn_socket n w; c = c\<lparr> tc_fd := fd \<rparr> in
      if fd = -1 then (False, c, w)
      else let c = c\<lparr> tc_ip := address, tc_port := port \<rparr>;
               (flags, w) = tn_has_flags n fd w;
               w = (if flags then tn_set_nonblock n fd True w else w)
           in (flags, c, w))"

text \<open>-1 is a failure, 0 is to be tried again, 1 is connected.\<close>

definition tcp_try_connect :: "('s, 'z) tcp_net_scheme \<Rightarrow> tcp_client \<Rightarrow> 's \<Rightarrow> int \<times> tcp_client \<times> 's" where
  "tcp_try_connect n c w =
     (let (status, w) = tn_connect n (tc_fd c) (tc_ip c) (tc_port c) w in
      if status = Connect_Pending then (0, c, w)
      else if status = Connect_Error then (-1, tcp_stop n c w)
      else let (flags, w) = tn_has_flags n (tc_fd c) w;
               w = (if flags then tn_set_nonblock n (tc_fd c) False w else w);
               w = tcp_set_timeouts n (tc_fd c) 1000 2000000 w;
               w = tcp_set_nodelay n True c w
           in (1, c, w))"

text \<open>
  The value -1 is \<^term>\<open>None\<close>.  No data within the time-out of the socket and a connection closed by the peer
  both read nothing.
\<close>

definition tcp_read ::
  "('s, 'z) tcp_net_scheme \<Rightarrow> nat \<Rightarrow> tcp_client \<Rightarrow> 's \<Rightarrow> u8 list option \<times> tcp_client \<times> 's" where
  "tcp_read n buffer_size c w =
     (if tc_fd c = -1 then (None, c, w)
      else let (r, w) = tn_recv n (tc_fd c) buffer_size w in
           case r of Recv bs \<Rightarrow> (Some bs, c, w) | Recv_Again \<Rightarrow> (Some [], c, w) | Recv_Error \<Rightarrow> (None, tcp_stop n c w))"

definition tcp_write :: "('s, 'z) tcp_net_scheme \<Rightarrow> u8 list \<Rightarrow> tcp_client \<Rightarrow> 's \<Rightarrow> int \<times> tcp_client \<times> 's" where
  "tcp_write n buffer c w =
     (if tc_fd c = -1 then (-1, c, w)
      else let (sent, w) = tn_send n (tc_fd c) buffer w in
           if sent = -1 then (sent, tcp_stop n c w) else (sent, c, w))"

subsection \<open>The server\<close>

record tcp_server =
  sv_port :: u16
  sv_fd :: int

definition new_tcp_server :: "u16 \<Rightarrow> tcp_server" where
  "new_tcp_server listening_port = \<lparr> sv_port = listening_port, sv_fd = -1 \<rparr>"

definition server_stop :: "('s, 'z) tcp_net_scheme \<Rightarrow> tcp_server \<Rightarrow> 's \<Rightarrow> tcp_server \<times> 's" where
  "server_stop n v w = (if sv_fd v \<noteq> -1 then (v\<lparr> sv_fd := -1 \<rparr>, tn_close n (sv_fd v) w) else (v, w))"

definition server_available :: "('s, 'z) tcp_net_scheme \<Rightarrow> tcp_server \<Rightarrow> 's \<Rightarrow> tcp_client \<times> 's" where
  "server_available n v w =
     (let (fd, w) = (if sv_fd v = -1 then (-1, w) else tn_accept n (sv_fd v) w);
          w = (if fd \<noteq> -1
               then let w = tcp_set_timeouts n fd 1000 2000000 w in tn_setsockopt n fd (No_Delay True) w
               else w)
      in (new_tcp_client fd, w))"

definition server_begin :: "('s, 'z) tcp_net_scheme \<Rightarrow> tcp_server \<Rightarrow> 's \<Rightarrow> bool \<times> tcp_server \<times> 's" where
  "server_begin n v w =
     (let (v, w) = (if sv_fd v \<noteq> -1 then (v\<lparr> sv_fd := -1 \<rparr>, tn_close n (sv_fd v) w) else (v, w));
          (fd, w) = tn_socket n w;
          v = v\<lparr> sv_fd := fd \<rparr>
      in if fd = -1 then (False, v, w)
         else let w = tn_setsockopt n fd Reuse_Addr w; (bound, w) = tn_bind n fd (sv_port v) w in
           if \<not> bound then (False, v, w)
           else let (listening, w) = tn_listen n fd w in
             if \<not> listening then (False, v, w)
             else let (flags, w) = tn_has_flags n fd w;
                      w = (if flags then tn_set_nonblock n fd True w else w)
                  in (True, v, w))"

end
