(* ===== verification/Ethernet_Link.thy ===== *)
theory Ethernet_Link
  imports Tcp Udp
begin

text \<open>
  \<^verbatim>\<open>src/strategies/EthernetTCP/EthernetLink.h\<close>: packets over TCP connections, as a POSIX build compiles it
  (no \<^verbatim>\<open>HAS_ETHERNETUDP\<close>).  A packet travels as a header of four bytes, the id of the device, the length
  (four bytes, most significant first), the packet and a footer of four bytes.

  The optional parts \<^verbatim>\<open>ETCP_SINGLE_SOCKET_WITH_ACK\<close> and \<^verbatim>\<open>ETCP_SINGLE_DIRECTION\<close> and the sizes are the record
  \<open>etcp_build\<close>.  The reference \<^verbatim>\<open>client\<close> is the name of one of the two members it can refer to.  The calls
  of the receiver function are recorded in \<open>el_delivered\<close>, in order; the link does nothing between a call
  and its own return that the receiver could see.

  Loops that wait for a clock or a peer take \<open>fuel\<close>; \<^term>\<open>None\<close> is an access out of bounds, a read of an
  uninitialised variable, or a call that has not returned.
\<close>

subsection \<open>State\<close>

definition ETCP_HEADER :: u32 where "ETCP_HEADER = 0x18ABC427"
definition ETCP_FOOTER :: u32 where "ETCP_FOOTER = 0x9ABE8873"
definition ETCP_SINGLE_SOCKET_HEADER :: u32 where "ETCP_SINGLE_SOCKET_HEADER = 0x4E92AC90"
definition ETCP_SINGLE_SOCKET_FOOTER :: u32 where "ETCP_SINGLE_SOCKET_FOOTER = 0x7BB1E3F4"
definition ETCP_CONNECTION_HEADER_A :: u32 where "ETCP_CONNECTION_HEADER_A = 0xFEDFED67"
definition ETCP_CONNECTION_HEADER_A_ACK :: u32 where "ETCP_CONNECTION_HEADER_A_ACK = 0xFEDFED68"
definition ETCP_CONNECTION_HEADER_B :: u32 where "ETCP_CONNECTION_HEADER_B = 0xFEDFED77"

record etcp_build =
  eb_single_socket_ack :: bool
  eb_single_direction :: bool
  eb_max_remote_nodes :: nat
  eb_max_packet_size :: u32
  eb_idle_timeout :: u32

definition default_etcp :: etcp_build where
  "default_etcp =
     \<lparr> eb_single_socket_ack = False, eb_single_direction = False, eb_max_remote_nodes = 10,
       eb_max_packet_size = 300, eb_idle_timeout = 30000 \<rparr>"

datatype side = Out | In

record 's elink =
  el_server :: "tcp_server option"
  el_client_out :: tcp_client
  el_client_in :: tcp_client
  el_current_device :: int
  el_ack_requested :: bool
  el_connection_time :: u32
  el_connection_count :: u32
  el_last_receive_time :: u32
  el_receiver :: bool
  el_delivered :: "(u8 \<times> u8 list) list"
  el_local_id :: u8
  el_local_port :: u16
  el_nodes :: "remote_node list"
  el_keep_connection :: bool
  el_single_socket :: bool
  el_request_ack :: bool
  el_receive_and_discard :: bool
  el_both_in_same_direction :: bool
  el_initiator :: bool
  el_world :: 's

definition new_elink :: "'s \<Rightarrow> 's elink" where
  "new_elink world =
     \<lparr> el_server = None, el_client_out = new_tcp_client (-1), el_client_in = new_tcp_client (-1),
       el_current_device = -1, el_ack_requested = False, el_connection_time = 0, el_connection_count = 0,
       el_last_receive_time = 0, el_receiver = False, el_delivered = [], el_local_id = 0,
       el_local_port = 7000, el_nodes = [], el_keep_connection = False, el_single_socket = False,
       el_request_ack = False, el_receive_and_discard = False, el_both_in_same_direction = False,
       el_initiator = True, el_world = world \<rparr>"

definition el_in :: "('s \<Rightarrow> 'a \<times> 's) \<Rightarrow> 's elink \<Rightarrow> 'a \<times> 's elink" where
  "el_in f l = (let (x, w) = f (el_world l) in (x, l\<lparr> el_world := w \<rparr>))"

definition el_on :: "('s \<Rightarrow> 's) \<Rightarrow> 's elink \<Rightarrow> 's elink" where
  "el_on f l = l\<lparr> el_world := f (el_world l) \<rparr>"

fun el_client :: "side \<Rightarrow> 's elink \<Rightarrow> tcp_client" where
  "el_client Out l = el_client_out l"
| "el_client In l = el_client_in l"

fun set_client :: "side \<Rightarrow> tcp_client \<Rightarrow> 's elink \<Rightarrow> 's elink" where
  "set_client Out c l = l\<lparr> el_client_out := c \<rparr>"
| "set_client In c l = l\<lparr> el_client_in := c \<rparr>"

definition on_client :: "side \<Rightarrow> (tcp_client \<Rightarrow> 's \<Rightarrow> 'a \<times> tcp_client \<times> 's) \<Rightarrow> 's elink \<Rightarrow> 'a \<times> 's elink" where
  "on_client d f l = (let (x, c, w) = f (el_client d l) (el_world l) in (x, (set_client d c l)\<lparr> el_world := w \<rparr>))"

definition link_connected :: "side \<Rightarrow> 's elink \<Rightarrow> bool" where
  "link_connected d l = tcp_connected (el_client d l)"

definition link_stop :: "('s, 'z) tcp_net_scheme \<Rightarrow> side \<Rightarrow> 's elink \<Rightarrow> 's elink" where
  "link_stop n d l = snd (on_client d (\<lambda>c w. ((), tcp_stop n c w)) l)"

definition link_available :: "('s, 'z) tcp_net_scheme \<Rightarrow> side \<Rightarrow> 's elink \<Rightarrow> bool \<times> 's elink" where
  "link_available n d l = on_client d (tcp_available n) l"

definition link_write :: "('s, 'z) tcp_net_scheme \<Rightarrow> side \<Rightarrow> u8 list \<Rightarrow> 's elink \<Rightarrow> int \<times> 's elink" where
  "link_write n d bs l = on_client d (tcp_write n bs) l"

definition link_millis :: "('s, 'z) tcp_net_scheme \<Rightarrow> 's elink \<Rightarrow> u32 \<times> 's elink" where
  "link_millis n l = el_in (tn_millis n) l"

subsection \<open>Configuration\<close>

definition new_elink_id :: "u8 \<Rightarrow> 's \<Rightarrow> 's elink" where
  "new_elink_id did world = (new_elink world)\<lparr> el_local_id := did \<rparr>"

definition link_add_node :: "etcp_build \<Rightarrow> u8 \<Rightarrow> u8 list \<Rightarrow> u16 \<Rightarrow> 's elink \<Rightarrow> int \<times> 's elink" where
  "link_add_node eb remote_id remote_ip port_number l =
     (if length (el_nodes l) = eb_max_remote_nodes eb then (-1, l)
      else let l = l\<lparr> el_nodes := el_nodes l @ [\<lparr> rn_id = remote_id, rn_ip = remote_ip, rn_port = port_number \<rparr>] \<rparr>
           in (int (length (el_nodes l)) - 1, l))"

definition link_start_listening :: "('s, 'z) tcp_net_scheme \<Rightarrow> u16 \<Rightarrow> 's elink \<Rightarrow> 's elink" where
  "link_start_listening n port_number l =
     (let l = l\<lparr> el_local_port := port_number, el_initiator := False \<rparr> in
      if el_server l = None \<and> (\<not> el_both_in_same_direction l \<or> \<not> el_initiator l)
      then let (_, v, w) = server_begin n (new_tcp_server port_number) (el_world l)
           in l\<lparr> el_server := Some v, el_world := w \<rparr>
      else l)"

definition link_keep_connection :: "bool \<Rightarrow> 's elink \<Rightarrow> 's elink" where
  "link_keep_connection keep l = l\<lparr> el_keep_connection := keep \<rparr>"

definition link_request_ack :: "bool \<Rightarrow> 's elink \<Rightarrow> 's elink" where
  "link_request_ack request l = l\<lparr> el_request_ack := request \<rparr>"

definition link_single_socket :: "bool \<Rightarrow> 's elink \<Rightarrow> 's elink" where
  "link_single_socket single l =
     link_request_ack True (link_keep_connection True (l\<lparr> el_single_socket := single \<rparr>))"

definition link_single_initiate_direction :: "bool \<Rightarrow> 's elink \<Rightarrow> 's elink" where
  "link_single_initiate_direction single l =
     link_request_ack True (link_keep_connection True (l\<lparr> el_both_in_same_direction := single \<rparr>))"

definition link_set_id :: "u8 \<Rightarrow> 's elink \<Rightarrow> 's elink" where
  "link_set_id did l = l\<lparr> el_local_id := did \<rparr>"

definition link_set_receiver :: "'s elink \<Rightarrow> 's elink" where
  "link_set_receiver l = l\<lparr> el_receiver := True \<rparr>"

subsection \<open>Reading\<close>

text \<open>
  \<^verbatim>\<open>read_bytes\<close> returns the bytes it stored at the start of the buffer; their number is the value of the
  function.  It stops at the length, at an error (which closes the client) or when the time is over.
\<close>

fun read_bytes_loop ::
  "('s, 'z) tcp_net_scheme \<Rightarrow> nat \<Rightarrow> side \<Rightarrow> nat \<Rightarrow> u16 \<Rightarrow> u32 \<Rightarrow> u8 list \<Rightarrow> 's elink \<Rightarrow> (u8 list \<times> 's elink) option" where
  "read_bytes_loop n 0 d len timeout start contents l = None"
| "read_bytes_loop n (Suc fuel) d len timeout start contents l =
     (case on_client d (tcp_read n (len - length contents)) l of
        (None, l) \<Rightarrow> Some (contents, link_stop n d l)
      | (Some bs, l) \<Rightarrow>
          if len - length contents < length bs then None
          else let contents = contents @ bs in
            if length contents < len
            then let (now, l) = link_millis n l in
                 if now - start < ucast timeout then read_bytes_loop n fuel d len timeout start contents l
                 else Some (contents, l)
            else Some (contents, l))"

definition read_bytes ::
  "('s, 'z) tcp_net_scheme \<Rightarrow> nat \<Rightarrow> side \<Rightarrow> nat \<Rightarrow> u16 \<Rightarrow> 's elink \<Rightarrow> (u8 list \<times> 's elink) option" where
  "read_bytes n fuel d len timeout l =
     (let (start, l) = link_millis n l in read_bytes_loop n fuel d len timeout start [] l)"

text \<open>
  \<open>head\<close> are the four bytes of the variable in memory, on a little-endian machine, where shifting it down
  by 8 drops the first byte and leaves a zero in the last.
\<close>

fun header_loop ::
  "('s, 'z) tcp_net_scheme \<Rightarrow> nat \<Rightarrow> nat \<Rightarrow> side \<Rightarrow> u8 list \<Rightarrow> u8 list \<Rightarrow> 's elink \<Rightarrow> (bool \<times> 's elink) option" where
  "header_loop n 0 fuel d header head l = None"
| "header_loop n (Suc rounds) fuel d header head l =
     (let head = tl head @ [0] in
      case read_bytes n fuel d 1 2000 l of
        None \<Rightarrow> None
      | Some (bs, l) \<Rightarrow>
          if length bs \<noteq> 1 then Some (head = header, l)
          else let head = butlast head @ bs in
            if head \<noteq> header then header_loop n rounds fuel d header head l else Some (head = header, l))"

definition read_until_header ::
  "('s, 'z) tcp_net_scheme \<Rightarrow> nat \<Rightarrow> side \<Rightarrow> u32 \<Rightarrow> 's elink \<Rightarrow> (bool \<times> 's elink) option" where
  "read_until_header n fuel d header l =
     (case read_bytes n fuel d 4 2000 l of
        None \<Rightarrow> None
      | Some (bs, l) \<Rightarrow>
          let head = bs @ drop (length bs) [0, 0, 0, 0] in
          if length bs \<noteq> 4 \<or> head \<noteq> be32 header then header_loop n fuel fuel d (be32 header) head l
          else Some (True, l))"

subsection \<open>Closing\<close>

definition disconnect_in :: "etcp_build \<Rightarrow> ('s, 'z) tcp_net_scheme \<Rightarrow> 's elink \<Rightarrow> 's elink" where
  "disconnect_in eb n l =
     (let l = (if eb_single_direction eb \<and> el_both_in_same_direction l \<and> link_connected Out l
               then link_stop n Out l else l)
      in if link_connected In l then link_stop n In l else l)"

definition disconnect_out :: "etcp_build \<Rightarrow> ('s, 'z) tcp_net_scheme \<Rightarrow> 's elink \<Rightarrow> 's elink" where
  "disconnect_out eb n l =
     (let l = (if link_connected Out l then link_stop n Out l else l)
      in if eb_single_direction eb \<and> el_both_in_same_direction l \<and> link_connected In l
         then link_stop n In l else l)"

definition disconnect_out_if_needed :: "('s, 'z) tcp_net_scheme \<Rightarrow> u16 \<Rightarrow> 's elink \<Rightarrow> 's elink" where
  "disconnect_out_if_needed n result l =
     (if link_connected Out l \<and> (result = PJON_FAIL \<or> \<not> el_keep_connection l) then link_stop n Out l else l)"

definition disconnect_in_if_needed :: "('s, 'z) tcp_net_scheme \<Rightarrow> 's elink \<Rightarrow> 's elink" where
  "disconnect_in_if_needed n l =
     (if link_connected In l \<and> \<not> el_keep_connection l then link_stop n In l else l)"

definition got_receive_timeout :: "etcp_build \<Rightarrow> ('s, 'z) tcp_net_scheme \<Rightarrow> 's elink \<Rightarrow> bool \<times> 's elink" where
  "got_receive_timeout eb n l =
     (let (now, l) = link_millis n l in (eb_idle_timeout eb < now - el_last_receive_time l, l))"

subsection \<open>Receiving a packet\<close>

text \<open>
  The wait for data.  \<open>avail\<close> is \<^term>\<open>None\<close> as long as the variable has not been assigned: the loop of a client
  that is not connected never assigns it.
\<close>

fun wait_available ::
  "('s, 'z) tcp_net_scheme \<Rightarrow> nat \<Rightarrow> side \<Rightarrow> u32 \<Rightarrow> bool option \<Rightarrow> 's elink \<Rightarrow> (bool option \<times> 's elink) option" where
  "wait_available n 0 d start avail l = None"
| "wait_available n (Suc fuel) d start avail l =
     (if link_connected d l
      then let (a, l) = link_available n d l in
           if a then Some (Some a, l)
           else let (now, l) = link_millis n l in
             if now - start < 1000
             then wait_available n fuel d start (Some a) (el_on (tn_delay_us n 250) l)
             else Some (Some a, l)
      else Some (avail, l))"

text \<open>Four bytes in network byte order.\<close>

definition ntohl :: "u8 list \<Rightarrow> u32" where
  "ntohl bs =
     push_bit 24 (ucast (bs ! 0)) OR push_bit 16 (ucast (bs ! 1)) OR push_bit 8 (ucast (bs ! 2)) OR ucast (bs ! 3)"

text \<open>The id of the sender and the length of the contents; a length of 0 is refused.\<close>

definition read_frame_meta ::
  "('s, 'z) tcp_net_scheme \<Rightarrow> nat \<Rightarrow> side \<Rightarrow> bool \<Rightarrow> 's elink \<Rightarrow> ((bool \<times> u8 \<times> u32) \<times> 's elink) option" where
  "read_frame_meta n fuel d ok l =
     (if ok
      then map_option (\<lambda>(bs, l). (if length bs \<noteq> 5 then (False, 0, 0)
                                  else (ntohl (drop 1 bs) \<noteq> 0, bs ! 0, ntohl (drop 1 bs)), l))
             (read_bytes n fuel d 5 2000 l)
      else Some ((False, 0, 0), l))"

text \<open>
  The contents, into a buffer whose size is the length in 16 bits.  The number of bytes is compared as
  \<^verbatim>\<open>(uint32_t)bytes_read\<close>, with the sign of \<^verbatim>\<open>int16_t\<close>.
\<close>

definition read_frame_contents ::
  "('s, 'z) tcp_net_scheme \<Rightarrow> nat \<Rightarrow> side \<Rightarrow> bool \<Rightarrow> u32 \<Rightarrow> 's elink \<Rightarrow> ((bool \<times> u8 list) \<times> 's elink) option" where
  "read_frame_contents n fuel d ok len l =
     (if ok
      then map_option (\<lambda>(bs, l). ((scast (of_nat (length bs) :: u16) = len, bs), l))
             (read_bytes n fuel d (unat (ucast len :: u16)) 2000 l)
      else Some ((False, []), l))"

definition read_frame_footer ::
  "('s, 'z) tcp_net_scheme \<Rightarrow> nat \<Rightarrow> side \<Rightarrow> bool \<Rightarrow> 's elink \<Rightarrow> (bool \<times> 's elink) option" where
  "read_frame_footer n fuel d ok l =
     (if ok
      then map_option (\<lambda>(bs, l). (bs = be32 ETCP_FOOTER, l)) (read_bytes n fuel d 4 2000 l)
      else Some (False, l))"

text \<open>The answer and the call of the receiver, which must have been set.\<close>

definition finish_receive ::
  "etcp_build \<Rightarrow> ('s, 'z) tcp_net_scheme \<Rightarrow> side \<Rightarrow> bool \<Rightarrow> u8 \<Rightarrow> u8 list \<Rightarrow> 's elink \<Rightarrow> (u16 \<times> 's elink) option" where
  "finish_receive eb n d ok sender_id contents l =
     (let return_value = (if ok then PJON_ACK else PJON_FAIL);
          l = (if ok then let (now, l) = link_millis n l in l\<lparr> el_last_receive_time := now \<rparr> else l);
          l = (if el_ack_requested l \<and> \<not> el_receive_and_discard l \<and> ok
               then snd (link_write n d [hi8 return_value, lo8 return_value] l) else l)
      in if ok \<and> \<not> el_receive_and_discard l
         then if el_receiver l
              then Some (return_value, l\<lparr> el_delivered := el_delivered l @ [(sender_id, contents)] \<rparr>)
              else None
         else Some (return_value, if ok then l else disconnect_in eb n l))"

definition receive_from ::
  "etcp_build \<Rightarrow> ('s, 'z) tcp_net_scheme \<Rightarrow> nat \<Rightarrow> side \<Rightarrow> bool \<Rightarrow> 's elink \<Rightarrow> (u16 \<times> 's elink) option" where
  "receive_from eb n fuel d wait l =
     do { let (start_ms, l) = link_millis n l;
          (avail, l) \<leftarrow> (if wait then wait_available n fuel d start_ms None l
                        else Some (let (a, l) = (if link_connected d l then link_available n d l else (False, l))
                                   in (Some a, l)));
          avail \<leftarrow> avail;
          if \<not> avail then Some (PJON_FAIL, l)
          else do { (ok, l) \<leftarrow> read_until_header n fuel d ETCP_HEADER l;
                    ((ok, sender_id, content_length), l) \<leftarrow> read_frame_meta n fuel d ok l;
                    if eb_max_packet_size eb < content_length then Some (PJON_FAIL, l)
                    else do { ((ok, contents), l) \<leftarrow> read_frame_contents n fuel d ok content_length l;
                              (ok, l) \<leftarrow> read_frame_footer n fuel d ok l;
                              finish_receive eb n d ok sender_id contents l } } }"

subsection \<open>Connecting\<close>

text \<open>While it connects, the device accepts and drops whoever connects to it.\<close>

definition drop_incoming :: "('s, 'z) tcp_net_scheme \<Rightarrow> 's elink \<Rightarrow> 's elink" where
  "drop_incoming n l =
     (case el_server l of
        Some v \<Rightarrow>
          if \<not> el_both_in_same_direction l \<and> \<not> el_single_socket l
          then let (c, w) = server_available n v (el_world l);
                   w = (if tcp_connected c then snd (tcp_stop n c w) else w)
               in l\<lparr> el_world := w \<rparr>
          else l
      | None \<Rightarrow> l)"

fun connect_loop :: "('s, 'z) tcp_net_scheme \<Rightarrow> nat \<Rightarrow> u32 \<Rightarrow> 's elink \<Rightarrow> (int \<times> 's elink) option" where
  "connect_loop n 0 start l = None"
| "connect_loop n (Suc fuel) start l =
     (let l = drop_incoming n l; (status, l) = on_client Out (tcp_try_connect n) l in
      if status = 0
      then let (r, l) = el_in (pf_random n 250) l;
               l = el_on (tn_delay_us n r) l;
               (now, l) = link_millis n l
           in if now - start < 4000 then connect_loop n fuel start l else Some (status, l)
      else Some (status, l))"

definition write_connection_header :: "('s, 'z) tcp_net_scheme \<Rightarrow> side \<Rightarrow> u32 \<Rightarrow> 's elink \<Rightarrow> bool \<times> 's elink" where
  "write_connection_header n d header l = (let (written, l) = link_write n d (be32 header) l in (written = 4, l))"

definition connect_out ::
  "('s, 'z) tcp_net_scheme \<Rightarrow> nat \<Rightarrow> remote_node \<Rightarrow> 's elink \<Rightarrow> (bool \<times> 's elink) option" where
  "connect_out n fuel node l =
     (let (prepared, l) = on_client Out (tcp_prepare_connect n (rn_ip node) (rn_port node)) l in
      do { (connected, l) \<leftarrow> (if prepared
                              then let (start, l) = link_millis n l
                                   in map_option (\<lambda>(status, l). (status = 1, l)) (connect_loop n fuel start l)
                              else Some (False, l));
           let (connected, l) =
             (if connected
              then write_connection_header n Out
                     (if el_request_ack l then ETCP_CONNECTION_HEADER_A_ACK else ETCP_CONNECTION_HEADER_A) l
              else (False, l));
           Some (connected, if connected then l else link_stop n Out l) })"

fun connect_in_loop ::
  "('s, 'z) tcp_net_scheme \<Rightarrow> nat \<Rightarrow> remote_node \<Rightarrow> u32 \<Rightarrow> 's elink \<Rightarrow> (bool \<times> 's elink) option" where
  "connect_in_loop n 0 node start l = None"
| "connect_in_loop n (Suc fuel) node start l =
     (let (connected, l) = on_client In (tcp_connect n (rn_ip node) (rn_port node)) l in
      if connected then Some (True, l)
      else let (now, l) = link_millis n l in
        if now - start < 2000 then connect_in_loop n fuel node start l else Some (False, l))"

text \<open>The reverse connection; the values are whether it is there and whether it is new.\<close>

definition connect_reverse ::
  "('s, 'z) tcp_net_scheme \<Rightarrow> nat \<Rightarrow> remote_node \<Rightarrow> 's elink \<Rightarrow> ((bool \<times> bool) \<times> 's elink) option" where
  "connect_reverse n fuel node l =
     (if link_connected In l then Some ((True, False), l)
      else let (start, l) = link_millis n l in
        do { (connected, l) \<leftarrow> connect_in_loop n fuel node start l;
             let (connected, l) =
               (if connected then write_connection_header n In ETCP_CONNECTION_HEADER_B l else (False, l));
             let l = (if connected
                      then let (now, l) = link_millis n (l\<lparr> el_ack_requested := el_request_ack l \<rparr>)
                           in l\<lparr> el_last_receive_time := now \<rparr>
                      else l);
             Some ((connected, connected), l) })"

text \<open>Whether the connections there are must be given up first.\<close>

definition connect_disconnects ::
  "etcp_build \<Rightarrow> ('s, 'z) tcp_net_scheme \<Rightarrow> u8 \<Rightarrow> 's elink \<Rightarrow> bool \<times> 's elink" where
  "connect_disconnects eb n did l =
     (let reverse = el_both_in_same_direction l \<and> el_initiator l;
          disconnect = \<not> el_keep_connection l;
          (disconnect, l) = (if \<not> disconnect \<and> link_connected Out l \<and> el_current_device l \<noteq> uint did
                             then (True, l\<lparr> el_current_device := -1 \<rparr>) else (disconnect, l));
          disconnect = (disconnect \<or> eb_single_direction eb \<and> reverse \<and>
                                     (\<not> link_connected In l \<or> \<not> link_connected Out l))
      in if \<not> disconnect \<and> eb_single_direction eb \<and> reverse \<and> link_connected In l
         then got_receive_timeout eb n l
         else (disconnect, l))"

text \<open>The statistics of a new connection.\<close>

definition count_connection :: "('s, 'z) tcp_net_scheme \<Rightarrow> 's elink \<Rightarrow> 's elink" where
  "count_connection n l =
     (let (now, l) = link_millis n l
      in l\<lparr> el_connection_time := now, el_connection_count := el_connection_count l + 1 \<rparr>)"

definition link_connect ::
  "etcp_build \<Rightarrow> ('s, 'z) tcp_net_scheme \<Rightarrow> nat \<Rightarrow> u8 \<Rightarrow> 's elink \<Rightarrow> (bool \<times> 's elink) option" where
  "link_connect eb n fuel did l =
     (let reverse = el_both_in_same_direction l \<and> el_initiator l;
          (disconnect, l) = connect_disconnects eb n did l;
          l = (if disconnect then disconnect_out eb n l else l)
      in case find_remote_node did (el_nodes l) of
           None \<Rightarrow> Some (False, l)
         | Some pos \<Rightarrow> do {
             let was_connected = link_connected Out l;
             (connected, l) \<leftarrow> (if was_connected then Some (True, l) else connect_out n fuel (el_nodes l ! pos) l);
             ((connected_rev, new_rev), l) \<leftarrow>
               (if eb_single_direction eb \<and> connected \<and> reverse then connect_reverse n fuel (el_nodes l ! pos) l
                else Some ((False, False), l));
             let l = (if connected \<and> \<not> was_connected \<or> new_rev
                      then let l = count_connection n l
                           in if el_single_socket l then l\<lparr> el_ack_requested := el_request_ack l \<rparr> else l
                      else l);
             if \<not> connected \<or> reverse \<and> \<not> connected_rev
             then Some (False, el_on (pf_delay n 10) ((disconnect_out eb n l)\<lparr> el_current_device := -1 \<rparr>))
             else Some (True, l\<lparr> el_current_device := uint did \<rparr>) })"

subsection \<open>Accepting\<close>

definition accept_disconnects :: "etcp_build \<Rightarrow> ('s, 'z) tcp_net_scheme \<Rightarrow> 's elink \<Rightarrow> bool \<times> 's elink" where
  "accept_disconnects eb n l =
     (let reverse = el_both_in_same_direction l \<and> \<not> el_initiator l;
          disconnect = (\<not> el_keep_connection l \<or>
                        eb_single_direction eb \<and> reverse \<and> (\<not> link_connected In l \<or> \<not> link_connected Out l))
      in if \<not> disconnect \<and> link_connected In l then got_receive_timeout eb n l else (disconnect, l))"

text \<open>Using the server of a link that has none is a call through a null pointer.\<close>

definition link_server_available :: "('s, 'z) tcp_net_scheme \<Rightarrow> side \<Rightarrow> 's elink \<Rightarrow> 's elink option" where
  "link_server_available n d l =
     (case el_server l of
        None \<Rightarrow> None
      | Some v \<Rightarrow> let (c, w) = server_available n v (el_world l)
                  in Some ((set_client d (tcp_assign c (el_client d l)) l)\<lparr> el_world := w \<rparr>))"

definition accept_in ::
  "etcp_build \<Rightarrow> ('s, 'z) tcp_net_scheme \<Rightarrow> nat \<Rightarrow> 's elink \<Rightarrow> (bool \<times> 's elink) option" where
  "accept_in eb n fuel l =
     do { l \<leftarrow> link_server_available n In l;
          if \<not> link_connected In l then Some (False, l)
          else do { (header, l) \<leftarrow> read_bytes n fuel In 4 2000 l;
                    if header = be32 ETCP_CONNECTION_HEADER_A
                    then Some (True, l\<lparr> el_ack_requested := False \<rparr>)
                    else if header = be32 ETCP_CONNECTION_HEADER_A_ACK
                    then Some (True, l\<lparr> el_ack_requested := True \<rparr>)
                    else Some (False, disconnect_in eb n l) } }"

fun accept_reverse_loop ::
  "('s, 'z) tcp_net_scheme \<Rightarrow> nat \<Rightarrow> u32 \<Rightarrow> 's elink \<Rightarrow> 's elink option" where
  "accept_reverse_loop n 0 start l = None"
| "accept_reverse_loop n (Suc fuel) start l =
     do { l \<leftarrow> link_server_available n Out l;
          if link_connected Out l then Some l
          else let (now, l) = link_millis n l in
            if now - start < 2000 then accept_reverse_loop n fuel start l else Some l }"

definition accept_reverse ::
  "etcp_build \<Rightarrow> ('s, 'z) tcp_net_scheme \<Rightarrow> nat \<Rightarrow> 's elink \<Rightarrow> (bool \<times> 's elink) option" where
  "accept_reverse eb n fuel l =
     (let l = l\<lparr> el_request_ack := el_ack_requested l \<rparr>; (start, l) = link_millis n l in
      do { l \<leftarrow> accept_reverse_loop n fuel start l;
           (connected, l) \<leftarrow>
             (if link_connected Out l
              then map_option (\<lambda>(header, l). (header = be32 ETCP_CONNECTION_HEADER_B, l))
                     (read_bytes n fuel Out 4 2000 l)
              else Some (False, l));
           Some (connected, if connected then l else disconnect_in eb n l) })"

definition link_accept ::
  "etcp_build \<Rightarrow> ('s, 'z) tcp_net_scheme \<Rightarrow> nat \<Rightarrow> 's elink \<Rightarrow> (bool \<times> 's elink) option" where
  "link_accept eb n fuel l =
     (let reverse = el_both_in_same_direction l \<and> \<not> el_initiator l;
          (disconnect, l) = accept_disconnects eb n l;
          l = (if disconnect then disconnect_in eb n l else l);
          was_connected = link_connected In l
      in do { (connected, l) \<leftarrow> (if was_connected then Some (True, l) else accept_in eb n fuel l);
              let did_connect = (connected \<and> \<not> was_connected);
              ((connected, new_rev), l) \<leftarrow>
                (if eb_single_direction eb \<and> connected \<and> reverse \<and> \<not> link_connected Out l
                 then map_option (\<lambda>(rev, l). ((rev, rev), l)) (accept_reverse eb n fuel l)
                 else Some ((connected, False), l));
              let l = (if did_connect \<or> new_rev
                       then let (now, l) = link_millis n (count_connection n l)
                            in l\<lparr> el_last_receive_time := now \<rparr>
                       else l);
              Some (connected, l) })"

subsection \<open>Sending a packet\<close>

definition link_frame :: "u8 \<Rightarrow> u8 list \<Rightarrow> u8 list" where
  "link_frame did packet =
     be32 ETCP_HEADER @ [did] @ be32 (of_nat (length packet)) @ packet @ be32 ETCP_FOOTER"

definition await_ack ::
  "('s, 'z) tcp_net_scheme \<Rightarrow> nat \<Rightarrow> side \<Rightarrow> bool \<Rightarrow> 's elink \<Rightarrow> (u16 \<times> 's elink) option" where
  "await_ack n fuel d ok l =
     (if el_request_ack l
      then if ok
           then map_option (\<lambda>(bs, l). (if length bs = 2 \<and> join16 (bs ! 0) (bs ! 1) = PJON_ACK then PJON_ACK
                                       else PJON_FAIL, l))
                  (read_bytes n fuel d 2 2000 l)
           else Some (PJON_FAIL, l)
      else Some (if ok then PJON_ACK else PJON_FAIL, l))"

text \<open>
  The frame is collected in a buffer whose size is computed in 16 bits: a packet of more than 65522 bytes
  is copied beyond it.
\<close>

definition send_on ::
  "('s, 'z) tcp_net_scheme \<Rightarrow> nat \<Rightarrow> side \<Rightarrow> u8 \<Rightarrow> u8 list \<Rightarrow> 's elink \<Rightarrow> (u16 \<times> 's elink) option" where
  "send_on n fuel d did packet l =
     (let (busy, l) = (if \<not> el_single_socket l \<and> link_connected In l then link_available n In l else (False, l)) in
      if busy then Some (PJON_BUSY, l)
      else if 65536 \<le> 9 + length packet + 4 then None
      else let (written, l) = link_write n d (link_frame did packet) l
           in await_ack n fuel d (written = int (9 + length packet + 4)) l)"

subsection \<open>Both directions over one socket\<close>

fun await_data :: "('s, 'z) tcp_net_scheme \<Rightarrow> nat \<Rightarrow> side \<Rightarrow> 's elink \<Rightarrow> 's elink option" where
  "await_data n 0 d l = None"
| "await_data n (Suc fuel) d l =
     (let (a, l) = link_available n d l in
      if \<not> a \<and> link_connected d l then await_data n fuel d l else Some l)"

text \<open>The packets announced by the peer; the value is whether all of them were received.\<close>

primrec receive_packets ::
  "etcp_build \<Rightarrow> ('s, 'z) tcp_net_scheme \<Rightarrow> nat \<Rightarrow> side \<Rightarrow> nat \<Rightarrow> 's elink \<Rightarrow> (bool \<times> 's elink) option" where
  "receive_packets eb n fuel d 0 l = Some (True, l)"
| "receive_packets eb n fuel d (Suc k) l =
     do { l \<leftarrow> await_data n fuel d l;
          (r, l) \<leftarrow> receive_from eb n fuel d True l;
          if r = PJON_ACK then receive_packets eb n fuel d k l else Some (False, l) }"

definition read_count ::
  "('s, 'z) tcp_net_scheme \<Rightarrow> nat \<Rightarrow> side \<Rightarrow> bool \<Rightarrow> 's elink \<Rightarrow> ((bool \<times> nat) \<times> 's elink) option" where
  "read_count n fuel d ok l =
     (if ok
      then map_option (\<lambda>(bs, l). (if length bs = 1 then (True, unat (bs ! 0)) else (False, 0), l))
             (read_bytes n fuel d 1 2000 l)
      else Some ((False, 0), l))"

definition send_if :: "bool \<Rightarrow> ('s elink \<Rightarrow> (u16 \<times> 's elink) option) \<Rightarrow> bool \<Rightarrow> 's elink \<Rightarrow> (bool \<times> 's elink) option" where
  "send_if wanted f ok l =
     (if ok \<and> wanted then map_option (\<lambda>(r, l). (r = PJON_ACK, l)) (f l) else Some (ok, l))"

definition write_if :: "('s, 'z) tcp_net_scheme \<Rightarrow> side \<Rightarrow> u8 list \<Rightarrow> bool \<Rightarrow> 's elink \<Rightarrow> bool \<times> 's elink" where
  "write_if n d bs ok l =
     (if ok then let (written, l) = link_write n d bs l in (written = int (length bs), l) else (False, l))"

text \<open>\<open>packet\<close> is \<^term>\<open>None\<close> for a null pointer with length 0: only poll for packets of the peer.\<close>

definition packet_bytes :: "u8 list option \<Rightarrow> u8 list" where
  "packet_bytes packet = (case packet of None \<Rightarrow> [] | Some bs \<Rightarrow> bs)"

definition transfer_result :: "u8 list option \<Rightarrow> nat \<Rightarrow> bool \<Rightarrow> u16" where
  "transfer_result packet packets_in ok =
     (if packet = None \<and> packets_in = 0 then PJON_FAIL else if ok then PJON_ACK else PJON_FAIL)"

definition transfer_master ::
  "etcp_build \<Rightarrow> ('s, 'z) tcp_net_scheme \<Rightarrow> nat \<Rightarrow> side \<Rightarrow> int \<Rightarrow> u8 list option \<Rightarrow> 's elink \<Rightarrow> (u16 \<times> 's elink) option" where
  "transfer_master eb n fuel d did packet l =
     do { (connected, l) \<leftarrow> link_connect eb n fuel (word_of_int did) l;
          if \<not> connected then Some (PJON_FAIL, l)
          else do { let out = (packet_bytes packet \<noteq> []);
                    let (ok, l) = write_if n d (be32 ETCP_SINGLE_SOCKET_HEADER @ [of_bool out]) True l;
                    (ok, l) \<leftarrow> send_if out (send_on n fuel d (word_of_int did) (packet_bytes packet)) ok l;
                    ((ok, packets_in), l) \<leftarrow> read_count n fuel d ok l;
                    (ok, l) \<leftarrow> (if ok then receive_packets eb n fuel d packets_in l else Some (ok, l));
                    let (ok, l) = write_if n d (be32 ETCP_SINGLE_SOCKET_FOOTER) ok l;
                    let l = disconnect_out_if_needed n (if ok then PJON_ACK else PJON_FAIL) l;
                    Some (transfer_result packet packets_in ok, l) } }"

definition transfer_slave ::
  "etcp_build \<Rightarrow> ('s, 'z) tcp_net_scheme \<Rightarrow> nat \<Rightarrow> side \<Rightarrow> int \<Rightarrow> u8 list option \<Rightarrow> 's elink \<Rightarrow> (u16 \<times> 's elink) option" where
  "transfer_slave eb n fuel d did packet l =
     (let (late, l) = (if link_connected d l then got_receive_timeout eb n l else (False, l));
          l = (if late then link_stop n d l else l)
      in do { (connected, l) \<leftarrow> link_accept eb n fuel l;
              if \<not> connected then Some (PJON_FAIL, l)
              else do { (ok, l) \<leftarrow> read_until_header n fuel d ETCP_SINGLE_SOCKET_HEADER l;
                        let l = (if ok then let (now, l) = link_millis n l in l\<lparr> el_last_receive_time := now \<rparr> else l);
                        ((ok, packets_in), l) \<leftarrow> read_count n fuel d ok l;
                        (ok, l) \<leftarrow> (if ok then receive_packets eb n fuel d packets_in l else Some (ok, l));
                        let out = (packet_bytes packet \<noteq> []);
                        let (ok, l) = write_if n d [of_bool out] ok l;
                        (ok, l) \<leftarrow> send_if out (send_on n fuel d (word_of_int did) (packet_bytes packet)) ok l;
                        (ok, l) \<leftarrow> (if ok then map_option (\<lambda>(bs, l). (bs = be32 ETCP_SINGLE_SOCKET_FOOTER, l))
                                                 (read_bytes n fuel d 4 2000 l)
                                   else Some (ok, l));
                        let l = disconnect_in_if_needed n l;
                        let l = (if ok then l else link_stop n d l);
                        Some (transfer_result packet packets_in ok, l) } })"

definition single_socket_transfer ::
  "etcp_build \<Rightarrow> ('s, 'z) tcp_net_scheme \<Rightarrow> nat \<Rightarrow> side \<Rightarrow> int \<Rightarrow> bool \<Rightarrow> u8 list option \<Rightarrow> 's elink \<Rightarrow>
   (u16 \<times> 's elink) option" where
  "single_socket_transfer eb n fuel d did master packet l =
     (if master then transfer_master eb n fuel d did packet l else transfer_slave eb n fuel d did packet l)"

subsection \<open>The functions of the link\<close>

text \<open>The only node there is, or -1.\<close>

definition only_node :: "'s elink \<Rightarrow> int" where
  "only_node l = (case el_nodes l of [r] \<Rightarrow> uint (rn_id r) | _ \<Rightarrow> -1)"

definition link_receive ::
  "etcp_build \<Rightarrow> ('s, 'z) tcp_net_scheme \<Rightarrow> nat \<Rightarrow> 's elink \<Rightarrow> (u16 \<times> 's elink) option" where
  "link_receive eb n fuel l =
     (if el_server l = None
      then if el_single_socket l
           then if eb_single_socket_ack eb then single_socket_transfer eb n fuel Out (only_node l) True None l
                else Some (PJON_FAIL, l)
           else if eb_single_direction eb \<and> el_both_in_same_direction l \<and> el_initiator l
           then do { (_, l) \<leftarrow> link_connect eb n fuel (word_of_int (only_node l)) l;
                     (result, l) \<leftarrow> receive_from eb n fuel In False l;
                     let l = disconnect_out_if_needed n PJON_ACK l;
                     Some (result, disconnect_in_if_needed n l) }
           else Some (PJON_FAIL, l)
      else if el_single_socket l
      then if eb_single_socket_ack eb then single_socket_transfer eb n fuel In (-1) False None l
           else Some (PJON_FAIL, l)
      else do { (accepted, l) \<leftarrow> link_accept eb n fuel l;
                if \<not> accepted then Some (PJON_FAIL, l)
                else do { (result, l) \<leftarrow> receive_from eb n fuel In (\<not> el_keep_connection l) l;
                          Some (result, disconnect_in_if_needed n l) } })"

fun receive_for_loop ::
  "etcp_build \<Rightarrow> ('s, 'z) tcp_net_scheme \<Rightarrow> nat \<Rightarrow> nat \<Rightarrow> u32 \<Rightarrow> u32 \<Rightarrow> 's elink \<Rightarrow> (u16 \<times> 's elink) option" where
  "receive_for_loop eb n 0 fuel start duration_us l = None"
| "receive_for_loop eb n (Suc rounds) fuel start duration_us l =
     (case link_receive eb n fuel l of
        None \<Rightarrow> None
      | Some (result, l) \<Rightarrow>
          if result = PJON_ACK then Some (result, l)
          else let (now, l) = el_in (pf_micros n) (el_on (tn_delay_us n 250) l) in
               if now - start \<le> duration_us then receive_for_loop eb n rounds fuel start duration_us l
               else Some (result, l))"

definition link_receive_for ::
  "etcp_build \<Rightarrow> ('s, 'z) tcp_net_scheme \<Rightarrow> nat \<Rightarrow> u32 \<Rightarrow> 's elink \<Rightarrow> (u16 \<times> 's elink) option" where
  "link_receive_for eb n fuel duration_us l =
     (let (start, l) = el_in (pf_micros n) l in receive_for_loop eb n fuel fuel start duration_us l)"

definition poll_receive ::
  "etcp_build \<Rightarrow> ('s, 'z) tcp_net_scheme \<Rightarrow> nat \<Rightarrow> u8 \<Rightarrow> 's elink \<Rightarrow> (u16 \<times> 's elink) option" where
  "poll_receive eb n fuel remote_id l =
     (if el_single_socket l
      then if el_server l = None \<and> eb_single_socket_ack eb
           then single_socket_transfer eb n fuel Out (uint remote_id) True None l
           else Some (PJON_FAIL, l)
      else link_receive eb n fuel l)"

definition link_send ::
  "etcp_build \<Rightarrow> ('s, 'z) tcp_net_scheme \<Rightarrow> nat \<Rightarrow> u8 \<Rightarrow> u8 list \<Rightarrow> 's elink \<Rightarrow> (u16 \<times> 's elink) option" where
  "link_send eb n fuel did packet l =
     (if el_single_socket l
      then if eb_single_socket_ack eb
           then single_socket_transfer eb n fuel (if el_server l = None then Out else In) (uint did)
                  (el_server l = None) (Some packet) l
           else Some (PJON_FAIL, l)
      else do { (connected, l) \<leftarrow> (if eb_single_direction eb \<and> el_both_in_same_direction l \<and> \<not> el_initiator l
                                  then link_accept eb n fuel l else link_connect eb n fuel did l);
                (result, l) \<leftarrow> (if connected then send_on n fuel Out did packet l else Some (PJON_FAIL, l));
                Some (result, disconnect_out_if_needed n result l) })"

fun send_with_duration_loop ::
  "etcp_build \<Rightarrow> ('s, 'z) tcp_net_scheme \<Rightarrow> nat \<Rightarrow> nat \<Rightarrow> u8 \<Rightarrow> u8 list \<Rightarrow> u32 \<Rightarrow> u32 \<Rightarrow> 's elink \<Rightarrow>
   (u16 \<times> 's elink) option" where
  "send_with_duration_loop eb n 0 fuel did packet start duration_us l = None"
| "send_with_duration_loop eb n (Suc rounds) fuel did packet start duration_us l =
     (case link_send eb n fuel did packet l of
        None \<Rightarrow> None
      | Some (result, l) \<Rightarrow>
          if result = PJON_ACK then Some (result, l)
          else let (now, l) = el_in (pf_micros n) l in
               if now - start \<le> duration_us
               then send_with_duration_loop eb n rounds fuel did packet start duration_us l
               else Some (result, l))"

definition send_with_duration ::
  "etcp_build \<Rightarrow> ('s, 'z) tcp_net_scheme \<Rightarrow> nat \<Rightarrow> u8 \<Rightarrow> u8 list \<Rightarrow> u32 \<Rightarrow> 's elink \<Rightarrow> (u16 \<times> 's elink) option" where
  "send_with_duration eb n fuel did packet duration_us l =
     (let (start, l) = el_in (pf_micros n) l
      in send_with_duration_loop eb n fuel fuel did packet start duration_us l)"

end
