(* ===== verification/Ethernet_Tcp.thy ===== *)
theory Ethernet_Tcp
  imports Ethernet_Link
begin

text \<open>
  \<^verbatim>\<open>src/strategies/EthernetTCP/EthernetTCP.h\<close>: the strategy over an \<^verbatim>\<open>EthernetLink\<close>.  The link calls
  \<open>et_receiver\<close> for every packet it receives, which copies it to the buffer registered by \<^verbatim>\<open>receive_frame\<close>, if
  there is one and the packet fits.
\<close>

record 's etcp =
  et_link :: "'s elink"
  et_last_send_result :: u16
  et_buffer :: "u8 list option"
  et_current_size :: u16
  et_incoming_size :: u16

definition new_etcp :: "'s \<Rightarrow> 's etcp" where
  "new_etcp world =
     \<lparr> et_link = link_set_receiver (new_elink world), et_last_send_result = PJON_FAIL, et_buffer = None,
       et_current_size = 0, et_incoming_size = 0 \<rparr>"

definition et_receiver :: "u8 \<Rightarrow> u8 list \<Rightarrow> 's etcp \<Rightarrow> 's etcp" where
  "et_receiver did payload s =
     (case et_buffer s of
        Some buf \<Rightarrow>
          if length payload \<le> unat (et_current_size s)
          then s\<lparr> et_buffer := Some (payload @ drop (length payload) buf),
                  et_incoming_size := of_nat (length payload) \<rparr>
          else s
      | None \<Rightarrow> s)"

text \<open>A call of the link, with the calls of the receiver it made.\<close>

definition et_call :: "('s elink \<Rightarrow> ('a \<times> 's elink) option) \<Rightarrow> 's etcp \<Rightarrow> ('a \<times> 's etcp) option" where
  "et_call f s =
     do { (x, l) \<leftarrow> f (et_link s);
          Some (x, fold (\<lambda>(did, payload). et_receiver did payload) (el_delivered l)
                     (s\<lparr> et_link := l\<lparr> el_delivered := [] \<rparr> \<rparr>)) }"

definition et_in :: "('s \<Rightarrow> 'a \<times> 's) \<Rightarrow> 's etcp \<Rightarrow> 'a \<times> 's etcp" where
  "et_in f s = (let (x, l) = el_in f (et_link s) in (x, s\<lparr> et_link := l \<rparr>))"

definition et_on :: "('s \<Rightarrow> 's) \<Rightarrow> 's etcp \<Rightarrow> 's etcp" where
  "et_on f s = s\<lparr> et_link := el_on f (et_link s) \<rparr>"

definition et_back_off :: "u8 \<Rightarrow> u32" where
  "et_back_off attempts = 10000 * ucast attempts"

definition et_can_start :: "'s etcp \<Rightarrow> bool" where
  "et_can_start s \<longleftrightarrow> el_local_id (et_link s) \<noteq> 0"

text \<open>The bytes of the buffer are what was stored from its start on.\<close>

definition et_receive_frame ::
  "etcp_build \<Rightarrow> ('s, 'z) tcp_net_scheme \<Rightarrow> nat \<Rightarrow> u16 \<Rightarrow> 's etcp \<Rightarrow> ((u16 \<times> u8 list) \<times> 's etcp) option" where
  "et_receive_frame eb n fuel max_length s =
     (let s = s\<lparr> et_buffer := Some [], et_current_size := max_length, et_incoming_size := 0 \<rparr> in
      do { (result, s) \<leftarrow> et_call (link_receive eb n fuel) s;
           let received = et_incoming_size s;
           let data = (case et_buffer s of None \<Rightarrow> [] | Some bs \<Rightarrow> bs);
           Some ((if result = PJON_ACK then received else PJON_FAIL, data),
                 s\<lparr> et_buffer := None, et_incoming_size := 0 \<rparr>) })"

definition et_receive_response :: "'s etcp \<Rightarrow> u16" where
  "et_receive_response s = et_last_send_result s"

definition et_send_frame ::
  "etcp_build \<Rightarrow> ('s, 'z) tcp_net_scheme \<Rightarrow> nat \<Rightarrow> u8 list \<Rightarrow> 's etcp \<Rightarrow> 's etcp option" where
  "et_send_frame eb n fuel data s =
     (if 0 < length data
      then map_option (\<lambda>(r, s). s\<lparr> et_last_send_result := r \<rparr>)
             (et_call (link_send eb n fuel (data ! 0) data) s)
      else Some s)"

definition etcp_strategy ::
  "etcp_build \<Rightarrow> ('s, 'z) tcp_net_scheme \<Rightarrow> u16 \<Rightarrow> nat \<Rightarrow> 's etcp option strategy" where
  "etcp_strategy eb n receive_time fuel =
     \<lparr> pf_micros = lift_call 0 (\<lambda>s. Some (et_in (pf_micros n) s)),
       pf_delay = (\<lambda>ms. map_option (et_on (pf_delay n ms))),
       pf_random = (\<lambda>k. lift_call 0 (\<lambda>s. Some (et_in (pf_random n k) s))),
       pf_random_seed = (\<lambda>k. map_option (et_on (pf_random_seed n k))),
       pf_analog_read = (\<lambda>p. lift_call 0 (\<lambda>s. Some (et_in (pf_analog_read n p) s))),
       st_begin = (\<lambda>did s. (True, s)),
       st_back_off = (\<lambda>attempts s. (et_back_off attempts, s)),
       st_can_start = lift_call False (\<lambda>s. Some (et_can_start s, s)),
       st_max_attempts = 5,
       st_receive_time = receive_time,
       st_handle_collision = (\<lambda>s. s),
       st_receive_frame = (\<lambda>k s. case lift_call (0, []) (et_receive_frame eb n fuel k) s of
                                   ((r, bs), s) \<Rightarrow> (r, bs, s)),
       st_receive_response = lift_call PJON_FAIL (\<lambda>s. Some (et_receive_response s, s)),
       st_send_response = (\<lambda>r s. s),
       st_send_frame = (\<lambda>data. lift_update (et_send_frame eb n fuel data)) \<rparr>"

subsection \<open>The contract of a strategy\<close>

text \<open>Whatever the link delivers, the buffer of the caller is not overrun.\<close>

definition et_fits :: "'s etcp \<Rightarrow> bool" where
  "et_fits s \<longleftrightarrow> (case et_buffer s of None \<Rightarrow> True | Some bs \<Rightarrow> length bs \<le> unat (et_current_size s))"

lemma et_receiver_fits:
  "et_fits s \<Longrightarrow> et_fits (et_receiver did payload s)"
  "et_current_size (et_receiver did payload s) = et_current_size s"
  by (auto simp: et_fits_def et_receiver_def split: option.splits)

lemma et_receivers_fit:
  "et_fits s \<Longrightarrow> et_fits (fold (\<lambda>(did, payload). et_receiver did payload) ps s) \<and>
     et_current_size (fold (\<lambda>(did, payload). et_receiver did payload) ps s) = et_current_size s"
  by (induction ps arbitrary: s) (auto simp: et_receiver_fits split: prod.splits)

lemma et_receive_frame_fits:
  assumes "et_receive_frame eb n fuel k s = Some ((r, bs), s')"
  shows "length bs \<le> unat k"
proof -
  let ?s = "s\<lparr> et_buffer := Some [], et_current_size := k, et_incoming_size := 0 \<rparr>"
  have "et_fits ?s" "et_current_size ?s = k" by (simp_all add: et_fits_def)
  then have *: "et_fits (fold (\<lambda>(did, payload). et_receiver did payload) ps (?s\<lparr> et_link := l \<rparr>)) \<and>
      et_current_size (fold (\<lambda>(did, payload). et_receiver did payload) ps (?s\<lparr> et_link := l \<rparr>)) = k" for ps l
    using et_receivers_fit [of "?s\<lparr> et_link := l \<rparr>" ps] by (simp add: et_fits_def)
  from assms obtain x l ps where
    "bs = (case et_buffer (fold (\<lambda>(did, payload). et_receiver did payload) ps (?s\<lparr> et_link := l \<rparr>)) of
             None \<Rightarrow> [] | Some bs \<Rightarrow> bs)"
    by (auto simp: et_receive_frame_def et_call_def Let_def elim!: bind_SomeE split: prod.splits)
  with * [of ps l] show ?thesis
    by (auto simp: et_fits_def split: option.splits)
qed

interpretation etcp: bounded_strategy "etcp_strategy eb n receive_time fuel" "\<lambda>_. True"
  for eb n receive_time fuel
proof (unfold_locales, goal_cases)
  case (1 s k r bs s')
  then show ?case using et_receive_frame_fits [of eb n fuel k]
    by (auto simp: etcp_strategy_def lift_call_def split: prod.splits option.splits elim!: bind_SomeE)
qed simp_all

end
