(* ===== verification/Ethernet_Laws.thy ===== *)
theory Ethernet_Laws
  imports Ethernet_Tcp
begin

text \<open>
  What \<^verbatim>\<open>EthernetLink\<close> guarantees over a TCP connection.

  \<open>stream_socket n fd pending sent clock\<close> states the documented behaviour of a connected socket \<open>fd\<close>: the
  bytes \<open>pending\<close> are read in order, in pieces of any size of at least one byte, what is written is appended
  to \<open>sent\<close>, a poll tells whether there is something to read, and none of this takes a millisecond.
\<close>

subsection \<open>Connected sockets\<close>

definition stream_socket ::
  "('s, 'z) tcp_net_scheme \<Rightarrow> int \<Rightarrow> ('s \<Rightarrow> u8 list) \<Rightarrow> ('s \<Rightarrow> u8 list) \<Rightarrow> ('s \<Rightarrow> u32) \<Rightarrow> bool" where
  "stream_socket n fd pending sent clock \<longleftrightarrow>
     fd \<noteq> -1 \<and> (\<forall>w. tn_millis n w = (clock w, w)) \<and>
     (\<forall>w. tn_poll n fd w = (if pending w = [] then Poll_Idle else Poll_Ready True False False, w)) \<and>
     (\<forall>w k. 0 < k \<longrightarrow> pending w \<noteq> [] \<longrightarrow>
        (\<exists>j w'. 0 < j \<and> j \<le> k \<and> j \<le> length (pending w) \<and> tn_recv n fd k w = (Recv (take j (pending w)), w') \<and>
                pending w' = drop j (pending w) \<and> sent w' = sent w \<and> clock w' = clock w)) \<and>
     (\<forall>w bs. \<exists>w'. tn_send n fd bs w = (int (length bs), w') \<and>
                pending w' = pending w \<and> sent w' = sent w @ bs \<and> clock w' = clock w)"

lemma stream_millis: "stream_socket n fd pending sent clock \<Longrightarrow> link_millis n l = (clock (el_world l), l)"
  by (simp add: stream_socket_def link_millis_def el_in_def)

lemma set_client_same [simp]: "set_client d (el_client d l) l = l"
  by (cases d) simp_all

lemma el_client_world [simp]: "el_client d (l\<lparr> el_world := w \<rparr>) = el_client d l"
  by (cases d) simp_all

lemma stream_poll:
  assumes "stream_socket n fd pending sent clock" "tc_fd (el_client d l) = fd"
  shows "link_available n d l = (pending (el_world l) \<noteq> [], l)"
  using assms by (auto simp: stream_socket_def link_available_def on_client_def tcp_available_def)

lemma stream_read:
  assumes "stream_socket n fd pending sent clock" "tc_fd (el_client d l) = fd" "0 < k" "pending (el_world l) \<noteq> []"
  shows "\<exists>j w'. 0 < j \<and> j \<le> k \<and> j \<le> length (pending (el_world l)) \<and>
           on_client d (tcp_read n k) l = (Some (take j (pending (el_world l))), l\<lparr> el_world := w' \<rparr>) \<and>
           pending w' = drop j (pending (el_world l)) \<and> sent w' = sent (el_world l) \<and> clock w' = clock (el_world l)"
proof -
  obtain j w' where "0 < j" "j \<le> k" "j \<le> length (pending (el_world l))"
    "tn_recv n fd k (el_world l) = (Recv (take j (pending (el_world l))), w')"
    "pending w' = drop j (pending (el_world l))" "sent w' = sent (el_world l)" "clock w' = clock (el_world l)"
    using assms unfolding stream_socket_def by blast
  moreover have "fd \<noteq> -1" using assms(1) by (simp add: stream_socket_def)
  ultimately show ?thesis
    using assms(2) by (auto simp: on_client_def tcp_read_def)
qed

lemma stream_write:
  assumes "stream_socket n fd pending sent clock" "tc_fd (el_client d l) = fd"
  shows "\<exists>w'. link_write n d bs l = (int (length bs), l\<lparr> el_world := w' \<rparr>) \<and> pending w' = pending (el_world l) \<and>
           sent w' = sent (el_world l) @ bs \<and> clock w' = clock (el_world l)"
proof -
  obtain w' where "tn_send n fd bs (el_world l) = (int (length bs), w')"
    "pending w' = pending (el_world l)" "sent w' = sent (el_world l) @ bs" "clock w' = clock (el_world l)"
    using assms unfolding stream_socket_def by blast
  moreover have "fd \<noteq> -1" using assms(1) by (simp add: stream_socket_def)
  ultimately show ?thesis
    using assms(2) by (auto simp: link_write_def on_client_def tcp_write_def)
qed

lemma read_bytes_loop_stream:
  assumes "stream_socket n fd pending sent clock"
  shows "tc_fd (el_client d l) = fd \<Longrightarrow> length acc < len \<Longrightarrow> len \<le> length acc + length (pending (el_world l)) \<Longrightarrow>
    len \<le> length acc + fuel \<Longrightarrow> clock (el_world l) = start \<Longrightarrow>
    \<exists>w'. read_bytes_loop n fuel d len 2000 start acc l =
           Some (acc @ take (len - length acc) (pending (el_world l)), l\<lparr> el_world := w' \<rparr>) \<and>
         pending w' = drop (len - length acc) (pending (el_world l)) \<and> sent w' = sent (el_world l) \<and>
         clock w' = start"
proof (induction fuel arbitrary: acc l)
  case (Suc fuel)
  let ?p = "pending (el_world l)" and ?k = "len - length acc"
  have ne: "?p \<noteq> []" "0 < ?k" using Suc.prems by auto
  from stream_read [OF assms Suc.prems(1) ne(2,1)] obtain j w where
    j: "0 < j" "j \<le> ?k" "j \<le> length ?p" "on_client d (tcp_read n ?k) l = (Some (take j ?p), l\<lparr> el_world := w \<rparr>)"
    "pending w = drop j ?p" "sent w = sent (el_world l)" "clock w = start"
    using Suc.prems(5) by blast
  have len: "length (acc @ take j ?p) = length acc + j" "len - length acc < j \<longleftrightarrow> False"
    using j by auto
  show ?case
  proof (cases "j = ?k")
    case True
    then have "length (acc @ take ?k ?p) = len" using len Suc.prems(2) by simp
    then show ?thesis
      using j(4-7) unfolding True by (intro exI [of _ w]) simp
  next
    case False
    let ?l = "l\<lparr> el_world := w \<rparr>" and ?acc = "acc @ take j ?p"
    have less: "length ?acc < len" using len j(2) False by linarith
    obtain w' where w': "read_bytes_loop n fuel d len 2000 start ?acc ?l =
        Some (?acc @ take (len - length ?acc) (pending w), ?l\<lparr> el_world := w' \<rparr>)"
      "pending w' = drop (len - length ?acc) (pending w)" "sent w' = sent w" "clock w' = start"
      using Suc.IH [of ?l ?acc] Suc.prems j less len(1) by (auto simp del: length_append)
    have "take j ?p @ take (len - length ?acc) (drop j ?p) = take ?k ?p"
      using j less len(1) by (simp add: take_add [symmetric])
    moreover have "drop (len - length ?acc) (drop j ?p) = drop ?k ?p" using j less len(1) by simp
    ultimately show ?thesis
      using w' j(4-7) less len stream_millis [OF assms, of ?l]
      by (intro exI [of _ w']) (simp add: Let_def)
  qed
qed simp

lemma read_bytes_stream:
  assumes "stream_socket n fd pending sent clock" "tc_fd (el_client d l) = fd"
    and "0 < len" "len \<le> length (pending (el_world l))" "len \<le> fuel"
  shows "\<exists>w'. read_bytes n fuel d len 2000 l = Some (take len (pending (el_world l)), l\<lparr> el_world := w' \<rparr>) \<and>
           pending w' = drop len (pending (el_world l)) \<and> sent w' = sent (el_world l) \<and>
           clock w' = clock (el_world l)"
  using read_bytes_loop_stream [OF assms(1), of d l "[]" len fuel "clock (el_world l)"] assms
  by (simp add: read_bytes_def stream_millis [OF assms(1)] Let_def)

subsection \<open>Finding the header\<close>

text \<open>The bytes before a header in which the header does not occur earlier, not even overlapping it.\<close>

primrec first_header :: "u8 list \<Rightarrow> u8 list \<Rightarrow> bool" where
  "first_header header [] = True"
| "first_header header (x # junk) = (take 4 (x # junk @ header) \<noteq> header \<and> first_header header junk)"

lemma header_loop_stream:
  assumes "stream_socket n fd pending sent clock" and "length header = 4" and "0 < fuel"
  shows "tc_fd (el_client d l) = fd \<Longrightarrow> length head = 4 \<Longrightarrow> head @ pending (el_world l) = junk @ header @ rest \<Longrightarrow>
    junk \<noteq> [] \<Longrightarrow> first_header header junk \<Longrightarrow> length junk \<le> rounds \<Longrightarrow>
    \<exists>w'. header_loop n rounds fuel d header head l = Some (True, l\<lparr> el_world := w' \<rparr>) \<and>
         pending w' = rest \<and> sent w' = sent (el_world l) \<and> clock w' = clock (el_world l)"
proof (induction rounds arbitrary: head junk l)
  case (Suc rounds)
  have "length (head @ pending (el_world l)) = length junk + 4 + length rest"
    using Suc.prems(3) assms(2) by simp
  then have "pending (el_world l) \<noteq> []" using Suc.prems(2,4) by (cases junk) auto
  then obtain b ps where p: "pending (el_world l) = b # ps" by (cases "pending (el_world l)") auto
  obtain x j where junk: "junk = x # j" using Suc.prems(4) by (cases junk) auto
  obtain a c e f where head: "head = [a, c, e, f]"
    using Suc.prems(2) by (auto simp: length_Suc_conv eval_nat_numeral)
  have rest: "[c, e, f, b] @ ps = j @ header @ rest" "a = x"
    using Suc.prems(3) by (simp_all add: head junk p)
  have j: "first_header header j"
    using Suc.prems(5) by (simp add: junk)
  obtain w where w: "read_bytes n fuel d 1 2000 l = Some ([b], l\<lparr> el_world := w \<rparr>)" "pending w = ps"
    "sent w = sent (el_world l)" "clock w = clock (el_world l)"
    using read_bytes_stream [OF assms(1) Suc.prems(1), of 1 fuel] assms(3) by (auto simp: p)
  show ?case
  proof (cases j)
    case Nil
    then have "[c, e, f, b] = header" "ps = rest"
      using rest(1) assms(2) append_eq_append_conv [of "[c, e, f, b]" header ps rest] by auto
    then show ?thesis using w by (auto simp: head Let_def)
  next
    case (Cons y k)
    then have "take 4 (j @ header) \<noteq> header" using j by simp
    moreover have "take 4 (j @ header) = [c, e, f, b]"
    proof -
      have "take 4 (j @ header) = take 4 (j @ header @ rest)" using assms(2) by simp
      also have "\<dots> = [c, e, f, b]" by (simp add: rest(1) [symmetric])
      finally show ?thesis .
    qed
    ultimately have "[c, e, f, b] \<noteq> header" by simp
    then show ?thesis
      using w Suc.IH [of "l\<lparr> el_world := w \<rparr>" "[c, e, f, b]" j] Suc.prems(1,6) rest(1) j Cons
      by (auto simp: head junk Let_def)
  qed
qed simp

lemma read_until_header_stream:
  assumes "stream_socket n fd pending sent clock" "tc_fd (el_client d l) = fd"
    and "pending (el_world l) = junk @ be32 header @ rest" "first_header (be32 header) junk"
    and "length junk + 4 \<le> fuel"
  shows "\<exists>w'. read_until_header n fuel d header l = Some (True, l\<lparr> el_world := w' \<rparr>) \<and> pending w' = rest \<and>
           sent w' = sent (el_world l) \<and> clock w' = clock (el_world l)"
proof -
  obtain h q where p: "pending (el_world l) = h @ q" "length h = 4"
    using that [of "take 4 (pending (el_world l))" "drop 4 (pending (el_world l))"] assms(3)
    by (metis append_take_drop_id add_leD2 append.assoc length_append length_be32 length_take le_add1 min.absorb2)
  obtain w where w: "read_bytes n fuel d 4 2000 l = Some (h, l\<lparr> el_world := w \<rparr>)" "pending w = q"
    "sent w = sent (el_world l)" "clock w = clock (el_world l)"
    using read_bytes_stream [OF assms(1,2), of 4 fuel] assms(5) p by auto
  show ?thesis
  proof (cases junk)
    case Nil
    then have "h = be32 header" "q = rest"
      using assms(3) p append_eq_append_conv [of h "be32 header" q rest] by auto
    then show ?thesis using w by (auto simp: read_until_header_def Let_def)
  next
    case (Cons x j)
    have "h = take 4 (junk @ be32 header)"
      using p(2) arg_cong [OF trans [OF p(1) [symmetric] assms(3)], of "take 4"] by simp
    moreover have "take 4 (junk @ be32 header) \<noteq> be32 header"
      using assms(4) by (simp add: Cons)
    ultimately have "h \<noteq> be32 header" by simp
    moreover have "h @ pending w = junk @ be32 header @ rest" using p w(2) assms(3) by simp
    ultimately show ?thesis
      using header_loop_stream [OF assms(1), of "be32 header" fuel d "l\<lparr> el_world := w \<rparr>" h junk rest fuel]
        w p(2) assms(2,4,5) Cons
      by (auto simp: read_until_header_def Let_def)
  qed
qed

subsection \<open>Round trip\<close>

lemma ntohl_be32 [simp]: "ntohl (be32 w) = w"
proof (rule bit_word_eqI)
  fix k assume "k < LENGTH(32)"
  then show "bit (ntohl (be32 w)) k = bit w k"
    by (cases "k < 8"; cases "k < 16"; cases "k < 24") (auto simp: ntohl_def be32_def byte_of_def bit_simps)
qed

lemma scast_length: "k < 32768 \<Longrightarrow> (scast (of_nat k :: u16) :: u32) = of_nat k"
  by (rule bit_word_eqI) (simp add: signed_of_nat signed_take_bit_int_eq_self bit_simps)

text \<open>What a link over a connected socket sends, and what a link receives from such a stream.\<close>

lemma send_on_stream:
  assumes "stream_socket n fd pending sent clock" "tc_fd (el_client d l) = fd"
    and "el_single_socket l \<or> \<not> link_connected In l" "length packet \<le> 65522"
    and "pending (el_world l) = (if el_request_ack l then [hi8 PJON_ACK, lo8 PJON_ACK] else []) @ later" "2 \<le> fuel"
  shows "\<exists>w. send_on n fuel d did packet l = Some (PJON_ACK, l\<lparr> el_world := w \<rparr>) \<and> pending w = later \<and>
           sent w = sent (el_world l) @ link_frame did packet \<and> clock w = clock (el_world l)"
proof -
  obtain w where w: "link_write n d (link_frame did packet) l = (int (length (link_frame did packet)), l\<lparr> el_world := w \<rparr>)"
    "pending w = pending (el_world l)" "sent w = sent (el_world l) @ link_frame did packet"
    "clock w = clock (el_world l)"
    using stream_write [OF assms(1,2)] by blast
  have len: "length (link_frame did packet) = 9 + length packet + 4" by (simp add: link_frame_def)
  have idle: "(if \<not> el_single_socket l \<and> link_connected In l then link_available n In l else (False, l)) = (False, l)"
    using assms(3) by auto
  show ?thesis
  proof (cases "el_request_ack l")
    case True
    then obtain w' where "read_bytes n fuel d 2 2000 (l\<lparr> el_world := w \<rparr>) =
        Some ([hi8 PJON_ACK, lo8 PJON_ACK], l\<lparr> el_world := w' \<rparr>)" "sent w' = sent w" "pending w' = later"
        "clock w' = clock w"
      using read_bytes_stream [OF assms(1), of d "l\<lparr> el_world := w \<rparr>" 2 fuel] w(2) assms(2,5,6) by auto
    then show ?thesis
      using w len assms(4) True idle by (intro exI [of _ w']) (simp add: send_on_def await_ack_def)
  next
    case False
    then show ?thesis
      using w len assms(4,5) idle by (intro exI [of _ w]) (simp add: send_on_def await_ack_def)
  qed
qed

lemma wait_available_stream:
  assumes "stream_socket n fd pending sent clock" "tc_fd (el_client d l) = fd" "pending (el_world l) \<noteq> []" "0 < fuel"
  shows "wait_available n fuel d start avail l = Some (Some True, l)"
proof -
  have "link_connected d l"
    using assms(1,2) by (auto simp: stream_socket_def link_connected_def tcp_connected_def)
  then show ?thesis
    using assms(3,4) stream_poll [OF assms(1,2)] by (cases fuel) auto
qed

lemma finish_receive_stream:
  assumes "stream_socket n fd pending sent clock" "tc_fd (el_client d l) = fd"
    and "el_receiver l" "\<not> el_receive_and_discard l"
  shows "\<exists>w. finish_receive eb n d True did packet l =
           Some (PJON_ACK, l\<lparr> el_world := w, el_last_receive_time := clock (el_world l),
                              el_delivered := el_delivered l @ [(did, packet)] \<rparr>) \<and>
           pending w = pending (el_world l) \<and>
           sent w = sent (el_world l) @ (if el_ack_requested l then [hi8 PJON_ACK, lo8 PJON_ACK] else [])"
proof -
  let ?l = "l\<lparr> el_last_receive_time := clock (el_world l) \<rparr>"
  have "el_client d ?l = el_client d l" by (cases d) simp_all
  then obtain w where "link_write n d [hi8 PJON_ACK, lo8 PJON_ACK] ?l = (2, ?l\<lparr> el_world := w \<rparr>)"
    "pending w = pending (el_world l)" "sent w = sent (el_world l) @ [hi8 PJON_ACK, lo8 PJON_ACK]"
    using stream_write [OF assms(1), of d ?l "[hi8 PJON_ACK, lo8 PJON_ACK]"] assms(2) by auto
  then show ?thesis
    using assms(3,4) stream_millis [OF assms(1), of l]
    by (intro exI [of _ "if el_ack_requested l then w else el_world l"]) (simp add: finish_receive_def)
qed

lemma receive_from_stream:
  assumes "stream_socket n fd pending sent clock" "tc_fd (el_client d l) = fd"
    and "el_receiver l" "\<not> el_receive_and_discard l"
    and "pending (el_world l) = junk @ link_frame did packet @ rest" "first_header (be32 ETCP_HEADER) junk"
    and "packet \<noteq> []" "length packet \<le> unat (eb_max_packet_size eb)" "length packet < 32768"
    and "length junk + length packet + 5 \<le> fuel"
  shows "\<exists>w. receive_from eb n fuel d wait l =
           Some (PJON_ACK, l\<lparr> el_world := w, el_last_receive_time := clock (el_world l),
                              el_delivered := el_delivered l @ [(did, packet)] \<rparr>) \<and>
           pending w = rest \<and>
           sent w = sent (el_world l) @ (if el_ack_requested l then [hi8 PJON_ACK, lo8 PJON_ACK] else [])"
proof -
  let ?W = "\<lambda>w. l\<lparr> el_world := w \<rparr>" and ?len = "of_nat (length packet) :: u32"
  note sock = read_bytes_stream [OF assms(1)] and fd = assms(2)
  have len: "unat ?len = length packet" "unat (ucast ?len :: u16) = length packet"
    using assms(9) by (simp_all add: unsigned_ucast_eq unsigned_of_nat take_bit_nat_eq_self)
  have ne: "?len \<noteq> 0" using assms(7) len(1) by auto
  have conn: "link_connected d l"
    using assms(1,2) by (auto simp: stream_socket_def link_connected_def tcp_connected_def)
  have some: "pending (el_world l) \<noteq> []" using assms(5) by (simp add: link_frame_def be32_def)
  obtain w1 where w1: "read_until_header n fuel d ETCP_HEADER l = Some (True, ?W w1)"
    "pending w1 = [did] @ be32 ?len @ packet @ be32 ETCP_FOOTER @ rest" "sent w1 = sent (el_world l)"
    "clock w1 = clock (el_world l)"
    using read_until_header_stream [OF assms(1,2), of junk ETCP_HEADER
        "[did] @ be32 ?len @ packet @ be32 ETCP_FOOTER @ rest" fuel] assms(5,6,10)
    by (auto simp: link_frame_def)
  obtain w2 where w2: "read_bytes n fuel d 5 2000 (?W w1) = Some ([did] @ be32 ?len, ?W w2)"
    "pending w2 = packet @ be32 ETCP_FOOTER @ rest" "sent w2 = sent w1" "clock w2 = clock w1"
    using sock [of d "?W w1" 5 fuel] w1(2) fd assms(10) by auto
  obtain w3 where w3: "read_bytes n fuel d (length packet) 2000 (?W w2) = Some (packet, ?W w3)"
    "pending w3 = be32 ETCP_FOOTER @ rest" "sent w3 = sent w2" "clock w3 = clock w2"
    using sock [of d "?W w2" "length packet" fuel] w2(2) fd assms(7,10) by auto
  obtain w4 where w4: "read_bytes n fuel d 4 2000 (?W w3) = Some (be32 ETCP_FOOTER, ?W w4)"
    "pending w4 = rest" "sent w4 = sent w3" "clock w4 = clock w3"
    using sock [of d "?W w3" 4 fuel] w3(2) fd assms(10) by auto
  obtain w5 where w5: "finish_receive eb n d True did packet (?W w4) =
      Some (PJON_ACK, ?W w5\<lparr> el_last_receive_time := clock w4, el_delivered := el_delivered l @ [(did, packet)] \<rparr>)"
    "pending w5 = rest" "sent w5 = sent w4 @ (if el_ack_requested l then [hi8 PJON_ACK, lo8 PJON_ACK] else [])"
    using finish_receive_stream [OF assms(1), of d "?W w4" eb did packet] assms(2-4) w4(2) by auto
  have meta: "read_frame_meta n fuel d True (?W w1) = Some ((True, did, ?len), ?W w2)"
    using w2(1) ne by (simp add: read_frame_meta_def)
  have contents: "read_frame_contents n fuel d True ?len (?W w2) = Some ((True, packet), ?W w3)"
    using w3(1) len scast_length [OF assms(9)] by (simp add: read_frame_contents_def)
  have footer: "read_frame_footer n fuel d True (?W w3) = Some (True, ?W w4)"
    using w4(1) by (simp add: read_frame_footer_def)
  have small: "\<not> eb_max_packet_size eb < ?len"
    using assms(8) len(1) by (simp add: word_less_nat_alt)
  show ?thesis
    using w1(1,3,4) w2(3,4) w3(3,4) w4(3,4) w5 meta contents footer small conn some assms(10)
      stream_millis [OF assms(1), of l] stream_poll [OF assms(1,2)]
      wait_available_stream [OF assms(1,2) some, of fuel "clock (el_world l)" None]
    by (cases wait) (auto simp: receive_from_def Let_def)
qed

subsection \<open>Over connections that are kept\<close>

definition kept_out :: "u8 \<Rightarrow> 's elink \<Rightarrow> bool" where
  "kept_out did l \<longleftrightarrow>
     el_keep_connection l \<and> link_connected Out l \<and> el_current_device l = uint did \<and>
     find_remote_node did (el_nodes l) \<noteq> None \<and> \<not> el_both_in_same_direction l"

definition kept_in :: "etcp_build \<Rightarrow> u32 \<Rightarrow> 's elink \<Rightarrow> bool" where
  "kept_in eb now l \<longleftrightarrow>
     el_keep_connection l \<and> link_connected In l \<and> el_server l \<noteq> None \<and> \<not> el_single_socket l \<and>
     \<not> el_both_in_same_direction l \<and> now - el_last_receive_time l \<le> eb_idle_timeout eb"

lemma link_connect_kept: "kept_out did l \<Longrightarrow> link_connect eb n fuel did l = Some (True, l)"
  by (auto simp: kept_out_def link_connect_def connect_disconnects_def Let_def)

lemma link_accept_kept:
  assumes "kept_in eb now l" "link_millis n l = (now, l)"
  shows "link_accept eb n fuel l = Some (True, l)"
  using assms by (auto simp: kept_in_def link_accept_def accept_disconnects_def got_receive_timeout_def Let_def)

lemma link_connected_update [simp]:
  "link_connected d (l\<lparr> el_world := w \<rparr>) = link_connected d l"
  "link_connected d (l\<lparr> el_last_receive_time := t \<rparr>) = link_connected d l"
  "link_connected d (l\<lparr> el_delivered := ps \<rparr>) = link_connected d l"
  by (cases d; simp add: link_connected_def)+

lemma disconnect_kept [simp]:
  "el_keep_connection l \<Longrightarrow> disconnect_in_if_needed n l = l"
  "el_keep_connection l \<Longrightarrow> r \<noteq> PJON_FAIL \<Longrightarrow> disconnect_out_if_needed n r l = l"
  by (simp_all add: disconnect_in_if_needed_def disconnect_out_if_needed_def)

text \<open>The two ends of a connection of the strategy: what one sends and how the other receives it.\<close>

lemma et_send_frame_stream:
  assumes "stream_socket n (tc_fd (el_client_out (et_link s))) pending sent clock"
    and "kept_out (data ! 0) (et_link s)" "\<not> link_connected In (et_link s)" "\<not> el_single_socket (et_link s)"
    and "data \<noteq> []" "length data \<le> 65522" "el_delivered (et_link s) = []"
    and "pending (el_world (et_link s)) =
           (if el_request_ack (et_link s) then [hi8 PJON_ACK, lo8 PJON_ACK] else [])" "2 \<le> fuel"
  shows "\<exists>s'. et_send_frame eb n fuel data s = Some s' \<and> et_receive_response s' = PJON_ACK \<and>
           sent (el_world (et_link s')) = sent (el_world (et_link s)) @ link_frame (data ! 0) data"
proof -
  have keep: "el_keep_connection (et_link s)" "\<not> el_both_in_same_direction (et_link s)"
    using assms(2) by (simp_all add: kept_out_def)
  obtain w where "send_on n fuel Out (data ! 0) data (et_link s) = Some (PJON_ACK, (et_link s)\<lparr> el_world := w \<rparr>)"
    "sent w = sent (el_world (et_link s)) @ link_frame (data ! 0) data"
    using send_on_stream [OF assms(1), of Out "et_link s" data "[]" fuel "data ! 0"] assms by auto
  moreover have "PJON_ACK \<noteq> PJON_FAIL" by (simp add: const_defs)
  ultimately have "link_send eb n fuel (data ! 0) data (et_link s) =
      Some (PJON_ACK, (et_link s)\<lparr> el_world := w \<rparr>)"
    using assms(4) keep link_connect_kept [OF assms(2), of eb n fuel] by (simp add: link_send_def)
  then show ?thesis
    using assms(5,7) \<open>sent w = _\<close>
    by (simp add: et_send_frame_def et_call_def et_receive_response_def)
qed

lemma et_receive_frame_stream:
  assumes "stream_socket n (tc_fd (el_client_in (et_link s))) pending sent clock"
    and "kept_in eb (clock (el_world (et_link s))) (et_link s)"
    and "el_receiver (et_link s)" "\<not> el_receive_and_discard (et_link s)" "el_delivered (et_link s) = []"
    and "pending (el_world (et_link s)) = junk @ link_frame did data @ rest"
    and "first_header (be32 ETCP_HEADER) junk" "data \<noteq> []" "length data \<le> unat (eb_max_packet_size eb)"
    and "length data < 32768" "length data \<le> unat max_length" "length junk + length data + 5 \<le> fuel"
  shows "\<exists>s'. et_receive_frame eb n fuel max_length s = Some ((of_nat (length data), data), s') \<and>
           pending (el_world (et_link s')) = rest \<and>
           sent (el_world (et_link s')) = sent (el_world (et_link s)) @
             (if el_ack_requested (et_link s) then [hi8 PJON_ACK, lo8 PJON_ACK] else [])"
proof -
  let ?l = "et_link s"
  obtain w where w: "receive_from eb n fuel In False ?l =
      Some (PJON_ACK, ?l\<lparr> el_world := w, el_last_receive_time := clock (el_world ?l),
                          el_delivered := el_delivered ?l @ [(did, data)] \<rparr>)"
    "pending w = rest"
    "sent w = sent (el_world ?l) @ (if el_ack_requested ?l then [hi8 PJON_ACK, lo8 PJON_ACK] else [])"
    using receive_from_stream [OF assms(1), of In ?l junk did data rest eb fuel False] assms by auto
  have "link_accept eb n fuel ?l = Some (True, ?l)"
    using link_accept_kept [OF assms(2)] stream_millis [OF assms(1)] by blast
  then have "link_receive eb n fuel ?l =
      Some (PJON_ACK, ?l\<lparr> el_world := w, el_last_receive_time := clock (el_world ?l), el_delivered := [(did, data)] \<rparr>)"
    using w(1) assms(2,5) by (auto simp: link_receive_def kept_in_def)
  then show ?thesis
    using w(2,3) assms(11) by (simp add: et_receive_frame_def et_call_def et_receiver_def)
qed

text \<open>A transfer over a single socket by the side that opened it: the peer acknowledges the packet and has one of its own.\<close>

lemma write_if_stream:
  assumes "stream_socket n fd pending sent clock" "tc_fd (el_client d l) = fd"
  shows "\<exists>w'. write_if n d bs True l = (True, l\<lparr> el_world := w' \<rparr>) \<and> pending w' = pending (el_world l) \<and>
           sent w' = sent (el_world l) @ bs \<and> clock w' = clock (el_world l)"
  using stream_write [OF assms, of bs] by (auto simp: write_if_def)

lemma receive_packets_stream:
  assumes "stream_socket n fd pending sent clock" "tc_fd (el_client d l) = fd"
    and "el_receiver l" "\<not> el_receive_and_discard l" "el_ack_requested l"
    and "pending (el_world l) = link_frame did packet @ rest"
    and "packet \<noteq> []" "length packet \<le> unat (eb_max_packet_size eb)" "length packet < 32768"
    and "length packet + 5 \<le> fuel"
  shows "\<exists>w t. receive_packets eb n fuel d 1 l =
           Some (True, l\<lparr> el_world := w, el_last_receive_time := t, el_delivered := el_delivered l @ [(did, packet)] \<rparr>) \<and>
           pending w = rest \<and> sent w = sent (el_world l) @ [hi8 PJON_ACK, lo8 PJON_ACK]"
proof -
  have "pending (el_world l) \<noteq> []" using assms(6) by (simp add: link_frame_def be32_def)
  then have "await_data n fuel d l = Some l"
    using stream_poll [OF assms(1,2)] assms(10) by (cases fuel) auto
  moreover obtain w where "receive_from eb n fuel d True l =
      Some (PJON_ACK, l\<lparr> el_world := w, el_last_receive_time := clock (el_world l),
                          el_delivered := el_delivered l @ [(did, packet)] \<rparr>)"
    "pending w = rest" "sent w = sent (el_world l) @ [hi8 PJON_ACK, lo8 PJON_ACK]"
    using receive_from_stream [OF assms(1-4), of "[]" did packet rest eb fuel True] assms(5-10) by auto
  ultimately show ?thesis
    by (intro exI [of _ w] exI [of _ "clock (el_world l)"]) simp
qed

lemma transfer_master_stream:
  assumes "stream_socket n (tc_fd (el_client_out l)) pending sent clock" "kept_out did l"
    and "el_single_socket l" "el_request_ack l" "el_ack_requested l" "el_receiver l" "\<not> el_receive_and_discard l"
    and "pending (el_world l) = [hi8 PJON_ACK, lo8 PJON_ACK, 1] @ link_frame sender packet @ rest"
    and "data \<noteq> []" "length data \<le> 65522"
    and "packet \<noteq> []" "length packet \<le> unat (eb_max_packet_size eb)" "length packet < 32768"
    and "length packet + 5 \<le> fuel"
  shows "\<exists>w t. transfer_master eb n fuel Out (uint did) (Some data) l =
           Some (PJON_ACK, l\<lparr> el_world := w, el_last_receive_time := t,
                              el_delivered := el_delivered l @ [(sender, packet)] \<rparr>) \<and>
           pending w = rest \<and>
           sent w = sent (el_world l) @ be32 ETCP_SINGLE_SOCKET_HEADER @ [1] @ link_frame did data @
                    [hi8 PJON_ACK, lo8 PJON_ACK] @ be32 ETCP_SINGLE_SOCKET_FOOTER"
proof -
  let ?W = "\<lambda>w. l\<lparr> el_world := w \<rparr>"
  note sock = assms(1)
  obtain w1 where w1: "write_if n Out (be32 ETCP_SINGLE_SOCKET_HEADER @ [1]) True l = (True, ?W w1)"
    "pending w1 = pending (el_world l)" "sent w1 = sent (el_world l) @ be32 ETCP_SINGLE_SOCKET_HEADER @ [1]"
    using write_if_stream [OF sock, of Out l "be32 ETCP_SINGLE_SOCKET_HEADER @ [1]"] by auto
  obtain w2 where w2: "send_on n fuel Out did data (?W w1) = Some (PJON_ACK, ?W w2)"
    "pending w2 = [1] @ link_frame sender packet @ rest" "sent w2 = sent w1 @ link_frame did data"
    using send_on_stream [OF sock, of Out "?W w1" data "[1] @ link_frame sender packet @ rest" fuel did]
      w1(2) assms(3,4,8,10,14) by auto
  obtain w3 where w3: "read_count n fuel Out True (?W w2) = Some ((True, 1), ?W w3)"
    "pending w3 = link_frame sender packet @ rest" "sent w3 = sent w2"
    using read_bytes_stream [OF sock, of Out "?W w2" 1 fuel] w2(2) assms(14) by (auto simp: read_count_def)
  obtain w4 t where w4: "receive_packets eb n fuel Out 1 (?W w3) = Some (True, ?W w4\<lparr> el_last_receive_time := t,
      el_delivered := el_delivered l @ [(sender, packet)] \<rparr>)" "pending w4 = rest"
    "sent w4 = sent w3 @ [hi8 PJON_ACK, lo8 PJON_ACK]"
    using receive_packets_stream [OF sock, of Out "?W w3" sender packet rest eb fuel] w3(2) assms(5-7,11-14)
    by auto
  let ?l = "?W w4\<lparr> el_last_receive_time := t, el_delivered := el_delivered l @ [(sender, packet)] \<rparr>"
  obtain w5 where w5: "write_if n Out (be32 ETCP_SINGLE_SOCKET_FOOTER) True ?l = (True, ?l\<lparr> el_world := w5 \<rparr>)"
    "pending w5 = pending w4" "sent w5 = sent w4 @ be32 ETCP_SINGLE_SOCKET_FOOTER"
    using write_if_stream [OF sock, of Out ?l "be32 ETCP_SINGLE_SOCKET_FOOTER"] by auto
  have keep: "el_keep_connection l" "PJON_ACK \<noteq> PJON_FAIL"
    using assms(2) by (simp_all add: kept_out_def const_defs)
  show ?thesis
    using w1 w2 w3 w4 w5 keep link_connect_kept [OF assms(2), of eb n fuel] assms(9)
    by (intro exI [of _ w5] exI [of _ t])
      (simp add: transfer_master_def packet_bytes_def send_if_def transfer_result_def word_of_int_uint
        del: receive_packets.simps)
qed

subsection \<open>A pair of stations\<close>

text \<open>A concrete socket for the examples: it reads one byte at a time.\<close>

definition pipe_net :: "(u8 list \<times> u8 list) tcp_net" where
  "pipe_net =
     \<lparr> pf_micros = (\<lambda>w. (0, w)), pf_delay = (\<lambda>ms w. w), pf_random = (\<lambda>k w. (0, w)), pf_random_seed = (\<lambda>k w. w),
       pf_analog_read = (\<lambda>p w. (0, w)), tn_millis = (\<lambda>w. (0, w)), tn_delay_us = (\<lambda>us w. w),
       tn_poll = (\<lambda>fd w. (if fst w = [] then Poll_Idle else Poll_Ready True False False, w)),
       tn_socket = (\<lambda>w. (3, w)), tn_setsockopt = (\<lambda>fd so w. w), tn_connect = (\<lambda>fd ip port w. (Connect_Done, w)),
       tn_has_flags = (\<lambda>fd w. (True, w)), tn_set_nonblock = (\<lambda>fd on w. w),
       tn_recv = (\<lambda>fd k w. if k = 0 \<or> fst w = [] then (Recv_Again, w)
                           else (Recv (take 1 (fst w)), (drop 1 (fst w), snd w))),
       tn_send = (\<lambda>fd bs w. (int (length bs), (fst w, snd w @ bs))),
       tn_shutdown = (\<lambda>fd w. w), tn_close = (\<lambda>fd w. w), tn_bind = (\<lambda>fd port w. (True, w)),
       tn_listen = (\<lambda>fd w. (True, w)), tn_accept = (\<lambda>fd w. (3, w)) \<rparr>"

lemma pipe_stream [simp]: "fd \<noteq> -1 \<Longrightarrow> stream_socket pipe_net fd fst snd (\<lambda>_. 0)"
  by (auto simp: stream_socket_def pipe_net_def neq_Nil_conv min_def intro!: exI [of _ 1])

definition sample_sender :: "u8 list \<Rightarrow> (u8 list \<times> u8 list) etcp" where
  "sample_sender pending =
     (new_etcp (pending, []))\<lparr> et_link := (link_set_receiver (new_elink_id 7 (pending, [])))
        \<lparr> el_keep_connection := True, el_client_out := new_tcp_client 4, el_current_device := 9,
          el_nodes := [\<lparr> rn_id = 9, rn_ip = [10, 0, 0, 9], rn_port = 7000 \<rparr>] \<rparr> \<rparr>"

definition sample_receiver :: "u8 list \<Rightarrow> (u8 list \<times> u8 list) etcp" where
  "sample_receiver pending =
     (new_etcp (pending, []))\<lparr> et_link := (link_set_receiver (new_elink_id 9 (pending, [])))
        \<lparr> el_keep_connection := True, el_client_in := new_tcp_client 5,
          el_server := Some (new_tcp_server 7000), el_ack_requested := True \<rparr> \<rparr>"

lemmas sample_station_defs =
  sample_sender_def sample_receiver_def new_etcp_def new_elink_id_def new_elink_def link_set_receiver_def
  new_tcp_client_def kept_out_def kept_in_def link_connected_def tcp_connected_def default_etcp_def

text \<open>C34. A frame sent through EthernetTCP over a kept connection goes out as header, id, length, frame and footer,
  and a station reading it from its connection, in pieces of any size and after any bytes in which the
  header does not occur, gets exactly the frame, takes nothing beyond its footer, and answers if asked to.
\<close>
theorem etcp_round_trip:
  assumes "stream_socket nA (tc_fd (el_client_out (et_link a))) pendA sentA clockA"
    and "kept_out (data ! 0) (et_link a)" "\<not> link_connected In (et_link a)" "\<not> el_single_socket (et_link a)"
    and "el_delivered (et_link a) = []" "2 \<le> fuelA"
    and "pendA (el_world (et_link a)) = (if el_request_ack (et_link a) then [hi8 PJON_ACK, lo8 PJON_ACK] else [])"
    and "stream_socket nB (tc_fd (el_client_in (et_link b))) pendB sentB clockB"
    and "kept_in eb (clockB (el_world (et_link b))) (et_link b)" "el_receiver (et_link b)"
    and "\<not> el_receive_and_discard (et_link b)" "el_delivered (et_link b) = []"
    and "pendB (el_world (et_link b)) = junk @ link_frame (data ! 0) data @ rest"
    and "first_header (be32 ETCP_HEADER) junk" "length junk + length data + 5 \<le> fuelB"
    and "data \<noteq> []" "length data < 32768" "length data \<le> unat (eb_max_packet_size eb)" "length data \<le> unat max_length"
  shows "(\<exists>a'. et_send_frame eb nA fuelA data a = Some a' \<and> et_receive_response a' = PJON_ACK \<and>
            sentA (el_world (et_link a')) = sentA (el_world (et_link a)) @ link_frame (data ! 0) data) \<and>
         (\<exists>b'. et_receive_frame eb nB fuelB max_length b = Some ((of_nat (length data), data), b') \<and>
            pendB (el_world (et_link b')) = rest \<and>
            sentB (el_world (et_link b')) = sentB (el_world (et_link b)) @
              (if el_ack_requested (et_link b) then [hi8 PJON_ACK, lo8 PJON_ACK] else []))"
  using et_send_frame_stream [OF assms(1-4,16) _ assms(5,7,6), of eb]
    et_receive_frame_stream [OF assms(8-14,16,18,17,19,15)] assms(17)
  by simp

theorem etcp_round_trip_witness:
  "(\<exists>a'. et_send_frame default_etcp pipe_net 2 [9, 1, 2] (sample_sender []) = Some a' \<and>
      et_receive_response a' = PJON_ACK \<and>
      snd (el_world (et_link a')) = [0x18, 0xAB, 0xC4, 0x27, 9, 0, 0, 0, 3, 9, 1, 2, 0x9A, 0xBE, 0x88, 0x73]) \<and>
   (\<exists>b'. et_receive_frame default_etcp pipe_net 50 60
            (sample_receiver ([0x18, 0xAB, 0x18] @ link_frame 9 [9, 1, 2] @ [5])) = Some ((3, [9, 1, 2]), b') \<and>
      fst (el_world (et_link b')) = [5] \<and> snd (el_world (et_link b')) = [0, 6])"
proof -
  have frame: "link_frame 9 [9, 1, 2] =
      [0x18, 0xAB, 0xC4, 0x27, 9, 0, 0, 0, 3, 9, 1, 2, 0x9A, 0xBE, 0x88, 0x73]"
    by (simp add: link_frame_def be32_def byte_of_def ETCP_HEADER_def ETCP_FOOTER_def)
  show ?thesis
    using etcp_round_trip [of pipe_net "sample_sender []" fst snd "\<lambda>_. 0" "[9, 1, 2]" 2 pipe_net
        "sample_receiver ([0x18, 0xAB, 0x18] @ link_frame 9 [9, 1, 2] @ [5])" fst snd "\<lambda>_. 0" default_etcp
        "[0x18, 0xAB, 0x18]" "[5]" 50 60]
    by (simp add: frame sample_station_defs be32_def byte_of_def ETCP_HEADER_def const_defs hi8_def lo8_def)
qed

text \<open>C35. A packet that a station receives while it sends over a single socket is acknowledged to the peer and
  lost: no buffer is registered during \<^verbatim>\<open>send_frame\<close>, and the receiver function drops it.
\<close>
theorem etcp_transfer_loses:
  assumes "stream_socket n (tc_fd (el_client_out (et_link s))) pending sent clock" "kept_out (data ! 0) (et_link s)"
    and "eb_single_socket_ack eb" "el_single_socket (et_link s)" "el_server (et_link s) = None"
    and "el_request_ack (et_link s)" "el_ack_requested (et_link s)" "el_receiver (et_link s)"
    and "\<not> el_receive_and_discard (et_link s)" "el_delivered (et_link s) = []" "et_buffer s = None"
    and "pending (el_world (et_link s)) = [hi8 PJON_ACK, lo8 PJON_ACK, 1] @ link_frame sender packet @ rest"
    and "data \<noteq> []" "length data \<le> 65522" "packet \<noteq> []"
    and "length packet \<le> unat (eb_max_packet_size eb)" "length packet < 32768" "length packet + 5 \<le> fuel"
  shows "\<exists>s'. et_send_frame eb n fuel data s = Some s' \<and> pending (el_world (et_link s')) = rest \<and>
           sent (el_world (et_link s')) = sent (el_world (et_link s)) @ be32 ETCP_SINGLE_SOCKET_HEADER @ [1] @
             link_frame (data ! 0) data @ [hi8 PJON_ACK, lo8 PJON_ACK] @ be32 ETCP_SINGLE_SOCKET_FOOTER \<and>
           et_buffer s' = None \<and> et_incoming_size s' = et_incoming_size s \<and> el_delivered (et_link s') = []"
proof -
  obtain w t where "transfer_master eb n fuel Out (uint (data ! 0)) (Some data) (et_link s) =
      Some (PJON_ACK, (et_link s)\<lparr> el_world := w, el_last_receive_time := t, el_delivered := [(sender, packet)] \<rparr>)"
    "pending w = rest" "sent w = sent (el_world (et_link s)) @ be32 ETCP_SINGLE_SOCKET_HEADER @ [1] @
       link_frame (data ! 0) data @ [hi8 PJON_ACK, lo8 PJON_ACK] @ be32 ETCP_SINGLE_SOCKET_FOOTER"
    using transfer_master_stream [OF assms(1,2,4,6-9,12,13-18)] assms(10) by auto
  then show ?thesis
    using assms(3-5,11,13)
    by (simp add: et_send_frame_def et_call_def link_send_def single_socket_transfer_def et_receiver_def)
qed

theorem etcp_transfer_loses_witness:
  "\<exists>s'. et_send_frame (default_etcp\<lparr> eb_single_socket_ack := True \<rparr>) pipe_net 50 [9, 1]
          ((sample_sender ([0, 6, 1] @ link_frame 9 [7, 7]))
             \<lparr> et_link := (link_single_socket True (et_link (sample_sender ([0, 6, 1] @ link_frame 9 [7, 7]))))
                           \<lparr> el_ack_requested := True \<rparr> \<rparr>) = Some s' \<and>
        fst (el_world (et_link s')) = [] \<and> et_buffer s' = None \<and> el_delivered (et_link s') = []"
  using etcp_transfer_loses [of pipe_net "(sample_sender ([0, 6, 1] @ link_frame 9 [7, 7]))
             \<lparr> et_link := (link_single_socket True (et_link (sample_sender ([0, 6, 1] @ link_frame 9 [7, 7]))))
                           \<lparr> el_ack_requested := True \<rparr> \<rparr>" fst snd "\<lambda>_. 0" "[9, 1]"
      "default_etcp\<lparr> eb_single_socket_ack := True \<rparr>" 9 "[7, 7]" "[]" 50]
  by (simp add: sample_station_defs link_single_socket_def link_keep_connection_def link_request_ack_def
      const_defs hi8_def lo8_def) blast

end
