(* ===== verification/Through_Lora.thy ===== *)
theory Through_Lora
  imports Pins
begin

text \<open>
  \<^verbatim>\<open>src/strategies/ThroughLoRa\<close>: \<^verbatim>\<open>ThroughLora.h\<close> and \<^verbatim>\<open>Timing.h\<close>.  The radio is the object \<^verbatim>\<open>LoRa\<close> of a library
  that is not part of the repository; its members are the record \<open>lora\<close>.  \<^verbatim>\<open>parsePacket\<close> and \<^verbatim>\<open>read\<close> return
  an \<^verbatim>\<open>int\<close> (-1: nothing to read).

  Nothing but the last bytes of a frame are sent back as its acknowledgement.
\<close>

subsection \<open>The radio\<close>

datatype radio_setting =
    Signal_Bandwidth u32
  | Radio_Pins u8 u8 u8
  | Spreading_Factor u8
  | Coding_Rate u8
  | Preamble_Length u16
  | Sync_Word u8
  | Enable_Crc
  | Disable_Crc
  | Tx_Power u8
  | Tx_Power_Boost u8 u8
  | Radio_Idle
  | Radio_Sleep

record 's lora = "'s platform" +
  lr_delay_us :: "u32 \<Rightarrow> 's \<Rightarrow> 's"
  lr_begin :: "u32 \<Rightarrow> 's \<Rightarrow> bool \<times> 's"
  lr_set :: "radio_setting \<Rightarrow> 's \<Rightarrow> 's"
  lr_random :: "'s \<Rightarrow> u8 \<times> 's"
  lr_rssi :: "'s \<Rightarrow> int \<times> 's"
  lr_parse_packet :: "'s \<Rightarrow> int \<times> 's"
  lr_available :: "'s \<Rightarrow> bool \<times> 's"
  lr_read :: "'s \<Rightarrow> int \<times> 's"
  lr_begin_packet :: "'s \<Rightarrow> 's"
  lr_write :: "u8 \<Rightarrow> 's \<Rightarrow> 's"
  lr_end_packet :: "'s \<Rightarrow> 's"

record tl_config =
  tl_initial_delay :: u32
  tl_collision_delay :: u32
  tl_response_time_out :: u32
  tl_response_delay :: u32
  tl_max_attempts :: u8
  tl_back_off_degree :: nat
  tl_response_length :: nat
  tl_receive_time :: u16

definition default_lora :: tl_config where
  "default_lora =
     \<lparr> tl_initial_delay = 1000, tl_collision_delay = 64, tl_response_time_out = 100000, tl_response_delay = 0,
       tl_max_attempts = 5, tl_back_off_degree = 5, tl_response_length = 5, tl_receive_time = 0 \<rparr>"

record 's through_lora =
  tl_response :: "u8 list"
  tl_world :: 's

definition tl_in :: "('s \<Rightarrow> 'a \<times> 's) \<Rightarrow> 's through_lora \<Rightarrow> 'a \<times> 's through_lora" where
  "tl_in f s = (let (x, w) = f (tl_world s) in (x, s\<lparr> tl_world := w \<rparr>))"

definition tl_on :: "('s \<Rightarrow> 's) \<Rightarrow> 's through_lora \<Rightarrow> 's through_lora" where
  "tl_on f s = s\<lparr> tl_world := f (tl_world s) \<rparr>"

subsection \<open>Settings\<close>

definition tl_set_frequency :: "('s, 'z) lora_scheme \<Rightarrow> u32 \<Rightarrow> 's through_lora \<Rightarrow> bool \<times> 's through_lora" where
  "tl_set_frequency lr frequency s = tl_in (lr_begin lr frequency) s"

definition tl_packet_rssi :: "('s, 'z) lora_scheme \<Rightarrow> 's through_lora \<Rightarrow> int \<times> 's through_lora" where
  "tl_packet_rssi lr s = tl_in (lr_rssi lr) s"

definition tl_set :: "('s, 'z) lora_scheme \<Rightarrow> radio_setting \<Rightarrow> 's through_lora \<Rightarrow> 's through_lora" where
  "tl_set lr x s = tl_on (lr_set lr x) s"

definition tl_set_crc :: "('s, 'z) lora_scheme \<Rightarrow> bool \<Rightarrow> 's through_lora \<Rightarrow> 's through_lora" where
  "tl_set_crc lr enable s = (if enable then tl_set lr Enable_Crc s else tl_set lr Disable_Crc s)"

definition tl_get_random :: "('s, 'z) lora_scheme \<Rightarrow> 's through_lora \<Rightarrow> u8 \<times> 's through_lora" where
  "tl_get_random lr s = tl_in (lr_random lr) s"

subsection \<open>The members of the strategy\<close>

definition tl_back_off :: "tl_config \<Rightarrow> u8 \<Rightarrow> u32" where
  "tl_back_off c attempts = power_back_off (tl_back_off_degree c) attempts"

definition tl_begin :: "tl_config \<Rightarrow> ('s, 'z) lora_scheme \<Rightarrow> u8 \<Rightarrow> 's through_lora \<Rightarrow> bool \<times> 's through_lora" where
  "tl_begin c lr did s =
     (let (r, s) = tl_in (pf_random lr (tl_initial_delay c)) s in (True, tl_on (lr_delay_us lr (r + ucast did)) s))"

definition tl_can_start :: "('s, 'z) lora_scheme \<Rightarrow> 's through_lora \<Rightarrow> bool \<times> 's through_lora" where
  "tl_can_start lr s = (let (size, s) = tl_in (lr_parse_packet lr) s in (\<not> 0 < size, s))"

definition tl_handle_collision :: "tl_config \<Rightarrow> ('s, 'z) lora_scheme \<Rightarrow> 's through_lora \<Rightarrow> 's through_lora" where
  "tl_handle_collision c lr s =
     (let (r, s) = tl_in (pf_random lr (tl_collision_delay c)) s in tl_on (lr_delay_us lr r) s)"

text \<open>
  The bytes \<^verbatim>\<open>buffer[position - length .. position - 1]\<close>.  The buffer starts \<open>offset\<close> bytes before \<open>bytes\<close> (it starts
  later if \<open>offset\<close> is negative); a byte outside of \<open>bytes\<close> is an access out of bounds.
\<close>

definition tl_prepare_response ::
  "tl_config \<Rightarrow> u8 list \<Rightarrow> int \<Rightarrow> nat \<Rightarrow> 's through_lora \<Rightarrow> 's through_lora option" where
  "tl_prepare_response c bytes offset position s =
     (let first = int position - int (tl_response_length c) - offset in
      if 0 \<le> first \<and> first + int (tl_response_length c) \<le> int (length bytes)
      then Some (s\<lparr> tl_response := take (tl_response_length c) (drop (nat first) bytes) \<rparr>)
      else None)"

primrec tl_compare :: "('s, 'z) lora_scheme \<Rightarrow> u8 list \<Rightarrow> 's through_lora \<Rightarrow> u16 \<times> 's through_lora" where
  "tl_compare lr [] s = (PJON_ACK, s)"
| "tl_compare lr (x # xs) s =
     (let (r, s) = tl_in (lr_read lr) s in if r \<noteq> uint x then (PJON_FAIL, s) else tl_compare lr xs s)"

fun tl_response_loop ::
  "tl_config \<Rightarrow> ('s, 'z) lora_scheme \<Rightarrow> nat \<Rightarrow> u32 \<Rightarrow> 's through_lora \<Rightarrow> (u16 \<times> 's through_lora) option" where
  "tl_response_loop c lr 0 time s = None"
| "tl_response_loop c lr (Suc fuel) time s =
     (let (now, s) = tl_in (pf_micros lr) s in
      if now - time < tl_response_time_out c
      then let (size, s) = tl_in (lr_parse_packet lr) s in
           if uint (word_of_int size :: u8) = int (tl_response_length c) then Some (tl_compare lr (tl_response s) s)
           else tl_response_loop c lr fuel time s
      else Some (PJON_FAIL, s))"

definition tl_receive_response ::
  "tl_config \<Rightarrow> ('s, 'z) lora_scheme \<Rightarrow> nat \<Rightarrow> 's through_lora \<Rightarrow> (u16 \<times> 's through_lora) option" where
  "tl_receive_response c lr fuel s =
     (let (time, s) = tl_in (pf_micros lr) s in tl_response_loop c lr fuel time s)"

text \<open>
  The loop stores what the radio has, without looking at the space there is: \<open>space\<close> is what the caller gave,
  a byte beyond it is a fault.
\<close>

fun tl_read_loop ::
  "('s, 'z) lora_scheme \<Rightarrow> nat \<Rightarrow> nat \<Rightarrow> u8 list \<Rightarrow> 's through_lora \<Rightarrow> (u8 list \<times> 's through_lora) option" where
  "tl_read_loop lr 0 space data s = None"
| "tl_read_loop lr (Suc fuel) space data s =
     (let (more, s) = tl_in (lr_available lr) s in
      if more
      then if length data < space
           then let (r, s) = tl_in (lr_read lr) s in tl_read_loop lr fuel space (data @ [word_of_int r]) s
           else None
      else Some (data, s))"

definition tl_receive_frame ::
  "tl_config \<Rightarrow> ('s, 'z) lora_scheme \<Rightarrow> nat \<Rightarrow> u16 \<Rightarrow> 's through_lora \<Rightarrow> ((u16 \<times> u8 list) \<times> 's through_lora) option" where
  "tl_receive_frame c lr fuel max_length s =
     (let (size, s) = tl_in (lr_parse_packet lr) s; frame_size = (word_of_int size :: u8) in
      if 5 < frame_size \<and> ucast frame_size \<le> max_length
      then do { (data, s) \<leftarrow> tl_read_loop lr fuel (unat max_length) [] s;
                s \<leftarrow> tl_prepare_response c data (int (unat frame_size) - int (length data)) (unat frame_size) s;
                Some ((ucast frame_size, data), s) }
      else Some ((PJON_FAIL, []), s))"

primrec tl_send_bytes :: "('s, 'z) lora_scheme \<Rightarrow> u8 list \<Rightarrow> 's through_lora \<Rightarrow> 's through_lora" where
  "tl_send_bytes lr [] s = s"
| "tl_send_bytes lr (b # bs) s = tl_send_bytes lr bs (tl_on (lr_write lr b) s)"

definition tl_send_response ::
  "tl_config \<Rightarrow> ('s, 'z) lora_scheme \<Rightarrow> u8 \<Rightarrow> 's through_lora \<Rightarrow> 's through_lora" where
  "tl_send_response c lr response s =
     (if ucast response = PJON_ACK
      then let s = tl_on (lr_begin_packet lr) s;
               s = (if tl_response_delay c \<noteq> 0 then tl_on (pf_delay lr (tl_response_delay c)) s else s);
               s = tl_send_bytes lr (tl_response s) s
           in tl_on (lr_end_packet lr) s
      else s)"

text \<open>The length is a parameter of 8 bits.\<close>

definition tl_send_frame ::
  "tl_config \<Rightarrow> ('s, 'z) lora_scheme \<Rightarrow> u8 list \<Rightarrow> 's through_lora \<Rightarrow> 's through_lora option" where
  "tl_send_frame c lr data s =
     (let len = unat (of_nat (length data) :: u8);
          s = tl_on (lr_begin_packet lr) s;
          s = tl_send_bytes lr (take len data) s
      in map_option (tl_on (lr_end_packet lr)) (tl_prepare_response c data 0 len s))"

definition tl_strategy ::
  "tl_config \<Rightarrow> ('s, 'z) lora_scheme \<Rightarrow> nat \<Rightarrow> 's through_lora option strategy" where
  "tl_strategy c lr fuel =
     \<lparr> pf_micros = lift_call 0 (\<lambda>s. Some (tl_in (pf_micros lr) s)),
       pf_delay = (\<lambda>ms. map_option (tl_on (pf_delay lr ms))),
       pf_random = (\<lambda>k. lift_call 0 (\<lambda>s. Some (tl_in (pf_random lr k) s))),
       pf_random_seed = (\<lambda>k. map_option (tl_on (pf_random_seed lr k))),
       pf_analog_read = (\<lambda>p. lift_call 0 (\<lambda>s. Some (tl_in (pf_analog_read lr p) s))),
       st_begin = (\<lambda>did. lift_call False (\<lambda>s. Some (tl_begin c lr did s))),
       st_back_off = (\<lambda>attempts s. (tl_back_off c attempts, s)),
       st_can_start = lift_call False (\<lambda>s. Some (tl_can_start lr s)),
       st_max_attempts = tl_max_attempts c,
       st_receive_time = tl_receive_time c,
       st_handle_collision = map_option (tl_handle_collision c lr),
       st_receive_frame = (\<lambda>k s. case lift_call (0, []) (tl_receive_frame c lr fuel k) s of
                                   ((r, bs), s) \<Rightarrow> (r, bs, s)),
       st_receive_response = lift_call PJON_FAIL (tl_receive_response c lr fuel),
       st_send_response = (\<lambda>r. map_option (tl_send_response c lr (ucast r))),
       st_send_frame = (\<lambda>data. lift_update (tl_send_frame c lr data)) \<rparr>"

lemma tl_read_loop_fits:
  "tl_read_loop lr fuel space data s = Some (bs, s') \<Longrightarrow> length data \<le> space \<Longrightarrow> length bs \<le> space"
  by (induction lr fuel space data s rule: tl_read_loop.induct) (auto simp: Let_def split: prod.splits if_splits)

interpretation tl: bounded_strategy "tl_strategy c lr fuel" "\<lambda>_. True" for c lr fuel
proof (unfold_locales, goal_cases)
  case (1 s k r bs s')
  then show ?case using tl_read_loop_fits [of lr fuel "unat k" "[]"]
    by (auto simp: tl_strategy_def tl_receive_frame_def lift_call_def Let_def split: prod.splits option.splits
        if_splits elim!: bind_SomeE)
qed simp_all

end
