(* ===== verification/Through_Lora_Laws.thy ===== *)
theory Through_Lora_Laws
  imports Through_Lora
begin

text \<open>
  What a frame and its acknowledgement are over \<^verbatim>\<open>ThroughLora\<close>.

  \<open>packet_radio\<close> states the documented behaviour of the radio library: packets are taken from \<open>inbox\<close> one by
  one, read byte by byte, and a packet written between begin and end goes to \<open>outbox\<close>.
\<close>

subsection \<open>The radio as a packet queue\<close>

record radio =
  ra_inbox :: "u8 list list"
  ra_unread :: "u8 list"
  ra_written :: "u8 list"
  ra_outbox :: "u8 list list"

definition packet_radio :: "('s, 'z) lora_scheme \<Rightarrow> ('s \<Rightarrow> radio) \<Rightarrow> bool" where
  "packet_radio lr view \<longleftrightarrow>
     (\<forall>w. (case ra_inbox (view w) of
             [] \<Rightarrow> \<exists>w'. lr_parse_packet lr w = (0, w') \<and> view w' = (view w)\<lparr> ra_unread := [] \<rparr>
           | p # ps \<Rightarrow> \<exists>w'. lr_parse_packet lr w = (int (length p), w') \<and>
                           view w' = (view w)\<lparr> ra_inbox := ps, ra_unread := p \<rparr>)) \<and>
     (\<forall>w. \<exists>w'. lr_available lr w = (ra_unread (view w) \<noteq> [], w') \<and> view w' = view w) \<and>
     (\<forall>w b bs. ra_unread (view w) = b # bs \<longrightarrow>
        (\<exists>w'. lr_read lr w = (uint b, w') \<and> view w' = (view w)\<lparr> ra_unread := bs \<rparr>)) \<and>
     (\<forall>w. view (lr_begin_packet lr w) = (view w)\<lparr> ra_written := [] \<rparr>) \<and>
     (\<forall>w b. view (lr_write lr b w) = (view w)\<lparr> ra_written := ra_written (view w) @ [b] \<rparr>) \<and>
     (\<forall>w. view (lr_end_packet lr w) = (view w)\<lparr> ra_outbox := ra_outbox (view w) @ [ra_written (view w)] \<rparr>) \<and>
     (\<forall>w ms. view (pf_delay lr ms w) = view w) \<and>
     (\<forall>w. \<exists>t w'. pf_micros lr w = (t, w') \<and> view w' = view w)"

lemma radio_parse:
  assumes "packet_radio lr view" "ra_inbox (view (tl_world s)) = p # ps"
  shows "\<exists>w. tl_in (lr_parse_packet lr) s = (int (length p), s\<lparr> tl_world := w \<rparr>) \<and>
           view w = (view (tl_world s))\<lparr> ra_inbox := ps, ra_unread := p \<rparr>"
proof -
  have "case ra_inbox (view (tl_world s)) of
      [] \<Rightarrow> \<exists>w'. lr_parse_packet lr (tl_world s) = (0, w') \<and> view w' = (view (tl_world s))\<lparr> ra_unread := [] \<rparr>
    | p # ps \<Rightarrow> \<exists>w'. lr_parse_packet lr (tl_world s) = (int (length p), w') \<and>
                    view w' = (view (tl_world s))\<lparr> ra_inbox := ps, ra_unread := p \<rparr>"
    using assms(1) unfolding packet_radio_def by blast
  then show ?thesis using assms(2) by (auto simp: tl_in_def)
qed

lemma radio_read:
  assumes "packet_radio lr view" "ra_unread (view (tl_world s)) = b # bs"
  shows "\<exists>w. tl_in (lr_read lr) s = (uint b, s\<lparr> tl_world := w \<rparr>) \<and>
           view w = (view (tl_world s))\<lparr> ra_unread := bs \<rparr>"
  using assms unfolding packet_radio_def by (fastforce simp: tl_in_def)

lemma radio_available:
  assumes "packet_radio lr view"
  shows "\<exists>w. tl_in (lr_available lr) s = (ra_unread (view (tl_world s)) \<noteq> [], s\<lparr> tl_world := w \<rparr>) \<and>
           view w = view (tl_world s)"
proof -
  obtain w where "lr_available lr (tl_world s) = (ra_unread (view (tl_world s)) \<noteq> [], w)" "view w = view (tl_world s)"
    using assms unfolding packet_radio_def by blast
  then show ?thesis by (auto simp: tl_in_def)
qed

lemma tl_send_bytes_radio:
  assumes "packet_radio lr view"
  shows "\<exists>w. tl_send_bytes lr bs s = s\<lparr> tl_world := w \<rparr> \<and>
           view w = (view (tl_world s))\<lparr> ra_written := ra_written (view (tl_world s)) @ bs \<rparr>"
proof (induction bs arbitrary: s)
  case Nil
  then show ?case by (auto intro!: exI [of _ "tl_world s"])
next
  case (Cons b bs)
  have "view (lr_write lr b (tl_world s)) = (view (tl_world s))\<lparr> ra_written := ra_written (view (tl_world s)) @ [b] \<rparr>"
    using assms unfolding packet_radio_def by blast
  then show ?case
    using Cons.IH [of "tl_on (lr_write lr b) s"] by (auto simp: tl_on_def)
qed

lemma tl_read_loop_radio:
  assumes "packet_radio lr view"
  shows "ra_unread (view (tl_world s)) = bs \<Longrightarrow> length data + length bs \<le> space \<Longrightarrow> length bs < fuel \<Longrightarrow>
    \<exists>w. tl_read_loop lr fuel space data s = Some (data @ bs, s\<lparr> tl_world := w \<rparr>) \<and>
        view w = (view (tl_world s))\<lparr> ra_unread := [] \<rparr>"
proof (induction bs arbitrary: fuel data s)
  case Nil
  obtain f where f: "fuel = Suc f" using Nil.prems(3) by (cases fuel) auto
  obtain w where "tl_in (lr_available lr) s = (False, s\<lparr> tl_world := w \<rparr>)" "view w = view (tl_world s)"
    using radio_available [OF assms, of s] Nil.prems(1) by auto
  then show ?case using Nil.prems(1) by (auto simp: f intro!: exI [of _ w])
next
  case (Cons b bs)
  obtain f where f: "fuel = Suc f" using Cons.prems(3) by (cases fuel) auto
  obtain w where w: "tl_in (lr_available lr) s = (True, s\<lparr> tl_world := w \<rparr>)" "view w = view (tl_world s)"
    using radio_available [OF assms, of s] Cons.prems(1) by auto
  obtain w' where w': "tl_in (lr_read lr) (s\<lparr> tl_world := w \<rparr>) = (uint b, s\<lparr> tl_world := w' \<rparr>)"
    "view w' = (view w)\<lparr> ra_unread := bs \<rparr>"
    using radio_read [OF assms, of "s\<lparr> tl_world := w \<rparr>" b bs] w(2) Cons.prems(1) by auto
  obtain w'' where "tl_read_loop lr f space (data @ [b]) (s\<lparr> tl_world := w' \<rparr>) =
      Some ((data @ [b]) @ bs, s\<lparr> tl_world := w'' \<rparr>)" "view w'' = (view w')\<lparr> ra_unread := [] \<rparr>"
    using Cons.IH [of "s\<lparr> tl_world := w' \<rparr>" "data @ [b]" f] w'(2) Cons.prems(2,3) f by auto
  then show ?case using w w' Cons.prems(2) by (auto simp: f word_of_int_uint)
qed

subsection \<open>Frames and responses\<close>

text \<open>The last bytes of a frame, its identifier in the response.\<close>

definition last_bytes :: "tl_config \<Rightarrow> u8 list \<Rightarrow> u8 list" where
  "last_bytes c frame = drop (length frame - tl_response_length c) frame"

lemma tl_prepare_response_frame:
  assumes "tl_response_length c \<le> length frame"
  shows "tl_prepare_response c frame 0 (length frame) s = Some (s\<lparr> tl_response := last_bytes c frame \<rparr>)"
  using assms by (simp add: tl_prepare_response_def last_bytes_def nat_diff_distrib')

lemma tl_send_frame_radio:
  assumes "packet_radio lr view" "tl_response_length c \<le> length frame" "length frame < 256"
  shows "\<exists>s'. tl_send_frame c lr frame s = Some s' \<and> tl_response s' = last_bytes c frame \<and>
           ra_outbox (view (tl_world s')) = ra_outbox (view (tl_world s)) @ [frame] \<and>
           ra_inbox (view (tl_world s')) = ra_inbox (view (tl_world s))"
proof -
  let ?s = "tl_on (lr_begin_packet lr) s"
  have len: "unat (of_nat (length frame) :: u8) = length frame"
    using assms(3) by (simp add: unsigned_of_nat take_bit_nat_eq_self)
  have begin_v: "view (lr_begin_packet lr w) = (view w)\<lparr> ra_written := [] \<rparr>"
    and end_v: "view (lr_end_packet lr w) = (view w)\<lparr> ra_outbox := ra_outbox (view w) @ [ra_written (view w)] \<rparr>" for w
    using assms(1) unfolding packet_radio_def by blast+
  obtain w where w: "tl_send_bytes lr frame ?s = ?s\<lparr> tl_world := w \<rparr>"
    "view w = (view (tl_world ?s))\<lparr> ra_written := ra_written (view (tl_world ?s)) @ frame \<rparr>"
    using tl_send_bytes_radio [OF assms(1), of frame ?s] by blast
  have "tl_send_frame c lr frame s =
      Some (tl_on (lr_end_packet lr) (?s\<lparr> tl_world := w, tl_response := last_bytes c frame \<rparr>))"
    using tl_prepare_response_frame [OF assms(2), of "?s\<lparr> tl_world := w \<rparr>"] w(1) len by (simp add: tl_send_frame_def Let_def)
  then show ?thesis using w(2) begin_v end_v by (auto simp: tl_on_def)
qed

lemma tl_receive_frame_radio:
  assumes "packet_radio lr view" "ra_inbox (view (tl_world s)) = frame # ps"
    and "5 < length frame" "length frame < 256" "length frame \<le> unat max_length"
    and "tl_response_length c \<le> length frame" "length frame < fuel"
  shows "\<exists>s'. tl_receive_frame c lr fuel max_length s = Some ((of_nat (length frame), frame), s') \<and>
           tl_response s' = last_bytes c frame \<and>
           view (tl_world s') = (view (tl_world s))\<lparr> ra_inbox := ps, ra_unread := [] \<rparr>"
proof -
  let ?n = "of_nat (length frame) :: u8"
  have len: "unat ?n = length frame" "(word_of_int (int (length frame)) :: u8) = ?n"
    using assms(4) by (simp_all add: unsigned_of_nat take_bit_nat_eq_self)
  have n16: "(ucast ?n :: u16) = of_nat (length frame)"
    by (rule word_unat_eq_iff [THEN iffD2]) (use assms(4) in \<open>simp add: unsigned_ucast_eq len unsigned_of_nat take_bit_nat_eq_self\<close>)
  obtain w where w: "tl_in (lr_parse_packet lr) s = (int (length frame), s\<lparr> tl_world := w \<rparr>)"
    "view w = (view (tl_world s))\<lparr> ra_inbox := ps, ra_unread := frame \<rparr>"
    using radio_parse [OF assms(1,2)] by blast
  obtain w' where w': "tl_read_loop lr fuel (unat max_length) [] (s\<lparr> tl_world := w \<rparr>) = Some (frame, s\<lparr> tl_world := w' \<rparr>)"
    "view w' = (view w)\<lparr> ra_unread := [] \<rparr>"
    using tl_read_loop_radio [OF assms(1), of "s\<lparr> tl_world := w \<rparr>" frame "[]" "unat max_length" fuel] w(2) assms(5,7)
    by auto
  have "5 < ?n" "ucast ?n \<le> max_length"
    using assms(3-5) len n16 by (simp_all add: word_less_nat_alt word_le_nat_alt unsigned_of_nat take_bit_nat_eq_self)
  then show ?thesis
    using w w' len n16 tl_prepare_response_frame [OF assms(6), of "s\<lparr> tl_world := w' \<rparr>"]
    by (auto simp: tl_receive_frame_def Let_def)
qed

lemma tl_send_response_radio:
  assumes "packet_radio lr view"
  shows "ra_outbox (view (tl_world (tl_send_response c lr (ucast PJON_ACK) s))) =
    ra_outbox (view (tl_world s)) @ [tl_response s]"
proof -
  let ?s = "tl_on (lr_begin_packet lr) s"
  let ?t = "if tl_response_delay c \<noteq> 0 then tl_on (pf_delay lr (tl_response_delay c)) ?s else ?s"
  have begin_v: "view (lr_begin_packet lr w) = (view w)\<lparr> ra_written := [] \<rparr>"
    and end_v: "view (lr_end_packet lr w) = (view w)\<lparr> ra_outbox := ra_outbox (view w) @ [ra_written (view w)] \<rparr>"
    and delay_v: "view (pf_delay lr ms w) = view w" for w ms
    using assms unfolding packet_radio_def by blast+
  have t: "tl_response ?t = tl_response s" "view (tl_world ?t) = (view (tl_world s))\<lparr> ra_written := [] \<rparr>"
    by (simp_all add: tl_on_def begin_v delay_v)
  obtain w where w: "tl_send_bytes lr (tl_response ?t) ?t = ?t\<lparr> tl_world := w \<rparr>"
    "view w = (view (tl_world ?t))\<lparr> ra_written := ra_written (view (tl_world ?t)) @ tl_response ?t \<rparr>"
    using tl_send_bytes_radio [OF assms, of "tl_response ?t" ?t] by blast
  have "tl_send_response c lr (ucast PJON_ACK) s = tl_on (lr_end_packet lr) (?t\<lparr> tl_world := w \<rparr>)"
    using w(1) by (simp add: tl_send_response_def Let_def PJON_ACK_def)
  then show ?thesis using w(2) t by (simp add: tl_on_def end_v)
qed

lemma tl_compare_radio:
  assumes "packet_radio lr view"
  shows "ra_unread (view (tl_world s)) = bs \<Longrightarrow> length bs = length xs \<Longrightarrow>
    fst (tl_compare lr xs s) = (if bs = xs then PJON_ACK else PJON_FAIL)"
proof (induction xs arbitrary: bs s)
  case (Cons x xs)
  obtain b cs where bs: "bs = b # cs" using Cons.prems(2) by (cases bs) auto
  obtain w where w: "tl_in (lr_read lr) s = (uint b, s\<lparr> tl_world := w \<rparr>)"
    "view w = (view (tl_world s))\<lparr> ra_unread := cs \<rparr>"
    using radio_read [OF assms, of s b cs] Cons.prems(1) bs by auto
  show ?case
    using w Cons.IH [of "s\<lparr> tl_world := w \<rparr>" cs] Cons.prems(2) bs by (auto simp: Let_def word_uint_eq_iff)
qed simp

lemma tl_receive_response_radio:
  assumes "packet_radio lr view" "ra_inbox (view (tl_world s)) = p # ps"
    and "length p = tl_response_length c" "length (tl_response s) = tl_response_length c" "tl_response_length c < 256"
    and "\<And>w. fst (pf_micros lr (snd (pf_micros lr w))) - fst (pf_micros lr w) < tl_response_time_out c" "0 < fuel"
  shows "\<exists>s'. tl_receive_response c lr fuel s = Some (if p = tl_response s then PJON_ACK else PJON_FAIL, s')"
proof -
  obtain f where f: "fuel = Suc f" using assms(7) by (cases fuel) auto
  have clock: "\<exists>t w'. pf_micros lr w = (t, w') \<and> view w' = view w" for w
    using assms(1) unfolding packet_radio_def by blast
  obtain t w where w: "pf_micros lr (tl_world s) = (t, w)" "view w = view (tl_world s)" using clock by blast
  obtain t' w' where w': "pf_micros lr w = (t', w')" "view w' = view w" using clock by blast
  have early: "t' - t < tl_response_time_out c" using assms(6) [of "tl_world s"] w(1) w'(1) by simp
  let ?s = "s\<lparr> tl_world := w' \<rparr>"
  obtain v where v: "tl_in (lr_parse_packet lr) ?s = (int (length p), ?s\<lparr> tl_world := v \<rparr>)"
    "view v = (view w')\<lparr> ra_inbox := ps, ra_unread := p \<rparr>"
    using radio_parse [OF assms(1), of ?s p ps] w(2) w'(2) assms(2) by auto
  have "fst (tl_compare lr (tl_response s) (s\<lparr> tl_world := v \<rparr>)) = (if p = tl_response s then PJON_ACK else PJON_FAIL)"
    using tl_compare_radio [OF assms(1), of "s\<lparr> tl_world := v \<rparr>" p "tl_response s"] v(2) assms(3,4) by auto
  moreover have "uint (word_of_int (int (length p)) :: u8) = int (tl_response_length c)"
    using assms(3,5) by (simp add: unsigned_of_nat take_bit_nat_eq_self uint_word_of_int)
  ultimately show ?thesis
    using w(1) w'(1) early v(1)
    by (cases "tl_compare lr (tl_response s) (s\<lparr> tl_world := v \<rparr>)")
      (auto simp: tl_receive_response_def tl_in_def f Let_def)
qed

text \<open>A frame whose length is just above a multiple of 256 makes the transmitter read before its buffer.\<close>

lemma tl_send_frame_wraps:
  assumes "length data mod 256 < tl_response_length c"
  shows "tl_send_frame c lr data s = None"
proof -
  have "unat (of_nat (length data) :: u8) = length data mod 256"
    by (simp add: unsigned_of_nat take_bit_eq_mod)
  then show ?thesis using assms by (simp add: tl_send_frame_def tl_prepare_response_def Let_def)
qed

text \<open>A concrete radio for the examples.\<close>

definition sample_radio :: "radio lora" where
  "sample_radio =
     \<lparr> pf_micros = (\<lambda>w. (0, w)), pf_delay = (\<lambda>ms w. w), pf_random = (\<lambda>k w. (0, w)), pf_random_seed = (\<lambda>k w. w),
       pf_analog_read = (\<lambda>p w. (0, w)), lr_delay_us = (\<lambda>us w. w), lr_begin = (\<lambda>f w. (True, w)), lr_set = (\<lambda>x w. w),
       lr_random = (\<lambda>w. (0, w)), lr_rssi = (\<lambda>w. (0, w)),
       lr_parse_packet = (\<lambda>w. case ra_inbox w of [] \<Rightarrow> (0, w\<lparr> ra_unread := [] \<rparr>)
                                | p # ps \<Rightarrow> (int (length p), w\<lparr> ra_inbox := ps, ra_unread := p \<rparr>)),
       lr_available = (\<lambda>w. (ra_unread w \<noteq> [], w)),
       lr_read = (\<lambda>w. case ra_unread w of [] \<Rightarrow> (-1, w) | b # bs \<Rightarrow> (uint b, w\<lparr> ra_unread := bs \<rparr>)),
       lr_begin_packet = (\<lambda>w. w\<lparr> ra_written := [] \<rparr>), lr_write = (\<lambda>b w. w\<lparr> ra_written := ra_written w @ [b] \<rparr>),
       lr_end_packet = (\<lambda>w. w\<lparr> ra_outbox := ra_outbox w @ [ra_written w] \<rparr>) \<rparr>"

lemma sample_radio_ok [simp]: "packet_radio sample_radio (\<lambda>w. w)"
  by (auto simp: packet_radio_def sample_radio_def split: list.splits)

definition radio_with :: "u8 list list \<Rightarrow> radio through_lora" where
  "radio_with inbox =
     \<lparr> tl_response = [0, 0, 0, 0, 0],
       tl_world = \<lparr> ra_inbox = inbox, ra_unread = [], ra_written = [], ra_outbox = [] \<rparr> \<rparr>"

text \<open>C37. A frame of ThroughLora is transmitted as one packet and received unchanged; the response of the receiver
  is the last bytes of the frame, and the transmitter takes a packet of that length for an acknowledgement
  exactly if it consists of these bytes.
\<close>
theorem tl_handshake:
  assumes "packet_radio lrA viewA" "packet_radio lrB viewB"
    and "5 < length frame" "length frame < 256" "length frame \<le> unat max_length" "length frame < fuel"
    and "tl_response_length c \<le> length frame"
    and "ra_inbox (viewB (tl_world b)) = frame # ps"
    and "ra_inbox (viewA (tl_world a)) = response # qs" "length response = tl_response_length c"
    and "\<And>w. fst (pf_micros lrA (snd (pf_micros lrA w))) - fst (pf_micros lrA w) < tl_response_time_out c"
  shows "\<exists>a' b' a''. tl_send_frame c lrA frame a = Some a' \<and>
           ra_outbox (viewA (tl_world a')) = ra_outbox (viewA (tl_world a)) @ [frame] \<and>
           tl_receive_frame c lrB fuel max_length b = Some ((of_nat (length frame), frame), b') \<and>
           ra_outbox (viewB (tl_world (tl_send_response c lrB (ucast PJON_ACK) b'))) =
             ra_outbox (viewB (tl_world b)) @ [last_bytes c frame] \<and>
           tl_receive_response c lrA fuel a' =
             Some (if response = last_bytes c frame then PJON_ACK else PJON_FAIL, a'')"
proof -
  obtain a' where a': "tl_send_frame c lrA frame a = Some a'" "tl_response a' = last_bytes c frame"
    "ra_outbox (viewA (tl_world a')) = ra_outbox (viewA (tl_world a)) @ [frame]"
    "ra_inbox (viewA (tl_world a')) = response # qs"
    using tl_send_frame_radio [OF assms(1,7,4), of a] assms(9) by auto
  obtain b' where b': "tl_receive_frame c lrB fuel max_length b = Some ((of_nat (length frame), frame), b')"
    "tl_response b' = last_bytes c frame"
    "viewB (tl_world b') = (viewB (tl_world b))\<lparr> ra_inbox := ps, ra_unread := [] \<rparr>"
    using tl_receive_frame_radio [OF assms(2,8,3-5,7,6)] by auto
  have "length (last_bytes c frame) = tl_response_length c" using assms(7) by (simp add: last_bytes_def)
  then obtain a'' where "tl_receive_response c lrA fuel a' =
      Some (if response = last_bytes c frame then PJON_ACK else PJON_FAIL, a'')"
    using tl_receive_response_radio [OF assms(1) a'(4) assms(10) _ _ assms(11), of fuel] assms(4,6,7) a'(2) by auto
  then show ?thesis
    using a' b' tl_send_response_radio [OF assms(2), of c b'] by auto
qed

theorem tl_handshake_witness:
  "\<exists>a' b' a''. tl_send_frame default_lora sample_radio [9, 1, 2, 3, 4, 5, 6] (radio_with [[2, 3, 4, 5, 6]]) = Some a' \<and>
     ra_outbox (tl_world a') = [[9, 1, 2, 3, 4, 5, 6]] \<and>
     tl_receive_frame default_lora sample_radio 8 50 (radio_with [[9, 1, 2, 3, 4, 5, 6]]) =
       Some ((7, [9, 1, 2, 3, 4, 5, 6]), b') \<and>
     ra_outbox (tl_world (tl_send_response default_lora sample_radio (ucast PJON_ACK) b')) = [[2, 3, 4, 5, 6]] \<and>
     tl_receive_response default_lora sample_radio 8 a' = Some (PJON_ACK, a'')"
  using tl_handshake [of sample_radio "\<lambda>w. w" sample_radio "\<lambda>w. w" "[9, 1, 2, 3, 4, 5, 6]" 50 8 default_lora
      "radio_with [[9, 1, 2, 3, 4, 5, 6]]" "[]" "radio_with [[2, 3, 4, 5, 6]]" "[2, 3, 4, 5, 6]" "[]"]
  by (simp add: default_lora_def radio_with_def last_bytes_def sample_radio_def [THEN arg_cong, of pf_micros])

end
