(* ===== verification/Espnow.thy ===== *)
theory Espnow
  imports Pins
begin

text \<open>
  The strategy over the ESP-NOW radio: \<^verbatim>\<open>src/interfaces/ARDUINO/ESPNOWHelper.h\<close> (the class \<^verbatim>\<open>ENHelper\<close>, the
  callbacks and the queue between them) and \<^verbatim>\<open>src/strategies/ESPNOW/ESPNOW.h\<close>.

  The calls of the vendor library are the record \<open>esp_radio\<close>; a call checked by \<^verbatim>\<open>ESP_ERROR_CHECK\<close> aborts the
  program when it fails, which is \<^term>\<open>None\<close>.  The queue of FreeRTOS is a list of at most
  \<^verbatim>\<open>ESPNOW_QUEUE_SIZE\<close> packets; the static variables of the header are fields of the helper, of which a
  program has one.  Log messages are left out.
\<close>

subsection \<open>The vendor library\<close>

datatype esp_status = Esp_Ok | Esp_No_Free_Pages | Esp_Failed

record esp_peer =
  ep_channel :: u8
  ep_encrypt :: bool
  ep_lmk :: "u8 list"
  ep_addr :: "u8 list"

text \<open>\<open>er_wifi\<close> is the start of the adapter on a channel, \<open>er_now\<close> the start of ESP-NOW with the callbacks and the key.\<close>

record 's esp_radio = "'s platform" +
  er_nvs_init :: "'s \<Rightarrow> esp_status \<times> 's"
  er_nvs_erase :: "'s \<Rightarrow> bool \<times> 's"
  er_queue_create :: "'s \<Rightarrow> bool \<times> 's"
  er_wifi :: "u8 \<Rightarrow> 's \<Rightarrow> bool \<times> 's"
  er_now :: "u8 list \<Rightarrow> 's \<Rightarrow> bool \<times> 's"
  er_malloc :: "'s \<Rightarrow> bool \<times> 's"
  er_peer_exists :: "u8 list \<Rightarrow> 's \<Rightarrow> bool \<times> 's"
  er_add_peer :: "esp_peer \<Rightarrow> 's \<Rightarrow> bool \<times> 's"
  er_deinit :: "'s \<Rightarrow> 's"
  er_send :: "u8 list \<Rightarrow> u8 list \<Rightarrow> 's \<Rightarrow> bool \<times> 's"
  er_wait_sent :: "'s \<Rightarrow> 's"

subsection \<open>The helper\<close>

definition ESPNOW_MAX_PACKET :: nat where "ESPNOW_MAX_PACKET = 250"
definition ESPNOW_QUEUE_SIZE :: nat where "ESPNOW_QUEUE_SIZE = 6"

definition espnow_broadcast_mac :: "u8 list" where
  "espnow_broadcast_mac = [0xFF, 0xFF, 0xFF, 0xFF, 0xFF, 0xFF]"

record esp_packet =
  pkt_mac :: "u8 list"
  pkt_data :: "u8 list"

text \<open>A queue that was deleted is still referred to by its handle; using it, or no queue, is a fault.\<close>

datatype recv_queue = No_Queue | Queue "esp_packet list" | Deleted_Queue

record 's en_helper =
  eh_magic :: "u8 list"
  eh_channel :: u8
  eh_pmk :: "u8 list"
  eh_queue :: recv_queue
  eh_last_mac :: "u8 list"
  eh_world :: 's

definition eh_in :: "('s \<Rightarrow> 'a \<times> 's) \<Rightarrow> 's en_helper \<Rightarrow> 'a \<times> 's en_helper" where
  "eh_in f h = (let (x, w) = f (eh_world h) in (x, h\<lparr> eh_world := w \<rparr>))"

definition eh_on :: "('s \<Rightarrow> 's) \<Rightarrow> 's en_helper \<Rightarrow> 's en_helper" where
  "eh_on f h = h\<lparr> eh_world := f (eh_world h) \<rparr>"

definition new_en_helper :: "'s \<Rightarrow> 's en_helper" where
  "new_en_helper world =
     \<lparr> eh_magic = [0, 0, 0, 0], eh_channel = 14, eh_pmk = replicate 16 0, eh_queue = No_Queue,
       eh_last_mac = [0, 0, 0, 0, 0, 0], eh_world = world \<rparr>"

text \<open>The callback of the radio: it never waits, a packet that finds the queue full is dropped.\<close>

definition espnow_recv_cb ::
  "('s, 'z) esp_radio_scheme \<Rightarrow> u8 list \<Rightarrow> u8 list \<Rightarrow> 's en_helper \<Rightarrow> 's en_helper option" where
  "espnow_recv_cb er mac_addr data h =
     (if data = [] then Some h
      else let (allocated, h) = eh_in (er_malloc er) h in
        if \<not> allocated then Some h
        else case eh_queue h of
               Queue ps \<Rightarrow>
                 Some (if length ps < ESPNOW_QUEUE_SIZE
                       then h\<lparr> eh_queue := Queue (ps @ [\<lparr> pkt_mac = mac_addr, pkt_data = data \<rparr>]) \<rparr> else h)
             | _ \<Rightarrow> None)"

text \<open>The value is whether the peer is known; a peer that cannot be added aborts.\<close>

definition add_peer :: "('s, 'z) esp_radio_scheme \<Rightarrow> u8 list \<Rightarrow> 's en_helper \<Rightarrow> (bool \<times> 's en_helper) option" where
  "add_peer er mac_addr h =
     (let (known, h) = eh_in (er_peer_exists er mac_addr) h in
      if known then Some (True, h)
      else let (allocated, h) = eh_in (er_malloc er) h in
        if \<not> allocated
        then (if eh_queue h = No_Queue then None
              else Some (False, eh_on (er_deinit er) (h\<lparr> eh_queue := Deleted_Queue \<rparr>)))
        else let broadcast = (mac_addr = espnow_broadcast_mac);
                 peer = \<lparr> ep_channel = eh_channel h, ep_encrypt = (\<not> broadcast),
                          ep_lmk = (if broadcast then replicate 16 0 else eh_pmk h), ep_addr = mac_addr \<rparr>;
                 (added, h) = eh_in (er_add_peer er peer) h
             in if added then Some (True, h) else None)"

definition add_node_mac :: "('s, 'z) esp_radio_scheme \<Rightarrow> u8 list \<Rightarrow> 's en_helper \<Rightarrow> 's en_helper option" where
  "add_node_mac er mac_addr h =
     do { (ok, h) \<leftarrow> add_peer er mac_addr h; if ok then Some h else None }"

text \<open>
  Its failures are returned as \<^verbatim>\<open>ESP_FAIL\<close>, which is -1, so every value of the function is true.
\<close>

definition en_begin ::
  "('s, 'z) esp_radio_scheme \<Rightarrow> u8 \<Rightarrow> u8 list \<Rightarrow> 's en_helper \<Rightarrow> (bool \<times> 's en_helper) option" where
  "en_begin er channel espnow_pmk h =
     do { let (ret, h) = eh_in (er_nvs_init er) h;
          (ret, h) \<leftarrow> (if ret = Esp_No_Free_Pages
                      then let (erased, h) = eh_in (er_nvs_erase er) h
                           in if erased then Some (eh_in (er_nvs_init er) h) else None
                      else Some (ret, h));
          if ret \<noteq> Esp_Ok then None
          else let h = h\<lparr> eh_channel := channel, eh_pmk := take 16 espnow_pmk \<rparr> in
            if eh_queue h \<noteq> No_Queue then Some (True, h)
            else let (created, h) = eh_in (er_queue_create er) h in
              if \<not> created then Some (True, h)
              else let h = h\<lparr> eh_queue := Queue [] \<rparr>;
                       (wifi, h) = eh_in (er_wifi er channel) h
                   in if \<not> wifi then None
                      else let (now, h) = eh_in (er_now er (eh_pmk h)) h in
                        if \<not> now then None
                        else do { (_, h) \<leftarrow> add_peer er espnow_broadcast_mac h; Some (True, h) } }"

definition magic_matches :: "u8 list \<Rightarrow> u8 list \<Rightarrow> u8 \<Rightarrow> bool" where
  "magic_matches magic data len \<longleftrightarrow>
     data ! 0 XOR len = magic ! 0 \<and> data ! 1 XOR len = magic ! 1 \<and>
     data ! (length data - 2) XOR len = magic ! 2 \<and> data ! (length data - 1) XOR len = magic ! 3"

definition en_helper_receive :: "u16 \<Rightarrow> 's en_helper \<Rightarrow> ((u16 \<times> u8 list) \<times> 's en_helper) option" where
  "en_helper_receive max_length h =
     (case eh_queue h of
        Queue [] \<Rightarrow> Some ((PJON_FAIL, []), h)
      | Queue (p # ps) \<Rightarrow>
          let h = h\<lparr> eh_queue := Queue ps \<rparr>; len = (of_nat (length (pkt_data p)) - 4 :: u8) in
          if length (pkt_data p) < 4 then Some ((PJON_FAIL, []), h)
          else if \<not> magic_matches (eh_magic h) (pkt_data p) len then Some ((PJON_FAIL, []), h)
          else if max_length < ucast len then Some ((PJON_FAIL, []), h)
          else Some ((ucast len, take (unat len) (drop 2 (pkt_data p))), h\<lparr> eh_last_mac := pkt_mac p \<rparr>)
      | _ \<Rightarrow> None)"

text \<open>What goes over the air: the magic bytes around the data, each combined with the length.\<close>

definition en_packet :: "u8 list \<Rightarrow> u8 list \<Rightarrow> u8 list" where
  "en_packet magic data =
     (let len = (of_nat (length data) :: u8)
      in [magic ! 0 XOR len, magic ! 1 XOR len] @ data @ [magic ! 2 XOR len, magic ! 3 XOR len])"

definition en_helper_send ::
  "('s, 'z) esp_radio_scheme \<Rightarrow> u8 list \<Rightarrow> u8 list \<Rightarrow> 's en_helper \<Rightarrow> 's en_helper" where
  "en_helper_send er data dest_mac h =
     (if ESPNOW_MAX_PACKET < length data + 4 then h
      else let (sent, h) = eh_in (er_send er dest_mac (en_packet (eh_magic h) data)) h
           in if sent then eh_on (er_wait_sent er) h else h)"

definition en_helper_broadcast :: "('s, 'z) esp_radio_scheme \<Rightarrow> u8 list \<Rightarrow> 's en_helper \<Rightarrow> 's en_helper" where
  "en_helper_broadcast er data h = en_helper_send er data espnow_broadcast_mac h"

definition en_helper_respond :: "('s, 'z) esp_radio_scheme \<Rightarrow> u8 \<Rightarrow> 's en_helper \<Rightarrow> 's en_helper" where
  "en_helper_respond er response h = en_helper_send er [response] (eh_last_mac h) h"

definition en_set_magic_header :: "u8 list \<Rightarrow> 's en_helper \<Rightarrow> 's en_helper" where
  "en_set_magic_header magic h = h\<lparr> eh_magic := take 4 magic \<rparr>"

definition en_get_sender :: "'s en_helper \<Rightarrow> u8 list" where
  "en_get_sender h = eh_last_mac h"

subsection \<open>The strategy\<close>

record en_config =
  ec_response_timeout :: u32
  ec_max_remote_nodes :: nat
  ec_receive_time :: u16

definition default_espnow :: en_config where
  "default_espnow = \<lparr> ec_response_timeout = 100000, ec_max_remote_nodes = 10, ec_receive_time = 0 \<rparr>"

definition EN_MAGIC_HEADER :: "u8 list" where
  "EN_MAGIC_HEADER = [0xEE, 0xFE, 0x0E, 0xEF]"

record en_node =
  nd_id :: u8
  nd_mac :: "u8 list"

record 's espnow =
  en_initialised :: bool
  en_auto_registration :: bool
  en_channel :: u8
  en_pmk :: "u8 list"
  en_nodes :: "en_node list"
  en_helper :: "'s en_helper"

definition new_espnow :: "'s \<Rightarrow> 's espnow" where
  "new_espnow world =
     \<lparr> en_initialised = False, en_auto_registration = True, en_channel = 14,
       en_pmk = [0xdd, 0xdb, 0xdd, 0x44, 0x34, 0xd5, 0x6a, 0x0b, 0x7e, 0x9f, 0x4e, 0x27, 0xd6, 0x5b, 0xa2, 0x81, 0],
       en_nodes = [], en_helper = new_en_helper world \<rparr>"

definition en_in :: "('s \<Rightarrow> 'a \<times> 's) \<Rightarrow> 's espnow \<Rightarrow> 'a \<times> 's espnow" where
  "en_in f s = (let (x, h) = eh_in f (en_helper s) in (x, s\<lparr> en_helper := h \<rparr>))"

definition en_on :: "('s \<Rightarrow> 's) \<Rightarrow> 's espnow \<Rightarrow> 's espnow" where
  "en_on f s = s\<lparr> en_helper := eh_on f (en_helper s) \<rparr>"

definition check_en :: "('s, 'z) esp_radio_scheme \<Rightarrow> 's espnow \<Rightarrow> (bool \<times> 's espnow) option" where
  "check_en er s =
     (if en_initialised s then Some (True, s)
      else do { let h = en_set_magic_header EN_MAGIC_HEADER (en_helper s);
                (ok, h) \<leftarrow> en_begin er (en_channel s) (en_pmk s) h;
                let s = s\<lparr> en_helper := h, en_initialised := (if ok then True else en_initialised s) \<rparr>;
                Some (en_initialised s, s) })"

text \<open>
  The index of the first node with the id, which must be assigned, or with the address.  The address is
  compared with the first row of the table, whatever the row that is looked at.
\<close>

fun en_find_from :: "u8 \<Rightarrow> u8 list \<Rightarrow> u8 list \<Rightarrow> nat \<Rightarrow> en_node list \<Rightarrow> nat option" where
  "en_find_from did mac row i [] = None"
| "en_find_from did mac row i (x # xs) =
     (if nd_id x = did \<and> did \<noteq> PJON_NOT_ASSIGNED \<or> row = mac then Some i
      else en_find_from did mac row (Suc i) xs)"

definition en_find_remote_node :: "u8 \<Rightarrow> u8 list \<Rightarrow> en_node list \<Rightarrow> nat option" where
  "en_find_remote_node did mac nodes = en_find_from did mac (nd_mac (hd nodes)) 0 nodes"

definition en_add_node ::
  "en_config \<Rightarrow> ('s, 'z) esp_radio_scheme \<Rightarrow> u8 \<Rightarrow> u8 list \<Rightarrow> 's espnow \<Rightarrow> (int \<times> 's espnow) option" where
  "en_add_node c er remote_id remote_mac s =
     (if length (en_nodes s) = ec_max_remote_nodes c then Some (-1, s)
      else do { let s = s\<lparr> en_nodes := en_nodes s @ [\<lparr> nd_id = remote_id, nd_mac = remote_mac \<rparr>] \<rparr>;
                h \<leftarrow> add_node_mac er remote_mac (en_helper s);
                Some (int (length (en_nodes s)) - 1, s\<lparr> en_helper := h \<rparr>) })"

definition en_autoregister_sender ::
  "en_config \<Rightarrow> build \<Rightarrow> ('s, 'z) esp_radio_scheme \<Rightarrow> u8 list \<Rightarrow> u16 \<Rightarrow> 's espnow \<Rightarrow> 's espnow option" where
  "en_autoregister_sender c b er message len s =
     (if en_auto_registration s \<and> 4 < len
      then do { packet_info \<leftarrow> parse_header b message;
                let sender_id = ep_id (pi_tx packet_info);
                if sender_id = 0 then Some s
                else let sender_mac = en_get_sender (en_helper s) in
                     case en_find_remote_node sender_id sender_mac (en_nodes s) of
                       None \<Rightarrow> map_option snd (en_add_node c er sender_id sender_mac s)
                     | Some pos \<Rightarrow>
                         if nd_mac (en_nodes s ! pos) = sender_mac
                         then Some (s\<lparr> en_nodes := (en_nodes s)[pos := (en_nodes s ! pos)\<lparr> nd_mac := sender_mac \<rparr>] \<rparr>)
                         else Some s }
      else Some s)"

definition en_set_pmk :: "u8 list \<Rightarrow> 's espnow \<Rightarrow> 's espnow" where
  "en_set_pmk pmk s = s\<lparr> en_pmk := take 16 pmk @ drop 16 (en_pmk s) \<rparr>"

definition en_set_channel :: "u8 \<Rightarrow> 's espnow \<Rightarrow> 's espnow" where
  "en_set_channel channel s = s\<lparr> en_channel := channel \<rparr>"

definition en_set_autoregistration :: "bool \<Rightarrow> 's espnow \<Rightarrow> 's espnow" where
  "en_set_autoregistration enabled s = s\<lparr> en_auto_registration := enabled \<rparr>"

definition en_back_off :: "('s, 'z) esp_radio_scheme \<Rightarrow> u8 \<Rightarrow> 's espnow \<Rightarrow> u32 \<times> 's espnow" where
  "en_back_off er attempts s =
     (let (r, s) = en_in (pf_random er 10000) s in (10000 * ucast attempts + r, s))"

definition en_can_start :: "('s, 'z) esp_radio_scheme \<Rightarrow> 's espnow \<Rightarrow> (bool \<times> 's espnow) option" where
  "en_can_start er s = check_en er s"

text \<open>The sender is registered from the destination as it is then, \<open>old\<close> is what it held before.\<close>

definition en_receive_frame ::
  "en_config \<Rightarrow> build \<Rightarrow> ('s, 'z) esp_radio_scheme \<Rightarrow> u8 list \<Rightarrow> u16 \<Rightarrow> 's espnow
     \<Rightarrow> ((u16 \<times> u8 list) \<times> 's espnow) option" where
  "en_receive_frame c b er old max_length s =
     do { ((len, bs), h) \<leftarrow> en_helper_receive max_length (en_helper s);
          let s = s\<lparr> en_helper := h \<rparr>;
          s \<leftarrow> (if len \<noteq> PJON_FAIL
               then en_autoregister_sender c b er (bs @ drop (length bs) old) len s else Some s);
          Some ((len, bs), s) }"

fun en_response_loop ::
  "en_config \<Rightarrow> build \<Rightarrow> ('s, 'z) esp_radio_scheme \<Rightarrow> nat \<Rightarrow> u32 \<Rightarrow> u8 list \<Rightarrow> 's espnow
     \<Rightarrow> (u16 \<times> 's espnow) option" where
  "en_response_loop c b er 0 start result s = None"
| "en_response_loop c b er (Suc fuel) start result s =
     (case en_receive_frame c b er result (of_nat (packet_max_length b)) s of
        None \<Rightarrow> None
      | Some ((reply_length, bs), s) \<Rightarrow>
          let result = bs @ drop (length bs) result in
          if reply_length = 1 \<and> ucast (result ! 0) = PJON_ACK then Some (ucast (result ! 0), s)
          else let (now, s) = en_in (pf_micros er) s in
               if now - start < ec_response_timeout c then en_response_loop c b er fuel start result s
               else Some (PJON_FAIL, s))"

definition en_receive_response ::
  "en_config \<Rightarrow> build \<Rightarrow> ('s, 'z) esp_radio_scheme \<Rightarrow> nat \<Rightarrow> u8 list \<Rightarrow> 's espnow \<Rightarrow> (u16 \<times> 's espnow) option" where
  "en_receive_response c b er fuel result s =
     (let (start, s) = en_in (pf_micros er) s in en_response_loop c b er fuel start result s)"

definition en_send_response :: "('s, 'z) esp_radio_scheme \<Rightarrow> u8 \<Rightarrow> 's espnow \<Rightarrow> 's espnow" where
  "en_send_response er response s = s\<lparr> en_helper := en_helper_respond er response (en_helper s) \<rparr>"

text \<open>The header is parsed in the buffer of the packet: \<open>behind\<close> is what follows the frame there.\<close>

definition en_send_frame ::
  "build \<Rightarrow> ('s, 'z) esp_radio_scheme \<Rightarrow> u8 list \<Rightarrow> u8 list \<Rightarrow> 's espnow \<Rightarrow> 's espnow option" where
  "en_send_frame b er behind data s =
     (if 0 < length data
      then do { packet_info \<leftarrow> parse_header b (data @ behind);
                let pos = en_find_remote_node (data ! 0) (ep_mac (pi_rx packet_info)) (en_nodes s);
                Some (s\<lparr> en_helper :=
                  (if data ! 0 = 0 then en_helper_broadcast er data (en_helper s)
                   else case pos of
                          Some i \<Rightarrow> en_helper_send er data (nd_mac (en_nodes s ! i)) (en_helper s)
                        | None \<Rightarrow> en_helper_broadcast er data (en_helper s)) \<rparr>) }
      else Some s)"

definition espnow_strategy ::
  "en_config \<Rightarrow> build \<Rightarrow> ('s, 'z) esp_radio_scheme \<Rightarrow> nat \<Rightarrow> ('s espnow \<Rightarrow> nat \<Rightarrow> u8 list) \<Rightarrow>
     ('s espnow \<Rightarrow> u8 list \<Rightarrow> u8 list) \<Rightarrow> 's espnow option strategy" where
  "espnow_strategy c b er fuel old behind =
     \<lparr> pf_micros = lift_call 0 (\<lambda>s. Some (en_in (pf_micros er) s)),
       pf_delay = (\<lambda>ms. map_option (en_on (pf_delay er ms))),
       pf_random = (\<lambda>n. lift_call 0 (\<lambda>s. Some (en_in (pf_random er n) s))),
       pf_random_seed = (\<lambda>n. map_option (en_on (pf_random_seed er n))),
       pf_analog_read = (\<lambda>p. lift_call 0 (\<lambda>s. Some (en_in (pf_analog_read er p) s))),
       st_begin = (\<lambda>did. lift_call False (check_en er)),
       st_back_off = (\<lambda>attempts. lift_call 0 (\<lambda>s. Some (en_back_off er attempts s))),
       st_can_start = lift_call False (en_can_start er),
       st_max_attempts = 10,
       st_receive_time = ec_receive_time c,
       st_handle_collision = (\<lambda>s. s),
       st_receive_frame = (\<lambda>n s. case lift_call (0, []) (\<lambda>s. en_receive_frame c b er (old s (unat n)) n s) s of
                                   ((r, bs), s) \<Rightarrow> (r, bs, s)),
       st_receive_response = lift_call PJON_FAIL (\<lambda>s. en_receive_response c b er fuel (old s (packet_max_length b)) s),
       st_send_response = (\<lambda>r. map_option (en_send_response er (ucast r))),
       st_send_frame = (\<lambda>data. lift_update (\<lambda>s. en_send_frame b er (behind s data) data s)) \<rparr>"

lemma en_helper_receive_fits:
  "en_helper_receive n h = Some ((r, bs), h') \<Longrightarrow> length bs \<le> unat n"
  by (auto simp: en_helper_receive_def Let_def word_less_nat_alt split: recv_queue.splits list.splits if_splits)

interpretation espnow: bounded_strategy "espnow_strategy c b er fuel old behind" "\<lambda>_. True"
  for c b er fuel old behind
proof (unfold_locales, goal_cases)
  case (1 s n r bs s')
  then show ?case using en_helper_receive_fits [of n]
    by (auto simp: espnow_strategy_def en_receive_frame_def lift_call_def Let_def
        split: prod.splits option.splits if_splits elim!: bind_SomeE)
qed simp_all

end
