(* ===== verification/Espnow_Laws.thy ===== *)
theory Espnow_Laws
  imports Espnow
begin

text \<open>
  \<^verbatim>\<open>ESPNOW\<close>: the queue between the callback of the radio and the bus refines a bounded queue of frames, for any
  interleaving of arrivals and receptions; what the table of nodes does not learn.
\<close>

subsection \<open>Framing\<close>

lemma en_packet_matches:
  assumes "length magic = 4" "length data \<le> 246"
  shows "length (en_packet magic data) = length data + 4"
    and "magic_matches magic (en_packet magic data) (of_nat (length data))"
    and "take (length data) (drop 2 (en_packet magic data)) = data"
proof -
  show "length (en_packet magic data) = length data + 4" by (simp add: en_packet_def Let_def)
  show "take (length data) (drop 2 (en_packet magic data)) = data" by (simp add: en_packet_def Let_def)
  let ?l = "of_nat (length data) :: u8"
  have "en_packet magic data ! (length data + 2) = magic ! 2 XOR ?l"
    "en_packet magic data ! (length data + 3) = magic ! 3 XOR ?l"
    by (simp_all add: en_packet_def Let_def nth_append)
  then show "magic_matches magic (en_packet magic data) ?l"
    by (simp add: magic_matches_def en_packet_def Let_def xor.assoc)
qed

lemma en_packet_length8:
  assumes "length data \<le> 246"
  shows "of_nat (length data + 4) - 4 = (of_nat (length data) :: u8)"
    and "unat (of_nat (length data) :: u8) = length data"
    and "(ucast (of_nat (length data) :: u8) :: u16) = of_nat (length data)"
proof -
  show "of_nat (length data + 4) - 4 = (of_nat (length data) :: u8)" by simp
  show n: "unat (of_nat (length data) :: u8) = length data"
    using assms by (simp add: unsigned_of_nat take_bit_nat_eq_self)
  show "(ucast (of_nat (length data) :: u8) :: u16) = of_nat (length data)"
    by (rule word_unat_eq_iff [THEN iffD2])
      (use assms n in \<open>simp add: unsigned_ucast_eq unsigned_of_nat take_bit_nat_eq_self\<close>)
qed

subsection \<open>The queue\<close>

text \<open>The frames the helper holds, in order, with the addresses they came from.\<close>

definition holds :: "(u8 list \<times> u8 list) list \<Rightarrow> 's en_helper \<Rightarrow> bool" where
  "holds xs h \<longleftrightarrow> length (eh_magic h) = 4 \<and>
     eh_queue h = Queue (map (\<lambda>(m, d). \<lparr> pkt_mac = m, pkt_data = en_packet (eh_magic h) d \<rparr>) xs)"

lemma en_helper_receive_holds:
  assumes "holds ((m, d) # xs) h" "length d \<le> 246" "length d \<le> unat max_length"
  shows "\<exists>h'. en_helper_receive max_length h = Some ((of_nat (length d), d), h') \<and> holds xs h' \<and>
           eh_magic h' = eh_magic h \<and> eh_last_mac h' = m"
proof -
  note p = en_packet_matches [of "eh_magic h" d] and n = en_packet_length8 [OF assms(2)]
  have "\<not> max_length < of_nat (length d)"
    using assms(2,3) by (simp add: word_less_nat_alt unsigned_of_nat take_bit_nat_eq_self)
  then show ?thesis
    using assms p n by (auto simp: en_helper_receive_def holds_def Let_def)
qed

lemma espnow_recv_cb_holds:
  assumes "holds xs h" "\<And>w. fst (er_malloc er w)"
  shows "\<exists>h'. espnow_recv_cb er m (en_packet (eh_magic h) d) h = Some h' \<and> eh_magic h' = eh_magic h \<and>
           holds (if length xs < ESPNOW_QUEUE_SIZE then xs @ [(m, d)] else xs) h'"
proof -
  obtain w where "eh_in (er_malloc er) h = (True, h\<lparr> eh_world := w \<rparr>)"
    using assms(2) [of "eh_world h"] by (cases "er_malloc er (eh_world h)") (auto simp: eh_in_def)
  moreover have "en_packet (eh_magic h) d \<noteq> []" by (simp add: en_packet_def Let_def)
  ultimately show ?thesis
    using assms(1) by (auto simp: espnow_recv_cb_def holds_def)
qed

text \<open>
  A schedule: frames sent by other stations with the same magic arrive, and the bus fetches.  The outputs
  are what each fetch returned, with the address the answer would go to.
\<close>

datatype en_event = Arrive "u8 list" "u8 list" | Fetch

fun en_run ::
  "('s, 'z) esp_radio_scheme \<Rightarrow> u16 \<Rightarrow> en_event list \<Rightarrow> 's en_helper \<Rightarrow> ((u16 \<times> u8 list \<times> u8 list) list \<times> 's en_helper) option" where
  "en_run er n [] h = Some ([], h)"
| "en_run er n (Arrive m d # es) h =
     do { h \<leftarrow> espnow_recv_cb er m (en_packet (eh_magic h) d) h; en_run er n es h }"
| "en_run er n (Fetch # es) h =
     do { ((len, bs), h) \<leftarrow> en_helper_receive n h;
          (os, h') \<leftarrow> en_run er n es h;
          Some ((len, bs, eh_last_mac h) # os, h') }"

text \<open>The abstract queue: \<open>mac\<close> is the address of the last frame fetched.\<close>

fun queue_run :: "en_event list \<Rightarrow> u8 list \<Rightarrow> (u8 list \<times> u8 list) list \<Rightarrow> (u16 \<times> u8 list \<times> u8 list) list" where
  "queue_run [] mac xs = []"
| "queue_run (Arrive m d # es) mac xs =
     queue_run es mac (if length xs < ESPNOW_QUEUE_SIZE then xs @ [(m, d)] else xs)"
| "queue_run (Fetch # es) mac [] = (PJON_FAIL, [], mac) # queue_run es mac []"
| "queue_run (Fetch # es) mac ((m, d) # xs) = (of_nat (length d), d, m) # queue_run es m xs"

primrec fits :: "u16 \<Rightarrow> en_event \<Rightarrow> bool" where
  "fits n (Arrive m d) = (length d \<le> 246 \<and> length d \<le> unat n)"
| "fits n Fetch = True"

lemma en_run_queue:
  "holds xs h \<Longrightarrow> list_all (\<lambda>(m, d). length d \<le> 246 \<and> length d \<le> unat n) xs \<Longrightarrow> list_all (fits n) es \<Longrightarrow>
   (\<And>w. fst (er_malloc er w)) \<Longrightarrow>
   \<exists>h'. en_run er n es h = Some (queue_run es (eh_last_mac h) xs, h')"
proof (induction es "eh_last_mac h" xs arbitrary: h rule: queue_run.induct)
  case (2 m d es xs h)
  obtain h' where h': "espnow_recv_cb er m (en_packet (eh_magic h) d) h = Some h'"
    "holds (if length xs < ESPNOW_QUEUE_SIZE then xs @ [(m, d)] else xs) h'"
    using espnow_recv_cb_holds [OF 2(2,5), of m d] by blast
  have "eh_last_mac h' = eh_last_mac h"
    using h'(1) by (auto simp: espnow_recv_cb_def eh_in_def Let_def split: prod.splits if_splits recv_queue.splits)
  then show ?case using 2(1) [of h'] 2(3-5) h' by auto
next
  case (3 es h)
  have "en_helper_receive n h = Some ((PJON_FAIL, []), h)"
    using 3(2) by (simp add: holds_def en_helper_receive_def)
  then show ?case using 3(1) [of h] 3(2-5) by auto
next
  case (4 es m d xs h)
  obtain h' where h': "en_helper_receive n h = Some ((of_nat (length d), d), h')" "holds xs h'" "eh_last_mac h' = m"
    using en_helper_receive_holds [OF 4(2), of n] 4(3) by auto
  then show ?case using 4(1) [of h'] 4(3-5) by auto
qed simp

text \<open>C38. The helper of ESPNOW implements a bounded queue of frames: for any interleaving of arriving frames and
  receptions each reception returns the oldest frame not yet fetched, unchanged, with the address of its
  sender, or fails if there is none; a frame that finds six others waiting is dropped.
\<close>
theorem en_queue_refines:
  assumes "length (eh_magic h) = 4" "eh_queue h = Queue []" "list_all (fits n) es" "\<And>w. fst (er_malloc er w)"
  shows "\<exists>h'. en_run er n es h = Some (queue_run es (eh_last_mac h) [], h')"
  using assms by (intro en_run_queue) (simp_all add: holds_def)

definition sample_esp :: "unit esp_radio" where
  "sample_esp =
     \<lparr> pf_micros = (\<lambda>w. (0, w)), pf_delay = (\<lambda>ms w. w), pf_random = (\<lambda>k w. (0, w)), pf_random_seed = (\<lambda>k w. w),
       pf_analog_read = (\<lambda>p w. (0, w)), er_nvs_init = (\<lambda>w. (Esp_Ok, w)), er_nvs_erase = (\<lambda>w. (True, w)),
       er_queue_create = (\<lambda>w. (True, w)), er_wifi = (\<lambda>c w. (True, w)), er_now = (\<lambda>k w. (True, w)),
       er_malloc = (\<lambda>w. (True, w)), er_peer_exists = (\<lambda>m w. (False, w)), er_add_peer = (\<lambda>p w. (True, w)),
       er_deinit = (\<lambda>w. w), er_send = (\<lambda>m d w. (True, w)), er_wait_sent = (\<lambda>w. w) \<rparr>"

theorem en_queue_refines_witness:
  "\<exists>h'. en_run sample_esp 50 [Arrive [1, 2, 3, 4, 5, 6] [9, 2], Fetch, Fetch]
          ((new_en_helper ())\<lparr> eh_magic := EN_MAGIC_HEADER, eh_queue := Queue [] \<rparr>) =
        Some ([(2, [9, 2], [1, 2, 3, 4, 5, 6]), (PJON_FAIL, [], [1, 2, 3, 4, 5, 6])], h')"
  using en_queue_refines [of "(new_en_helper ())\<lparr> eh_magic := EN_MAGIC_HEADER, eh_queue := Queue [] \<rparr>" 50
      "[Arrive [1, 2, 3, 4, 5, 6] [9, 2], Fetch, Fetch]" sample_esp]
  by (simp add: EN_MAGIC_HEADER_def sample_esp_def ESPNOW_QUEUE_SIZE_def)

subsection \<open>The table of nodes\<close>

lemma en_find_from_Some:
  "en_find_from did mac row i xs = Some k \<Longrightarrow> i \<le> k \<and> k - i < length xs"
  by (induction did mac row i xs rule: en_find_from.induct) (fastforce split: if_splits)+

text \<open>Registration never changes a node that is there.\<close>

lemma en_autoregister_keeps:
  assumes "en_autoregister_sender c b er message len s = Some s'"
  shows "\<exists>new. en_nodes s' = en_nodes s @ new"
  using assms
  by (auto simp: en_autoregister_sender_def en_add_node_def list_update_id Let_def split: option.splits if_splits
      elim!: bind_SomeE) (metis append_Nil2 en_node.surjective en_node.update_convs(2) list_update_id)

lemma en_find_from_append:
  "en_find_from did mac row i xs = Some k \<Longrightarrow> en_find_from did mac row i (xs @ ys) = Some k"
  by (induction did mac row i xs rule: en_find_from.induct) (auto split: if_splits)

lemma en_find_remote_node_append:
  assumes "en_find_remote_node did mac xs = Some k"
  shows "en_find_remote_node did mac (xs @ ys) = Some k" "k < length xs"
proof -
  have "xs \<noteq> []" using assms by (auto simp: en_find_remote_node_def)
  then show "en_find_remote_node did mac (xs @ ys) = Some k"
    using assms en_find_from_append by (simp add: en_find_remote_node_def)
  show "k < length xs" using en_find_from_Some assms by (fastforce simp: en_find_remote_node_def)
qed

lemma en_receive_frame_keeps:
  assumes "en_receive_frame c b er old n s = Some (r, s')"
  shows "\<exists>new. en_nodes s' = en_nodes s @ new"
proof -
  from assms obtain len bs h where h: "en_helper_receive n (en_helper s) = Some ((len, bs), h)"
    and s': "(if len \<noteq> PJON_FAIL
       then en_autoregister_sender c b er (bs @ drop (length bs) old) len (s\<lparr> en_helper := h \<rparr>)
       else Some (s\<lparr> en_helper := h \<rparr>)) = Some s'"
    by (auto simp: en_receive_frame_def Let_def elim!: bind_SomeE split: prod.splits)
  show ?thesis
  proof (cases "len = PJON_FAIL")
    case True
    then show ?thesis using s' by auto
  next
    case False
    then have "en_autoregister_sender c b er (bs @ drop (length bs) old) len (s\<lparr> en_helper := h \<rparr>) = Some s'"
      using s' by simp
    from en_autoregister_keeps [OF this] show ?thesis by simp
  qed
qed

text \<open>ESPNOW never learns a new address of a device it knows: after any frame it receives, also one of this
  device from another address, frames for the device go to the address registered first.  The test that
  guards the update of the table is the wrong way round.
\<close>
theorem en_stale_address:
  assumes "en_receive_frame c b er old n s = Some (r, s')"
    and "x \<noteq> 0" "parse_header b ((x # payload) @ behind) = Some info"
    and "en_find_remote_node x (ep_mac (pi_rx info)) (en_nodes s) = Some i"
  shows "en_send_frame b er behind (x # payload) s' =
    Some (s'\<lparr> en_helper := en_helper_send er (x # payload) (nd_mac (en_nodes s ! i)) (en_helper s') \<rparr>)"
proof -
  obtain new where new: "en_nodes s' = en_nodes s @ new" using en_receive_frame_keeps [OF assms(1)] by blast
  have "en_find_remote_node x (ep_mac (pi_rx info)) (en_nodes s') = Some i" "i < length (en_nodes s)"
    using en_find_remote_node_append(1) [OF assms(4), of new] en_find_remote_node_append(2) [OF assms(4)] new by simp_all
  then show ?thesis using assms(2,3) new by (simp add: en_send_frame_def nth_append)
qed

text \<open>A frame of device 44 from the address that ends in 9; it was registered with the one that ends in 8.\<close>

definition sample_espnow :: "unit espnow" where
  "sample_espnow =
     (new_espnow ())\<lparr> en_initialised := True,
        en_nodes := [\<lparr> nd_id = 44, nd_mac = [2, 0, 0, 0, 0, 8] \<rparr>],
        en_helper := (new_en_helper ())\<lparr> eh_magic := EN_MAGIC_HEADER,
          eh_queue := Queue [\<lparr> pkt_mac = [2, 0, 0, 0, 0, 9], pkt_data = en_packet EN_MAGIC_HEADER [12, 2, 7, 0, 44, 64, 0] \<rparr>] \<rparr> \<rparr>"

theorem en_stale_address_witness:
  "\<exists>s'. en_get_sender (en_helper s') = [2, 0, 0, 0, 0, 9] \<and>
     en_send_frame default_build sample_esp [] [44, 2, 7, 0, 12, 64, 0] s' =
       Some (s'\<lparr> en_helper := en_helper_send sample_esp [44, 2, 7, 0, 12, 64, 0] [2, 0, 0, 0, 0, 8] (en_helper s') \<rparr>)"
proof -
  let ?data = "[12, 2, 7, 0, 44, 64, 0] :: u8 list"
  have p: "parse_header default_build ?data = Some (new_packet_info\<lparr> pi_rx := new_endpoint\<lparr> ep_id := 12 \<rparr>,
      pi_header := 2, pi_tx := new_endpoint\<lparr> ep_id := 44 \<rparr> \<rparr>)"
    "parse_header default_build [44, 2, 7, 0, 12, 64, 0] = Some (new_packet_info\<lparr> pi_rx := new_endpoint\<lparr> ep_id := 44 \<rparr>,
      pi_header := 2, pi_tx := new_endpoint\<lparr> ep_id := 12 \<rparr> \<rparr>)"
    by (simp_all add: parse_header_def rd_def flag_def const_defs parse_bus_ids_def fetch_when_def
        rd_block_def new_packet_info_def)
  obtain h where h: "en_helper_receive 50 (en_helper sample_espnow) = Some ((7, ?data), h)"
    "eh_last_mac h = [2, 0, 0, 0, 0, 9]"
    using en_helper_receive_holds [of "[2, 0, 0, 0, 0, 9]" ?data "[]" "en_helper sample_espnow" 50]
    by (auto simp: holds_def sample_espnow_def EN_MAGIC_HEADER_def)
  have r: "en_receive_frame default_espnow default_build sample_esp [] 50 sample_espnow =
      Some ((7, ?data), sample_espnow\<lparr> en_helper := h \<rparr>)"
    using h p(1)
    by (simp add: en_receive_frame_def en_autoregister_sender_def PJON_FAIL_def sample_espnow_def new_espnow_def
        new_packet_info_def new_endpoint_def en_find_remote_node_def en_get_sender_def PJON_NOT_ASSIGNED_def)
  show ?thesis
    using en_stale_address [OF r, of 44 "[2, 7, 0, 12, 64, 0]" "[]" _ 0] p(2) h(2)
    by (intro exI [of _ "sample_espnow\<lparr> en_helper := h \<rparr>"])
      (simp add: en_find_remote_node_def sample_espnow_def new_espnow_def en_get_sender_def PJON_NOT_ASSIGNED_def)
qed

text \<open>A device without an id is registered again by each frame, unless its address is in the first row.\<close>

lemma en_registers_again:
  assumes "en_auto_registration s" "4 < len" "parse_header b message = Some info"
    and "ep_id (pi_tx info) = PJON_NOT_ASSIGNED" "nd_mac (hd (en_nodes s)) \<noteq> en_get_sender (en_helper s)"
    and "length (en_nodes s) < ec_max_remote_nodes c"
    and "en_autoregister_sender c b er message len s = Some s'"
  shows "en_nodes s' = en_nodes s @ [\<lparr> nd_id = PJON_NOT_ASSIGNED, nd_mac = en_get_sender (en_helper s) \<rparr>]"
proof -
  have "en_find_from PJON_NOT_ASSIGNED mac row i xs = None" if "row \<noteq> mac" for mac row i xs
    using that by (induction xs arbitrary: i) simp_all
  then have "en_find_remote_node PJON_NOT_ASSIGNED (en_get_sender (en_helper s)) (en_nodes s) = None"
    using assms(5) by (simp add: en_find_remote_node_def)
  moreover have "PJON_NOT_ASSIGNED \<noteq> 0" by (simp add: const_defs)
  ultimately show ?thesis
    using assms by (auto simp: en_autoregister_sender_def en_add_node_def Let_def elim!: bind_SomeE)
qed

end
