(* ===== verification/Mqtt.thy ===== *)
theory Mqtt
  imports Pins
begin

text \<open>
  \<^verbatim>\<open>src/strategies/MQTTTranslate/MQTTTranslate.h\<close>: packets as messages of an MQTT broker, in four modes.

  The client \<^verbatim>\<open>ReconnectingMqttClient\<close> is a library that is not part of the repository: its members are the
  record \<open>mqtt_client\<close>.  Its \<^verbatim>\<open>update\<close> returns the messages for which it calls the receiver, in order.  The
  topic and the payload of a message are in one buffer of the client: a message is the memory from the topic
  on, the distance of the payload and its length.

  A pointer into a text is the memory from there on; reading its end is an access out of bounds
  (\<^term>\<open>None\<close>).  A \<^verbatim>\<open>String\<close> or C string is the list of its bytes without the terminating zero.
\<close>

subsection \<open>Text\<close>

definition ascii :: "string \<Rightarrow> u8 list" where
  "ascii s = map of_char s"

definition cstr :: "u8 list \<Rightarrow> u8 list" where
  "cstr xs = takeWhile (\<lambda>b. b \<noteq> 0) xs"

text \<open>\<^verbatim>\<open>strncmp(p, s, strlen(s)) == 0\<close>: nothing behind the first difference is read.\<close>

fun has_prefix :: "u8 list \<Rightarrow> u8 list \<Rightarrow> bool option" where
  "has_prefix [] p = Some True"
| "has_prefix (c # cs) [] = None"
| "has_prefix (c # cs) (b # bs) = (if b = c then has_prefix cs bs else Some False)"

text \<open>\<^verbatim>\<open>memchr(p, c, n)\<close>; \<^term>\<open>Some None\<close> is the null pointer.\<close>

fun memchr :: "u8 \<Rightarrow> nat \<Rightarrow> u8 list \<Rightarrow> nat option option" where
  "memchr c 0 p = Some None"
| "memchr c (Suc n) [] = None"
| "memchr c (Suc n) (b # bs) = (if b = c then Some (Some 0) else map_option (map_option Suc) (memchr c n bs))"

text \<open>\<^verbatim>\<open>strstr\<close> on a string: the position of the first occurrence.\<close>

fun strstr :: "u8 list \<Rightarrow> u8 list \<Rightarrow> nat option" where
  "strstr pat [] = (if pat = [] then Some 0 else None)"
| "strstr pat (b # bs) =
     (if take (length pat) (b # bs) = pat then Some 0 else map_option Suc (strstr pat bs))"

text \<open>\<^verbatim>\<open>strncpy\<close> of at most \<open>n\<close> bytes into a cleared string: it stops at the end of the source.\<close>

fun strncpy :: "nat \<Rightarrow> u8 list \<Rightarrow> u8 list option" where
  "strncpy 0 p = Some []"
| "strncpy (Suc n) [] = None"
| "strncpy (Suc n) (b # bs) = (if b = 0 then Some [] else map_option ((#) b) (strncpy n bs))"

text \<open>\<^verbatim>\<open>atoi\<close>: spaces, a sign, digits; a value that is no \<^verbatim>\<open>int\<close> is undefined.\<close>

definition is_space :: "u8 \<Rightarrow> bool" where
  "is_space b \<longleftrightarrow> b = 32 \<or> 9 \<le> b \<and> b \<le> 13"

fun atoi_digits :: "int \<Rightarrow> u8 list \<Rightarrow> int option" where
  "atoi_digits n [] = None"
| "atoi_digits n (b # bs) =
     (if 48 \<le> b \<and> b \<le> 57
      then let n = 10 * n + (uint b - 48) in if 2147483647 < n then None else atoi_digits n bs
      else Some n)"

fun atoi :: "u8 list \<Rightarrow> int option" where
  "atoi [] = None"
| "atoi (b # bs) =
     (if is_space b then atoi bs
      else if b = 45 then map_option uminus (atoi_digits 0 bs)
      else if b = 43 then atoi_digits 0 bs
      else atoi_digits 0 (b # bs))"

definition to_lower :: "u8 \<Rightarrow> u8" where
  "to_lower b = (if 65 \<le> b \<and> b \<le> 90 then b + 32 else b)"

text \<open>\<^verbatim>\<open>%2X\<close>: at least two characters, filled with a space.\<close>

definition hex_digit :: "u8 \<Rightarrow> u8" where
  "hex_digit x = (if x < 10 then 48 + x else 55 + x)"

definition hex2 :: "u8 \<Rightarrow> u8 list" where
  "hex2 x = (if x < 16 then [32, hex_digit x] else [hex_digit (x div 16), hex_digit (x mod 16)])"

subsection \<open>State\<close>

datatype mqtt_mode = Bus_Raw | Bus_Json | Mirror_Translate | Mirror_Direct

record mqtt_config =
  mc_mode :: mqtt_mode
  mc_use_mac :: bool
  mc_buffer_size :: nat
  mc_key_size :: nat
  mc_value_size :: nat
  mc_table_size :: nat
  mc_receive_time :: u16

definition mqtt_mac :: "mqtt_config \<Rightarrow> bool" where
  "mqtt_mac c \<longleftrightarrow> mc_use_mac c \<and> (mc_mode c = Mirror_Translate \<or> mc_mode c = Mirror_Direct)"

definition default_mqtt :: "build \<Rightarrow> mqtt_config" where
  "default_mqtt b =
     \<lparr> mc_mode = Bus_Raw, mc_use_mac = False, mc_buffer_size = packet_max_length b, mc_key_size = 15,
       mc_value_size = 15, mc_table_size = 5, mc_receive_time = 0 \<rparr>"

record mqtt_message =
  mm_memory :: "u8 list"
  mm_payload :: nat
  mm_length :: u16

record 's mqtt_client = "'s platform" +
  mq_set_address :: "u8 list \<Rightarrow> u16 \<Rightarrow> u8 list \<Rightarrow> 's \<Rightarrow> 's"
  mq_connect :: "'s \<Rightarrow> bool \<times> 's"
  mq_subscribe :: "u8 list \<Rightarrow> u8 \<Rightarrow> 's \<Rightarrow> 's"
  mq_publish :: "u8 list \<Rightarrow> u8 list \<Rightarrow> bool \<Rightarrow> u8 \<Rightarrow> 's \<Rightarrow> bool \<times> 's"
  mq_update :: "'s \<Rightarrow> mqtt_message list \<times> 's"
  mq_uint8toa :: "u8 \<Rightarrow> u8 list"
  mq_topic_size :: nat
  mq_get_mac :: "'s \<Rightarrow> u8 list \<times> 's"

record 's mqtt =
  mt_last_send_success :: bool
  mt_incoming_size :: u16
  mt_buffer :: "u8 list"
  mt_mac :: "u8 list"
  mt_translations :: "(u8 list \<times> u8 list) list"
  mt_retain :: bool
  mt_qos :: u8
  mt_topic :: "u8 list"
  mt_my_id :: u8
  mt_bus_id :: "u8 list"
  mt_header :: u8
  mt_lowercase :: bool
  mt_subscribe_all :: bool
  mt_world :: 's

definition new_mqtt :: "mqtt_config \<Rightarrow> 's \<Rightarrow> 's mqtt" where
  "new_mqtt c world =
     \<lparr> mt_last_send_success = False, mt_incoming_size = 0, mt_buffer = replicate (mc_buffer_size c) 0,
       mt_mac = [0, 0, 0, 0, 0, 0], mt_translations = [], mt_retain = False, mt_qos = 0,
       mt_topic = ascii ''pjon'', mt_my_id = PJON_NOT_ASSIGNED, mt_bus_id = [0, 0, 0, 0], mt_header = 0,
       mt_lowercase = True, mt_subscribe_all = False, mt_world = world \<rparr>"

definition mt_in :: "('s \<Rightarrow> 'a \<times> 's) \<Rightarrow> 's mqtt \<Rightarrow> 'a \<times> 's mqtt" where
  "mt_in f s = (let (x, w) = f (mt_world s) in (x, s\<lparr> mt_world := w \<rparr>))"

definition mt_on :: "('s \<Rightarrow> 's) \<Rightarrow> 's mqtt \<Rightarrow> 's mqtt" where
  "mt_on f s = s\<lparr> mt_world := f (mt_world s) \<rparr>"

definition mt_set_config :: "u8 \<Rightarrow> u8 list option \<Rightarrow> u8 \<Rightarrow> 's mqtt \<Rightarrow> 's mqtt" where
  "mt_set_config did bus_id header s =
     s\<lparr> mt_my_id := did, mt_bus_id := (case bus_id of None \<Rightarrow> mt_bus_id s | Some x \<Rightarrow> x), mt_header := header \<rparr>"

definition mt_set_qos :: "u8 \<Rightarrow> 's mqtt \<Rightarrow> 's mqtt" where
  "mt_set_qos qos s = s\<lparr> mt_qos := qos \<rparr>"

definition mt_set_retain :: "bool \<Rightarrow> 's mqtt \<Rightarrow> 's mqtt" where
  "mt_set_retain retain s = s\<lparr> mt_retain := retain \<rparr>"

definition mt_set_topic :: "u8 list \<Rightarrow> 's mqtt \<Rightarrow> 's mqtt" where
  "mt_set_topic topic s = s\<lparr> mt_topic := topic \<rparr>"

definition mt_set_subscribe_all :: "bool \<Rightarrow> 's mqtt \<Rightarrow> 's mqtt" where
  "mt_set_subscribe_all yes s = s\<lparr> mt_subscribe_all := yes \<rparr>"

definition mt_set_address ::
  "('s, 'z) mqtt_client_scheme \<Rightarrow> u8 list \<Rightarrow> u16 \<Rightarrow> u8 list \<Rightarrow> 's mqtt \<Rightarrow> 's mqtt" where
  "mt_set_address mq server_ip server_port client_id s =
     mt_on (mq_set_address mq server_ip server_port client_id) s"

definition mt_add_mac :: "'s mqtt \<Rightarrow> u8 list" where
  "mt_add_mac s = 47 # concat (map hex2 (mt_mac s))"

subsection \<open>The translation table\<close>

definition mt_translate :: "mqtt_config \<Rightarrow> bool \<Rightarrow> u8 list \<Rightarrow> 's mqtt \<Rightarrow> u8 list option" where
  "mt_translate c to_mqtt key s =
     map_option (\<lambda>x. take (mc_key_size c - 1) (if to_mqtt then snd x else fst x))
       (find (\<lambda>x. key = (if to_mqtt then fst x else snd x)) (mt_translations s))"

definition mt_add_translation :: "mqtt_config \<Rightarrow> u8 list \<Rightarrow> u8 list \<Rightarrow> 's mqtt \<Rightarrow> bool \<times> 's mqtt" where
  "mt_add_translation c pjon_key mqtt_key s =
     (if mc_table_size c \<le> length (mt_translations s) then (False, s)
      else (True, s\<lparr> mt_translations := mt_translations s @
                      [(take (mc_key_size c - 1) pjon_key, map to_lower (take (mc_key_size c - 1) mqtt_key))] \<rparr>))"

subsection \<open>Reading JSON\<close>

text \<open>
  A pointer \<^verbatim>\<open>p\<close> of the scanner is how far it is before \<^verbatim>\<open>last\<close>, \<^verbatim>\<open>last - p\<close>, and the memory from there on.
\<close>

type_synonym text_ptr = "int \<times> u8 list"

fun skip_until :: "(u8 \<Rightarrow> bool) \<Rightarrow> int \<Rightarrow> u8 list \<Rightarrow> text_ptr option" where
  "skip_until stop k [] = None"
| "skip_until stop k (b # bs) =
     (if b \<noteq> 0 \<and> 0 < k \<and> \<not> stop b then skip_until stop (k - 1) bs else Some (k, b # bs))"

definition find_next_json_key :: "text_ptr \<Rightarrow> (bool \<times> text_ptr) option" where
  "find_next_json_key p =
     do { (k, xs) \<leftarrow> skip_until (\<lambda>b. b = 123 \<or> b = 44) (fst p) (snd p);
          if hd xs = 0 \<or> k \<le> 0 then Some (False, k, xs)
          else do { (k, xs) \<leftarrow> skip_until (\<lambda>b. b = 34) (k - 1) (tl xs);
                    if hd xs \<noteq> 34 \<or> k \<le> 0 then Some (False, k, xs) else Some (True, k - 1, tl xs) } }"

definition find_next_json_value :: "text_ptr \<Rightarrow> (bool \<times> text_ptr) option" where
  "find_next_json_value p =
     do { (k, xs) \<leftarrow> skip_until (\<lambda>b. b = 58) (fst p) (snd p);
          if hd xs = 0 \<or> k \<le> 0 then Some (False, k, xs)
          else do { (k, xs) \<leftarrow> skip_until (\<lambda>b. b \<noteq> 32 \<and> b \<noteq> 9) (k - 1) (tl xs);
                    if hd xs = 0 \<or> k \<le> 0 then Some (False, k, xs)
                    else if hd xs = 34 then Some (True, k - 1, tl xs) else Some (True, k, xs) } }"

text \<open>\<^verbatim>\<open>strncmp(p, s, n) == 0 && find_next_json_value(&p, last)\<close>.\<close>

definition json_key_is :: "u8 list \<Rightarrow> text_ptr \<Rightarrow> (bool \<times> text_ptr) option" where
  "json_key_is s p =
     do { same \<leftarrow> has_prefix s (snd p);
          if same then find_next_json_value p else Some (False, p) }"

text \<open>
  What the scanner collects.  \<open>js_payload\<close> is the pointer \<^verbatim>\<open>payload\<close>, which is moved to the text found, and
  \<open>js_len\<close> its length.
\<close>

record json_scan =
  js_sender :: u8
  js_receiver :: u8
  js_found :: bool
  js_payload :: text_ptr
  js_len :: u16

text \<open>The end of the text: \<open>d\<close> is \<^verbatim>\<open>p2 - payload\<close>; the value is \<^verbatim>\<open>p2 - p\<close> and the byte at \<^verbatim>\<open>p2\<close>.\<close>

fun find_quote :: "int \<Rightarrow> int \<Rightarrow> u8 list \<Rightarrow> (nat \<times> u8) option" where
  "find_quote len d [] = None"
| "find_quote len d (b # bs) =
     (if d + 1 < len \<and> b \<noteq> 0 \<and> b \<noteq> 34 then map_option (apfst Suc) (find_quote len (d + 1) bs) else Some (0, b))"

definition json_key :: "json_scan \<Rightarrow> text_ptr \<Rightarrow> (json_scan \<times> text_ptr) option" where
  "json_key j p =
     do { (is_to, p) \<leftarrow> json_key_is (ascii ''to\"'') p;
          if is_to then do { n \<leftarrow> atoi (snd p); Some (j\<lparr> js_receiver := word_of_int n \<rparr>, p) }
          else do { (is_from, p) \<leftarrow> json_key_is (ascii ''from\"'') p;
            if is_from then do { n \<leftarrow> atoi (snd p); Some (j\<lparr> js_sender := word_of_int n \<rparr>, p) }
            else do { (is_data, p) \<leftarrow> json_key_is (ascii ''data\"'') p;
              if is_data
              then do { (n, b) \<leftarrow> find_quote (uint (js_len j)) (fst (js_payload j) - fst p) (snd p);
                        Some (if b = 34
                              then j\<lparr> js_found := True, js_payload := p, js_len := of_nat n \<rparr> else j, p) }
              else Some (j, p) } } }"

text \<open>Every round moves the pointer forward, so as many rounds as there are bytes are enough.\<close>

fun json_loop :: "nat \<Rightarrow> json_scan \<Rightarrow> text_ptr \<Rightarrow> json_scan option" where
  "json_loop 0 j p = None"
| "json_loop (Suc fuel) j p =
     do { (more, p) \<leftarrow> find_next_json_key p;
          if more then do { (j, p) \<leftarrow> json_key j p; json_loop fuel j p } else Some j }"

definition json_parse :: "u8 list \<Rightarrow> u16 \<Rightarrow> json_scan option" where
  "json_parse payload len =
     (let p = (uint len - 1, payload)
      in json_loop (Suc (length payload))
           \<lparr> js_sender = 0, js_receiver = 0, js_found = False, js_payload = p, js_len = len \<rparr> p)"

subsection \<open>Incoming messages\<close>

definition mt_fill_info :: "u8 \<Rightarrow> u8 list \<Rightarrow> u8 \<Rightarrow> u8 list \<Rightarrow> u8 \<Rightarrow> packet_info" where
  "mt_fill_info sender_id sender_bus_id receiver_id receiver_bus_id header =
     new_packet_info\<lparr> pi_tx := new_endpoint\<lparr> ep_id := sender_id, ep_bus_id := sender_bus_id \<rparr>,
                      pi_rx := new_endpoint\<lparr> ep_id := receiver_id, ep_bus_id := receiver_bus_id \<rparr>,
                      pi_header := header \<rparr>"

text \<open>\<^verbatim>\<open>incoming_packet_size = compose_packet(info, packet_buffer, payload, len)\<close>.\<close>

definition mt_compose :: "build \<Rightarrow> packet_info \<Rightarrow> u8 list \<Rightarrow> u16 \<Rightarrow> 's mqtt \<Rightarrow> 's mqtt option" where
  "mt_compose b info payload len s =
     map_option (\<lambda>(buffer, size). s\<lparr> mt_buffer := buffer, mt_incoming_size := size \<rparr>)
       (tools_compose_packet b info (mt_buffer s) payload len)"

definition receive_raw :: "mqtt_config \<Rightarrow> mqtt_message \<Rightarrow> 's mqtt \<Rightarrow> 's mqtt option" where
  "receive_raw c m s =
     (if unat (mm_length m) \<le> mc_buffer_size c
      then do { bs \<leftarrow> rd_block (mm_memory m) (mm_payload m) (unat (mm_length m));
                buffer \<leftarrow> wr_block 0 bs (mt_buffer s);
                Some (s\<lparr> mt_buffer := buffer, mt_incoming_size := mm_length m \<rparr>) }
      else Some s)"

text \<open>The header of the packet is the one read before the member is changed.\<close>

definition receive_json :: "build \<Rightarrow> mqtt_message \<Rightarrow> 's mqtt \<Rightarrow> 's mqtt option" where
  "receive_json b m s =
     do { j \<leftarrow> json_parse (drop (mm_payload m) (mm_memory m)) (mm_length m);
          if js_receiver j = 0 \<or> \<not> js_found j then Some s
          else let h = mt_header s;
                   s = (if js_sender j \<noteq> 0 then s\<lparr> mt_header := set_flag (mt_header s) PJON_TX_INFO_BIT \<rparr> else s);
                   info = mt_fill_info (js_sender j) (mt_bus_id s) (js_receiver j) (mt_bus_id s) h
               in mt_compose b info (snd (js_payload j)) (js_len j) s }"

text \<open>The source device of a mirrored topic; in the mode with MAC addresses it is this device.\<close>

definition device_start :: "mqtt_config \<Rightarrow> u8 list \<Rightarrow> nat option" where
  "device_start c memory =
     strstr (if mqtt_mac c then ascii ''/'' else ascii ''/device'') (cstr memory)"

definition mirror_receiver :: "mqtt_config \<Rightarrow> u8 list \<Rightarrow> 's mqtt \<Rightarrow> u8 option" where
  "mirror_receiver c memory s =
     (case device_start c memory of
        Some i \<Rightarrow> if mqtt_mac c then Some (mt_my_id s) else map_option word_of_int (atoi (drop (i + 7) memory))
      | None \<Rightarrow> Some (mt_my_id s))"

text \<open>
  The search for a slash from behind position \<open>i\<close> on, over \<open>payload - i + len - 2\<close> bytes; a negative number of
  bytes is a fault.
\<close>

definition find_slash :: "mqtt_message \<Rightarrow> nat \<Rightarrow> nat option option" where
  "find_slash m i =
     (let n = int (mm_payload m) - int i + uint (mm_length m) - 2
      in if n < 0 then None
         else map_option (map_option (\<lambda>k. i + 1 + k)) (memchr 47 (nat n) (drop (i + 1) (mm_memory m))))"

definition receive_translate :: "build \<Rightarrow> mqtt_config \<Rightarrow> mqtt_message \<Rightarrow> 's mqtt \<Rightarrow> 's mqtt option" where
  "receive_translate b c m s =
     do { receiver_id \<leftarrow> mirror_receiver c (mm_memory m) s;
          case device_start c (mm_memory m) of
            None \<Rightarrow> Some s
          | Some i \<Rightarrow> do {
              start \<leftarrow> find_slash m i;
              start \<leftarrow> (case start of None \<Rightarrow> Some None | Some k \<Rightarrow> find_slash m k);
              case start of
                None \<Rightarrow> Some s
              | Some k \<Rightarrow> do {
                  let l = min (k - i + unat (mm_length m) - 1) (mc_key_size c - 1);
                  key \<leftarrow> strncpy l (drop (k + 1) (mm_memory m));
                  let key = (case mt_translate c False key s of None \<Rightarrow> key | Some x \<Rightarrow> x);
                  val \<leftarrow> strncpy (min (unat (mm_length m)) (mc_value_size c - 1)) (drop (mm_payload m) (mm_memory m));
                  let text = key @ [61] @ val;
                  let info = mt_fill_info receiver_id (mt_bus_id s) receiver_id (mt_bus_id s) (mt_header s);
                  mt_compose b info (text @ [0]) (of_nat (length text + 1)) s } } }"

definition receive_direct :: "build \<Rightarrow> mqtt_config \<Rightarrow> mqtt_message \<Rightarrow> 's mqtt \<Rightarrow> 's mqtt option" where
  "receive_direct b c m s =
     do { receiver_id \<leftarrow> mirror_receiver c (mm_memory m) s;
          mt_compose b (mt_fill_info receiver_id (mt_bus_id s) receiver_id (mt_bus_id s) (mt_header s))
            (drop (mm_payload m) (mm_memory m)) (mm_length m) s }"

definition mt_receiver :: "build \<Rightarrow> mqtt_config \<Rightarrow> mqtt_message \<Rightarrow> 's mqtt \<Rightarrow> 's mqtt option" where
  "mt_receiver b c m s =
     (case mc_mode c of
        Bus_Raw \<Rightarrow> receive_raw c m s
      | Bus_Json \<Rightarrow> receive_json b m s
      | Mirror_Translate \<Rightarrow> receive_translate b c m s
      | Mirror_Direct \<Rightarrow> receive_direct b c m s)"

fun mt_receivers :: "build \<Rightarrow> mqtt_config \<Rightarrow> mqtt_message list \<Rightarrow> 's mqtt \<Rightarrow> 's mqtt option" where
  "mt_receivers b c [] s = Some s"
| "mt_receivers b c (m # ms) s = do { s \<leftarrow> mt_receiver b c m s; mt_receivers b c ms s }"

definition mt_receive_frame ::
  "build \<Rightarrow> mqtt_config \<Rightarrow> ('s, 'z) mqtt_client_scheme \<Rightarrow> u16 \<Rightarrow> 's mqtt \<Rightarrow> ((u16 \<times> u8 list) \<times> 's mqtt) option" where
  "mt_receive_frame b c mq max_length s =
     do { s \<leftarrow> (if mt_incoming_size s = 0
               then let (ms, s) = mt_in (mq_update mq) s in mt_receivers b c ms s else Some s);
          if 0 < mt_incoming_size s \<and> mt_incoming_size s \<le> max_length
          then do { bs \<leftarrow> rd_block (mt_buffer s) 0 (unat (mt_incoming_size s));
                    Some ((mt_incoming_size s, bs), s\<lparr> mt_incoming_size := 0 \<rparr>) }
          else Some ((PJON_FAIL, []), s) }"

subsection \<open>Connecting\<close>

text \<open>The topic is composed in the packet buffer, whose size is not looked at.\<close>

definition mt_subscription :: "mqtt_config \<Rightarrow> ('s, 'z) mqtt_client_scheme \<Rightarrow> u8 \<Rightarrow> 's mqtt \<Rightarrow> u8 list" where
  "mt_subscription c mq did s =
     mt_topic s
     @ (if mqtt_mac c then mt_add_mac s
        else if mt_subscribe_all s then ascii ''/+'' else ascii ''/device'' @ mq_uint8toa mq did)
     @ (case mc_mode c of Mirror_Translate \<Rightarrow> ascii ''/input/+'' | Mirror_Direct \<Rightarrow> ascii ''/input'' | _ \<Rightarrow> [])"

definition mt_begin ::
  "mqtt_config \<Rightarrow> ('s, 'z) mqtt_client_scheme \<Rightarrow> u8 \<Rightarrow> 's mqtt \<Rightarrow> (bool \<times> 's mqtt) option" where
  "mt_begin c mq device_id s =
     (let s = (if mqtt_mac c then let (m, s) = mt_in (mq_get_mac mq) s in s\<lparr> mt_mac := m \<rparr> else s);
          s = s\<lparr> mt_my_id := device_id \<rparr>;
          subscription = mt_subscription c mq device_id s
      in do { buffer \<leftarrow> wr_block 0 (subscription @ [0]) (mt_buffer s);
              let s = mt_on (mq_subscribe mq subscription (mt_qos s)) (s\<lparr> mt_buffer := buffer \<rparr>);
              Some (mt_in (mq_connect mq) s) })"

definition mt_back_off :: "u8 \<Rightarrow> u32" where
  "mt_back_off attempts = 10000"

definition mt_can_start :: "('s, 'z) mqtt_client_scheme \<Rightarrow> 's mqtt \<Rightarrow> bool \<times> 's mqtt" where
  "mt_can_start mq s = mt_in (mq_connect mq) s"

definition mt_receive_response :: "'s mqtt \<Rightarrow> u16" where
  "mt_receive_response s = (if mt_last_send_success s then PJON_ACK else PJON_FAIL)"

subsection \<open>Sending\<close>

text \<open>
  The topic of an outgoing message, in the buffer of the client: \<^term>\<open>Some None\<close> is the early return when it
  does not fit.  The length of the topic is kept in 8 bits.
\<close>

definition mt_outgoing_topic ::
  "mqtt_config \<Rightarrow> ('s, 'z) mqtt_client_scheme \<Rightarrow> packet_info \<Rightarrow> 's mqtt \<Rightarrow> u8 list option option" where
  "mt_outgoing_topic c mq info s =
     (let len = unat (of_nat (length (mt_topic s)) :: u8); base = take len (mt_topic s) in
      if mq_topic_size mq \<le> len then Some None
      else if mq_topic_size mq \<le> length (mt_topic s) then None
      else if mqtt_mac c
      then if mq_topic_size mq \<le> len + 7 + 7 then Some None
           else Some (Some (base @ mt_add_mac s @ ascii ''/output''))
      else if mq_topic_size mq \<le> len + 7 + 3 + 7 then Some None
      else Some (Some (base @ ascii ''/device'' @
             (case mc_mode c of
                Mirror_Translate \<Rightarrow> mq_uint8toa mq (ep_id (pi_tx info)) @ ascii ''/output''
              | Mirror_Direct \<Rightarrow> mq_uint8toa mq (ep_id (pi_tx info)) @ ascii ''/output''
              | _ \<Rightarrow> mq_uint8toa mq (ep_id (pi_rx info))))))"

definition mt_publish ::
  "('s, 'z) mqtt_client_scheme \<Rightarrow> u8 list \<Rightarrow> u8 list \<Rightarrow> 's mqtt \<Rightarrow> bool \<times> 's mqtt" where
  "mt_publish mq topic payload s = mt_in (mq_publish mq topic payload (mt_retain s) (mt_qos s)) s"

definition mt_payload_start :: "packet_info \<Rightarrow> nat" where
  "mt_payload_start info = unat (packet_overhead (pi_header info)) - unat (crc_overhead (pi_header info))"

definition json_text :: "u8 list \<Rightarrow> u8 list \<Rightarrow> u8 list \<Rightarrow> u8 list" where
  "json_text rx tx payload =
     ascii ''{\"to\":'' @ rx @ ascii '',\"from\":'' @ tx @ ascii '',\"data\":\"'' @ payload @ ascii ''\"}''"

definition send_json ::
  "mqtt_config \<Rightarrow> ('s, 'z) mqtt_client_scheme \<Rightarrow> packet_info \<Rightarrow> u8 list \<Rightarrow> u8 list \<Rightarrow> nat \<Rightarrow> 's mqtt \<Rightarrow> 's mqtt option" where
  "send_json c mq info topic memory len s =
     (let payload_len = unat (of_nat len - packet_overhead (pi_header info) :: u8) in
      if mc_buffer_size c \<le> 6 + 3 + 8 + 3 + 9 + payload_len + 2 then Some s
      else do { payload \<leftarrow> strncpy payload_len (drop (mt_payload_start info) memory);
                let text = json_text (mq_uint8toa mq (ep_id (pi_rx info))) (mq_uint8toa mq (ep_id (pi_tx info))) payload;
                buffer \<leftarrow> wr_block 0 (text @ [0]) (mt_buffer s);
                let (ok, s) = mt_publish mq topic text (s\<lparr> mt_buffer := buffer \<rparr>);
                Some (s\<lparr> mt_last_send_success := ok \<rparr>) })"

text \<open>\<^verbatim>\<open>find_value_separator\<close>: how many bytes are before the next comma, zero or the end.\<close>

fun find_value_separator :: "nat \<Rightarrow> u8 list \<Rightarrow> nat option" where
  "find_value_separator 0 p = Some 0"
| "find_value_separator (Suc n) [] = None"
| "find_value_separator (Suc n) (b # bs) =
     (if b \<noteq> 44 \<and> b \<noteq> 0 then map_option Suc (find_value_separator n bs) else Some 0)"

text \<open>
  One value of \<open>n\<close> bytes with the equals sign at \<open>e\<close>: its topic and text are published.  The value is
  \<^term>\<open>None\<close> for the early return when the topic does not fit.
\<close>

definition translate_value ::
  "mqtt_config \<Rightarrow> ('s, 'z) mqtt_client_scheme \<Rightarrow> u8 list \<Rightarrow> u8 list \<Rightarrow> nat \<Rightarrow> nat \<Rightarrow> 's mqtt \<Rightarrow> bool option \<times> 's mqtt" where
  "translate_value c mq topic v n e s =
     (let key = take (min e (mc_key_size c - 1)) v;
          val = take (min (n - e - 1) (mc_value_size c - 1)) (drop (e + 1) v);
          key = (case mt_translate c True key s of
                   Some x \<Rightarrow> x | None \<Rightarrow> if mt_lowercase s then map to_lower key else key)
      in if mq_topic_size mq \<le> length topic + 1 + length key then (None, s)
         else let (ok, s) = mt_publish mq (topic @ [47] @ key) val s in (Some ok, s))"

text \<open>
  The loop over the values.  \<open>v\<close> is the memory from the variable \<^verbatim>\<open>v\<close> on and \<open>left\<close> how far it is before the end
  of the payload; \<open>cnt\<close> counts in 8 bits.  The result is \<^term>\<open>None\<close> for the early return.  A value without an
  equals sign leaves \<^verbatim>\<open>v\<close> as it is.
\<close>

fun translate_loop ::
  "mqtt_config \<Rightarrow> ('s, 'z) mqtt_client_scheme \<Rightarrow> nat \<Rightarrow> u8 list \<Rightarrow> u8 list \<Rightarrow> nat \<Rightarrow> u8 \<Rightarrow> 's mqtt \<Rightarrow>
     (u8 option \<times> 's mqtt) option" where
  "translate_loop c mq 0 topic v left cnt s = None"
| "translate_loop c mq (Suc fuel) topic v left cnt s =
     do { n \<leftarrow> find_value_separator left v;
          e \<leftarrow> memchr 61 n v;
          case e of
            None \<Rightarrow> translate_loop c mq fuel topic v left cnt s
          | Some e \<Rightarrow>
              (case translate_value c mq topic v n e s of
                 (None, s) \<Rightarrow> Some (None, s)
               | (Some ok, s) \<Rightarrow>
                   if left \<le> n then Some (Some (cnt + of_bool ok), s)
                   else translate_loop c mq fuel topic (drop (n + 1) v) (left - (n + 1)) (cnt + of_bool ok) s) }"

definition send_translate ::
  "mqtt_config \<Rightarrow> ('s, 'z) mqtt_client_scheme \<Rightarrow> nat \<Rightarrow> packet_info \<Rightarrow> u8 list \<Rightarrow> u8 list \<Rightarrow> nat \<Rightarrow> 's mqtt \<Rightarrow> 's mqtt option" where
  "send_translate c mq fuel info topic memory len s =
     map_option (\<lambda>(cnt, s). case cnt of None \<Rightarrow> s | Some k \<Rightarrow> s\<lparr> mt_last_send_success := (0 < k) \<rparr>)
       (translate_loop c mq fuel topic (drop (mt_payload_start info) memory)
          (unat (of_nat len - ucast (packet_overhead (pi_header info)) :: u16)) 0 s)"

definition send_direct ::
  "('s, 'z) mqtt_client_scheme \<Rightarrow> packet_info \<Rightarrow> u8 list \<Rightarrow> u8 list \<Rightarrow> nat \<Rightarrow> 's mqtt \<Rightarrow> 's mqtt option" where
  "send_direct mq info topic memory len s =
     do { payload \<leftarrow> rd_block memory (mt_payload_start info)
                        (unat (of_nat len - ucast (packet_overhead (pi_header info)) :: u16));
          let (ok, s) = mt_publish mq topic payload s;
          Some (s\<lparr> mt_last_send_success := ok \<rparr>) }"

text \<open>\<open>behind\<close> is what follows the frame in the buffer of the packet.\<close>

definition mt_send_frame ::
  "build \<Rightarrow> mqtt_config \<Rightarrow> ('s, 'z) mqtt_client_scheme \<Rightarrow> nat \<Rightarrow> u8 list \<Rightarrow> u8 list \<Rightarrow> 's mqtt \<Rightarrow> 's mqtt option" where
  "mt_send_frame b c mq fuel behind data s =
     do { info \<leftarrow> parse_header b (data @ behind);
          topic \<leftarrow> mt_outgoing_topic c mq info s;
          case topic of
            None \<Rightarrow> Some s
          | Some topic \<Rightarrow>
              (case mc_mode c of
                 Bus_Raw \<Rightarrow> let (ok, s) = mt_publish mq topic data s in Some (s\<lparr> mt_last_send_success := ok \<rparr>)
               | Bus_Json \<Rightarrow> send_json c mq info topic (data @ behind) (length data) s
               | Mirror_Translate \<Rightarrow> send_translate c mq fuel info topic (data @ behind) (length data) s
               | Mirror_Direct \<Rightarrow> send_direct mq info topic (data @ behind) (length data) s) }"

definition mqtt_strategy ::
  "build \<Rightarrow> mqtt_config \<Rightarrow> ('s, 'z) mqtt_client_scheme \<Rightarrow> nat \<Rightarrow> ('s mqtt \<Rightarrow> u8 list \<Rightarrow> u8 list) \<Rightarrow> 's mqtt option strategy" where
  "mqtt_strategy b c mq fuel behind =
     \<lparr> pf_micros = lift_call 0 (\<lambda>s. Some (mt_in (pf_micros mq) s)),
       pf_delay = (\<lambda>ms. map_option (mt_on (pf_delay mq ms))),
       pf_random = (\<lambda>k. lift_call 0 (\<lambda>s. Some (mt_in (pf_random mq k) s))),
       pf_random_seed = (\<lambda>k. map_option (mt_on (pf_random_seed mq k))),
       pf_analog_read = (\<lambda>p. lift_call 0 (\<lambda>s. Some (mt_in (pf_analog_read mq p) s))),
       st_begin = (\<lambda>did. lift_call False (mt_begin c mq did)),
       st_back_off = (\<lambda>attempts s. (mt_back_off attempts, s)),
       st_can_start = lift_call False (\<lambda>s. Some (mt_can_start mq s)),
       st_max_attempts = 0,
       st_receive_time = mc_receive_time c,
       st_handle_collision = (\<lambda>s. s),
       st_receive_frame = (\<lambda>k s. case lift_call (0, []) (mt_receive_frame b c mq k) s of ((r, bs), s) \<Rightarrow> (r, bs, s)),
       st_receive_response = lift_call PJON_FAIL (\<lambda>s. Some (mt_receive_response s, s)),
       st_send_response = (\<lambda>r s. s),
       st_send_frame = (\<lambda>data. lift_update (\<lambda>s. mt_send_frame b c mq fuel (behind s data) data s)) \<rparr>"

lemma mt_receive_frame_fits:
  "mt_receive_frame b c mq n s = Some ((r, bs), s') \<Longrightarrow> length bs \<le> unat n"
  by (auto simp: mt_receive_frame_def rd_block_def word_le_nat_alt Let_def split: prod.splits if_splits
      elim!: bind_SomeE)

interpretation mqtt: bounded_strategy "mqtt_strategy b c mq fuel behind" "\<lambda>_. True" for b c mq fuel behind
proof (unfold_locales, goal_cases)
  case (1 s n r bs s')
  then show ?case using mt_receive_frame_fits [of b c mq n]
    by (auto simp: mqtt_strategy_def lift_call_def split: prod.splits option.splits elim!: bind_SomeE)
qed simp_all

end
