(* ===== verification/Mqtt_Laws.thy ===== *)
theory Mqtt_Laws
  imports Mqtt
begin

text \<open>
  \<^verbatim>\<open>MQTTTranslate\<close>: the JSON text of a packet is read back as it was written, and what blocks the strategy.
\<close>

subsection \<open>Numbers\<close>

text \<open>The documented \<^verbatim>\<open>uint8toa\<close>: the decimal digits.\<close>

definition digits8 :: "u8 \<Rightarrow> nat list" where
  "digits8 x =
     (let n = unat x
      in if n < 10 then [n] else if n < 100 then [n div 10, n mod 10] else [n div 100, n div 10 mod 10, n mod 10])"

definition dec8 :: "u8 \<Rightarrow> u8 list" where
  "dec8 x = map (\<lambda>d. of_nat (48 + d)) (digits8 x)"




definition digits_value :: "nat \<Rightarrow> nat list \<Rightarrow> nat" where
  "digits_value n ds = foldl (\<lambda>n d. 10 * n + d) n ds"

lemma digits_value_simps [simp]:
  "digits_value n [] = n" "digits_value n (d # ds) = digits_value (10 * n + d) ds"
  by (simp_all add: digits_value_def)






subsection \<open>Scanning\<close>


















subsection \<open>Packets as JSON\<close>

lemma wire_header [simp]:
  "pi_header (wire_info info) = pi_header info" "ep_id (pi_rx (wire_info info)) = ep_id (pi_rx info)"
  "mt_payload_start (wire_info info) = mt_payload_start info"
  by (simp_all add: wire_info_def Let_def mt_payload_start_def)






text \<open>A concrete client for the examples: the messages that wait and what was published.\<close>

definition sample_client :: "(mqtt_message list \<times> (u8 list \<times> u8 list) list) mqtt_client" where
  "sample_client =
     \<lparr> pf_micros = (\<lambda>w. (0, w)), pf_delay = (\<lambda>ms w. w), pf_random = (\<lambda>k w. (0, w)), pf_random_seed = (\<lambda>k w. w),
       pf_analog_read = (\<lambda>p w. (0, w)), mq_set_address = (\<lambda>ip port cid w. w), mq_connect = (\<lambda>w. (True, w)),
       mq_subscribe = (\<lambda>topic qos w. w), mq_publish = (\<lambda>topic load retain qos w. (True, fst w, snd w @ [(topic, load)])),
       mq_update = (\<lambda>w. (fst w, [], snd w)), mq_uint8toa = dec8, mq_topic_size = 64,
       mq_get_mac = (\<lambda>w. ([1, 2, 3, 4, 5, 6], w)) \<rparr>"

lemma sample_client_simps [simp]:
  "mq_uint8toa sample_client = dec8" "mq_topic_size sample_client = 64" "mq_update sample_client w = (fst w, [], snd w)"
  "mq_publish sample_client topic load retain qos w = (True, fst w, snd w @ [(topic, load)])"
  by (simp_all add: sample_client_def)



lemma max_default: "packet_max_length default_build = 50" "\<not> include_mac default_build"
  by (simp_all add: default_build_def)





subsection \<open>What blocks the strategy\<close>

lemma mt_compose_too_long:
  assumes "packet_max_length b \<le> unat len + 5" "unat len \<le> 65000"
  shows "\<exists>size. mt_compose b info bs len s = Some (s\<lparr> mt_incoming_size := size \<rparr>) \<and> unat len + 5 \<le> unat size"
proof -
  obtain i n e where i: "compose_sizing (compose_normalise b info len) len = (i, n, e)" by (metis prod_cases3)
  let ?h = "pi_header i"
  have "unat (len + ucast (packet_overhead ?h) :: u16) = unat len + overhead_nat ?h"
    using assms(2) overhead_nat_bounds(2) [of ?h] by (intro unat_add_overhead) simp
  moreover have "n = len + ucast (packet_overhead ?h)" using i by (auto simp: compose_sizing_eq Let_def)
  ultimately show ?thesis
    using assms(1) overhead_nat_bounds(1) [of ?h]
    by (intro exI [of _ n]) (simp add: mt_compose_def tools_compose_packet_def i)
qed

text \<open>A message that makes a packet beyond the maximum length blocks the strategy: the size that \<^verbatim>\<open>compose_packet\<close> would
  need stays in \<^verbatim>\<open>incoming_packet_size\<close>, so from then on every call of \<^verbatim>\<open>receive_frame\<close> fails without polling the
  client, whatever messages it has.\<close>

theorem mqtt_oversized_blocks:
  assumes "mc_mode c = Mirror_Direct" "mt_incoming_size s = 0" "mq_update mq (mt_world s) = ([m], w)"
    and "mirror_receiver c (mm_memory m) s = Some did" "packet_max_length b \<le> unat (mm_length m) + 5"
    and "unat (mm_length m) \<le> 65000" "unat max_length < unat (mm_length m) + 5"
  shows "\<exists>s'. mt_receive_frame b c mq max_length s = Some ((PJON_FAIL, []), s') \<and> mt_world s' = w \<and>
           mt_receive_frame b c mq max_length (s'\<lparr> mt_world := anything \<rparr>) =
             Some ((PJON_FAIL, []), s'\<lparr> mt_world := anything \<rparr>)"
proof -
  have r: "mirror_receiver c (mm_memory m) (s\<lparr> mt_world := w \<rparr>) = Some did"
    using assms(4) by (cases "device_start c (mm_memory m)"; cases "mqtt_mac c") (simp_all add: mirror_receiver_def)
  obtain size where "mt_receiver b c m (s\<lparr> mt_world := w \<rparr>) = Some (s\<lparr> mt_world := w, mt_incoming_size := size \<rparr>)"
      "unat (mm_length m) + 5 \<le> unat size"
    using mt_compose_too_long [OF assms(5,6)] r
    by (fastforce simp: mt_receiver_def receive_direct_def assms(1))
  moreover from this assms(7) have "\<not> size \<le> max_length" "size \<noteq> 0" by (auto simp: word_le_nat_alt)
  ultimately show ?thesis
    using assms(2,3) by (simp add: mt_receive_frame_def mt_in_def)
qed

abbreviation direct_config :: mqtt_config where
  "direct_config \<equiv> (default_mqtt default_build)\<lparr> mc_mode := Mirror_Direct \<rparr>"

definition input_of :: "u8 list \<Rightarrow> mqtt_message" where
  "input_of bs = \<lparr> mm_memory = ascii ''pjon/device44/input'' @ [0] @ bs, mm_payload = 20, mm_length = of_nat (length bs) \<rparr>"

lemma input_receiver: "mirror_receiver direct_config (mm_memory (input_of bs)) s = Some 44"
proof -
  have "device_start direct_config (mm_memory (input_of bs)) = Some 4"
    by (simp add: device_start_def input_of_def ascii_def cstr_def mqtt_mac_def default_mqtt_def)
  then show ?thesis
    by (simp add: mirror_receiver_def input_of_def ascii_def mqtt_mac_def default_mqtt_def Let_def is_space_def)
qed

theorem mqtt_oversized_blocks_witness:
  "\<exists>s'. mt_receive_frame default_build direct_config sample_client 50
          (new_mqtt direct_config ([input_of (replicate 46 65)], [])) = Some ((PJON_FAIL, []), s') \<and>
        mt_world s' = ([], []) \<and>
        mt_receive_frame default_build direct_config sample_client 50 (s'\<lparr> mt_world := ([input_of [65]], []) \<rparr>) =
          Some ((PJON_FAIL, []), s'\<lparr> mt_world := ([input_of [65]], []) \<rparr>)"
  by (rule mqtt_oversized_blocks [where m = "input_of (replicate 46 65)", OF _ _ _ input_receiver])
    (simp_all add: new_mqtt_def max_default, simp_all add: input_of_def)

subsection \<open>Translating a payload\<close>

text \<open>A piece of the payload without an equals sign leaves the loop over the values where it is.\<close>

lemma translate_stuck:
  assumes "find_value_separator left v = Some n" "memchr 61 n v = Some None"
  shows "translate_loop c mq (Suc fuel) topic v left cnt s = translate_loop c mq fuel topic v left cnt s"
    and "translate_loop c mq fuel topic v left cnt s = None"
proof -
  show "translate_loop c mq (Suc fuel) topic v left cnt s = translate_loop c mq fuel topic v left cnt s" for fuel
    using assms by simp
  then show "translate_loop c mq fuel topic v left cnt s = None"
    by (induction fuel) (simp_all only: translate_loop.simps(1))
qed

theorem mqtt_translate_hangs:
  assumes "mc_mode c = Mirror_Translate" "parse_header b (data @ behind) = Some info"
    and "mt_outgoing_topic c mq info s = Some (Some topic)"
    and "drop (mt_payload_start info) (data @ behind) = v"
    and "find_value_separator (unat (of_nat (length data) - ucast (packet_overhead (pi_header info)) :: u16)) v = Some n"
    and "memchr 61 n v = Some None"
  shows "mt_send_frame b c mq fuel behind data s = None"
  using assms(1-4) translate_stuck(2) [OF assms(5,6)]
  by (simp add: mt_send_frame_def send_translate_def del: drop_append)

end
