(* ===== verification/Port_Io.thy ===== *)
theory Port_Io
  imports Bit_Bang
begin

text \<open>
  \<^verbatim>\<open>src/interfaces/ARDUINO/PJON_IO.h\<close>: the pin macros of the boards, \<^verbatim>\<open>PJON_IO_MODE\<close>, \<^verbatim>\<open>PJON_IO_WRITE\<close>,
  \<^verbatim>\<open>PJON_IO_READ\<close> and \<^verbatim>\<open>PJON_IO_PULL_DOWN\<close>, on the registers of the microcontroller.  A pin number is
  translated to a register and a bit by nested conditionals, one set for every board; the tables are shown to
  keep pins apart, and \<open>SoftwareBitBang\<close> over these macros to touch no pin but its own.
\<close>

subsection \<open>The pins of the AVR boards\<close>

datatype port =
  PORT_A | PORT_B | PORT_C | PORT_D | PORT_E | PORT_F | PORT_G | PORT_H | PORT_J | PORT_K | PORT_L

text \<open>
  The three register macros of a board (\<^verbatim>\<open>PJON_IO_PIN_TO_PORT_REG\<close>, \<^verbatim>\<open>_DDR_REG\<close>, \<^verbatim>\<open>_PIN_REG\<close>) are written out
  separately in the code; \<open>bd_port\<close>, \<open>bd_ddr\<close> and \<open>bd_pin\<close> give the letter of the register each of them selects.
\<close>

record board =
  bd_port :: "nat \<Rightarrow> port"
  bd_ddr :: "nat \<Rightarrow> port"
  bd_pin :: "nat \<Rightarrow> port"
  bd_bit :: "nat \<Rightarrow> nat"

definition mega_port :: "nat \<Rightarrow> port" where
  "mega_port p =
     (if 22 \<le> p \<and> p \<le> 29 then PORT_A
      else if (10 \<le> p \<and> p \<le> 13) \<or> (50 \<le> p \<and> p \<le> 53) then PORT_B
      else if 30 \<le> p \<and> p \<le> 37 then PORT_C
      else if (18 \<le> p \<and> p \<le> 21) \<or> p = 38 then PORT_D
      else if p \<le> 3 \<or> p = 5 then PORT_E
      else if 54 \<le> p \<and> p \<le> 61 then PORT_F
      else if (39 \<le> p \<and> p \<le> 41) \<or> p = 4 then PORT_G
      else if (6 \<le> p \<and> p \<le> 9) \<or> p = 16 \<or> p = 17 then PORT_H
      else if p = 14 \<or> p = 15 then PORT_J
      else if 62 \<le> p \<and> p \<le> 69 then PORT_K else PORT_L)"

definition mega_ddr :: "nat \<Rightarrow> port" where
  "mega_ddr p =
     (if 22 \<le> p \<and> p \<le> 29 then PORT_A
      else if (10 \<le> p \<and> p \<le> 13) \<or> (50 \<le> p \<and> p \<le> 53) then PORT_B
      else if 30 \<le> p \<and> p \<le> 37 then PORT_C
      else if (18 \<le> p \<and> p \<le> 21) \<or> p = 38 then PORT_D
      else if p \<le> 3 \<or> p = 5 then PORT_E
      else if 54 \<le> p \<and> p \<le> 61 then PORT_F
      else if (39 \<le> p \<and> p \<le> 41) \<or> p = 4 then PORT_G
      else if (6 \<le> p \<and> p \<le> 9) \<or> p = 16 \<or> p = 17 then PORT_H
      else if p = 14 \<or> p = 15 then PORT_J
      else if 62 \<le> p \<and> p \<le> 69 then PORT_K else PORT_L)"

definition mega_pin :: "nat \<Rightarrow> port" where
  "mega_pin p =
     (if 22 \<le> p \<and> p \<le> 29 then PORT_A
      else if (10 \<le> p \<and> p \<le> 13) \<or> (50 \<le> p \<and> p \<le> 53) then PORT_B
      else if 30 \<le> p \<and> p \<le> 37 then PORT_C
      else if (18 \<le> p \<and> p \<le> 21) \<or> p = 38 then PORT_D
      else if p \<le> 3 \<or> p = 5 then PORT_E
      else if 54 \<le> p \<and> p \<le> 61 then PORT_F
      else if (39 \<le> p \<and> p \<le> 41) \<or> p = 4 then PORT_G
      else if (6 \<le> p \<and> p \<le> 9) \<or> p = 16 \<or> p = 17 then PORT_H
      else if p = 14 \<or> p = 15 then PORT_J
      else if 62 \<le> p \<and> p \<le> 69 then PORT_K else PORT_L)"

definition mega_bit :: "nat \<Rightarrow> nat" where
  "mega_bit p =
     (if 7 \<le> p \<and> p \<le> 9 then p - 3 else if 10 \<le> p \<and> p \<le> 13 then p - 6
      else if 22 \<le> p \<and> p \<le> 29 then p - 22 else if 30 \<le> p \<and> p \<le> 37 then 37 - p
      else if 39 \<le> p \<and> p \<le> 41 then 41 - p else if 42 \<le> p \<and> p \<le> 49 then 49 - p
      else if 50 \<le> p \<and> p \<le> 53 then 53 - p else if 54 \<le> p \<and> p \<le> 61 then p - 54
      else if 62 \<le> p \<and> p \<le> 69 then p - 62
      else if p = 0 \<or> p = 15 \<or> p = 17 \<or> p = 21 then 0
      else if p = 1 \<or> p = 14 \<or> p = 16 \<or> p = 20 then 1
      else if p = 19 then 2
      else if p = 5 \<or> p = 6 \<or> p = 18 then 3
      else if p = 2 then 4
      else if p = 3 \<or> p = 4 then 5 else 7)"

definition mega :: board where
  "mega = \<lparr> bd_port = mega_port, bd_ddr = mega_ddr, bd_pin = mega_pin, bd_bit = mega_bit \<rparr>"

definition uno_port :: "nat \<Rightarrow> port" where
  "uno_port p = (if p \<le> 7 then PORT_D else if 8 \<le> p \<and> p \<le> 13 then PORT_B else PORT_C)"

definition uno_ddr :: "nat \<Rightarrow> port" where
  "uno_ddr p = (if p \<le> 7 then PORT_D else if 8 \<le> p \<and> p \<le> 13 then PORT_B else PORT_C)"

definition uno_pin :: "nat \<Rightarrow> port" where
  "uno_pin p = (if p \<le> 7 then PORT_D else if 8 \<le> p \<and> p \<le> 13 then PORT_B else PORT_C)"

definition uno_bit :: "nat \<Rightarrow> nat" where
  "uno_bit p = (if p \<le> 7 then p else if 8 \<le> p \<and> p \<le> 13 then p - 8 else p - 14)"

definition uno :: board where
  "uno = \<lparr> bd_port = uno_port, bd_ddr = uno_ddr, bd_pin = uno_pin, bd_bit = uno_bit \<rparr>"

definition leonardo_port :: "nat \<Rightarrow> port" where
  "leonardo_port p =
     (if p \<le> 4 \<or> p = 6 \<or> p = 12 \<or> p = 24 \<or> p = 25 \<or> p = 29 then PORT_D
      else if p = 5 \<or> p = 13 then PORT_C else if 18 \<le> p \<and> p \<le> 23 then PORT_F
      else if p = 7 then PORT_E else PORT_B)"

definition leonardo_ddr :: "nat \<Rightarrow> port" where
  "leonardo_ddr p =
     (if p \<le> 4 \<or> p = 6 \<or> p = 12 \<or> p = 24 \<or> p = 25 \<or> p = 29 then PORT_D
      else if p = 5 \<or> p = 13 then PORT_C else if 18 \<le> p \<and> p \<le> 23 then PORT_F
      else if p = 7 then PORT_E else PORT_B)"

definition leonardo_pin :: "nat \<Rightarrow> port" where
  "leonardo_pin p =
     (if p \<le> 4 \<or> p = 6 \<or> p = 12 \<or> p = 24 \<or> p = 25 \<or> p = 29 then PORT_D
      else if p = 5 \<or> p = 13 then PORT_C else if 18 \<le> p \<and> p \<le> 23 then PORT_F
      else if p = 7 then PORT_E else PORT_B)"

definition leonardo_bit :: "nat \<Rightarrow> nat" where
  "leonardo_bit p =
     (if 8 \<le> p \<and> p \<le> 11 then p - 4 else if 18 \<le> p \<and> p \<le> 21 then 25 - p
      else if p = 0 then 2 else if p = 1 then 3 else if p = 2 then 1 else if p = 3 then 0
      else if p = 4 then 4 else if p = 6 then 7 else if p = 13 then 7 else if p = 14 then 3
      else if p = 15 then 1 else if p = 16 then 2 else if p = 17 then 0 else if p = 22 then 1
      else if p = 23 then 0 else if p = 24 then 4 else if p = 25 then 7 else if p = 26 then 4
      else if p = 27 then 5 else 6)"

definition leonardo :: board where
  "leonardo =
     \<lparr> bd_port = leonardo_port, bd_ddr = leonardo_ddr, bd_pin = leonardo_pin, bd_bit = leonardo_bit \<rparr>"

definition tiny85 :: board where
  "tiny85 = \<lparr> bd_port = \<lambda>p. PORT_B, bd_ddr = \<lambda>p. PORT_B, bd_pin = \<lambda>p. PORT_B, bd_bit = \<lambda>p. p \<rparr>"

definition mighty_port :: "nat \<Rightarrow> port" where
  "mighty_port p =
     (if 24 \<le> p then PORT_A else if p \<le> 7 then PORT_B else if 8 \<le> p \<and> p \<le> 15 then PORT_D else PORT_C)"

definition mighty_ddr :: "nat \<Rightarrow> port" where
  "mighty_ddr p =
     (if 24 \<le> p then PORT_A else if p \<le> 7 then PORT_B else if 8 \<le> p \<and> p \<le> 15 then PORT_D else PORT_C)"

definition mighty_pin :: "nat \<Rightarrow> port" where
  "mighty_pin p =
     (if 24 \<le> p then PORT_A else if p \<le> 7 then PORT_B else if 8 \<le> p \<and> p \<le> 15 then PORT_D else PORT_C)"

definition mighty_bit :: "nat \<Rightarrow> nat" where
  "mighty_bit p =
     (if 24 \<le> p then p - 24 else if p \<le> 7 then p else if 8 \<le> p \<and> p \<le> 15 then p - 8 else p - 16)"

definition mighty :: board where
  "mighty = \<lparr> bd_port = mighty_port, bd_ddr = mighty_ddr, bd_pin = mighty_pin, bd_bit = mighty_bit \<rparr>"

definition tiny84_bit :: "nat \<Rightarrow> nat" where
  "tiny84_bit p = (if p \<le> 7 then p else if p = 8 then 2 else if p = 9 then 3 else if p = 10 then 1 else 0)"

definition tiny84 :: board where
  "tiny84 =
     \<lparr> bd_port = \<lambda>p. if p \<le> 7 then PORT_A else PORT_B, bd_ddr = \<lambda>p. if p \<le> 7 then PORT_A else PORT_B,
       bd_pin = \<lambda>p. if p \<le> 7 then PORT_A else PORT_B, bd_bit = tiny84_bit \<rparr>"

text \<open>The ATmega4809 of the Uno WiFi Rev 2 and the Nano Every.\<close>

definition every_port :: "nat \<Rightarrow> port" where
  "every_port p =
     (if p = 2 \<or> p = 7 then PORT_A else if p = 5 \<or> p = 9 \<or> p = 10 then PORT_B else if p = 4 then PORT_C
      else if (14 \<le> p \<and> p \<le> 17) \<or> p = 20 \<or> p = 21 then PORT_D
      else if p = 8 \<or> p = 11 \<or> p = 12 \<or> p = 13 then PORT_E else PORT_F)"

definition every_ddr :: "nat \<Rightarrow> port" where
  "every_ddr p =
     (if p = 2 \<or> p = 7 then PORT_A else if p = 5 \<or> p = 9 \<or> p = 10 then PORT_B else if p = 4 then PORT_C
      else if (14 \<le> p \<and> p \<le> 17) \<or> p = 20 \<or> p = 21 then PORT_D
      else if p = 8 \<or> p = 11 \<or> p = 12 \<or> p = 13 then PORT_E else PORT_F)"

definition every_pin :: "nat \<Rightarrow> port" where
  "every_pin p =
     (if p = 2 \<or> p = 7 then PORT_A else if p = 5 \<or> p = 9 \<or> p = 10 then PORT_B else if p = 4 then PORT_C
      else if (14 \<le> p \<and> p \<le> 17) \<or> p = 20 \<or> p = 21 then PORT_D
      else if p = 8 \<or> p = 11 \<or> p = 12 \<or> p = 13 then PORT_E else PORT_F)"

definition every_bit :: "nat \<Rightarrow> nat" where
  "every_bit p =
     (if p = 2 \<or> p = 9 \<or> p = 11 \<or> p = 17 then 0 else if p = 7 \<or> p = 10 \<or> p = 12 \<or> p = 16 then 1
      else if p = 5 \<or> p = 13 \<or> p = 15 \<or> p = 18 then 2 else if p = 9 \<or> p = 14 \<or> p = 19 then 3
      else if p = 6 \<or> p = 20 then 4 else if p = 3 \<or> p = 21 then 5 else 6)"

definition every :: board where
  "every = \<lparr> bd_port = every_port, bd_ddr = every_ddr, bd_pin = every_pin, bd_bit = every_bit \<rparr>"

text \<open>The boards with the number of their pins, as far as the macros give every pin a bit of its own.\<close>

definition avr_boards :: "(board \<times> nat) list" where
  "avr_boards = [(mega, 70), (uno, 22), (leonardo, 24), (tiny85, 8), (mighty, 32), (tiny84, 12)]"

lemmas board_defs =
  mega_def uno_def leonardo_def tiny85_def mighty_def tiny84_def every_def
  mega_port_def mega_ddr_def mega_pin_def mega_bit_def uno_port_def uno_ddr_def uno_pin_def uno_bit_def
  leonardo_port_def leonardo_ddr_def leonardo_pin_def leonardo_bit_def
  mighty_port_def mighty_ddr_def mighty_pin_def mighty_bit_def tiny84_bit_def
  every_port_def every_ddr_def every_pin_def every_bit_def

lemma board_registers_agree:
  assumes "(b, n) \<in> set avr_boards"
  shows "bd_ddr b p = bd_port b p" and "bd_pin b p = bd_port b p"
  using assms by (auto simp: avr_boards_def board_defs)

lemma board_pads_distinct:
  "list_all (\<lambda>(b, n). distinct (map (\<lambda>p. (bd_port b p, bd_bit b p)) [0..<n]) \<and>
     list_all (\<lambda>p. bd_bit b p < 8) [0..<n]) avr_boards"
  by code_simp


text \<open>What the lemma says of one board and two pins.\<close>

lemma board_pads:
  assumes "(b, n) \<in> set avr_boards" and "p < n"
  shows board_bit_less: "bd_bit b p < 8"
    and board_pad_inj: "q < n \<Longrightarrow> bd_port b p = bd_port b q \<Longrightarrow> bd_bit b p = bd_bit b q \<Longrightarrow> p = q"
proof -
  have d: "distinct (map (\<lambda>p. (bd_port b p, bd_bit b p)) [0..<n])" "\<forall>p\<in>set [0..<n]. bd_bit b p < 8"
    using board_pads_distinct assms(1) by (auto simp: list_all_iff)
  show "bd_bit b p < 8" using d(2) assms(2) by simp
  show "p = q" if "q < n" "bd_port b p = bd_port b q" "bd_bit b p = bd_bit b q"
    using inj_onD [OF distinct_map [THEN iffD1, OF d(1), THEN conjunct2], of p q] that assms(2) by simp
qed

subsection \<open>The registers\<close>

text \<open>
  The output latches and directions of the ports, what the pins read, and whether interrupts are enabled
  (the flag of \<^verbatim>\<open>SREG\<close> that \<^verbatim>\<open>cli\<close> clears and \<^verbatim>\<open>sei\<close> sets).  The functions of the Arduino core the macros fall
  back on, the addresses of the registers and the clock are the record \<open>avr_core\<close>; \<^verbatim>\<open>bitWrite\<close> of the core sets or
  clears one bit of a byte.
\<close>

record 's avr =
  av_out :: "port \<Rightarrow> u8"
  av_dir :: "port \<Rightarrow> u8"
  av_in :: "port \<Rightarrow> u8"
  av_irq :: bool
  av_world :: 's

datatype io_register = Port_reg port | Ddr_reg port

record 's avr_core = "'s avr platform" +
  core_address :: "io_register \<Rightarrow> nat"
  core_digital_write :: "u8 \<Rightarrow> bool \<Rightarrow> 's avr \<Rightarrow> 's avr"
  core_pin_mode :: "u8 \<Rightarrow> bool \<Rightarrow> 's avr \<Rightarrow> 's avr"
  core_digital_read :: "u8 \<Rightarrow> 's avr \<Rightarrow> bool \<times> 's avr"
  core_delay_us :: "u32 \<Rightarrow> 's avr \<Rightarrow> 's avr"

definition bit_write :: "u8 \<Rightarrow> nat \<Rightarrow> bool \<Rightarrow> u8" where
  "bit_write x k v = (if v then set_bit k x else unset_bit k x)"

fun write_register_bit :: "io_register \<Rightarrow> nat \<Rightarrow> bool \<Rightarrow> 's avr \<Rightarrow> 's avr" where
  "write_register_bit (Port_reg r) k v a = a\<lparr> av_out := (av_out a)(r := bit_write (av_out a r) k v) \<rparr>"
| "write_register_bit (Ddr_reg r) k v a = a\<lparr> av_dir := (av_dir a)(r := bit_write (av_dir a r) k v) \<rparr>"

text \<open>
  The states an atomic write goes through, the last one is its result: a register within reach of a single
  instruction is written directly, any other with the interrupts disabled.
\<close>

definition atomic_write_steps ::
  "('s, 'z) avr_core_scheme \<Rightarrow> board \<Rightarrow> io_register \<Rightarrow> nat \<Rightarrow> bool \<Rightarrow> 's avr \<Rightarrow> 's avr list" where
  "atomic_write_steps core b r p v a =
     (if core_address core r < 0x40 then [write_register_bit r (bd_bit b p) v a]
      else let save_sreg = av_irq a;
               disabled = a\<lparr> av_irq := False \<rparr>;
               written = write_register_bit r (bd_bit b p) v disabled;
               enabled = written\<lparr> av_irq := True \<rparr>;
               restored = enabled\<lparr> av_irq := save_sreg \<rparr>
           in [disabled, written, enabled, restored])"

definition atomic_write ::
  "('s, 'z) avr_core_scheme \<Rightarrow> board \<Rightarrow> io_register \<Rightarrow> nat \<Rightarrow> bool \<Rightarrow> 's avr \<Rightarrow> 's avr" where
  "atomic_write core b r p v a = last (atomic_write_steps core b r p v a)"

text \<open>
  The macros.  \<open>known_pin\<close> and \<open>known_value\<close> are \<^verbatim>\<open>__builtin_constant_p\<close> of the pin number and of the value: only
  then the registers are accessed directly.
\<close>

definition avr_io_write ::
  "('s, 'z) avr_core_scheme \<Rightarrow> board \<Rightarrow> bool \<Rightarrow> bool \<Rightarrow> u8 \<Rightarrow> bool \<Rightarrow> 's avr \<Rightarrow> 's avr" where
  "avr_io_write core b known_pin known_value p v a =
     (if known_pin \<and> known_value then atomic_write core b (Port_reg (bd_port b (unat p))) (unat p) v a
      else core_digital_write core p v a)"

definition avr_io_mode ::
  "('s, 'z) avr_core_scheme \<Rightarrow> board \<Rightarrow> bool \<Rightarrow> bool \<Rightarrow> u8 \<Rightarrow> bool \<Rightarrow> 's avr \<Rightarrow> 's avr" where
  "avr_io_mode core b known_pin known_value p v a =
     (if known_pin \<and> known_value then atomic_write core b (Ddr_reg (bd_ddr b (unat p))) (unat p) v a
      else core_pin_mode core p v a)"

definition avr_io_read ::
  "('s, 'z) avr_core_scheme \<Rightarrow> board \<Rightarrow> bool \<Rightarrow> u8 \<Rightarrow> 's avr \<Rightarrow> bool \<times> 's avr" where
  "avr_io_read core b known_pin p a =
     (if known_pin then (drop_bit (bd_bit b (unat p)) (av_in a (bd_pin b (unat p))) AND 1 \<noteq> 0, a)
      else core_digital_read core p a)"

definition avr_io_pull_down ::
  "('s, 'z) avr_core_scheme \<Rightarrow> board \<Rightarrow> bool \<Rightarrow> u8 \<Rightarrow> 's avr \<Rightarrow> 's avr" where
  "avr_io_pull_down core b known_pin p a =
     (if known_pin
      then avr_io_mode core b known_pin True p INPUT (avr_io_write core b known_pin True p False a)
      else core_pin_mode core p INPUT (core_digital_write core p False a))"

text \<open>The pins of a strategy over these macros.\<close>

definition avr_pins ::
  "('s, 'z) avr_core_scheme \<Rightarrow> board \<Rightarrow> (u8 \<Rightarrow> bool) \<Rightarrow> bool \<Rightarrow> 's avr pins" where
  "avr_pins core b known known_value =
     \<lparr> pf_micros = pf_micros core, pf_delay = pf_delay core, pf_random = pf_random core,
       pf_random_seed = pf_random_seed core, pf_analog_read = pf_analog_read core,
       pin_mode = (\<lambda>p. avr_io_mode core b (known p) True p),
       pin_write = (\<lambda>p. avr_io_write core b (known p) known_value p),
       pin_read = (\<lambda>p. avr_io_read core b (known p) p),
       pin_pull_down = (\<lambda>p. avr_io_pull_down core b (known p) p),
       delay_us = core_delay_us core \<rparr>"

subsection \<open>One pin at a time\<close>

text \<open>What a pin drives: its output latch and its direction.\<close>

definition pad :: "board \<Rightarrow> nat \<Rightarrow> 's avr \<Rightarrow> bool \<times> bool" where
  "pad b q a = (bit (av_out a (bd_port b q)) (bd_bit b q), bit (av_dir a (bd_ddr b q)) (bd_bit b q))"

lemma bit_bit_write: "bit (bit_write x k v) j \<longleftrightarrow> (if j = k then v \<and> j < 8 else bit x j)"
  by (auto simp: bit_write_def bit_simps dest: bit_imp_le_length)

lemma drop_bit_and_one: "drop_bit k x AND 1 \<noteq> 0 \<longleftrightarrow> bit x k" for x :: u8
  by (simp add: bit_iff_odd_drop_bit and_one_eq odd_iff_mod_2_eq_one)

lemma atomic_write_result:
  "atomic_write core b r p v a = write_register_bit r (bd_bit b p) v a"
  by (cases r) (simp_all add: atomic_write_def atomic_write_steps_def Let_def)

lemma atomic_write_pad:
  assumes "(b, n) \<in> set avr_boards" and "p < n" and "q < n"
  shows "pad b q (atomic_write core b (Port_reg (bd_port b p)) p v a) = (if p = q then (v, snd (pad b q a)) else pad b q a)"
    and "pad b q (atomic_write core b (Ddr_reg (bd_ddr b p)) p v a) = (if p = q then (fst (pad b q a), v) else pad b q a)"
  using board_bit_less [OF assms(1,2)] board_bit_less [OF assms(1,3)] board_pad_inj [OF assms]
    board_registers_agree(1) [OF assms(1)]
  by (auto simp: pad_def atomic_write_result bit_bit_write)


subsection \<open>Pins that are left alone\<close>

text \<open>
  The contract of a pin interface towards the rest of a device: operations on the pins of a set, reading and
  waiting keep what \<open>keep\<close> says of the world.  All of \<open>SoftwareBitBang\<close> then keeps it.
\<close>

locale pin_guard =
  fixes pn :: "'s pins" and keep :: "'s \<Rightarrow> bool" and pins :: "u8 set"
  assumes keep_mode: "p \<in> pins \<Longrightarrow> keep w \<Longrightarrow> keep (pin_mode pn p v w)"
    and keep_write: "p \<in> pins \<Longrightarrow> keep w \<Longrightarrow> keep (pin_write pn p v w)"
    and keep_pull_down: "p \<in> pins \<Longrightarrow> keep w \<Longrightarrow> keep (pin_pull_down pn p w)"
    and keep_read: "keep w \<Longrightarrow> keep (snd (pin_read pn p w))"
    and keep_micros: "keep w \<Longrightarrow> keep (snd (pf_micros pn w))"
    and keep_delay_us: "keep w \<Longrightarrow> keep (delay_us pn us w)"
    and keep_delay: "keep w \<Longrightarrow> keep (pf_delay pn ms w)"
    and keep_random: "keep w \<Longrightarrow> keep (snd (pf_random pn m w))"
begin

definition safe :: "'s swbb \<Rightarrow> bool" where
  "safe s \<longleftrightarrow> keep (sb_world s) \<and> sb_input_pin s \<in> pins \<and> sb_output_pin s \<in> pins"

lemma kept:
  "pin_read pn p w = (x, w') \<Longrightarrow> keep w \<Longrightarrow> keep w'" "pf_micros pn w = (t, w') \<Longrightarrow> keep w \<Longrightarrow> keep w'"
  "pf_random pn m w = (r, w') \<Longrightarrow> keep w \<Longrightarrow> keep w'"
  using keep_read [of w p] keep_micros [of w] keep_random [of w m] by simp_all

lemma safe_pins: "safe s \<Longrightarrow> sb_input_pin s \<in> pins" "safe s \<Longrightarrow> sb_output_pin s \<in> pins"
  by (simp_all add: safe_def)

lemma safe_steps:
  assumes "safe s"
  shows "safe (sb_delay pn us s)" and "safe (sb_write pn v s)"
    and "p \<in> pins \<Longrightarrow> safe (on_world (pin_pull_down pn p) s)"
    and "p \<in> pins \<Longrightarrow> safe (on_world (pin_mode pn p d) s)"
    and "p \<in> pins \<Longrightarrow> safe (on_world (pin_write pn p v) s)" and "safe (on_world (random_delay_us pn m) s)"
    and "safe (on_world (initial_delay pn m did) s)" and "safe (s\<lparr> sb_timeout := t \<rparr>)"
  using assms keep_mode keep_write keep_pull_down keep_delay_us keep_delay
  by (auto simp: safe_def sb_delay_def sb_write_def on_world_def
      random_delay_us_def initial_delay_def split: prod.split dest: kept)

lemma safe_read: "sb_read pn s = (x, s') \<Longrightarrow> safe s \<Longrightarrow> safe s'"
  by (auto simp: safe_def sb_read_def in_world_def split: prod.splits dest: kept)

lemma safe_micros: "sb_micros pn s = (x, s') \<Longrightarrow> safe s \<Longrightarrow> safe s'"
  by (auto simp: safe_def sb_micros_def in_world_def split: prod.splits dest: kept)

lemma safe_while_high: "sb_while_high pn fuel spacer time s = Some s' \<Longrightarrow> safe s \<Longrightarrow> safe s'"
  by (induction fuel arbitrary: s) (auto simp: Let_def split: prod.splits if_splits dest: safe_read safe_micros)

lemma safe_sync_for:
  assumes "swbb_sync_for c pn fuel spacer s = Some (x, s')" and "safe s"
  shows "safe s'"
proof -
  let ?s = "on_world (pin_pull_down pn (sb_input_pin s)) s"
  let ?t = "if sb_output_pin ?s \<noteq> sb_input_pin ?s \<and> sb_output_pin ?s \<noteq> SWBB_NOT_ASSIGNED
            then on_world (pin_pull_down pn (sb_output_pin ?s)) ?s else ?s"
  have "safe ?t" using assms(2) by (simp add: safe_steps safe_pins)
  with assms(1) show ?thesis
    unfolding swbb_sync_for_def Let_def
    by (auto simp del: if_split simp: safe_steps safe_pins split: prod.splits elim!: bind_SomeE
        dest!: safe_while_high safe_read safe_micros split: if_split_asm)
qed

lemma safe_sync: "swbb_sync c pn fuel s = Some (x, s') \<Longrightarrow> safe s \<Longrightarrow> safe s'"
  unfolding swbb_sync_def by (rule safe_sync_for)

lemma safe_pads: "safe s \<Longrightarrow> safe (swbb_pads c pn n s)"
  by (induction n arbitrary: s) (simp_all add: Let_def safe_steps safe_pins)

lemma safe_pulse: "safe s \<Longrightarrow> safe (swbb_pulse c pn n s)"
  by (simp add: swbb_pulse_def Let_def safe_steps safe_pins safe_pads)

lemma safe_read_bits: "swbb_read_bits c pn k i x s = (y, s') \<Longrightarrow> safe s \<Longrightarrow> safe s'"
proof (induction k arbitrary: i x s)
  case (Suc k)
  obtain v t where "sb_read pn s = (v, t)" by fastforce
  with Suc safe_read [OF this] show ?case by (simp add: Let_def safe_steps safe_pins)
qed simp

lemma safe_read_byte: "swbb_read_byte c pn s = (x, s') \<Longrightarrow> safe s \<Longrightarrow> safe s'"
  by (auto simp: swbb_read_byte_def Let_def safe_steps safe_pins split: prod.splits dest!: safe_read_bits safe_read)

lemma safe_receive_byte: "swbb_receive_byte c pn fuel s = Some (x, s') \<Longrightarrow> safe s \<Longrightarrow> safe s'"
  by (auto simp: swbb_receive_byte_def split: prod.splits if_splits elim!: bind_SomeE dest!: safe_sync safe_read_byte)

lemma safe_send_bits: "safe s \<Longrightarrow> safe (swbb_send_bits c pn k m x s)"
  by (induction k arbitrary: m s) (simp_all add: Let_def safe_steps safe_pins)

lemma safe_send_byte: "safe s \<Longrightarrow> safe (swbb_send_byte c pn x s)"
  by (simp add: swbb_send_byte_def safe_send_bits safe_pulse)

lemma safe_send_bytes: "safe s \<Longrightarrow> safe (fold (swbb_send_byte c pn) data s)"
  by (induction data arbitrary: s) (simp_all add: safe_send_byte)

lemma safe_send_frame: "safe s \<Longrightarrow> safe (swbb_send_frame c pn data s)"
  by (simp add: swbb_send_frame_def Let_def safe_steps safe_pins safe_pulse safe_send_bytes)

lemma safe_wait_until: "sb_wait_until pn fuel level limit time s = Some s' \<Longrightarrow> safe s \<Longrightarrow> safe s'"
  by (induction fuel arbitrary: s) (auto simp: Let_def split: prod.splits if_splits dest: safe_read safe_micros)

lemma safe_send_response:
  assumes "swbb_send_response c pn fuel r s = Some s'" and "safe s"
  shows "safe s'"
  using assms
  by (auto simp: swbb_send_response_def Let_def safe_steps safe_pins safe_pulse safe_send_byte split: prod.splits elim!: bind_SomeE
      dest!: safe_wait_until safe_micros)

lemma safe_frame_init: "swbb_frame_init c pn fuel s = Some (x, s') \<Longrightarrow> safe s \<Longrightarrow> safe s'"
  by (auto simp: swbb_frame_init_def swbb_sync_preamble_def split: prod.splits if_splits elim!: bind_SomeE
      dest!: safe_sync_for safe_sync)

lemma safe_receive_frame:
  assumes "swbb_receive_frame c b pn fuel m s = Some (x, s')" and "safe s"
  shows "safe s'"
  using assms
  by (auto simp: swbb_receive_frame_def Let_def split: prod.splits if_splits elim!: bind_SomeE
      dest!: safe_frame_init safe_micros safe_receive_byte)

lemma safe_response_loop:
  "swbb_response_loop c pn fuel k time r s = Some (x, s') \<Longrightarrow> safe s \<Longrightarrow> safe s'"
proof (induction k arbitrary: r s)
  case (Suc k)
  obtain now s0 where now: "sb_micros pn s = (now, s0)" by fastforce
  have "safe s0" using now Suc.prems(2) by (rule safe_micros)
  then have s1: "safe (on_world (pin_write pn (sb_input_pin s0) False) s0)" (is "safe ?s1")
    by (simp add: safe_steps safe_pins)
  show ?case
  proof (cases "now - time < ucast (sb_timeout s0)")
    case True
    then obtain found s2 where f: "swbb_sync c pn fuel ?s1 = Some (found, s2)"
      and rest: "do { (response, s) \<leftarrow> (if found then swbb_receive_byte c pn fuel s2 else Some (r, s2));
            if response = SWBB_FAIL
            then let s = on_world (pin_mode pn (sb_output_pin s) OUTPUT) s;
                     s = sb_write pn True s; s = sb_delay pn (swbb_bit_width c div 4) s;
                     s = on_world (pin_pull_down pn (sb_output_pin s)) s
                 in swbb_response_loop c pn fuel k time response s
            else Some (response, s) } = Some (x, s')"
      using Suc.prems(1) now by (auto simp: Let_def elim!: bind_SomeE)
    have "safe s2" using f s1 by (rule safe_sync)
    then have "safe s3" if "(if found then swbb_receive_byte c pn fuel s2 else Some (r, s2)) = Some (y, s3)" for y s3
      using that safe_receive_byte by (auto split: if_splits)
    then show ?thesis using rest Suc.IH
      by (auto simp: Let_def safe_steps safe_pins split: if_split_asm elim!: bind_SomeE)
  qed (use Suc.prems now \<open>safe s0\<close> in \<open>auto simp: Let_def\<close>)
qed simp

lemma safe_receive_response:
  assumes "swbb_receive_response c pn fuel s = Some (x, s')" and "safe s"
  shows "safe s'"
  using assms
  by (auto simp: swbb_receive_response_def Let_def safe_steps safe_pins split: prod.splits if_splits
      dest!: safe_response_loop safe_micros)

lemma safe_idle_bits: "swbb_idle_bits c pn k s = (x, s') \<Longrightarrow> safe s \<Longrightarrow> safe s'"
  by (induction k arbitrary: s) (auto simp: safe_steps split: prod.splits if_splits dest!: safe_read)

text \<open>Checks of the pin in a row: \<open>keeps\<close> composes them.\<close>

definition keeps :: "('s swbb \<Rightarrow> bool \<times> 's swbb) \<Rightarrow> bool" where
  "keeps f \<longleftrightarrow> (\<forall>s. safe s \<longrightarrow> safe (snd (f s)))"

lemma keeps_if_low: "keeps rest \<Longrightarrow> keeps (\<lambda>s. if_low pn rest s)"
  by (auto simp: keeps_def if_low_def split: prod.splits dest!: safe_read)

lemma keeps_after: "keeps f \<Longrightarrow> (\<And>s. safe s \<Longrightarrow> safe (g s)) \<Longrightarrow> keeps (\<lambda>s. f (g s))"
  by (simp add: keeps_def)

lemma keeps_idle:
  assumes "keeps f"
  shows "keeps (\<lambda>s. case swbb_idle_bits c pn k s of (idle, s) \<Rightarrow> if \<not> idle then (False, s) else f s)"
  using assms by (auto simp: keeps_def split: prod.split dest: safe_idle_bits)

lemma keeps_can_start: "keeps (swbb_can_start c pn)"
proof -
  let ?latency = "\<lambda>s. sb_delay pn (swbb_latency c) s" and ?half = "\<lambda>s. sb_delay pn (swbb_bit_width c div 2) s"
  let ?spacer = "\<lambda>s. sb_delay pn (swbb_bit_spacer c div 2) s"
  let ?random = "\<lambda>s. on_world (random_delay_us pn (swbb_collision_delay c)) s"
  let ?last = "\<lambda>s. if_low pn (\<lambda>s. (True, s)) (?random s)"
  let ?latent = "\<lambda>s. if_low pn ?last (?latency s)"
  let ?idle = "\<lambda>s. case swbb_idle_bits c pn 9 s of (idle, s) \<Rightarrow> if \<not> idle then (False, s) else if_low pn ?latent s"
  have "keeps (\<lambda>s :: 's swbb. (True, s))" by (simp add: keeps_def)
  then have "keeps ?last" by (intro keeps_after [where g = ?random] keeps_if_low safe_steps)
  then have "keeps ?latent" by (intro keeps_after [where g = ?latency] keeps_if_low safe_steps)
  then have "keeps ?idle" by (intro keeps_idle keeps_if_low)
  then have "keeps (\<lambda>s. ?idle (?half s))" by (intro keeps_after [where g = ?half] safe_steps)
  then have "keeps (\<lambda>s. if_low pn (\<lambda>s. ?idle (?half s)) (?spacer s))"
    by (intro keeps_after [where g = ?spacer] keeps_if_low safe_steps)
  then have "keeps (\<lambda>s. if_low pn (\<lambda>s. if_low pn (\<lambda>s. ?idle (?half s)) (?spacer s))
      (?spacer (on_world (pin_mode pn (sb_input_pin s) INPUT) s)))"
    by (intro keeps_after [where g = "\<lambda>s. ?spacer (on_world (pin_mode pn (sb_input_pin s) INPUT) s)"] keeps_if_low)
      (simp_all add: safe_steps safe_pins)
  then show ?thesis by (simp only: keeps_def swbb_can_start_def Let_def)
qed

lemma safe_can_start: "safe s \<Longrightarrow> safe (snd (swbb_can_start c pn s))"
  using keeps_can_start [of c] by (simp add: keeps_def)

end

text \<open>
  What the documentation of the Arduino core promises: its functions change no pin but the one they are given,
  and neither reading nor waiting changes any.
\<close>

definition core_confined :: "'s avr_core \<Rightarrow> board \<Rightarrow> nat \<Rightarrow> bool" where
  "core_confined core b n \<longleftrightarrow>
     (\<forall>p v a q. unat p < n \<and> q < n \<and> q \<noteq> unat p \<longrightarrow>
        pad b q (core_digital_write core p v a) = pad b q a \<and> pad b q (core_pin_mode core p v a) = pad b q a) \<and>
     (\<forall>p a q. q < n \<longrightarrow> pad b q (snd (core_digital_read core p a)) = pad b q a) \<and>
     (\<forall>a q. q < n \<longrightarrow> pad b q (snd (pf_micros core a)) = pad b q a) \<and>
     (\<forall>us a q. q < n \<longrightarrow> pad b q (core_delay_us core us a) = pad b q a) \<and>
     (\<forall>ms a q. q < n \<longrightarrow> pad b q (pf_delay core ms a) = pad b q a) \<and>
     (\<forall>m a q. q < n \<longrightarrow> pad b q (snd (pf_random core m a)) = pad b q a)"

lemma avr_write_pad:
  assumes "(b, n) \<in> set avr_boards" and "core_confined core b n" and "unat p < n" and "q < n" and "q \<noteq> unat p"
  shows "pad b q (avr_io_write core b kp kv p v a) = pad b q a"
    and "pad b q (avr_io_mode core b kp kv p v a) = pad b q a"
    and "pad b q (avr_io_pull_down core b kp p a) = pad b q a"
  using assms
  by (simp_all add: atomic_write_pad [OF assms(1,3,4)] avr_io_write_def avr_io_mode_def avr_io_pull_down_def core_confined_def)

lemma avr_read_pad:
  "core_confined core b n \<Longrightarrow> q < n \<Longrightarrow> pad b q (snd (avr_io_read core b kp p a)) = pad b q a"
  by (simp add: avr_io_read_def core_confined_def)

interpretation avr: pin_guard "avr_pins core b known kv"
    "\<lambda>a. (b, n) \<in> set avr_boards \<and> core_confined core b n \<and> q < n \<longrightarrow> pad b q a = v" "{p. unat p < n \<and> unat p \<noteq> q}"
  for core b known kv n q v
  by unfold_locales
    (auto simp: avr_pins_def avr_write_pad avr_read_pad, auto simp: core_confined_def)


subsection \<open>The SAMD21 of the Arduino Zero\<close>

text \<open>
  The numbers of the named pins come from the variant of the board in the Arduino core, so does
  \<^verbatim>\<open>g_APinDescription\<close>, and the bits of a configuration register come from the vendor's headers;
  \<open>zero_variant\<close> holds the values of the Zero.
\<close>

record samd_variant =
  sv_a0 :: nat
  sv_a1 :: nat
  sv_a2 :: nat
  sv_a3 :: nat
  sv_a4 :: nat
  sv_a5 :: nat
  sv_sck :: nat
  sv_miso :: nat
  sv_mosi :: nat
  sv_scl :: nat
  sv_sda :: nat
  sv_description :: "nat \<Rightarrow> port \<times> nat"
  sv_inen :: u8
  sv_pullen :: u8

text \<open>\<^verbatim>\<open>PJON_IO_PIN_TO_PORT_BIT\<close>: the constant \<^verbatim>\<open>PORT_PA11\<close> is the mask of bit 11 in the group of port A.\<close>

definition samd_pad :: "samd_variant \<Rightarrow> nat \<Rightarrow> port \<times> nat" where
  "samd_pad sv p =
     (if p = 0 then (PORT_A, 11) else if p = 1 then (PORT_A, 10) else if p = 2 then (PORT_A, 14)
      else if p = 3 then (PORT_A, 9) else if p = 4 then (PORT_A, 8) else if p = 5 then (PORT_A, 15)
      else if p = 6 then (PORT_A, 20) else if p = 7 then (PORT_A, 21) else if p = 8 then (PORT_A, 6)
      else if p = 9 then (PORT_A, 7) else if p = 10 then (PORT_A, 18) else if p = 11 then (PORT_A, 16)
      else if p = 12 then (PORT_A, 19) else if p = 13 then (PORT_A, 17)
      else if p = sv_a0 sv then (PORT_A, 2) else if p = sv_a1 sv then (PORT_B, 8)
      else if p = sv_a2 sv then (PORT_B, 9) else if p = sv_a3 sv then (PORT_A, 4)
      else if p = sv_a4 sv then (PORT_A, 5) else if p = sv_a5 sv then (PORT_B, 2)
      else if p = sv_sck sv then (PORT_B, 11) else if p = sv_miso sv then (PORT_A, 12)
      else if p = sv_mosi sv then (PORT_B, 10) else if p = sv_scl sv then (PORT_A, 23)
      else if p = sv_sda sv then (PORT_A, 22) else (PORT_A, 13))"

definition samd_mask :: "samd_variant \<Rightarrow> nat \<Rightarrow> u32" where
  "samd_mask sv p = push_bit (snd (samd_pad sv p)) 1"

text \<open>The group of a pin, the condition all the register macros repeat.\<close>

definition samd_group :: "nat \<Rightarrow> port" where
  "samd_group p = (if (15 \<le> p \<and> p \<le> 16) \<or> p = 19 \<or> (23 \<le> p \<and> p \<le> 24) then PORT_B else PORT_A)"

text \<open>
  Output latches, directions and inputs of the groups, the register \<^verbatim>\<open>REG_PORT_PINCFG0\<close> or \<^verbatim>\<open>1\<close> of a group,
  which has no index, and the configuration registers by pad that \<^verbatim>\<open>PORT->Group\<close> reaches.  Writing a mask to a
  \<^verbatim>\<open>SET\<close> or \<^verbatim>\<open>CLR\<close> register sets or clears its bits.
\<close>

record samd =
  sm_out :: "port \<Rightarrow> u32"
  sm_dir :: "port \<Rightarrow> u32"
  sm_in :: "port \<Rightarrow> u32"
  sm_regpincfg :: "port \<Rightarrow> u8"
  sm_pincfg :: "port \<times> nat \<Rightarrow> u8"

definition samd_outset :: "port \<Rightarrow> u32 \<Rightarrow> samd \<Rightarrow> samd" where
  "samd_outset g m r = r\<lparr> sm_out := (sm_out r)(g := sm_out r g OR m) \<rparr>"

definition samd_outclr :: "port \<Rightarrow> u32 \<Rightarrow> samd \<Rightarrow> samd" where
  "samd_outclr g m r = r\<lparr> sm_out := (sm_out r)(g := sm_out r g AND NOT m) \<rparr>"

definition samd_dirset :: "port \<Rightarrow> u32 \<Rightarrow> samd \<Rightarrow> samd" where
  "samd_dirset g m r = r\<lparr> sm_dir := (sm_dir r)(g := sm_dir r g OR m) \<rparr>"

definition samd_dirclr :: "port \<Rightarrow> u32 \<Rightarrow> samd \<Rightarrow> samd" where
  "samd_dirclr g m r = r\<lparr> sm_dir := (sm_dir r)(g := sm_dir r g AND NOT m) \<rparr>"

text \<open>
  The macros for a constant pin (and a constant value); with any other the functions of the core are called.
  The modes are 0 input, 1 output, 2 input with pull-up, 3 input with pull-down.
\<close>

definition samd_io_mode :: "samd_variant \<Rightarrow> nat \<Rightarrow> nat \<Rightarrow> samd \<Rightarrow> samd" where
  "samd_io_mode sv p v r =
     (let g = samd_group p; m = samd_mask sv p in
      if v = 0 then
        samd_dirclr g m (r\<lparr> sm_regpincfg := (sm_regpincfg r)(g := sv_inen sv) \<rparr>)
      else if v = 2 then
        let pad = (samd_group 11, snd (sv_description sv 11));
            r = r\<lparr> sm_pincfg := (sm_pincfg r)(pad := sv_inen sv OR sv_pullen sv) \<rparr>
        in samd_outset g m (samd_dirclr g m r)
      else if v = 3 then
        let pad = sv_description sv 11;
            r = r\<lparr> sm_pincfg := (sm_pincfg r)(pad := sv_inen sv OR sv_pullen sv) \<rparr>
        in samd_outclr g m (samd_dirclr g m r)
      else
        samd_dirset g m
          (r\<lparr> sm_regpincfg := (sm_regpincfg r)(g := sm_regpincfg r g AND NOT (sv_inen sv)) \<rparr>))"

definition samd_io_read :: "samd_variant \<Rightarrow> nat \<Rightarrow> samd \<Rightarrow> u32" where
  "samd_io_read sv p r = sm_in r (samd_group p) AND samd_mask sv p"

definition samd_io_write :: "samd_variant \<Rightarrow> nat \<Rightarrow> bool \<Rightarrow> samd \<Rightarrow> samd" where
  "samd_io_write sv p v r =
     (if v then samd_outset (samd_group p) (samd_mask sv p) r else samd_outclr (samd_group p) (samd_mask sv p) r)"

definition samd_io_pull_down :: "samd_variant \<Rightarrow> nat \<Rightarrow> samd \<Rightarrow> samd" where
  "samd_io_pull_down sv p r = samd_io_mode sv p 3 r"

definition zero_variant :: samd_variant where
  "zero_variant =
     \<lparr> sv_a0 = 14, sv_a1 = 15, sv_a2 = 16, sv_a3 = 17, sv_a4 = 18, sv_a5 = 19, sv_sck = 24, sv_miso = 22,
       sv_mosi = 23, sv_scl = 21, sv_sda = 20,
       sv_description = (\<lambda>p. if p = 11 then (PORT_A, 16) else (PORT_A, 0)), sv_inen = 2, sv_pullen = 4 \<rparr>"

lemma zero_pads:
  "distinct (map (samd_pad zero_variant) [0..<25])"
  "list_all (\<lambda>p. samd_group p = fst (samd_pad zero_variant p) \<and> snd (samd_pad zero_variant p) < 32) [0..<25]"
  by code_simp+

text \<open>
  \<^verbatim>\<open>byte_value += PJON_IO_READ(_input_pin) << i\<close>, with what the macro reads at the time of each bit.
\<close>

fun samd_byte :: "samd_variant \<Rightarrow> nat \<Rightarrow> nat \<Rightarrow> samd list \<Rightarrow> u8 \<Rightarrow> u8" where
  "samd_byte sv p i [] byte_value = byte_value"
| "samd_byte sv p i (r # rs) byte_value =
     samd_byte sv p (Suc i) rs (byte_value + push_bit i (ucast (samd_io_read sv p r)))"

lemma samd_read_bit:
  "samd_io_read sv p r = push_bit (snd (samd_pad sv p)) (of_bool (bit (sm_in r (samd_group p)) (snd (samd_pad sv p))))"
  by (rule bit_word_eqI) (auto simp: samd_io_read_def samd_mask_def bit_simps)

lemma samd_read_low: "8 \<le> snd (samd_pad sv p) \<Longrightarrow> (ucast (samd_io_read sv p r) :: u8) = 0"
  by (rule bit_word_eqI) (auto simp: samd_read_bit bit_simps dest: bit_imp_le_length)

lemma samd_byte_lost: "8 \<le> snd (samd_pad sv p) \<Longrightarrow> samd_byte sv p i rs x = x"
  by (induction rs arbitrary: i x) (simp_all add: samd_read_low)

subsection \<open>Properties\<close>

text \<open>On every AVR board with a complete table, an access through the macros sets the output or the direction
  of its own pin and leaves both of every other pin of the board alone.\<close>

theorem avr_access_own_pin:
  assumes "(b, n) \<in> set avr_boards" and "unat p < n" and "q < n"
  shows "pad b q (avr_io_write core b True True p v a) = (if q = unat p then (v, snd (pad b q a)) else pad b q a) \<and>
     pad b q (avr_io_mode core b True True p v a) = (if q = unat p then (fst (pad b q a), v) else pad b q a) \<and>
     fst (avr_io_read core b True p a) = bit (av_in a (bd_port b (unat p))) (bd_bit b (unat p))"
  using board_registers_agree(2) [OF assms(1), of "unat p"]
  by (auto simp: atomic_write_pad [OF assms] avr_io_write_def avr_io_mode_def avr_io_read_def drop_bit_and_one)

text \<open>Any sequence of calls of the members that use the pins.\<close>

datatype swbb_call =
  Call_begin u8 | Call_can_start | Call_handle_collision | Call_send_frame "u8 list" | Call_receive_frame u16
| Call_send_response u8 | Call_receive_response

fun swbb_do :: "swbb_timing \<Rightarrow> build \<Rightarrow> 's pins \<Rightarrow> nat \<Rightarrow> swbb_call \<Rightarrow> 's swbb \<Rightarrow> 's swbb option" where
  "swbb_do c bd pn fuel (Call_begin did) s = Some (snd (swbb_begin c pn did s))"
| "swbb_do c bd pn fuel Call_can_start s = Some (snd (swbb_can_start c pn s))"
| "swbb_do c bd pn fuel Call_handle_collision s = Some (swbb_handle_collision c pn s)"
| "swbb_do c bd pn fuel (Call_send_frame data) s = Some (swbb_send_frame c pn data s)"
| "swbb_do c bd pn fuel (Call_receive_frame m) s = map_option snd (swbb_receive_frame c bd pn fuel m s)"
| "swbb_do c bd pn fuel (Call_send_response r) s = swbb_send_response c pn fuel r s"
| "swbb_do c bd pn fuel Call_receive_response s = map_option snd (swbb_receive_response c pn fuel s)"

fun swbb_calls :: "swbb_timing \<Rightarrow> build \<Rightarrow> 's pins \<Rightarrow> nat \<Rightarrow> swbb_call list \<Rightarrow> 's swbb \<Rightarrow> 's swbb option" where
  "swbb_calls c bd pn fuel [] s = Some s"
| "swbb_calls c bd pn fuel (x # xs) s = Option.bind (swbb_do c bd pn fuel x s) (swbb_calls c bd pn fuel xs)"

context pin_guard
begin

lemma safe_call: "swbb_do c bd pn fuel x s = Some s' \<Longrightarrow> safe s \<Longrightarrow> safe s'"
  by (cases x) (auto simp: swbb_begin_def swbb_handle_collision_def safe_steps safe_can_start safe_send_frame
      dest: safe_receive_frame safe_send_response safe_receive_response)

lemma safe_calls: "swbb_calls c bd pn fuel xs s = Some s' \<Longrightarrow> safe s \<Longrightarrow> safe s'"
  by (induction xs arbitrary: s) (auto elim!: bind_SomeE dest!: safe_call)

end


text \<open>A core whose functions go through the registers, for the examples.\<close>

definition register_core :: "board \<Rightarrow> nat avr_core" where
  "register_core b =
     \<lparr> pf_micros = (\<lambda>a. (of_nat (av_world a), a\<lparr> av_world := av_world a + 4 \<rparr>)), pf_delay = (\<lambda>ms a. a),
       pf_random = (\<lambda>m a. (0, a)), pf_random_seed = (\<lambda>m a. a), pf_analog_read = (\<lambda>p a. (0, a)),
       core_address = (\<lambda>r. 0x100),
       core_digital_write = (\<lambda>p v. write_register_bit (Port_reg (bd_port b (unat p))) (bd_bit b (unat p)) v),
       core_pin_mode = (\<lambda>p v. write_register_bit (Ddr_reg (bd_ddr b (unat p))) (bd_bit b (unat p)) v),
       core_digital_read = (\<lambda>p a. (bit (av_in a (bd_pin b (unat p))) (bd_bit b (unat p)), a)),
       core_delay_us = (\<lambda>us a. a\<lparr> av_world := av_world a + unat us \<rparr>) \<rparr>"

definition reset_avr :: "nat avr" where
  "reset_avr = \<lparr> av_out = \<lambda>_. 0, av_dir = \<lambda>_. 0, av_in = \<lambda>_. 0, av_irq = True, av_world = 0 \<rparr>"

lemma pad_world [simp]: "pad b q (a\<lparr> av_world := w \<rparr>) = pad b q a"
  by (simp add: pad_def)



lemma avr_access_own_pin_witness:
  "pad mega 42 (avr_io_write (register_core mega) mega True True 42 True reset_avr) = (True, False) \<and>
   pad mega 41 (avr_io_write (register_core mega) mega True True 42 True reset_avr) = (False, False)"
  using avr_access_own_pin [of mega 70 42 42 "register_core mega" True reset_avr]
    avr_access_own_pin [of mega 70 42 41 "register_core mega" True reset_avr]
  by (simp add: avr_boards_def pad_def reset_avr_def)

text \<open>On the ATmega4809 the macros give pins 0 and 1 the same bit, so a write to one is a write to the other, and
  pin 8 gets bit 6 of port E, because the test for bit 3 names pin 9, which an earlier test has taken.\<close>

theorem every_pins_collide:
  "avr_io_write core every True True 0 v a = avr_io_write core every True True 1 v a \<and>
   avr_io_mode core every True True 0 v a = avr_io_mode core every True True 1 v a \<and>
   avr_io_read core every True 0 a = avr_io_read core every True 1 a \<and>
   (bd_port every 8, bd_bit every 8) = (PORT_E, 6) \<and> bd_bit every 9 = 0"
  by (simp add: avr_io_write_def avr_io_mode_def avr_io_read_def atomic_write_result every_def every_port_def every_ddr_def
      every_pin_def every_bit_def)

text \<open>An atomic write beyond the reach of a single instruction restores the interrupt flag and writes the register
  with interrupts disabled, but passes through a state with interrupts enabled even where they were disabled.\<close>

theorem atomic_write_opens_interrupts:
  assumes "0x40 \<le> core_address core r"
  shows "av_irq (atomic_write core b r p v a) = av_irq a \<and>
     (\<exists>t \<in> set (atomic_write_steps core b r p v a). av_irq t) \<and>
     \<not> av_irq (atomic_write_steps core b r p v a ! 1) \<and>
     atomic_write core b r p v a = write_register_bit r (bd_bit b p) v a"
  using assms by (cases r) (simp_all add: atomic_write_def atomic_write_steps_def Let_def)

lemma atomic_write_opens_interrupts_witness:
  "\<exists>t \<in> set (atomic_write_steps (register_core mega) mega (Port_reg PORT_L) 42 True (reset_avr\<lparr> av_irq := False \<rparr>)).
     av_irq t"
  using atomic_write_opens_interrupts [of "register_core mega" "Port_reg PORT_L" mega 42 True "reset_avr\<lparr> av_irq := False \<rparr>"]
  by (simp add: register_core_def)

text \<open>On the Arduino Zero the pull-down macro configures the pad of pin 11, whichever pin it is given, so the pad of
  any other pin keeps its configuration, and reading a constant pin yields the mask of the pad instead of 0 or 1: a byte
  that \<open>SoftwareBitBang\<close> adds up from such readings is 0 whatever the line does, on all pads from bit 8 on.\<close>

theorem samd_macros_miss:
  "sm_pincfg (samd_io_pull_down sv p r) = (sm_pincfg r)(sv_description sv 11 := sv_inen sv OR sv_pullen sv) \<and>
   (samd_pad sv p \<noteq> sv_description sv 11 \<longrightarrow>
      sm_pincfg (samd_io_pull_down sv p r) (samd_pad sv p) = sm_pincfg r (samd_pad sv p)) \<and>
   (8 \<le> snd (samd_pad sv p) \<longrightarrow> samd_byte sv p 0 rs 0 = 0)"
  by (simp add: samd_io_pull_down_def samd_io_mode_def samd_outclr_def samd_dirclr_def Let_def samd_byte_lost)

lemma samd_macros_miss_witness:
  "samd_byte zero_variant 7 0 (replicate 8 \<lparr> sm_out = \<lambda>_. 0, sm_dir = \<lambda>_. 0, sm_in = \<lambda>_. 0xFFFFFFFF, sm_regpincfg = \<lambda>_. 0,
     sm_pincfg = \<lambda>_. 0 \<rparr>) 0 = 0 \<and> samd_pad zero_variant 7 \<noteq> sv_description zero_variant 11"
  using samd_macros_miss [of zero_variant 7 undefined "replicate 8 \<lparr> sm_out = \<lambda>_. 0, sm_dir = \<lambda>_. 0, sm_in = \<lambda>_. 0xFFFFFFFF,
     sm_regpincfg = \<lambda>_. 0, sm_pincfg = \<lambda>_. 0 \<rparr>"]
  by (simp add: zero_variant_def samd_pad_def)

end
