(* ===== verification/File_Lock.thy ===== *)
theory File_Lock
  imports Local_File
begin

text \<open>
  \<^verbatim>\<open>src/strategies/LocalFile/FileLockFunctions.h\<close> as a POSIX build compiles it, and the members of \<open>LocalFile\<close>
  as the sequences of system calls they are.

  \<open>Local_File\<close> describes each operation as one function on the file.  Here a member is a program of single
  calls (\<^verbatim>\<open>lseek\<close>, \<^verbatim>\<open>read\<close>, \<^verbatim>\<open>write\<close>, a lock, an unlock) on the bytes of the file, and any number of processes
  take such steps in any order.
\<close>

subsection \<open>File status and locks\<close>

record file_status =
  st_mode :: u32
  st_size :: "64 word"

datatype lock_type = F_RDLCK | F_WRLCK | F_UNLCK
datatype fcntl_command = F_GETLK | F_SETLK | F_SETLKW
datatype access_mode = R_OK | W_OK | X_OK

record flock =
  l_type :: lock_type
  l_whence :: int
  l_start :: int
  l_len :: int
  l_pid :: int

text \<open>
  The calls of the operating system, for a process given by its number: \<^verbatim>\<open>fcntl\<close> returns whether it succeeded and
  the structure it was given, possibly changed; \<^term>\<open>None\<close> is a call that waits.
\<close>

record 'k posix =
  px_stat :: "string \<Rightarrow> 'k \<Rightarrow> file_status option"
  px_access :: "string \<Rightarrow> access_mode \<Rightarrow> 'k \<Rightarrow> bool"
  px_fcntl :: "nat \<Rightarrow> int \<Rightarrow> fcntl_command \<Rightarrow> flock \<Rightarrow> 'k \<Rightarrow> ((bool \<times> flock) \<times> 'k) option"
  px_may_open :: "nat \<Rightarrow> bool \<Rightarrow> 'k \<Rightarrow> bool"

definition S_IFMT :: u32 where "S_IFMT = 0xF000"
definition S_IFDIR :: u32 where "S_IFDIR = 0x4000"
definition S_IFREG :: u32 where "S_IFREG = 0x8000"

definition CheckIfDir :: "('k, 'z) posix_scheme \<Rightarrow> string \<Rightarrow> 'k \<Rightarrow> bool" where
  "CheckIfDir px name k =
     (case px_stat px name k of None \<Rightarrow> False | Some st \<Rightarrow> st_mode st AND S_IFMT = S_IFDIR)"

definition CheckIfFile :: "('k, 'z) posix_scheme \<Rightarrow> string \<Rightarrow> 'k \<Rightarrow> bool" where
  "CheckIfFile px name k =
     (case px_stat px name k of None \<Rightarrow> False | Some st \<Rightarrow> st_mode st AND S_IFMT = S_IFREG)"

definition CheckForWrite :: "('k, 'z) posix_scheme \<Rightarrow> string \<Rightarrow> 'k \<Rightarrow> bool" where
  "CheckForWrite px filepath k =
     (case px_stat px filepath k of None \<Rightarrow> False | Some st \<Rightarrow> st_mode st \<noteq> 0 \<and> px_access px filepath W_OK k)"

definition CheckForRead :: "('k, 'z) posix_scheme \<Rightarrow> string \<Rightarrow> 'k \<Rightarrow> bool" where
  "CheckForRead px filepath k =
     (case px_stat px filepath k of None \<Rightarrow> False | Some st \<Rightarrow> st_mode st \<noteq> 0 \<and> px_access px filepath R_OK k)"

definition CheckForExe :: "('k, 'z) posix_scheme \<Rightarrow> string \<Rightarrow> 'k \<Rightarrow> bool" where
  "CheckForExe px filepath k =
     (case px_stat px filepath k of None \<Rightarrow> False | Some st \<Rightarrow> st_mode st \<noteq> 0 \<and> px_access px filepath X_OK k)"

text \<open>The size is returned as an \<^verbatim>\<open>int\<close>: a file of 4 GB has size 0.\<close>

definition GetFileSize :: "('k, 'z) posix_scheme \<Rightarrow> string \<Rightarrow> 'k \<Rightarrow> 32 word" where
  "GetFileSize px filepath k = (case px_stat px filepath k of None \<Rightarrow> - 1 | Some st \<Rightarrow> ucast (st_size st))"

definition IsFileSectionLocked ::
  "('k, 'z) posix_scheme \<Rightarrow> nat \<Rightarrow> int \<Rightarrow> int \<Rightarrow> int \<Rightarrow> bool \<Rightarrow> 'k \<Rightarrow> (bool \<times> 'k) option" where
  "IsFileSectionLocked px p fno position section_size exclusive k =
     (if fno = - 1 then Some (True, k)
      else let fl = \<lparr> l_type = if exclusive then F_WRLCK else F_RDLCK, l_whence = 0, l_start = position,
                     l_len = section_size, l_pid = 0 \<rparr>
           in do { ((ok, fl), k) \<leftarrow> px_fcntl px p fno F_GETLK fl k;
                   Some (\<not> ok \<or> l_type fl \<noteq> F_UNLCK, k) })"

definition LockFileSection ::
  "('k, 'z) posix_scheme \<Rightarrow> nat \<Rightarrow> int \<Rightarrow> int \<Rightarrow> int \<Rightarrow> bool \<Rightarrow> bool \<Rightarrow> bool \<Rightarrow> 'k \<Rightarrow> (bool \<times> 'k) option" where
  "LockFileSection px p fno position section_size lock exclusive non_blocking k =
     (if fno = - 1 then Some (False, k)
      else let fl = \<lparr> l_type = if exclusive then F_WRLCK else F_RDLCK, l_whence = 0, l_start = position,
                     l_len = if section_size < 0 then 0 else section_size, l_pid = 0 \<rparr>
           in if lock
              then do { ((ok, fl), k) \<leftarrow> px_fcntl px p fno (if non_blocking then F_SETLK else F_SETLKW) fl k;
                        Some (ok, k) }
              else do { ((ok, fl), k) \<leftarrow> px_fcntl px p fno F_SETLKW (fl\<lparr> l_type := F_UNLCK \<rparr>) k;
                        Some (ok, k) })"

text \<open>\<^verbatim>\<open>LocalFile::lock\<close> and \<^verbatim>\<open>unlock\<close> take the first byte of the file and ignore whether they got it.\<close>

definition lf_lock :: "('k, 'z) posix_scheme \<Rightarrow> int \<Rightarrow> nat \<Rightarrow> 'k \<Rightarrow> (bool \<times> 'k) option" where
  "lf_lock px fn p k = (if fn \<noteq> - 1 then LockFileSection px p fn 0 1 True True False k else Some (False, k))"

definition lf_unlock :: "('k, 'z) posix_scheme \<Rightarrow> int \<Rightarrow> nat \<Rightarrow> 'k \<Rightarrow> (bool \<times> 'k) option" where
  "lf_unlock px fn p k = (if fn \<noteq> - 1 then LockFileSection px p fn 0 1 False True False k else Some (False, k))"

subsection \<open>The bytes of the file\<close>

text \<open>
  The variables are written as they are in memory, on a big endian machine (\<open>be\<close>) or a little endian one.
  A \<^verbatim>\<open>Record\<close> is its length and its message, with a byte of padding behind a message of odd length.
\<close>

definition mem16 :: "bool \<Rightarrow> u16 \<Rightarrow> u8 list" where
  "mem16 be w = (if be then [hi8 w, lo8 w] else [lo8 w, hi8 w])"

definition get16 :: "bool \<Rightarrow> u8 list \<Rightarrow> u16" where
  "get16 be bs = (if be then join16 (bs ! 0) (bs ! 1) else join16 (bs ! 1) (bs ! 0))"

fun get16s :: "bool \<Rightarrow> nat \<Rightarrow> u8 list \<Rightarrow> u16 list" where
  "get16s be 0 bs = []"
| "get16s be (Suc n) bs = get16 be (take 2 bs) # get16s be n (drop 2 bs)"

definition mem16s :: "bool \<Rightarrow> u16 list \<Rightarrow> u8 list" where
  "mem16s be ws = concat (map (mem16 be) ws)"

definition record_size :: "build \<Rightarrow> nat" where
  "record_size b = 2 + packet_max_length b + packet_max_length b mod 2"

definition mem_record :: "bool \<Rightarrow> build \<Rightarrow> lf_record \<Rightarrow> u8 list" where
  "mem_record be b r = mem16 be (lf_length r) @ lf_message r @ replicate (packet_max_length b mod 2) 0"

definition get_record :: "bool \<Rightarrow> build \<Rightarrow> u8 list \<Rightarrow> lf_record" where
  "get_record be b bs =
     \<lparr> lf_length = get16 be (take 2 bs), lf_message = take (packet_max_length b) (drop 2 bs) \<rparr>"

definition file_bytes :: "bool \<Rightarrow> build \<Rightarrow> lf_file \<Rightarrow> u8 list" where
  "file_bytes be b f =
     mem16 be (lf_last f) @ mem16s be (lf_index f) @ concat (map (mem_record be b) (lf_records f))"

text \<open>A write behind the end of the file fills the gap with zeros.\<close>

definition overwrite :: "nat \<Rightarrow> u8 list \<Rightarrow> u8 list \<Rightarrow> u8 list" where
  "overwrite off bs file =
     take off (file @ replicate (off - length file) 0) @ bs @ drop (off + length bs) file"

subsection \<open>Programs of system calls\<close>

datatype 'a prog =
  Return 'a
| Lseek nat "'a prog"
| Sys_read nat "u8 list \<Rightarrow> 'a prog"
| Sys_write "u8 list" "'a prog"
| Lock "'a prog"
| Unlock "'a prog"
| Check_file "bool \<Rightarrow> 'a prog"
| Sys_open bool "bool \<Rightarrow> 'a prog"

datatype lf_result = Opened | Sent bool | Received "lf_record option" u16

text \<open>\<^verbatim>\<open>readIndex\<close>, into variables that hold \<open>g\<close> and \<open>gs\<close> before; \<open>k\<close> is what follows.\<close>

definition read_index ::
  "lf_config \<Rightarrow> bool \<Rightarrow> u16 \<Rightarrow> u16 list \<Rightarrow> (u16 \<Rightarrow> u16 list \<Rightarrow> 'a prog) \<Rightarrow> 'a prog" where
  "read_index c be g gs k =
     Lseek 0 (Sys_read 2 (\<lambda>newest. Sys_read (2 * lf_queue_size c) (\<lambda>index.
       k (get16 be (overlay newest (mem16 be g))) (get16s be (lf_queue_size c) (overlay index (mem16s be gs))))))"

definition update_index :: "bool \<Rightarrow> u16 \<Rightarrow> nat \<Rightarrow> 'a prog \<Rightarrow> 'a prog" where
  "update_index be record_id index_pos k =
     Lseek 0 (Sys_write (mem16 be record_id)
       (Lseek (2 + 2 * index_pos) (Sys_write (mem16 be record_id) k)))"

definition record_position :: "lf_config \<Rightarrow> build \<Rightarrow> u8 \<Rightarrow> nat" where
  "record_position c b pos = 2 + 2 * lf_queue_size c + unat pos * record_size b"

definition write_program ::
  "lf_config \<Rightarrow> bool \<Rightarrow> build \<Rightarrow> u16 \<times> u16 list \<Rightarrow> lf_record \<Rightarrow> lf_result prog" where
  "write_program c be b garbage r =
     Lock (read_index c be (fst garbage) (snd garbage) (\<lambda>last_record_id index.
       let pos = find_reusable_position last_record_id index in
       if pos \<noteq> PJON_NOT_ASSIGNED
       then Lseek (record_position c b pos) (Sys_write (mem_record be b r)
              (update_index be (lf_next_id last_record_id) (unat pos) (Unlock (Return (Sent True)))))
       else Unlock (Return (Sent False))))"

text \<open>The field \<^verbatim>\<open>lastRecordIdRead\<close> goes in and comes out with the result; the record starts zeroed.\<close>

definition read_program ::
  "lf_config \<Rightarrow> bool \<Rightarrow> build \<Rightarrow> u16 \<times> u16 list \<Rightarrow> u16 \<Rightarrow> lf_result prog" where
  "read_program c be b garbage last_read =
     Lock (read_index c be (fst garbage) (snd garbage) (\<lambda>last_record_id index.
       if last_record_id \<noteq> 0
       then let (pos, s) = find_next_unread_position c last_record_id index
                             ((new_local_file ())\<lparr> lf_last_read := last_read \<rparr>)
            in if pos \<noteq> PJON_NOT_ASSIGNED
               then Lseek (record_position c b pos) (Sys_read (record_size b) (\<lambda>bs.
                      Unlock (Return (Received
                        (Some (get_record be b (overlay bs (mem_record be b (empty_record b))))) (index ! unat pos)))))
               else Unlock (Return (Received None (lf_last_read s)))
       else Unlock (Return (Received None last_read))))"

fun write_records :: "nat \<Rightarrow> u8 list \<Rightarrow> 'a prog \<Rightarrow> 'a prog" where
  "write_records 0 bs k = k"
| "write_records (Suc n) bs k = Sys_write bs (write_records n bs k)"

definition open_program :: "lf_config \<Rightarrow> bool \<Rightarrow> build \<Rightarrow> bool \<Rightarrow> lf_result prog" where
  "open_program c be b is_open =
     (if is_open then Return Opened
      else Check_file (\<lambda>file_exists.
        if \<not> file_exists
        then Sys_open True (\<lambda>opened.
               if opened
               then Lock (Sys_write (mem16 be 0) (Sys_write (mem16s be (replicate (lf_queue_size c) 0))
                      (write_records (lf_queue_size c) (mem_record be b (empty_record b)) (Unlock (Return Opened)))))
               else Sys_open False (\<lambda>_. Return Opened))
        else Sys_open False (\<lambda>_. Return Opened)))"

subsection \<open>Processes in any order\<close>

datatype lf_call = Call_open | Call_send lf_record | Call_receive

record lf_process =
  pr_prog :: "lf_result prog"
  pr_call :: lf_call
  pr_offset :: nat
  pr_open :: bool
  pr_last_read :: u16

record 'k lf_system =
  sy_file :: "u8 list option"
  sy_kernel :: 'k
  sy_process :: "nat \<Rightarrow> lf_process"
  sy_history :: "(nat \<times> lf_call \<times> lf_result) list"

datatype lf_event = Start nat lf_call "u16 \<times> u16 list" | Step nat

text \<open>
  One event: a process that has returned from its last call starts the next one (with whatever is on its stack),
  or a process makes the next system call of its program.  A call that waits, and an event that is not possible,
  is \<^term>\<open>None\<close>.  A call that unlocks and returns enters the history.
\<close>

definition begin_call ::
  "lf_config \<Rightarrow> bool \<Rightarrow> build \<Rightarrow> lf_call \<Rightarrow> u16 \<times> u16 list \<Rightarrow> lf_process \<Rightarrow> lf_process option" where
  "begin_call c be b call garbage p =
     (case pr_prog p of
        Return _ \<Rightarrow>
          (case call of
             Call_open \<Rightarrow> Some (p\<lparr> pr_call := call, pr_prog := open_program c be b (pr_open p) \<rparr>)
           | Call_send r \<Rightarrow>
               if pr_open p then Some (p\<lparr> pr_call := call, pr_prog := write_program c be b garbage r \<rparr>) else None
           | Call_receive \<Rightarrow>
               if pr_open p
               then Some (p\<lparr> pr_call := call, pr_prog := read_program c be b garbage (pr_last_read p) \<rparr>) else None)
      | _ \<Rightarrow> None)"

fun last_read_after :: "lf_result \<Rightarrow> u16 \<Rightarrow> u16" where
  "last_read_after (Received r last_read) _ = last_read"
| "last_read_after _ last_read = last_read"

definition unlocked ::
  "nat \<Rightarrow> lf_result prog \<Rightarrow> 'k \<Rightarrow> 'k lf_system \<Rightarrow> 'k lf_system" where
  "unlocked p rest kern s =
     (let pr = (sy_process s p)\<lparr> pr_prog := rest \<rparr> in
      case rest of
        Return r \<Rightarrow> s\<lparr> sy_kernel := kern,
                       sy_process := (sy_process s)(p := pr\<lparr> pr_last_read := last_read_after r (pr_last_read pr) \<rparr>),
                       sy_history := sy_history s @ [(p, pr_call pr, r)] \<rparr>
      | _ \<Rightarrow> s\<lparr> sy_kernel := kern, sy_process := (sy_process s)(p := pr) \<rparr>)"

definition system_call ::
  "('k, 'z) posix_scheme \<Rightarrow> int \<Rightarrow> nat \<Rightarrow> 'k lf_system \<Rightarrow> 'k lf_system option" where
  "system_call px fn p s =
     (let pr = sy_process s p; put = (\<lambda>pr s. s\<lparr> sy_process := (sy_process s)(p := pr) \<rparr>) in
      case pr_prog pr of
        Return _ \<Rightarrow> None
      | Lseek n rest \<Rightarrow> Some (put (pr\<lparr> pr_offset := n, pr_prog := rest \<rparr>) s)
      | Sys_read n rest \<Rightarrow>
          map_option (\<lambda>file. let bs = take n (drop (pr_offset pr) file) in
            put (pr\<lparr> pr_offset := pr_offset pr + length bs, pr_prog := rest bs \<rparr>) s) (sy_file s)
      | Sys_write bs rest \<Rightarrow>
          map_option (\<lambda>file. put (pr\<lparr> pr_offset := pr_offset pr + length bs, pr_prog := rest \<rparr>)
            (s\<lparr> sy_file := Some (overwrite (pr_offset pr) bs file) \<rparr>)) (sy_file s)
      | Lock rest \<Rightarrow>
          map_option (\<lambda>(ok, kern). put (pr\<lparr> pr_prog := rest \<rparr>) (s\<lparr> sy_kernel := kern \<rparr>))
            (lf_lock px fn p (sy_kernel s))
      | Unlock rest \<Rightarrow> map_option (\<lambda>(ok, kern). unlocked p rest kern s) (lf_unlock px fn p (sy_kernel s))
      | Check_file rest \<Rightarrow> Some (put (pr\<lparr> pr_prog := rest (sy_file s \<noteq> None) \<rparr>) s)
      | Sys_open create rest \<Rightarrow>
          let ok = px_may_open px p create (sy_kernel s) \<and> (create \<or> sy_file s \<noteq> None) in
          Some (put (pr\<lparr> pr_open := ok, pr_offset := 0, pr_prog := rest ok \<rparr>)
            (if ok \<and> sy_file s = None then s\<lparr> sy_file := Some [] \<rparr> else s)))"

fun lf_do_event ::
  "lf_config \<Rightarrow> bool \<Rightarrow> build \<Rightarrow> ('k, 'z) posix_scheme \<Rightarrow> int \<Rightarrow> lf_event \<Rightarrow> 'k lf_system \<Rightarrow> 'k lf_system option" where
  "lf_do_event c be b px fn (Start p call garbage) s =
     map_option (\<lambda>pr. s\<lparr> sy_process := (sy_process s)(p := pr) \<rparr>) (begin_call c be b call garbage (sy_process s p))"
| "lf_do_event c be b px fn (Step p) s = system_call px fn p s"

fun lf_do_events ::
  "lf_config \<Rightarrow> bool \<Rightarrow> build \<Rightarrow> ('k, 'z) posix_scheme \<Rightarrow> int \<Rightarrow> lf_event list \<Rightarrow> 'k lf_system \<Rightarrow> 'k lf_system option" where
  "lf_do_events c be b px fn [] s = Some s"
| "lf_do_events c be b px fn (e # es) s = Option.bind (lf_do_event c be b px fn e s) (lf_do_events c be b px fn es)"

end
