(* ===== verification/File_Lock_Laws.thy ===== *)
theory File_Lock_Laws
  imports File_Lock Local_File_Laws
begin

text \<open>
  What the locking of \<open>LocalFile\<close> achieves: the seek positions are those of the parts of the file, a section from
  lock to unlock has the effect of the operation of \<open>Local_File\<close>, and any interleaving of any number of processes
  is one of these operations after the other, in the order of their unlocks.  And what it does not: two processes
  that create the file at the same time, and a lock that fails.
\<close>

subsection \<open>Blocks of equal size\<close>

lemma concat_block_take:
  "\<forall>x\<in>set xs. length x = n \<Longrightarrow> i < length xs \<Longrightarrow> take n (drop (i * n) (concat xs @ ys)) = xs ! i"
proof (induction xs arbitrary: i)
  case (Cons x xs)
  then show ?case by (cases i) (simp_all add: add.commute [of n] flip: drop_drop)
qed simp

lemma concat_block_put:
  "\<forall>x\<in>set xs. length x = n \<Longrightarrow> i < length xs \<Longrightarrow>
   take (i * n) (concat xs @ ys) @ y @ drop (i * n + n) (concat xs @ ys) = concat (xs[i := y]) @ ys"
proof (induction xs arbitrary: i)
  case (Cons x xs)
  then show ?case by (cases i) (simp_all add: add.assoc)
qed simp

lemma length_concat_blocks: "\<forall>x\<in>set xs. length x = n \<Longrightarrow> length (concat xs) = length xs * n"
  by (induction xs) simp_all

lemma overwrite_inside:
  "off + length bs \<le> length file \<Longrightarrow> overwrite off bs file = take off file @ bs @ drop (off + length bs) file"
  by (simp add: overwrite_def)

subsection \<open>The places of the file\<close>

lemma length_mem16 [simp]: "length (mem16 be w) = 2"
  by (simp add: mem16_def)

lemma get16_mem16 [simp]: "get16 be (mem16 be w) = w"
  by (simp add: get16_def mem16_def)

lemma length_mem16s [simp]: "length (mem16s be ws) = 2 * length ws"
  by (induction ws) (simp_all add: mem16s_def)

lemma get16s_mem16s: "get16s be (length ws) (mem16s be ws @ ys) = ws"
  by (induction ws) (simp_all add: mem16s_def)

definition wf_file :: "lf_config \<Rightarrow> build \<Rightarrow> lf_file \<Rightarrow> bool" where
  "wf_file c b f \<longleftrightarrow> length (lf_index f) = lf_queue_size c \<and> length (lf_records f) = lf_queue_size c \<and>
     (\<forall>r\<in>set (lf_records f). length (lf_message r) = packet_max_length b)"

lemma length_mem_record: "length (lf_message r) = packet_max_length b \<Longrightarrow> length (mem_record be b r) = record_size b"
  by (simp add: mem_record_def record_size_def)

lemma get_record_mem_record: "length (lf_message r) = packet_max_length b \<Longrightarrow> get_record be b (mem_record be b r) = r"
  by (simp add: get_record_def mem_record_def)

lemma mem_records_blocks:
  "wf_file c b f \<Longrightarrow> \<forall>x\<in>set (map (mem_record be b) (lf_records f)). length x = record_size b"
  by (auto simp: wf_file_def length_mem_record)

lemma file_bytes_last: "take 2 (file_bytes be b f) = mem16 be (lf_last f)"
  by (simp add: file_bytes_def)

lemma file_bytes_index:
  "wf_file c b f \<Longrightarrow> take (2 * lf_queue_size c) (drop 2 (file_bytes be b f)) = mem16s be (lf_index f)"
  by (simp add: file_bytes_def wf_file_def)

lemma file_bytes_split:
  assumes "wf_file c b f"
  shows "take (2 + 2 * lf_queue_size c + n) (file_bytes be b f)
       = mem16 be (lf_last f) @ mem16s be (lf_index f) @ take n (concat (map (mem_record be b) (lf_records f)))"
    and "drop (2 + 2 * lf_queue_size c + n) (file_bytes be b f) = drop n (concat (map (mem_record be b) (lf_records f)))"
  using assms by (simp_all add: file_bytes_def wf_file_def)

lemma length_file_bytes:
  assumes "wf_file c b f"
  shows "length (file_bytes be b f) = 2 + 2 * lf_queue_size c + lf_queue_size c * record_size b"
  using length_concat_blocks [OF mem_records_blocks [OF assms]] assms by (simp add: file_bytes_def wf_file_def)

lemma file_bytes_record:
  assumes "wf_file c b f" and "unat pos < lf_queue_size c"
  shows "take (record_size b) (drop (record_position c b pos) (file_bytes be b f)) = mem_record be b (lf_records f ! unat pos)"
  unfolding record_position_def file_bytes_split(2) [OF assms(1)]
  using concat_block_take [OF mem_records_blocks [OF assms(1)], of "unat pos" _ "[]"] assms by (simp add: wf_file_def)

lemma write_last:
  "overwrite 0 (mem16 be w) (file_bytes be b f) = file_bytes be b (f\<lparr> lf_last := w \<rparr>)"
  by (subst overwrite_inside) (simp_all add: file_bytes_def)

lemma write_index_entry:
  assumes "wf_file c b f" and "i < lf_queue_size c"
  shows "overwrite (2 + 2 * i) (mem16 be w) (file_bytes be b f) = file_bytes be b (f\<lparr> lf_index := (lf_index f)[i := w] \<rparr>)"
proof -
  have "i < length (map (mem16 be) (lf_index f))" using assms by (simp add: wf_file_def)
  from concat_block_put [OF _ this, where n = 2 and ys = "concat (map (mem_record be b) (lf_records f))" and y = "mem16 be w"]
  show ?thesis using length_file_bytes [OF assms(1), of be] assms(2)
    by (subst overwrite_inside) (simp_all add: file_bytes_def mem16s_def map_update mult.commute [of i])
qed

lemma write_record_bytes:
  assumes "wf_file c b f" and "unat pos < lf_queue_size c" and "length (lf_message r) = packet_max_length b"
  shows "overwrite (record_position c b pos) (mem_record be b r) (file_bytes be b f)
       = file_bytes be b (f\<lparr> lf_records := (lf_records f)[unat pos := r] \<rparr>)"
proof -
  let ?n = "unat pos * record_size b"
  have "unat pos * record_size b + record_size b \<le> lf_queue_size c * record_size b"
    using assms(2) mult_le_mono1 [of "Suc (unat pos)" "lf_queue_size c" "record_size b"] by simp
  then have "record_position c b pos + length (mem_record be b r) \<le> length (file_bytes be b f)"
    using length_file_bytes [OF assms(1), of be] assms by (simp add: record_position_def length_mem_record)
  moreover have "unat pos < length (map (mem_record be b) (lf_records f))" using assms by (simp add: wf_file_def)
  note concat_block_put [OF mem_records_blocks [OF assms(1)] this, where ys = "[]" and y = "mem_record be b r"]
  ultimately show ?thesis
    using file_bytes_split [OF assms(1)] assms(3)
    by (simp add: overwrite_inside record_position_def length_mem_record add.assoc map_update file_bytes_def)
qed


subsection \<open>A section runs as one operation\<close>

text \<open>The rest of a locked section run to its unlock: its result and the bytes it leaves.\<close>

primrec finish :: "'a prog \<Rightarrow> nat \<Rightarrow> u8 list \<Rightarrow> ('a \<times> u8 list) option" where
  "finish (Return r) off file = None"
| "finish (Lseek n rest) off file = finish rest n file"
| "finish (Sys_read n rest) off file =
     (let bs = take n (drop off file) in finish (rest bs) (off + length bs) file)"
| "finish (Sys_write bs rest) off file = finish rest (off + length bs) (overwrite off bs file)"
| "finish (Lock rest) off file = None"
| "finish (Unlock rest) off file = (case rest of Return r \<Rightarrow> Some (r, file) | _ \<Rightarrow> None)"
| "finish (Check_file rest) off file = None"
| "finish (Sys_open create rest) off file = None"

lemma finish_read_index:
  assumes "wf_file c b f"
  shows "finish (read_index c be g gs k) off (file_bytes be b f)
       = finish (k (lf_last f) (lf_index f)) (2 + 2 * lf_queue_size c) (file_bytes be b f)"
proof -
  have "length (file_bytes be b f) \<ge> 2 + 2 * lf_queue_size c" using length_file_bytes [OF assms] by simp
  moreover have "length (lf_index f) = lf_queue_size c" using assms by (simp add: wf_file_def)
  moreover have "get16s be (lf_queue_size c) (overlay (mem16s be (lf_index f)) old) = lf_index f" for old
    using get16s_mem16s [of be "lf_index f"] \<open>length (lf_index f) = _\<close> by (simp add: overlay_def)
  ultimately show ?thesis
    by (simp add: read_index_def file_bytes_last file_bytes_index [OF assms] overlay_whole)
qed

text \<open>The positions found are slots of the file.\<close>

lemma lf_reusable_loop_slot:
  assumes "unat i + length xs \<le> 255"
  shows "lf_reusable_loop newest xs i d pos = PJON_NOT_ASSIGNED \<or> lf_reusable_loop newest xs i d pos = pos \<or>
     unat (lf_reusable_loop newest xs i d pos) < unat i + length xs"
  using assms
proof (induction xs arbitrary: i d pos)
  case (Cons x xs)
  have i: "unat (i + 1) = unat i + 1" using Cons.prems by (simp add: unat_word_ariths)
  show ?case
    using Cons.IH [of "i + 1" "newest - x" i] Cons.IH [of "i + 1" d pos] Cons.prems i by (auto simp: Let_def)
qed simp

lemma reusable_position_slot:
  assumes "wf_file c b f" and "lf_queue_size c \<le> 255"
    and "find_reusable_position newest (lf_index f) \<noteq> PJON_NOT_ASSIGNED"
  shows "unat (find_reusable_position newest (lf_index f)) < lf_queue_size c"
  using lf_reusable_loop_slot [of 0 "lf_index f" newest 0 PJON_NOT_ASSIGNED] assms
  by (auto simp: find_reusable_position_def wf_file_def)

lemma lf_unread_loop_slot:
  assumes "unat i + length xs \<le> 255"
  shows "lf_unread_loop newest xs i d pos = PJON_NOT_ASSIGNED \<or> lf_unread_loop newest xs i d pos = pos \<or>
     unat (lf_unread_loop newest xs i d pos) < unat i + length xs"
  using assms
proof (induction xs arbitrary: i d pos)
  case (Cons x xs)
  have i: "unat (i + 1) = unat i + 1" using Cons.prems by (simp add: unat_word_ariths)
  show ?case
    using Cons.IH [of "i + 1" "x - newest" i] Cons.IH [of "i + 1" d pos] Cons.prems i by (auto simp: Let_def)
qed simp

lemma unread_position_slot:
  assumes "wf_file c b f" and "lf_queue_size c \<le> 255"
    and "find_next_unread_position c newest (lf_index f) s = (pos, s')" and "pos \<noteq> PJON_NOT_ASSIGNED"
  shows "unat pos < lf_queue_size c"
  using lf_unread_loop_slot [of 0 "lf_index f"] assms
  by (auto simp: find_next_unread_position_def wf_file_def Let_def split: if_splits)

text \<open>The two kinds of sections, against the operations on the file.\<close>

lemma write_section:
  assumes "wf_file c b f" and "lf_queue_size c \<le> 255" and "length (lf_message r) = packet_max_length b"
    and "write_program c be b garbage r = Lock rest" and "lf_write_packet r f = (ok, f')"
  shows "finish rest off (file_bytes be b f) = Some (Sent ok, file_bytes be b f')"
    and "wf_file c b f'"
proof -
  let ?pos = "find_reusable_position (lf_last f) (lf_index f)"
  let ?f = "f\<lparr> lf_records := (lf_records f)[unat ?pos := r] \<rparr>"
  have rest: "rest = read_index c be (fst garbage) (snd garbage) (\<lambda>last_record_id index.
       let pos = find_reusable_position last_record_id index in
       if pos \<noteq> PJON_NOT_ASSIGNED
       then Lseek (record_position c b pos) (Sys_write (mem_record be b r)
              (update_index be (lf_next_id last_record_id) (unat pos) (Unlock (Return (Sent True)))))
       else Unlock (Return (Sent False)))"
    using assms(4) by (simp add: write_program_def)
  show wf: "wf_file c b f'"
    using assms(1,3,5) set_update_subset_insert [of "lf_records f" "unat ?pos" r]
    by (auto simp: wf_file_def lf_write_packet_def lf_update_index_def Let_def split: if_splits)
  show "finish rest off (file_bytes be b f) = Some (Sent ok, file_bytes be b f')"
  proof (cases "?pos = PJON_NOT_ASSIGNED")
    case True
    then show ?thesis
      using assms(1,5) by (auto simp: rest finish_read_index lf_write_packet_def)
  next
    case False
    have pos: "unat ?pos < lf_queue_size c" using reusable_position_slot [OF assms(1,2) False] .
    have "wf_file c b (?f\<lparr> lf_last := w \<rparr>)" for w
      using assms(1,3) set_update_subset_insert [of "lf_records f" "unat ?pos" r] by (auto simp: wf_file_def)
    from write_index_entry [OF this pos]
    show ?thesis
      using assms(5) False
      by (auto simp: rest finish_read_index [OF assms(1)] lf_write_packet_def update_index_def lf_update_index_def Let_def
          write_record_bytes [OF assms(1) pos assms(3)] write_last)
  qed
qed

lemma read_section:
  assumes "wf_file c b f" and "lf_queue_size c \<le> 255"
    and "read_program c be b garbage last_read = Lock rest"
    and "lf_read_packet c f ((new_local_file ())\<lparr> lf_last_read := last_read \<rparr>) = (r, s)"
  shows "finish rest off (file_bytes be b f) = Some (Received r (lf_last_read s), file_bytes be b f)"
proof -
  have rest: "rest = read_index c be (fst garbage) (snd garbage) (\<lambda>last_record_id index.
       if last_record_id \<noteq> 0
       then let (pos, s) = find_next_unread_position c last_record_id index
                             ((new_local_file ())\<lparr> lf_last_read := last_read \<rparr>)
            in if pos \<noteq> PJON_NOT_ASSIGNED
               then Lseek (record_position c b pos) (Sys_read (record_size b) (\<lambda>bs.
                      Unlock (Return (Received
                        (Some (get_record be b (overlay bs (mem_record be b (empty_record b))))) (index ! unat pos)))))
               else Unlock (Return (Received None (lf_last_read s)))
       else Unlock (Return (Received None last_read)))"
    using assms(3) by (simp add: read_program_def)
  obtain pos t where found: "find_next_unread_position c (lf_last f) (lf_index f)
      ((new_local_file ())\<lparr> lf_last_read := last_read \<rparr>) = (pos, t)" by fastforce
  show ?thesis
  proof (cases "lf_last f \<noteq> 0 \<and> pos \<noteq> PJON_NOT_ASSIGNED")
    case True
    then have pos: "unat pos < lf_queue_size c" using unread_position_slot [OF assms(1,2) found] by simp
    then have m: "length (lf_message (lf_records f ! unat pos)) = packet_max_length b"
      using assms(1) by (simp add: wf_file_def)
    have "overlay (mem_record be b (lf_records f ! unat pos)) (mem_record be b (empty_record b)) = mem_record be b (lf_records f ! unat pos)"
      using m by (intro overlay_whole) (simp add: length_mem_record empty_record_def)
    then show ?thesis
      using assms(4) True found m
      by (auto simp: rest finish_read_index [OF assms(1)] lf_read_packet_def file_bytes_record [OF assms(1) pos]
          get_record_mem_record Let_def)
  next
    case False
    then show ?thesis
      using assms(4) found by (auto simp: rest finish_read_index [OF assms(1)] lf_read_packet_def)
  qed
qed


subsection \<open>Any interleaving is a sequence of operations\<close>

text \<open>
  What POSIX documents of an exclusive lock on the first byte: a call that returns has got it, which needs that
  no other process holds it, and it is held until its owner unlocks.
\<close>

definition byte_lock :: "'k posix \<Rightarrow> int \<Rightarrow> ('k \<Rightarrow> nat option) \<Rightarrow> bool" where
  "byte_lock px fn holder \<longleftrightarrow> fn \<noteq> - 1 \<and>
     (\<forall>p k ok fl k'. px_fcntl px p fn F_SETLKW \<lparr> l_type = F_WRLCK, l_whence = 0, l_start = 0, l_len = 1, l_pid = 0 \<rparr> k
          = Some ((ok, fl), k') \<longrightarrow> ok \<and> (holder k = None \<or> holder k = Some p) \<and> holder k' = Some p) \<and>
     (\<forall>p k ok fl k'. px_fcntl px p fn F_SETLKW \<lparr> l_type = F_UNLCK, l_whence = 0, l_start = 0, l_len = 1, l_pid = 0 \<rparr> k
          = Some ((ok, fl), k') \<longrightarrow> holder k' = (if holder k = Some p then None else holder k))"

lemma byte_lock_lock:
  assumes "byte_lock px fn holder" and "lf_lock px fn p k = Some (ok, k')"
  shows "(holder k = None \<or> holder k = Some p) \<and> holder k' = Some p"
proof -
  have "fn \<noteq> - 1" using assms(1) by (simp add: byte_lock_def)
  then obtain fl where
    "px_fcntl px p fn F_SETLKW \<lparr> l_type = F_WRLCK, l_whence = 0, l_start = 0, l_len = 1, l_pid = 0 \<rparr> k = Some ((ok, fl), k')"
    using assms(2) by (auto simp: lf_lock_def LockFileSection_def elim!: bind_SomeE)
  then show ?thesis using assms(1) unfolding byte_lock_def by blast
qed

lemma byte_lock_unlock:
  assumes "byte_lock px fn holder" and "lf_unlock px fn p k = Some (ok, k')"
  shows "holder k' = (if holder k = Some p then None else holder k)"
proof -
  have "fn \<noteq> - 1" using assms(1) by (simp add: byte_lock_def)
  then obtain fl where
    "px_fcntl px p fn F_SETLKW \<lparr> l_type = F_UNLCK, l_whence = 0, l_start = 0, l_len = 1, l_pid = 0 \<rparr> k = Some ((ok, fl), k')"
    using assms(2) by (auto simp: lf_unlock_def LockFileSection_def elim!: bind_SomeE)
  then show ?thesis using assms(1) unfolding byte_lock_def by blast
qed

text \<open>The operations of \<open>Local_File\<close>, one after the other, each with the result the history records.\<close>

fun atomic_call :: "lf_config \<Rightarrow> lf_call \<Rightarrow> lf_file \<Rightarrow> u16 \<Rightarrow> lf_result \<times> lf_file" where
  "atomic_call c (Call_send r) f last_read = (case lf_write_packet r f of (ok, f) \<Rightarrow> (Sent ok, f))"
| "atomic_call c Call_receive f last_read =
     (case lf_read_packet c f ((new_local_file ())\<lparr> lf_last_read := last_read \<rparr>) of
        (r, s) \<Rightarrow> (Received r (lf_last_read s), f))"
| "atomic_call c Call_open f last_read = (Opened, f)"

fun replay ::
  "lf_config \<Rightarrow> (nat \<times> lf_call \<times> lf_result) list \<Rightarrow> lf_file \<times> (nat \<Rightarrow> u16) \<Rightarrow> (lf_file \<times> (nat \<Rightarrow> u16)) option" where
  "replay c [] (f, lasts) = Some (f, lasts)"
| "replay c ((p, call, r) # h) (f, lasts) =
     (case atomic_call c call f (lasts p) of
        (r', f') \<Rightarrow> if r' = r then replay c h (f', lasts(p := last_read_after r (lasts p))) else None)"

lemma replay_append:
  "replay c (h @ [(p, call, r)]) (f, lasts)
     = (case replay c h (f, lasts) of None \<Rightarrow> None
        | Some (f', lasts') \<Rightarrow> replay c [(p, call, r)] (f', lasts'))"
  by (induction c h "(f, lasts)" arbitrary: f lasts rule: replay.induct) (auto split: prod.splits)

text \<open>The state of a process between two sections, and what the system looks like at any time.\<close>

definition outside :: "lf_config \<Rightarrow> bool \<Rightarrow> build \<Rightarrow> lf_process \<Rightarrow> bool" where
  "outside c be b pr \<longleftrightarrow> (\<exists>r. pr_prog pr = Return r) \<or>
     (\<exists>garbage r. pr_call pr = Call_send r \<and> length (lf_message r) = packet_max_length b \<and>
        pr_prog pr = write_program c be b garbage r) \<or>
     (\<exists>garbage. pr_call pr = Call_receive \<and> pr_prog pr = read_program c be b garbage (pr_last_read pr))"

definition settled ::
  "lf_config \<Rightarrow> bool \<Rightarrow> build \<Rightarrow> ('k \<Rightarrow> nat option) \<Rightarrow> lf_file \<Rightarrow> (nat \<Rightarrow> u16) \<Rightarrow> 'k lf_system \<Rightarrow> bool" where
  "settled c be b holder f lasts s \<longleftrightarrow> wf_file c b f \<and>
     (\<forall>p. pr_open (sy_process s p) \<and> pr_last_read (sy_process s p) = lasts p) \<and>
     (\<forall>p. holder (sy_kernel s) \<noteq> Some p \<longrightarrow> outside c be b (sy_process s p)) \<and>
     (case holder (sy_kernel s) of
        None \<Rightarrow> sy_file s = Some (file_bytes be b f)
      | Some p \<Rightarrow> \<exists>file r f'. sy_file s = Some file \<and> wf_file c b f' \<and>
          atomic_call c (pr_call (sy_process s p)) f (lasts p) = (r, f') \<and>
          finish (pr_prog (sy_process s p)) (pr_offset (sy_process s p)) file = Some (r, file_bytes be b f'))"

lemma finish_section:
  "finish pg off file = Some (r, file') \<Longrightarrow>
     (\<exists>n rest. pg = Lseek n rest) \<or> (\<exists>n rest. pg = Sys_read n rest) \<or> (\<exists>bs rest. pg = Sys_write bs rest) \<or>
     (pg = Unlock (Return r) \<and> file' = file)"
  by (cases pg) (auto split: prog.splits)

lemma lock_enters:
  assumes s: "settled c be b holder f lasts s" and free: "holder (sy_kernel s) = None"
    and q: "lf_queue_size c \<le> 255" and lock: "holder kern = Some p" and prog: "pr_prog (sy_process s p) = Lock rest"
  shows "settled c be b holder f lasts
     (s\<lparr> sy_kernel := kern, sy_process := (sy_process s)(p := (sy_process s p)\<lparr> pr_prog := rest \<rparr>) \<rparr>)"
proof -
  let ?pr = "sy_process s p"
  have wf: "wf_file c b f" and out: "outside c be b ?pr" and bytes: "sy_file s = Some (file_bytes be b f)"
    and lr: "pr_last_read ?pr = lasts p"
    using s free by (auto simp: settled_def)
  obtain r f' where a: "atomic_call c (pr_call ?pr) f (lasts p) = (r, f')" by fastforce
  have "wf_file c b f' \<and> finish rest (pr_offset ?pr) (file_bytes be b f) = Some (r, file_bytes be b f')"
    using out prog a lr write_section [OF wf q _ sym] read_section [OF wf q sym] wf
    by (auto simp: outside_def split: prod.splits)
  then show ?thesis
    using s free lock bytes a by (auto simp: settled_def)
qed


lemma outside_returned: "pr_prog pr = Return r \<Longrightarrow> outside c be b pr"
  by (simp add: outside_def)

lemma settled_progress:
  assumes "settled c be b holder f lasts s" and "holder (sy_kernel s) = Some p" and "sy_file s = Some bytes"
    and "sy_kernel s' = sy_kernel s" and "sy_file s' = Some bytes'" and "sy_process s' = (sy_process s)(p := pr)"
    and "pr_open pr = pr_open (sy_process s p)" and "pr_last_read pr = pr_last_read (sy_process s p)"
    and "pr_call pr = pr_call (sy_process s p)"
    and "finish (pr_prog pr) (pr_offset pr) bytes' = finish (pr_prog (sy_process s p)) (pr_offset (sy_process s p)) bytes"
  shows "settled c be b holder f lasts s'"
  using assms unfolding settled_def by auto

lemma holder_steps:
  assumes s: "settled c be b holder f lasts s" and h: "holder (sy_kernel s) = Some p"
    and step: "system_call px fn p s = Some s'" and l: "byte_lock px fn holder"
  shows "settled c be b holder f lasts s' \<and> sy_history s' = sy_history s \<or>
     (\<exists>r f'. sy_history s' = sy_history s @ [(p, pr_call (sy_process s p), r)] \<and>
        atomic_call c (pr_call (sy_process s p)) f (lasts p) = (r, f') \<and>
        settled c be b holder f' (lasts(p := last_read_after r (lasts p))) s')"
proof -
  obtain bytes r f' where i: "sy_file s = Some bytes" "wf_file c b f'"
    "atomic_call c (pr_call (sy_process s p)) f (lasts p) = (r, f')"
    "finish (pr_prog (sy_process s p)) (pr_offset (sy_process s p)) bytes = Some (r, file_bytes be b f')"
    using s h by (auto simp: settled_def)
  from finish_section [OF i(4)]
  consider (silent) "\<forall>rest. pr_prog (sy_process s p) \<noteq> Unlock rest"
    | (unlock) "pr_prog (sy_process s p) = Unlock (Return r)" "bytes = file_bytes be b f'"
    by auto
  then show ?thesis
  proof cases
    case silent
    then obtain pr bytes' where pr: "s' = s\<lparr> sy_file := Some bytes', sy_process := (sy_process s)(p := pr) \<rparr>"
      "pr_open pr = pr_open (sy_process s p)" "pr_last_read pr = pr_last_read (sy_process s p)"
      "pr_call pr = pr_call (sy_process s p)"
      "finish (pr_prog pr) (pr_offset pr) bytes' = finish (pr_prog (sy_process s p)) (pr_offset (sy_process s p)) bytes"
      using finish_section [OF i(4)] i(1) step by (cases s) (auto simp: system_call_def Let_def)
    then show ?thesis using settled_progress [OF s h i(1), of s' bytes' pr] by simp
  next
    case unlock
    then obtain ok kern where k: "lf_unlock px fn p (sy_kernel s) = Some (ok, kern)" "s' = unlocked p (Return r) kern s"
      using step by (auto simp: system_call_def Let_def)
    have "holder kern = None" using byte_lock_unlock [OF l k(1)] h by simp
    then have "settled c be b holder f' (lasts(p := last_read_after r (lasts p))) s'"
      using s h i(1,2) unlock k(2) by (auto simp: settled_def unlocked_def outside_returned)
    then show ?thesis using i(3) k(2) by (auto simp: unlocked_def)
  qed
qed

lemma outside_write:
  "length (lf_message r) = packet_max_length b \<Longrightarrow> pr_call pr = Call_send r \<Longrightarrow>
   pr_prog pr = write_program c be b g r \<Longrightarrow> outside c be b pr"
  unfolding outside_def by blast

lemma outside_read:
  "pr_call pr = Call_receive \<Longrightarrow> pr_prog pr = read_program c be b g (pr_last_read pr) \<Longrightarrow> outside c be b pr"
  unfolding outside_def by blast

lemma begin_call_outside:
  assumes "begin_call c be b call g pr = Some pr'" and "pr_open pr"
    and "\<And>r. call = Call_send r \<Longrightarrow> length (lf_message r) = packet_max_length b"
  shows "outside c be b pr' \<and> pr_open pr' \<and> pr_last_read pr' = pr_last_read pr"
proof (cases call)
  case (Call_send r)
  then show ?thesis
    using assms outside_write [of r b pr' c be g] by (simp add: begin_call_def split: prog.splits) (auto dest!: sym [of _ pr'])
qed (use assms outside_read [of pr' c be b g] outside_returned [of pr' Opened] in
     \<open>simp_all add: begin_call_def open_program_def split: prog.splits\<close>, auto dest!: sym [of _ pr'])

lemma event_settled:
  assumes s: "settled c be b holder f lasts s" and l: "byte_lock px fn holder" and q: "lf_queue_size c \<le> 255"
    and step: "lf_do_event c be b px fn e s = Some s'"
    and e: "\<And>p r g. e = Start p (Call_send r) g \<Longrightarrow> length (lf_message r) = packet_max_length b"
  shows "settled c be b holder f lasts s' \<and> sy_history s' = sy_history s \<or>
     (\<exists>p call r f'. sy_history s' = sy_history s @ [(p, call, r)] \<and> atomic_call c call f (lasts p) = (r, f') \<and>
        settled c be b holder f' (lasts(p := last_read_after r (lasts p))) s')"
proof (cases e)
  case (Start p call g)
  then obtain pr where pr: "begin_call c be b call g (sy_process s p) = Some pr"
    "s' = s\<lparr> sy_process := (sy_process s)(p := pr) \<rparr>" using step by auto
  have "holder (sy_kernel s) \<noteq> Some p"
  proof
    assume "holder (sy_kernel s) = Some p"
    then obtain off bs res where "finish (pr_prog (sy_process s p)) off bs = Some res"
      using s by (auto simp: settled_def)
    then show False using pr(1) by (cases "pr_prog (sy_process s p)") (auto simp: begin_call_def)
  qed
  moreover have "outside c be b pr \<and> pr_open pr \<and> pr_last_read pr = lasts p"
    using begin_call_outside [OF pr(1)] s e Start by (auto simp: settled_def)
  ultimately have "settled c be b holder f lasts s'"
    using s pr(2) by (auto simp: settled_def split: option.splits)
  then show ?thesis using pr(2) by simp
next
  case (Step p)
  show ?thesis
  proof (cases "holder (sy_kernel s) = Some p")
    case True
    then show ?thesis using holder_steps [OF s True _ l] step Step by auto
  next
    case False
    then have "outside c be b (sy_process s p)" using s by (simp add: settled_def)
    then obtain rest where prog: "pr_prog (sy_process s p) = Lock rest"
      using step Step by (auto simp: outside_def write_program_def read_program_def system_call_def Let_def)
    then obtain ok kern where k: "lf_lock px fn p (sy_kernel s) = Some (ok, kern)"
      "s' = s\<lparr> sy_kernel := kern, sy_process := (sy_process s)(p := (sy_process s p)\<lparr> pr_prog := rest \<rparr>) \<rparr>"
      using step Step by (auto simp: system_call_def Let_def)
    have "holder (sy_kernel s) = None" "holder kern = Some p" using byte_lock_lock [OF l k(1)] False by auto
    from lock_enters [OF s this(1) q this(2) prog] show ?thesis using k(2) by simp
  qed
qed

lemma events_settled:
  assumes "byte_lock px fn holder" and "lf_queue_size c \<le> 255"
  shows "settled c be b holder f lasts s \<Longrightarrow> replay c (sy_history s) start = Some (f, lasts) \<Longrightarrow>
    lf_do_events c be b px fn es s = Some s' \<Longrightarrow>
    (\<And>p r g. Start p (Call_send r) g \<in> set es \<Longrightarrow> length (lf_message r) = packet_max_length b) \<Longrightarrow>
    \<exists>f lasts. settled c be b holder f lasts s' \<and> replay c (sy_history s') start = Some (f, lasts)"
proof (induction es arbitrary: s f lasts)
  case (Cons e es)
  then obtain t where t: "lf_do_event c be b px fn e s = Some t" "lf_do_events c be b px fn es t = Some s'"
    by (auto elim!: bind_SomeE)
  have sends: "Start p (Call_send r) g \<in> set es \<Longrightarrow> length (lf_message r) = packet_max_length b" for p r g
    using Cons.prems(4) [of p r g] by simp
  from event_settled [OF Cons.prems(1) assms t(1)] Cons.prems(4)
  consider "settled c be b holder f lasts t \<and> sy_history t = sy_history s"
    | p call r f' where "sy_history t = sy_history s @ [(p, call, r)]" "atomic_call c call f (lasts p) = (r, f')"
      "settled c be b holder f' (lasts(p := last_read_after r (lasts p))) t"
    by auto
  then show ?case
  proof cases
    case 1
    then show ?thesis using Cons.prems(2) by (intro Cons.IH [OF _ _ t(2) sends]) auto
  next
    case 2
    then have "replay c (sy_history t) start = Some (f', lasts(p := last_read_after r (lasts p)))"
      using Cons.prems(2) by (cases start) (simp add: replay_append)
    then show ?thesis by (rule Cons.IH [OF 2(3) _ t(2) sends])
  qed
qed auto


subsection \<open>Properties\<close>

text \<open>The start: a file, and processes that have it open and are between two calls.\<close>

definition resting :: "bool \<Rightarrow> build \<Rightarrow> ('k \<Rightarrow> nat option) \<Rightarrow> lf_file \<Rightarrow> 'k lf_system \<Rightarrow> bool" where
  "resting be b holder f s \<longleftrightarrow> sy_file s = Some (file_bytes be b f) \<and> holder (sy_kernel s) = None \<and> sy_history s = [] \<and>
     (\<forall>p. pr_open (sy_process s p) \<and> pr_prog (sy_process s p) = Return Opened)"

lemma resting_settled:
  "resting be b holder f s \<Longrightarrow> wf_file c b f \<Longrightarrow>
   settled c be b holder f (\<lambda>p. pr_last_read (sy_process s p)) s"
  by (simp add: resting_def settled_def outside_returned)

text \<open>C27. Atomicity of the shared file: however the system calls of any number of processes interleave, if a granted
  lock excludes the others until its unlock, the sends and receptions have the results of the operations on the file
  as a whole done one after the other in the order of their unlocks, and when nobody holds the lock the bytes of the
  file are those this sequence leaves.\<close>

theorem lf_linearizable:
  assumes "byte_lock px fn holder" and "lf_queue_size c \<le> 255" and "wf_file c b f" and "resting be b holder f s"
    and "\<forall>p r g. Start p (Call_send r) g \<in> set es \<longrightarrow> length (lf_message r) = packet_max_length b"
    and "lf_do_events c be b px fn es s = Some s'"
  shows "\<exists>f' lasts. replay c (sy_history s') (f, \<lambda>p. pr_last_read (sy_process s p)) = Some (f', lasts) \<and>
     (\<forall>p. pr_last_read (sy_process s' p) = lasts p) \<and>
     (holder (sy_kernel s') = None \<longrightarrow> sy_file s' = Some (file_bytes be b f'))"
proof -
  have "replay c (sy_history s) (f, \<lambda>p. pr_last_read (sy_process s p)) = Some (f, \<lambda>p. pr_last_read (sy_process s p))"
    using assms(4) by (simp add: resting_def)
  from events_settled [OF assms(1,2) resting_settled [OF assms(4,3)] this assms(6)] assms(5)
  obtain f' lasts where "settled c be b holder f' lasts s'"
    "replay c (sy_history s') (f, \<lambda>p. pr_last_read (sy_process s p)) = Some (f', lasts)" by blast
  then show ?thesis by (auto simp: settled_def)
qed

text \<open>What a reader sees of a history: the frames sent by anyone and its own polls; and what its polls returned.\<close>

definition frame_of :: "lf_record \<Rightarrow> u8 list" where
  "frame_of r = take (unat (lf_length r)) (lf_message r)"

fun reader_view :: "nat \<Rightarrow> (nat \<times> lf_call \<times> lf_result) list \<Rightarrow> u8 list option list" where
  "reader_view p [] = []"
| "reader_view p ((q, Call_send r, _) # h) = Some (frame_of r) # reader_view p h"
| "reader_view p ((q, Call_receive, _) # h) = (if q = p then None # reader_view p h else reader_view p h)"
| "reader_view p ((q, Call_open, _) # h) = reader_view p h"

fun reader_results :: "nat \<Rightarrow> (nat \<times> lf_call \<times> lf_result) list \<Rightarrow> lf_record option list" where
  "reader_results p [] = []"
| "reader_results p ((q, Call_receive, Received r _) # h) = (if q = p then r # reader_results p h else reader_results p h)"
| "reader_results p (_ # h) = reader_results p h"

definition returned :: "lf_record option \<Rightarrow> u16 \<times> u8 list \<Rightarrow> bool" where
  "returned r x = (case r of None \<Rightarrow> x = (PJON_FAIL, []) | Some r \<Rightarrow> holds_frame r (snd x) \<and> fst x = of_nat (length (snd x)))"

lemma replay_queue:
  assumes "lf_queue_size c = n"
  shows "replay c h (f, lasts) = Some res \<Longrightarrow> lf_sees n f (lasts p) pending \<Longrightarrow>
     frame_queue n (reader_view p h) pending = Some out \<Longrightarrow>
     (\<And>q r x. (q, Call_send r, x) \<in> set h \<Longrightarrow> unat (lf_length r) \<le> length (lf_message r)) \<Longrightarrow>
     list_all2 returned (reader_results p h) out"
proof (induction h arbitrary: f lasts pending out)
  case (Cons e h)
  obtain q call x where e: "e = (q, call, x)" by (cases e) auto
  have sends: "\<And>q r x. (q, Call_send r, x) \<in> set h \<Longrightarrow> unat (lf_length r) \<le> length (lf_message r)"
    using Cons.prems(4) by auto
  show ?case
  proof (cases call)
    case (Call_send r)
    have h: "holds_frame r (frame_of r)" using Cons.prems(4) [of q r x] e Call_send by (simp add: holds_frame_def frame_of_def min_def)
    have l: "length pending < n" "frame_queue n (reader_view p h) (pending @ [frame_of r]) = Some out"
      using Cons.prems(3) e Call_send by (auto split: if_splits)
    obtain f' where w: "lf_write_packet r f = (True, f')" "lf_sees n f' (lasts p) (pending @ [frame_of r])"
      using lf_sees_write [OF Cons.prems(2) l(1) h] by blast
    then have "x = Sent True" "replay c h (f', lasts(q := lasts q)) = Some res"
      using Cons.prems(1) e Call_send by (auto split: if_splits)
    then show ?thesis using Cons.IH [of f' lasts] w(2) l(2) sends e Call_send by simp
  next
    case Call_receive
    let ?s = "(new_local_file ())\<lparr> lf_last_read := lasts q \<rparr>"
    obtain r s where read: "lf_read_packet c f ?s = (r, s)" by fastforce
    then have x: "x = Received r (lf_last_read s)" "replay c h (f, lasts(q := lf_last_read s)) = Some res"
      using Cons.prems(1) e Call_receive by (auto split: if_splits)
    show ?thesis
    proof (cases "q = p")
      case True
      have "lf_sees n f (lf_last_read ?s) pending" using Cons.prems(2) True by simp
      note seen = lf_sees_read [OF this assms]
      show ?thesis
      proof (cases pending)
        case Nil
        then obtain out' where o: "frame_queue n (reader_view p h) [] = Some out'" "out = (PJON_FAIL, []) # out'"
          using Cons.prems(3) e Call_receive True by auto
        have "r = None" "s = ?s" using seen read Nil by auto
        then show ?thesis
          using Cons.IH [OF x(2) _ o(1) sends] Cons.prems(2) True o(2) e x(1) Nil Call_receive by (simp add: returned_def)
      next
        case (Cons data rest)
        then obtain out' where o: "frame_queue n (reader_view p h) rest = Some out'" "out = (of_nat (length data), data) # out'"
          using Cons.prems(3) e Call_receive True by auto
        obtain r' where "r = Some r'" "holds_frame r' data" "lf_sees n f (lf_last_read s) rest"
          using seen read Cons by auto
        then show ?thesis
          using Cons.IH [OF x(2) _ o(1) sends] True o(2) e x(1) Call_receive by (simp add: returned_def)
      qed
    next
      case False
      then show ?thesis
        using Cons.IH [OF x(2) _ _ sends] Cons.prems(2,3) e x(1) Call_receive by simp
    qed
  next
    case Call_open
    then show ?thesis using Cons.IH [of f lasts] Cons.prems e sends by (auto split: if_splits)
  qed
qed simp


text \<open>C28. The shared file as a queue, for any number of processes taking system calls in any order: from a new file on,
  a reader that never leaves more frames unread than the ring has slots receives exactly the frames all processes have
  sent, in the order of their unlocks, and nothing when it has read them all.\<close>

theorem lf_processes_queue:
  assumes "byte_lock px fn holder" and "2 \<le> lf_queue_size c" and "lf_queue_size c \<le> 254"
    and "resting be b holder \<lparr> lf_last = 0, lf_index = replicate (lf_queue_size c) 0,
           lf_records = replicate (lf_queue_size c) (empty_record b) \<rparr> s"
    and "pr_last_read (sy_process s p) = 0"
    and "\<forall>p r g. Start p (Call_send r) g \<in> set es \<longrightarrow> length (lf_message r) = packet_max_length b"
    and "\<forall>q r x. (q, Call_send r, x) \<in> set (sy_history s') \<longrightarrow> unat (lf_length r) \<le> length (lf_message r)"
    and "lf_do_events c be b px fn es s = Some s'"
    and "frame_queue (lf_queue_size c) (reader_view p (sy_history s')) [] = Some out"
  shows "list_all2 returned (reader_results p (sy_history s')) out"
proof -
  let ?f = "\<lparr> lf_last = 0, lf_index = replicate (lf_queue_size c) 0,
           lf_records = replicate (lf_queue_size c) (empty_record b) \<rparr>"
  let ?lasts = "\<lambda>p. pr_last_read (sy_process s p)"
  have wf: "wf_file c b ?f" by (auto simp: wf_file_def empty_record_def)
  have "replay c (sy_history s) (?f, ?lasts) = Some (?f, ?lasts)" using assms(4) by (simp add: resting_def)
  from events_settled [OF assms(1) _ resting_settled [OF assms(4) wf] this assms(8)] assms(3,6)
  obtain f' lasts where "replay c (sy_history s') (?f, ?lasts) = Some (f', lasts)" by force
  from replay_queue [OF refl this _ assms(9)] show ?thesis
    using lf_sees_new [OF assms(2,3), of "empty_record b"] assms(5,7) by simp
qed

subsection \<open>What locking does not cover\<close>

text \<open>A lock as POSIX has it, its state the process that holds it; \<open>working\<close>: whether a call succeeds.\<close>

definition sample_posix :: "bool \<Rightarrow> (nat option) posix" where
  "sample_posix working =
     \<lparr> px_stat = (\<lambda>name k. None), px_access = (\<lambda>name m k. False),
       px_fcntl = (\<lambda>p fn cmd fl k.
         if \<not> working then Some ((False, fl), k)
         else if l_type fl = F_UNLCK then Some ((True, fl), if k = Some p then None else k)
         else if k = None \<or> k = Some p then Some ((True, fl), Some p) else None),
       px_may_open = (\<lambda>p create k. True) \<rparr>"

lemma sample_posix_byte_lock: "byte_lock (sample_posix True) 3 (\<lambda>k. k)"
  by (auto simp: byte_lock_def sample_posix_def split: if_splits)

definition sample_build :: build where
  "sample_build = default_build\<lparr> packet_max_length := 3 \<rparr>"

definition sample_record :: "u8 \<Rightarrow> lf_record" where
  "sample_record x = \<lparr> lf_length = 1, lf_message = [x, 0, 0] \<rparr>"

definition sample_processes :: "u8 list option \<Rightarrow> bool \<Rightarrow> (nat option) lf_system" where
  "sample_processes file is_open =
     \<lparr> sy_file = file, sy_kernel = None,
       sy_process = (\<lambda>p. \<lparr> pr_prog = Return Opened, pr_call = Call_open, pr_offset = 0, pr_open = is_open, pr_last_read = 0 \<rparr>),
       sy_history = [] \<rparr>"

definition new_lf_file :: "build \<Rightarrow> lf_file" where
  "new_lf_file b =
     \<lparr> lf_last = 0, lf_index = replicate (lf_queue_size sample_lf) 0,
       lf_records = replicate (lf_queue_size sample_lf) (empty_record b) \<rparr>"

text \<open>The processes in turns, so many steps each.\<close>

fun turns :: "(nat \<times> nat) list \<Rightarrow> lf_event list" where
  "turns [] = []"
| "turns ((p, n) # xs) = replicate n (Step p) @ turns xs"


text \<open>The members ignore a lock that fails: two sends then overlap, both are reported as sent, one frame is left.\<close>

lemma lf_failed_lock_loses:
  "map_option (\<lambda>s. (sy_history s, sy_file s)) (lf_do_events sample_lf False sample_build (sample_posix False) 3
     ([Start 0 (Call_send (sample_record 7)) (0, []), Start 1 (Call_send (sample_record 8)) (0, [])] @
      turns [(0, 4), (1, 11), (0, 7)])
     (sample_processes (Some (file_bytes False sample_build (new_lf_file sample_build))) True))
   = Some ([(1, Call_send (sample_record 8), Sent True), (0, Call_send (sample_record 7), Sent True)],
           Some (file_bytes False sample_build \<lparr> lf_last = 1, lf_index = [1, 0], lf_records = [sample_record 7,
             empty_record sample_build] \<rparr>))"
  by code_simp

text \<open>A sender and a reader that both start before either has the lock.\<close>

definition sample_events :: "lf_event list" where
  "sample_events =
     [Start 0 (Call_send (sample_record 7)) (0, []), Start 1 Call_receive (0, [])] @ turns [(0, 11), (1, 7)]"

definition sample_start :: "(nat option) lf_system" where
  "sample_start = sample_processes (Some (file_bytes False sample_build (new_lf_file sample_build))) True"

lemma sample_run:
  "\<exists>s. lf_do_events sample_lf False sample_build (sample_posix True) 3 sample_events sample_start = Some s \<and>
     sy_history s = [(0, Call_send (sample_record 7), Sent True), (1, Call_receive, Received (Some (sample_record 7)) 1)] \<and>
     sy_kernel s = None"
proof -
  have "map_option (\<lambda>s. (sy_history s, sy_kernel s))
      (lf_do_events sample_lf False sample_build (sample_posix True) 3 sample_events sample_start)
    = Some ([(0, Call_send (sample_record 7), Sent True), (1, Call_receive, Received (Some (sample_record 7)) 1)], None)"
    by code_simp
  then show ?thesis by auto
qed

lemma sample_resting: "resting False sample_build (\<lambda>k. k) (new_lf_file sample_build) sample_start"
  by (simp add: resting_def sample_start_def sample_processes_def)

lemma sample_sends:
  "\<forall>p r g. Start p (Call_send r) g \<in> set sample_events \<longrightarrow> length (lf_message r) = packet_max_length sample_build"
  by (auto simp: sample_events_def sample_record_def sample_build_def)

lemma sample_queue_size: "lf_queue_size sample_lf = 2"
  by (simp add: sample_lf_def)

lemma lf_linearizable_witness:
  "\<exists>s f lasts. lf_do_events sample_lf False sample_build (sample_posix True) 3 sample_events sample_start = Some s \<and>
     replay sample_lf (sy_history s) (new_lf_file sample_build, \<lambda>p. 0) = Some (f, lasts) \<and>
     sy_file s = Some (file_bytes False sample_build f)"
proof -
  obtain s where s: "lf_do_events sample_lf False sample_build (sample_posix True) 3 sample_events sample_start = Some s"
    "sy_kernel s = None" using sample_run by blast
  have wf: "wf_file sample_lf sample_build (new_lf_file sample_build)"
    by (simp add: wf_file_def new_lf_file_def empty_record_def)
  have "(\<lambda>p. pr_last_read (sy_process sample_start p)) = (\<lambda>p. 0)" by (simp add: sample_start_def sample_processes_def)
  with lf_linearizable [OF sample_posix_byte_lock _ wf sample_resting sample_sends s(1)] sample_queue_size s
  show ?thesis by auto
qed

lemma lf_processes_queue_witness:
  "\<exists>s. lf_do_events sample_lf False sample_build (sample_posix True) 3 sample_events sample_start = Some s \<and>
     list_all2 returned (reader_results 1 (sy_history s)) [(1, [7])]"
proof -
  obtain s where s: "lf_do_events sample_lf False sample_build (sample_posix True) 3 sample_events sample_start = Some s"
    "sy_history s = [(0, Call_send (sample_record 7), Sent True), (1, Call_receive, Received (Some (sample_record 7)) 1)]"
    using sample_run by blast
  have "frame_queue (lf_queue_size sample_lf) (reader_view 1 (sy_history s)) [] = Some [(1, [7])]"
    by (simp add: s(2) sample_queue_size frame_of_def sample_record_def)
  moreover have "\<forall>q r x. (q, Call_send r, x) \<in> set (sy_history s) \<longrightarrow> unat (lf_length r) \<le> length (lf_message r)"
    by (simp add: s(2) sample_record_def)
  moreover have "pr_last_read (sy_process sample_start 1) = 0" by (simp add: sample_start_def sample_processes_def)
  ultimately show ?thesis
    using lf_processes_queue [OF sample_posix_byte_lock _ _ sample_resting [unfolded new_lf_file_def] _ sample_sends _ s(1)]
      s(1) sample_queue_size by auto
qed

end
