(* ===== verification/Udp_Arduino.thy ===== *)
theory Udp_Arduino
  imports Udp
begin

text \<open>
  \<^verbatim>\<open>src/interfaces/ARDUINO/UDPHelper_ARDUINO.h\<close>: the helper of the UDP strategies over the Ethernet or WiFi
  library of an Arduino board.  That library is the record \<open>arduino_udp\<close>: a datagram is announced by
  \<^verbatim>\<open>parsePacket\<close> and fetched in pieces by \<^verbatim>\<open>read\<close>.
\<close>

subsection \<open>The helper\<close>

text \<open>\<open>au_read\<close> is \<^term>\<open>None\<close> for -1, else the bytes it stored; \<open>ac_esp\<close>: the build is for an ESP.\<close>

record 's arduino_udp = "'s platform" +
  au_begin :: "u16 \<Rightarrow> 's \<Rightarrow> bool \<times> 's"
  au_parse_packet :: "'s \<Rightarrow> int \<times> 's"
  au_read :: "nat \<Rightarrow> 's \<Rightarrow> u8 list option \<times> 's"
  au_begin_packet :: "sock_addr \<Rightarrow> 's \<Rightarrow> 's"
  au_write :: "u8 list \<Rightarrow> 's \<Rightarrow> 's"
  au_end_packet :: "'s \<Rightarrow> 's"
  au_remote :: "'s \<Rightarrow> sock_addr"
  au_local_ip :: "'s \<Rightarrow> u8 list"
  au_subnet_mask :: "'s \<Rightarrow> u8 list"

record 's arduino_helper =
  ah_port :: u16
  ah_magic :: "u8 list"
  ah_world :: 's

definition ah_on :: "('s \<Rightarrow> 's) \<Rightarrow> 's arduino_helper \<Rightarrow> 's arduino_helper" where
  "ah_on f h = h\<lparr> ah_world := f (ah_world h) \<rparr>"

definition ah_in :: "('s \<Rightarrow> 'a \<times> 's) \<Rightarrow> 's arduino_helper \<Rightarrow> 'a \<times> 's arduino_helper" where
  "ah_in f h = (let (x, w) = f (ah_world h) in (x, h\<lparr> ah_world := w \<rparr>))"

definition ah_begin :: "('s, 'z) arduino_udp_scheme \<Rightarrow> u16 \<Rightarrow> 's arduino_helper \<Rightarrow> bool \<times> 's arduino_helper" where
  "ah_begin au port h = ah_in (au_begin au port) (h\<lparr> ah_port := port \<rparr>)"

text \<open>The value of \<^verbatim>\<open>read\<close>.\<close>

definition read_length :: "u8 list option \<Rightarrow> int" where
  "read_length got = (case got of None \<Rightarrow> - 1 | Some bs \<Rightarrow> int (length bs))"

definition read_into :: "u8 list option \<Rightarrow> u8 list \<Rightarrow> u8 list" where
  "read_into got old = (case got of None \<Rightarrow> old | Some bs \<Rightarrow> overlay bs old)"

text \<open>
  The rest of a datagram is read into the destination until nothing remains or a read gives nothing.  Every round
  lessens \<open>remaining\<close>, so the loop ends whatever the library returns.
\<close>

function ah_drain ::
  "('s, 'z) arduino_udp_scheme \<Rightarrow> nat \<Rightarrow> int \<Rightarrow> int \<Rightarrow> u8 list \<Rightarrow> 's arduino_helper \<Rightarrow> u8 list \<times> 's arduino_helper" where
  "ah_drain au max_length remaining len data h =
     (if 0 < remaining \<and> 0 < len
      then let (got, h) = ah_in (au_read au (if remaining \<le> int max_length then nat remaining else max_length)) h;
               len = read_length got
           in ah_drain au max_length (if 0 < len then remaining - len else remaining) len (read_into got data) h
      else (data, h))"
  by auto
termination
  by (relation "measure (\<lambda>(au, m, remaining, len, data, h). nat remaining + (if 0 < len then 1 else 0))") auto

declare ah_drain.simps [simp del]

text \<open>
  The destination is shown by the bytes stored in it.  \<^verbatim>\<open>header\<close> is zero before it is read; a datagram shorter than
  four bytes leaves its last bytes so.
\<close>

definition ah_receive_frame ::
  "('s, 'z) arduino_udp_scheme \<Rightarrow> u16 \<Rightarrow> 's arduino_helper \<Rightarrow> (u16 \<times> u8 list) \<times> 's arduino_helper" where
  "ah_receive_frame au max_length h =
     (let (packet_size, h) = ah_in (au_parse_packet au) h in
      if 0 < packet_size
      then let (got, h) = ah_in (au_read au 4) h;
               header = read_into got [0, 0, 0, 0];
               len = read_length got;
               remaining = packet_size - len
           in if len = - 1 then ((PJON_FAIL, []), h)
              else if len = 4 \<and> header = ah_magic h \<and> packet_size \<le> 4 + int (unat max_length)
              then let (got, h) = ah_in (au_read au (nat (packet_size - 4))) h;
                       len = read_length got
                   in if len = - 1 then ((PJON_FAIL, []), h)
                      else let result = (if len = packet_size - 4 then of_int (packet_size - 4) else PJON_FAIL);
                               (data, h) = ah_drain au (unat max_length) (remaining - len) len (read_into got []) h
                           in ((result, data), h)
              else let (data, h) = ah_drain au (unat max_length) remaining len [] h
                   in ((PJON_FAIL, data), h)
      else ((PJON_FAIL, []), h))"

definition ah_send_to ::
  "('s, 'z) arduino_udp_scheme \<Rightarrow> u8 list \<Rightarrow> sock_addr \<Rightarrow> 's arduino_helper \<Rightarrow> 's arduino_helper" where
  "ah_send_to au data addr h =
     (if 0 < length data
      then let h = ah_on (au_begin_packet au addr) h;
               h = ah_on (au_write au (ah_magic h)) h;
               h = ah_on (au_write au data) h
           in ah_on (au_end_packet au) h
      else h)"

definition ah_send_response :: "('s, 'z) arduino_udp_scheme \<Rightarrow> u8 list \<Rightarrow> 's arduino_helper \<Rightarrow> 's arduino_helper" where
  "ah_send_response au data h = ah_send_to au data (au_remote au (ah_world h)) h"

definition ah_send_response_byte :: "('s, 'z) arduino_udp_scheme \<Rightarrow> u8 \<Rightarrow> 's arduino_helper \<Rightarrow> 's arduino_helper" where
  "ah_send_response_byte au response h = ah_send_to au [response] (au_remote au (ah_world h)) h"

definition ah_send_frame_to ::
  "('s, 'z) arduino_udp_scheme \<Rightarrow> u8 list \<Rightarrow> u8 list \<Rightarrow> u16 \<Rightarrow> 's arduino_helper \<Rightarrow> 's arduino_helper" where
  "ah_send_frame_to au data remote_ip remote_port h =
     ah_send_to au data \<lparr> sa_ip = remote_ip, sa_port = remote_port \<rparr> h"

text \<open>An ESP broadcasts to its subnet: \<^verbatim>\<open>~subnetMask | localIP\<close>, byte by byte.\<close>

definition ah_broadcast_ip :: "('s, 'z) arduino_udp_scheme \<Rightarrow> bool \<Rightarrow> 's arduino_helper \<Rightarrow> u8 list" where
  "ah_broadcast_ip au esp h =
     (if esp then map2 (\<lambda>m i. NOT m OR i) (au_subnet_mask au (ah_world h)) (au_local_ip au (ah_world h))
      else [0xFF, 0xFF, 0xFF, 0xFF])"

definition ah_send_frame :: "('s, 'z) arduino_udp_scheme \<Rightarrow> bool \<Rightarrow> u8 list \<Rightarrow> 's arduino_helper \<Rightarrow> 's arduino_helper" where
  "ah_send_frame au esp data h =
     ah_send_to au data \<lparr> sa_ip = ah_broadcast_ip au esp h, sa_port = ah_port h \<rparr> h"

definition ah_set_magic_header :: "u8 list \<Rightarrow> 's arduino_helper \<Rightarrow> 's arduino_helper" where
  "ah_set_magic_header magic h = h\<lparr> ah_magic := magic \<rparr>"

definition ah_get_sender :: "('s, 'z) arduino_udp_scheme \<Rightarrow> 's arduino_helper \<Rightarrow> u8 list \<times> u16" where
  "ah_get_sender au h = (sa_ip (au_remote au (ah_world h)), sa_port (au_remote au (ah_world h)))"

subsection \<open>Reception\<close>

text \<open>What the documentation of the library promises of \<^verbatim>\<open>read\<close>: it gives the next bytes of the datagram.\<close>

definition reads_on :: "('s, 'z) arduino_udp_scheme \<Rightarrow> ('s \<Rightarrow> u8 list) \<Rightarrow> bool" where
  "reads_on au rest \<longleftrightarrow>
     (\<forall>n w. rest w \<noteq> [] \<longrightarrow> fst (au_read au n w) = Some (take n (rest w)) \<and> rest (snd (au_read au n w)) = drop n (rest w))"

lemma ah_read:
  assumes "reads_on au rest" and "rest (ah_world h) \<noteq> []"
  shows "\<exists>w. ah_in (au_read au n) h = (Some (take n (rest (ah_world h))), h\<lparr> ah_world := w \<rparr>) \<and> rest w = drop n (rest (ah_world h))"
  using assms by (cases "au_read au n (ah_world h)") (auto simp: reads_on_def ah_in_def dest!: spec [of _ n] spec [of _ "ah_world h"])

lemma ah_drain_all:
  assumes "reads_on au rest" and "0 < m"
  shows "0 < len \<Longrightarrow> length (rest (ah_world h)) = nat remaining \<Longrightarrow> length data \<le> m \<Longrightarrow>
     \<exists>data' w. ah_drain au m remaining len data h = (data', h\<lparr> ah_world := w \<rparr>) \<and> rest w = [] \<and> length data' \<le> m"
proof (induction "nat remaining" arbitrary: remaining len data h rule: less_induct)
  case less
  show ?case
  proof (cases "0 < remaining")
    case True
    define n where "n = (if remaining \<le> int m then nat remaining else m)"
    have rest: "rest (ah_world h) \<noteq> []" using less.prems(2) True by auto
    obtain w where w: "ah_in (au_read au n) h = (Some (take n (rest (ah_world h))), h\<lparr> ah_world := w \<rparr>)"
      "rest w = drop n (rest (ah_world h))" using ah_read [OF assms(1) rest, of n] by blast
    let ?got = "take n (rest (ah_world h))"
    have len: "length ?got = n" "0 < n" "int n \<le> remaining" "n \<le> m" using less.prems(2) True assms(2) by (auto simp: n_def)
    obtain data' w' where "ah_drain au m (remaining - int n) (int n) (read_into (Some ?got) data) (h\<lparr> ah_world := w \<rparr>)
        = (data', h\<lparr> ah_world := w \<rparr>\<lparr> ah_world := w' \<rparr>)" "rest w' = []" "length data' \<le> m"
      using less.hyps [of "remaining - int n" "int n" "h\<lparr> ah_world := w \<rparr>" "read_into (Some ?got) data"] len less.prems(2,3) w(2)
      by (auto simp: read_into_def length_overlay nat_diff_distrib)
    then show ?thesis
      using w(1) len True less.prems(1)
      by (subst ah_drain.simps) (auto simp: read_length_def Let_def simp flip: n_def intro!: exI [of _ w'])
  next
    case False
    then show ?thesis using less.prems by (intro exI [of _ data] exI [of _ "ah_world h"]) (simp add: ah_drain.simps)
  qed
qed


subsection \<open>Properties\<close>

lemma ah_receives_datagram:
  assumes "reads_on au rest" and "0 < max_length" and "length (ah_magic h) = 4"
    and "au_parse_packet au (ah_world h) = (int (length d), w)" and "rest w = d" and "d \<noteq> []" and "length d < 32768"
    and "d \<noteq> ah_magic h"
  shows "\<exists>bs w'. ah_receive_frame au max_length h =
      ((if take 4 d = ah_magic h \<and> length d \<le> 4 + unat max_length then (of_nat (length d - 4), drop 4 d) else (PJON_FAIL, bs)),
       h\<lparr> ah_world := w' \<rparr>) \<and> rest w' = [] \<and> length bs \<le> unat max_length"
proof -
  let ?h = "h\<lparr> ah_world := w \<rparr>" and ?m = "unat max_length"
  have m: "0 < ?m" using assms(2) by (simp add: unat_gt_0 word_gt_0)
  have parse: "ah_in (au_parse_packet au) h = (int (length d), ?h)" using assms(4) by (simp add: ah_in_def)
  obtain w1 where w1: "ah_in (au_read au 4) ?h = (Some (take 4 d), h\<lparr> ah_world := w1 \<rparr>)" "rest w1 = drop 4 d"
    using ah_read [OF assms(1), of ?h 4] assms(5,6) by auto
  let ?h1 = "h\<lparr> ah_world := w1 \<rparr>"
  let ?ok = "take 4 d = ah_magic h \<and> length d \<le> 4 + ?m"
  show ?thesis
  proof (cases ?ok)
    case True
    have "length (take 4 d) = 4" using True assms(3) by simp
    then have d: "4 \<le> length d" by simp
    moreover have "length d \<noteq> 4" using True assms(8) by auto
    ultimately have "drop 4 d \<noteq> []" by simp
    then obtain w2 where w2: "ah_in (au_read au (length d - 4)) ?h1 = (Some (drop 4 d), h\<lparr> ah_world := w2 \<rparr>)" "rest w2 = []"
      using ah_read [OF assms(1), of ?h1 "length d - 4"] w1(2) by auto
    have n: "nat (int (length d) - 4) = length d - 4" by simp
    have bound: "int (length d) \<le> 4 + int ?m" using True d by linarith
    have "overlay (take 4 d) [0, 0, 0, 0] = ah_magic h" using True d assms(3) by (simp add: overlay_def)
    then have "ah_receive_frame au max_length h = ((of_nat (length d - 4), drop 4 d), h\<lparr> ah_world := w2 \<rparr>)"
      using parse w1 w2 assms(3) bound True d assms(6)
      by (simp add: ah_receive_frame_def read_length_def read_into_def overlay_def ah_drain.simps Let_def n)
    then show ?thesis using True w2(2) by (intro exI [of _ "[]"] exI [of _ w2]) simp
  next
    case False
    have len: "0 < int (length (take 4 d))" using assms(6) by simp
    have "length d - 4 = nat (int (length d) - int (min (length d) 4))" by linarith
    then obtain data w2 where w2: "ah_drain au ?m (int (length d) - int (length (take 4 d))) (int (length (take 4 d))) [] ?h1
        = (data, h\<lparr> ah_world := w2 \<rparr>)" "rest w2 = []" "length data \<le> ?m"
      using ah_drain_all [OF assms(1) m len, of ?h1 "int (length d) - int (length (take 4 d))" "[]"] w1(2) by auto
    have bound: "int (length d) \<le> 4 + int ?m \<longleftrightarrow> length d \<le> 4 + ?m" by linarith
    have "\<not> (int (length (take 4 d)) = 4 \<and> overlay (take 4 d) [0, 0, 0, 0] = ah_magic h \<and> int (length d) \<le> 4 + int ?m)"
      unfolding bound using False by (auto simp: overlay_def)
    then have "ah_receive_frame au max_length h = ((PJON_FAIL, data), h\<lparr> ah_world := w2 \<rparr>)"
      using parse w1(1) w2(1) assms(6)
      by (simp add: ah_receive_frame_def read_length_def read_into_def Let_def) (simp add: imp_conjL)
    then show ?thesis using False w2(2,3) by (intro exI [of _ data] exI [of _ w2]) auto
  qed
qed

text \<open>C32. The Arduino helper: a datagram that starts with the magic header and whose frame fits is received whole, any
  other gives \<^verbatim>\<open>PJON_FAIL\<close>; never more than the destination is written, and nothing of the datagram is left
  behind for the next call, in as many reads as it takes.\<close>

theorem ah_receives:
  assumes "reads_on au rest" and "0 < max_length" and "length (ah_magic h) = 4"
    and "au_parse_packet au (ah_world h) = (int (length d), w)" and "rest w = d" and "d \<noteq> []" and "length d < 32768"
    and "d \<noteq> ah_magic h"
  shows "\<exists>bs w'. ah_receive_frame au max_length h =
      ((if take 4 d = ah_magic h \<and> length d \<le> 4 + unat max_length then (of_nat (length d - 4), drop 4 d) else (PJON_FAIL, bs)),
       h\<lparr> ah_world := w' \<rparr>) \<and> rest w' = [] \<and> length bs \<le> unat max_length"
  using assms by (rule ah_receives_datagram)

text \<open>A library that holds one datagram, or what is left of it.\<close>

definition sample_arduino :: "(u8 list) arduino_udp" where
  "sample_arduino =
     \<lparr> pf_micros = (\<lambda>w. (0, w)), pf_delay = (\<lambda>ms w. w), pf_random = (\<lambda>n w. (0, w)), pf_random_seed = (\<lambda>n w. w),
       pf_analog_read = (\<lambda>p w. (0, w)), au_begin = (\<lambda>port w. (True, w)), au_parse_packet = (\<lambda>w. (int (length w), w)),
       au_read = (\<lambda>n w. (Some (take n w), drop n w)), au_begin_packet = (\<lambda>addr w. w), au_write = (\<lambda>bs w. w),
       au_end_packet = (\<lambda>w. w), au_remote = (\<lambda>w. no_addr), au_local_ip = (\<lambda>w. [10, 0, 0, 2]),
       au_subnet_mask = (\<lambda>w. [255, 255, 255, 0]) \<rparr>"

lemma sample_arduino_reads: "reads_on sample_arduino (\<lambda>w. w)"
  by (simp add: reads_on_def sample_arduino_def)

lemma ah_receives_witness:
  "\<exists>w. ah_receive_frame sample_arduino 50 \<lparr> ah_port = 7100, ah_magic = be32 0x0DFAC3D0,
       ah_world = be32 0x0DFAC3D0 @ [1, 2, 3] \<rparr>
     = ((3, [1, 2, 3]), \<lparr> ah_port = 7100, ah_magic = be32 0x0DFAC3D0, ah_world = w \<rparr>) \<and> w = []"
  using ah_receives [OF sample_arduino_reads, of 50 "\<lparr> ah_port = 7100, ah_magic = be32 0x0DFAC3D0,
       ah_world = be32 0x0DFAC3D0 @ [1, 2, 3] \<rparr>" "be32 0x0DFAC3D0 @ [1, 2, 3]" "be32 0x0DFAC3D0 @ [1, 2, 3]"]
  by (simp add: sample_arduino_def)

text \<open>
  Both helpers give the same frame for the same datagram as long as it is shorter than the destination together with
  its header; the POSIX one refuses those that fill it.
\<close>

lemma udp_helpers_agree:
  assumes "reads_on au rest" and "au_parse_packet au (ah_world h) = (int (length d), w)" and "rest w = d"
    and "nw_recvfrom nw (unat max_length) (ud_world u) = (Some (d, addr), v)" and "ud_open u"
    and "ah_magic h = ud_magic u" and "length (ud_magic u) = 4"
    and "take 4 d = ud_magic u" and "4 < length d" and "length d < unat max_length" and "length d < 32768"
  shows "\<exists>bs h' u'. ah_receive_frame au max_length h = ((of_nat (length d - 4), drop 4 d), h') \<and>
     udp_receive_frame nw max_length u = ((of_nat (length d - 4), bs), u') \<and> take (length d - 4) bs = drop 4 d"
proof -
  have "max_length \<noteq> 0" using assms(10) by auto
  then have "0 < max_length" by (simp add: word_neq_0_conv)
  from ah_receives_datagram [OF assms(1) this _ assms(2,3)] assms(6-11)
  have "\<exists>h'. ah_receive_frame au max_length h = ((of_nat (length d - 4), drop 4 d), h')"
    by fastforce
  moreover have "\<exists>u'. udp_receive_frame nw max_length u = ((of_nat (length d - 4), drop 4 d @ drop (length d - 4) d), u')"
    using assms(4,5,8-10) by (simp add: udp_receive_frame_def ud_in_def Let_def)
  ultimately show ?thesis by auto
qed

end
