(* ===== verification/Platform.thy ===== *)
theory Platform
  imports Through_Serial
begin

text \<open>
  The functions of \<^verbatim>\<open>src/interfaces\<close> that have a logic of their own: the clock of \<^verbatim>\<open>LINUX\<close> and \<^verbatim>\<open>WINX86\<close>, which
  restarts where it would leave 32 bits, and the serial ports of \<^verbatim>\<open>LINUX\<close>, \<^verbatim>\<open>WINX86\<close> and \<^verbatim>\<open>ZEPHYR\<close>.
\<close>

subsection \<open>The clock\<close>

text \<open>
  Instants are nanoseconds of the high resolution clock, the argument \<open>now\<close>; the instants the counts start from
  are static variables, set by the first call (on Windows before the program starts).
\<close>

record clock =
  ck_start :: "nat option"
  ck_start_ms :: "nat option"

definition started :: "nat option \<Rightarrow> nat \<Rightarrow> nat" where
  "started start now = (case start of None \<Rightarrow> now | Some t \<Rightarrow> t)"

definition clock_micros :: "nat \<Rightarrow> clock \<Rightarrow> u32 \<times> clock" where
  "clock_micros now c =
     (let start = started (ck_start c) now; elapsed_usec = (now - start) div 1000 in
      if elapsed_usec \<ge> 0xFFFFFFFF then (0, c\<lparr> ck_start := Some now \<rparr>)
      else (of_nat elapsed_usec, c\<lparr> ck_start := Some start \<rparr>))"

definition clock_millis :: "nat \<Rightarrow> clock \<Rightarrow> u32 \<times> clock" where
  "clock_millis now c =
     (let start = started (ck_start_ms c) now in (of_nat ((now - start) div 1000000), c\<lparr> ck_start_ms := Some start \<rparr>))"

text \<open>\<^verbatim>\<open>delayMicroseconds\<close> of \<^verbatim>\<open>LINUX\<close> waits in \<^verbatim>\<open>select\<close> for these seconds and microseconds.\<close>

definition delay_timeval :: "u32 \<Rightarrow> nat \<times> nat" where
  "delay_timeval delay_value =
     (if delay_value < 1000000 then (0, unat delay_value)
      else let sec = unat (delay_value div 1000000) in (sec, unat delay_value - sec * 1000000))"

lemma delay_timeval_exact:
  "fst (delay_timeval d) * 1000000 + snd (delay_timeval d) = unat d \<and> snd (delay_timeval d) < 1000000"
proof (cases "d < 1000000")
  case True
  then show ?thesis by (simp add: delay_timeval_def word_less_nat_alt)
next
  case False
  have "unat (d div 1000000) = unat d div 1000000" by (simp add: unat_div)
  moreover have "unat d div 1000000 * 1000000 \<le> unat d" by simp
  ultimately show ?thesis using False
    by (simp add: delay_timeval_def Let_def minus_div_mult_eq_mod)
qed

text \<open>
  \<^verbatim>\<open>delayMicroseconds\<close> of \<^verbatim>\<open>WINX86\<close> polls the clock, a sleep between two looks; \<open>looks\<close> are the instants it sees.
  \<^term>\<open>None\<close>: it has not returned after these looks.
\<close>

fun poll_delay :: "u32 \<Rightarrow> nat \<Rightarrow> nat list \<Rightarrow> nat option" where
  "poll_delay delay_value begin_ts [] = None"
| "poll_delay delay_value begin_ts (now # looks) =
     (if unat delay_value \<le> (now - begin_ts) div 1000 then Some now else poll_delay delay_value begin_ts looks)"

lemma poll_delay_waits: "poll_delay d t looks = Some now \<Longrightarrow> unat d * 1000 \<le> now - t"
  by (induction d t looks rule: poll_delay.induct) (auto split: if_splits simp: less_eq_div_iff_mult_less_eq)

text \<open>The values of calls at the given instants.\<close>

fun clock_calls :: "nat list \<Rightarrow> clock \<Rightarrow> u32 list" where
  "clock_calls [] c = []"
| "clock_calls (t # ts) c = (let (v, c) = clock_micros t c in v # clock_calls ts c)"

lemma of_nat_diff_u32:
  assumes "b \<le> a" and "a < 2 ^ 32"
  shows "unat ((of_nat a :: u32) - of_nat b) = a - b"
  using assms by (simp add: unat_of_nat flip: of_nat_diff)

lemma clock_calls_running:
  assumes "ck_start c = Some s" and "sorted ts" and "\<forall>t\<in>set ts. s \<le> t \<and> (t - s) div 1000 < 0xFFFFFFFF"
  shows "clock_calls ts c = map (\<lambda>t. of_nat ((t - s) div 1000)) ts"
  using assms by (induction ts arbitrary: c) (auto simp: clock_micros_def started_def Let_def)


lemma sorted_le_last: "sorted ts \<Longrightarrow> u \<in> set ts \<Longrightarrow> u \<le> last ts" for u :: nat
  by (induction ts) auto

text \<open>Either the clock runs through, or it restarts once, at one of the calls.\<close>

lemma clock_calls_last:
  assumes "ck_start c = Some s" and "s \<le> hd ts" and "sorted ts" and "ts \<noteq> []" and "(last ts - hd ts) div 1000 < 0xFFFFFFFF"
  shows "(\<forall>t\<in>set ts. (t - s) div 1000 < 0xFFFFFFFF) \<or>
     (\<exists>r\<in>set ts. 0xFFFFFFFF \<le> (r - s) div 1000 \<and> last (clock_calls ts c) = of_nat ((last ts - r) div 1000))"
  using assms
proof (induction ts arbitrary: c)
  case (Cons t ts)
  note prems = Cons.prems and IH = Cons.IH
  show ?case
  proof (cases "0xFFFFFFFF \<le> (t - s) div 1000")
    case True
    have "(u - t) div 1000 < 0xFFFFFFFF" if "u \<in> set ts" for u
    proof -
      have "u \<le> last (t # ts)" using that prems(3) by (intro sorted_le_last) auto
      then have "(u - t) div 1000 \<le> (last (t # ts) - t) div 1000" by (intro div_le_mono diff_le_mono)
      then show ?thesis using prems(5) by simp
    qed
    then have "clock_calls ts (c\<lparr> ck_start := Some t \<rparr>) = map (\<lambda>u. of_nat ((u - t) div 1000)) ts"
      using prems(3) by (intro clock_calls_running) auto
    then have "last (clock_calls (t # ts) c) = of_nat ((last (t # ts) - t) div 1000)"
      using True prems(1) by (simp add: clock_micros_def started_def last_map)
    then show ?thesis using True by auto
  next
    case False
    show ?thesis
    proof (cases ts)
      case Nil
      then show ?thesis using False by simp
    next
      case (Cons u us)
      have "(last ts - hd ts) div 1000 \<le> (last (t # ts) - t) div 1000"
        using Cons prems(3) by (intro div_le_mono) auto
      then have "(last ts - hd ts) div 1000 < 0xFFFFFFFF" using prems(5) by simp
      from IH [of "c\<lparr> ck_start := Some s \<rparr>", OF _ _ _ _ this] prems(2,3) Cons
      have "(\<forall>t\<in>set ts. (t - s) div 1000 < 0xFFFFFFFF) \<or> (\<exists>r\<in>set ts. 0xFFFFFFFF \<le> (r - s) div 1000 \<and>
          last (clock_calls ts (c\<lparr> ck_start := Some s \<rparr>)) = of_nat ((last ts - r) div 1000))"
        by auto
      moreover have "clock_calls (t # ts) c = of_nat ((t - s) div 1000) # clock_calls ts (c\<lparr> ck_start := Some s \<rparr>)"
        using False prems(1) by (simp add: clock_micros_def started_def)
      moreover have "clock_calls ts c' \<noteq> []" for c' using Cons by (simp add: case_prod_unfold Let_def)
      ultimately show ?thesis using False Cons by auto
    qed
  qed
qed simp

lemma div_diff_bounds:
  assumes "y \<le> x"
  shows "x div 1000 - y div 1000 \<le> (x - y) div 1000 + (1 :: nat)" and "(x - y) div 1000 \<le> x div 1000 - y div (1000 :: nat)"
proof -
  have "x = 1000 * (x div 1000) + x mod 1000" "y = 1000 * (y div 1000) + y mod 1000"
    "x - y = 1000 * ((x - y) div 1000) + (x - y) mod 1000"
    by simp_all
  moreover have "x mod 1000 < 1000" "y mod 1000 < 1000" "(x - y) mod 1000 < 1000" by simp_all
  ultimately show "x div 1000 - y div 1000 \<le> (x - y) div 1000 + 1" "(x - y) div 1000 \<le> x div 1000 - y div 1000"
    using assms by linarith+
qed

lemma wrapped_difference:
  assumes "x \<le> y" and "x + 4294967294 \<le> d + y" and "y < 0xFFFFFFFF"
  shows "unat (of_nat x - of_nat y :: u32) \<le> d + 2"
proof (cases "x = y")
  case False
  have "(of_nat x - of_nat y :: u32) = of_nat (2 ^ 32 - (y - x))"
    using assms(1,3) by (simp add: of_nat_diff)
  then have "unat (of_nat x - of_nat y :: u32) = 2 ^ 32 - (y - x)"
    using assms(1) False by (simp add: unat_of_nat)
  then show ?thesis using assms by simp
qed simp

text \<open>The difference of two readings with a restart at \<open>r\<close> in between.\<close>

lemma restart_difference:
  assumes "s \<le> a" and "a \<le> t" and "r \<le> t" and "0xFFFFFFFF \<le> (r - s) div 1000" and "(a - s) div 1000 < 0xFFFFFFFF"
    and "(t - a) div 1000 < 0xFFFFFFFF"
  shows "unat (of_nat ((t - r) div 1000) - of_nat ((a - s) div 1000) :: u32) \<le> (t - a) div 1000 + 2"
proof -
  let ?T = "(t - r) div 1000" and ?A = "(a - s) div 1000" and ?D = "(t - a) div 1000"
  have q: "t - r = 1000 * ?T + (t - r) mod 1000" "a - s = 1000 * ?A + (a - s) mod 1000" "t - a = 1000 * ?D + (t - a) mod 1000"
    by simp_all
  have m: "(t - r) mod 1000 < 1000" "(a - s) mod 1000 < 1000" "(t - a) mod 1000 < 1000" by simp_all
  have r: "1000 * 0xFFFFFFFF \<le> r - s" using assms(4) by (simp add: less_eq_div_iff_mult_less_eq)
  have sum: "t - r + (r - s) = t - a + (a - s)" using assms(1,2,3) r by linarith
  have "?T \<le> ?A" using sum r q m assms(6) by linarith
  moreover have "?T + 4294967294 \<le> ?D + ?A" using sum r q m by linarith
  ultimately show ?thesis using assms(5) by (rule wrapped_difference)
qed

text \<open>C33. The clock of the desktop platforms never makes a timeout fire early: over fewer than 2^32 - 1 microseconds, with
  any calls in between, the difference of two readings is at most the time that has passed, rounded up, plus one, also
  where the clock restarts; where it does not restart it is not less than the time that has passed either.
\<close>

theorem clock_never_fast:
  assumes "ck_start c = Some s" and "s \<le> hd ts" and "sorted ts" and "ts \<noteq> []" and "(last ts - hd ts) div 1000 < 0xFFFFFFFF"
  shows "unat (last (clock_calls ts c) - hd (clock_calls ts c)) \<le> (last ts - hd ts) div 1000 + 2 \<and>
     ((last ts - s) div 1000 < 0xFFFFFFFF \<longrightarrow>
        (last ts - hd ts) div 1000 \<le> unat (last (clock_calls ts c) - hd (clock_calls ts c)))"
proof -
  obtain a us where ts: "ts = a # us" using assms(4) by (cases ts) auto
  define t where "t = last ts"
  have a: "s \<le> a" "a \<le> t" using assms(2,3) ts sorted_le_last [of ts a] by (auto simp: t_def)
  have ends: "hd ts = a" "last ts = t" by (simp_all add: ts t_def)
  have mono: "u \<le> t" if "u \<in> set ts" for u using sorted_le_last [OF assms(3) that] by (simp add: t_def)
  have running: "unat (last (clock_calls ts c) - hd (clock_calls ts c)) = (t - s') div 1000 - (a - s') div 1000"
    if c: "clock_calls ts c = map (\<lambda>t. of_nat ((t - s') div 1000)) ts" and b: "(t - s') div 1000 < 0xFFFFFFFF" for s'
  proof -
    have "(a - s') div 1000 \<le> (t - s') div 1000" using a by (intro div_le_mono diff_le_mono)
    then show ?thesis using b unfolding c hd_map [OF assms(4)] last_map [OF assms(4)] ends by (intro of_nat_diff_u32) auto
  qed
  show ?thesis
  proof (cases "0xFFFFFFFF \<le> (a - s) div 1000")
    case True
    have "(u - a) div 1000 < 0xFFFFFFFF" if "u \<in> set us" for u
    proof -
      have "(u - a) div 1000 \<le> (t - a) div 1000" using mono [of u] that ts by (intro div_le_mono diff_le_mono) auto
      then show ?thesis using assms(5) ends by simp
    qed
    then have "clock_calls us (c\<lparr> ck_start := Some a \<rparr>) = map (\<lambda>u. of_nat ((u - a) div 1000)) us"
      using assms(3) ts by (intro clock_calls_running) auto
    then have "clock_calls ts c = map (\<lambda>u. of_nat ((u - a) div 1000)) ts"
      using True assms(1) ts by (simp add: clock_micros_def started_def)
    moreover have "(a - s) div 1000 \<le> (t - s) div 1000" using a by (intro div_le_mono diff_le_mono)
    ultimately show ?thesis using running [of a] assms(5) ends True by simp
  next
    case False
    from clock_calls_last [OF assms] show ?thesis
    proof
      assume run: "\<forall>t\<in>set ts. (t - s) div 1000 < 0xFFFFFFFF"
      have "\<forall>t\<in>set ts. s \<le> t" using a(1) assms(3) ts by auto
      with run have "clock_calls ts c = map (\<lambda>t. of_nat ((t - s) div 1000)) ts"
        using assms(1,3) by (intro clock_calls_running) auto
      moreover have "(t - s) div 1000 < 0xFFFFFFFF" using run assms(4) by (simp add: t_def)
      moreover have "t - s - (a - s) = t - a" using a by simp
      ultimately show ?thesis
        using running [of s] div_diff_bounds [OF diff_le_mono, OF a(2), of s] ends by simp
    next
      assume "\<exists>r\<in>set ts. 0xFFFFFFFF \<le> (r - s) div 1000 \<and> last (clock_calls ts c) = of_nat ((last ts - r) div 1000)"
      then obtain r where r: "r \<in> set ts" "0xFFFFFFFF \<le> (r - s) div 1000"
        "last (clock_calls ts c) = of_nat ((t - r) div 1000)" by (auto simp: t_def)
      have "hd (clock_calls ts c) = of_nat ((a - s) div 1000)"
        using False assms(1) ts by (simp add: clock_micros_def started_def)
      moreover have "r \<le> t" using mono r(1) .
      moreover have "(r - s) div 1000 \<le> (t - s) div 1000" using \<open>r \<le> t\<close> by (intro div_le_mono diff_le_mono)
      moreover have "unat (of_nat ((t - r) div 1000) - of_nat ((a - s) div 1000) :: u32) \<le> (t - a) div 1000 + 2"
        using restart_difference [of s a t r] a \<open>r \<le> t\<close> r(2) False assms(5) ends by simp
      ultimately show ?thesis using r(2,3) ends by simp
    qed
  qed
qed

theorem clock_never_fast_witness:
  "unat (last (clock_calls [1000, 3000, 5500] \<lparr> ck_start = Some 0, ck_start_ms = None \<rparr>) -
     hd (clock_calls [1000, 3000, 5500] \<lparr> ck_start = Some 0, ck_start_ms = None \<rparr>)) \<le> 6"
  using clock_never_fast [of "\<lparr> ck_start = Some 0, ck_start_ms = None \<rparr>" 0 "[1000, 3000, 5500]"] by simp

subsection \<open>The serial ports\<close>

text \<open>
  \<^verbatim>\<open>LINUX\<close>: \<open>received\<close> are the bytes the driver has buffered. \<^verbatim>\<open>WINX86\<close>: the port is set up with time outs, so that
  \<^verbatim>\<open>ReadFile\<close> succeeds with no byte when nothing arrives; \<open>ok\<close> is its result and \<open>stack\<close> the uninitialised variable.
\<close>

definition serialDataAvailable :: "u8 list \<Rightarrow> nat" where
  "serialDataAvailable received = length received"

definition serialGetCharacter :: "u8 list \<Rightarrow> int \<times> u8 list" where
  "serialGetCharacter received = (case received of [] \<Rightarrow> (-1, []) | b # bs \<Rightarrow> (uint b, bs))"

definition win_read :: "bool \<Rightarrow> nat \<Rightarrow> u8 list \<Rightarrow> u8 list \<Rightarrow> int \<times> u8 list \<times> u8 list" where
  "win_read ok buffLen buffer received =
     (if \<not> ok then (-1, buffer, received)
      else let got = take buffLen received in (int (length got), got @ drop (length got) buffer, drop buffLen received))"

definition getByte :: "bool \<Rightarrow> u8 \<Rightarrow> u8 list \<Rightarrow> int \<times> u8 list" where
  "getByte ok stack received =
     (case win_read ok 1 [stack] received of (n, buff, received) \<Rightarrow>
        if n = -1 then (-1, received) else (uint (hd buff), received))"

text \<open>The two agree on a port that has a byte; on an empty one \<^verbatim>\<open>getByte\<close> returns the uninitialised variable.\<close>

lemma serial_ports_agree: "received \<noteq> [] \<Longrightarrow> getByte True stack received = serialGetCharacter received"
  by (cases received) (auto simp: getByte_def win_read_def serialGetCharacter_def)

lemma getByte_makes_bytes_up:
  "getByte True stack [] = (uint stack, [])" "fst (serialGetCharacter []) = -1" "fst (getByte False stack received) = -1"
  by (simp_all add: getByte_def win_read_def serialGetCharacter_def)

subsection \<open>The serial ports of Zephyr\<close>

text \<open>
  The ring buffers are Zephyr's: parameters. \<open>zp_heap\<close> holds the ring buffers that are allocated (the structure and its
  bytes are allocated and freed together), \<open>zp_ringbuffers\<close> is the map from devices to their addresses, and
  \<open>zp_fresh\<close> the next address, which is not used again.
\<close>

record 'r ring_api =
  rb_new :: 'r
  rb_put :: "u8 \<Rightarrow> 'r \<Rightarrow> 'r"
  rb_get :: "'r \<Rightarrow> (u8 \<times> 'r) option"
  rb_is_empty :: "'r \<Rightarrow> bool"

record 'r zephyr =
  zp_ringbuffers :: "nat \<rightharpoonup> nat"
  zp_heap :: "nat \<rightharpoonup> 'r"
  zp_fresh :: nat

datatype zephyr_error = Null_Pointer | Freed_Memory

type_synonym 'a checked = "zephyr_error + 'a"

definition ring_at :: "'r zephyr \<Rightarrow> nat \<Rightarrow> 'r checked" where
  "ring_at z address = (case zp_heap z address of None \<Rightarrow> Inl Freed_Memory | Some r \<Rightarrow> Inr r)"

definition serial_open :: "'r ring_api \<Rightarrow> nat option \<Rightarrow> 'r zephyr \<Rightarrow> (nat option \<times> 'r zephyr) checked" where
  "serial_open api device_get_binding z =
     (case device_get_binding of None \<Rightarrow> Inl Null_Pointer
      | Some uart \<Rightarrow>
          let r = zp_fresh z; z = z\<lparr> zp_heap := (zp_heap z)(r \<mapsto> rb_new api), zp_fresh := r + 1 \<rparr> in
          Inr (case zp_ringbuffers z uart of
                 None \<Rightarrow> (Some uart, z\<lparr> zp_ringbuffers := (zp_ringbuffers z)(uart \<mapsto> r) \<rparr>)
               | Some _ \<Rightarrow> (None, z)))"

definition serial_close :: "nat option \<Rightarrow> 'r zephyr \<Rightarrow> 'r zephyr checked" where
  "serial_close device_get_binding z =
     (case Option.bind device_get_binding (zp_ringbuffers z) of None \<Rightarrow> Inl Null_Pointer
      | Some r \<Rightarrow> (case ring_at z r of Inl e \<Rightarrow> Inl e | Inr _ \<Rightarrow> Inr (z\<lparr> zp_heap := (zp_heap z)(r := None) \<rparr>)))"

definition serial_get_char :: "'r ring_api \<Rightarrow> u8 \<Rightarrow> nat \<Rightarrow> 'r zephyr \<Rightarrow> (u8 \<times> 'r zephyr) checked" where
  "serial_get_char api stack dev z =
     (case zp_ringbuffers z dev of None \<Rightarrow> Inr (stack, z)
      | Some a \<Rightarrow> (case ring_at z a of Inl e \<Rightarrow> Inl e
          | Inr r \<Rightarrow> Inr (case rb_get api r of None \<Rightarrow> (stack, z)
                           | Some (b, r) \<Rightarrow> (b, z\<lparr> zp_heap := (zp_heap z)(a \<mapsto> r) \<rparr>))))"

definition serial_char_available :: "'r ring_api \<Rightarrow> nat \<Rightarrow> 'r zephyr \<Rightarrow> bool checked" where
  "serial_char_available api dev z =
     (case zp_ringbuffers z dev of None \<Rightarrow> Inr False
      | Some a \<Rightarrow> (case ring_at z a of Inl e \<Rightarrow> Inl e | Inr r \<Rightarrow> Inr (\<not> rb_is_empty api r)))"

text \<open>The interrupt: \<open>fifo\<close> are the bytes \<^verbatim>\<open>uart_fifo_read\<close> delivers before it returns 0.\<close>

fun uart_irq_callback :: "'r ring_api \<Rightarrow> nat \<Rightarrow> u8 list \<Rightarrow> 'r zephyr \<Rightarrow> 'r zephyr checked" where
  "uart_irq_callback api dev [] z = Inr z"
| "uart_irq_callback api dev (tmp # fifo) z =
     (case zp_ringbuffers z dev of None \<Rightarrow> uart_irq_callback api dev fifo z
      | Some a \<Rightarrow> (case ring_at z a of Inl e \<Rightarrow> Inl e
          | Inr r \<Rightarrow> uart_irq_callback api dev fifo (z\<lparr> zp_heap := (zp_heap z)(a \<mapsto> rb_put api tmp r) \<rparr>)))"

text \<open>The loop of a reader: it reads while a character is available, at most \<open>fuel\<close> times.\<close>

fun serial_read_all :: "'r ring_api \<Rightarrow> u8 \<Rightarrow> nat \<Rightarrow> nat \<Rightarrow> 'r zephyr \<Rightarrow> (u8 list \<times> 'r zephyr) checked" where
  "serial_read_all api stack dev 0 z = Inr ([], z)"
| "serial_read_all api stack dev (Suc fuel) z =
     (case serial_char_available api dev z of Inl e \<Rightarrow> Inl e
      | Inr False \<Rightarrow> Inr ([], z)
      | Inr True \<Rightarrow> (case serial_get_char api stack dev z of Inl e \<Rightarrow> Inl e
          | Inr (b, z) \<Rightarrow> (case serial_read_all api stack dev fuel z of Inl e \<Rightarrow> Inl e | Inr (bs, z) \<Rightarrow> Inr (b # bs, z))))"

text \<open>What Zephyr documents: a queue of at most \<open>mtu\<close> bytes, where a byte that does not fit is dropped.\<close>

definition ring_queue :: "'r ring_api \<Rightarrow> nat \<Rightarrow> ('r \<Rightarrow> u8 list) \<Rightarrow> bool" where
  "ring_queue api mtu content \<longleftrightarrow> content (rb_new api) = [] \<and>
     (\<forall>b r. content (rb_put api b r) = (if length (content r) < mtu then content r @ [b] else content r)) \<and>
     (\<forall>r. map_option (map_prod id content) (rb_get api r) = (case content r of [] \<Rightarrow> None | b # bs \<Rightarrow> Some (b, bs))) \<and>
     (\<forall>r. rb_is_empty api r \<longleftrightarrow> content r = [])"

definition holds :: "('r \<Rightarrow> u8 list) \<Rightarrow> nat \<Rightarrow> u8 list \<Rightarrow> 'r zephyr \<Rightarrow> bool" where
  "holds content dev bs z \<longleftrightarrow> (\<exists>a r. zp_ringbuffers z dev = Some a \<and> zp_heap z a = Some r \<and> content r = bs)"

lemma callback_fills:
  assumes "ring_queue api mtu content" and "holds content dev old z" and "length old \<le> mtu"
  shows "\<exists>z'. uart_irq_callback api dev fifo z = Inr z' \<and> holds content dev (take mtu (old @ fifo)) z'"
  using assms(2,3)
proof (induction fifo arbitrary: z old)
  case (Cons b fifo)
  then obtain a r where z: "zp_ringbuffers z dev = Some a" "zp_heap z a = Some r" "content r = old"
    by (auto simp: holds_def)
  let ?old = "if length old < mtu then old @ [b] else old"
  let ?z = "z\<lparr> zp_heap := (zp_heap z)(a \<mapsto> rb_put api b r) \<rparr>"
  have "holds content dev ?old ?z" using assms(1) z by (auto simp: holds_def ring_queue_def)
  then obtain z' where "uart_irq_callback api dev fifo ?z = Inr z'" "holds content dev (take mtu (?old @ fifo)) z'"
    using Cons.IH [of ?old ?z] Cons.prems(2) by (auto split: if_splits)
  moreover have "take mtu (?old @ fifo) = take mtu (old @ b # fifo)" using Cons.prems(2) by (auto simp: take_Cons')
  ultimately show ?case using z by (simp add: ring_at_def)
qed simp

lemma read_all_empties:
  assumes "ring_queue api mtu content" and "holds content dev bs z" and "length bs < fuel"
  shows "\<exists>z'. serial_read_all api stack dev fuel z = Inr (bs, z') \<and> holds content dev [] z'"
  using assms(2,3)
proof (induction fuel arbitrary: z bs)
  case (Suc fuel)
  then obtain a r where z: "zp_ringbuffers z dev = Some a" "zp_heap z a = Some r" "content r = bs"
    by (auto simp: holds_def)
  show ?case
  proof (cases bs)
    case Nil
    then show ?thesis using assms(1) z Suc.prems(1) by (simp add: serial_char_available_def ring_at_def ring_queue_def)
  next
    case (Cons b bs')
    then have "map_option (map_prod id content) (rb_get api r) = Some (b, bs')"
      using assms(1) z(3) by (simp add: ring_queue_def)
    then obtain r' where r': "rb_get api r = Some (b, r')" "content r' = bs'" by auto
    have "holds content dev bs' (z\<lparr> zp_heap := (zp_heap z)(a \<mapsto> r') \<rparr>)" using z r' by (simp add: holds_def)
    from Suc.IH [OF this] Suc.prems(2) Cons obtain z' where
      "serial_read_all api stack dev fuel (z\<lparr> zp_heap := (zp_heap z)(a \<mapsto> r') \<rparr>) = Inr (bs', z')" "holds content dev [] z'"
      by auto
    moreover have "\<not> rb_is_empty api r" using assms(1) z(3) Cons by (simp add: ring_queue_def)
    ultimately show ?thesis using z r' Cons
      by (simp add: serial_char_available_def serial_get_char_def ring_at_def)
  qed
qed simp

text \<open>The serial port of Zephyr, opened once, delivers the bytes of the interrupts in order, as many as its ring buffer
  holds, and the reader ends with an empty buffer. Closing frees the buffer but leaves it registered: afterwards the port
  cannot be opened again, and reading it, closing it again and the next received byte all access freed memory.
\<close>

theorem zephyr_serial_life:
  assumes "ring_queue api mtu content" and "zp_ringbuffers z dev = None" and "mtu < fuel" and "fifo \<noteq> []"
  shows "\<exists>z1 z2 z3 z4. serial_open api (Some dev) z = Inr (Some dev, z1) \<and> uart_irq_callback api dev fifo z1 = Inr z2 \<and>
     serial_read_all api stack dev fuel z2 = Inr (take mtu fifo, z3) \<and> serial_char_available api dev z3 = Inr False \<and>
     serial_close (Some dev) z3 = Inr z4 \<and> fst (projr (serial_open api (Some dev) z4)) = None \<and>
     serial_get_char api stack dev z4 = Inl Freed_Memory \<and> serial_close (Some dev) z4 = Inl Freed_Memory \<and>
     uart_irq_callback api dev fifo z4 = Inl Freed_Memory"
proof -
  obtain z1 where z1: "serial_open api (Some dev) z = Inr (Some dev, z1)" "holds content dev [] z1"
    using assms(1,2) by (auto simp: serial_open_def Let_def holds_def ring_queue_def)
  obtain z2 where z2: "uart_irq_callback api dev fifo z1 = Inr z2" "holds content dev (take mtu fifo) z2"
    using callback_fills [OF assms(1) z1(2), of fifo] by auto
  obtain z3 where z3: "serial_read_all api stack dev fuel z2 = Inr (take mtu fifo, z3)" "holds content dev [] z3"
    using read_all_empties [OF assms(1) z2(2), of fuel stack] assms(3) by (auto simp: min_less_iff_disj)
  obtain a r where a: "zp_ringbuffers z3 dev = Some a" "zp_heap z3 a = Some r" "content r = []"
    using z3(2) by (auto simp: holds_def)
  define z4 where "z4 = z3\<lparr> zp_heap := (zp_heap z3)(a := None) \<rparr>"
  have "serial_close (Some dev) z3 = Inr z4" using a by (simp add: serial_close_def ring_at_def z4_def)
  moreover have "serial_char_available api dev z3 = Inr False"
    using a assms(1) by (simp add: serial_char_available_def ring_at_def ring_queue_def)
  moreover have freed: "zp_ringbuffers z4 dev = Some a" "ring_at z4 a = Inl Freed_Memory"
    using a by (simp_all add: z4_def ring_at_def)
  then have "fst (projr (serial_open api (Some dev) z4)) = None" "serial_get_char api stack dev z4 = Inl Freed_Memory"
    "serial_close (Some dev) z4 = Inl Freed_Memory"
    by (simp_all add: serial_open_def serial_get_char_def serial_close_def Let_def)
  moreover have "uart_irq_callback api dev fifo z4 = Inl Freed_Memory" using freed assms(4) by (cases fifo) simp_all
  ultimately show ?thesis using z1(1) z2(1) z3(1) by blast
qed

definition list_ring :: "u8 list ring_api" where
  "list_ring = \<lparr> rb_new = [], rb_put = (\<lambda>b r. if length r < 2 then r @ [b] else r),
     rb_get = (\<lambda>r. case r of [] \<Rightarrow> None | b # bs \<Rightarrow> Some (b, bs)), rb_is_empty = (\<lambda>r. r = []) \<rparr>"

theorem zephyr_serial_life_witness:
  "\<exists>z1 z2 z3. serial_open list_ring (Some 7) \<lparr> zp_ringbuffers = Map.empty, zp_heap = Map.empty, zp_fresh = 0 \<rparr> = Inr (Some 7, z1) \<and>
     uart_irq_callback list_ring 7 [65, 66, 67] z1 = Inr z2 \<and> serial_read_all list_ring 0 7 3 z2 = Inr ([65, 66], z3)"
proof -
  have "ring_queue list_ring 2 (\<lambda>r. r)" by (auto simp: ring_queue_def list_ring_def split: list.splits)
  from zephyr_serial_life [OF this, of "\<lparr> zp_ringbuffers = Map.empty, zp_heap = Map.empty, zp_fresh = 0 \<rparr>" 7 3 "[65, 66, 67]" 0]
  show ?thesis by auto
qed

end
