(* ===== verification/Message_Link.thy ===== *)
theory Message_Link
  imports Send Local_File_Laws
begin

text \<open>
  Two buses over a medium that keeps frames in order: the layers of \<^verbatim>\<open>PJON.h\<close> and of a strategy put together.

  The locale \<open>message_medium\<close> is what the bus needs of such a strategy, for a sending and a receiving device that share
  a world. Inside it every schedule of \<^verbatim>\<open>send_packet\<close> on one bus and \<^verbatim>\<open>receive\<close> on the other is shown to implement a
  queue of messages. \<open>LocalFile\<close> interprets it.
\<close>

subsection \<open>Schedules\<close>

type_synonym message = "packet_info \<times> u8 list"

text \<open>\<open>share s r\<close>: the strategy object \<open>r\<close> of a device after the other one, whose object is \<open>s\<close>, has changed the world.\<close>

fun message_run ::
  "'s strategy \<Rightarrow> ('s \<Rightarrow> 's \<Rightarrow> 's) \<Rightarrow> build \<Rightarrow> message option list \<Rightarrow> 's pjon \<Rightarrow> 's pjon \<Rightarrow> (u16 list \<times> 's pjon \<times> 's pjon) option" where
  "message_run st share b [] A B = Some ([], A, B)"
| "message_run st share b (Some (info, payload) # es) A B =
     do { (code, A) \<leftarrow> send_packet_info st b info payload (of_nat (length payload)) A;
          (codes, A, B) \<leftarrow> message_run st share b es A (on_strategy (share (pj_strategy A)) B);
          Some (code # codes, A, B) }"
| "message_run st share b (None # es) A B =
     do { (code, B) \<leftarrow> receive st b B;
          (codes, A, B) \<leftarrow> message_run st share b es (on_strategy (share (pj_strategy B)) A) B;
          Some (code # codes, A, B) }"

text \<open>
  The specification: a queue of at most \<open>q\<close> messages. A send answers \<^verbatim>\<open>PJON_ACK\<close>, a reception \<^verbatim>\<open>PJON_ACK\<close> or, if the message
  is for another device, \<^verbatim>\<open>PJON_BUSY\<close>, and \<^verbatim>\<open>PJON_FAIL\<close> if there is none.
\<close>

fun message_queue :: "('m \<Rightarrow> bool) \<Rightarrow> nat \<Rightarrow> 'm option list \<Rightarrow> 'm list \<Rightarrow> (u16 list \<times> 'm list) option" where
  "message_queue mine q [] pending = Some ([], [])"
| "message_queue mine q (Some x # es) pending =
     (if length pending < q then map_option (map_prod (Cons PJON_ACK) id) (message_queue mine q es (pending @ [x])) else None)"
| "message_queue mine q (None # es) [] = map_option (map_prod (Cons PJON_FAIL) id) (message_queue mine q es [])"
| "message_queue mine q (None # es) (x # pending) =
     map_option (if mine x then map_prod (Cons PJON_ACK) (Cons x) else map_prod (Cons PJON_BUSY) id)
       (message_queue mine q es pending)"

text \<open>The packet a bus makes of a message, and what the receiver function of another bus gets.\<close>

definition message_info :: "build \<Rightarrow> 's pjon \<Rightarrow> message \<Rightarrow> packet_info" where
  "message_info b A x = final_info b (fst (outgoing_info b (fst x) A)) (of_nat (length (snd x)))"

definition message_frame :: "build \<Rightarrow> 's pjon \<Rightarrow> message \<Rightarrow> u8 list" where
  "message_frame b A x = packet_image (message_info b A x) (snd x)"

definition message_event :: "build \<Rightarrow> 's pjon \<Rightarrow> 's pjon \<Rightarrow> message \<Rightarrow> bus_event" where
  "message_event b A B x =
     Received (snd x) (of_nat (length (snd x))) ((wire_info (message_info b A x))\<lparr> pi_custom_pointer := pj_custom_pointer B \<rparr>)"

text \<open>What a bus can send, and who it is for.\<close>

definition sendable :: "build \<Rightarrow> 's pjon \<Rightarrow> message \<Rightarrow> bool" where
  "sendable b A x \<longleftrightarrow>
     (let info = fst (outgoing_info b (fst x) A); len = of_nat (length (snd x)) in
      snd x \<noteq> [] \<and> length (snd x) < 65536 \<and> wf_info info \<and> fits b info len \<and>
      (flag (pi_header (final_info b info len)) PJON_EXT_LEN_BIT \<longrightarrow> 15 < final_length b info len) \<and>
      (include_mac b \<longrightarrow> flag (pi_header (final_info b info len)) PJON_MAC_BIT))"

definition for_bus :: "build \<Rightarrow> 's pjon \<Rightarrow> 's pjon \<Rightarrow> message \<Rightarrow> bool" where
  "for_bus b A B x \<longleftrightarrow> addressed b B (message_frame b A x) \<and>
     (include_port b \<longrightarrow> pj_port B = 0 \<or> pj_port B = pi_port (wire_info (message_info b A x)))"

definition for_another :: "build \<Rightarrow> 's pjon \<Rightarrow> 's pjon \<Rightarrow> message \<Rightarrow> bool" where
  "for_another b A B x \<longleftrightarrow> \<not> pj_router B \<and> message_frame b A x ! 0 \<noteq> ep_id (pj_tx B) \<and>
     message_frame b A x ! 0 \<noteq> PJON_BROADCAST \<and> \<not> flag (message_frame b A x ! 1) PJON_MAC_BIT"

lemma for_one: "for_another b A B x \<Longrightarrow> \<not> for_bus b A B x"
  by (auto simp: for_another_def for_bus_def addressed_def)

text \<open>None of it depends on what sending and receiving change.\<close>

lemma seed_update:
  "pj_port (A\<lparr> pj_packet_id_seed := x \<rparr>) = pj_port A" "pj_tx (A\<lparr> pj_packet_id_seed := x \<rparr>) = pj_tx A"
  by simp_all

lemma outgoing_frame:
  assumes "pj_config A' = pj_config A" and "pj_tx A' = pj_tx A" and "pj_port A' = pj_port A"
    and "pj_packet_id_seed A' = pj_packet_id_seed A"
  shows "fst (outgoing_info b info A') = fst (outgoing_info b info A)"
  by (simp only: outgoing_info_def Let_def case_prod_unfold if_distrib [of fst] if_distrib [of snd] if_distrib [of pj_port]
      if_distrib [of pj_tx] fst_conv snd_conv seed_update if_cancel assms)

lemma outgoing_fixed: "\<not> include_packet_id b \<Longrightarrow> outgoing_info b info A = (fst (outgoing_info b info A), A)"
  by (simp only: outgoing_info_def Let_def case_prod_unfold fst_conv snd_conv if_False simp_thms)

lemma outgoing_updates [simp]:
  "fst (outgoing_info b info (A\<lparr> pj_strategy := s \<rparr>)) = fst (outgoing_info b info A)"
  "fst (outgoing_info b info (A\<lparr> pj_data := d \<rparr>)) = fst (outgoing_info b info A)"
  by (rule outgoing_frame; simp)+

lemma message_updates [simp]:
  "message_info b (A\<lparr> pj_strategy := s \<rparr>) = message_info b A" "message_info b (A\<lparr> pj_data := d \<rparr>) = message_info b A"
  "message_frame b (A\<lparr> pj_strategy := s \<rparr>) = message_frame b A" "message_frame b (A\<lparr> pj_data := d \<rparr>) = message_frame b A"
  "sendable b (A\<lparr> pj_strategy := s \<rparr>) = sendable b A" "sendable b (A\<lparr> pj_data := d \<rparr>) = sendable b A"
  by (simp_all add: fun_eq_iff message_info_def message_frame_def sendable_def)

lemma message_frame_length:
  assumes "sendable b A x"
  shows "length (message_frame b A x) = final_length b (fst (outgoing_info b (fst x) A)) (of_nat (length (snd x)))"
    and "length (message_frame b A x) < packet_max_length b" and "5 < length (message_frame b A x)"
proof -
  let ?i = "fst (outgoing_info b (fst x) A)" and ?n = "of_nat (length (snd x)) :: u16"
  have n: "unat ?n = length (snd x)" and w: "wf_info ?i" and f: "fits b ?i ?n"
    using assms by (simp_all add: sendable_def Let_def unat_of_nat)
  show l: "length (message_frame b A x) = final_length b ?i ?n"
    using length_packet_image [of "final_info b ?i ?n" "snd x"] w n
    by (simp add: message_frame_def message_info_def final_length_def)
  show "length (message_frame b A x) < packet_max_length b" using f l by (simp add: fits_def)
  have "snd x \<noteq> []" using assms by (simp add: sendable_def Let_def)
  then show "5 < length (message_frame b A x)"
    using l n overhead_nat_bounds(1) [of "pi_header (final_info b ?i ?n)"] by (cases "snd x") (auto simp: final_length_def)
qed

text \<open>An order of the updates that sending and receiving make.\<close>

lemma update_order:
  "pj_strategy_update f (pj_data_update g bus) = pj_data_update g (pj_strategy_update f bus)"
  "pj_strategy_update f (pj_last_packet_info_update h bus) = pj_last_packet_info_update h (pj_strategy_update f bus)"
  "pj_strategy_update f (pj_events_update k bus) = pj_events_update k (pj_strategy_update f bus)"
  "pj_data_update g (pj_last_packet_info_update h bus) = pj_last_packet_info_update h (pj_data_update g bus)"
  "pj_data_update g (pj_events_update k bus) = pj_events_update k (pj_data_update g bus)"
  by simp_all

subsection \<open>Receiving on a bus\<close>

lemma receive_nothing:
  assumes "st_receive_frame st (of_nat (packet_max_length b)) (pj_strategy bus) = (PJON_FAIL, [], s)"
    and "0 < packet_max_length b" and "packet_max_length b \<le> 65535"
  shows "receive st b bus = Some (PJON_FAIL, bus\<lparr> pj_strategy := s \<rparr>)"
  using assms
  by (simp add: receive_def receive_loop.simps rx_fetch_def rx_init_def wr_block_def unat_of_nat)

lemma receive_foreign:
  assumes "st_receive_frame st (of_nat (packet_max_length b)) (pj_strategy bus) = (of_nat (length p), p, s)"
    and "5 < length p" and "length p \<le> packet_max_length b" and "packet_max_length b \<le> 65534" and "wf_bus b bus"
    and "\<not> pj_router bus" and "p ! 0 \<noteq> ep_id (pj_tx bus)" and "p ! 0 \<noteq> PJON_BROADCAST" and "\<not> flag (p ! 1) PJON_MAC_BIT"
  shows "\<exists>d. receive st b bus = Some (PJON_BUSY, bus\<lparr> pj_strategy := s, pj_data := d \<rparr>) \<and> length d = packet_max_length b"
proof -
  let ?d = "p @ drop (length p) (pj_data bus)" and ?rv = "(rx_init b)\<lparr> rv_batch := of_nat (length p) - 1, rv_drop := True \<rparr>"
  let ?bus = "bus\<lparr> pj_strategy := s, pj_data := ?d \<rparr>"
  have len: "length (pj_data bus) = packet_max_length b" using assms(5) by (simp add: wf_bus_def)
  have m: "1 < packet_max_length b" "unat (of_nat (packet_max_length b) :: u16) = packet_max_length b"
    using assms(2-4) by (simp_all add: unat_of_nat)
  have r: "(of_nat (length p) :: u16) \<noteq> PJON_FAIL" "(of_nat (length p) :: u16) \<noteq> 0" "(of_nat (length p) :: u16) - 1 \<noteq> 0"
    using assms(2-4) by (auto simp: PJON_FAIL_def word_unat_eq_iff unat_of_nat unat_sub word_le_nat_alt)
  have d: "?d ! 0 = p ! 0" "?d ! 1 = p ! 1" "1 < length ?d" using assms(2) by (auto simp: nth_append)
  have "rx_fetch st 0 (rx_init b) bus = Some (Inr ((rx_init b)\<lparr> rv_batch := of_nat (length p) - 1 \<rparr>), ?bus)"
    using assms(1,3) len r(1,2) by (simp add: rx_fetch_def rx_init_def wr_block_def)
  moreover have "rx_check b 0 ((rx_init b)\<lparr> rv_batch := of_nat (length p) - 1 \<rparr>) ?bus = Some (Inr ?rv)"
    using d assms(2,6-9) by (auto simp: rx_check_def rd_def rx_init_def bus_id_refused_def)
  moreover have "rx_fetch st 1 ?rv ?bus = Some (Inr (?rv\<lparr> rv_batch := of_nat (length p) - 1 - 1 \<rparr>), ?bus)"
    using r(3) by (simp add: rx_fetch_def rx_init_def)
  moreover have "rx_check b 1 (?rv\<lparr> rv_batch := of_nat (length p) - 1 - 1 \<rparr>) ?bus = Some (Inl PJON_BUSY)"
    using d assms(2,9) by (auto simp: rx_check_def rd_def rx_init_def header_refused_def Let_def)
  moreover have "1 < unat (rv_length (rx_init b))" "1 < unat (rv_length ?rv)" using m by (simp_all add: rx_init_def)
  ultimately have "receive_loop st b 0 (rx_init b) bus = Some (Inl PJON_BUSY, ?bus)"
    by (subst receive_loop.simps) (simp, subst receive_loop.simps, simp)
  then show ?thesis using len assms(3) by (intro exI [of _ ?d]) (simp add: receive_def)
qed

subsection \<open>A medium that keeps frames in order\<close>

text \<open>
  \<open>joined s r ps\<close>: the sender's object \<open>s\<close> and the receiver's object \<open>r\<close> see the same world, in which the frames \<open>ps\<close>
  wait for the receiver. A frame is taken at once and acknowledged; the receiver gets the frames in order.
\<close>

locale message_medium = bounded_strategy st "\<lambda>_. True" for st :: "'s strategy" +
  fixes share :: "'s \<Rightarrow> 's \<Rightarrow> 's" and joined :: "'s \<Rightarrow> 's \<Rightarrow> u8 list list \<Rightarrow> bool" and q m :: nat
  assumes sends: "joined s r ps \<Longrightarrow> length ps < q \<Longrightarrow> length d \<le> m \<Longrightarrow>
      \<exists>s1 s2. st_can_start st s = (True, s1) \<and> st_receive_response st (st_send_frame st d s1) = (PJON_ACK, s2) \<and>
        joined (st_send_frame st d s1) (share (st_send_frame st d s1) r) (ps @ [d]) \<and> joined s2 (share s2 r) (ps @ [d])"
    and takes: "joined s r (d # ps) \<Longrightarrow> length d \<le> m \<Longrightarrow>
      \<exists>r'. st_receive_frame st (of_nat m) r = (of_nat (length d), d, r') \<and> joined (share r' s) r' ps \<and>
        (\<forall>c. joined (share (st_send_response st c r') s) (st_send_response st c r') ps)"
    and waits: "joined s r [] \<Longrightarrow> \<exists>r'. st_receive_frame st (of_nat m) r = (PJON_FAIL, [], r') \<and> joined (share r' s) r' []"
begin

lemma send_message:
  assumes "joined (pj_strategy A) r ps" and "length ps < q" and "sendable b A (info, payload)" and "wf_bus b A"
    and "packet_max_length b = m" and "\<not> include_packet_id b" and "pj_mode A \<noteq> PJON_SIMPLEX"
  shows "\<exists>s d. send_packet_info st b info payload (of_nat (length payload)) A = Some (PJON_ACK, A\<lparr> pj_strategy := s, pj_data := d \<rparr>) \<and>
     length d = m \<and> joined s (share s r) (ps @ [message_frame b A (info, payload)])"
proof -
  let ?i = "fst (outgoing_info b info A)" and ?n = "of_nat (length payload) :: u16" and ?p = "message_frame b A (info, payload)"
  let ?d = "?p @ drop (length ?p) (pj_data A)"
  have len: "length (pj_data A) = m" using assms(4,5) by (simp add: wf_bus_def)
  note l = message_frame_length [OF assms(3)]
  have n: "unat ?n = length payload" and w: "wf_info ?i" and f: "fits b ?i ?n"
    using assms(3) by (simp_all add: sendable_def Let_def unat_of_nat)
  have small: "length ?p < 65536" using f l(1) by (simp add: fits_def)
  have "compose_packet b info (pj_data A) payload ?n A = Some (?d, of_nat (length ?p), A)"
    using compose_packet_fits [OF outgoing_fixed [OF assms(6)] w f, of payload "pj_data A"] n len assms(5) l(1)
    by (simp add: message_frame_def message_info_def)
  moreover have "(of_nat (length ?p) :: u16) \<noteq> 0" "unat (of_nat (length ?p) :: u16) = length ?p"
    using small l(3) by (auto simp: word_unat_eq_iff unat_of_nat)
  moreover have "rd_block ?d 0 (length ?p) = Some ?p" "rd ?d 0 = Some (?p ! 0)" "rd ?d 1 = Some (?p ! 1)"
    using l(3) by (auto simp: mem_defs nth_append)
  moreover obtain s1 s2 where "st_can_start st (pj_strategy A) = (True, s1)"
    "st_receive_response st (st_send_frame st ?p s1) = (PJON_ACK, s2)"
    "joined (st_send_frame st ?p s1) (share (st_send_frame st ?p s1) r) (ps @ [?p])" "joined s2 (share s2 r) (ps @ [?p])"
    using sends [OF assms(1,2), of ?p] l(2) assms(5) by auto
  ultimately have "send_packet_info st b info payload ?n A = Some (PJON_ACK, A\<lparr> pj_strategy := st_send_frame st ?p s1, pj_data := ?d \<rparr>) \<or>
      send_packet_info st b info payload ?n A = Some (PJON_ACK, A\<lparr> pj_strategy := s2, pj_data := ?d \<rparr>)"
    "joined (st_send_frame st ?p s1) (share (st_send_frame st ?p s1) r) (ps @ [?p])" "joined s2 (share s2 r) (ps @ [?p])"
    using assms(7) by (auto simp: send_packet_info_def send_packet_def with_strategy_def on_strategy_def Let_def update_order)
  moreover have "length ?d = m" using len l(2) assms(5) by simp
  ultimately show ?thesis by (auto intro!: exI [of _ ?d])
qed

lemma receive_mine:
  assumes "joined s (pj_strategy B) (message_frame b A x # ps)" and "sendable b A x" and "for_bus b A B x" and "wf_bus b B"
    and "packet_max_length b = m" and "40 \<le> m" and "m \<le> 65535" and "\<not> include_packet_id b"
  shows "\<exists>r d i. receive st b B = Some (PJON_ACK, B\<lparr> pj_strategy := r, pj_data := d, pj_last_packet_info := i,
      pj_events := pj_events B @ [message_event b A B x] \<rparr>) \<and> joined (share r s) r ps"
proof -
  let ?i = "fst (outgoing_info b (fst x) A)" and ?n = "of_nat (length (snd x)) :: u16" and ?p = "message_frame b A x"
  let ?e = "(wire_info (message_info b A x))\<lparr> pi_custom_pointer := pj_custom_pointer B \<rparr>"
  note l = message_frame_length [OF assms(2)]
  have n: "unat ?n = length (snd x)" and w: "wf_info ?i" and f: "fits b ?i ?n" and ne: "?n \<noteq> 0"
    and h: "flag (pi_header (final_info b ?i ?n)) PJON_EXT_LEN_BIT \<longrightarrow> 15 < final_length b ?i ?n"
      "include_mac b \<longrightarrow> flag (pi_header (final_info b ?i ?n)) PJON_MAC_BIT"
    using assms(2) by (auto simp: sendable_def Let_def unat_of_nat word_unat_eq_iff)
  have L: "final_length b ?i ?n < packet_max_length b" "final_length b ?i ?n < 65536" using f by (simp_all add: fits_def)
  obtain r where r: "st_receive_frame st (of_nat m) (pj_strategy B) = (of_nat (length ?p), ?p, r)" "joined (share r s) r ps"
    "\<forall>c. joined (share (st_send_response st c r) s) (st_send_response st c r) ps"
    using takes [OF assms(1)] l(2) assms(5) by auto
  have c: "tools_compose_packet b ?i (pj_data B) (snd x) ?n
      = Some (?p @ drop (length ?p) (pj_data B), of_nat (length ?p))"
    using compose_refines_image [OF w f, of "snd x" "pj_data B"] n L assms(4) l(1)
    by (simp add: message_frame_def message_info_def wf_bus_def)
  have t: "take (unat (of_nat (length ?p) :: u16)) (?p @ drop (length ?p) (pj_data B)) = ?p"
    using L l(1) by (simp add: unat_of_nat)
  have "v = of_nat m" if "unat v = m" for v :: u16 using that by auto
  then have feeds: "feeds st (packet_max_length b) True [?p] (pj_strategy B) r"
    using r(1) l(2,3) assms(5,7) by (auto intro!: exI [of _ r] exI [of _ "[]"])
  have port: "include_port b \<longrightarrow> pj_port B = 0 \<or> pj_port B = pi_port ?e" and a: "addressed b B ?p"
    using assms(3) by (simp_all add: for_bus_def)
  have addr: "addressed b B (take (unat (of_nat (length ?p) :: u16)) (?p @ drop (length ?p) (pj_data B)))"
    unfolding t by (rule a)
  have whole: "concat [?p] = take (unat (of_nat (length ?p) :: u16)) (?p @ drop (length ?p) (pj_data B))"
    unfolding t by simp
  have size: "40 \<le> packet_max_length b" "packet_max_length b \<le> 65535" "unat ?n \<le> length (snd x)"
    "length (pj_data B) = packet_max_length b"
    using assms(4-7) n by (simp_all add: wf_bus_def)
  have e: "?e = (wire_info (final_info b ?i ?n))\<lparr> pi_custom_pointer := pj_custom_pointer B \<rparr>" by (simp add: message_info_def)
  have "\<not> duplicate b B ?e" using assms(8) by (simp add: duplicate_def)
  from composed_delivered [OF assms(4) size(1,2) w f size(3) ne size(4) h c addr feeds whole e this port]
  obtain d where "receive st b B = Some (PJON_ACK, emit_event (Received (take (unat ?n) (snd x)) ?n ?e)
      (remembered b ?e (acked st (B\<lparr> pj_strategy := r, pj_data := d \<rparr>) ?p\<lparr> pj_last_packet_info := ?e \<rparr>)))"
    unfolding t by blast
  moreover obtain r' where "acked st (B\<lparr> pj_strategy := r, pj_data := d \<rparr>) ?p = B\<lparr> pj_strategy := r', pj_data := d \<rparr>"
    "joined (share r' s) r' ps"
  proof -
    let ?B = "B\<lparr> pj_strategy := r, pj_data := d \<rparr>"
    have "acked st ?B ?p = ?B \<or> acked st ?B ?p = B\<lparr> pj_strategy := st_send_response st PJON_ACK r, pj_data := d \<rparr>"
      by (simp add: acked_def on_strategy_def update_order)
    then show thesis using r(2,3) that by blast
  qed
  ultimately show ?thesis
    using n assms(8) by (auto simp: emit_event_def remembered_def message_event_def)
qed

lemma receive_others:
  assumes "joined s (pj_strategy B) (message_frame b A x # ps)" and "sendable b A x" and "for_another b A B x" and "wf_bus b B"
    and "packet_max_length b = m" and "m \<le> 65534"
  shows "\<exists>r d. receive st b B = Some (PJON_BUSY, B\<lparr> pj_strategy := r, pj_data := d \<rparr>) \<and> joined (share r s) r ps"
proof -
  let ?p = "message_frame b A x"
  note l = message_frame_length [OF assms(2)]
  obtain r where "st_receive_frame st (of_nat m) (pj_strategy B) = (of_nat (length ?p), ?p, r)" "joined (share r s) r ps"
    using takes [OF assms(1)] l(2) assms(5) by auto
  then show ?thesis using receive_foreign [of st b B ?p r] assms(3-6) l by (auto simp: for_another_def)
qed

text \<open>A reception takes the first message from the queue, or finds it empty.\<close>

lemma receive_next:
  assumes m: "packet_max_length b = m" "40 \<le> m" "m \<le> 65534" and b: "\<not> include_packet_id b"
    and who: "\<And>x. x \<in> set pending \<Longrightarrow> sendable b A x \<and> (for_bus b A B x \<or> for_another b A B x)"
    and j: "joined s (pj_strategy B) (map (message_frame b A) pending)" and wf: "wf_bus b B"
    and queue: "message_queue (for_bus b A B) q (None # es) pending = Some (codes, got)"
  shows "\<exists>code codes' xs got' rest r d i. codes = code # codes' \<and> got = xs @ got' \<and> set rest \<subseteq> set pending \<and>
     message_queue (for_bus b A B) q es rest = Some (codes', got') \<and>
     receive st b B = Some (code, B\<lparr> pj_strategy := r, pj_data := d, pj_last_packet_info := i,
       pj_events := pj_events B @ map (message_event b A B) xs \<rparr>) \<and>
     joined (share r s) r (map (message_frame b A) rest)"
proof (cases pending)
  case Nil
  then obtain codes' where k: "message_queue (for_bus b A B) q es [] = Some (codes', got)" "codes = PJON_FAIL # codes'"
    using queue by auto
  obtain r where r: "st_receive_frame st (of_nat m) (pj_strategy B) = (PJON_FAIL, [], r)" "joined (share r s) r []"
    using waits [of s "pj_strategy B"] j Nil by auto
  have "receive st b B = Some (PJON_FAIL, B\<lparr> pj_strategy := r, pj_data := pj_data B,
      pj_last_packet_info := pj_last_packet_info B, pj_events := pj_events B @ map (message_event b A B) [] \<rparr>)"
    using receive_nothing [of st b B r] r(1) m by simp
  moreover have "got = [] @ got" "set [] \<subseteq> set pending" "joined (share r s) r (map (message_frame b A) [])" using r(2) by simp_all
  ultimately show ?thesis using k by blast
next
  case (Cons x rest)
  have x: "sendable b A x" "for_bus b A B x \<or> for_another b A B x" using who [of x] Cons by auto
  have j: "joined s (pj_strategy B) (message_frame b A x # map (message_frame b A) rest)" using j Cons by simp
  obtain codes' got' where k: "message_queue (for_bus b A B) q es rest = Some (codes', got')"
    "(codes, got) = (if for_bus b A B x then (PJON_ACK # codes', x # got') else (PJON_BUSY # codes', got'))"
    using queue Cons by (auto split: if_splits)
  show ?thesis
  proof (cases "for_bus b A B x")
    case True
    obtain r d i where "receive st b B = Some (PJON_ACK, B\<lparr> pj_strategy := r, pj_data := d, pj_last_packet_info := i,
        pj_events := pj_events B @ map (message_event b A B) [x] \<rparr>)" "joined (share r s) r (map (message_frame b A) rest)"
      using receive_mine [OF j x(1) True wf m(1,2) _ b] m(3) by auto
    moreover have "codes = PJON_ACK # codes'" "got = [x] @ got'" "set rest \<subseteq> set pending" using k(2) True Cons by auto
    ultimately show ?thesis using k(1) by blast
  next
    case False
    then have "for_another b A B x" using x(2) by simp
    from receive_others [OF j x(1) this wf m(1,3)] obtain r d where
      "receive st b B = Some (PJON_BUSY, B\<lparr> pj_strategy := r, pj_data := d, pj_last_packet_info := pj_last_packet_info B,
         pj_events := pj_events B @ map (message_event b A B) [] \<rparr>)"
      "joined (share r s) r (map (message_frame b A) rest)" by auto
    moreover have "codes = PJON_BUSY # codes'" "got = [] @ got'" "set rest \<subseteq> set pending" using k(2) False Cons by auto
    ultimately show ?thesis using k(1) by blast
  qed
qed

lemma messages_delivered:
  assumes m: "packet_max_length b = m" "40 \<le> m" "m \<le> 65534" and b: "\<not> include_packet_id b" "pj_mode A \<noteq> PJON_SIMPLEX"
    and who: "\<And>x. x \<in> M \<Longrightarrow> sendable b A x \<and> (for_bus b A B x \<or> for_another b A B x)"
  shows "message_queue (for_bus b A B) q es pending = Some (codes, got) \<Longrightarrow>
     (\<forall>x. Some x \<in> set es \<longrightarrow> x \<in> M) \<Longrightarrow> set pending \<subseteq> M \<Longrightarrow>
     wf_bus b (A\<lparr> pj_strategy := sA, pj_data := dA \<rparr>) \<Longrightarrow>
     wf_bus b (B\<lparr> pj_strategy := sB, pj_data := dB, pj_last_packet_info := iB, pj_events := eB \<rparr>) \<Longrightarrow>
     joined sA sB (map (message_frame b A) pending) \<Longrightarrow>
     \<exists>A' B'. message_run st share b es (A\<lparr> pj_strategy := sA, pj_data := dA \<rparr>)
         (B\<lparr> pj_strategy := sB, pj_data := dB, pj_last_packet_info := iB, pj_events := eB \<rparr>) = Some (codes, A', B') \<and>
       pj_events B' = eB @ map (message_event b A B) got"
proof (induction es arbitrary: pending codes got sA dA sB dB iB eB)
  case (Cons e es)
  note IH = Cons.IH and prems = Cons.prems
  show ?case
  proof (cases e)
    case (Some x)
    obtain info payload where x: "x = (info, payload)" by (cases x)
    let ?A = "A\<lparr> pj_strategy := sA, pj_data := dA \<rparr>"
    obtain codes' where k: "length pending < q" "message_queue (for_bus b A B) q es (pending @ [x]) = Some (codes', got)"
      "codes = PJON_ACK # codes'" using prems(1) Some by (auto split: if_splits)
    obtain s d where s: "send_packet_info st b info payload (of_nat (length payload)) ?A
        = Some (PJON_ACK, A\<lparr> pj_strategy := s, pj_data := d \<rparr>)" "length d = m"
      "joined s (share s sB) (map (message_frame b A) (pending @ [x]))"
      using send_message [of ?A sB "map (message_frame b A) pending" b info payload] prems Some k(1) m(1) b who [of x] x by auto
    have "wf_bus b (A\<lparr> pj_strategy := s, pj_data := d \<rparr>)"
      "wf_bus b (B\<lparr> pj_strategy := share s sB, pj_data := dB, pj_last_packet_info := iB, pj_events := eB \<rparr>)"
      using prems(4,5) s(2) m(1) by (simp_all add: wf_bus_def)
    from IH [OF k(2) _ _ this s(3)]  prems(2,3) Some obtain A' B' where "message_run st share b es (A\<lparr> pj_strategy := s, pj_data := d \<rparr>)
        (B\<lparr> pj_strategy := share s sB, pj_data := dB, pj_last_packet_info := iB, pj_events := eB \<rparr>) = Some (codes', A', B')"
      "pj_events B' = eB @ map (message_event b A B) got" by auto
    then show ?thesis using s(1) x k(3) Some by (simp add: on_strategy_def update_order)
  next
    case None
    let ?B = "B\<lparr> pj_strategy := sB, pj_data := dB, pj_last_packet_info := iB, pj_events := eB \<rparr>"
    have same: "for_bus b A ?B = for_bus b A B" "for_another b A ?B = for_another b A B"
      "message_event b A ?B = message_event b A B"
      by (simp_all add: fun_eq_iff for_bus_def for_another_def message_event_def addressed_def)
    have q: "message_queue (for_bus b A ?B) q (None # es) pending = Some (codes, got)" using prems(1) None same by simp
    have j: "joined sA (pj_strategy ?B) (map (message_frame b A) pending)" using prems(6) by simp
    have "sendable b A x \<and> (for_bus b A ?B x \<or> for_another b A ?B x)" if "x \<in> set pending" for x
      unfolding same using who prems(3) that by blast
    from receive_next [OF m b(1) this j prems(5) q] obtain code codes' xs got' rest r d i where
      k: "codes = code # codes'" "got = xs @ got'" "set rest \<subseteq> set pending" "message_queue (for_bus b A B) q es rest = Some (codes', got')"
      and r: "receive st b ?B = Some (code, B\<lparr> pj_strategy := r, pj_data := d, pj_last_packet_info := i,
          pj_events := eB @ map (message_event b A B) xs \<rparr>)" "joined (share r sA) r (map (message_frame b A) rest)"
      unfolding same by (auto simp: update_order)
    have "wf_bus b (A\<lparr> pj_strategy := share r sA, pj_data := dA \<rparr>)"
      "wf_bus b (B\<lparr> pj_strategy := r, pj_data := d, pj_last_packet_info := i, pj_events := eB @ map (message_event b A B) xs \<rparr>)"
      using prems(4) receive_safe [OF prems(5)] r(1) m by (simp_all add: wf_bus_def)
    note wf = this
    have "set rest \<subseteq> M" using k(3) prems(3) by (rule subset_trans)
    from IH [OF k(4) _ this wf r(2)] prems(2) None obtain A' B' where
      "message_run st share b es (A\<lparr> pj_strategy := share r sA, pj_data := dA \<rparr>) (B\<lparr> pj_strategy := r, pj_data := d,
        pj_last_packet_info := i, pj_events := eB @ map (message_event b A B) xs \<rparr>) = Some (codes', A', B')"
      "pj_events B' = eB @ map (message_event b A B) xs @ map (message_event b A B) got'" by auto
    then show ?thesis using r(1) k(1,2) None by (simp add: on_strategy_def update_order)
  qed
qed simp

end

subsection \<open>The shared file is such a medium\<close>

definition lf_share :: "'s local_file option \<Rightarrow> 's local_file option \<Rightarrow> 's local_file option" where
  "lf_share s r = (case s of None \<Rightarrow> r | Some s \<Rightarrow> map_option (\<lambda>r. r\<lparr> lf_state := lf_state s \<rparr>) r)"

text \<open>What is written into the file is read from it, and waiting does not change it.\<close>

definition disk :: "('s, 'z) lf_world_scheme \<Rightarrow> bool" where
  "disk lw \<longleftrightarrow> (\<forall>f w. lw_file lw (lw_put lw f w) = Some f) \<and> (\<forall>ms w. lw_file lw (pf_delay lw ms w) = lw_file lw w)"

definition lf_joined ::
  "lf_config \<Rightarrow> build \<Rightarrow> ('s, 'z) lf_world_scheme \<Rightarrow> 's local_file option \<Rightarrow> 's local_file option \<Rightarrow> u8 list list \<Rightarrow> bool" where
  "lf_joined c b lw s r ps \<longleftrightarrow> disk lw \<and> packet_max_length b \<le> 65535 \<and>
     (\<exists>writer reader f. s = Some writer \<and> r = Some reader \<and> lf_open writer \<and> lf_open reader \<and>
        lf_state reader = lf_state writer \<and> lw_file lw (lf_state writer) = Some f \<and>
        lf_sees (lf_queue_size c) f (lf_last_read reader) ps)"

lemma lf_joined_sends:
  assumes "lf_joined c b lw s r ps" and "length ps < lf_queue_size c" and "length d \<le> packet_max_length b"
  shows "\<exists>s'. st_can_start (lf_strategy c b lw) s = (True, s) \<and> st_send_frame (lf_strategy c b lw) d s = s' \<and>
     st_receive_response (lf_strategy c b lw) s' = (PJON_ACK, s') \<and> lf_joined c b lw s' (lf_share s' r) (ps @ [d])"
proof -
  obtain writer reader f where j: "disk lw" "packet_max_length b \<le> 65535" "s = Some writer" "r = Some reader" "lf_open writer"
    "lf_open reader" "lw_file lw (lf_state writer) = Some f" "lf_sees (lf_queue_size c) f (lf_last_read reader) ps"
    using assms(1) by (auto simp: lf_joined_def)
  from lf_send_frame_record [OF j(5,7) assms(3) j(2)] obtain x where x: "holds_frame x d"
    "lf_send_frame b lw d writer = (case lf_write_packet x f of (ok, f) \<Rightarrow>
      Some (writer\<lparr> lf_state := lw_put lw f (lf_state writer), lf_last_send_result := (if ok then PJON_ACK else PJON_FAIL) \<rparr>))"
    by blast
  from lf_sees_write [OF j(8) assms(2) x(1)] obtain f' where f': "lf_write_packet x f = (True, f')"
    "lf_sees (lf_queue_size c) f' (lf_last_read reader) (ps @ [d])" by blast
  let ?s = "Some (writer\<lparr> lf_state := lw_put lw f' (lf_state writer), lf_last_send_result := PJON_ACK \<rparr>)"
  have "lf_joined c b lw ?s (lf_share ?s r) (ps @ [d])"
    using j f'(2) by (auto simp: lf_joined_def lf_share_def disk_def)
  then show ?thesis using j x(2) f'(1)
    by (auto simp: lf_strategy_def lift_call_def lift_update_def lf_can_start_def lf_receive_response_def)
qed

lemma lf_joined_takes:
  assumes "lf_joined c b lw s r (d # ps)" and "length d \<le> packet_max_length b"
  shows "\<exists>r'. st_receive_frame (lf_strategy c b lw) (of_nat (packet_max_length b)) r = (of_nat (length d), d, r') \<and>
     (\<forall>k. st_send_response (lf_strategy c b lw) k r' = r') \<and> lf_joined c b lw (lf_share r' s) r' ps"
proof -
  obtain writer reader f where j: "disk lw" "packet_max_length b \<le> 65535" "s = Some writer" "r = Some reader" "lf_open writer"
    "lf_open reader" "lf_state reader = lf_state writer" "lw_file lw (lf_state writer) = Some f"
    "lf_sees (lf_queue_size c) f (lf_last_read reader) (d # ps)"
    using assms(1) by (auto simp: lf_joined_def)
  from lf_sees_read [OF j(9) refl] obtain x reader' where x: "lf_read_packet c f reader = (Some x, reader')" "holds_frame x d"
    "lf_state reader' = lf_state reader" "lf_open reader' = lf_open reader"
    "lf_sees (lf_queue_size c) f (lf_last_read reader') ps" by auto
  have on_disk: "lw_file lw (lf_state reader) = Some f" using j(7,8) by simp
  have "unat (of_nat (packet_max_length b) :: u16) = packet_max_length b" using j(2) by (simp add: unat_of_nat)
  then have "lf_receive_frame c lw (of_nat (packet_max_length b)) reader = Some ((of_nat (length d), d), reader')"
    using lf_receive_frame_record [OF j(6) on_disk x(1,2), of "of_nat (packet_max_length b)"] assms(2) by simp
  moreover have "lf_joined c b lw (lf_share (Some reader') s) (Some reader') ps"
    using j x by (auto simp: lf_joined_def lf_share_def)
  ultimately show ?thesis using j(4)
    by (intro exI [of _ "Some reader'"]) (simp add: lf_strategy_def lift_call_def lf_send_response_def)
qed

lemma lf_joined_waits:
  assumes "lf_joined c b lw s r []"
  shows "\<exists>r'. st_receive_frame (lf_strategy c b lw) (of_nat (packet_max_length b)) r = (PJON_FAIL, [], r') \<and>
     lf_joined c b lw (lf_share r' s) r' []"
proof -
  obtain writer reader f where j: "disk lw" "packet_max_length b \<le> 65535" "s = Some writer" "r = Some reader" "lf_open writer"
    "lf_open reader" "lf_state reader = lf_state writer" "lw_file lw (lf_state writer) = Some f"
    "lf_sees (lf_queue_size c) f (lf_last_read reader) []"
    using assms(1) by (auto simp: lf_joined_def)
  let ?r = "reader\<lparr> lf_state := pf_delay lw (lf_poll_delay c) (lf_state reader) \<rparr>"
  have "lf_read_packet c f reader = (None, reader)" using lf_sees_read [OF j(9) refl] by simp
  then have "lf_receive_frame c lw (of_nat (packet_max_length b)) reader = Some ((PJON_FAIL, []), ?r)"
    using j by (simp add: lf_receive_frame_def lf_read_next_packet_def)
  moreover have "lf_joined c b lw (lf_share (Some ?r) s) (Some ?r) []"
    using j by (auto simp: lf_joined_def lf_share_def disk_def)
  ultimately show ?thesis using j(4)
    by (intro exI [of _ "Some ?r"]) (simp add: lf_strategy_def lift_call_def)
qed

interpretation lf_medium: message_medium "lf_strategy c b lw" lf_share "lf_joined c b lw" "lf_queue_size c" "packet_max_length b"
  for c b lw
proof (unfold_locales, goal_cases)
  case (1 s r ps d)
  then show ?case using lf_joined_sends by metis
next
  case (2 s r d ps)
  then show ?case using lf_joined_takes by metis
next
  case (3 s r)
  then show ?case by (rule lf_joined_waits)
qed

subsection \<open>Messages through a shared file\<close>

text \<open>C29. Two programs over one file, from a new file on: whatever one bus sends with \<^verbatim>\<open>send_packet\<close> is answered with
  \<^verbatim>\<open>PJON_ACK\<close>, and the other bus, polling with \<^verbatim>\<open>receive\<close> so often that the ring is never full, hands exactly the
  messages that are for it to its receiver function, in order and each once, with the description the sender gave; it
  answers \<^verbatim>\<open>PJON_BUSY\<close> to those for other devices and \<^verbatim>\<open>PJON_FAIL\<close> when there is none. This holds for schedules of any length.\<close>

theorem lf_messages:
  assumes "disk lw" and "2 \<le> lf_queue_size c" and "lf_queue_size c \<le> 254"
    and "lw_file lw w = Some \<lparr> lf_last = 0, lf_index = replicate (lf_queue_size c) 0,
                              lf_records = replicate (lf_queue_size c) (empty_record b) \<rparr>"
    and "pj_strategy A = Some ((new_local_file w)\<lparr> lf_open := True \<rparr>)" and "pj_strategy B = Some ((new_local_file w)\<lparr> lf_open := True \<rparr>)"
    and "wf_bus b A" and "wf_bus b B" and "pj_mode A \<noteq> PJON_SIMPLEX"
    and "40 \<le> packet_max_length b" and "packet_max_length b \<le> 65534" and "\<not> include_packet_id b"
    and "\<forall>x. Some x \<in> set es \<longrightarrow> sendable b A x \<and> (for_bus b A B x \<or> for_another b A B x)"
    and "message_queue (for_bus b A B) (lf_queue_size c) es [] = Some (codes, got)"
  shows "\<exists>A' B'. message_run (lf_strategy c b lw) lf_share b es A B = Some (codes, A', B') \<and>
     pj_events B' = pj_events B @ map (message_event b A B) got"
proof -
  have "lf_joined c b lw (pj_strategy A) (pj_strategy B) (map (message_frame b A) [])"
    using assms(1,4-6,11) lf_sees_new [OF assms(2,3)] by (auto simp: lf_joined_def new_local_file_def)
  from lf_medium.messages_delivered [where M = "{x. Some x \<in> set es}" and dA = "pj_data A" and dB = "pj_data B"
      and iB = "pj_last_packet_info B" and eB = "pj_events B", OF refl assms(10-12,9) _ assms(14) _ _ _ _ this] assms(7,8,13)
  show ?thesis by simp
qed

text \<open>Device 45 sends two messages to device 12 over a file.\<close>

definition sample_ring :: "lf_file option" where
  "sample_ring = Some \<lparr> lf_last = 0, lf_index = replicate (lf_queue_size sample_lf) 0,
     lf_records = replicate (lf_queue_size sample_lf) (empty_record default_build) \<rparr>"

definition sample_file_device :: "u8 \<Rightarrow> (lf_file option) local_file option pjon" where
  "sample_file_device i = sample_device i (Some ((new_local_file sample_ring)\<lparr> lf_open := True \<rparr>))"

lemma sample_file_device_facts:
  "pj_strategy (sample_file_device i) = Some ((new_local_file sample_ring)\<lparr> lf_open := True \<rparr>)"
  "wf_bus default_build (sample_file_device i)" "pj_mode (sample_file_device i) \<noteq> PJON_SIMPLEX" "pj_events (sample_file_device i) = []"
  by (simp_all add: sample_file_device_def PJON_SIMPLEX_def)

lemma sample_disk_facts:
  "disk sample_disk" "2 \<le> lf_queue_size sample_lf" "lf_queue_size sample_lf \<le> 254"
  "lw_file sample_disk sample_ring = Some \<lparr> lf_last = 0, lf_index = replicate (lf_queue_size sample_lf) 0,
     lf_records = replicate (lf_queue_size sample_lf) (empty_record default_build) \<rparr>"
  by (simp_all add: disk_def sample_disk_def sample_lf_def sample_ring_def)

lemma sample_message:
  "sendable default_build (sample_file_device 45) (sample_info, [x])"
  "for_bus default_build (sample_file_device 45) (sample_file_device 12) (sample_info, [x])"
proof -
  have o: "fst (outgoing_info default_build sample_info (sample_file_device 45)) = sample_info"
    by (simp add: outgoing_info_def default_build_def sample_info_def PJON_NO_HEADER_def sample_file_device_def)
  show "sendable default_build (sample_file_device 45) (sample_info, [x])"
    using sample_fits by (simp add: sendable_def o flag_simps)
  have "message_frame default_build (sample_file_device 45) (sample_info, [x]) = packet_image sample_info [x]"
    by (simp add: message_frame_def message_info_def o sample_fits)
  moreover have "packet_image sample_info [x] ! 0 = 12" "packet_image sample_info [x] ! 1 = 6"
    using image_positions(1,2) [OF refl, of sample_info "[x]"] sample_fits(5) by (simp_all add: sample_info_def)
  ultimately show "for_bus default_build (sample_file_device 45) (sample_file_device 12) (sample_info, [x])"
    by (simp add: for_bus_def addressed_def sample_file_device_def flag_def const_defs)
qed

theorem lf_messages_witness:
  "\<exists>A' B' i j. message_run (lf_strategy sample_lf default_build sample_disk) lf_share default_build
       [Some (sample_info, [64]), Some (sample_info, [65]), None, None, None] (sample_file_device 45) (sample_file_device 12)
     = Some ([PJON_ACK, PJON_ACK, PJON_ACK, PJON_ACK, PJON_FAIL], A', B') \<and>
     pj_events B' = [Received [64] 1 i, Received [65] 1 j]"
proof -
  let ?es = "[Some (sample_info, [64]), Some (sample_info, [65]), None, None, None] :: message option list"
  have b: "40 \<le> packet_max_length default_build" "packet_max_length default_build \<le> 65534" "\<not> include_packet_id default_build"
    by (simp_all add: default_build_def)
  have "message_queue (for_bus default_build (sample_file_device 45) (sample_file_device 12)) (lf_queue_size sample_lf) ?es []
      = Some ([PJON_ACK, PJON_ACK, PJON_ACK, PJON_ACK, PJON_FAIL], [(sample_info, [64]), (sample_info, [65])])"
    by (simp add: sample_message sample_lf_def)
  moreover have "\<forall>x. Some x \<in> set ?es \<longrightarrow> sendable default_build (sample_file_device 45) x \<and>
      (for_bus default_build (sample_file_device 45) (sample_file_device 12) x \<or>
       for_another default_build (sample_file_device 45) (sample_file_device 12) x)"
    by (auto simp: sample_message)
  ultimately have "\<exists>A' B'. message_run (lf_strategy sample_lf default_build sample_disk) lf_share default_build ?es
      (sample_file_device 45) (sample_file_device 12) = Some ([PJON_ACK, PJON_ACK, PJON_ACK, PJON_ACK, PJON_FAIL], A', B') \<and>
      pj_events B' = pj_events (sample_file_device 12) @ map (message_event default_build (sample_file_device 45) (sample_file_device 12))
        [(sample_info, [64]), (sample_info, [65])]"
    by (intro lf_messages [OF sample_disk_facts sample_file_device_facts(1,1,2,2,3) b])
  then show ?thesis by (auto simp: sample_file_device_facts message_event_def simp del: message_run.simps)
qed

end
