(* ===== verification/Ledar.thy ===== *)
theory Ledar
  imports Send
begin

text \<open>
  \<^verbatim>\<open>src/devices/sensors/LEDAR/software\<close>: a device of the repository, a reflectometer that is configured and read over
  its bus and keeps its settings in EEPROM; \<open>Ledar_Console\<close> is the console its user types commands into.

  The sketches name members of an older version of the library: the id of the sender, \<^verbatim>\<open>sender_id\<close>, is \<^verbatim>\<open>tx.id\<close> here.
\<close>

subsection \<open>The sensor\<close>

definition LEDAR_VERSION :: u8 where "LEDAR_VERSION = 1"
definition LEDAR_MODE :: u8 where "LEDAR_MODE = 1"
definition LEDAR_INTERVAL :: u16 where "LEDAR_INTERVAL = 100"
definition LEDAR_READINGS :: u16 where "LEDAR_READINGS = 2000"
definition LEDAR_THRESHOLD :: u16 where "LEDAR_THRESHOLD = 2000"
definition LEDAR_ACCEPT_CONFIG :: bool where "LEDAR_ACCEPT_CONFIG = True"

definition ledar_build :: build where
  "ledar_build = default_build\<lparr> packet_max_length := 20, max_packets := 2 \<rparr>"

text \<open>\<open>lb_emitter\<close> writes the pin of the emitter; the receiver is read with the converter of the platform.\<close>

record 's ledar_board =
  lb_emitter :: "bool \<Rightarrow> 's \<Rightarrow> 's"
  lb_receiver_pin :: u8

record 's ledar =
  lr_mode :: bool
  lr_accept :: bool
  lr_interval :: u16
  lr_readings :: u16
  lr_recipient :: u8
  lr_threshold :: u16
  lr_reading :: u32
  lr_packet :: "u8 list"
  lr_eeprom :: "nat \<Rightarrow> u8"
  lr_bus :: "'s pjon"

definition eeprom_update :: "nat \<Rightarrow> u8 \<Rightarrow> 's ledar \<Rightarrow> 's ledar" where
  "eeprom_update a x l = l\<lparr> lr_eeprom := (lr_eeprom l)(a := x) \<rparr>"

text \<open>\<^verbatim>\<open>EEPROM.put\<close> of a \<^verbatim>\<open>uint16_t\<close> stores it as it is in memory: the microcontroller is little endian.\<close>

definition eeprom_put16 :: "nat \<Rightarrow> u16 \<Rightarrow> 's ledar \<Rightarrow> 's ledar" where
  "eeprom_put16 a x l = eeprom_update (a + 1) (hi8 x) (eeprom_update a (lo8 x) l)"

definition EEPROM_read_configuration :: "'s ledar \<Rightarrow> 's ledar" where
  "EEPROM_read_configuration l =
     (let e = lr_eeprom l in
      l\<lparr> lr_mode := e 0 \<noteq> 0, lr_bus := (set_id (e 1) (lr_bus l))\<lparr> pj_config := e 9 \<rparr>, lr_recipient := e 2,
         lr_readings := join16 (e 3) (e 4), lr_interval := join16 (e 5) (e 6), lr_threshold := join16 (e 7) (e 8),
         lr_accept := e 10 \<noteq> 0 \<rparr>)"

definition EEPROM_write_default_configuration :: "'s ledar \<Rightarrow> 's ledar" where
  "EEPROM_write_default_configuration l =
     foldl (\<lambda>l (a, x). eeprom_update a x l) l
       [(0, LEDAR_MODE), (1, PJON_NOT_ASSIGNED), (2, PJON_MASTER_ID),
        (3, hi8 LEDAR_READINGS), (4, lo8 LEDAR_READINGS), (5, hi8 LEDAR_INTERVAL), (6, lo8 LEDAR_INTERVAL),
        (7, hi8 LEDAR_THRESHOLD), (8, lo8 LEDAR_THRESHOLD), (9, PJON_TX_INFO_BIT OR PJON_ACK_REQ_BIT),
        (10, of_bool LEDAR_ACCEPT_CONFIG), (11, 76), (12, 69), (13, 68), (14, 65), (15, 82), (16, LEDAR_VERSION)]"

definition footprint :: "'s ledar \<Rightarrow> bool" where
  "footprint l \<longleftrightarrow> map (lr_eeprom l) [11, 12, 13, 14, 15, 16] = [76, 69, 68, 65, 82, LEDAR_VERSION]"

text \<open>A reading: what the receiver sees with the emitter on, less what it sees without, limited to 16 bits.\<close>

fun add_readings :: "'s strategy \<Rightarrow> u8 \<Rightarrow> nat \<Rightarrow> u32 \<Rightarrow> 's \<Rightarrow> u32 \<times> 's" where
  "add_readings st pin 0 x s = (x, s)"
| "add_readings st pin (Suc k) x s = (let (r, s) = pf_analog_read st pin s in add_readings st pin k (x + ucast r) s)"

definition get_reflex :: "'s strategy \<Rightarrow> 's ledar_board \<Rightarrow> u16 \<Rightarrow> 's ledar \<Rightarrow> 's ledar" where
  "get_reflex st lb iterations l =
     (let (ambient, bus) = with_strategy (add_readings st (lb_receiver_pin lb) (unat iterations) 0) (lr_bus l);
          bus = on_strategy (lb_emitter lb True) bus;
          (reflex, bus) = with_strategy (add_readings st (lb_receiver_pin lb) (unat iterations) 0) bus;
          bus = on_strategy (lb_emitter lb False) bus;
          reflex = (if ambient > reflex then 0 else reflex - ambient);
          reflex = (if reflex > 65535 then 65535 else reflex)
      in l\<lparr> lr_bus := bus, lr_packet := (lr_packet l)[0 := hi8 (ucast reflex), 1 := lo8 (ucast reflex)], lr_reading := reflex \<rparr>)"

text \<open>\<^verbatim>\<open>bus.send_packet(recipient_id, packet, 2)\<close>.\<close>

definition send_reading :: "'s strategy \<Rightarrow> build \<Rightarrow> 's ledar \<Rightarrow> 's ledar option" where
  "send_reading st b l =
     do { (_, bus) \<leftarrow> send_packet_id st b (lr_recipient l) (lr_packet l) 2 PJON_NO_HEADER 0 (ucast PJON_BROADCAST) (lr_bus l);
          Some (l\<lparr> lr_bus := bus \<rparr>) }"

text \<open>
  The receiver function. \<^verbatim>\<open>payload\<close> points into the buffer of the bus, at \<open>p\<close>; the conditionals look at it one after the
  other, after what the ones before have done.
\<close>

definition payload :: "nat \<Rightarrow> nat \<Rightarrow> 's ledar \<Rightarrow> u8 option" where
  "payload p k l = rd (pj_data (lr_bus l)) (p + k)"

definition payload16 :: "nat \<Rightarrow> 's ledar \<Rightarrow> u16 option" where
  "payload16 p l = do { hi \<leftarrow> payload p 1 l; lo \<leftarrow> payload p 2 l; Some (join16 hi lo) }"

definition ledar_commands ::
  "'s strategy \<Rightarrow> build \<Rightarrow> 's ledar_board \<Rightarrow> nat \<Rightarrow> (u8 \<times> ('s ledar \<Rightarrow> 's ledar option)) list" where
  "ledar_commands st b lb p =
     [(67, \<lambda>l. do { x \<leftarrow> payload p 1 l; Some (eeprom_update 9 x (l\<lparr> lr_bus := (lr_bus l)\<lparr> pj_config := x \<rparr> \<rparr>)) }),
      (68, \<lambda>l. do { x \<leftarrow> payload16 p l; Some (eeprom_put16 7 x (l\<lparr> lr_threshold := x \<rparr>)) }),
      (69, \<lambda>l. send_reading st b (get_reflex st lb (lr_readings l) l)),
      (73, \<lambda>l. do { x \<leftarrow> payload p 1 l; Some (eeprom_update 1 x (l\<lparr> lr_bus := set_id x (lr_bus l) \<rparr>)) }),
      (76, \<lambda>l. do { x \<leftarrow> payload16 p l; Some (eeprom_update 4 (lo8 x) (eeprom_update 3 (hi8 x) (l\<lparr> lr_readings := x \<rparr>))) }),
      (77, \<lambda>l. do { x \<leftarrow> payload p 1 l; Some (eeprom_update 0 (of_bool (x \<noteq> 0)) (l\<lparr> lr_mode := x \<noteq> 0 \<rparr>)) }),
      (81, \<lambda>l. do { x \<leftarrow> payload p 1 l; Some ((eeprom_update 10 x l)\<lparr> lr_accept := x \<noteq> 0 \<rparr>) }),
      (82, \<lambda>l. do { x \<leftarrow> payload p 1 l; Some (eeprom_update 2 x (l\<lparr> lr_recipient := x \<rparr>)) }),
      (84, \<lambda>l. do { x \<leftarrow> payload16 p l; Some (eeprom_update 6 (lo8 x) (eeprom_update 5 (hi8 x) (l\<lparr> lr_interval := x \<rparr>))) }),
      (88, \<lambda>l. Some (EEPROM_read_configuration (EEPROM_write_default_configuration l)))]"

fun run_commands :: "nat \<Rightarrow> (u8 \<times> ('s ledar \<Rightarrow> 's ledar option)) list \<Rightarrow> 's ledar \<Rightarrow> 's ledar option" where
  "run_commands p [] l = Some l"
| "run_commands p ((c, f) # cs) l =
     do { x \<leftarrow> payload p 0 l; l \<leftarrow> (if x = c then f l else Some l); run_commands p cs l }"

definition ledar_receiver ::
  "'s strategy \<Rightarrow> build \<Rightarrow> 's ledar_board \<Rightarrow> nat \<Rightarrow> packet_info \<Rightarrow> 's ledar \<Rightarrow> 's ledar option" where
  "ledar_receiver st b lb p info l =
     (if lr_accept l \<and> (ep_id (pi_tx info) = lr_recipient l \<or> ep_id (pi_tx info) = PJON_MASTER_ID)
      then run_commands p (ledar_commands st b lb p) l else Some l)"

text \<open>
  \<^verbatim>\<open>bus.receive\<close> calls the receiver function last, for a packet that is new and for this device. \<^verbatim>\<open>bus.receive(duration)\<close>
  goes on until a packet is acknowledged or the time is over, at most \<open>fuel\<close> times.
\<close>

definition ledar_receive :: "'s strategy \<Rightarrow> build \<Rightarrow> 's ledar_board \<Rightarrow> 's ledar \<Rightarrow> (u16 \<times> 's ledar) option" where
  "ledar_receive st b lb l =
     do { (response, bus) \<leftarrow> receive st b (lr_bus l);
          let info = pj_last_packet_info bus;
          let l' = l\<lparr> lr_bus := bus \<rparr>;
          l' \<leftarrow> (if length (pj_events bus) > length (pj_events (lr_bus l))
                then ledar_receiver st b lb (unat (packet_overhead (pi_header info)) - unat (crc_overhead (pi_header info))) info l'
                else Some l');
          Some (response, l') }"

fun ledar_listen :: "'s strategy \<Rightarrow> build \<Rightarrow> 's ledar_board \<Rightarrow> nat \<Rightarrow> u32 \<Rightarrow> u32 \<Rightarrow> 's ledar \<Rightarrow> 's ledar option" where
  "ledar_listen st b lb 0 start duration l = None"
| "ledar_listen st b lb (Suc fuel) start duration l =
     do { (response, l) \<leftarrow> ledar_receive st b lb l;
          if response = PJON_ACK then Some l
          else let (now, bus) = with_strategy (pf_micros st) (lr_bus l); l = l\<lparr> lr_bus := bus \<rparr>
               in if now - start \<le> duration then ledar_listen st b lb fuel start duration l else Some l }"

definition ledar_listen_for :: "'s strategy \<Rightarrow> build \<Rightarrow> 's ledar_board \<Rightarrow> nat \<Rightarrow> u32 \<Rightarrow> 's ledar \<Rightarrow> 's ledar option" where
  "ledar_listen_for st b lb fuel duration l =
     (let (start, bus) = with_strategy (pf_micros st) (lr_bus l)
      in ledar_listen st b lb fuel start duration (l\<lparr> lr_bus := bus \<rparr>))"

definition ledar_setup :: "'s strategy \<Rightarrow> build \<Rightarrow> 's ledar_board \<Rightarrow> nat \<Rightarrow> 's ledar \<Rightarrow> 's ledar option" where
  "ledar_setup st b lb fuel l =
     (let l = (if footprint l then l else EEPROM_write_default_configuration l);
          l = EEPROM_read_configuration l;
          l = l\<lparr> lr_bus := on_strategy (lb_emitter lb False) (lr_bus l) \<rparr>
      in ledar_listen_for st b lb fuel 2000000 (l\<lparr> lr_bus := begin_bus st b (lr_bus l) \<rparr>))"

definition ledar_loop :: "'s strategy \<Rightarrow> build \<Rightarrow> 's ledar_board \<Rightarrow> nat \<Rightarrow> 's ledar \<Rightarrow> 's ledar option" where
  "ledar_loop st b lb fuel l =
     do { let l = get_reflex st lb (lr_readings l) l;
          l \<leftarrow> (if lr_mode l \<or> (\<not> lr_mode l \<and> lr_reading l > ucast (lr_threshold l)) then send_reading st b l else Some l);
          ledar_listen_for st b lb fuel (ucast (lr_interval l) * 1000) l }"

subsection \<open>What the commands do\<close>

text \<open>The settings in force are those in EEPROM: a restart does not change them.\<close>

definition saved :: "'s ledar \<Rightarrow> bool" where
  "saved l \<longleftrightarrow> EEPROM_read_configuration l = l"

definition settings :: "'s ledar \<Rightarrow> bool \<times> u8 \<times> u8 \<times> u8 \<times> u16 \<times> u16 \<times> u16 \<times> bool" where
  "settings l = (lr_mode l, ep_id (pj_tx (lr_bus l)), pj_config (lr_bus l), lr_recipient l, lr_readings l, lr_interval l,
     lr_threshold l, lr_accept l)"

definition settings_in :: "(nat \<Rightarrow> u8) \<Rightarrow> bool \<times> u8 \<times> u8 \<times> u8 \<times> u16 \<times> u16 \<times> u16 \<times> bool" where
  "settings_in e = (e 0 \<noteq> 0, e 1, e 9, e 2, join16 (e 3) (e 4), join16 (e 5) (e 6), join16 (e 7) (e 8), e 10 \<noteq> 0)"

lemma settings_read: "settings (EEPROM_read_configuration l) = settings_in (lr_eeprom l)"
  by (simp add: settings_def settings_in_def EEPROM_read_configuration_def set_id_def Let_def)

lemma saved_iff: "saved l \<longleftrightarrow> settings l = settings_in (lr_eeprom l)"
proof
  assume "saved l"
  then show "settings l = settings_in (lr_eeprom l)" using settings_read [of l] by (simp add: saved_def)
next
  assume "settings l = settings_in (lr_eeprom l)"
  then have e: "(lr_eeprom l 0 \<noteq> 0) = lr_mode l" "lr_eeprom l 1 = ep_id (pj_tx (lr_bus l))" "lr_eeprom l 9 = pj_config (lr_bus l)"
    "lr_eeprom l 2 = lr_recipient l" "join16 (lr_eeprom l 3) (lr_eeprom l 4) = lr_readings l"
    "join16 (lr_eeprom l 5) (lr_eeprom l 6) = lr_interval l" "join16 (lr_eeprom l 7) (lr_eeprom l 8) = lr_threshold l"
    "(lr_eeprom l 10 \<noteq> 0) = lr_accept l"
    by (auto simp: settings_def settings_in_def)
  show "saved l" unfolding saved_def EEPROM_read_configuration_def Let_def e by (simp add: set_id_def)
qed

text \<open>A command other than a reading leaves the packet where it is, so no other conditional sees its letter.\<close>

lemma run_commands_one:
  assumes "payload p 0 l = Some x" and "\<And>f l'. (x, f) \<in> set cs \<Longrightarrow> f l = Some l' \<Longrightarrow> pj_data (lr_bus l') = pj_data (lr_bus l)"
    and "distinct (map fst cs)"
  shows "run_commands p cs l = (case map_of cs x of None \<Rightarrow> Some l | Some f \<Rightarrow> f l)"
proof -
  have other: "x \<notin> fst ` set cs \<Longrightarrow> payload p 0 l = Some x \<Longrightarrow> run_commands p cs l = Some l" for cs l
    by (induction cs) (auto split: if_splits)
  show ?thesis using assms
  proof (induction cs)
    case (Cons cf cs)
    obtain c f where cf: "cf = (c, f)" by (cases cf)
    show ?case
    proof (cases "x = c")
      case True
      show ?thesis
      proof (cases "f l")
        case (Some l')
        then have "payload p 0 l' = Some x" using Cons.prems(1) Cons.prems(2) [of f l'] True cf by (simp add: payload_def)
        then show ?thesis using Cons.prems(1,3) True cf Some other [of cs l'] by simp
      qed (use Cons.prems(1) True cf in simp)
    next
      case False
      then show ?thesis using Cons.IH Cons.prems cf by auto
    qed
  qed simp
qed

lemma ledar_commands_data:
  "(x, f) \<in> set (ledar_commands st b lb p) \<Longrightarrow> x \<noteq> 69 \<Longrightarrow> f l = Some l' \<Longrightarrow> pj_data (lr_bus l') = pj_data (lr_bus l)"
  by (auto simp: ledar_commands_def eeprom_update_def eeprom_put16_def set_id_def EEPROM_read_configuration_def
      EEPROM_write_default_configuration_def Let_def elim!: bind_SomeE)

lemma ledar_receiver_one:
  assumes "lr_accept l" and "ep_id (pi_tx info) = lr_recipient l \<or> ep_id (pi_tx info) = PJON_MASTER_ID"
    and "payload p 0 l = Some x" and "x \<noteq> 69"
  shows "ledar_receiver st b lb p info l = (case map_of (ledar_commands st b lb p) x of None \<Rightarrow> Some l | Some f \<Rightarrow> f l)"
proof -
  have "run_commands p (ledar_commands st b lb p) l = (case map_of (ledar_commands st b lb p) x of None \<Rightarrow> Some l | Some f \<Rightarrow> f l)"
  proof (rule run_commands_one [OF assms(3)])
    show "pj_data (lr_bus l') = pj_data (lr_bus l)" if "(x, f) \<in> set (ledar_commands st b lb p)" and "f l = Some l'" for f l'
      using that(1) assms(4) that(2) by (rule ledar_commands_data)
  qed (simp add: ledar_commands_def)
  then show ?thesis using assms(1,2) by (simp add: ledar_receiver_def)
qed

lemma defaults_saved: "saved (EEPROM_read_configuration l)"
  unfolding saved_iff settings_read by (simp add: EEPROM_read_configuration_def Let_def)

text \<open>What a command does to the EEPROM and the settings, seen as a whole.\<close>

lemma ledar_command_effect:
  assumes "map_of (ledar_commands st b lb p) x = Some f" and "x \<noteq> 69" and "f l = Some l'" and "saved l"
  shows "(footprint l \<longrightarrow> footprint l') \<and> (if x = 68 then lr_threshold (EEPROM_read_configuration l')
      = join16 (lo8 (lr_threshold l')) (hi8 (lr_threshold l')) else saved l')"
proof (cases "x = 88")
  case True
  then have "l' = EEPROM_read_configuration (EEPROM_write_default_configuration l)"
    using assms(1,3) by (auto simp: ledar_commands_def)
  moreover have "footprint (EEPROM_read_configuration (EEPROM_write_default_configuration l))"
    by (simp add: footprint_def EEPROM_read_configuration_def EEPROM_write_default_configuration_def eeprom_update_def Let_def)
  ultimately show ?thesis using True by (simp add: defaults_saved)
next
  case False
  have s: "settings l = settings_in (lr_eeprom l)" using assms(4) by (simp add: saved_iff)
  have "(x, f) \<in> set (ledar_commands st b lb p)" using assms(1) by (rule map_of_SomeD)
  then show ?thesis
    using assms(2,3) False s unfolding ledar_commands_def list.set insert_iff empty_iff prod.inject saved_iff
    by (elim disjE conjE FalseE; clarsimp simp: eeprom_update_def eeprom_put16_def set_id_def settings_def settings_in_def
        EEPROM_read_configuration_def Let_def footprint_def elim!: bind_SomeE)
qed

text \<open>A sensor as it leaves the factory, with a request of the master in the buffer of its bus.\<close>

definition sample_ledar :: "u8 list \<Rightarrow> nat ledar" where
  "sample_ledar d = EEPROM_read_configuration (EEPROM_write_default_configuration
     \<lparr> lr_mode = False, lr_accept = False, lr_interval = 0, lr_readings = 0, lr_recipient = 0, lr_threshold = 0, lr_reading = 0,
        lr_packet = [0, 0, 0, 0], lr_eeprom = (\<lambda>_. 255),
        lr_bus = (sample_device PJON_NOT_ASSIGNED 0)\<lparr> pj_packets := replicate 2 (new_packet (replicate 20 0)),
          pj_data := replicate 5 0 @ d @ replicate (15 - length d) 0 \<rparr> \<rparr>)"

definition sample_board :: "nat ledar_board" where
  "sample_board = \<lparr> lb_emitter = (\<lambda>on t. if on then 18700 else 0), lb_receiver_pin = 15 \<rparr>"

definition sample_master :: packet_info where
  "sample_master = new_packet_info\<lparr> pi_tx := new_endpoint\<lparr> ep_id := PJON_MASTER_ID \<rparr> \<rparr>"

lemma sample_ledar_simps:
  "lr_accept (sample_ledar d)" "lr_recipient (sample_ledar d) = PJON_MASTER_ID" "lr_packet (sample_ledar d) = [0, 0, 0, 0]"
  "pj_config (lr_bus (sample_ledar d)) = 0x06" "footprint (sample_ledar d)" "saved (sample_ledar d)"
  "pj_data (lr_bus (sample_ledar d)) = replicate 5 0 @ d @ replicate (15 - length d) 0" "pj_strategy (lr_bus (sample_ledar d)) = 0"
  by (simp_all add: sample_ledar_def defaults_saved)
     (simp_all add: EEPROM_read_configuration_def EEPROM_write_default_configuration_def eeprom_update_def set_id_def Let_def
       const_defs LEDAR_ACCEPT_CONFIG_def footprint_def)

text \<open>The settings of the sensor survive a restart: whatever command an authorised device sends, other than a reading, the
  EEPROM holds the settings in force and keeps its footprint. The threshold is the exception: its bytes are stored in the
  order of the memory and read in the other, so after a restart the threshold has its bytes swapped.\<close>

theorem ledar_saves:
  assumes "saved l" and "payload p 0 l = Some x" and "x \<noteq> 69" and "ledar_receiver st b lb p info l = Some l'"
  shows "(footprint l \<longrightarrow> footprint l') \<and>
     (if x = 68 \<and> lr_accept l \<and> (ep_id (pi_tx info) = lr_recipient l \<or> ep_id (pi_tx info) = PJON_MASTER_ID)
      then lr_threshold (EEPROM_read_configuration l') = join16 (lo8 (lr_threshold l')) (hi8 (lr_threshold l'))
      else saved l')"
proof (cases "lr_accept l \<and> (ep_id (pi_tx info) = lr_recipient l \<or> ep_id (pi_tx info) = PJON_MASTER_ID)")
  case True
  then have run: "(case map_of (ledar_commands st b lb p) x of None \<Rightarrow> Some l | Some f \<Rightarrow> f l) = Some l'"
    using ledar_receiver_one [OF _ _ assms(2,3), of info st b lb] assms(4) by simp
  show ?thesis
  proof (cases "map_of (ledar_commands st b lb p) x")
    case None
    then have "x \<noteq> 68" by (auto simp: ledar_commands_def)
    then show ?thesis using None run assms(1) by simp
  next
    case (Some f)
    then show ?thesis using ledar_command_effect [OF Some assms(3) _ assms(1), of l'] run True by simp
  qed
next
  case False
  then show ?thesis using assms(1,4) by (auto simp: ledar_receiver_def)
qed

theorem ledar_saves_witness:
  "\<forall>l'. ledar_receiver idle_strategy ledar_build sample_board 5 sample_master (sample_ledar [73, 44]) = Some l' \<longrightarrow>
     footprint l' \<and> saved l'"
proof -
  have "payload 5 0 (sample_ledar [73, 44]) = Some 73" by (simp add: payload_def sample_ledar_simps mem_defs nth_append)
  from ledar_saves [OF sample_ledar_simps(6) this] show ?thesis by (auto simp: sample_ledar_simps(5))
qed

subsection \<open>Commands that are none\<close>

lemma get_reflex_bus:
  "\<exists>s. lr_bus (get_reflex st lb n l) = (lr_bus l)\<lparr> pj_strategy := s \<rparr>"
  "lr_eeprom (get_reflex st lb n l) = lr_eeprom l" "lr_recipient (get_reflex st lb n l) = lr_recipient l"
  "length (lr_packet (get_reflex st lb n l)) = length (lr_packet l)"
  by (auto simp: get_reflex_def with_strategy_def on_strategy_def case_prod_unfold Let_def)

text \<open>What is sent is in the buffer of the bus afterwards: the two bytes of the reading lie where the command was.\<close>

lemma send_reading_data:
  assumes "wf_bus ledar_build (lr_bus l)" and "pj_config (lr_bus l) = 0x06" and "lr_recipient l \<noteq> PJON_BROADCAST"
    and "length (lr_packet l) = 4"
  shows "\<exists>bus. send_reading st ledar_build l = Some (l\<lparr> lr_bus := bus \<rparr>) \<and> pj_tx bus = pj_tx (lr_bus l) \<and>
     length (pj_data bus) = 20 \<and> pj_data bus ! 5 = lr_packet l ! 0 \<and> pj_data bus ! 6 = lr_packet l ! 1"
proof -
  let ?bus = "lr_bus l" and ?b = ledar_build
  let ?f = "fill_info ?b ?bus (lr_recipient l) PJON_NO_HEADER 0 (ucast PJON_BROADCAST)"
  define i where "i = fst (outgoing_info ?b ?f ?bus)"
  have b: "\<not> include_packet_id ?b" "\<not> include_port ?b" "\<not> include_mac ?b" "packet_max_length ?b = 20"
    by (simp_all add: ledar_build_def default_build_def)
  have len: "length (pj_data ?bus) = 20" using assms(1) b by (simp add: wf_bus_def)
  have o: "outgoing_info ?b ?f ?bus = (i, ?bus)" using b
    by (simp add: i_def outgoing_info_def Let_def)
  have i: "pi_header i = 0x06" "pi_tx i = pj_tx ?bus" "ep_id (pi_rx i) = lr_recipient l"
    using b assms(2) by (simp_all add: i_def outgoing_info_def fill_info_def Let_def PJON_NO_HEADER_def)
  have w: "wf_info i"
    using assms(1) b by (auto simp: i_def outgoing_info_def fill_info_def Let_def wf_info_def wf_bus_def wf_endpoint_def
        new_packet_info_def new_endpoint_def copy_id_def)
  have f: "final_info ?b i 2 = i"
    using i assms(3) b by (simp add: final_info_def compose_sizing_def compose_normalise_def flag_def packet_overhead_def const_defs)
  then have fl: "final_length ?b i 2 = 8" by (simp add: final_length_def i overhead_nat_def)
  have fit: "fits ?b i 2" using b by (simp add: fits_def fl f i header_supported_def flag_simps)
  let ?p = "packet_image i (take 2 (lr_packet l))"
  have c: "compose_packet ?b ?f (pj_data ?bus) (lr_packet l) 2 ?bus = Some (?p @ drop 8 (pj_data ?bus), 8, ?bus)"
    using compose_packet_fits [OF o w fit, of "lr_packet l" "pj_data ?bus"] len b assms(4) by (simp add: f fl)
  have lp: "length ?p = 8" using length_packet_image [OF w, of "take 2 (lr_packet l)"] assms(4) by (simp add: i overhead_nat_def)
  have p1: "?p ! 1 = 6" using image_positions(2) [OF refl, of i] i by simp
  have "take (8 - 6) (drop (6 - 1) ?p) = take 2 (lr_packet l)"
    using image_payload [OF w, of "take 2 (lr_packet l)"] lp p1
    by (simp add: payload_of_def overhead_nat_def crc_overhead_def flag_simps)
  then have tk: "take (8 - 6) (drop (6 - 1) ?p) ! k = take 2 (lr_packet l) ! k" for k by (simp only:)
  have "?p ! 5 = lr_packet l ! 0" "?p ! 6 = lr_packet l ! 1"
    using tk [of 0] tk [of 1] lp assms(4) by simp_all
  then have d: "(?p @ drop 8 (pj_data ?bus)) ! 5 = lr_packet l ! 0" "(?p @ drop 8 (pj_data ?bus)) ! 6 = lr_packet l ! 1"
    using lp by (simp_all add: nth_append)
  let ?d = "?p @ drop 8 (pj_data ?bus)"
  obtain r s where r: "send_packet st (Some ?d) 8 (?bus\<lparr> pj_data := ?d \<rparr>) = Some (r, ?bus\<lparr> pj_data := ?d, pj_strategy := s \<rparr>)"
    using lp by (auto intro: send_packet_result [where len = 8 and p = ?d and st = st and bus = "?bus\<lparr> pj_data := ?d \<rparr>"])
  have "send_reading st ?b l = Some (l\<lparr> lr_bus := ?bus\<lparr> pj_data := ?d, pj_strategy := s \<rparr> \<rparr>)"
    using r by (simp add: send_reading_def send_packet_id_def send_packet_info_def c)
  moreover have "length ?d = 20" using lp len by simp
  ultimately show ?thesis using d by (intro exI [of _ "?bus\<lparr> pj_data := ?d, pj_strategy := s \<rparr>"]) simp
qed

text \<open>C40. A reading can be taken for a command. The request \<open>E\<close> is answered before the other letters are looked for, and the answer
  is composed in the buffer the request is in: the reading lies where the letter was. A reading whose upper byte is the
  letter \<open>I\<close>, 18688 to 18943, gives the sensor its lower byte for an id, in EEPROM too; one whose upper byte is
  no letter that is looked for later leaves the settings alone.\<close>

theorem ledar_reading_is_command:
  assumes "wf_bus ledar_build (lr_bus l)" and "pj_config (lr_bus l) = 0x06" and "lr_recipient l \<noteq> PJON_BROADCAST"
    and "length (lr_packet l) = 4" and "pj_data (lr_bus l) ! 5 = 69"
    and "lr_accept l" and "ep_id (pi_tx info) = lr_recipient l"
  shows "\<exists>l'. ledar_receiver st ledar_build lb 5 info l = Some l' \<and>
     (let reading = lr_packet (get_reflex st lb (lr_readings l) l) in
        (reading ! 0 = 73 \<longrightarrow> ep_id (pj_tx (lr_bus l')) = reading ! 1 \<and> lr_eeprom l' = (lr_eeprom l)(1 := reading ! 1)) \<and>
        (reading ! 0 \<notin> {73, 76, 77, 81, 82, 84, 88} \<longrightarrow> lr_eeprom l' = lr_eeprom l \<and> pj_tx (lr_bus l') = pj_tx (lr_bus l)))"
proof -
  let ?r = "get_reflex st lb (lr_readings l) l" and ?cs = "drop 3 (ledar_commands st ledar_build lb 5)"
  obtain s where s: "lr_bus ?r = (lr_bus l)\<lparr> pj_strategy := s \<rparr>"
    using get_reflex_bus(1) [of st lb "lr_readings l" l] by (elim exE)
  have "wf_bus ledar_build (lr_bus ?r)" using assms(1) by (simp add: s wf_bus_def)
  then obtain bus where bus: "send_reading st ledar_build ?r = Some (?r\<lparr> lr_bus := bus \<rparr>)" "pj_tx bus = pj_tx (lr_bus ?r)"
    "length (pj_data bus) = 20" "pj_data bus ! 5 = lr_packet ?r ! 0" "pj_data bus ! 6 = lr_packet ?r ! 1"
    using send_reading_data [of ?r st] assms(2-4) by (auto simp: get_reflex_bus s)
  let ?l = "?r\<lparr> lr_bus := bus \<rparr>"
  have p: "payload 5 0 ?l = Some (lr_packet ?r ! 0)" "payload 5 1 ?l = Some (lr_packet ?r ! 1)"
    using bus by (simp_all add: payload_def mem_defs)
  have "length (pj_data (lr_bus l)) = 20" using assms(1) by (simp add: wf_bus_def ledar_build_def)
  then have p0: "payload 5 0 l = Some 69" using assms(5) by (simp add: payload_def mem_defs)
  have "ledar_receiver st ledar_build lb 5 info l = run_commands 5 ?cs ?l"
    using assms(6,7) p0 bus(1) by (simp add: ledar_receiver_def ledar_commands_def)
  also have "... = (case map_of ?cs (lr_packet ?r ! 0) of None \<Rightarrow> Some ?l | Some f \<Rightarrow> f ?l)"
  proof (rule run_commands_one [OF p(1)])
    show "pj_data (lr_bus l') = pj_data (lr_bus ?l)" if "(lr_packet ?r ! 0, f) \<in> set ?cs" and "f ?l = Some l'" for f l'
    proof -
      have "(lr_packet ?r ! 0, f) \<in> set (ledar_commands st ledar_build lb 5)" using that(1) by (rule in_set_dropD)
      moreover have "lr_packet ?r ! 0 \<noteq> 69" using that(1) by (auto simp: ledar_commands_def)
      ultimately show ?thesis using that(2) by (rule ledar_commands_data [where l = ?l])
    qed
  qed (simp add: ledar_commands_def)
  finally have run: "ledar_receiver st ledar_build lb 5 info l
      = (case map_of ?cs (lr_packet ?r ! 0) of None \<Rightarrow> Some ?l | Some f \<Rightarrow> f ?l)" .
  have cs: "?cs = [(73, \<lambda>l. do { x \<leftarrow> payload 5 1 l; Some (eeprom_update 1 x (l\<lparr> lr_bus := set_id x (lr_bus l) \<rparr>)) })] @ drop 4 (ledar_commands st ledar_build lb 5)"
    by (simp add: ledar_commands_def)
  have "payload 5 2 ?l \<noteq> None" using bus(3) by (simp add: payload_def mem_defs)
  then have commands: "f ?l \<noteq> None" if "(x, f) \<in> set ?cs" for x f
    using that p by (auto simp: ledar_commands_def payload16_def)
  show ?thesis unfolding Let_def
  proof (intro exI conjI impI)
    show "ledar_receiver st ledar_build lb 5 info l = Some (case map_of ?cs (lr_packet ?r ! 0) of None \<Rightarrow> ?l | Some f \<Rightarrow> the (f ?l))"
      unfolding run using commands by (auto split: option.splits dest!: map_of_SomeD)
  next
    assume "lr_packet ?r ! 0 = 73"
    then show "ep_id (pj_tx (lr_bus (case map_of ?cs (lr_packet ?r ! 0) of None \<Rightarrow> ?l | Some f \<Rightarrow> the (f ?l)))) = lr_packet ?r ! 1"
      "lr_eeprom (case map_of ?cs (lr_packet ?r ! 0) of None \<Rightarrow> ?l | Some f \<Rightarrow> the (f ?l)) = (lr_eeprom l)(1 := lr_packet ?r ! 1)"
      using p by (simp_all add: cs eeprom_update_def set_id_def get_reflex_bus)
  next
    assume "lr_packet ?r ! 0 \<notin> {73, 76, 77, 81, 82, 84, 88}"
    then have "map_of ?cs (lr_packet ?r ! 0) = None" by (simp add: ledar_commands_def)
    then show "lr_eeprom (case map_of ?cs (lr_packet ?r ! 0) of None \<Rightarrow> ?l | Some f \<Rightarrow> the (f ?l)) = lr_eeprom l"
      "pj_tx (lr_bus (case map_of ?cs (lr_packet ?r ! 0) of None \<Rightarrow> ?l | Some f \<Rightarrow> the (f ?l))) = pj_tx (lr_bus l)"
      using bus(2) s by (simp_all add: get_reflex_bus)
  qed
qed

text \<open>A converter that reads 18700 with the emitter on.\<close>

definition bright_strategy :: "nat strategy" where
  "bright_strategy = idle_strategy\<lparr> pf_analog_read := (\<lambda>p t. (of_nat t, t)) \<rparr>"

theorem ledar_reading_is_command_witness:
  "\<exists>l'. ledar_receiver bright_strategy ledar_build sample_board 5 sample_master ((sample_ledar [69])\<lparr> lr_readings := 1 \<rparr>) = Some l' \<and>
     ep_id (pj_tx (lr_bus l')) = 12 \<and> lr_eeprom l' 1 = 12"
proof -
  let ?l = "(sample_ledar [69])\<lparr> lr_readings := 1 \<rparr>"
  have w: "wf_bus ledar_build (lr_bus ?l)"
    using wf_sample_device [of PJON_NOT_ASSIGNED "0 :: nat"]
    by (simp add: wf_bus_def ledar_build_def default_build_def sample_ledar_def EEPROM_read_configuration_def
        EEPROM_write_default_configuration_def eeprom_update_def set_id_def Let_def new_packet_def)
  have "lr_packet (get_reflex bright_strategy sample_board 1 ?l) = [73, 12, 0, 0]"
    by (simp add: get_reflex_def hi8_def lo8_def sample_ledar_simps bright_strategy_def sample_board_def idle_strategy_def with_strategy_def on_strategy_def)
  then show ?thesis
    using ledar_reading_is_command [OF w, of sample_master bright_strategy sample_board]
    by (auto simp: sample_ledar_simps sample_master_def const_defs nth_append Let_def)
qed

subsection \<open>A request without a parameter\<close>

text \<open>After a CRC8 that covers all before it, the computation starts again.\<close>

lemma crc8_after_check: "crc8_compute (m @ crc8_compute m # t) = crc8_compute t"
proof -
  have "crc8_compute ((m @ [crc8_compute m]) @ t) = foldl (\<lambda>c x. crc8_roll x c) (crc8_compute (m @ [crc8_compute m])) t"
    unfolding crc8_compute_def by (simp only: foldl_append)
  then show ?thesis using crc8_append_check [of m "crc8_compute m"] by (simp add: crc8_compute_def)
qed

lemma master_request_image:
  assumes "wf_info i" and "pi_header i = 0x06" and "ep_id (pi_tx i) = PJON_MASTER_ID"
  shows "\<exists>m. length m = 3 \<and> packet_image i [x] = m @ [crc8_compute m, PJON_MASTER_ID, x, crc8_compute [PJON_MASTER_ID, x]]"
proof -
  define m where "m = [ep_id (pi_rx i), 0x06, 7]"
  have b: "body_bytes i [x] = m @ crc8_compute m # [PJON_MASTER_ID, x]"
    using assms(2,3) by (simp add: m_def body_bytes_def meta_bytes_def field_bytes_def flag_simps Let_def overhead_nat_def lo8_def)
  have "packet_image i [x] = m @ crc8_compute m # [PJON_MASTER_ID, x] @ [crc8_compute (m @ crc8_compute m # [PJON_MASTER_ID, x])]"
    using assms(2) by (simp add: packet_image_def check_bytes_def flag_simps b)
  then show ?thesis unfolding crc8_after_check by (intro exI [of _ m]) (simp add: m_def)
qed

text \<open>The console sends \<open>Q\<close> alone, as the table of commands says; the sensor takes the CRC8 behind it for its parameter. From
  the master that CRC8 is the same for every sensor, and it is not 0: the sensor goes on accepting what it is sent.\<close>

theorem ledar_never_blocks:
  assumes "take 7 (pj_data (lr_bus l)) = packet_image i [81]" and "wf_info i" and "pi_header i = 0x06"
    and "ep_id (pi_tx i) = PJON_MASTER_ID" and "lr_accept l" and "ledar_receiver st b lb 5 i l = Some l'"
  shows "lr_accept l'"
proof -
  obtain m where m: "length m = 3"
    "packet_image i [81] = m @ [crc8_compute m, PJON_MASTER_ID, 81, crc8_compute [PJON_MASTER_ID, 81]]"
    using master_request_image [OF assms(2-4), of 81] by blast
  have "pj_data (lr_bus l) ! k = packet_image i [81] ! k" if "k < 7" for k
    using arg_cong [OF assms(1), of "\<lambda>xs. xs ! k"] that by simp
  moreover have "7 \<le> length (pj_data (lr_bus l))" using arg_cong [OF assms(1), of length] m by simp
  ultimately have p: "payload 5 0 l = Some 81" "payload 5 1 l = Some (crc8_compute [PJON_MASTER_ID, 81])"
    using m by (simp_all add: payload_def mem_defs nth_append)
  have "crc8_compute [PJON_MASTER_ID, 81] \<noteq> 0" by code_simp
  then show ?thesis
    using assms(6) p(2) ledar_receiver_one [OF assms(5) _ p(1), of i st b lb] assms(4) by (auto simp: ledar_commands_def)
qed

end
