(* ===== verification/Ledar_Console.thy ===== *)
theory Ledar_Console
  imports Ledar
begin

text \<open>
  \<^verbatim>\<open>src/devices/sensors/LEDAR/software/Console/Console.ino\<close>: the console a user types the commands of the sensor into. What it
  prints is not modelled; \<^verbatim>\<open>String.toInt\<close> belongs to the Arduino core and is the parameter \<open>to_int\<close>.
\<close>

record 's console =
  cn_packet :: "u8 list"
  cn_number :: "u8 list"
  cn_index :: nat
  cn_id :: u8
  cn_serial :: "u8 list"
  cn_bus :: "'s pjon"

definition console_setup :: "'s strategy \<Rightarrow> build \<Rightarrow> 's console \<Rightarrow> 's console" where
  "console_setup st b c = c\<lparr> cn_bus := begin_bus st b (cn_bus c) \<rparr>"

text \<open>The parameter of a request, of one byte or two, is written behind its letter; how many bytes are then sent.\<close>

definition request_packet :: "u32 \<Rightarrow> u8 list \<Rightarrow> (nat \<times> u8 list) option" where
  "request_packet v packet =
     do { x \<leftarrow> rd packet 0;
          if x \<in> {67, 73, 77, 82} then do { packet \<leftarrow> wr 1 (ucast v) packet; Some (2, packet) }
          else if x \<in> {68, 76, 84} then do { packet \<leftarrow> wr 1 (ucast (drop_bit 8 v)) packet; packet \<leftarrow> wr 2 (ucast v) packet; Some (3, packet) }
          else if x \<in> {69, 81, 88} then Some (1, packet)
          else Some (0, packet) }"

text \<open>A request is sent to the sensor; the console remembers the id it gives it, and takes the id of the recipient it sets.\<close>

definition console_request :: "'s strategy \<Rightarrow> build \<Rightarrow> u32 \<Rightarrow> 's console \<Rightarrow> 's console option" where
  "console_request st b v c =
     do { (n, packet) \<leftarrow> request_packet v (cn_packet c);
          let c = c\<lparr> cn_packet := packet \<rparr>;
          if n = 0 then Some c
          else do { (_, bus) \<leftarrow> send st b (cn_id c) packet (of_nat n) PJON_NO_HEADER 0 (ucast PJON_BROADCAST) (cn_bus c);
                    let c = c\<lparr> cn_bus := bus \<rparr>;
                    x \<leftarrow> rd packet 0;
                    p \<leftarrow> rd packet 1;
                    if x = 73 then Some (c\<lparr> cn_id := p \<rparr>)
                    else if x = 82 then Some (c\<lparr> cn_bus := set_id p (cn_bus c) \<rparr>)
                    else Some c } }"

text \<open>A byte typed is stored, also the \<open>!\<close> that ends a line; after the first, the bytes of a line are a number.\<close>

definition console_byte :: "'s strategy \<Rightarrow> build \<Rightarrow> (u8 list \<Rightarrow> u32) \<Rightarrow> u8 \<Rightarrow> 's console \<Rightarrow> 's console option" where
  "console_byte st b to_int x c =
     do { packet \<leftarrow> wr (cn_index c) x (cn_packet c);
          let c = c\<lparr> cn_packet := packet \<rparr>;
          let c = (if cn_index c \<noteq> 0 \<and> x \<noteq> 33 then c\<lparr> cn_number := cn_number c @ [x] \<rparr> else c);
          if x = 33
          then do { c \<leftarrow> console_request st b (to_int (cn_number c)) c; Some (c\<lparr> cn_index := 0, cn_number := [] \<rparr>) }
          else Some (c\<lparr> cn_index := cn_index c + 1 \<rparr>) }"

definition console_loop :: "'s strategy \<Rightarrow> build \<Rightarrow> nat \<Rightarrow> (u8 list \<Rightarrow> u32) \<Rightarrow> 's console \<Rightarrow> 's console option" where
  "console_loop st b fuel to_int c =
     do { (_, bus) \<leftarrow> receive_for st b fuel 1000 (cn_bus c);
          (_, bus) \<leftarrow> update st b bus;
          let c = c\<lparr> cn_bus := bus \<rparr>;
          case cn_serial c of [] \<Rightarrow> Some c | x # rest \<Rightarrow> console_byte st b to_int x (c\<lparr> cn_serial := rest \<rparr>) }"

subsection \<open>Lines\<close>

text \<open>Bytes typed one after the other.\<close>

fun console_line :: "'s strategy \<Rightarrow> build \<Rightarrow> (u8 list \<Rightarrow> u32) \<Rightarrow> u8 list \<Rightarrow> 's console \<Rightarrow> 's console option" where
  "console_line st b to_int [] c = Some c"
| "console_line st b to_int (x # xs) c = do { c \<leftarrow> console_byte st b to_int x c; console_line st b to_int xs c }"

lemma console_line_append:
  "console_line st b to_int (xs @ ys) c = do { c \<leftarrow> console_line st b to_int xs c; console_line st b to_int ys c }"
  by (induction xs arbitrary: c) (auto split: Option.bind_splits)

lemma console_line_one: "console_line st b to_int [x] c = console_byte st b to_int x c"
  by (cases "console_byte st b to_int x c") simp_all

lemma console_digits:
  assumes "33 \<notin> set xs" and "0 < cn_index c"
  shows "console_line st b to_int xs c =
     (if cn_index c + length xs \<le> length (cn_packet c) \<or> xs = []
      then Some (c\<lparr> cn_packet := take (cn_index c) (cn_packet c) @ xs @ drop (cn_index c + length xs) (cn_packet c),
         cn_index := cn_index c + length xs, cn_number := cn_number c @ xs \<rparr>)
      else None)"
  using assms
proof (induction xs arbitrary: c)
  case (Cons x xs)
  show ?case
  proof (cases "cn_index c < length (cn_packet c)")
    case True
    let ?c = "c\<lparr> cn_packet := (cn_packet c)[cn_index c := x], cn_index := cn_index c + 1, cn_number := cn_number c @ [x] \<rparr>"
    have "console_byte st b to_int x c = Some ?c"
      using Cons.prems True by (simp add: console_byte_def mem_defs)
    moreover have "take (Suc (cn_index c)) ((cn_packet c)[cn_index c := x]) = take (cn_index c) (cn_packet c) @ [x]"
      using True by (simp add: take_Suc_conv_app_nth)
    ultimately show ?thesis using Cons.IH [of ?c] Cons.prems True by (auto simp: Suc_le_eq)
  next
    case False
    then show ?thesis by (simp add: console_byte_def mem_defs)
  qed
qed simp

text \<open>A line of at most 18 digits is a request; 21 bytes without \<open>!\<close> are written past the end of \<^verbatim>\<open>packet\<close>.\<close>

lemma console_line_start:
  assumes "cn_index c = 0" and "cn_number c = []" and "length (cn_packet c) = 20" and "x \<noteq> 33" and "33 \<notin> set xs"
  shows "console_line st b to_int (x # xs) c =
     (if length xs < 20
      then Some (c\<lparr> cn_packet := x # xs @ drop (1 + length xs) (cn_packet c), cn_index := 1 + length xs, cn_number := xs \<rparr>)
      else None)"
proof -
  have "(cn_packet c)[0 := x] = x # drop 1 (cn_packet c)" using assms(3) by (cases "cn_packet c") simp_all
  then have "console_byte st b to_int x c = Some (c\<lparr> cn_packet := x # drop 1 (cn_packet c), cn_index := 1 \<rparr>)"
    using assms(1,3,4) by (simp add: console_byte_def mem_defs)
  then show ?thesis using assms(2,3) console_digits [OF assms(5), of "c\<lparr> cn_packet := x # drop 1 (cn_packet c), cn_index := 1 \<rparr>" st b to_int]
    by (auto simp: not_less)
qed

theorem console_line_request:
  assumes "cn_index c = 0" and "cn_number c = []" and "length (cn_packet c) = 20" and "x \<noteq> 33" and "33 \<notin> set xs"
  shows "length xs \<le> 18 \<Longrightarrow> console_line st b to_int (x # xs @ [33]) c =
     do { c \<leftarrow> console_request st b (to_int xs) (c\<lparr> cn_index := 1 + length xs, cn_number := xs,
            cn_packet := x # xs @ 33 # drop (2 + length xs) (cn_packet c) \<rparr>);
          Some (c\<lparr> cn_index := 0, cn_number := [] \<rparr>) }"
    and "20 \<le> length xs \<Longrightarrow> console_line st b to_int (x # xs @ ys) c = None"
proof -
  note start = console_line_start [OF assms, of st b to_int]
  show "console_line st b to_int (x # xs @ ys) c = None" if "20 \<le> length xs"
    using console_line_append [of st b to_int "x # xs" ys c] start that by (simp del: console_line.simps(2))
  let ?p = "x # xs @ drop (1 + length xs) (cn_packet c)"
  assume len: "length xs \<le> 18"
  then have "?p[1 + length xs := 33] = x # xs @ 33 # drop (2 + length xs) (cn_packet c)"
    using assms(3) by (simp add: list_update_append Cons_nth_drop_Suc [symmetric])
  then show "console_line st b to_int (x # xs @ [33]) c =
     do { c \<leftarrow> console_request st b (to_int xs) (c\<lparr> cn_index := 1 + length xs, cn_number := xs,
            cn_packet := x # xs @ 33 # drop (2 + length xs) (cn_packet c) \<rparr>);
          Some (c\<lparr> cn_index := 0, cn_number := [] \<rparr>) }"
    using console_line_append [of st b to_int "x # xs" "[33]" c] start len assms(3)
    by (simp del: console_line.simps(2) add: console_line_one console_byte_def mem_defs)
qed

subsection \<open>The console and the sensor\<close>

text \<open>What the console sends for a letter and a number is what the sensor takes for that letter and that number.\<close>

theorem console_configures:
  assumes "length packet = 20" and "request_packet v packet = Some (n, packet')" and "\<And>k. k < n \<Longrightarrow> payload p k l = Some (packet' ! k)"
    and "packet ! 0 = x" and "x \<in> {67, 68, 73, 76, 77, 82, 84}"
    and "lr_accept l" and "ep_id (pi_tx info) = lr_recipient l \<or> ep_id (pi_tx info) = PJON_MASTER_ID"
  shows "\<exists>l'. ledar_receiver st b lb p info l = Some l' \<and>
     settings l' =
       (if x = 77 then ucast v \<noteq> (0 :: u8) else lr_mode l,
        if x = 73 then ucast v else ep_id (pj_tx (lr_bus l)),
        if x = 67 then ucast v else pj_config (lr_bus l),
        if x = 82 then ucast v else lr_recipient l,
        if x = 76 then ucast v else lr_readings l,
        if x = 84 then ucast v else lr_interval l,
        if x = 68 then ucast v else lr_threshold l,
        True)"
proof -
  have join: "join16 (ucast (drop_bit 8 v)) (ucast v) = (ucast v :: u16)"
    by (rule bit_word_eqI) (auto simp: join16_def bit_simps)
  have n: "0 < n" "packet' ! 0 = x" "x \<in> {67, 73, 77, 82} \<Longrightarrow> 1 < n \<and> packet' ! 1 = ucast v"
    "x \<in> {68, 76, 84} \<Longrightarrow> 2 < n \<and> packet' ! 1 = ucast (drop_bit 8 v) \<and> packet' ! 2 = ucast v"
    using assms(1,2,4,5) by (auto simp: request_packet_def mem_defs split: if_splits)
  have p0: "payload p 0 l = Some x" using assms(3) [OF n(1)] n(2) by simp
  have "x \<noteq> 69" using assms(5) by auto
  note run = ledar_receiver_one [OF assms(6,7) p0 this, of st b lb]
  show ?thesis
  proof (cases "x \<in> {67, 73, 77, 82}")
    case True
    then have "payload p 1 l = Some (ucast v)" using n(3) assms(3) [of 1] by simp
    then show ?thesis using True run assms(6)
      by (elim insertE emptyE) (simp_all add: ledar_commands_def settings_def eeprom_update_def set_id_def)
  next
    case False
    then have "payload16 p l = Some (ucast v)" "x = 68 \<or> x = 76 \<or> x = 84"
      using assms(5) n(4) assms(3) [of 1] assms(3) [of 2] by (auto simp: payload16_def join)
    then show ?thesis using run assms(6)
      by (elim disjE) (simp_all add: ledar_commands_def settings_def eeprom_update_def eeprom_put16_def)
  qed
qed

end
